(* ===== verification/Prelude.thy ===== *)
theory Prelude
  imports Complex_Main "HOL-Library.Word" "HOL-Library.AList" "HOL-Library.Multiset"
begin

text \<open>
  Shared ground of the development: the value types of the Python code (identifiers, points
  in time, JSON values, f-strings), its exceptions, its built-in operations on dictionaries,
  lists and floats, and the lemmas every component uses.

  Python values and their types here:
  \<^item> \<open>uuid.UUID\<close> is a 128-bit word; \<open>uuid.uuid5\<close>, a SHA-1 digest, is always an
    argument of the definitions that use it;
  \<^item> \<open>datetime\<close> is the number of microseconds since the epoch, the resolution Python
    stores, and \<open>timedelta\<close> a number of microseconds;
  \<^item> \<open>float\<close> is \<open>real\<close>: comparisons and decoded values are exact, the rounding of
    intermediate results of binary64 arithmetic is not modelled;
  \<^item> \<open>str\<close> is a list of characters, one per code point (the texts of the program are
    Latin-1);
  \<^item> \<open>dict\<close> is an association list in insertion order; a \<open>frozenset\<close> is a set;
  \<^item> an f-string is the list of its pieces before rendering, literal text and
    interpolated values with their format.
\<close>

section \<open>Value types\<close>

type_synonym uuid = "128 word"
type_synonym datetime = int
type_synonym timedelta = int

datatype json =
    JNull
  | JBool bool
  | JInt int
  | JFloat real
  | JStr string
  | JArr "json list"
  | JObj "(string \<times> json) list"

datatype piece =
    Lit string
  | PStr string
  | PInt int
  | PReal real
  | PFixed nat real
  | PSigned nat real
  | PGeneral real
  | PRepr string
  | PUuid uuid
  | PTime datetime
  | PJson json
  | PStrs "string list"

type_synonym fstring = "piece list"

text \<open>
  Rendering: literal text and strings are copied, every other value is shown by \<open>fmt\<close>, the
  number, identifier and time formats of the surroundings.
\<close>

definition render :: "(piece \<Rightarrow> string) \<Rightarrow> fstring \<Rightarrow> string" where
  "render fmt ps = concat (map (\<lambda>p. case p of Lit s \<Rightarrow> s | PStr s \<Rightarrow> s | _ \<Rightarrow> fmt p) ps)"

lemma render_simps [simp]:
  "render fmt [] = []" "render fmt (Lit s # ps) = s @ render fmt ps"
  "render fmt (PStr s # ps) = s @ render fmt ps"
  by (simp_all add: render_def)

section \<open>Exceptions\<close>

text \<open>
  The exceptions the modelled functions raise. \<open>ValueError\<close> carries the constant part of
  its message.
\<close>

datatype exn =
    ValueError string
  | TypeError string
  | KeyError string
  | AttributeError string
  | ZeroDivisionError
  | AssertionError string
  | InvalidRoleError string
  | TenantIsolationError
  | NonExecutingCapabilityError string
  | InvalidQualityClassError string
  | InvalidInputRangeError string
  | CircuitBreakerOpenError string
  | RateLimiterUnavailable
  | EvidenceScopeError uuid
  | CrossTenantConsolidationError uuid uuid uuid
  | PassedThrough string

type_synonym 'a result = "exn + 'a"

definition and_then :: "'a result \<Rightarrow> ('a \<Rightarrow> 'b result) \<Rightarrow> 'b result" where
  "and_then r f = (case r of Inl e \<Rightarrow> Inl e | Inr x \<Rightarrow> f x)"

lemma and_then_Inl [simp]: "and_then (Inl e) f = Inl e"
  by (simp add: and_then_def)

lemma and_then_Inr [simp]: "and_then (Inr x) f = f x"
  by (simp add: and_then_def)

lemma and_then_eq_Inr: "and_then r f = Inr y \<longleftrightarrow> (\<exists>x. r = Inr x \<and> f x = Inr y)"
  by (cases r) auto

lemma and_then_eq_Inl:
  "and_then r f = Inl e \<longleftrightarrow> r = Inl e \<or> (\<exists>x. r = Inr x \<and> f x = Inl e)"
  by (cases r) auto

text \<open>Run a fallible function over a list, stopping at the first exception.\<close>

fun traverse :: "('a \<Rightarrow> 'b result) \<Rightarrow> 'a list \<Rightarrow> 'b list result" where
  "traverse f [] = Inr []"
| "traverse f (x # xs) = and_then (f x) (\<lambda>y. and_then (traverse f xs) (\<lambda>ys. Inr (y # ys)))"

lemma traverse_all_Inr: "(\<And>x. x \<in> set xs \<Longrightarrow> f x = Inr (g x)) \<Longrightarrow> traverse f xs = Inr (map g xs)"
  by (induction xs) auto

lemma traverse_raises: "x \<in> set xs \<Longrightarrow> f x = Inl e \<Longrightarrow> \<exists>e'. traverse f xs = Inl e'"
proof (induction xs)
  case (Cons y ys)
  then show ?case by (cases "f y"; cases "traverse f ys") auto
qed simp

lemma traverse_Inr_length: "traverse f xs = Inr ys \<Longrightarrow> length ys = length xs"
  by (induction xs arbitrary: ys) (auto simp: and_then_eq_Inr)

section \<open>Collections of facts\<close>

named_theorems catalogue "the declarative tables of the program, unfolded"
named_theorems guards "the conditions of the code, unfolded"

section \<open>Dictionaries\<close>

text \<open>
  \<open>d[k] = v\<close> is \<open>AList.update\<close>: it replaces in place or appends, as insertion order
  demands. A comprehension \<open>{k: v for ...}\<close> assigns in turn.
\<close>

definition dict_of :: "('k \<times> 'v) list \<Rightarrow> ('k \<times> 'v) list" where
  "dict_of kvs = foldl (\<lambda>d (k, v). AList.update k v d) [] kvs"

lemma map_of_update [simp]: "map_of (AList.update k v d) = (map_of d)(k \<mapsto> v)"
  by (rule update_conv')

lemma map_of_foldl_update:
  "map_of (foldl (\<lambda>d (k, v). AList.update k v d) d kvs) = map_of d ++ map_of (rev kvs)"
proof (induction kvs arbitrary: d)
  case Nil
  then show ?case by simp
next
  case (Cons kv kvs)
  then show ?case
    by (cases kv) (auto simp: map_add_def fun_eq_iff split: option.splits)
qed

lemma map_of_dict_of: "map_of (dict_of kvs) = map_of (rev kvs)"
  by (simp add: dict_of_def map_of_foldl_update)

text \<open>\<open>groups.setdefault(k, []).append(x)\<close>.\<close>

fun push :: "'k \<Rightarrow> 'v \<Rightarrow> ('k \<times> 'v list) list \<Rightarrow> ('k \<times> 'v list) list" where
  "push k x [] = [(k, [x])]"
| "push k x ((k', ys) # d) = (if k = k' then (k', ys @ [x]) # d else (k', ys) # push k x d)"

definition group_by :: "('x \<Rightarrow> 'k) \<Rightarrow> 'x list \<Rightarrow> ('k \<times> 'x list) list" where
  "group_by f xs = foldl (\<lambda>d x. push (f x) x d) [] xs"

lemma map_of_push:
  "map_of (push k x d) = (map_of d)(k \<mapsto> (case map_of d k of None \<Rightarrow> [x] | Some ys \<Rightarrow> ys @ [x]))"
  by (induction k x d rule: push.induct) (auto simp: fun_eq_iff)

lemma fst_set_push: "fst ` set (push k x d) = insert k (fst ` set d)"
  by (induction k x d rule: push.induct) auto

lemma distinct_push: "distinct (map fst d) \<Longrightarrow> distinct (map fst (push k x d))"
proof (induction k x d rule: push.induct)
  case (2 k x k' ys d)
  then show ?case using fst_set_push [of k x d] by (auto simp: image_iff)
qed simp

lemma mset_push: "mset (concat (map snd (push k x d))) = add_mset x (mset (concat (map snd d)))"
  by (induction k x d rule: push.induct) auto

lemma foldl_push_lookup:
  "map_of (foldl (\<lambda>d x. push (f x) x d) d xs) k =
     (let zs = filter (\<lambda>x. f x = k) xs
      in case map_of d k of
           None \<Rightarrow> (if zs = [] then None else Some zs)
         | Some ys \<Rightarrow> Some (ys @ zs))"
  by (induction xs arbitrary: d) (auto simp: map_of_push Let_def split: option.splits)

lemma foldl_push_distinct:
  "distinct (map fst d) \<Longrightarrow> distinct (map fst (foldl (\<lambda>d x. push (f x) x d) d xs))"
  by (induction xs arbitrary: d) (auto simp: distinct_push)

lemma foldl_push_mset:
  "mset (concat (map snd (foldl (\<lambda>d x. push (f x) x d) d xs))) = mset (concat (map snd d)) + mset xs"
  by (induction xs arbitrary: d) (auto simp: mset_push)

text \<open>
  What a component that groups its input relies on: a group is found under its key exactly
  when an element has that key, and holds those elements in input order.
\<close>

locale grouping =
  fixes key :: "'x \<Rightarrow> 'k" and group :: "'x list \<Rightarrow> ('k \<times> 'x list) list"
  assumes group_lookup:
      "map_of (group xs) k =
         (if filter (\<lambda>x. key x = k) xs = [] then None else Some (filter (\<lambda>x. key x = k) xs))"
    and group_distinct: "distinct (map fst (group xs))"
begin

lemma group_member: "(k, ys) \<in> set (group xs) \<Longrightarrow> ys = filter (\<lambda>x. key x = k) xs \<and> ys \<noteq> []"
  using group_lookup [of xs k] map_of_eq_Some_iff [OF group_distinct, of xs k ys]
  by (simp split: if_split_asm)

lemma group_key: "(k, ys) \<in> set (group xs) \<Longrightarrow> x \<in> set ys \<Longrightarrow> key x = k \<and> x \<in> set xs"
  by (auto dest: group_member)

lemma group_covers:
  assumes "x \<in> set xs"
  shows "(key x, filter (\<lambda>y. key y = key x) xs) \<in> set (group xs)"
proof -
  have "filter (\<lambda>y. key y = key x) xs \<noteq> []" using assms by (auto simp: filter_empty_conv)
  then have "map_of (group xs) (key x) = Some (filter (\<lambda>y. key y = key x) xs)"
    using group_lookup [of xs "key x"] by simp
  then show ?thesis by (rule map_of_SomeD)
qed

lemma group_keys: "fst ` set (group xs) = key ` set xs"
proof (intro equalityI subsetI)
  fix k assume "k \<in> fst ` set (group xs)"
  then obtain ys where m: "(k, ys) \<in> set (group xs)" by auto
  then obtain x where "x \<in> set ys" using group_member [OF m] list.set_intros(1) [of "hd ys" "tl ys"]
    by (metis list.collapse)
  then show "k \<in> key ` set xs" using group_key [OF m] by force
next
  fix k assume "k \<in> key ` set xs"
  then obtain x where "x \<in> set xs" "k = key x" by auto
  then show "k \<in> fst ` set (group xs)" using group_covers [of x xs] by force
qed

end

interpretation grp: grouping f "group_by f" for f
  by unfold_locales (simp_all add: group_by_def foldl_push_lookup foldl_push_distinct Let_def)

lemma group_by_mem: "(k, ys) \<in> set (group_by f xs) \<longleftrightarrow> ys = filter (\<lambda>x. f x = k) xs \<and> ys \<noteq> []"
proof
  assume "(k, ys) \<in> set (group_by f xs)"
  then show "ys = filter (\<lambda>x. f x = k) xs \<and> ys \<noteq> []" by (rule grp.group_member)
next
  assume r: "ys = filter (\<lambda>x. f x = k) xs \<and> ys \<noteq> []"
  then have "filter (\<lambda>x. f x = k) xs \<noteq> []" by metis
  then have "map_of (group_by f xs) k = Some ys" using grp.group_lookup [of f xs k] r by (simp only: if_False)
  then show "(k, ys) \<in> set (group_by f xs)" by (rule map_of_SomeD)
qed

lemma mset_group_by: "mset (concat (map snd (group_by f xs))) = mset xs"
  by (simp add: group_by_def foldl_push_mset)

section \<open>Lists\<close>

text \<open>\<open>max(xs, key=f)\<close> keeps the first of several maximal elements.\<close>

definition max_by :: "('a \<Rightarrow> 'b::linorder) \<Rightarrow> 'a \<Rightarrow> 'a list \<Rightarrow> 'a" where
  "max_by f x xs = foldl (\<lambda>m y. if f m < f y then y else m) x xs"

lemma max_by_in: "max_by f x xs \<in> set (x # xs)"
  unfolding max_by_def by (induction xs arbitrary: x) auto

lemma max_by_ge_start: "f x \<le> f (max_by f x xs)"
  unfolding max_by_def
proof (induction xs arbitrary: x)
  case (Cons y xs)
  show ?case using Cons [of y] Cons [of x] by (auto intro: order_trans [OF less_imp_le])
qed simp

lemma max_by_ge: "y \<in> set (x # xs) \<Longrightarrow> f y \<le> f (max_by f x xs)"
proof (induction xs arbitrary: x)
  case Nil
  then show ?case by (simp add: max_by_def)
next
  case (Cons z xs)
  let ?m = "if f x < f z then z else x"
  have eq: "max_by f x (z # xs) = max_by f ?m xs" by (simp add: max_by_def)
  have "f y \<le> f ?m \<or> y \<in> set (?m # xs)" using Cons.prems by auto
  then show ?case
    using Cons.IH [of ?m] max_by_ge_start [of f ?m xs] eq by (auto simp del: if_split)
qed

text \<open>\<open>next((x for x in xs if p(x)), None)\<close>.\<close>

lemma find_SomeD: "find p xs = Some x \<Longrightarrow> x \<in> set xs \<and> p x"
  by (auto simp: find_Some_iff)

lemma find_append: "find p (xs @ ys) = (case find p xs of None \<Rightarrow> find p ys | Some x \<Rightarrow> Some x)"
  by (induction xs) auto

lemma zip_tl_nth: "(c, d) \<in> set (zip xs (tl xs)) \<Longrightarrow> \<exists>i. Suc i < length xs \<and> xs ! i = c \<and> xs ! Suc i = d"
proof (induction xs)
  case (Cons x xs)
  show ?case
  proof (cases xs)
    case (Cons y ys)
    with Cons.prems have "c = x \<and> d = y \<or> (c, d) \<in> set (zip xs (tl xs))" by auto
    then show ?thesis
    proof
      assume "(c, d) \<in> set (zip xs (tl xs))"
      then obtain i where "Suc i < length xs \<and> xs ! i = c \<and> xs ! Suc i = d" using Cons.IH by blast
      then show ?thesis by (intro exI [of _ "Suc i"]) simp
    qed (use Cons in \<open>auto intro!: exI [of _ 0]\<close>)
  qed (use Cons.prems in simp)
qed simp

lemma sort_key_eq_Nil [simp]: "sort_key f xs = [] \<longleftrightarrow> xs = []"
  using length_sort [of f xs] by (cases xs; cases "sort_key f xs") auto

lemma map_filter_id: "x \<in> set (List.map_filter id ms) \<longleftrightarrow> Some x \<in> set ms"
  by (force simp: List.map_filter_def)

section \<open>Rounding\<close>

text \<open>Python 3 rounds half to even.\<close>

definition half_even :: "real \<Rightarrow> int" where
  "half_even x = (let f = \<lfloor>x\<rfloor>; d = x - of_int f
     in if d < 1/2 then f else if 1/2 < d then f + 1 else if even f then f else f + 1)"

definition round_to :: "nat \<Rightarrow> real \<Rightarrow> real" where
  "round_to n x = of_int (half_even (x * 10 ^ n)) / 10 ^ n"

lemma half_even_of_int [simp]: "half_even (of_int n) = n"
  by (simp add: half_even_def)

lemma half_even_bounds: "of_int (half_even x) \<le> x + 1/2" "x - 1/2 \<le> of_int (half_even x)"
  unfolding half_even_def Let_def using of_int_floor_le [of x] floor_less_iff [of x "\<lfloor>x\<rfloor> + 1"]
  by (simp_all; linarith)+

lemma half_even_mono: "x \<le> y \<Longrightarrow> half_even x \<le> half_even y"
proof (cases "\<lfloor>x\<rfloor> = \<lfloor>y\<rfloor>")
  case True
  assume "x \<le> y"
  with True show ?thesis by (auto simp: half_even_def Let_def)
next
  case False
  assume "x \<le> y"
  with False have "\<lfloor>x\<rfloor> + 1 \<le> \<lfloor>y\<rfloor>" using floor_mono [of x y] by linarith
  then show ?thesis by (auto simp: half_even_def Let_def)
qed

lemma round_to_mono: "x \<le> y \<Longrightarrow> round_to n x \<le> round_to n y"
  unfolding round_to_def by (simp add: divide_right_mono half_even_mono)

lemma round_to_of_int [simp]: "round_to n (of_int k) = of_int k"
proof -
  have "(of_int k :: real) * 10 ^ n = of_int (k * 10 ^ n)" by simp
  then show ?thesis unfolding round_to_def by (simp only: half_even_of_int) simp
qed

lemma round_to_0 [simp]: "round_to n 0 = 0"
  using round_to_of_int [of n 0] by simp

lemma round_to_1 [simp]: "round_to n 1 = 1"
  using round_to_of_int [of n 1] by simp

lemma round_to_unit: "0 \<le> x \<Longrightarrow> x \<le> 1 \<Longrightarrow> 0 \<le> round_to n x \<and> round_to n x \<le> 1"
  using round_to_mono [of 0 x n] round_to_mono [of x 1 n] by simp

lemma round_to_close: "\<bar>round_to n x - x\<bar> \<le> 1 / (2 * 10 ^ n)"
proof -
  let ?c = "10 ^ n :: real" and ?h = "of_int (half_even (x * 10 ^ n)) :: real"
  have "\<bar>?h - x * ?c\<bar> \<le> 1/2" using half_even_bounds [of "x * ?c"] by linarith
  then have "\<bar>?h - x * ?c\<bar> / ?c \<le> (1/2) / ?c" by (rule divide_right_mono) simp
  moreover have "round_to n x - x = (?h - x * ?c) / ?c" by (simp add: round_to_def diff_divide_distrib)
  ultimately show ?thesis by (simp add: abs_divide)
qed

section \<open>Sums\<close>

lemma sum_list_by_key:
  assumes "finite S"
  shows "(\<Sum>t\<in>S. sum_list (map w (filter (\<lambda>x. k x = t) xs))) =
    sum_list (map w (filter (\<lambda>x. k x \<in> S) xs) :: real list)"
proof (induction xs)
  case (Cons x xs)
  have "(\<Sum>t\<in>S. sum_list (map w (filter (\<lambda>x. k x = t) (x # xs)))) =
      (\<Sum>t\<in>S. (if k x = t then w x else 0) + sum_list (map w (filter (\<lambda>x. k x = t) xs)))"
    by (rule sum.cong) auto
  then show ?case using Cons assms by (simp add: sum.distrib)
qed simp

lemma sum_list_filter_le:
  "(\<And>x. x \<in> set xs \<Longrightarrow> 0 \<le> w x) \<Longrightarrow> sum_list (map w (filter p xs)) \<le> (sum_list (map w xs) :: real)"
  by (induction xs) (auto intro: add_increasing order_trans)

lemma sum_list_unit: "(\<And>x. x \<in> set xs \<Longrightarrow> 0 \<le> w x) \<Longrightarrow> 0 \<le> (sum_list (map w xs) :: real)"
  by (induction xs) auto

section \<open>Time\<close>

text \<open>\<open>timedelta(minutes=m)\<close> and \<open>timedelta(days=d)\<close> round to whole microseconds.\<close>

definition minutes :: "real \<Rightarrow> timedelta" where
  "minutes m = half_even (m * 60000000)"

definition days :: "real \<Rightarrow> timedelta" where
  "days d = half_even (d * 86400000000)"

definition total_days :: "timedelta \<Rightarrow> real" where
  "total_days td = of_int td / 1000000 / 86400"

lemma minutes_mono: "a \<le> b \<Longrightarrow> minutes a \<le> minutes b"
  by (simp add: minutes_def half_even_mono)

lemma days_numeral [simp]: "days (numeral n) = numeral n * 86400000000"
  using half_even_of_int [of "numeral n * 86400000000"] by (simp add: days_def)

lemma minutes_numeral [simp]: "minutes (numeral n) = numeral n * 60000000"
  using half_even_of_int [of "numeral n * 60000000"] by (simp add: minutes_def)

end
