(* ===== verification/Rbac.thy ===== *)
theory Rbac
  imports Prelude
begin

text \<open>
  The Decision Authority roles of \<open>libs/access/rbac.py\<close>, the execution authorization of
  \<open>libs/action/executor.py\<close> that rests on them, and the laws both rely on. A role and a
  permission are strings, as callers pass them; an undeclared one raises.
\<close>

section \<open>Roles, permissions and risk levels\<close>

definition ROLES :: "string set" where
  "ROLES = {''viewer'', ''operator'', ''admin'', ''superadmin''}"

definition PERMISSIONS :: "string set" where
  "PERMISSIONS = {''read'', ''propose'', ''ack'', ''commit'', ''execute'', ''define_policy'', ''cross_tenant''}"

definition RISK_TOLERANCES :: "string set" where
  "RISK_TOLERANCES = {''low'', ''medium'', ''high''}"

definition ROLE_PERMISSIONS :: "(string \<times> string set) list" where
  "ROLE_PERMISSIONS =
     [(''viewer'', {''read''}),
      (''operator'', {''read'', ''ack''}),
      (''admin'', {''read'', ''propose'', ''ack'', ''commit'', ''define_policy''}),
      (''superadmin'', {''read'', ''propose'', ''ack'', ''commit'', ''execute'', ''define_policy'',
         ''cross_tenant''})]"

definition COMMIT_RISK_CEILING :: "(string \<times> string set) list" where
  "COMMIT_RISK_CEILING =
     [(''admin'', {''low'', ''medium''}), (''superadmin'', {''low'', ''medium'', ''high''})]"

lemmas rbac_tables [catalogue] = ROLES_def PERMISSIONS_def RISK_TOLERANCES_def ROLE_PERMISSIONS_def
  COMMIT_RISK_CEILING_def

section \<open>Operations\<close>

definition require_valid_role :: "string \<Rightarrow> unit result" where
  "require_valid_role role = (if role \<notin> ROLES then Inl (InvalidRoleError role) else Inr ())"

text \<open>\<open>_ROLE_PERMISSIONS[role]\<close> raises \<open>KeyError\<close> on a missing key.\<close>

definition permissions_for :: "string \<Rightarrow> string set result" where
  "permissions_for role = and_then (require_valid_role role) (\<lambda>_.
     case map_of ROLE_PERMISSIONS role of None \<Rightarrow> Inl (KeyError role) | Some ps \<Rightarrow> Inr ps)"

definition can :: "string \<Rightarrow> string \<Rightarrow> bool result" where
  "can role permission = and_then (require_valid_role role) (\<lambda>_.
     if permission \<notin> PERMISSIONS then Inl (ValueError ''unknown permission'')
     else case map_of ROLE_PERMISSIONS role of None \<Rightarrow> Inl (KeyError role)
          | Some ps \<Rightarrow> Inr (permission \<in> ps))"

definition read_allowed :: "string \<Rightarrow> bool result" where
  "read_allowed role = can role ''read''"

definition propose_allowed :: "string \<Rightarrow> bool result" where
  "propose_allowed role = can role ''propose''"

definition ack_allowed :: "string \<Rightarrow> bool result" where
  "ack_allowed role = can role ''ack''"

definition define_policy_allowed :: "string \<Rightarrow> bool result" where
  "define_policy_allowed role = can role ''define_policy''"

definition execute_allowed :: "string \<Rightarrow> bool result" where
  "execute_allowed role = can role ''execute''"

definition cross_tenant_allowed :: "string \<Rightarrow> bool result" where
  "cross_tenant_allowed role = can role ''cross_tenant''"

definition commit_risk_allowed :: "string \<Rightarrow> string \<Rightarrow> bool result" where
  "commit_risk_allowed role risk = and_then (require_valid_role role) (\<lambda>_.
     if risk \<notin> RISK_TOLERANCES then Inl (ValueError ''unknown risk tolerance'')
     else Inr (risk \<in> (case map_of COMMIT_RISK_CEILING role of None \<Rightarrow> {} | Some rs \<Rightarrow> rs)))"

definition commit_allowed :: "string \<Rightarrow> string option \<Rightarrow> bool result" where
  "commit_allowed role risk = and_then (can role ''commit'') (\<lambda>ok.
     if \<not> ok then Inr False
     else case risk of None \<Rightarrow> Inr True | Some r \<Rightarrow> commit_risk_allowed role r)"

text \<open>
  \<open>requested_tenant_id\<close> is used only when it is truthy: \<open>None\<close> and the empty string
  both mean the actor's own tenant.
\<close>

definition tenant_scope :: "string \<Rightarrow> string \<Rightarrow> string option \<Rightarrow> string result" where
  "tenant_scope role actor_tenant_id requested_tenant_id = and_then (require_valid_role role) (\<lambda>_.
     let target = (case requested_tenant_id of None \<Rightarrow> actor_tenant_id
                   | Some t \<Rightarrow> if t = [] then actor_tenant_id else t)
     in if target \<noteq> actor_tenant_id
        then and_then (cross_tenant_allowed role) (\<lambda>ok.
               if \<not> ok then Inl TenantIsolationError else Inr target)
        else Inr target)"

lemmas rbac_ops [guards] = require_valid_role_def permissions_for_def can_def commit_risk_allowed_def
  commit_allowed_def cross_tenant_allowed_def execute_allowed_def tenant_scope_def

section \<open>Execution authorization (executor.py)\<close>

definition validate_execution_authorization :: "string \<Rightarrow> string \<Rightarrow> string \<Rightarrow> bool result" where
  "validate_execution_authorization decision_role executor_role risk_tolerance =
     and_then (can executor_role ''execute'') (\<lambda>ok.
       if \<not> ok then Inr False else commit_risk_allowed executor_role risk_tolerance)"

definition NON_EXECUTING_CAPABILITIES :: "string set" where
  "NON_EXECUTING_CAPABILITIES = {''observation'', ''evidence'', ''context'', ''pattern'', ''anomaly'',
     ''hypothesis'', ''insight''}"

definition validate_no_direct_execution :: "string \<Rightarrow> unit result" where
  "validate_no_direct_execution capability =
     (if capability \<in> NON_EXECUTING_CAPABILITIES
      then Inl (NonExecutingCapabilityError capability) else Inr ())"

section \<open>The authority interface\<close>

text \<open>
  What the executor, the capability policy and the tenant scope rely on: permission checks are
  total on declared names and raise on undeclared ones, and the roles form a ladder.
\<close>

fun role_rank :: "string \<Rightarrow> nat" where
  "role_rank r = (if r = ''viewer'' then 0 else if r = ''operator'' then 1
                  else if r = ''admin'' then 2 else if r = ''superadmin'' then 3 else 4)"

declare role_rank.simps [simp del]

locale authority =
  fixes check :: "string \<Rightarrow> string \<Rightarrow> bool result" and rank :: "string \<Rightarrow> nat"
    and roles :: "string set" and perms :: "string set"
  assumes check_unknown_role: "r \<notin> roles \<Longrightarrow> check r p = Inl (InvalidRoleError r)"
    and check_total: "r \<in> roles \<Longrightarrow> p \<in> perms \<Longrightarrow> \<exists>b. check r p = Inr b"
    and check_unknown_permission: "r \<in> roles \<Longrightarrow> p \<notin> perms \<Longrightarrow> \<exists>m. check r p = Inl (ValueError m)"
    and check_ladder: "r \<in> roles \<Longrightarrow> r' \<in> roles \<Longrightarrow> rank r \<le> rank r' \<Longrightarrow>
          check r p = Inr True \<Longrightarrow> check r' p = Inr True"
begin

lemma granted_declared: "check r p = Inr b \<Longrightarrow> r \<in> roles \<and> p \<in> perms"
  using check_unknown_role [of r p] check_unknown_permission [of r p] by fastforce

lemma no_authority_below:
  "r \<in> roles \<Longrightarrow> rank r' \<le> rank r \<Longrightarrow> check r p = Inr False \<Longrightarrow> r' \<in> roles \<Longrightarrow> check r' p = Inr False"
  using check_ladder [of r' r p] check_total [of r' p] granted_declared [of r p False]
  by (metis (full_types) sum.inject(2))

end

lemma role_cases: "r \<in> ROLES \<Longrightarrow> r = ''viewer'' \<or> r = ''operator'' \<or> r = ''admin'' \<or> r = ''superadmin''"
  by (simp add: ROLES_def)

lemma can_eval:
  "can r p = (if r \<notin> ROLES then Inl (InvalidRoleError r)
     else if p \<notin> PERMISSIONS then Inl (ValueError ''unknown permission'')
     else Inr (p \<in> the (map_of ROLE_PERMISSIONS r)))"
  by (auto simp: can_def require_valid_role_def rbac_tables)

lemma permissions_ladder:
  "r \<in> ROLES \<Longrightarrow> r' \<in> ROLES \<Longrightarrow> role_rank r \<le> role_rank r' \<Longrightarrow>
     the (map_of ROLE_PERMISSIONS r) \<subseteq> the (map_of ROLE_PERMISSIONS r')"
  by (elim role_cases [THEN disjE] disjE; simp add: role_rank.simps ROLE_PERMISSIONS_def)

interpretation auth: authority can role_rank ROLES PERMISSIONS
proof unfold_locales
  fix r r' p
  assume "r \<in> ROLES" "r' \<in> ROLES" "role_rank r \<le> role_rank r'" "can r p = Inr True"
  then show "can r' p = Inr True"
    using permissions_ladder [of r r'] by (auto simp: can_eval split: if_splits)
qed (auto simp: can_eval)

lemma execute_only_superadmin: "can r ''execute'' = Inr True \<longleftrightarrow> r = ''superadmin''"
  by (auto simp: can_eval rbac_tables)

lemma cross_tenant_only_superadmin: "cross_tenant_allowed r = Inr True \<longleftrightarrow> r = ''superadmin''"
  by (auto simp: cross_tenant_allowed_def can_eval rbac_tables)

section \<open>Properties\<close>

text \<open>
  The roles form a ladder: whatever permission a role holds, every role above it holds too,
  and a role holds a permission only if both names are declared.
\<close>

theorem role_ladder:
  assumes "can r p = Inr True" and "r' \<in> ROLES" and "role_rank r \<le> role_rank r'"
  shows "can r' p = Inr True \<and> r \<in> ROLES \<and> p \<in> PERMISSIONS"
  using assms auth.granted_declared [OF assms(1)] auth.check_ladder [of r r' p] by simp

theorem role_ladder_witness:
  "can ''admin'' ''commit'' = Inr True \<and> can ''superadmin'' ''commit'' = Inr True"
proof -
  have h: "can ''admin'' ''commit'' = Inr True" by (simp add: can_eval rbac_tables)
  moreover have "''superadmin'' \<in> ROLES" "role_rank ''admin'' \<le> role_rank ''superadmin''"
    by (simp_all add: ROLES_def role_rank.simps)
  ultimately show ?thesis using role_ladder [of "''admin''" "''commit''" "''superadmin''"] by simp
qed

text \<open>
  Execution authorization, on every branch: an undeclared executor role raises; any declared
  role but the superadmin is refused, whatever the risk; the superadmin is accepted at every
  declared risk and an undeclared risk raises. The role that took the decision plays no part.
\<close>

theorem execution_authorization_cases:
  "validate_execution_authorization decision_role executor_role risk =
     (if executor_role \<notin> ROLES then Inl (InvalidRoleError executor_role)
      else if executor_role \<noteq> ''superadmin'' then Inr False
      else if risk \<in> RISK_TOLERANCES then Inr True
      else Inl (ValueError ''unknown risk tolerance''))"
  by (auto simp: validate_execution_authorization_def can_eval commit_risk_allowed_def
      require_valid_role_def rbac_tables)

text \<open>
  C38. Tenant isolation: an action ends in the actor's own tenant unless the actor is the
  superadmin; a request for another tenant by any other declared role raises, and a request that
  names no tenant (or the actor's) never does.
\<close>

theorem tenant_scope_isolation:
  assumes "role \<in> ROLES"
  shows "tenant_scope role actor req =
     (let target = (case req of None \<Rightarrow> actor | Some t \<Rightarrow> if t = [] then actor else t)
      in if target = actor \<or> role = ''superadmin'' then Inr target else Inl TenantIsolationError)"
  using assms
  by (auto simp: tenant_scope_def require_valid_role_def cross_tenant_allowed_def can_eval Let_def
      rbac_tables split: option.splits)

theorem tenant_scope_isolation_witness:
  "''admin'' \<in> ROLES \<and> tenant_scope ''admin'' ''t1'' (Some ''t2'') = Inl TenantIsolationError \<and>
   tenant_scope ''admin'' ''t1'' (Some []) = Inr ''t1''"
proof -
  have h: "''admin'' \<in> ROLES" by (simp add: ROLES_def)
  show ?thesis using h tenant_scope_isolation [OF h, of "''t1''" "Some ''t2''"]
    tenant_scope_isolation [OF h, of "''t1''" "Some []"] by simp
qed

lemma commit_implies_propose: "commit_allowed r risk = Inr True \<Longrightarrow> propose_allowed r = Inr True"
  by (auto simp: commit_allowed_def propose_allowed_def can_eval rbac_tables and_then_eq_Inr
      split: if_splits option.splits)

end
