(* ===== verification/Capability_Policy.thy ===== *)
theory Capability_Policy
  imports Rbac
begin

text \<open>
  The declarative capability boundary of the gateway
  (\<open>apps/gateway/api-gateway/src/capability_policy.py\<close>): the catalogue of policies, the
  three validation functions, and the transition relation they induce.
\<close>

section \<open>Policies\<close>

record capability_policy =
  capability :: string
  family :: string
  allowed_inputs :: "string set"
  allowed_outputs :: "string set"
  confidence_required :: bool
  authority_required :: string
  tenant_scoped :: bool
  execution_authority :: "string option"

abbreviation mk_policy where
  "mk_policy c f i o' cr a t e \<equiv> \<lparr>capability = c, family = f, allowed_inputs = i,
     allowed_outputs = o', confidence_required = cr, authority_required = a, tenant_scoped = t,
     execution_authority = e\<rparr>"

definition CAPABILITY_POLICIES :: "(string \<times> capability_policy) list" where
  "CAPABILITY_POLICIES =
     [(''observation'', mk_policy ''observation'' ''perception'' {} {''evidence''} False ''read'' True None),
      (''evidence'', mk_policy ''evidence'' ''perception'' {''observation''} {''context''} False ''read'' True None),
      (''context'', mk_policy ''context'' ''perception'' {''evidence''} {''pattern''} False ''read'' True None),
      (''pattern'', mk_policy ''pattern'' ''reasoning'' {''context''} {''anomaly''} False ''read'' True None),
      (''anomaly'', mk_policy ''anomaly'' ''reasoning'' {''pattern''} {''hypothesis''} False ''read'' True None),
      (''hypothesis'', mk_policy ''hypothesis'' ''reasoning'' {''anomaly''} {''insight''} False ''read'' True None),
      (''insight'', mk_policy ''insight'' ''reasoning'' {''hypothesis''} {''recommendation''} False ''read'' True None),
      (''confidence'', mk_policy ''confidence'' ''learning'' {''hypothesis'', ''recommendation'', ''decision''} {} False ''read'' True None),
      (''recommendation'', mk_policy ''recommendation'' ''action'' {''insight''} {''decision''} True ''propose'' True None),
      (''decision'', mk_policy ''decision'' ''action'' {''recommendation''} {''execution''} True ''commit'' True (Some ''execute'')),
      (''execution'', mk_policy ''execution'' ''action'' {''decision''} {} True ''execute'' True None)]"

text \<open>\<open>DefaultPolicyStore.get_policy\<close>; a store is its \<open>get_policy\<close> method.\<close>

type_synonym policy_store = "string \<Rightarrow> capability_policy option"

definition default_get_policy :: policy_store where
  "default_get_policy c = map_of CAPABILITY_POLICIES c"

definition the_store :: "policy_store option \<Rightarrow> policy_store" where
  "the_store policy_store = (case policy_store of None \<Rightarrow> default_get_policy | Some s \<Rightarrow> s)"

section \<open>Boundary validation\<close>

definition validate_capability_transition :: "string \<Rightarrow> string \<Rightarrow> policy_store option \<Rightarrow> bool" where
  "validate_capability_transition source target policy_store =
     (case the_store policy_store source of
        None \<Rightarrow> False
      | Some source_policy \<Rightarrow> target \<in> allowed_outputs source_policy)"

definition validate_confidence_requirement :: "string \<Rightarrow> policy_store option \<Rightarrow> bool" where
  "validate_confidence_requirement c policy_store =
     (case the_store policy_store c of None \<Rightarrow> False | Some p \<Rightarrow> confidence_required p)"

definition validate_authority :: "string \<Rightarrow> string \<Rightarrow> policy_store option \<Rightarrow> bool result" where
  "validate_authority c role policy_store =
     (case the_store policy_store c of None \<Rightarrow> Inr False | Some p \<Rightarrow> can role (authority_required p))"

lemmas policy_lookup [catalogue] = the_store_def default_get_policy_def CAPABILITY_POLICIES_def

section \<open>The transition relation\<close>

text \<open>A run of the pipeline: consecutive stages joined by allowed transitions.\<close>

inductive pipeline_run :: "string list \<Rightarrow> bool" where
  run_single: "pipeline_run [c]"
| run_step: "validate_capability_transition c d None \<Longrightarrow> pipeline_run (d # cs) \<Longrightarrow>
     pipeline_run (c # d # cs)"

inductive_cases run_stepE: "pipeline_run (c # d # cs)"
inductive_simps run_step_iff: "pipeline_run (c # d # cs)"

definition pipeline :: "string list" where
  "pipeline = [''observation'', ''evidence'', ''context'', ''pattern'', ''anomaly'', ''hypothesis'',
     ''insight'', ''recommendation'', ''decision'', ''execution'']"

definition successor :: "string \<Rightarrow> string option" where
  "successor c = map_of (zip pipeline (tl pipeline)) c"

lemma policy_outputs:
  "map_of CAPABILITY_POLICIES c = Some p \<Longrightarrow> allowed_outputs p = set_option (successor c)"
  by (auto simp: CAPABILITY_POLICIES_def successor_def pipeline_def split: if_split_asm)

lemma no_policy_no_successor: "map_of CAPABILITY_POLICIES c = None \<Longrightarrow> successor c = None"
  by (simp add: CAPABILITY_POLICIES_def successor_def pipeline_def split: if_split_asm)

lemma transition_successor:
  "validate_capability_transition c d None \<longleftrightarrow> successor c = Some d"
  using policy_outputs [of c] no_policy_no_successor [of c]
  by (cases "map_of CAPABILITY_POLICIES c"; cases "successor c")
     (auto simp: validate_capability_transition_def the_store_def default_get_policy_def)

text \<open>
  The interface a chain of stages offers: each stage has at most one successor, which stands
  right after it in the order of the chain.
\<close>

locale stage_chain =
  fixes stage_next :: "'s \<Rightarrow> 's option" and chain :: "'s list"
  assumes next_in_chain: "stage_next c = Some d \<Longrightarrow>
      \<exists>i. Suc i < length chain \<and> chain ! i = c \<and> chain ! Suc i = d"
    and chain_distinct: "distinct chain"
begin

lemma next_index:
  "stage_next (chain ! i) = Some d \<Longrightarrow> i < length chain \<Longrightarrow> Suc i < length chain \<and> d = chain ! Suc i"
  using next_in_chain [of "chain ! i" d] chain_distinct
  by (auto simp: nth_eq_iff_index_eq)

end

interpretation caps: stage_chain successor pipeline
proof unfold_locales
  fix c d assume "successor c = Some d"
  then have "(c, d) \<in> set (zip pipeline (tl pipeline))"
    unfolding successor_def by (rule map_of_SomeD)
  then show "\<exists>i. Suc i < length pipeline \<and> pipeline ! i = c \<and> pipeline ! Suc i = d"
    by (rule zip_tl_nth)
qed (simp add: pipeline_def)

lemma pipeline_run_take:
  "pipeline_run cs \<Longrightarrow> i < length pipeline \<Longrightarrow> hd cs = pipeline ! i \<Longrightarrow>
     i + length cs \<le> length pipeline \<and> cs = take (length cs) (drop i pipeline)"
proof (induction cs arbitrary: i rule: pipeline_run.induct)
  case (run_single c)
  then show ?case by (simp add: take_Suc hd_drop_conv_nth)
next
  case (run_step c d cs)
  then have "successor (pipeline ! i) = Some d"
    by (simp add: transition_successor)
  then have i: "Suc i < length pipeline" "d = pipeline ! Suc i"
    using caps.next_index [of i d] run_step.prems by auto
  then have "Suc i + length (d # cs) \<le> length pipeline"
    "d # cs = take (length (d # cs)) (drop (Suc i) pipeline)"
    using run_step.IH [of "Suc i"] by auto
  moreover have "drop i pipeline = c # drop (Suc i) pipeline"
    using run_step.prems by (simp add: Cons_nth_drop_Suc)
  ultimately show ?case by simp
qed

section \<open>Properties\<close>

text \<open>
  No bypass: a run of allowed transitions that starts at observation and ends at execution is
  the whole pipeline, so it passes through every stage in order, hypothesis, recommendation and
  decision included.
\<close>

theorem no_boundary_bypass:
  assumes "pipeline_run cs" and "hd cs = ''observation''" and "last cs = ''execution''"
  shows "cs = pipeline"
proof -
  have t: "length cs \<le> length pipeline" "cs = take (length cs) pipeline"
    using pipeline_run_take [OF assms(1), of 0] assms(2) by (auto simp: pipeline_def)
  have "cs \<noteq> []" using assms(1) by (cases) auto
  then have "last cs = pipeline ! (length cs - 1)"
    using t by (metis diff_less last_conv_nth length_greater_0_conv nth_take zero_less_one)
  then have "pipeline ! (length cs - 1) = pipeline ! 9"
    using assms(3) by (simp add: pipeline_def)
  then have "length cs - 1 = 9"
    using caps.chain_distinct t(1) \<open>cs \<noteq> []\<close>
    by (subst (asm) nth_eq_iff_index_eq) (auto simp: pipeline_def Suc_le_eq length_greater_0_conv)
  then show ?thesis using t by (simp add: pipeline_def)
qed

lemma pipeline_is_run: "pipeline_run pipeline"
  by (simp add: pipeline_def run_step_iff transition_successor successor_def run_single)

theorem no_boundary_bypass_witness:
  "pipeline_run pipeline \<and> hd pipeline = ''observation'' \<and> last pipeline = ''execution'' \<and>
   length pipeline = 10"
  using no_boundary_bypass [OF pipeline_is_run] pipeline_is_run by (simp add: pipeline_def)

text \<open>
  Every transition of the catalogue goes exactly one stage forward and no stage has two
  successors: the policy admits neither branching, nor skipping, nor a return to an earlier
  stage, although the module's documentation says Reasoning may do all three.
\<close>

theorem transitions_single_forward:
  assumes "validate_capability_transition c d None"
  shows "(\<exists>i. Suc i < length pipeline \<and> pipeline ! i = c \<and> pipeline ! Suc i = d) \<and>
    (\<forall>e. validate_capability_transition c e None \<longleftrightarrow> e = d)"
  using assms caps.next_in_chain [of c d] by (auto simp: transition_successor)

theorem transitions_single_forward_witness:
  "validate_capability_transition ''hypothesis'' ''insight'' None \<and>
   \<not> validate_capability_transition ''hypothesis'' ''anomaly'' None"
proof -
  have h: "validate_capability_transition ''hypothesis'' ''insight'' None"
    by (simp add: transition_successor successor_def pipeline_def)
  then show ?thesis using transitions_single_forward [OF h] by simp
qed

lemma confidence_required_iff:
  "validate_confidence_requirement c None \<longleftrightarrow>
     c \<in> {''recommendation'', ''decision'', ''execution''}"
  by (auto simp: validate_confidence_requirement_def policy_lookup)

text \<open>
  The capabilities that need a calibrated confidence belong to the action family, and no role
  below admin has authority over any of them; execution is the superadmin's alone.
\<close>

theorem action_needs_confidence_and_authority:
  assumes "validate_confidence_requirement c None" and "validate_authority c role None = Inr True"
  shows "c \<in> {''recommendation'', ''decision'', ''execution''} \<and>
     (role = ''superadmin'' \<or> role = ''admin'' \<and> c \<noteq> ''execution'')"
  using assms unfolding confidence_required_iff
  by (auto simp: validate_authority_def policy_lookup can_eval rbac_tables split: if_splits)

theorem action_needs_confidence_and_authority_witness:
  "validate_confidence_requirement ''decision'' None \<and>
   validate_authority ''decision'' ''admin'' None = Inr True \<and>
   ''decision'' \<in> {''recommendation'', ''decision'', ''execution''}"
proof -
  have h: "validate_confidence_requirement ''decision'' None" by (simp add: confidence_required_iff)
  have a: "validate_authority ''decision'' ''admin'' None = Inr True"
    by (simp add: validate_authority_def policy_lookup can_eval rbac_tables)
  show ?thesis using h a action_needs_confidence_and_authority [OF h a] by simp
qed

end
