(* ===== verification/Circuit_Breaker.thy ===== *)
theory Circuit_Breaker
  imports Prelude
begin

text \<open>
  The circuit breaker of \<open>libs/shared/circuit_breaker.py\<close>. \<open>call\<close> awaits the
  protected function, so other calls run between its admission and its end: the model splits it
  into \<open>admit\<close> and the three ways a call ends (it returns, it raises an \<open>Exception\<close>, or
  it is cancelled by a \<open>BaseException\<close>, which neither handler of the code sees). Times are
  readings of \<open>time.monotonic()\<close>.
\<close>

section \<open>State and operations\<close>

datatype circuit_state = CLOSED | OPEN | HALF_OPEN

record breaker =
  failure_threshold :: int
  reset_timeout :: real
  bname :: string
  bstate :: circuit_state
  failure_count :: int
  last_failure_time :: real
  half_open_attempts :: int

definition init_breaker :: "int \<Rightarrow> real \<Rightarrow> string \<Rightarrow> breaker" where
  "init_breaker threshold timeout name =
     \<lparr>failure_threshold = threshold, reset_timeout = timeout, bname = name, bstate = CLOSED,
      failure_count = 0, last_failure_time = 0, half_open_attempts = 0\<rparr>"

text \<open>The \<open>state\<close> property moves an expired OPEN circuit to HALF_OPEN as it is read.\<close>

definition read_state :: "real \<Rightarrow> breaker \<Rightarrow> breaker" where
  "read_state now b =
     (if bstate b = OPEN \<and> now - last_failure_time b \<ge> reset_timeout b
      then b\<lparr>bstate := HALF_OPEN, half_open_attempts := 0\<rparr> else b)"

definition admit :: "real \<Rightarrow> breaker \<Rightarrow> breaker \<times> unit result" where
  "admit now b =
     (let b1 = read_state now b
      in if bstate b1 = OPEN then (b1, Inl (CircuitBreakerOpenError ''open''))
         else if bstate b1 = HALF_OPEN
         then (let b2 = b1\<lparr>half_open_attempts := half_open_attempts b1 + 1\<rparr>
               in if half_open_attempts b2 > 1 then (b2, Inl (CircuitBreakerOpenError ''half_open''))
                  else (b2, Inr ()))
         else (b1, Inr ()))"

definition on_success :: "breaker \<Rightarrow> breaker" where
  "on_success b =
     (if bstate b = HALF_OPEN then b\<lparr>bstate := CLOSED, failure_count := 0\<rparr>
      else if bstate b = CLOSED then b\<lparr>failure_count := 0\<rparr> else b)"

definition on_failure :: "real \<Rightarrow> breaker \<Rightarrow> breaker" where
  "on_failure now b =
     (let b1 = b\<lparr>failure_count := failure_count b + 1, last_failure_time := now\<rparr>
      in if bstate b1 = HALF_OPEN then b1\<lparr>bstate := OPEN\<rparr>
         else if failure_count b1 \<ge> failure_threshold b1 then b1\<lparr>bstate := OPEN\<rparr>
         else b1)"

definition reset :: "breaker \<Rightarrow> breaker" where
  "reset b = b\<lparr>bstate := CLOSED, failure_count := 0\<rparr>"

datatype 'r call_end = Returned 'r | Raised exn | Cancelled

text \<open>
  One whole call with nothing interleaved: admitted at \<open>t0\<close>, ended at \<open>t1\<close>.
\<close>

definition call :: "real \<Rightarrow> real \<Rightarrow> 'r call_end \<Rightarrow> breaker \<Rightarrow> breaker \<times> 'r result" where
  "call t0 t1 e b =
     (case admit t0 b of
        (b1, Inl err) \<Rightarrow> (b1, Inl err)
      | (b1, Inr _) \<Rightarrow>
          (case e of
             Returned r \<Rightarrow> (on_success b1, Inr r)
           | Raised x \<Rightarrow> (on_failure t1 b1, Inl x)
           | Cancelled \<Rightarrow> (b1, Inl (PassedThrough ''CancelledError''))))"

text \<open>Interleaved runs.\<close>

datatype event = Admit real | EndOk | EndFail real | EndCancelled | Reset

fun step :: "breaker \<Rightarrow> event \<Rightarrow> breaker" where
  "step b (Admit t) = fst (admit t b)"
| "step b EndOk = on_success b"
| "step b (EndFail t) = on_failure t b"
| "step b EndCancelled = b"
| "step b Reset = reset b"

definition run :: "breaker \<Rightarrow> event list \<Rightarrow> breaker" where
  "run b es = foldl step b es"

lemmas breaker_ops [guards] = read_state_def admit_def on_success_def on_failure_def reset_def

section \<open>Invariant\<close>

text \<open>The circuit is closed exactly while the consecutive failures stay below the threshold.\<close>

definition breaker_inv :: "breaker \<Rightarrow> bool" where
  "breaker_inv b \<longleftrightarrow> 1 \<le> failure_threshold b \<and> 0 \<le> failure_count b \<and>
     (bstate b = CLOSED \<longleftrightarrow> failure_count b < failure_threshold b)"

lemma init_inv: "1 \<le> n \<Longrightarrow> breaker_inv (init_breaker n t nm)"
  by (simp add: breaker_inv_def init_breaker_def)

lemma read_state_inv: "breaker_inv b \<Longrightarrow> breaker_inv (read_state t b)"
  by (auto simp: breaker_inv_def read_state_def)

lemma admit_inv: "breaker_inv b \<Longrightarrow> breaker_inv (fst (admit t b))"
  using read_state_inv [of b t] by (auto simp: breaker_inv_def admit_def Let_def)

lemma on_success_inv: "breaker_inv b \<Longrightarrow> breaker_inv (on_success b)"
  by (auto simp: breaker_inv_def on_success_def)

lemma on_failure_inv: "breaker_inv b \<Longrightarrow> breaker_inv (on_failure t b)"
  by (cases "bstate b") (auto simp: breaker_inv_def on_failure_def Let_def)

lemma reset_inv: "breaker_inv b \<Longrightarrow> breaker_inv (reset b)"
  by (auto simp: breaker_inv_def reset_def)

lemmas breaker_invs [intro] = read_state_inv admit_inv on_success_inv on_failure_inv reset_inv

lemma step_inv: "breaker_inv b \<Longrightarrow> breaker_inv (step b e)"
  by (cases e) auto

lemma run_inv: "breaker_inv b \<Longrightarrow> breaker_inv (run b es)"
  unfolding run_def by (induction es arbitrary: b) (auto simp: step_inv)

lemma step_threshold: "failure_threshold (step b e) = failure_threshold b"
  by (cases e) (auto simp: breaker_ops Let_def)

lemma run_threshold: "failure_threshold (run b es) = failure_threshold b"
  unfolding run_def by (induction es arbitrary: b) (auto simp: step_threshold)

lemma run_append: "run b (es @ fs) = run (run b es) fs"
  by (simp add: run_def)

section \<open>The probe\<close>

text \<open>A HALF_OPEN circuit whose probe is out: nothing but its end (or a reset) admits again.\<close>

definition probing :: "breaker \<Rightarrow> bool" where
  "probing b \<longleftrightarrow> bstate b = HALF_OPEN \<and> 1 \<le> half_open_attempts b"

lemma probing_rejects: "probing b \<Longrightarrow> snd (admit t b) = Inl (CircuitBreakerOpenError ''half_open'')"
  by (auto simp: probing_def admit_def read_state_def Let_def)

lemma probing_admit: "probing b \<Longrightarrow> probing (fst (admit t b))"
  by (auto simp: probing_def admit_def read_state_def Let_def)

lemma probing_run:
  "probing b \<Longrightarrow> (\<And>e. e \<in> set es \<Longrightarrow> e = EndCancelled \<or> (\<exists>t. e = Admit t)) \<Longrightarrow> probing (run b es)"
  unfolding run_def
proof (induction es arbitrary: b)
  case (Cons e es)
  have "probing (step b e)" using Cons.prems(1) Cons.prems(2) [of e] by (auto simp: probing_admit)
  then show ?case using Cons.IH [of "step b e"] Cons.prems(2) by simp
qed simp

lemma half_open_admission_probes: "admit t b = (b', Inr ()) \<Longrightarrow> bstate b' = HALF_OPEN \<Longrightarrow> 0 \<le> half_open_attempts b \<Longrightarrow> probing b'"
  by (auto simp: probing_def admit_def read_state_def Let_def split: if_splits)

section \<open>Properties\<close>

text \<open>
  In every interleaving of calls and resets the circuit is closed exactly when the
  recorded failure count is below the threshold.
\<close>

theorem breaker_closed_iff:
  assumes "1 \<le> n"
  shows "bstate (run (init_breaker n timeout name) es) = CLOSED \<longleftrightarrow>
     failure_count (run (init_breaker n timeout name) es) < n"
  using run_inv [OF init_inv [OF assms], of timeout name es]
    run_threshold [of "init_breaker n timeout name" es]
  by (auto simp: breaker_inv_def init_breaker_def)

theorem breaker_closed_iff_witness:
  "1 \<le> (2::int) \<and> bstate (run (init_breaker 2 30 []) [Admit 0, EndFail 1]) = CLOSED \<and>
   bstate (run (init_breaker 2 30 []) [Admit 0, EndFail 1, Admit 2, EndFail 3]) \<noteq> CLOSED"
proof -
  have h: "1 \<le> (2::int)" by simp
  show ?thesis using breaker_closed_iff [OF h, of 30 "[]" "[Admit 0, EndFail 1]"]
      breaker_closed_iff [OF h, of 30 "[]" "[Admit 0, EndFail 1, Admit 2, EndFail 3]"]
    by (simp add: run_def init_breaker_def breaker_ops)
qed


definition tripped :: breaker where
  "tripped = run (init_breaker 1 30 ''db'') [Admit 0, EndFail 1]"


text \<open>
  A cancelled probe wedges the breaker: cancellation of the call that a HALF_OPEN circuit let
  through runs neither handler, so from then on every call is rejected, for ever, whatever time
  passes, unless somebody resets the breaker by hand.
\<close>

theorem cancelled_probe_wedges:
  assumes "bstate b = OPEN" and "reset_timeout b \<le> t - last_failure_time b"
  shows "snd (admit u (run (fst (call t t' Cancelled b)) (map Admit ts)))
     = Inl (CircuitBreakerOpenError ''half_open'')"
proof -
  have "probing (fst (call t t' Cancelled b))"
    using assms by (auto simp: call_def probing_def admit_def read_state_def Let_def)
  then have "probing (run (fst (call t t' Cancelled b)) (map Admit ts))"
    using probing_run [of "fst (call t t' Cancelled b)" "map Admit ts"] by auto
  then show ?thesis by (rule probing_rejects)
qed

theorem cancelled_probe_wedges_witness:
  "bstate tripped = OPEN \<and>
   snd (admit 1000000 (fst (call 40 41 Cancelled tripped))) = Inl (CircuitBreakerOpenError ''half_open'')"
proof -
  have h: "bstate tripped = OPEN" "reset_timeout tripped \<le> 40 - last_failure_time tripped"
    by (simp_all add: tripped_def run_def init_breaker_def breaker_ops)
  show ?thesis using h(1) cancelled_probe_wedges [OF h, of 1000000 41 "[]"] by (simp add: run_def)
qed

text \<open>
  Recovery and re-opening: on an expired OPEN circuit a call that returns closes the circuit
  with a clean count, and one that raises re-opens it and restarts the timeout.
\<close>

theorem probe_outcome:
  fixes r :: 'r
  assumes "bstate b = OPEN" and "reset_timeout b \<le> t - last_failure_time b"
  shows "snd (call t t' (Returned r) b) = Inr r \<and>
     bstate (fst (call t t' (Returned r) b)) = CLOSED \<and>
     failure_count (fst (call t t' (Returned r) b)) = 0 \<and>
     snd (call t t' (Raised e :: 'r call_end) b) = Inl e \<and>
     bstate (fst (call t t' (Raised e :: 'r call_end) b)) = OPEN \<and>
     last_failure_time (fst (call t t' (Raised e :: 'r call_end) b)) = t'"
  using assms by (auto simp: call_def breaker_ops Let_def)

theorem probe_outcome_witness:
  "bstate tripped = OPEN \<and> bstate (fst (call 40 41 (Returned (7::int)) tripped)) = CLOSED"
proof -
  have h: "bstate tripped = OPEN" "reset_timeout tripped \<le> 40 - last_failure_time tripped"
    by (simp_all add: tripped_def run_def init_breaker_def breaker_ops)
  show ?thesis using h(1) probe_outcome [OF h, of 41 "7::int" ZeroDivisionError] by simp
qed

text \<open>While OPEN and not expired, nothing reaches the protected function.\<close>

lemma open_rejects:
  "bstate b = OPEN \<Longrightarrow> t - last_failure_time b < reset_timeout b \<Longrightarrow>
     call t t' e b = (b, Inl (CircuitBreakerOpenError ''open''))"
  by (simp add: call_def admit_def read_state_def)

end
