(* ===== verification/Rate_Limiter.thy ===== *)
theory Rate_Limiter
  imports Prelude
begin

text \<open>
  The sliding-window rate limiter of \<open>apps/services/user-service/src/ratelimit.py\<close>, in
  both of its modes: the in-memory list of hits per key and the Lua script over a Redis sorted
  set. Redis itself is modelled as far as the script uses it: a sorted set is the association
  list from member to score, and a key whose expiry has passed is empty.
\<close>

section \<open>In-memory mode\<close>

record rate_limiter =
  max_requests :: int
  window :: real
  hits :: "string \<Rightarrow> real list"

text \<open>
  \<open>max_requests or int(os.getenv(...))\<close>: \<open>None\<close> and 0 both fall back to the
  environment's value.
\<close>

definition init_limiter :: "int option \<Rightarrow> real option \<Rightarrow> int \<Rightarrow> real \<Rightarrow> rate_limiter" where
  "init_limiter maxr win env_max env_window =
     \<lparr>max_requests = (case maxr of None \<Rightarrow> env_max | Some m \<Rightarrow> if m = 0 then env_max else m),
      window = (case win of None \<Rightarrow> env_window | Some w \<Rightarrow> if w = 0 then env_window else w),
      hits = (\<lambda>_. [])\<rparr>"

definition is_allowed_memory :: "string \<Rightarrow> real \<Rightarrow> rate_limiter \<Rightarrow> bool \<times> rate_limiter" where
  "is_allowed_memory key now l =
     (let cutoff = now - window l;
          kept = filter (\<lambda>t. t > cutoff) (hits l key);
          l1 = l\<lparr>hits := (hits l)(key := kept)\<rparr>
      in if int (length kept) \<ge> max_requests l then (False, l1)
         else (True, l1\<lparr>hits := (hits l1)(key := kept @ [now])\<rparr>))"

section \<open>Redis mode\<close>

record zset =
  members :: "(string \<times> real) list"
  expire_at :: "real option"

text \<open>One atomic evaluation of the script, on the sorted set of one key.\<close>

definition sliding_window_lua :: "real \<Rightarrow> real \<Rightarrow> int \<Rightarrow> string \<Rightarrow> real \<Rightarrow> zset \<Rightarrow> int \<times> zset" where
  "sliding_window_lua now cutoff maxr member ttl z =
     (let present = (case expire_at z of None \<Rightarrow> members z
                     | Some e \<Rightarrow> if now \<ge> e then [] else members z);
          kept = filter (\<lambda>(m, score). \<not> score \<le> cutoff) present;
          count = int (length kept)
      in if count \<ge> maxr then (0, z\<lparr>members := kept\<rparr>)
         else (1, z\<lparr>members := AList.update member now kept, expire_at := Some (now + ttl)\<rparr>))"

text \<open>
  \<open>_is_allowed_redis\<close>: the arguments of the script. \<open>eval_result\<close> is \<open>None\<close> when the
  Redis call raises, which the code turns into \<open>RateLimiterUnavailable\<close>.
\<close>

definition is_allowed_redis :: "int \<Rightarrow> real \<Rightarrow> bool \<Rightarrow> real \<Rightarrow> string \<Rightarrow> zset \<Rightarrow> bool result \<times> zset" where
  "is_allowed_redis maxr win redis_up now member z =
     (if \<not> redis_up then (Inl RateLimiterUnavailable, z)
      else (let cutoff = now - win; ttl = of_int \<lfloor>win\<rfloor> + 10;
                (r, z') = sliding_window_lua now cutoff maxr member ttl z
            in (Inr (r = 1), z')))"

section \<open>The limiter's contract\<close>

text \<open>The number of admissions inside the window that ends at \<open>t\<close>.\<close>

definition in_window :: "real \<Rightarrow> real \<Rightarrow> real list \<Rightarrow> nat" where
  "in_window w t us = length (filter (\<lambda>u. t - w < u \<and> u \<le> t) us)"

lemma in_window_append: "in_window w t (us @ vs) = in_window w t us + in_window w t vs"
  by (simp add: in_window_def)

lemma late_not_counted: "(\<And>u. u \<in> set us \<Longrightarrow> t < u) \<Longrightarrow> in_window w t us = 0"
  by (auto simp: in_window_def filter_empty_conv not_le)

lemma drop_expired:
  "t0 \<le> t \<Longrightarrow> in_window w t (filter (\<lambda>u. u > t0 - w) us) = in_window w t us"
  unfolding in_window_def filter_filter by (rule arg_cong [of _ _ length], rule filter_cong) auto

lemma in_window_le_length: "in_window w t us \<le> length us"
  by (simp add: in_window_def)

lemma in_window_filter_le: "in_window w t (filter p us) \<le> in_window w t us"
proof (induction us)
  case Nil
  then show ?case by simp
next
  case (Cons u us)
  then show ?case by (auto simp: in_window_def)
qed

text \<open>
  A client of the limiter relies on its window: a request is allowed exactly when fewer than the
  maximum were allowed inside the window before it, and only allowed requests are recorded.
\<close>

locale sliding_window =
  fixes allow :: "'s \<Rightarrow> 'i \<Rightarrow> bool \<times> 's" and live :: "'s \<Rightarrow> real list"
    and wf :: "'s \<Rightarrow> bool" and ok :: "'s \<Rightarrow> 'i \<Rightarrow> bool" and tm :: "'i \<Rightarrow> real"
    and cap :: "'s \<Rightarrow> int" and win :: "'s \<Rightarrow> real"
  assumes allow_iff: "wf s \<Longrightarrow> ok s i \<Longrightarrow>
      fst (allow s i) \<longleftrightarrow> int (length (filter (\<lambda>u. u > tm i - win s) (live s))) < cap s"
    and allow_live: "wf s \<Longrightarrow> ok s i \<Longrightarrow> live (snd (allow s i)) =
      filter (\<lambda>u. u > tm i - win s) (live s) @ (if fst (allow s i) then [tm i] else [])"
    and allow_wf: "wf s \<Longrightarrow> ok s i \<Longrightarrow> wf (snd (allow s i))"
    and allow_cap: "cap (snd (allow s i)) = cap s"
    and allow_win: "win (snd (allow s i)) = win s"
begin

fun accepted :: "'s \<Rightarrow> 'i list \<Rightarrow> real list" where
  "accepted s [] = []"
| "accepted s (i # is) =
     (if fst (allow s i) then [tm i] else []) @ accepted (snd (allow s i)) is"

fun all_ok :: "'s \<Rightarrow> 'i list \<Rightarrow> bool" where
  "all_ok s [] = True"
| "all_ok s (i # is) = (ok s i \<and> all_ok (snd (allow s i)) is)"

lemma accepted_times: "set (accepted s is) \<subseteq> tm ` set is"
  by (induction "is" arbitrary: s) (auto split: if_splits)

theorem window_bound:
  assumes "wf s" and "all_ok s is" and "sorted (map tm is)"
    and "\<And>t. int (in_window (win s) t (live s)) \<le> max 0 (cap s)"
  shows "int (in_window (win s) t (live s @ accepted s is)) \<le> max 0 (cap s)"
  using assms
proof (induction "is" arbitrary: s)
  case Nil
  then show ?case by simp
next
  case (Cons i "is")
  let ?s = "snd (allow s i)" and ?w = "win s"
  have ok: "ok s i" "all_ok ?s is" using Cons.prems(2) by auto
  note al = allow_live [OF Cons.prems(1) ok(1)] and iff = allow_iff [OF Cons.prems(1) ok(1)]
  have live_bound: "int (in_window ?w u (live ?s)) \<le> max 0 (cap s)" for u
  proof (cases "fst (allow s i)")
    case True
    have "int (length (live ?s)) \<le> cap s" using True al iff by auto
    then show ?thesis using in_window_le_length [of ?w u "live ?s"] by linarith
  next
    case False
    then have "live ?s = filter (\<lambda>u. u > tm i - ?w) (live s)" using al by simp
    then show ?thesis using in_window_filter_le [of ?w u _ "live s"] Cons.prems(4) [of u]
      by (metis (mono_tags, lifting) of_nat_mono order_trans)
  qed
  have step: "int (in_window ?w t (live ?s @ accepted ?s is)) \<le> max 0 (cap s)"
    using Cons.IH [OF allow_wf [OF Cons.prems(1) ok(1)] ok(2)] Cons.prems(3) live_bound
    by (simp add: allow_cap allow_win)
  show ?case
  proof (cases "tm i \<le> t")
    case True
    have "in_window ?w t (live s @ accepted s (i # is)) = in_window ?w t (live ?s @ accepted ?s is)"
      by (simp add: in_window_append al drop_expired [OF True])
    then show ?thesis using step by simp
  next
    case False
    have "t < u" if "u \<in> set (accepted s (i # is))" for u
      using that accepted_times [of s "i # is"] False Cons.prems(3) by force
    then have "in_window ?w t (accepted s (i # is)) = 0" by (rule late_not_counted)
    then show ?thesis using Cons.prems(4) [of t] by (simp add: in_window_append)
  qed
qed

end

section \<open>Both modes keep the contract\<close>

interpretation mem: sliding_window
  "\<lambda>l t. is_allowed_memory k t l" "\<lambda>l. hits l k" "\<lambda>_. True" "\<lambda>_ _. True" "\<lambda>t. t"
  max_requests window for k
  by unfold_locales (auto simp: is_allowed_memory_def Let_def not_le)

definition redis_wf :: "real \<Rightarrow> zset \<Rightarrow> bool" where
  "redis_wf w z \<longleftrightarrow> (\<forall>e. expire_at z = Some e \<longrightarrow> (\<forall>u \<in> set (map snd (members z)). u + w \<le> e))"

text \<open>The member is new (it carries random digits) and the clock has not run backwards.\<close>

definition redis_fresh :: "zset \<Rightarrow> real \<times> string \<Rightarrow> bool" where
  "redis_fresh z i \<longleftrightarrow> snd i \<notin> fst ` set (members z) \<and> (\<forall>u \<in> set (map snd (members z)). u \<le> fst i)"

definition redis_allow :: "int \<Rightarrow> real \<Rightarrow> zset \<Rightarrow> real \<times> string \<Rightarrow> bool \<times> zset" where
  "redis_allow maxr w z i =
     (let (r, z') = is_allowed_redis maxr w True (fst i) (snd i) z in (r = Inr True, z'))"

lemma update_fresh: "k \<notin> fst ` set d \<Longrightarrow> AList.update k v d = d @ [(k, v)]"
  by (induction d) auto

lemma expired_all_old:
  "redis_wf w z \<Longrightarrow> expire_at z = Some e \<Longrightarrow> e \<le> now \<Longrightarrow>
     filter (\<lambda>(m, sc). \<not> sc \<le> now - w) (members z) = []"
  by (fastforce simp: redis_wf_def filter_empty_conv)

lemma filter_snd: "map snd (filter (\<lambda>(m, sc). \<not> sc \<le> c) ms) = filter (\<lambda>u. u > c) (map snd ms)"
  for c :: real
  by (induction ms) (auto simp: not_le)

text \<open>The script, with the expiry of the key out of the way: it never changes the outcome.\<close>

lemma redis_allow_eq:
  assumes "redis_wf w z"
  shows "redis_allow maxr w z (now, member) =
    (let kept = filter (\<lambda>(m, sc). \<not> sc \<le> now - w) (members z)
     in if int (length kept) \<ge> maxr then (False, z\<lparr>members := kept\<rparr>)
        else (True, z\<lparr>members := AList.update member now kept,
                expire_at := Some (now + (of_int \<lfloor>w\<rfloor> + 10))\<rparr>))"
  using expired_all_old [OF assms, of _ now]
  by (cases "expire_at z") (auto simp: redis_allow_def is_allowed_redis_def sliding_window_lua_def Let_def)

lemma redis_step:
  assumes "redis_wf w z" and "redis_fresh z i"
  shows "fst (redis_allow maxr w z i) \<longleftrightarrow>
      int (length (filter (\<lambda>u. u > fst i - w) (map snd (members z)))) < maxr"
    and "map snd (members (snd (redis_allow maxr w z i))) =
      filter (\<lambda>u. u > fst i - w) (map snd (members z)) @ (if fst (redis_allow maxr w z i) then [fst i] else [])"
proof -
  obtain now member where i: "i = (now, member)" by (cases i)
  let ?kept = "filter (\<lambda>(m, sc). \<not> sc \<le> now - w) (members z)"
  have fresh: "member \<notin> fst ` set ?kept" using assms(2) i by (force simp: redis_fresh_def)
  have len: "length (filter (\<lambda>u. u > now - w) (map snd (members z))) = length ?kept"
    by (simp flip: filter_snd)
  show "fst (redis_allow maxr w z i) \<longleftrightarrow>
      int (length (filter (\<lambda>u. u > fst i - w) (map snd (members z)))) < maxr"
    unfolding i redis_allow_eq [OF assms(1)] using len by (auto simp: Let_def)
  show "map snd (members (snd (redis_allow maxr w z i))) =
      filter (\<lambda>u. u > fst i - w) (map snd (members z)) @ (if fst (redis_allow maxr w z i) then [fst i] else [])"
    unfolding i redis_allow_eq [OF assms(1)]
    by (simp add: Let_def update_fresh [OF fresh] flip: filter_snd)
qed

lemma redis_step_wf:
  assumes "redis_wf w z" and "redis_fresh z i"
  shows "redis_wf w (snd (redis_allow maxr w z i))"
proof -
  obtain now member where i: "i = (now, member)" by (cases i)
  let ?kept = "filter (\<lambda>(m, sc). \<not> sc \<le> now - w) (members z)"
  have fresh: "member \<notin> fst ` set ?kept" using assms(2) i by (force simp: redis_fresh_def)
  have "u + w \<le> now + (of_int \<lfloor>w\<rfloor> + 10)" if "u \<le> now" for u
    using that real_of_int_floor_add_one_ge [of w] by linarith
  moreover have "u \<le> now" if "(m, u) \<in> set (members z)" for m u
    using that assms(2) i by (force simp: redis_fresh_def)
  ultimately show ?thesis
    using assms(1) unfolding i redis_allow_eq [OF assms(1)]
    by (force simp: Let_def update_fresh [OF fresh] redis_wf_def)
qed

interpretation red: sliding_window "redis_allow maxr w" "\<lambda>z. map snd (members z)"
  "redis_wf w" redis_fresh fst "\<lambda>_. maxr" "\<lambda>_. w" for maxr w
  by unfold_locales (simp_all only: redis_step redis_step_wf)

section \<open>Properties\<close>

text \<open>The times at which requests for one key are let through, over a sequence of requests.\<close>

fun memory_accepted :: "string \<Rightarrow> rate_limiter \<Rightarrow> real list \<Rightarrow> real list" where
  "memory_accepted k l [] = []"
| "memory_accepted k l (t # ts) =
     (if fst (is_allowed_memory k t l) then [t] else []) @
      memory_accepted k (snd (is_allowed_memory k t l)) ts"

fun redis_accepted :: "int \<Rightarrow> real \<Rightarrow> zset \<Rightarrow> (real \<times> string) list \<Rightarrow> real list" where
  "redis_accepted n w z [] = []"
| "redis_accepted n w z (i # is) =
     (if fst (redis_allow n w z i) then [fst i] else []) @
      redis_accepted n w (snd (redis_allow n w z i)) is"

fun redis_ok :: "int \<Rightarrow> real \<Rightarrow> zset \<Rightarrow> (real \<times> string) list \<Rightarrow> bool" where
  "redis_ok n w z [] = True"
| "redis_ok n w z (i # is) = (redis_fresh z i \<and> redis_ok n w (snd (redis_allow n w z i)) is)"

lemma memory_accepted_eq: "memory_accepted k l ts = mem.accepted k l ts"
  by (induction ts arbitrary: l) auto

lemma mem_all_ok: "mem.all_ok k l ts"
  by (induction ts arbitrary: l) auto

lemma redis_accepted_eq: "redis_accepted n w z is = red.accepted n w z is"
  by (induction "is" arbitrary: z) auto

lemma redis_ok_eq: "redis_ok n w z is = red.all_ok n w z is"
  by (induction "is" arbitrary: z) auto

text \<open>
  In memory, for requests in time order no window of the configured length ever holds more
  admissions than the maximum, wherever the window ends.
\<close>

theorem memory_window_bound:
  assumes "sorted ts" and "hits l k = []"
  shows "int (in_window (window l) t (memory_accepted k l ts)) \<le> max 0 (max_requests l)"
  using mem.window_bound [where s = l and k = k and t = t, OF _ mem_all_ok [of k l ts]] assms
  by (simp add: memory_accepted_eq in_window_def)

theorem memory_window_bound_witness:
  "sorted [0, 1, 2, 11 :: real] \<and>
   memory_accepted ''ip'' (init_limiter (Some 2) (Some 10) 10 60) [0, 1, 2, 11] = [0, 1, 11] \<and>
   int (in_window 10 11 [0, 1, 11]) \<le> 2"
proof -
  let ?l = "init_limiter (Some 2) (Some 10) 10 60"
  have h: "sorted [0, 1, 2, 11 :: real]" "hits ?l ''ip'' = []" by (simp_all add: init_limiter_def)
  have e: "memory_accepted ''ip'' ?l [0, 1, 2, 11] = [0, 1, 11]"
    by (simp add: init_limiter_def is_allowed_memory_def Let_def)
  show ?thesis using h(1) e memory_window_bound [OF h, of 11] by (simp add: init_limiter_def)
qed

text \<open>
  The Redis script keeps the same bound, expiry of the key included, for requests in time
  order with fresh members.
\<close>

theorem redis_window_bound:
  assumes "sorted (map fst is)" and "members z = []" and "redis_ok n w z is"
  shows "int (in_window w t (redis_accepted n w z is)) \<le> max 0 n"
proof -
  have "redis_wf w z" using assms(2) by (simp add: redis_wf_def)
  then show ?thesis
    using red.window_bound [of w z n "is" t] assms by (simp add: redis_accepted_eq redis_ok_eq in_window_def)
qed

definition empty_zset :: zset where
  "empty_zset = \<lparr>members = [], expire_at = None\<rparr>"

theorem redis_window_bound_witness:
  "redis_ok 1 10 empty_zset [(0, ''a''), (5, ''b''), (20, ''c'')] \<and>
   redis_accepted 1 10 empty_zset [(0, ''a''), (5, ''b''), (20, ''c'')] = [0, 20] \<and>
   int (in_window 10 20 [0, 20]) \<le> 1"
proof -
  let ?is = "[(0, ''a''), (5, ''b''), (20, ''c'')] :: (real \<times> string) list"
  have ok: "redis_ok 1 10 empty_zset ?is"
    by (simp add: empty_zset_def redis_fresh_def redis_allow_def is_allowed_redis_def
        sliding_window_lua_def Let_def)
  have e: "redis_accepted 1 10 empty_zset ?is = [0, 20]"
    by (simp add: empty_zset_def redis_allow_def is_allowed_redis_def sliding_window_lua_def Let_def)
  have s: "sorted (map fst ?is)" "members empty_zset = []" by (simp_all add: empty_zset_def)
  show ?thesis using ok e redis_window_bound [OF s ok, of 20] by simp
qed

text \<open>
  C20. Both modes are the same limiter: from states that record the same admissions, a request is
  answered alike and the admissions recorded afterwards agree again. When Redis is down the code
  raises and does not let the request through.
\<close>

theorem redis_refines_memory:
  assumes "redis_wf (window l) z" and "redis_fresh z (now, member)"
    and "map snd (members z) = hits l k"
  shows "(case is_allowed_redis (max_requests l) (window l) True now member z of (r, z') \<Rightarrow>
      r = Inr (fst (is_allowed_memory k now l)) \<and>
      map snd (members z') = hits (snd (is_allowed_memory k now l)) k) \<and>
    fst (is_allowed_redis (max_requests l) (window l) False now member z) = Inl RateLimiterUnavailable"
proof -
  obtain r z' where rz: "is_allowed_redis (max_requests l) (window l) True now member z = (Inr r, z')"
    by (cases "sliding_window_lua now (now - window l) (max_requests l) member
        (of_int \<lfloor>window l\<rfloor> + 10) z") (auto simp: is_allowed_redis_def Let_def)
  have f: "redis_allow (max_requests l) (window l) z (now, member) = (r, z')"
    using rz by (simp add: redis_allow_def)
  show ?thesis
    using redis_step [OF assms(1,2), of "max_requests l"] f rz assms(3)
    by (auto simp: is_allowed_memory_def Let_def is_allowed_redis_def)
qed

theorem redis_refines_memory_witness:
  "redis_wf 10 empty_zset \<and> redis_fresh empty_zset (3, ''m'') \<and>
   fst (is_allowed_redis 2 10 True 3 ''m'' empty_zset) = Inr True"
proof -
  let ?l = "init_limiter (Some 2) (Some 10) 10 60"
  have h: "redis_wf (window ?l) empty_zset" "redis_fresh empty_zset (3, ''m'')"
    "map snd (members empty_zset) = hits ?l ''ip''"
    by (simp_all add: init_limiter_def empty_zset_def redis_wf_def redis_fresh_def)
  have "fst (is_allowed_memory ''ip'' 3 ?l)" by (simp add: init_limiter_def is_allowed_memory_def Let_def)
  then show ?thesis
    using h redis_refines_memory [OF h] by (auto simp: init_limiter_def)
qed

end
