(* ===== verification/Python_Values.thy ===== *)
theory Python_Values
  imports Prelude "HOL-Library.Sublist"
begin

text \<open>
  The built-in operations on strings and JSON values that the modelled code uses: \<open>str.lower\<close>,
  \<open>str.strip\<close>, \<open>str.split\<close>, \<open>in\<close> on strings, truth values, \<open>dict.get\<close>,
  \<open>float(x)\<close>. Characters are Latin-1 code points.
\<close>

section \<open>Strings\<close>

definition lower_char :: "char \<Rightarrow> char" where
  "lower_char c = (let n = of_char c :: nat
     in if 65 \<le> n \<and> n \<le> 90 \<or> 192 \<le> n \<and> n \<le> 222 \<and> n \<noteq> 215 then char_of (n + 32) else c)"

definition lower :: "string \<Rightarrow> string" where
  "lower s = map lower_char s"

definition is_space :: "char \<Rightarrow> bool" where
  "is_space c = (let n = of_char c :: nat
     in 9 \<le> n \<and> n \<le> 13 \<or> 28 \<le> n \<and> n \<le> 32 \<or> n = 133 \<or> n = 160)"

definition strip :: "string \<Rightarrow> string" where
  "strip s = rev (dropWhile is_space (rev (dropWhile is_space s)))"

text \<open>\<open>s.rstrip(chars)\<close>\<close>

definition rstrip_chars :: "char list \<Rightarrow> string \<Rightarrow> string" where
  "rstrip_chars cs s = rev (dropWhile (\<lambda>c. c \<in> set cs) (rev s))"

text \<open>\<open>s.split()\<close>: the maximal runs of non-space characters.\<close>

fun words_acc :: "string \<Rightarrow> string \<Rightarrow> string list" where
  "words_acc w [] = (if w = [] then [] else [rev w])"
| "words_acc w (c # cs) =
     (if is_space c then (if w = [] then [] else [rev w]) @ words_acc [] cs
      else words_acc (c # w) cs)"

definition split_ws :: "string \<Rightarrow> string list" where
  "split_ws s = words_acc [] s"

text \<open>\<open>sub in s\<close> is \<open>sublist sub s\<close>.\<close>

text \<open>\<open>s.split(sep, maxsplit=1)[0]\<close>: everything before the first occurrence of \<open>sep\<close>.\<close>

fun before :: "string \<Rightarrow> string \<Rightarrow> string" where
  "before sep [] = []"
| "before sep (c # cs) = (if prefix sep (c # cs) then [] else c # before sep cs)"

definition is_word :: "string \<Rightarrow> bool" where
  "is_word w \<longleftrightarrow> w \<noteq> [] \<and> list_all (\<lambda>c. \<not> is_space c) w"

lemma list_all_rev: "list_all p (rev xs) = list_all p xs"
  by (simp add: list_all_iff)

lemma words_acc_words:
  "list_all (\<lambda>c. \<not> is_space c) w \<Longrightarrow> list_all is_word (words_acc w s)"
  by (induction w s rule: words_acc.induct) (simp_all add: is_word_def list_all_rev)

lemma split_ws_words: "list_all is_word (split_ws s)"
  unfolding split_ws_def by (rule words_acc_words) simp

lemma before_prefix: "\<exists>t. s = before sep s @ t"
  by (induction s) auto

lemma before_no_sep: "sep \<noteq> [] \<Longrightarrow> \<not> sublist sep (before sep s)"
proof (induction s)
  case (Cons c cs)
  have "\<not> prefix sep (c # before sep cs)" if n: "\<not> prefix sep (c # cs)"
  proof
    assume "prefix sep (c # before sep cs)"
    then obtain t where "c # before sep cs = sep @ t" by (auto simp: prefix_def)
    moreover obtain u where "cs = before sep cs @ u" using before_prefix by blast
    ultimately have "c # cs = sep @ (t @ u)" by (metis append_Cons append_assoc)
    then show False using n by (auto simp: prefix_def)
  qed
  then show ?case using Cons by (auto simp: sublist_Cons_right)
qed simp

section \<open>JSON values\<close>

fun truthy :: "json \<Rightarrow> bool" where
  "truthy JNull = False"
| "truthy (JBool b) = b"
| "truthy (JInt n) = (n \<noteq> 0)"
| "truthy (JFloat x) = (x \<noteq> 0)"
| "truthy (JStr s) = (s \<noteq> [])"
| "truthy (JArr xs) = (xs \<noteq> [])"
| "truthy (JObj kvs) = (kvs \<noteq> [])"

type_synonym dict = "(string \<times> json) list"

text \<open>\<open>d.get(k)\<close>: JSON \<open>null\<close> and a missing key both read as \<open>None\<close>.\<close>

definition get :: "dict \<Rightarrow> string \<Rightarrow> json" where
  "get d k = (case map_of d k of None \<Rightarrow> JNull | Some v \<Rightarrow> v)"

text \<open>\<open>d.get(k, default)\<close>: a present \<open>null\<close> is returned as it is.\<close>

definition get_default :: "dict \<Rightarrow> string \<Rightarrow> json \<Rightarrow> json" where
  "get_default d k v = (case map_of d k of None \<Rightarrow> v | Some x \<Rightarrow> x)"

text \<open>\<open>a or b\<close>\<close>

definition por :: "json \<Rightarrow> json \<Rightarrow> json" where
  "por a b = (if truthy a then a else b)"

section \<open>float(x)\<close>

text \<open>
  Decimal literals as \<open>float(str)\<close> reads them: surrounding space, a sign, digits with an
  optional point, an optional exponent. The names of the infinities and NaN, which have no real
  value, and digit separators are left out: they read as a failure here.
\<close>

definition is_digit :: "char \<Rightarrow> bool" where
  "is_digit c = (let n = of_char c :: nat in 48 \<le> n \<and> n \<le> 57)"

definition digits_value :: "string \<Rightarrow> nat" where
  "digits_value ds = foldl (\<lambda>a c. 10 * a + (of_char c - 48)) 0 ds"

definition read_sign :: "string \<Rightarrow> real \<times> string" where
  "read_sign s = (case s of
       c # cs \<Rightarrow> if c = CHR ''-'' then (-1, cs) else if c = CHR ''+'' then (1, cs) else (1, s)
     | [] \<Rightarrow> (1, []))"

definition read_exponent :: "string \<Rightarrow> real option" where
  "read_exponent s = (case s of
       [] \<Rightarrow> Some 1
     | c # cs \<Rightarrow>
         if c = CHR ''e'' \<or> c = CHR ''E''
         then (let (sg, ds) = read_sign cs
               in if ds \<noteq> [] \<and> list_all is_digit ds
                  then Some (if sg < 0 then 1 / 10 ^ digits_value ds else 10 ^ digits_value ds)
                  else None)
         else None)"

definition read_decimal :: "string \<Rightarrow> real option" where
  "read_decimal s =
     (let (sg, s1) = read_sign (strip s);
          ip = takeWhile is_digit s1; r = dropWhile is_digit s1;
          (fp, r2) = (case r of
             c # cs \<Rightarrow> if c = CHR ''.'' then (takeWhile is_digit cs, dropWhile is_digit cs) else ([], r)
           | [] \<Rightarrow> ([], []))
      in if ip = [] \<and> fp = [] then None
         else map_option (\<lambda>e. sg * (of_nat (digits_value ip)
                + of_nat (digits_value fp) / 10 ^ length fp) * e) (read_exponent r2))"

fun py_float :: "json \<Rightarrow> real result" where
  "py_float (JInt n) = Inr (of_int n)"
| "py_float (JFloat x) = Inr x"
| "py_float (JBool b) = Inr (if b then 1 else 0)"
| "py_float (JStr s) = (case read_decimal s of
      None \<Rightarrow> Inl (ValueError ''could not convert string to float'') | Some x \<Rightarrow> Inr x)"
| "py_float _ = Inl (TypeError ''float() argument must be a string or a real number'')"

text \<open>\<open>try: float(v) except (TypeError, ValueError): None\<close>\<close>

definition float_or_none :: "json \<Rightarrow> real option" where
  "float_or_none v = (case py_float v of Inl _ \<Rightarrow> None | Inr x \<Rightarrow> Some x)"

text \<open>\<open>a - b\<close>: defined on numbers (a bool is an int), otherwise a \<open>TypeError\<close>.\<close>

fun py_num :: "json \<Rightarrow> (int + real) option" where
  "py_num (JInt n) = Some (Inl n)"
| "py_num (JFloat x) = Some (Inr x)"
| "py_num (JBool b) = Some (Inl (if b then 1 else 0))"
| "py_num _ = None"

definition py_sub :: "json \<Rightarrow> json \<Rightarrow> json result" where
  "py_sub a b = (case (py_num a, py_num b) of
       (Some (Inl m), Some (Inl n)) \<Rightarrow> Inr (JInt (m - n))
     | (Some (Inl m), Some (Inr y)) \<Rightarrow> Inr (JFloat (of_int m - y))
     | (Some (Inr x), Some (Inl n)) \<Rightarrow> Inr (JFloat (x - of_int n))
     | (Some (Inr x), Some (Inr y)) \<Rightarrow> Inr (JFloat (x - y))
     | _ \<Rightarrow> Inl (TypeError ''unsupported operand''))"

text \<open>\<open>float(a) / float(b)\<close>\<close>

definition py_ratio :: "json \<Rightarrow> json \<Rightarrow> real result" where
  "py_ratio a b = and_then (py_float a) (\<lambda>x. and_then (py_float b) (\<lambda>y.
     if y = 0 then Inl ZeroDivisionError else Inr (x / y)))"

text \<open>
  \<open>str(v)\<close>: the text of a string is the string; the rendering of any other value is the
  argument \<open>str_of\<close>.
\<close>

definition py_str :: "(json \<Rightarrow> string) \<Rightarrow> json \<Rightarrow> string" where
  "py_str str_of v = (case v of JStr s \<Rightarrow> s | _ \<Rightarrow> str_of v)"

lemma py_str_JStr [simp]: "py_str f (JStr s) = s"
  by (simp add: py_str_def)

end
