(* ===== verification/Cognitive_Types.thy ===== *)
theory Cognitive_Types
  imports Python_Values "HOL-Library.Product_Lexorder"
begin

text \<open>
  The immutable artifacts the capabilities pass to one another (the Pydantic models under
  \<open>libs/perception\<close>, \<open>libs/reasoning\<close>, \<open>libs/learning\<close>, \<open>libs/action\<close>), their
  deterministic, content-addressed identifiers, and the append-only tables that hold them.

  \<open>uuid5\<close> (namespace and name to identifier) and \<open>fmt\<close> (an f-string to its text) are
  arguments wherever they are used; what is modelled is the name that is hashed.
\<close>

section \<open>Text of an identifier\<close>

definition hex_char :: "nat \<Rightarrow> char" where
  "hex_char d = (if d < 10 then char_of (48 + d) else char_of (87 + d))"

fun hex :: "nat \<Rightarrow> nat \<Rightarrow> string" where
  "hex 0 n = []"
| "hex (Suc k) n = hex k (n div 16) @ [hex_char (n mod 16)]"

definition uuid_str :: "uuid \<Rightarrow> string" where
  "uuid_str u = (let h = hex 32 (unat u)
     in take 8 h @ ''-'' @ take 4 (drop 8 h) @ ''-'' @ take 4 (drop 12 h) @ ''-'' @
        take 4 (drop 16 h) @ ''-'' @ drop 20 h)"

lemma length_hex [simp]: "length (hex k n) = k"
  by (induction k n rule: hex.induct) auto

lemma hex_char_inj: "a < 16 \<Longrightarrow> b < 16 \<Longrightarrow> hex_char a = hex_char b \<Longrightarrow> a = b"
proof -
  assume ab: "a < 16" "b < 16" and e: "hex_char a = hex_char b"
  have v: "(of_char (hex_char d) :: nat) = (if d < 10 then 48 + d else 87 + d)" if "d < 16" for d
    using that by (simp add: hex_char_def)
  show ?thesis using arg_cong [OF e, of "of_char :: char \<Rightarrow> nat"] ab v by (auto split: if_splits)
qed

lemma hex_inj: "n < 16 ^ k \<Longrightarrow> m < 16 ^ k \<Longrightarrow> hex k n = hex k m \<Longrightarrow> n = m"
proof (induction k arbitrary: n m)
  case (Suc k)
  have "n div 16 < 16 ^ k" "m div 16 < 16 ^ k"
    using Suc.prems by (auto simp: less_mult_imp_div_less mult.commute)
  moreover have "hex k (n div 16) = hex k (m div 16)" "n mod 16 = m mod 16"
    using Suc.prems(3) by (auto intro: hex_char_inj)
  ultimately have "n div 16 = m div 16" using Suc.IH by blast
  then show ?case using \<open>n mod 16 = m mod 16\<close> by (metis div_mult_mod_eq)
qed simp

lemma length_uuid_str [simp]: "length (uuid_str u) = 36"
  by (simp add: uuid_str_def Let_def)

lemma uuid_str_inj: "uuid_str a = uuid_str b \<Longrightarrow> a = b"
proof -
  assume e: "uuid_str a = uuid_str b"
  have split: "take 8 h @ take 4 (drop 8 h) @ take 4 (drop 12 h) @ take 4 (drop 16 h) @ drop 20 h = h"
    for h :: string
    by (simp add: take_add [symmetric] flip: take_add append_assoc)
  define h g where "h = hex 32 (unat a)" and "g = hex 32 (unat b)"
  have "length h = 32" "length g = 32" by (simp_all add: h_def g_def)
  then have c: "take 8 h = take 8 g \<and> take 4 (drop 8 h) = take 4 (drop 8 g) \<and>
      take 4 (drop 12 h) = take 4 (drop 12 g) \<and> take 4 (drop 16 h) = take 4 (drop 16 g) \<and>
      drop 20 h = drop 20 g"
    using e by (simp add: uuid_str_def Let_def append_eq_append_conv flip: h_def g_def)
  have "h = take 8 h @ take 4 (drop 8 h) @ take 4 (drop 12 h) @ take 4 (drop 16 h) @ drop 20 h"
    by (rule split [symmetric])
  also have "\<dots> = take 8 g @ take 4 (drop 8 g) @ take 4 (drop 12 g) @ take 4 (drop 16 g) @ drop 20 g"
    using c by (simp only:)
  also have "\<dots> = g" by (rule split)
  finally have "hex 32 (unat a) = hex 32 (unat b)" by (simp add: h_def g_def)
  moreover have "unat u < 16 ^ 32" for u :: uuid using unsigned_less [of u, where ?'a = nat] by simp
  ultimately have "unat a = unat b" using hex_inj by blast
  then show ?thesis by (metis word_eq_iff_unsigned)
qed

lemma uuid_str_append_inj: "uuid_str a @ x = uuid_str b @ y \<longleftrightarrow> a = b \<and> x = y"
  by (auto simp: append_eq_append_conv dest: uuid_str_inj)

text \<open>\<open>",".join(str(x) for x in sorted(ids))\<close>\<close>

fun join_uuids :: "uuid list \<Rightarrow> string" where
  "join_uuids [] = []"
| "join_uuids [u] = uuid_str u"
| "join_uuids (u # us) = uuid_str u @ '','' @ join_uuids us"

definition ordered_ids :: "uuid list \<Rightarrow> string" where
  "ordered_ids ids = join_uuids (sort ids)"

type_synonym uuid5 = "uuid \<Rightarrow> string \<Rightarrow> uuid"

lemma join_uuids_Cons: "us \<noteq> [] \<Longrightarrow> join_uuids (u # us) = uuid_str u @ '','' @ join_uuids us"
  by (cases us) auto

lemma join_uuids_inj: "join_uuids us = join_uuids vs \<longleftrightarrow> us = vs"
proof (induction us arbitrary: vs)
  case Nil
  then show ?case
    by (cases vs rule: join_uuids.cases) (auto simp: uuid_str_def Let_def)
next
  case (Cons u us)
  show ?case
  proof (cases vs)
    case Nil
    then show ?thesis by (cases us) (auto simp: uuid_str_def Let_def)
  next
    case v: (Cons v vs')
    show ?thesis
      by (cases "us = []"; cases "vs' = []")
         (use Cons.IH [of vs'] v in \<open>auto simp: join_uuids_Cons uuid_str_append_inj
            dest: arg_cong [of _ _ length] uuid_str_inj\<close>)
  qed
qed

lemma ordered_ids_inj: "ordered_ids xs = ordered_ids ys \<longleftrightarrow> mset xs = mset ys"
proof -
  have "sort xs = sort ys" if "mset xs = mset ys"
    by (rule properties_for_sort) (simp_all add: that)
  moreover have "mset xs = mset ys" if "sort xs = sort ys"
    using arg_cong [OF that, of mset] by simp
  ultimately show ?thesis unfolding ordered_ids_def join_uuids_inj by blast
qed

section \<open>Quality classes\<close>

datatype quality_class = Q1 | Q2 | Q3 | Q4

text \<open>Q1 is the strongest evidence: the order of the classes is that of their weights.\<close>

instantiation quality_class :: linorder
begin

fun strength :: "quality_class \<Rightarrow> nat" where
  "strength Q1 = 3" | "strength Q2 = 2" | "strength Q3 = 1" | "strength Q4 = 0"

definition less_eq_quality_class :: "quality_class \<Rightarrow> quality_class \<Rightarrow> bool" where
  "less_eq_quality_class a b \<longleftrightarrow> strength a \<le> strength b"

definition less_quality_class :: "quality_class \<Rightarrow> quality_class \<Rightarrow> bool" where
  "less_quality_class a b \<longleftrightarrow> strength a < strength b"

instance
proof
  fix a b :: quality_class
  show "a \<le> b \<Longrightarrow> b \<le> a \<Longrightarrow> a = b"
    by (cases a; cases b) (simp_all add: less_eq_quality_class_def)
qed (auto simp: less_eq_quality_class_def less_quality_class_def)

end

definition quality_value :: "quality_class \<Rightarrow> string" where
  "quality_value q = (case q of Q1 \<Rightarrow> ''Q1'' | Q2 \<Rightarrow> ''Q2'' | Q3 \<Rightarrow> ''Q3'' | Q4 \<Rightarrow> ''Q4'')"

section \<open>Perception artifacts\<close>

record observation =
  o_id :: uuid
  o_tenant :: uuid
  o_source :: uuid
  o_source_type :: string
  o_fact_type :: string
  o_fact_value :: dict
  o_unit :: string
  o_captured_at :: datetime
  o_quality :: quality_class
  o_raw :: dict

record evidence_create =
  evc_tenant :: uuid
  evc_observation_ids :: "uuid list"
  evc_type :: string
  evc_description :: fstring
  evc_quality :: quality_class
  evc_weight :: real

record evidence =
  ev_id :: uuid
  ev_tenant :: uuid
  ev_observation_ids :: "uuid list"
  ev_type :: string
  ev_description :: string
  ev_quality :: quality_class
  ev_weight :: real
  ev_organized_at :: datetime

definition evidence_name :: "uuid \<Rightarrow> string \<Rightarrow> uuid list \<Rightarrow> string" where
  "evidence_name tenant typ obs = uuid_str tenant @ '':'' @ typ @ '':'' @ ordered_ids obs"

definition evidence_id :: "uuid5 \<Rightarrow> uuid \<Rightarrow> string \<Rightarrow> uuid list \<Rightarrow> uuid" where
  "evidence_id uuid5 tenant typ obs = uuid5 123 (evidence_name tenant typ obs)"

definition build_evidence :: "uuid5 \<Rightarrow> (piece \<Rightarrow> string) \<Rightarrow> datetime \<Rightarrow> evidence_create \<Rightarrow> evidence" where
  "build_evidence uuid5 fmt now c =
     \<lparr>ev_id = evidence_id uuid5 (evc_tenant c) (evc_type c) (evc_observation_ids c),
      ev_tenant = evc_tenant c, ev_observation_ids = evc_observation_ids c, ev_type = evc_type c,
      ev_description = render fmt (evc_description c), ev_quality = evc_quality c,
      ev_weight = evc_weight c, ev_organized_at = now\<rparr>"

record context_row =
  ctx_id :: uuid
  ctx_tenant :: uuid
  ctx_evidence_ids :: "uuid list"
  ctx_model :: string
  ctx_purpose :: string
  ctx_coherence :: real
  ctx_competing :: "(string \<times> real) list"
  ctx_activated_at :: datetime
  ctx_active :: bool

section \<open>Reasoning artifacts\<close>

record pattern =
  pat_id :: uuid
  pat_tenant :: uuid
  pat_context :: uuid
  pat_type :: string
  pat_description :: string
  pat_strength :: real
  pat_frequency :: string
  pat_detected_at :: datetime
  pat_active :: bool

record anomaly =
  an_id :: uuid
  an_tenant :: uuid
  an_context :: uuid
  an_pattern :: uuid
  an_score :: real
  an_threshold :: real
  an_class :: string
  an_detected_at :: datetime

record hypothesis_create =
  hc_tenant :: uuid
  hc_anomaly_ids :: "uuid list"
  hc_pattern_ids :: "uuid list"
  hc_description :: string
  hc_consequences :: "string list"
  hc_falsification :: string
  hc_coherence :: real
  hc_status :: string
  hc_generated_at :: datetime

record hypothesis =
  hyp_id :: uuid
  hyp_tenant :: uuid
  hyp_anomaly_ids :: "uuid list"
  hyp_pattern_ids :: "uuid list"
  hyp_description :: string
  hyp_consequences :: "string list"
  hyp_falsification :: string
  hyp_coherence :: real
  hyp_status :: string
  hyp_generated_at :: datetime

definition hypothesis_name :: "uuid \<Rightarrow> uuid list \<Rightarrow> uuid list \<Rightarrow> string \<Rightarrow> string" where
  "hypothesis_name tenant ans pats descr =
     uuid_str tenant @ '':'' @ ordered_ids ans @ '':'' @ ordered_ids pats @ '':'' @ descr"

definition hypothesis_id :: "uuid5 \<Rightarrow> uuid \<Rightarrow> uuid list \<Rightarrow> uuid list \<Rightarrow> string \<Rightarrow> uuid" where
  "hypothesis_id uuid5 tenant ans pats descr = uuid5 127 (hypothesis_name tenant ans pats descr)"

definition build_hypothesis :: "uuid5 \<Rightarrow> hypothesis_create \<Rightarrow> hypothesis" where
  "build_hypothesis uuid5 c =
     \<lparr>hyp_id = hypothesis_id uuid5 (hc_tenant c) (hc_anomaly_ids c) (hc_pattern_ids c) (hc_description c),
      hyp_tenant = hc_tenant c, hyp_anomaly_ids = hc_anomaly_ids c, hyp_pattern_ids = hc_pattern_ids c,
      hyp_description = hc_description c, hyp_consequences = hc_consequences c,
      hyp_falsification = hc_falsification c, hyp_coherence = hc_coherence c, hyp_status = hc_status c,
      hyp_generated_at = hc_generated_at c\<rparr>"

section \<open>Learning and action artifacts\<close>

record confidence =
  conf_id :: uuid
  conf_tenant :: uuid
  conf_target_type :: string
  conf_target_id :: uuid
  conf_support :: real
  conf_coherence :: real
  conf_historical :: real
  conf_score :: real
  conf_alpha :: real
  conf_justification :: string
  conf_error :: real
  conf_evidence_ids :: "uuid list"
  conf_computed_at :: datetime

record recommendation =
  rec_id :: uuid
  rec_tenant :: uuid
  rec_hypothesis :: uuid
  rec_insight :: "uuid option"
  rec_confidence_id :: uuid
  rec_action_description :: string
  rec_rationale :: string
  rec_consequences :: "string list"
  rec_alternatives :: "dict list"
  rec_score :: real
  rec_status :: string
  rec_proposed_at :: datetime

record decision =
  dec_id :: uuid
  dec_tenant :: uuid
  dec_recommendation :: uuid
  dec_confidence :: uuid
  dec_authority :: uuid
  dec_commitment :: string
  dec_expected :: "dict list"
  dec_risk :: string
  dec_status :: string
  dec_committed_at :: datetime
  dec_executed_at :: "datetime option"
  dec_actual :: "dict list option"
  dec_outcome_status :: string

text \<open>\<open>SELECT ... WHERE tenant_id = :t ORDER BY committed_at, id\<close>\<close>

definition list_decisions :: "uuid \<Rightarrow> decision list \<Rightarrow> decision list" where
  "list_decisions tenant t = sort_key (\<lambda>d. (dec_committed_at d, dec_id d)) (filter (\<lambda>d. dec_tenant d = tenant) t)"

section \<open>Append-only tables\<close>

text \<open>
  \<open>INSERT ... ON CONFLICT (id) DO NOTHING RETURNING ...\<close>: the statement behind every
  \<open>save_*\<close> of the stores. The row is returned when it was inserted.
\<close>

definition insert_row :: "('r \<Rightarrow> 'k) \<Rightarrow> 'r \<Rightarrow> 'r list \<Rightarrow> 'r list \<times> 'r option" where
  "insert_row key r t = (if key r \<in> key ` set t then (t, None) else (t @ [r], Some r))"

definition lookup_row :: "('r \<Rightarrow> 'k) \<Rightarrow> 'r list \<Rightarrow> 'k \<Rightarrow> 'r option" where
  "lookup_row key t i = find (\<lambda>r. key r = i) t"

text \<open>What the capabilities rely on when they re-run: saves are idempotent and never rewrite.\<close>

locale append_only =
  fixes key :: "'r \<Rightarrow> 'k" and save :: "'r \<Rightarrow> 't \<Rightarrow> 't \<times> 'r option"
    and row :: "'t \<Rightarrow> 'k \<Rightarrow> 'r option"
  assumes save_new: "row t (key r) = None \<Longrightarrow>
      snd (save r t) = Some r \<and> row (fst (save r t)) = (row t)(key r \<mapsto> r)"
    and save_old: "row t (key r) = Some r' \<Longrightarrow> snd (save r t) = None \<and> row (fst (save r t)) = row t"
begin

lemma save_row: "row (fst (save r t)) = (case row t (key r) of None \<Rightarrow> (row t)(key r \<mapsto> r) | Some _ \<Rightarrow> row t)"
  by (cases "row t (key r)") (auto simp: save_new save_old)

lemma save_present: "row (fst (save r t)) (key r) \<noteq> None"
  by (cases "row t (key r)") (auto simp: save_new save_old)

lemma save_again: "snd (save r (fst (save r t))) = None \<and>
    row (fst (save r (fst (save r t)))) = row (fst (save r t))"
  using save_present [of r t] save_old [of "fst (save r t)" r] by auto

definition save_all :: "'r list \<Rightarrow> 't \<Rightarrow> 't" where
  "save_all rs t = foldl (\<lambda>t r. fst (save r t)) t rs"

lemma save_all_Cons: "save_all (r # rs) t = save_all rs (fst (save r t))"
  by (simp add: save_all_def)

lemma save_all_keeps: "row t i = Some r \<Longrightarrow> row (save_all rs t) i = Some r"
proof (induction rs arbitrary: t)
  case (Cons r' rs)
  have "row (fst (save r' t)) i = Some r"
    using Cons.prems by (auto simp: save_row split: option.splits)
  then show ?case using Cons.IH by (simp add: save_all_Cons)
qed (simp add: save_all_def)

lemma save_all_present: "r \<in> set rs \<Longrightarrow> row (save_all rs t) (key r) \<noteq> None"
proof (induction rs arbitrary: t)
  case (Cons r' rs)
  show ?case
  proof (cases "r = r'")
    case True
    then show ?thesis using save_present [of r t] save_all_keeps by (fastforce simp: save_all_Cons)
  next
    case False
    then show ?thesis using Cons by (simp add: save_all_Cons)
  qed
qed simp

lemma save_all_known: "(\<And>r. r \<in> set rs \<Longrightarrow> row t (key r) \<noteq> None) \<Longrightarrow> row (save_all rs t) = row t"
proof (induction rs arbitrary: t)
  case (Cons r rs)
  obtain r' where "row t (key r) = Some r'" using Cons.prems [of r] by auto
  then have e: "row (fst (save r t)) = row t" by (simp add: save_old)
  then have "row (save_all rs (fst (save r t))) = row (fst (save r t))"
    using Cons.IH [of "fst (save r t)"] Cons.prems by simp
  then show ?case using e by (simp add: save_all_Cons)
qed (simp add: save_all_def)

lemma rerun_idempotent: "row (save_all rs (save_all rs t)) = row (save_all rs t)"
  by (rule save_all_known) (simp add: save_all_present)

end

lemma lookup_row_None: "lookup_row key t i = None \<longleftrightarrow> i \<notin> key ` set t"
  by (auto simp: lookup_row_def find_None_iff)

lemma lookup_row_append: "lookup_row key (t @ u) i =
    (case lookup_row key t i of None \<Rightarrow> lookup_row key u i | Some r \<Rightarrow> Some r)"
  by (induction t) (auto simp: lookup_row_def)

interpretation tab: append_only key "insert_row key" "lookup_row key" for key
proof unfold_locales
  fix t :: "'a list" and r
  assume "lookup_row key t (key r) = None"
  moreover from this have "key r \<notin> key ` set t" by (simp add: lookup_row_None)
  ultimately show "snd (insert_row key r t) = Some r \<and>
      lookup_row key (fst (insert_row key r t)) = (lookup_row key t)(key r \<mapsto> r)"
    by (auto simp: insert_row_def fun_eq_iff lookup_row_append lookup_row_def [of _ "[r]"]
        split: option.splits)
next
  fix t :: "'a list" and r r'
  assume "lookup_row key t (key r) = Some r'"
  then have "key r \<in> key ` set t" using lookup_row_None [of key t "key r"] by force
  then show "snd (insert_row key r t) = None \<and> lookup_row key (fst (insert_row key r t)) = lookup_row key t"
    by (simp add: insert_row_def)
qed

section \<open>The persistence loop of the services\<close>

text \<open>
  Every capability service ends in the same loop: one \<open>save_*\<close> per row, counting the rows that
  were inserted and those already present, until a save raises. \<open>accepts\<close> tells which saves the
  database takes. The result says whether the loop ran to its end, and gives the table, the rows
  inserted and the number of duplicates.
\<close>

fun save_each :: "('r \<Rightarrow> uuid) \<Rightarrow> ('r \<Rightarrow> bool) \<Rightarrow> 'r list \<Rightarrow> 'r list \<Rightarrow> bool \<times> 'r list \<times> 'r list \<times> nat" where
  "save_each key accepts [] t = (True, t, [], 0)"
| "save_each key accepts (r # rs) t =
     (if \<not> accepts r then (False, t, [], 0)
      else case insert_row key r t of
          (t1, Some _) \<Rightarrow> (case save_each key accepts rs t1 of (ok, t2, ins, dup) \<Rightarrow> (ok, t2, r # ins, dup))
        | (t1, None) \<Rightarrow> (case save_each key accepts rs t1 of (ok, t2, ins, dup) \<Rightarrow> (ok, t2, ins, dup + 1)))"

text \<open>\<open>counter[f(row)] += 1\<close> for each of the rows.\<close>

definition add_counts :: "('r \<Rightarrow> 'k) \<Rightarrow> 'r list \<Rightarrow> ('k \<Rightarrow> nat) \<Rightarrow> 'k \<Rightarrow> nat" where
  "add_counts f rows counter = (\<lambda>k. counter k + length (filter (\<lambda>r. f r = k) rows))"

lemma save_each_table: "save_each key accepts rs t = (ok, t', ins, dup) \<Longrightarrow> t' = t @ ins"
proof (induction rs arbitrary: t t' ins dup)
  case (Cons r rs)
  then show ?case by (fastforce simp: insert_row_def split: if_splits prod.splits)
qed simp

lemma save_each_new: "save_each key accepts rs t = (ok, t', ins, dup) \<Longrightarrow>
    set ins \<subseteq> set rs \<and> distinct (map key ins) \<and> key ` set ins \<inter> key ` set t = {}"
proof (induction rs arbitrary: t t' ins dup)
  case (Cons r rs)
  then show ?case by (fastforce simp: insert_row_def split: if_splits prod.splits)
qed simp

lemma save_each_count: "save_each key accepts rs t = (True, t', ins, dup) \<Longrightarrow> length ins + dup = length rs"
proof (induction rs arbitrary: t t' ins dup)
  case (Cons r rs)
  then show ?case by (fastforce simp: insert_row_def split: if_splits prod.splits)
qed simp

lemma save_each_complete: "save_each key accepts rs t = (True, t', ins, dup) \<Longrightarrow> key ` set rs \<subseteq> key ` set t'"
proof (induction rs arbitrary: t t' ins dup)
  case (Cons r rs)
  obtain t1 where t1: "fst (insert_row key r t) = t1" "key r \<in> key ` set t1"
    by (auto simp: insert_row_def)
  obtain ins1 dup1 where rest: "save_each key accepts rs t1 = (True, t', ins1, dup1)"
    using Cons.prems t1(1) by (auto simp: insert_row_def split: if_splits prod.splits)
  have "key r \<in> key ` set t'" using save_each_table [OF rest] t1(2) by auto
  then show ?case using Cons.IH [OF rest] by simp
qed simp

lemma save_each_all: "fst (save_each key (\<lambda>_. True) rs t)"
proof (induction rs arbitrary: t)
  case (Cons r rs)
  show ?case using Cons.IH [of t] Cons.IH [of "t @ [r]"]
    by (auto simp: insert_row_def split: prod.splits)
qed simp

lemma save_each_known: "key ` set rs \<subseteq> key ` set t \<Longrightarrow> save_each key (\<lambda>_. True) rs t = (True, t, [], length rs)"
  by (induction rs) (auto simp: insert_row_def)

end
