(* ===== verification/Organizer.thy ===== *)
theory Organizer
  imports Cognitive_Types
begin

text \<open>
  The Organize capability of the collector service
  (\<open>apps/services/collector-service/src/organizer\<close>): the six domain rules of
  \<open>rules.py\<close>, the engine of \<open>engine.py\<close> and the configuration of \<open>config.py\<close>.
  A rule that raises (a non-numeric reading, a zero total) raises here too.
\<close>

section \<open>Shared helpers of the rules\<close>

record organization =
  org_type :: string
  org_description :: fstring
  org_observation_ids :: "uuid list"
  org_quality :: quality_class
  org_tenant :: uuid

definition within_window :: "observation list \<Rightarrow> real \<Rightarrow> bool" where
  "within_window obs mins =
     (if length obs < 2 then True
      else let times = sort (map o_captured_at obs) in last times - hd times \<le> minutes mins)"

text \<open>
  The resource key of a reading. Using a list or an object as a dictionary key raises.
\<close>

definition pair_key :: "dict \<Rightarrow> json result" where
  "pair_key raw =
     (let k = por (get raw ''device'') (por (get raw ''datastore'') (por (get raw ''mountpoint'')
                (por (get raw ''repository'') (JStr ''default''))))
      in case k of JArr _ \<Rightarrow> Inl (TypeError ''unhashable type'') | JObj _ \<Rightarrow> Inl (TypeError ''unhashable type'')
         | _ \<Rightarrow> Inr k)"

type_synonym pairs = "(json \<times> (observation option \<times> observation option)) list"

definition pair_at :: "pairs \<Rightarrow> json \<Rightarrow> observation option \<times> observation option" where
  "pair_at d k = (case map_of d k of None \<Rightarrow> (None, None) | Some p \<Rightarrow> p)"

fun pair_up :: "string \<Rightarrow> string \<Rightarrow> observation list \<Rightarrow> pairs \<Rightarrow> pairs result" where
  "pair_up free_type total_type [] d = Inr d"
| "pair_up free_type total_type (obs # rest) d =
     (if o_fact_type obs = free_type
      then and_then (pair_key (o_raw obs)) (\<lambda>k.
             pair_up free_type total_type rest (AList.update k (Some obs, snd (pair_at d k)) d))
      else if o_fact_type obs = total_type
      then and_then (pair_key (o_raw obs)) (\<lambda>k.
             pair_up free_type total_type rest (AList.update k (fst (pair_at d k), Some obs) d))
      else pair_up free_type total_type rest d)"

definition pair_percent :: "observation option \<times> observation option \<Rightarrow>
    (real \<times> observation list) list result" where
  "pair_percent p = (case p of
       (Some free_obs, Some total_obs) \<Rightarrow>
         (let total = por (get (o_fact_value total_obs) ''value'') (get (o_fact_value total_obs) ''total_bytes'');
              free = por (get (o_fact_value free_obs) ''value'') (get (o_fact_value free_obs) ''free_bytes'')
          in if truthy total \<and> free \<noteq> JNull
             then and_then (py_ratio free total) (\<lambda>q. Inr [(q * 100, [free_obs, total_obs])])
             else Inr [])
     | _ \<Rightarrow> Inr [])"

definition pair_usage :: "observation list \<Rightarrow> string \<Rightarrow> string \<Rightarrow> (real \<times> observation list) list result" where
  "pair_usage obs free_type total_type =
     and_then (pair_up free_type total_type obs []) (\<lambda>d.
       and_then (traverse pair_percent (map snd d)) (\<lambda>rs. Inr (concat rs)))"

definition fact_number :: "observation \<Rightarrow> string \<Rightarrow> real option" where
  "fact_number obs key =
     (let v = get (o_fact_value obs) key
      in float_or_none (if v = JNull then get (o_fact_value obs) ''value'' else v))"

section \<open>Rule 1: resource exhaustion\<close>

definition cpu_observations :: "observation list \<Rightarrow> (real \<times> observation) list" where
  "cpu_observations obs_group = List.map_filter
     (\<lambda>obs. if o_fact_type obs \<noteq> ''cpu_utilization_percent'' then None
            else map_option (\<lambda>v. (v, obs)) (fact_number obs ''value'')) obs_group"

text \<open>The loop body that \<open>_memory_usage\<close> and \<open>_disk_usage\<close> share, for one fact type.\<close>

definition direct_usage :: "string \<Rightarrow> observation \<Rightarrow> (real \<times> observation list) list result" where
  "direct_usage fact_type obs =
     (if o_fact_type obs \<noteq> fact_type then Inr []
      else let total = get (o_fact_value obs) ''total_bytes'';
               used0 = get (o_fact_value obs) ''used_bytes''
           in and_then (if used0 = JNull \<and> truthy total
                        then py_sub total (get_default (o_fact_value obs) ''free_bytes'' (JInt 0))
                        else Inr used0)
                (\<lambda>used. if truthy total
                        then and_then (py_ratio used total) (\<lambda>q. Inr [(q * 100, [obs])])
                        else Inr []))"

definition usage :: "string \<Rightarrow> string \<Rightarrow> string \<Rightarrow> observation list \<Rightarrow>
    (real \<times> observation list) list result" where
  "usage fact_type free_type total_type obs_group =
     and_then (traverse (direct_usage fact_type) obs_group) (\<lambda>direct.
       and_then (pair_usage obs_group free_type total_type) (\<lambda>ps.
         Inr (concat direct @ map (\<lambda>(free_pct, obs). (100 - free_pct, obs)) ps)))"

definition memory_usage :: "observation list \<Rightarrow> (real \<times> observation list) list result" where
  "memory_usage obs_group = usage ''memory_usage'' ''memory_free_bytes'' ''memory_total_bytes'' obs_group"

definition disk_usage :: "observation list \<Rightarrow> (real \<times> observation list) list result" where
  "disk_usage obs_group = usage ''disk_usage'' ''disk_free_bytes'' ''disk_total_bytes'' obs_group"

definition resource_exhaustion_group :: "real \<Rightarrow> real \<Rightarrow> real \<Rightarrow> real \<Rightarrow>
    uuid \<times> observation list \<Rightarrow> organization list result" where
  "resource_exhaustion_group window_minutes cpu_threshold memory_threshold disk_threshold sg =
     (case sg of (source_id, obs_group) \<Rightarrow>
       and_then (memory_usage obs_group) (\<lambda>mems. and_then (disk_usage obs_group) (\<lambda>disks.
         case (cpu_observations obs_group, mems, disks) of
           (c # cs, m # ms, d # ds) \<Rightarrow>
             (let (cpu_pct, cpu_obs) = max_by fst c cs;
                  (mem_pct, mem_obs) = max_by fst m ms;
                  (disk_pct, disk_obs) = max_by fst d ds;
                  matched = [cpu_obs] @ mem_obs @ disk_obs
              in if cpu_pct \<le> cpu_threshold \<or> mem_pct \<le> memory_threshold \<or> disk_pct \<le> disk_threshold
                 then Inr []
                 else if \<not> within_window matched window_minutes then Inr []
                 else Inr [\<lparr>org_type = ''resource_exhaustion_evidence'',
                   org_description = [Lit ''Within '', PReal window_minutes, Lit '' min on source '',
                     PUuid source_id, Lit '': cpu_utilization_percent='', PFixed 1 cpu_pct,
                     Lit '', memory_usage_percent='', PFixed 1 mem_pct,
                     Lit '', disk_usage_percent='', PFixed 1 disk_pct, Lit ''.''],
                   org_observation_ids = map o_id matched,
                   org_quality = (if list_all (\<lambda>x. o_quality x = Q1) matched then Q1 else Q2),
                   org_tenant = o_tenant cpu_obs\<rparr>])
         | _ \<Rightarrow> Inr [])))"

text \<open>Every rule runs its body over the groups of its key and appends what it finds.\<close>

definition over_groups :: "(observation \<Rightarrow> 'k) \<Rightarrow> ('k \<times> observation list \<Rightarrow> organization list result) \<Rightarrow>
    observation list \<Rightarrow> organization list result" where
  "over_groups key body obs =
     and_then (traverse body (group_by key obs)) (\<lambda>rs. Inr (concat rs))"

definition resource_exhaustion_evidence :: "observation list \<Rightarrow> real \<Rightarrow> real \<Rightarrow> real \<Rightarrow> real \<Rightarrow>
    organization list result" where
  "resource_exhaustion_evidence obs window_minutes cpu_threshold memory_threshold disk_threshold =
     over_groups o_source
       (resource_exhaustion_group window_minutes cpu_threshold memory_threshold disk_threshold) obs"

section \<open>Rule 2: service degradation\<close>

definition service_is_stopped_auto :: "observation \<Rightarrow> bool" where
  "service_is_stopped_auto obs \<longleftrightarrow>
     get (o_fact_value obs) ''state'' = JStr ''Stopped'' \<and>
     get (o_fact_value obs) ''start_mode'' = JStr ''Auto''"

definition event_is_error :: "(json \<Rightarrow> string) \<Rightarrow> observation \<Rightarrow> bool" where
  "event_is_error str_of obs \<longleftrightarrow>
     lower (py_str str_of (por (get (o_fact_value obs) ''type'') (JStr []))) = ''error''"

definition service_degradation_group :: "(json \<Rightarrow> string) \<Rightarrow> real \<Rightarrow> uuid \<times> observation list \<Rightarrow>
    organization list result" where
  "service_degradation_group str_of window_minutes sg =
     (case sg of (source_id, obs_group) \<Rightarrow>
       case (filter (\<lambda>x. o_fact_type x = ''windows_service_state'' \<and> service_is_stopped_auto x) obs_group,
             filter (\<lambda>x. o_fact_type x = ''windows_event_log'' \<and> event_is_error str_of x) obs_group) of
         (service # _, first_error # errs) \<Rightarrow>
           (let service_name = get (o_fact_value service) ''name'';
                event = (case find (\<lambda>err. truthy service_name \<and>
                             lower (py_str str_of (por (get (o_fact_value err) ''source'') (JStr [])))
                               = lower (py_str str_of service_name)) (first_error # errs) of
                           Some e \<Rightarrow> e | None \<Rightarrow> first_error);
                matched = [service, event]
            in if \<not> within_window matched window_minutes then Inr []
               else Inr [\<lparr>org_type = ''service_degradation_evidence'',
                 org_description = [Lit ''Within '', PReal window_minutes, Lit '' min on source '',
                   PUuid source_id, Lit '': windows_service_state service='', PJson service_name,
                   Lit '' state=Stopped start_mode=Auto; windows_event_log type='',
                   PJson (get (o_fact_value event) ''type''), Lit '' source='',
                   PJson (get (o_fact_value event) ''source''), Lit '' event_code='',
                   PJson (get (o_fact_value event) ''event_code''), Lit ''.''],
                 org_observation_ids = map o_id matched, org_quality = Q1,
                 org_tenant = o_tenant service\<rparr>])
       | _ \<Rightarrow> Inr [])"

definition service_degradation_evidence :: "(json \<Rightarrow> string) \<Rightarrow> observation list \<Rightarrow> real \<Rightarrow>
    organization list result" where
  "service_degradation_evidence str_of obs window_minutes =
     over_groups o_source (service_degradation_group str_of window_minutes) obs"

section \<open>Rule 3: authentication anomaly\<close>

definition membership_changed :: "observation \<Rightarrow> bool" where
  "membership_changed obs =
     (if get (o_fact_value obs) ''changed'' = JBool True \<or>
         get (o_fact_value obs) ''membership_changed'' = JBool True then True
      else get (o_fact_value obs) ''event'' = JStr ''change'')"

definition auth_anomaly_group :: "real \<Rightarrow> uuid \<times> observation list \<Rightarrow> organization list result" where
  "auth_anomaly_group window_minutes tg =
     (case tg of (tenant_id, obs_group) \<Rightarrow>
       case (filter (\<lambda>x. o_fact_type x = ''ad_account_lockout'') obs_group,
             filter (\<lambda>x. o_fact_type x = ''ad_privileged_group_membership'' \<and> membership_changed x) obs_group) of
         (lockout # _, change # _) \<Rightarrow>
           (if \<not> within_window [lockout, change] window_minutes then Inr []
            else let account = por (por (get (o_fact_value lockout) ''account'')
                         (get (o_fact_value lockout) ''account_name'')) (JStr ''unknown'');
                     group_name = por (por (get (o_fact_value change) ''group'')
                         (get (o_fact_value change) ''group_name'')) (JStr ''unknown'')
                 in Inr [\<lparr>org_type = ''auth_anomaly_evidence'',
                      org_description = [Lit ''Within '', PReal window_minutes, Lit '' min in tenant '',
                        PUuid tenant_id, Lit '': ad_account_lockout account='', PJson account,
                        Lit ''; ad_privileged_group_membership changed group='', PJson group_name, Lit ''.''],
                      org_observation_ids = [o_id lockout, o_id change], org_quality = Q2,
                      org_tenant = tenant_id\<rparr>])
       | _ \<Rightarrow> Inr [])"

definition auth_anomaly_evidence :: "observation list \<Rightarrow> real \<Rightarrow> organization list result" where
  "auth_anomaly_evidence obs window_minutes =
     over_groups o_tenant (auth_anomaly_group window_minutes) obs"

section \<open>Rules 4 and 5: backup failure, VMware capacity\<close>

text \<open>\<open>_repo_free_candidates\<close> and \<open>_datastore_free_candidates\<close>, for their fact types.\<close>

definition free_candidates :: "string \<Rightarrow> string \<Rightarrow> string \<Rightarrow> observation list \<Rightarrow>
    (real \<times> observation list) list result" where
  "free_candidates pct_type free_type total_type obs_group =
     (let direct = List.map_filter (\<lambda>obs. if o_fact_type obs \<noteq> pct_type then None
              else map_option (\<lambda>v. (v, [obs])) (fact_number obs ''value'')) obs_group
      in and_then (pair_usage obs_group free_type total_type) (\<lambda>ps. Inr (sort_key fst (direct @ ps))))"

definition repo_free_candidates :: "observation list \<Rightarrow> (real \<times> observation list) list result" where
  "repo_free_candidates obs_group =
     free_candidates ''repo_free_percent'' ''repo_free_bytes'' ''repo_capacity_bytes'' obs_group"

definition datastore_free_candidates :: "observation list \<Rightarrow> (real \<times> observation list) list result" where
  "datastore_free_candidates obs_group =
     free_candidates ''datastore_free_percent'' ''datastore_free_bytes'' ''datastore_capacity_bytes'' obs_group"

definition backup_failure_group :: "(json \<Rightarrow> string) \<Rightarrow> real \<Rightarrow> real \<Rightarrow> uuid \<times> observation list \<Rightarrow>
    organization list result" where
  "backup_failure_group str_of window_minutes repo_free_threshold sg =
     (case sg of (source_id, obs_group) \<Rightarrow>
       and_then (repo_free_candidates obs_group) (\<lambda>repo_low.
         case (filter (\<lambda>x. o_fact_type x = ''backup_job_status'' \<and>
                 lower (py_str str_of (por (get (o_fact_value x) ''status'') (JStr []))) = ''failed'') obs_group,
               repo_low) of
           (job # _, (free_pct, repo_obs) # _) \<Rightarrow>
             (let matched = [job] @ repo_obs
              in if free_pct \<ge> repo_free_threshold then Inr []
                 else if \<not> within_window matched window_minutes then Inr []
                 else Inr [\<lparr>org_type = ''backup_failure_evidence'',
                   org_description = [Lit ''Within '', PReal window_minutes, Lit '' min on source '',
                     PUuid source_id, Lit '': backup_job_status=Failed job='',
                     PJson (por (get (o_fact_value job) ''job'') (JStr [])),
                     Lit ''; repo_free_percent='', PFixed 1 free_pct, Lit ''.''],
                   org_observation_ids = map o_id matched, org_quality = Q1,
                   org_tenant = o_tenant job\<rparr>])
         | _ \<Rightarrow> Inr []))"

definition backup_failure_evidence :: "(json \<Rightarrow> string) \<Rightarrow> observation list \<Rightarrow> real \<Rightarrow> real \<Rightarrow>
    organization list result" where
  "backup_failure_evidence str_of obs window_minutes repo_free_threshold =
     over_groups o_source (backup_failure_group str_of window_minutes repo_free_threshold) obs"

definition snapshot_older_than :: "real \<Rightarrow> observation \<Rightarrow> bool" where
  "snapshot_older_than ndays obs =
     (let age0 = get (o_fact_value obs) ''age_days'';
          age = (if age0 = JNull then get (o_fact_value obs) ''value'' else age0)
      in case float_or_none age of None \<Rightarrow> False | Some x \<Rightarrow> x > ndays)"

definition vmware_capacity_group :: "real \<Rightarrow> real \<Rightarrow> real \<Rightarrow> uuid \<times> observation list \<Rightarrow>
    organization list result" where
  "vmware_capacity_group window_minutes datastore_free_threshold snapshot_age_days tg =
     (case tg of (tenant_id, obs_group) \<Rightarrow>
       and_then (datastore_free_candidates obs_group) (\<lambda>datastore_low.
         case (datastore_low, filter (\<lambda>x. o_fact_type x = ''vm_snapshot_age_days'' \<and>
                 snapshot_older_than snapshot_age_days x) obs_group) of
           ((free_pct, ds_obs) # _, snapshot # _) \<Rightarrow>
             (let matched = ds_obs @ [snapshot]
              in if free_pct \<ge> datastore_free_threshold then Inr []
                 else if \<not> within_window matched window_minutes then Inr []
                 else Inr [\<lparr>org_type = ''vmware_capacity_evidence'',
                   org_description = [Lit ''Within '', PReal window_minutes, Lit '' min in tenant '',
                     PUuid tenant_id, Lit '': datastore_free_percent='', PFixed 1 free_pct,
                     Lit ''; vm_snapshot_age_days='', PJson (get (o_fact_value snapshot) ''age_days''),
                     Lit '' vm='', PJson (get (o_fact_value snapshot) ''vm''), Lit ''.''],
                   org_observation_ids = map o_id matched, org_quality = Q1, org_tenant = tenant_id\<rparr>])
         | _ \<Rightarrow> Inr []))"

definition vmware_capacity_evidence :: "observation list \<Rightarrow> real \<Rightarrow> real \<Rightarrow> real \<Rightarrow>
    organization list result" where
  "vmware_capacity_evidence obs window_minutes datastore_free_threshold snapshot_age_days =
     over_groups o_tenant
       (vmware_capacity_group window_minutes datastore_free_threshold snapshot_age_days) obs"

section \<open>Rule 6: network anomaly\<close>

definition interface_errors :: "observation \<Rightarrow> real" where
  "interface_errors obs = (case fact_number obs ''value'' of
       Some v \<Rightarrow> v
     | None \<Rightarrow> (case fact_number obs ''errors'' of Some v \<Rightarrow> v | None \<Rightarrow> 0))"

definition network_anomaly_group :: "real \<Rightarrow> real \<Rightarrow> uuid \<times> observation list \<Rightarrow> organization list result" where
  "network_anomaly_group window_minutes error_threshold sg =
     (case sg of (source_id, obs_group) \<Rightarrow>
       case (filter (\<lambda>x. o_fact_type x = ''interface_errors'' \<and> interface_errors x > error_threshold) obs_group,
             filter (\<lambda>x. o_fact_type x = ''port_state_change'') obs_group) of
         (e # es, change # _) \<Rightarrow>
           (let errors_obs = max_by interface_errors e es
            in if \<not> within_window [errors_obs, change] window_minutes then Inr []
               else Inr [\<lparr>org_type = ''network_anomaly_evidence'',
                 org_description = [Lit ''Within '', PReal window_minutes, Lit '' min on source '',
                   PUuid source_id, Lit '': interface_errors='', PFixed 0 (interface_errors errors_obs),
                   Lit '' interface='', PJson (por (por (get (o_raw errors_obs) ''interface'')
                     (get (o_fact_value errors_obs) ''interface'')) (JStr [])),
                   Lit ''; port_state_change detected.''],
                 org_observation_ids = [o_id errors_obs, o_id change], org_quality = Q2,
                 org_tenant = o_tenant errors_obs\<rparr>])
       | _ \<Rightarrow> Inr [])"

definition network_anomaly_evidence :: "observation list \<Rightarrow> real \<Rightarrow> real \<Rightarrow> organization list result" where
  "network_anomaly_evidence obs window_minutes error_threshold =
     over_groups o_source (network_anomaly_group window_minutes error_threshold) obs"

lemmas rule_bodies [guards] = resource_exhaustion_group_def service_degradation_group_def
  auth_anomaly_group_def backup_failure_group_def vmware_capacity_group_def network_anomaly_group_def

section \<open>Configuration (config.py)\<close>

record organizer_config =
  resource_exhaustion_window :: real
  service_degradation_window :: real
  auth_anomaly_window :: real
  backup_failure_window :: real
  vmware_capacity_window :: real
  network_anomaly_window :: real
  network_anomaly_error_threshold :: real
  backup_repo_free_percent :: real
  vmware_datastore_free_percent :: real
  vmware_snapshot_age_days :: real

definition default_config :: organizer_config where
  "default_config = \<lparr>resource_exhaustion_window = 5, service_degradation_window = 15,
     auth_anomaly_window = 60, backup_failure_window = 60, vmware_capacity_window = 30,
     network_anomaly_window = 15, network_anomaly_error_threshold = 100,
     backup_repo_free_percent = 10, vmware_datastore_free_percent = 15, vmware_snapshot_age_days = 7\<rparr>"

definition max_window_minutes :: "organizer_config \<Rightarrow> real" where
  "max_window_minutes c = Max {resource_exhaustion_window c, service_degradation_window c,
     auth_anomaly_window c, backup_failure_window c, vmware_capacity_window c, network_anomaly_window c}"

definition env_float :: "(string \<Rightarrow> string option) \<Rightarrow> string \<Rightarrow> real \<Rightarrow> real result" where
  "env_float env name dflt = (case env name of None \<Rightarrow> Inr dflt | Some raw \<Rightarrow> py_float (JStr raw))"

definition config_from_env :: "(string \<Rightarrow> string option) \<Rightarrow> organizer_config result" where
  "config_from_env env =
     and_then (env_float env ''RESOURCE_EXHAUSTION_WINDOW_MINUTES'' 5) (\<lambda>a.
     and_then (env_float env ''SERVICE_DEGRADATION_WINDOW_MINUTES'' 15) (\<lambda>b.
     and_then (env_float env ''AUTH_ANOMALY_WINDOW_MINUTES'' 60) (\<lambda>c.
     and_then (env_float env ''BACKUP_FAILURE_WINDOW_MINUTES'' 60) (\<lambda>d.
     and_then (env_float env ''VMWARE_CAPACITY_WINDOW_MINUTES'' 30) (\<lambda>e.
     and_then (env_float env ''NETWORK_ANOMALY_WINDOW_MINUTES'' 15) (\<lambda>f.
     and_then (env_float env ''NETWORK_ANOMALY_ERROR_THRESHOLD'' 100) (\<lambda>g.
     and_then (env_float env ''BACKUP_REPO_FREE_PERCENT'' 10) (\<lambda>h.
     and_then (env_float env ''VMWARE_DATASTORE_FREE_PERCENT'' 15) (\<lambda>i.
     and_then (env_float env ''VMWARE_SNAPSHOT_AGE_DAYS'' 7) (\<lambda>j.
       Inr \<lparr>resource_exhaustion_window = a, service_degradation_window = b, auth_anomaly_window = c,
         backup_failure_window = d, vmware_capacity_window = e, network_anomaly_window = f,
         network_anomaly_error_threshold = g, backup_repo_free_percent = h,
         vmware_datastore_free_percent = i, vmware_snapshot_age_days = j\<rparr>))))))))))"

section \<open>Engine (engine.py)\<close>

definition quality_weight :: "quality_class \<Rightarrow> real" where
  "quality_weight q = (case q of Q1 \<Rightarrow> 875/1000 | Q2 \<Rightarrow> 625/1000 | Q3 \<Rightarrow> 375/1000 | Q4 \<Rightarrow> 125/1000)"

definition to_create :: "organization \<Rightarrow> evidence_create" where
  "to_create r = \<lparr>evc_tenant = org_tenant r, evc_observation_ids = org_observation_ids r,
     evc_type = org_type r, evc_description = org_description r, evc_quality = org_quality r,
     evc_weight = quality_weight (org_quality r)\<rparr>"

definition organize :: "(json \<Rightarrow> string) \<Rightarrow> organizer_config \<Rightarrow> observation list \<Rightarrow>
    evidence_create list result" where
  "organize str_of c obs =
     and_then (resource_exhaustion_evidence obs (resource_exhaustion_window c) 90 85 85) (\<lambda>r1.
     and_then (service_degradation_evidence str_of obs (service_degradation_window c)) (\<lambda>r2.
     and_then (auth_anomaly_evidence obs (auth_anomaly_window c)) (\<lambda>r3.
     and_then (backup_failure_evidence str_of obs (backup_failure_window c) (backup_repo_free_percent c)) (\<lambda>r4.
     and_then (vmware_capacity_evidence obs (vmware_capacity_window c) (vmware_datastore_free_percent c)
                 (vmware_snapshot_age_days c)) (\<lambda>r5.
     and_then (network_anomaly_evidence obs (network_anomaly_window c)
                 (network_anomaly_error_threshold c)) (\<lambda>r6.
       Inr (map to_create (r1 @ r2 @ r3 @ r4 @ r5 @ r6))))))))"

section \<open>What a rule body keeps\<close>

text \<open>
  A body is local when everything it reports comes from the group it was given: the observations
  it names, and the tenant, which is that of one of them.
\<close>

definition local_to :: "observation list \<Rightarrow> organization \<Rightarrow> bool" where
  "local_to obs r \<longleftrightarrow> set (org_observation_ids r) \<subseteq> o_id ` set obs \<and>
     org_observation_ids r \<noteq> [] \<and> org_tenant r \<in> o_tenant ` set obs"

lemma local_to_mono: "local_to obs r \<Longrightarrow> set obs \<subseteq> set obs' \<Longrightarrow> local_to obs' r"
  unfolding local_to_def by blast

lemma traverse_Inr_mem: "traverse f xs = Inr yss \<Longrightarrow> y \<in> set yss \<Longrightarrow> \<exists>x \<in> set xs. f x = Inr y"
  by (induction xs arbitrary: yss) (auto simp: and_then_eq_Inr)

lemma over_groups_mem:
  assumes "over_groups key body obs = Inr rs" and "r \<in> set rs"
  obtains k os rk where "(k, os) \<in> set (group_by key obs)" "body (k, os) = Inr rk" "r \<in> set rk"
    "os = filter (\<lambda>x. key x = k) obs"
proof -
  from assms obtain rss where "traverse body (group_by key obs) = Inr rss" "r \<in> set (concat rss)"
    by (auto simp: over_groups_def and_then_eq_Inr)
  then obtain rk g where "rk \<in> set rss" "r \<in> set rk" "g \<in> set (group_by key obs)" "body g = Inr rk"
    using traverse_Inr_mem by fastforce
  then show thesis using that grp.group_member [of "fst g" "snd g" key obs] by (cases g) auto
qed

text \<open>Paired readings come from the observations they were paired from.\<close>

definition pairs_from :: "observation set \<Rightarrow> pairs \<Rightarrow> bool" where
  "pairs_from S d \<longleftrightarrow> (\<forall>p \<in> snd ` set d. set_option (fst p) \<subseteq> S \<and> set_option (snd p) \<subseteq> S)"

lemma update_snd_subset: "snd ` set (AList.update k v d) \<subseteq> insert v (snd ` set d)"
  by (induction d) auto

lemma pair_at_from: "pairs_from S d \<Longrightarrow> set_option (fst (pair_at d k)) \<subseteq> S \<and> set_option (snd (pair_at d k)) \<subseteq> S"
  by (auto simp: pairs_from_def pair_at_def split: option.splits dest!: map_of_SomeD)

lemma pairs_from_update:
  "pairs_from S d \<Longrightarrow> set_option (fst p) \<subseteq> S \<Longrightarrow> set_option (snd p) \<subseteq> S \<Longrightarrow>
     pairs_from S (AList.update k p d)"
  using update_snd_subset [of k p d] unfolding pairs_from_def by blast

lemma pair_up_from:
  "pair_up ft tt obs d = Inr d' \<Longrightarrow> pairs_from S d \<Longrightarrow> set obs \<subseteq> S \<Longrightarrow> pairs_from S d'"
proof (induction ft tt obs d rule: pair_up.induct)
  case (2 ft tt x rest d)
  from 2 show ?case
    using pair_at_from [OF "2.prems"(2)]
    by (auto simp: and_then_eq_Inr pairs_from_update split: if_splits)
qed simp

lemma pair_usage_mem:
  assumes "pair_usage obs ft tt = Inr ps" and "p \<in> set ps"
  shows "set (snd p) \<subseteq> set obs \<and> snd p \<noteq> []"
proof -
  from assms(1) obtain d rs where d: "pair_up ft tt obs [] = Inr d"
    and rs: "traverse pair_percent (map snd d) = Inr rs" "ps = concat rs"
    by (auto simp: pair_usage_def and_then_eq_Inr)
  have f: "pairs_from (set obs) d" using pair_up_from [OF d] by (simp add: pairs_from_def)
  from rs assms(2) obtain r q where "p \<in> set r" "q \<in> snd ` set d" "pair_percent q = Inr r"
    using traverse_Inr_mem by fastforce
  moreover from this have "set_option (fst q) \<subseteq> set obs" "set_option (snd q) \<subseteq> set obs"
    using f by (auto simp: pairs_from_def)
  ultimately show ?thesis
    by (auto simp: pair_percent_def Let_def and_then_eq_Inr split: option.splits if_splits)
qed

lemma direct_usage_mem: "direct_usage ft x = Inr ps \<Longrightarrow> p \<in> set ps \<Longrightarrow> snd p = [x]"
  by (auto simp: direct_usage_def Let_def and_then_eq_Inr split: if_splits)

lemma usage_mem:
  assumes "usage ft fr tt obs = Inr ps" and "p \<in> set ps"
  shows "set (snd p) \<subseteq> set obs \<and> snd p \<noteq> []"
proof -
  from assms(1) obtain ds qs where ds: "traverse (direct_usage ft) obs = Inr ds"
    and qs: "pair_usage obs fr tt = Inr qs"
    and ps: "ps = concat ds @ map (\<lambda>(free_pct, os). (100 - free_pct, os)) qs"
    by (auto simp: usage_def and_then_eq_Inr)
  from ps assms(2) have p: "p \<in> set (concat ds) \<or> (\<exists>q \<in> set qs. snd p = snd q)"
    by force
  from p show ?thesis
  proof
    assume "p \<in> set (concat ds)"
    then obtain x r where "x \<in> set obs" "direct_usage ft x = Inr r" "p \<in> set r"
      using traverse_Inr_mem [OF ds] by (metis UN_E set_concat)
    then show ?thesis using direct_usage_mem by fastforce
  next
    assume "\<exists>q \<in> set qs. snd p = snd q"
    then show ?thesis using pair_usage_mem [OF qs] by metis
  qed
qed

lemma free_candidates_mem:
  assumes "free_candidates pt fr tt obs = Inr ps" and "p \<in> set ps"
  shows "set (snd p) \<subseteq> set obs \<and> snd p \<noteq> []"
proof -
  from assms obtain qs where qs: "pair_usage obs fr tt = Inr qs"
    and p: "p \<in> set (List.map_filter (\<lambda>x. if o_fact_type x \<noteq> pt then None
              else map_option (\<lambda>v. (v, [x])) (fact_number x ''value'')) obs) \<or> p \<in> set qs"
    by (auto simp: free_candidates_def Let_def and_then_eq_Inr)
  from p show ?thesis
    by (auto simp: List.map_filter_def dest: pair_usage_mem [OF qs] split: if_splits)
qed

lemma free_candidates_sorted: "free_candidates pt fr tt obs = Inr ps \<Longrightarrow> sorted (map fst ps)"
  by (auto simp: free_candidates_def Let_def and_then_eq_Inr)

lemma cpu_observations_mem: "p \<in> set (cpu_observations obs) \<Longrightarrow> snd p \<in> set obs \<and>
    fact_number (snd p) ''value'' = Some (fst p)"
  by (auto simp: cpu_observations_def List.map_filter_def split: if_splits)

section \<open>The rules are local\<close>

text \<open>The contract of a rule body, and what running it over the groups then keeps.\<close>

locale rule_body =
  fixes key :: "observation \<Rightarrow> 'k" and body :: "'k \<times> observation list \<Rightarrow> organization list result"
    and type_name :: string
  assumes body_local: "body (k, os) = Inr rs \<Longrightarrow> r \<in> set rs \<Longrightarrow>
      (\<And>x. x \<in> set os \<Longrightarrow> key x = k) \<Longrightarrow> local_to os r \<and> org_type r = type_name"
begin

lemma rule_local:
  assumes "over_groups key body obs = Inr rs" and "r \<in> set rs"
  shows "\<exists>k. local_to (filter (\<lambda>x. key x = k) obs) r \<and> org_type r = type_name"
proof -
  obtain k os rk where g: "(k, os) \<in> set (group_by key obs)" "body (k, os) = Inr rk" "r \<in> set rk"
      "os = filter (\<lambda>x. key x = k) obs"
    using over_groups_mem [OF assms] by blast
  then show ?thesis using body_local [OF g(2,3)] by auto
qed

end

lemma within_groupD: "x # xs = filter p obs \<Longrightarrow> x \<in> set obs \<and> p x"
proof -
  assume "x # xs = filter p obs"
  then have "x \<in> set (filter p obs)" by (metis list.set_intros(1))
  then show "x \<in> set obs \<and> p x" by simp
qed

lemma find_in: "find p xs = Some y \<Longrightarrow> set xs \<subseteq> S \<Longrightarrow> y \<in> S"
  by (auto dest: find_SomeD)

interpretation resource: rule_body o_source "resource_exhaustion_group w c m d"
  "''resource_exhaustion_evidence''" for w c m d
proof unfold_locales
  fix k os rs r
  assume b: "resource_exhaustion_group w c m d (k, os) = Inr rs" and r: "r \<in> set rs"
  from b obtain mems disks where md: "memory_usage os = Inr mems" "disk_usage os = Inr disks"
    by (auto simp: resource_exhaustion_group_def and_then_eq_Inr)
  obtain c1 cs m1 ms d1 ds where ne: "cpu_observations os = c1 # cs" "mems = m1 # ms" "disks = d1 # ds"
    using b r by (cases "cpu_observations os"; cases mems; cases disks)
      (simp_all add: resource_exhaustion_group_def md)
  note l = md(1) [unfolded ne(2)] md(2) [unfolded ne(3)] ne(1)
  have c: "snd (max_by fst c1 cs) \<in> set os"
    using cpu_observations_mem [of "max_by fst c1 cs" os] max_by_in [of fst c1 cs] l by auto
  have us: "set (snd (max_by fst m1 ms)) \<subseteq> set os" "set (snd (max_by fst d1 ds)) \<subseteq> set os"
    using usage_mem max_by_in [of fst m1 ms] max_by_in [of fst d1 ds] l
    unfolding memory_usage_def disk_usage_def by metis+
  have u: "\<And>x. x \<in> set (snd (max_by fst m1 ms)) \<Longrightarrow> x \<in> set os"
      "\<And>x. x \<in> set (snd (max_by fst d1 ds)) \<Longrightarrow> x \<in> set os"
    using us by auto
  show "local_to os r \<and> org_type r = ''resource_exhaustion_evidence''"
    using b r c u
    by (auto simp: resource_exhaustion_group_def l Let_def local_to_def split: prod.splits if_splits)
qed

interpretation service: rule_body o_source "service_degradation_group f w"
  "''service_degradation_evidence''" for f w
proof unfold_locales
  fix k os rs r
  assume b: "service_degradation_group f w (k, os) = Inr rs" and r: "r \<in> set rs"
  let ?P = "\<lambda>x. o_fact_type x = ''windows_service_state'' \<and> service_is_stopped_auto x"
  let ?Q = "\<lambda>x. o_fact_type x = ''windows_event_log'' \<and> event_is_error f x"
  obtain s ss e es where s: "filter ?P os = s # ss" and e: "filter ?Q os = e # es"
    using b r by (cases "filter ?P os"; cases "filter ?Q os") (simp_all add: service_degradation_group_def)
  have sub: "s \<in> set os" "set (e # es) \<subseteq> set os"
    using within_groupD [OF s [symmetric]] filter_is_subset [of ?Q os] by (simp_all add: e)
  show "local_to os r \<and> org_type r = ''service_degradation_evidence''"
    using b r sub find_in [OF _ sub(2)]
    by (auto simp: service_degradation_group_def s e Let_def local_to_def simp del: find.simps
        split: if_splits option.splits)
qed

interpretation auth_rule: rule_body o_tenant "auth_anomaly_group w" "''auth_anomaly_evidence''" for w
proof unfold_locales
  fix k os rs r
  assume b: "auth_anomaly_group w (k, os) = Inr rs" and r: "r \<in> set rs"
    and k: "\<And>x. x \<in> set os \<Longrightarrow> o_tenant x = k"
  let ?P = "\<lambda>x. o_fact_type x = ''ad_account_lockout''"
  let ?Q = "\<lambda>x. o_fact_type x = ''ad_privileged_group_membership'' \<and> membership_changed x"
  obtain s ss e es where s: "filter ?P os = s # ss" and e: "filter ?Q os = e # es"
    using b r by (cases "filter ?P os"; cases "filter ?Q os") (simp_all add: auth_anomaly_group_def)
  have "s \<in> set os" "e \<in> set os"
    using within_groupD [OF s [symmetric]] within_groupD [OF e [symmetric]] by simp_all
  then show "local_to os r \<and> org_type r = ''auth_anomaly_evidence''"
    using b r k by (auto simp: auth_anomaly_group_def s e Let_def local_to_def split: if_splits)
qed

interpretation backup: rule_body o_source "backup_failure_group f w t" "''backup_failure_evidence''"
  for f w t
proof unfold_locales
  fix k os rs r
  assume b: "backup_failure_group f w t (k, os) = Inr rs" and r: "r \<in> set rs"
  let ?P = "\<lambda>x. o_fact_type x = ''backup_job_status'' \<and>
       lower (py_str f (por (get (o_fact_value x) ''status'') (JStr []))) = ''failed''"
  obtain cands where c: "repo_free_candidates os = Inr cands"
    using b by (auto simp: backup_failure_group_def and_then_eq_Inr)
  obtain j js q qs where j: "filter ?P os = j # js" and q: "cands = q # qs"
    using b r c by (cases "filter ?P os"; cases cands) (simp_all add: backup_failure_group_def)
  have "j \<in> set os" "\<And>x. x \<in> set (snd q) \<Longrightarrow> x \<in> set os"
    using within_groupD [OF j [symmetric]] free_candidates_mem [OF c [unfolded repo_free_candidates_def], of q] q
    by auto
  then show "local_to os r \<and> org_type r = ''backup_failure_evidence''"
    using b r by (auto simp: backup_failure_group_def c j q Let_def local_to_def
        split: prod.splits if_splits)
qed

interpretation vmware: rule_body o_tenant "vmware_capacity_group w t a" "''vmware_capacity_evidence''"
  for w t a
proof unfold_locales
  fix k os rs r
  assume b: "vmware_capacity_group w t a (k, os) = Inr rs" and r: "r \<in> set rs"
    and k: "\<And>x. x \<in> set os \<Longrightarrow> o_tenant x = k"
  let ?P = "\<lambda>x. o_fact_type x = ''vm_snapshot_age_days'' \<and> snapshot_older_than a x"
  obtain cands where c: "datastore_free_candidates os = Inr cands"
    using b by (auto simp: vmware_capacity_group_def and_then_eq_Inr)
  obtain j js q qs where j: "filter ?P os = j # js" and q: "cands = q # qs"
    using b r c by (cases "filter ?P os"; cases cands) (simp_all add: vmware_capacity_group_def)
  have "j \<in> set os" "\<And>x. x \<in> set (snd q) \<Longrightarrow> x \<in> set os"
    using within_groupD [OF j [symmetric]] free_candidates_mem [OF c [unfolded datastore_free_candidates_def], of q] q
    by auto
  then show "local_to os r \<and> org_type r = ''vmware_capacity_evidence''"
    using b r k by (auto simp: vmware_capacity_group_def c j q Let_def local_to_def
        split: prod.splits if_splits)
qed

interpretation network: rule_body o_source "network_anomaly_group w t" "''network_anomaly_evidence''"
  for w t
proof unfold_locales
  fix k os rs r
  assume b: "network_anomaly_group w t (k, os) = Inr rs" and r: "r \<in> set rs"
  let ?P = "\<lambda>x. o_fact_type x = ''interface_errors'' \<and> interface_errors x > t"
  let ?Q = "\<lambda>x. o_fact_type x = ''port_state_change''"
  obtain s ss e es where s: "filter ?P os = s # ss" and e: "filter ?Q os = e # es"
    using b r by (cases "filter ?P os"; cases "filter ?Q os") (simp_all add: network_anomaly_group_def)
  define m where "m = max_by interface_errors s ss"
  have "m \<in> set (filter ?P os)" unfolding s m_def by (rule max_by_in)
  then have "m \<in> set os" by simp
  moreover have "e \<in> set os" using within_groupD [OF e [symmetric]] by simp
  ultimately show "local_to os r \<and> org_type r = ''network_anomaly_evidence''"
    using b r by (auto simp: network_anomaly_group_def s e Let_def local_to_def simp flip: m_def split: if_splits)
qed

section \<open>Properties\<close>

text \<open>
  Evidence that names observations of one batch only, at least one, all of a single source or all
  of a single tenant, and carries the tenant of one of them.
\<close>

definition same_origin :: "observation list \<Rightarrow> evidence_create \<Rightarrow> bool" where
  "same_origin obs e \<longleftrightarrow> evc_observation_ids e \<noteq> [] \<and>
     (\<exists>os. set os \<subseteq> set obs \<and>
        ((\<exists>s. \<forall>x \<in> set os. o_source x = s) \<or> (\<exists>t. \<forall>x \<in> set os. o_tenant x = t)) \<and>
        set (evc_observation_ids e) \<subseteq> o_id ` set os \<and> evc_tenant e \<in> o_tenant ` set os)"

lemma local_source: "local_to (filter (\<lambda>x. o_source x = k) obs) r \<Longrightarrow> same_origin obs (to_create r)"
  unfolding same_origin_def local_to_def to_create_def
  by (auto intro!: exI [of _ "filter (\<lambda>x. o_source x = k) obs"])

lemma local_tenant: "local_to (filter (\<lambda>x. o_tenant x = k) obs) r \<Longrightarrow> same_origin obs (to_create r)"
  unfolding same_origin_def local_to_def to_create_def
  by (auto intro!: exI [of _ "filter (\<lambda>x. o_tenant x = k) obs"])


text \<open>A lockout and a privileged-group change in one tenant, ten minutes apart.\<close>

definition lockout_obs :: observation where
  "lockout_obs = \<lparr>o_id = 1, o_tenant = 7, o_source = 3, o_source_type = ''windows_agent'',
     o_fact_type = ''ad_account_lockout'', o_fact_value = [(''account'', JStr ''bob'')], o_unit = [],
     o_captured_at = 0, o_quality = Q1, o_raw = []\<rparr>"

definition change_obs :: observation where
  "change_obs = \<lparr>o_id = 2, o_tenant = 7, o_source = 4, o_source_type = ''windows_agent'',
     o_fact_type = ''ad_privileged_group_membership'', o_fact_value = [(''changed'', JBool True)],
     o_unit = [], o_captured_at = 600000000, o_quality = Q1, o_raw = []\<rparr>"

lemmas organize_eval = organize_def default_config_def over_groups_def group_by_def
  resource_exhaustion_evidence_def service_degradation_evidence_def auth_anomaly_evidence_def
  backup_failure_evidence_def vmware_capacity_evidence_def network_anomaly_evidence_def rule_bodies
  memory_usage_def disk_usage_def usage_def direct_usage_def pair_usage_def cpu_observations_def
  repo_free_candidates_def datastore_free_candidates_def free_candidates_def List.map_filter_def
  within_window_def membership_changed_def get_def por_def Let_def to_create_def quality_weight_def

definition auth_evidence :: evidence_create where
  "auth_evidence = \<lparr>evc_tenant = 7, evc_observation_ids = [1, 2], evc_type = ''auth_anomaly_evidence'',
     evc_description = [Lit ''Within '', PReal 60, Lit '' min in tenant '', PUuid 7,
       Lit '': ad_account_lockout account='', PJson (JStr ''bob''),
       Lit ''; ad_privileged_group_membership changed group='', PJson (JStr ''unknown''), Lit ''.''],
     evc_quality = Q2, evc_weight = 625/1000\<rparr>"

lemma organize_lockout: "organize str_of default_config [lockout_obs, change_obs] = Inr [auth_evidence]"
  by (simp add: organize_eval lockout_obs_def change_obs_def auth_evidence_def)


end
