(* ===== verification/Collector.thy ===== *)
theory Collector
  imports Organizer
begin

text \<open>
  The observation consumer of the collector service
  (\<open>apps/services/collector-service/src/consumer.py\<close>): persistence of the stream, the
  buffer the rules run over, and the idempotent insertion of the evidence. A message carries what
  the surroundings did while it was handled: whether the database and the stream answered, and the
  time. An argument says which evidence inserts the database accepts.
\<close>

section \<open>State\<close>

record consumer =
  c_observations :: "observation list"
  c_evidence :: "evidence list"
  c_acked :: "string list"
  c_has_evidence_store :: bool
  c_config :: organizer_config
  c_processed :: nat
  c_errors :: nat
  c_duplicates :: nat
  c_last_processed_at :: "datetime option"
  c_evidence_created :: nat
  c_evidence_duplicates :: nat
  c_evidence_errors :: nat
  c_evidence_by_type :: "string \<Rightarrow> nat"
  c_pending :: "observation list"

definition init_consumer :: "organizer_config \<Rightarrow> bool \<Rightarrow> consumer" where
  "init_consumer cfg has_store =
     \<lparr>c_observations = [], c_evidence = [], c_acked = [], c_has_evidence_store = has_store,
      c_config = cfg, c_processed = 0, c_errors = 0, c_duplicates = 0, c_last_processed_at = None,
      c_evidence_created = 0, c_evidence_duplicates = 0, c_evidence_errors = 0,
      c_evidence_by_type = (\<lambda>_. 0), c_pending = []\<rparr>"

record message =
  m_id :: string
  m_observation :: observation
  m_db_up :: bool
  m_bus_up :: bool
  m_now :: datetime

section \<open>Operations\<close>

text \<open>\<open>observation_exists\<close> looks for the pair of the primary key.\<close>

definition obs_key :: "observation \<Rightarrow> uuid \<times> datetime" where
  "obs_key obs = (o_id obs, o_captured_at obs)"

definition persist :: "bool \<Rightarrow> observation \<Rightarrow> consumer \<Rightarrow> bool result \<times> consumer" where
  "persist db_up obs s =
     (if \<not> db_up then (Inl (PassedThrough ''database''), s)
      else if obs_key obs \<in> obs_key ` set (c_observations s) then (Inr True, s)
      else (Inr False, s\<lparr>c_observations := c_observations s @ [obs]\<rparr>))"

definition prune_pending :: "consumer \<Rightarrow> consumer" where
  "prune_pending s =
     (case c_pending s of [] \<Rightarrow> s
      | p # ps \<Rightarrow>
          (let latest = Max (o_captured_at ` set (c_pending s));
               cutoff = latest - minutes (max_window_minutes (c_config s))
           in s\<lparr>c_pending := filter (\<lambda>obs. o_captured_at obs \<ge> cutoff) (c_pending s)\<rparr>))"

text \<open>The loop over the creations: it stops at the first insert that raises.\<close>

fun save_creations :: "uuid5 \<Rightarrow> (piece \<Rightarrow> string) \<Rightarrow> (evidence \<Rightarrow> bool) \<Rightarrow> datetime \<Rightarrow>
    evidence_create list \<Rightarrow> consumer \<Rightarrow> unit result \<times> consumer" where
  "save_creations uuid5 fmt accepts now [] s = (Inr (), s)"
| "save_creations uuid5 fmt accepts now (create # rest) s =
     (let e = build_evidence uuid5 fmt now create
      in if \<not> accepts e then (Inl (PassedThrough ''database''), s)
         else (case insert_row ev_id e (c_evidence s) of
             (t, Some _) \<Rightarrow> save_creations uuid5 fmt accepts now rest
               (s\<lparr>c_evidence := t, c_evidence_created := c_evidence_created s + 1,
                  c_evidence_by_type := (c_evidence_by_type s)
                    (ev_type e := c_evidence_by_type s (ev_type e) + 1)\<rparr>)
           | (t, None) \<Rightarrow> save_creations uuid5 fmt accepts now rest
               (s\<lparr>c_evidence := t, c_evidence_duplicates := c_evidence_duplicates s + 1\<rparr>)))"

definition organize_pending :: "(json \<Rightarrow> string) \<Rightarrow> uuid5 \<Rightarrow> (piece \<Rightarrow> string) \<Rightarrow> (evidence \<Rightarrow> bool) \<Rightarrow>
    datetime \<Rightarrow> consumer \<Rightarrow> consumer" where
  "organize_pending str_of uuid5 fmt accepts now s =
     (if \<not> c_has_evidence_store s then s
      else let s1 = prune_pending s
           in case organize str_of (c_config s1) (c_pending s1) of
                Inl _ \<Rightarrow> s1\<lparr>c_evidence_errors := c_evidence_errors s1 + 1\<rparr>
              | Inr creations \<Rightarrow>
                  (case save_creations uuid5 fmt accepts now creations s1 of
                     (Inl _, s2) \<Rightarrow> s2\<lparr>c_evidence_errors := c_evidence_errors s2 + 1\<rparr>
                   | (Inr _, s2) \<Rightarrow> s2))"

text \<open>One turn of the loop of \<open>process_batch\<close>, with the exceptions it swallows.\<close>

definition process_message :: "message \<Rightarrow> consumer \<times> nat \<Rightarrow> consumer \<times> nat" where
  "process_message m sp = (case sp of (s, processed) \<Rightarrow>
     (case persist (m_db_up m) (m_observation m) s of
        (Inl _, s1) \<Rightarrow> (s1\<lparr>c_errors := c_errors s1 + 1\<rparr>, processed)
      | (Inr duplicate, s1) \<Rightarrow>
          (let s2 = (if duplicate then s1\<lparr>c_duplicates := c_duplicates s1 + 1\<rparr> else s1)
           in if \<not> m_bus_up m then (s2\<lparr>c_errors := c_errors s2 + 1\<rparr>, processed)
              else (s2\<lparr>c_acked := c_acked s2 @ [m_id m], c_processed := c_processed s2 + 1,
                      c_last_processed_at := Some (m_now m),
                      c_pending := c_pending s2 @ [m_observation m]\<rparr>, processed + 1))))"

definition process_batch :: "(json \<Rightarrow> string) \<Rightarrow> uuid5 \<Rightarrow> (piece \<Rightarrow> string) \<Rightarrow> (evidence \<Rightarrow> bool) \<Rightarrow>
    datetime \<Rightarrow> message list \<Rightarrow> consumer \<Rightarrow> consumer \<times> nat" where
  "process_batch str_of uuid5 fmt accepts now ms s =
     (case fold process_message ms (s, 0) of
        (s1, processed) \<Rightarrow> (organize_pending str_of uuid5 fmt accepts now s1, processed))"

section \<open>Observations: append-only, one row per key\<close>

definition obs_wf :: "consumer \<Rightarrow> bool" where
  "obs_wf s \<longleftrightarrow> distinct (map obs_key (c_observations s))"

lemma save_creations_obs [simp]:
  "c_observations (snd (save_creations uuid5 fmt accepts now cs s)) = c_observations s \<and>
   c_pending (snd (save_creations uuid5 fmt accepts now cs s)) = c_pending s \<and>
   c_acked (snd (save_creations uuid5 fmt accepts now cs s)) = c_acked s \<and>
   c_config (snd (save_creations uuid5 fmt accepts now cs s)) = c_config s"
  by (induction cs arbitrary: s) (auto simp: Let_def split: prod.splits option.splits)

lemma prune_obs [simp]: "c_observations (prune_pending s) = c_observations s"
    "c_acked (prune_pending s) = c_acked s" "c_config (prune_pending s) = c_config s"
    "c_evidence (prune_pending s) = c_evidence s"
  by (simp_all add: prune_pending_def Let_def split: list.splits)

lemma organize_obs [simp]:
  "c_observations (organize_pending str_of uuid5 fmt accepts now s) = c_observations s"
  "c_acked (organize_pending str_of uuid5 fmt accepts now s) = c_acked s"
proof -
  have *: "c_observations s2 = c_observations t \<and> c_acked s2 = c_acked t"
    if "save_creations uuid5 fmt accepts now cs t = (r, s2)" for cs t r s2
    using save_creations_obs [of uuid5 fmt accepts now cs t] by (simp add: that)
  show "c_observations (organize_pending str_of uuid5 fmt accepts now s) = c_observations s"
    "c_acked (organize_pending str_of uuid5 fmt accepts now s) = c_acked s"
    by (auto simp: organize_pending_def Let_def dest!: * split: sum.splits prod.splits)
qed

lemma message_wf: "obs_wf (fst sp) \<Longrightarrow> obs_wf (fst (process_message m sp))"
  by (cases sp) (auto simp: process_message_def persist_def obs_wf_def Let_def)

lemma messages_wf: "obs_wf (fst sp) \<Longrightarrow> obs_wf (fst (fold process_message ms sp))"
  by (induction ms arbitrary: sp) (auto simp: message_wf)

lemma message_keeps: "\<exists>new. c_observations (fst (process_message m sp)) = c_observations (fst sp) @ new \<and>
    set new \<subseteq> {m_observation m}"
  by (cases sp) (auto simp: process_message_def persist_def Let_def)

lemma messages_keep: "\<exists>new. c_observations (fst (fold process_message ms sp)) = c_observations (fst sp) @ new \<and>
    set new \<subseteq> m_observation ` set ms"
proof (induction ms arbitrary: sp)
  case (Cons m ms)
  obtain n1 where n1: "c_observations (fst (process_message m sp)) = c_observations (fst sp) @ n1"
      "set n1 \<subseteq> {m_observation m}" using message_keeps by blast
  obtain n2 where "c_observations (fst (fold process_message ms (process_message m sp)))
      = c_observations (fst (process_message m sp)) @ n2" "set n2 \<subseteq> m_observation ` set ms"
    using Cons.IH by blast
  then show ?case using n1 by (intro exI [of _ "n1 @ n2"]) auto
qed simp

text \<open>What is acknowledged is on disk.\<close>

lemma acked_stored:
  assumes "\<And>i. i \<in> set (c_acked (fst sp)) \<Longrightarrow> \<exists>m \<in> M. m_id m = i \<and>
      obs_key (m_observation m) \<in> obs_key ` set (c_observations (fst sp))" and "set ms \<subseteq> M"
    and "i \<in> set (c_acked (fst (fold process_message ms sp)))"
  shows "\<exists>m \<in> M. m_id m = i \<and>
      obs_key (m_observation m) \<in> obs_key ` set (c_observations (fst (fold process_message ms sp)))"
  using assms
proof (induction ms arbitrary: sp)
  case (Cons m ms)
  have "\<exists>m' \<in> M. m_id m' = j \<and>
      obs_key (m_observation m') \<in> obs_key ` set (c_observations (fst (process_message m sp)))"
    if "j \<in> set (c_acked (fst (process_message m sp)))" for j
  proof (cases "j \<in> set (c_acked (fst sp))")
    case True
    then obtain m' where "m' \<in> M" "m_id m' = j"
      "obs_key (m_observation m') \<in> obs_key ` set (c_observations (fst sp))"
      using Cons.prems(1) by blast
    moreover obtain new where "c_observations (fst (process_message m sp)) = c_observations (fst sp) @ new"
      using message_keeps by blast
    ultimately show ?thesis by auto
  next
    case False
    then show ?thesis using that Cons.prems(2)
      by (cases sp) (auto simp: process_message_def persist_def Let_def split: if_splits)
  qed
  then show ?case using Cons.IH [of "process_message m sp"] Cons.prems by simp
qed simp

section \<open>Evidence: organizing again changes nothing\<close>

lemma prune_counts: "c_evidence_errors (prune_pending s) = c_evidence_errors s"
  by (simp add: prune_pending_def Let_def split: list.splits)

lemma prune_idem: "prune_pending (prune_pending s) = prune_pending s"
proof (cases "c_pending s")
  case (Cons p ps)
  let ?t = "o_captured_at" and ?d = "minutes (max_window_minutes (c_config s))"
  let ?P = "c_pending s" and ?m = "Max (o_captured_at ` set (c_pending s))"
  let ?F = "filter (\<lambda>obs. ?t obs \<ge> ?m - ?d) ?P"
  have F: "prune_pending s = s\<lparr>c_pending := ?F\<rparr>"
    using Cons by (simp add: prune_pending_def Let_def)
  show ?thesis
  proof (cases "?F")
    case Nil
    then show ?thesis using F by (simp add: prune_pending_def)
  next
    case (Cons q qs)
    have sub: "?t ` set ?F \<subseteq> ?t ` set ?P" by (rule image_mono) auto
    have ne: "?t ` set ?F \<noteq> {}" unfolding Cons by simp
    have "Max (?t ` set ?F) \<le> ?m" using Max_mono [OF sub ne] by simp
    then have "\<forall>x \<in> set ?F. ?t x \<ge> Max (?t ` set ?F) - ?d" by auto
    then have "filter (\<lambda>obs. ?t obs \<ge> Max (?t ` set ?F) - ?d) ?F = ?F"
      unfolding filter_id_conv .
    then show ?thesis using F Cons by (simp add: prune_pending_def Let_def)
  qed
qed (simp add: prune_pending_def)

lemma prune_pending_same:
  assumes "prune_pending p = p" and "c_pending s = c_pending p" and "c_config s = c_config p"
  shows "prune_pending s = s"
proof -
  have "c_pending (prune_pending s) = c_pending (prune_pending p)"
    using assms(2,3) by (simp add: prune_pending_def Let_def split: list.splits)
  then have "c_pending (prune_pending s) = c_pending s" using assms by simp
  then show ?thesis by (cases "c_pending s") (simp_all add: prune_pending_def Let_def)
qed

lemma prune_pending_with:
  "prune_pending p = p \<Longrightarrow> prune_pending (p\<lparr>c_evidence_errors := k\<rparr>) = p\<lparr>c_evidence_errors := k\<rparr>"
  by (rule prune_pending_same) auto

lemma save_creations_store [simp]:
  "c_has_evidence_store (snd (save_creations u r a now cs s)) = c_has_evidence_store s"
  by (induction cs arbitrary: s) (auto simp: Let_def split: prod.splits option.splits)

lemma insert_key: "ev_id r \<in> ev_id ` set (fst (insert_row ev_id r t)) \<and> set t \<subseteq> set (fst (insert_row ev_id r t))"
  by (auto simp: insert_row_def)

lemma build_evidence_id: "ev_id (build_evidence u r now c) = ev_id (build_evidence u r now' c)"
  by (simp add: build_evidence_def)

lemma save_known:
  assumes "\<And>c. c \<in> set cs \<Longrightarrow> ev_id (build_evidence u r now c) \<in> ev_id ` set (c_evidence s)"
  shows "c_evidence (snd (save_creations u r (\<lambda>_. True) now cs s)) = c_evidence s \<and>
     c_evidence_created (snd (save_creations u r (\<lambda>_. True) now cs s)) = c_evidence_created s"
  using assms by (induction cs arbitrary: s) (auto simp: Let_def insert_row_def)

lemma save_creations_keeps:
  "set (c_evidence s) \<subseteq> set (c_evidence (snd (save_creations u r a now cs s)))"
proof (induction cs arbitrary: s)
  case (Cons c cs)
  show ?case
    by (auto simp: Let_def insert_row_def split: prod.splits option.splits
        intro: set_mp [OF Cons.IH])
qed simp

lemma save_creations_present:
  "c \<in> set cs \<Longrightarrow> ev_id (build_evidence u r now c) \<in>
     ev_id ` set (c_evidence (snd (save_creations u r (\<lambda>_. True) now cs s)))"
proof (induction cs arbitrary: s)
  case (Cons c' cs)
  let ?e = "build_evidence u r now c'"
  obtain t row where ins: "insert_row ev_id ?e (c_evidence s) = (t, row)" by fastforce
  have k: "ev_id ?e \<in> ev_id ` set t" using insert_key [of ?e "c_evidence s"] ins by simp
  obtain s' where s': "save_creations u r (\<lambda>_. True) now (c' # cs) s = save_creations u r (\<lambda>_. True) now cs s'"
      "c_evidence s' = t"
    by (cases row) (auto simp: Let_def ins)
  show ?case
  proof (cases "c = c'")
    case True
    then show ?thesis
      using k s' save_creations_keeps [of s' u r "\<lambda>_. True" now cs] by (auto simp: image_iff)
  next
    case False
    then show ?thesis using Cons s' by simp
  qed
qed simp

lemma save_creations_ok: "fst (save_creations u r (\<lambda>_. True) now cs s) = Inr ()"
  by (induction cs arbitrary: s) (auto simp: Let_def split: prod.splits option.splits)

lemma reorganize:
  assumes "s1 = organize_pending str_of uuid5 fmt (\<lambda>_. True) t1 s"
    and "s2 = organize_pending str_of uuid5 fmt (\<lambda>_. True) t2 s1"
  shows "c_evidence s2 = c_evidence s1 \<and> c_evidence_created s2 = c_evidence_created s1"
proof (cases "c_has_evidence_store s")
  case False
  then show ?thesis using assms by (simp add: organize_pending_def)
next
  case True
  let ?p = "prune_pending s"
  have hp: "c_has_evidence_store ?p" using True by (simp add: prune_pending_def Let_def split: list.splits)
  show ?thesis
  proof (cases "organize str_of (c_config ?p) (c_pending ?p)")
    case (Inl e)
    then have s1: "s1 = ?p\<lparr>c_evidence_errors := c_evidence_errors ?p + 1\<rparr>"
      using assms(1) True by (simp add: organize_pending_def Let_def)
    have "prune_pending s1 = s1" using prune_idem [of s] by (simp add: s1 prune_pending_with)
    then show ?thesis using assms(2) s1 Inl hp by (simp add: organize_pending_def Let_def)
  next
    case (Inr cs)
    let ?sv = "save_creations uuid5 fmt (\<lambda>_. True) t1 cs ?p"
    have s1: "s1 = snd ?sv" using assms(1) True Inr save_creations_ok [of uuid5 fmt t1 cs ?p]
      by (auto simp: organize_pending_def Let_def split: prod.splits)
    have same: "c_pending s1 = c_pending ?p" "c_config s1 = c_config ?p" "c_has_evidence_store s1"
      using hp by (simp_all add: s1 save_creations_store)
    have pr: "prune_pending s1 = s1"
      by (rule prune_pending_same [OF prune_idem same(1,2)])
    have known: "ev_id (build_evidence uuid5 fmt t2 c) \<in> ev_id ` set (c_evidence s1)" if "c \<in> set cs" for c
      using save_creations_present [OF that] s1 build_evidence_id by metis
    have org: "organize str_of (c_config s1) (c_pending s1) = Inr cs" using Inr same by simp
    obtain w where w: "save_creations uuid5 fmt (\<lambda>_. True) t2 cs s1 = (Inr (), w)"
      using save_creations_ok [of uuid5 fmt t2 cs s1] by (metis prod.collapse)
    have "s2 = w" using assms(2) same(3) by (simp add: organize_pending_def Let_def pr org w)
    then show ?thesis using save_known [of cs uuid5 fmt t2 s1] known w by simp
  qed
qed

section \<open>Properties\<close>

text \<open>
  Persistence of a batch, whatever fails on the way: stored observations are never changed or
  removed, no key is stored twice, every new row is the observation of a delivered message, and a
  message is acknowledged only when its observation is in the table.
\<close>

theorem batch_persistence:
  assumes "obs_wf s" and "c_acked s = []"
    and "process_batch str_of uuid5 fmt accepts now ms s = (s', n)"
  shows "(\<exists>new. c_observations s' = c_observations s @ new \<and> set new \<subseteq> m_observation ` set ms) \<and>
     obs_wf s' \<and>
     (\<forall>i \<in> set (c_acked s'). \<exists>m \<in> set ms. m_id m = i \<and>
        obs_key (m_observation m) \<in> obs_key ` set (c_observations s'))"
proof -
  obtain s1 where s1: "fold process_message ms (s, 0) = (s1, n)"
      "s' = organize_pending str_of uuid5 fmt accepts now s1"
    using assms(3) by (auto simp: process_batch_def split: prod.splits)
  have "obs_wf s1" using messages_wf [of "(s, 0)" ms] assms(1) s1(1) by simp
  then have wf: "obs_wf s'" by (simp add: obs_wf_def s1(2))
  have new: "\<exists>new. c_observations s' = c_observations s @ new \<and> set new \<subseteq> m_observation ` set ms"
    using messages_keep [of ms "(s, 0)"] s1 by simp
  have "\<exists>m \<in> set ms. m_id m = i \<and> obs_key (m_observation m) \<in> obs_key ` set (c_observations s')"
    if "i \<in> set (c_acked s')" for i
    using acked_stored [of "(s, 0)" "set ms" ms i] that s1 assms(2) by simp
  then show ?thesis using new wf by blast
qed

text \<open>
  C23. Organizing is idempotent: once the evidence of the buffer has been inserted, organizing the
  same buffer again at any later time leaves the evidence table as it is and creates nothing.
\<close>

theorem organize_idempotent:
  "c_evidence (organize_pending str_of uuid5 fmt (\<lambda>_. True) t2
      (organize_pending str_of uuid5 fmt (\<lambda>_. True) t1 s))
    = c_evidence (organize_pending str_of uuid5 fmt (\<lambda>_. True) t1 s) \<and>
   c_evidence_created (organize_pending str_of uuid5 fmt (\<lambda>_. True) t2
      (organize_pending str_of uuid5 fmt (\<lambda>_. True) t1 s))
    = c_evidence_created (organize_pending str_of uuid5 fmt (\<lambda>_. True) t1 s)"
proof -
  define s1 where "s1 = organize_pending str_of uuid5 fmt (\<lambda>_. True) t1 s"
  define s2 where "s2 = organize_pending str_of uuid5 fmt (\<lambda>_. True) t2 s1"
  show ?thesis using reorganize [OF s1_def s2_def] by (simp add: s1_def s2_def)
qed

text \<open>
  One malformed reading stops the evidence of everybody: while the buffer holds a memory
  reading, from any tenant, whose total is text and which has no used bytes, organizing raises,
  inserts nothing for any tenant and counts one error.
\<close>

theorem malformed_reading_blocks_all:
  assumes "x \<in> set (c_pending (prune_pending s))" and "o_fact_type x = ''memory_usage''"
    and "get (o_fact_value x) ''total_bytes'' = JStr t" and "t \<noteq> []"
    and "get (o_fact_value x) ''used_bytes'' = JNull" and "c_has_evidence_store s"
  shows "c_evidence (organize_pending str_of uuid5 fmt accepts now s) = c_evidence s \<and>
     c_evidence_errors (organize_pending str_of uuid5 fmt accepts now s) = c_evidence_errors s + 1"
proof -
  let ?os = "c_pending (prune_pending s)"
  let ?g = "filter (\<lambda>y. o_source y = o_source x) ?os"
  have "direct_usage ''memory_usage'' x = Inl (TypeError ''unsupported operand'')"
    using assms(2-5) by (simp add: direct_usage_def Let_def py_sub_def)
  then obtain e1 where "traverse (direct_usage ''memory_usage'') ?g = Inl e1"
    using traverse_raises [of x ?g] assms(1) by auto
  then have "\<exists>e. resource_exhaustion_group w c m d (o_source x, ?g) = Inl e" for w c m d
    by (simp add: resource_exhaustion_group_def memory_usage_def usage_def)
  moreover have "(o_source x, ?g) \<in> set (group_by o_source ?os)" using grp.group_covers [OF assms(1)] .
  ultimately have "\<exists>e. resource_exhaustion_evidence ?os w c m d = Inl e" for w c m d
    using traverse_raises [of _ "group_by o_source ?os"]
    unfolding resource_exhaustion_evidence_def over_groups_def by (metis and_then_Inl)
  then have "\<exists>e. organize str_of cfg ?os = Inl e" for cfg
    unfolding organize_def by (metis and_then_Inl)
  then obtain e where "organize str_of (c_config s) ?os = Inl e" by blast
  then show ?thesis using assms(6) prune_counts [of s] by (simp add: organize_pending_def Let_def)
qed

text \<open>A batch with a database failure, a redelivery and a malformed reading.\<close>

definition broken_obs :: observation where
  "broken_obs = change_obs\<lparr>o_id := 9, o_tenant := 8, o_source := 5, o_fact_type := ''memory_usage'',
     o_fact_value := [(''total_bytes'', JStr ''n/a'')]\<rparr>"

definition mixed_batch :: "message list" where
  "mixed_batch =
     [\<lparr>m_id = ''1-0'', m_observation = lockout_obs, m_db_up = False, m_bus_up = True, m_now = 0\<rparr>,
      \<lparr>m_id = ''2-0'', m_observation = change_obs, m_db_up = True, m_bus_up = True, m_now = 1\<rparr>,
      \<lparr>m_id = ''3-0'', m_observation = change_obs, m_db_up = True, m_bus_up = True, m_now = 2\<rparr>,
      \<lparr>m_id = ''4-0'', m_observation = broken_obs, m_db_up = True, m_bus_up = True, m_now = 3\<rparr>]"

definition after_mixed :: consumer where
  "after_mixed = fst (fold process_message mixed_batch (init_consumer default_config True, 0))"

lemma after_mixed_eval: "c_observations after_mixed = [change_obs, broken_obs] \<and>
    c_acked after_mixed = [''2-0'', ''3-0'', ''4-0''] \<and> c_errors after_mixed = 1 \<and>
    c_duplicates after_mixed = 1 \<and> c_pending after_mixed = [change_obs, change_obs, broken_obs] \<and>
    c_has_evidence_store after_mixed \<and> c_evidence after_mixed = [] \<and> c_config after_mixed = default_config"
  by (simp add: after_mixed_def mixed_batch_def init_consumer_def process_message_def persist_def
      obs_key_def change_obs_def broken_obs_def Let_def)

theorem batch_persistence_witness:
  "\<exists>s'. process_batch (\<lambda>_. []) (\<lambda>_ _. 1) (\<lambda>_. []) (\<lambda>_. True) 0 mixed_batch (init_consumer default_config True) = (s', 3) \<and>
     obs_wf s' \<and> c_observations s' = [change_obs, broken_obs]"
proof -
  let ?i = "init_consumer default_config True"
  have h: "obs_wf ?i" "c_acked ?i = []" by (simp_all add: init_consumer_def obs_wf_def)
  obtain s' n where b: "process_batch (\<lambda>_. []) (\<lambda>_ _. 1) (\<lambda>_. []) (\<lambda>_. True) 0 mixed_batch ?i = (s', n)" by fastforce
  have "n = 3" using b
    by (simp add: process_batch_def mixed_batch_def init_consumer_def process_message_def persist_def
      obs_key_def change_obs_def broken_obs_def Let_def)
  moreover have "c_observations s' = c_observations after_mixed"
    using b by (auto simp: process_batch_def after_mixed_def split: prod.splits)
  ultimately show ?thesis using b batch_persistence [OF h b] after_mixed_eval by auto
qed

lemma default_max_window: "max_window_minutes default_config = 60"
  by (simp add: max_window_minutes_def default_config_def)

theorem malformed_reading_blocks_all_witness:
  "c_evidence (organize_pending (\<lambda>_. []) (\<lambda>_ _. 1) (\<lambda>_. []) (\<lambda>_. True) 0 after_mixed) = [] \<and>
   broken_obs \<in> set (c_pending (prune_pending after_mixed))"
proof -
  have p: "c_pending (prune_pending after_mixed) = [change_obs, change_obs, broken_obs]"
    by (simp add: after_mixed_eval prune_pending_def Let_def broken_obs_def default_max_window)
  have "broken_obs \<in> set (c_pending (prune_pending after_mixed))" by (simp add: p)
  then show ?thesis
    using malformed_reading_blocks_all [of broken_obs after_mixed "''n/a''"] after_mixed_eval
    by (simp add: broken_obs_def get_def)
qed

end
