(* ===== verification/Context_Activation.thy ===== *)
theory Context_Activation
  imports Cognitive_Types "HOL-Library.Char_ord" "HOL-Library.List_Lexorder" "HOL-Library.Product_Lexorder"
begin

text \<open>
  The Explain capability: the mental-model catalogue and the context store of
  \<open>libs/perception/context.py\<close>, the coherence competition and the engine of
  \<open>apps/services/context-service/src/activator\<close>, and the activation cycle of the service.
  The text of a float and of a list of competitors inside the hashed name, and the hash, are
  arguments. The advisory lock of \<open>save_context\<close> makes it one atomic step here.
\<close>

section \<open>Catalogue (context.py)\<close>

record mental_model =
  model_id :: string
  explains :: "string set"
  purposes :: "string set"
  mm_description :: string

definition PURPOSES :: "string set" where
  "PURPOSES = {''infrastructure_health'', ''security_posture'', ''capacity_management''}"

definition MENTAL_MODEL_CATALOG :: "mental_model list" where
  "MENTAL_MODEL_CATALOG =
    [\<lparr>model_id = ''resource_pressure'', explains = {''resource_exhaustion_evidence''},
      purposes = {''infrastructure_health'', ''capacity_management''},
      mm_description = ''Explains evidence of concurrently exhausted cpu/memory/disk '' @
        ''resources on a host (resource_exhaustion_evidence).''\<rparr>,
     \<lparr>model_id = ''service_failure'', explains = {''service_degradation_evidence''},
      purposes = {''infrastructure_health'', ''security_posture''},
      mm_description = ''Explains evidence of a configured service stopped while an error '' @
        ''event is recorded (service_degradation_evidence).''\<rparr>,
     \<lparr>model_id = ''auth_compromise'', explains = {''auth_anomaly_evidence''},
      purposes = {''security_posture''},
      mm_description = ''Explains evidence of an account lockout coinciding with a '' @
        ''privileged group membership change (auth_anomaly_evidence).''\<rparr>,
     \<lparr>model_id = ''capacity_risk'', explains = {''backup_failure_evidence'', ''vmware_capacity_evidence''},
      purposes = {''infrastructure_health'', ''capacity_management''},
      mm_description = ''Explains evidence of storage/backup capacity in shortfall '' @
        ''(backup_failure_evidence, vmware_capacity_evidence).''\<rparr>,
     \<lparr>model_id = ''connectivity_degradation'', explains = {''network_anomaly_evidence''},
      purposes = {''infrastructure_health''},
      mm_description = ''Explains evidence of interface error rates with port state '' @
        ''changes (network_anomaly_evidence).''\<rparr>]"

definition models_for_purpose :: "string \<Rightarrow> mental_model list" where
  "models_for_purpose purpose = filter (\<lambda>m. purpose \<in> purposes m) MENTAL_MODEL_CATALOG"

section \<open>Competition (coherence.py)\<close>

record model_score =
  ms_model :: string
  ms_coherence :: real
  ms_weight :: real
  ms_count :: nat

record competition =
  comp_purpose :: string
  comp_winner :: model_score
  comp_candidates :: "model_score list"
  comp_evidence :: "uuid list"

definition get0 :: "(string \<times> real) list \<Rightarrow> string \<Rightarrow> real" where
  "get0 d k = (case map_of d k of None \<Rightarrow> 0 | Some v \<Rightarrow> v)"

definition weights_by_type :: "evidence list \<Rightarrow> (string \<times> real) list" where
  "weights_by_type ev =
     foldl (\<lambda>d e. AList.update (ev_type e) (get0 d (ev_type e) + ev_weight e) d) [] ev"

definition total_weight :: "evidence list \<Rightarrow> real" where
  "total_weight ev = sum_list (map ev_weight ev)"

definition score_model :: "mental_model \<Rightarrow> (string \<times> real) list \<Rightarrow> real \<Rightarrow> model_score" where
  "score_model m weights total_w =
     (let explained_weight = (\<Sum>t \<in> explains m. get0 weights t);
          explained_count = card (explains m \<inter> fst ` set weights)
      in \<lparr>ms_model = model_id m,
          ms_coherence = (if total_w > 0 then explained_weight / total_w else 0),
          ms_weight = explained_weight, ms_count = explained_count\<rparr>)"

definition compete :: "evidence list \<Rightarrow> string \<Rightarrow> mental_model list option \<Rightarrow> competition option" where
  "compete ev purpose models =
     (let candidates = filter (\<lambda>m. purpose \<in> purposes m)
            (case models of None \<Rightarrow> models_for_purpose purpose | Some ms \<Rightarrow> ms)
      in if ev = [] \<or> candidates = [] then None
         else let total_w = total_weight ev; weights = weights_by_type ev;
                  scores = sort_key (\<lambda>s. (- ms_coherence s, ms_model s))
                             (map (\<lambda>m. score_model m weights total_w) candidates)
              in Some \<lparr>comp_purpose = purpose, comp_winner = hd scores, comp_candidates = scores,
                   comp_evidence = map ev_id ev\<rparr>)"

section \<open>Engine (engine.py)\<close>

record context_create =
  cc_tenant :: uuid
  cc_evidence_ids :: "uuid list"
  cc_model :: string
  cc_purpose :: string
  cc_coherence :: real
  cc_competing :: "(string \<times> real) list"

definition activate :: "mental_model list \<Rightarrow> evidence list \<Rightarrow> string \<Rightarrow> context_create option" where
  "activate models ev purpose =
     (case compete ev purpose (Some models) of None \<Rightarrow> None
      | Some r \<Rightarrow> Some \<lparr>cc_tenant = ev_tenant (hd ev), cc_evidence_ids = comp_evidence r,
          cc_model = ms_model (comp_winner r), cc_purpose = purpose,
          cc_coherence = round_to 2 (ms_coherence (comp_winner r)),
          cc_competing = map (\<lambda>c. (ms_model c, round_to 2 (ms_coherence c))) (comp_candidates r)\<rparr>)"

section \<open>Identity and store (context.py)\<close>

definition context_name :: "(real \<Rightarrow> string) \<Rightarrow> ((string \<times> real) list \<Rightarrow> string) \<Rightarrow> uuid \<Rightarrow> string \<Rightarrow>
    uuid list \<Rightarrow> string \<Rightarrow> real \<Rightarrow> (string \<times> real) list \<Rightarrow> string" where
  "context_name float_str dumps tenant purpose evs model coh competing =
     (let competing_str = (if competing \<noteq> [] then dumps (sort_key fst competing) else ''[]'')
      in uuid_str tenant @ '':'' @ purpose @ '':'' @ ordered_ids evs @ '':'' @ model @ '':'' @
         float_str coh @ '':'' @ competing_str)"

definition context_id :: "uuid5 \<Rightarrow> (real \<Rightarrow> string) \<Rightarrow> ((string \<times> real) list \<Rightarrow> string) \<Rightarrow> uuid \<Rightarrow> string \<Rightarrow>
    uuid list \<Rightarrow> string \<Rightarrow> real \<Rightarrow> (string \<times> real) list \<Rightarrow> uuid" where
  "context_id uuid5 float_str dumps tenant purpose evs model coh competing =
     uuid5 124 (context_name float_str dumps tenant purpose evs model coh competing)"

text \<open>\<open>mk_id\<close> is \<open>context_id\<close> with the hash and the texts of the surroundings.\<close>

type_synonym context_hash = "uuid \<Rightarrow> string \<Rightarrow> uuid list \<Rightarrow> string \<Rightarrow> real \<Rightarrow> (string \<times> real) list \<Rightarrow> uuid"

definition build_context :: "context_hash \<Rightarrow> datetime \<Rightarrow> context_create \<Rightarrow> context_row" where
  "build_context mk_id now c =
     \<lparr>ctx_id = mk_id (cc_tenant c) (cc_purpose c) (cc_evidence_ids c) (cc_model c) (cc_coherence c)
        (cc_competing c),
      ctx_tenant = cc_tenant c, ctx_evidence_ids = cc_evidence_ids c, ctx_model = cc_model c,
      ctx_purpose = cc_purpose c, ctx_coherence = cc_coherence c, ctx_competing = cc_competing c,
      ctx_activated_at = now, ctx_active = True\<rparr>"

definition deactivate_context :: "uuid \<Rightarrow> string \<Rightarrow> uuid \<Rightarrow> context_row list \<Rightarrow> context_row list" where
  "deactivate_context tenant purpose exclude_id t =
     map (\<lambda>r. if ctx_tenant r = tenant \<and> ctx_purpose r = purpose \<and> ctx_active r \<and> ctx_id r \<noteq> exclude_id
               then r\<lparr>ctx_active := False\<rparr> else r) t"

definition save_context :: "context_row \<Rightarrow> context_row list \<Rightarrow> context_row list \<times> context_row option" where
  "save_context c t =
     insert_row ctx_id c (if ctx_active c
        then deactivate_context (ctx_tenant c) (ctx_purpose c) (ctx_id c) t else t)"

definition set_active :: "uuid \<Rightarrow> uuid \<Rightarrow> bool \<Rightarrow> context_row list \<Rightarrow> context_row list" where
  "set_active i tenant is_active t =
     map (\<lambda>r. if ctx_id r = i \<and> ctx_tenant r = tenant then r\<lparr>ctx_active := is_active\<rparr> else r) t"

definition list_contexts :: "uuid \<Rightarrow> context_row list \<Rightarrow> context_row list" where
  "list_contexts tenant t = sort_key ctx_activated_at (filter (\<lambda>r. ctx_tenant r = tenant) t)"

definition list_active_contexts :: "uuid \<Rightarrow> context_row list \<Rightarrow> context_row list" where
  "list_active_contexts tenant t =
     sort_key ctx_activated_at (filter (\<lambda>r. ctx_tenant r = tenant \<and> ctx_active r) t)"

section \<open>Activation cycle (service.py)\<close>

record context_service =
  cs_contexts :: "context_row list"
  cs_purposes :: "string list"
  cs_activated :: nat
  cs_duplicates :: nat
  cs_errors :: nat
  cs_by_model :: "string \<Rightarrow> nat"
  cs_by_purpose :: "string \<Rightarrow> nat"
  cs_last_run_at :: "datetime option"

definition list_evidence :: "uuid \<Rightarrow> evidence list \<Rightarrow> evidence list" where
  "list_evidence tenant t = sort_key (\<lambda>e. - ev_organized_at e) (filter (\<lambda>e. ev_tenant e = tenant) t)"

text \<open>\<open>accepts\<close>: whether the transaction that saves the row commits.\<close>

definition activate_one :: "mental_model list \<Rightarrow> context_hash \<Rightarrow> (context_row \<Rightarrow> bool) \<Rightarrow> datetime \<Rightarrow>
    uuid \<Rightarrow> evidence list \<Rightarrow> string \<Rightarrow> context_service \<Rightarrow> unit result \<times> context_service" where
  "activate_one models mk_id accepts now tenant ev purpose s =
     (case activate models ev purpose of None \<Rightarrow> (Inr (), s)
      | Some create \<Rightarrow>
          if cc_tenant create \<noteq> tenant then (Inr (), s)
          else (let context = build_context mk_id now create
                in if \<not> accepts context then (Inl (PassedThrough ''database''), s)
                   else (case save_context context (cs_contexts s) of
                      (t, Some _) \<Rightarrow> (Inr (), s\<lparr>cs_contexts := t, cs_activated := cs_activated s + 1,
                         cs_by_model := (cs_by_model s)(ctx_model context := cs_by_model s (ctx_model context) + 1),
                         cs_by_purpose := (cs_by_purpose s)(ctx_purpose context := cs_by_purpose s (ctx_purpose context) + 1)\<rparr>)
                    | (t, None) \<Rightarrow> (Inr (), s\<lparr>cs_contexts := t, cs_duplicates := cs_duplicates s + 1\<rparr>))))"

fun activate_purposes :: "mental_model list \<Rightarrow> context_hash \<Rightarrow> (context_row \<Rightarrow> bool) \<Rightarrow> datetime \<Rightarrow>
    uuid \<Rightarrow> evidence list \<Rightarrow> string list \<Rightarrow> context_service \<Rightarrow> context_service" where
  "activate_purposes models mk_id accepts now tenant ev [] s = s"
| "activate_purposes models mk_id accepts now tenant ev (p # ps) s =
     (case activate_one models mk_id accepts now tenant ev p s of
        (Inl _, s1) \<Rightarrow> activate_purposes models mk_id accepts now tenant ev ps (s1\<lparr>cs_errors := cs_errors s1 + 1\<rparr>)
      | (Inr _, s1) \<Rightarrow> activate_purposes models mk_id accepts now tenant ev ps s1)"

definition activate_tenant :: "mental_model list \<Rightarrow> context_hash \<Rightarrow> (context_row \<Rightarrow> bool) \<Rightarrow> datetime \<Rightarrow>
    evidence list \<Rightarrow> uuid \<Rightarrow> context_service \<Rightarrow> context_service" where
  "activate_tenant models mk_id accepts now ev_table tenant s =
     activate_purposes models mk_id accepts now tenant (list_evidence tenant ev_table)
       (sort (cs_purposes s)) s"

definition run_activation_cycle :: "mental_model list \<Rightarrow> context_hash \<Rightarrow> (context_row \<Rightarrow> bool) \<Rightarrow>
    datetime \<Rightarrow> uuid list \<Rightarrow> evidence list \<Rightarrow> context_service \<Rightarrow> context_service" where
  "run_activation_cycle models mk_id accepts now tenants ev_table s =
     (fold (activate_tenant models mk_id accepts now ev_table) tenants s)\<lparr>cs_last_run_at := Some now\<rparr>"

section \<open>Scores\<close>

lemma get0_update [simp]: "get0 (AList.update k v d) k' = (if k' = k then v else get0 d k')"
  by (simp add: get0_def)

lemma weights_fold: "get0 (foldl (\<lambda>d e. AList.update (ev_type e) (get0 d (ev_type e) + ev_weight e) d) d ev) t =
    get0 d t + sum_list (map ev_weight (filter (\<lambda>e. ev_type e = t) ev))"
  by (induction ev arbitrary: d) auto

lemma weights_by_type_lookup:
  "get0 (weights_by_type ev) t = sum_list (map ev_weight (filter (\<lambda>e. ev_type e = t) ev))"
  by (simp add: weights_by_type_def weights_fold) (simp add: get0_def)

lemma explained_weight_eq:
  assumes "finite (explains m)"
  shows "ms_weight (score_model m (weights_by_type ev) tot) =
    sum_list (map ev_weight (filter (\<lambda>e. ev_type e \<in> explains m) ev))"
  by (simp add: score_model_def Let_def weights_by_type_lookup sum_list_by_key [OF assms])

lemma coherence_eq: "ms_coherence (score_model m w tot) = (if tot > 0 then ms_weight (score_model m w tot) / tot else 0)"
  by (simp add: score_model_def Let_def)

lemma coherence_unit:
  assumes "finite (explains m)" and "\<And>e. e \<in> set ev \<Longrightarrow> 0 \<le> ev_weight e"
  shows "0 \<le> ms_coherence (score_model m (weights_by_type ev) (total_weight ev)) \<and>
     ms_coherence (score_model m (weights_by_type ev) (total_weight ev)) \<le> 1"
proof -
  let ?s = "score_model m (weights_by_type ev) (total_weight ev)"
  have "ms_weight ?s \<le> total_weight ev"
    unfolding explained_weight_eq [OF assms(1)] total_weight_def by (rule sum_list_filter_le) (rule assms(2))
  moreover have "0 \<le> ms_weight ?s"
    unfolding explained_weight_eq [OF assms(1)] using assms(2) by (intro sum_list_unit) auto
  ultimately show ?thesis unfolding coherence_eq by simp
qed

lemma sort_key_hd_min:
  assumes "xs \<noteq> []" and "y \<in> set xs"
  shows "f (hd (sort_key f xs)) \<le> f y"
proof (cases "sort_key f xs")
  case Nil
  then show ?thesis using assms(1) by (metis length_0_conv length_sort)
next
  case (Cons z zs)
  have "sorted (map f (z # zs))" using sorted_sort_key [of f xs] Cons by simp
  moreover have "y \<in> set (z # zs)" using assms(2) Cons by (metis set_sort)
  ultimately show ?thesis using Cons by auto
qed

lemma hd_sort_in: "xs \<noteq> [] \<Longrightarrow> hd (sort_key f xs) \<in> set xs"
  by (metis hd_in_set length_0_conv length_sort set_sort)

section \<open>Store lemmas\<close>

text \<open>One row per identity, and at most one active context per tenant and purpose.\<close>

definition one_active :: "context_row list \<Rightarrow> bool" where
  "one_active t \<longleftrightarrow> distinct (map ctx_id t) \<and>
     (\<forall>r \<in> set t. \<forall>r' \<in> set t. ctx_active r \<and> ctx_active r' \<and> ctx_tenant r = ctx_tenant r' \<and>
        ctx_purpose r = ctx_purpose r' \<longrightarrow> ctx_id r = ctx_id r')"

text \<open>The immutable part of a row.\<close>

definition ctx_content :: "context_row \<Rightarrow> context_row" where
  "ctx_content r = r\<lparr>ctx_active := True\<rparr>"

lemma ctx_content_sel [simp]: "ctx_id (ctx_content r) = ctx_id r" "ctx_tenant (ctx_content r) = ctx_tenant r"
    "ctx_purpose (ctx_content r) = ctx_purpose r"
  by (simp_all add: ctx_content_def)

lemma deactivate_content [simp]: "map ctx_content (deactivate_context a b c t) = map ctx_content t"
  by (simp add: deactivate_context_def ctx_content_def)

lemma deactivate_ids [simp]: "map ctx_id (deactivate_context a b c t) = map ctx_id t"
  by (simp add: deactivate_context_def)

lemma deactivate_mem: "r \<in> set (deactivate_context a b c t) \<longleftrightarrow>
    (\<exists>q \<in> set t. r = (if ctx_tenant q = a \<and> ctx_purpose q = b \<and> ctx_active q \<and> ctx_id q \<noteq> c
                      then q\<lparr>ctx_active := False\<rparr> else q))"
  by (simp only: deactivate_context_def set_map image_iff)

lemma deactivate_ids_set [simp]: "ctx_id ` set (deactivate_context a b c t) = ctx_id ` set t"
  using deactivate_ids [of a b c t] by (metis set_map)

lemma deactivate_active:
  assumes "r \<in> set (deactivate_context a b c t)" and "ctx_active r"
  shows "r \<in> set t \<and> (ctx_tenant r = a \<and> ctx_purpose r = b \<longrightarrow> ctx_id r = c)"
proof -
  obtain q where q: "q \<in> set t"
      "r = (if ctx_tenant q = a \<and> ctx_purpose q = b \<and> ctx_active q \<and> ctx_id q \<noteq> c
            then q\<lparr>ctx_active := False\<rparr> else q)"
    using assms(1) unfolding deactivate_mem by blast
  have "\<not> (ctx_tenant q = a \<and> ctx_purpose q = b \<and> ctx_active q \<and> ctx_id q \<noteq> c)"
    using q(2) assms(2) by (auto split: if_splits)
  then show ?thesis using q assms(2) by auto
qed

lemma one_active_snoc:
  assumes "one_active t" and "ctx_id c \<notin> ctx_id ` set t"
    and "\<And>r. r \<in> set t \<Longrightarrow> ctx_active c \<Longrightarrow> ctx_active r \<Longrightarrow> ctx_tenant r = ctx_tenant c \<Longrightarrow>
      ctx_purpose r = ctx_purpose c \<Longrightarrow> False"
  shows "one_active (t @ [c])"
  unfolding one_active_def
proof (intro conjI ballI impI)
  show "distinct (map ctx_id (t @ [c]))" using assms(1,2) by (auto simp: one_active_def)
  fix r r'
  assume r: "r \<in> set (t @ [c])" "r' \<in> set (t @ [c])"
    and a: "ctx_active r \<and> ctx_active r' \<and> ctx_tenant r = ctx_tenant r' \<and> ctx_purpose r = ctx_purpose r'"
  consider "r \<in> set t" "r' \<in> set t" | "r \<in> set t" "r' = c" | "r = c" "r' \<in> set t" | "r = c" "r' = c"
    using r by auto
  then show "ctx_id r = ctx_id r'"
  proof cases
    case 1
    then show ?thesis using assms(1) a unfolding one_active_def by blast
  next
    case 2
    then show ?thesis using assms(3) [of r] a by auto
  next
    case 3
    then show ?thesis using assms(3) [of r'] a by auto
  qed simp
qed

lemma deactivate_one: "one_active t \<Longrightarrow> one_active (deactivate_context a b c t)"
  unfolding one_active_def by (metis deactivate_active deactivate_ids)

lemma save_context_one:
  assumes "one_active t"
  shows "one_active (fst (save_context c t))"
proof -
  let ?d = "if ctx_active c then deactivate_context (ctx_tenant c) (ctx_purpose c) (ctx_id c) t else t"
  have d: "one_active ?d" using assms deactivate_one by simp
  show ?thesis
  proof (cases "ctx_id c \<in> ctx_id ` set ?d")
    case True
    then show ?thesis using d by (simp add: save_context_def insert_row_def)
  next
    case False
    have "False" if "r \<in> set ?d" "ctx_active c" "ctx_active r" "ctx_tenant r = ctx_tenant c"
        "ctx_purpose r = ctx_purpose c" for r
    proof -
      have "ctx_id r = ctx_id c"
        using deactivate_active [of r "ctx_tenant c" "ctx_purpose c" "ctx_id c" t] that by simp
      then show ?thesis using that(1) False by (metis imageI)
    qed
    then have "one_active (?d @ [c])" using one_active_snoc [OF d False] by blast
    moreover have "fst (save_context c t) = ?d @ [c]"
      using False unfolding save_context_def insert_row_def by auto
    ultimately show ?thesis by simp
  qed
qed

lemma save_context_content: "\<exists>new. map ctx_content (fst (save_context c t)) = map ctx_content t @ new"
  by (auto simp: save_context_def insert_row_def)

lemma save_context_others:
  assumes "ctx_tenant c \<noteq> b"
  shows "filter (\<lambda>r. ctx_tenant r = b) (fst (save_context c t)) = filter (\<lambda>r. ctx_tenant r = b) t"
proof -
  have "filter (\<lambda>r. ctx_tenant r = b) (deactivate_context (ctx_tenant c) p i t) = filter (\<lambda>r. ctx_tenant r = b) t"
    for p i using assms by (induction t) (auto simp: deactivate_context_def)
  then show ?thesis using assms by (simp add: save_context_def insert_row_def)
qed

section \<open>The cycle keeps the store\<close>

text \<open>
  What one step of the service may do to the table on behalf of a tenant: keep the invariant, add
  rows without touching the content of old ones, and leave every other tenant alone.
\<close>

definition ctx_step :: "uuid \<Rightarrow> context_row list \<Rightarrow> context_row list \<Rightarrow> bool" where
  "ctx_step tenant t t' \<longleftrightarrow> (one_active t \<longrightarrow> one_active t') \<and>
     (\<exists>new. map ctx_content t' = map ctx_content t @ new) \<and>
     (\<forall>b. b \<noteq> tenant \<longrightarrow> filter (\<lambda>r. ctx_tenant r = b) t' = filter (\<lambda>r. ctx_tenant r = b) t)"

lemma ctx_step_refl [intro]: "ctx_step tenant t t"
  by (simp add: ctx_step_def)

lemma ctx_step_trans:
  assumes "ctx_step tenant t u" and "ctx_step tenant u v"
  shows "ctx_step tenant t v"
proof -
  obtain n1 n2 where n: "map ctx_content u = map ctx_content t @ n1"
      "map ctx_content v = map ctx_content u @ n2"
    using assms unfolding ctx_step_def by blast
  then have "map ctx_content v = map ctx_content t @ (n1 @ n2)" by simp
  then show ?thesis using assms unfolding ctx_step_def by (intro conjI exI) auto
qed

lemma save_context_step: "ctx_step (ctx_tenant c) t (fst (save_context c t))"
  unfolding ctx_step_def using save_context_one save_context_content save_context_others by auto

lemma activate_one_step: "ctx_step tenant (cs_contexts s)
    (cs_contexts (snd (activate_one models mk_id accepts now tenant ev p s)))"
proof (cases "activate models ev p")
  case None
  then show ?thesis by (auto simp: activate_one_def)
next
  case (Some create)
  let ?c = "build_context mk_id now create"
  have t: "ctx_tenant ?c = cc_tenant create" by (simp add: build_context_def)
  obtain u row where sv: "save_context ?c (cs_contexts s) = (u, row)" by fastforce
  show ?thesis
  proof (cases "cc_tenant create \<noteq> tenant \<or> \<not> accepts ?c")
    case True
    then show ?thesis by (auto simp: activate_one_def Some Let_def)
  next
    case False
    then have "cs_contexts (snd (activate_one models mk_id accepts now tenant ev p s)) = u"
      by (cases row) (simp_all add: activate_one_def Some Let_def sv)
    then show ?thesis using save_context_step [of ?c "cs_contexts s"] t False sv by simp
  qed
qed

lemma activate_one_purposes [simp]:
  "cs_purposes (snd (activate_one models mk_id accepts now tenant ev p s)) = cs_purposes s"
  by (auto simp: activate_one_def Let_def split: option.splits prod.splits)

lemma activate_purposes_step:
  "ctx_step tenant (cs_contexts s) (cs_contexts (activate_purposes models mk_id accepts now tenant ev ps s))"
proof (induction ps arbitrary: s)
  case (Cons p ps)
  obtain r s1 where o: "activate_one models mk_id accepts now tenant ev p s = (r, s1)" by fastforce
  have st: "ctx_step tenant (cs_contexts s) (cs_contexts s1)"
    using activate_one_step [of tenant s models mk_id accepts now ev p] o by simp
  define s2 where "s2 = (case r of Inl _ \<Rightarrow> s1\<lparr>cs_errors := cs_errors s1 + 1\<rparr> | Inr _ \<Rightarrow> s1)"
  have s2: "cs_contexts s2 = cs_contexts s1"
      "activate_purposes models mk_id accepts now tenant ev (p # ps) s =
       activate_purposes models mk_id accepts now tenant ev ps s2"
    by (simp_all add: s2_def o split: sum.split)
  show ?case using ctx_step_trans [OF st] Cons.IH [of s2] s2 by simp
qed (simp add: ctx_step_refl)

section \<open>Properties\<close>


text \<open>
  An activation cycle, whichever inserts fail, keeps at most one active context per tenant
  and purpose, only appends to the content of the store, and leaves the rows of every tenant it
  does not visit as they were.
\<close>

theorem cycle_keeps_store:
  assumes "s' = run_activation_cycle models mk_id accepts now tenants ev_table s"
    and "one_active (cs_contexts s)"
  shows "one_active (cs_contexts s') \<and>
     (\<exists>new. map ctx_content (cs_contexts s') = map ctx_content (cs_contexts s) @ new) \<and>
     (\<forall>b. b \<notin> set tenants \<longrightarrow>
        filter (\<lambda>r. ctx_tenant r = b) (cs_contexts s') = filter (\<lambda>r. ctx_tenant r = b) (cs_contexts s))"
proof -
  let ?f = "activate_tenant models mk_id accepts now ev_table"
  have "one_active (cs_contexts (fold ?f ts s)) \<and>
     (\<exists>new. map ctx_content (cs_contexts (fold ?f ts s)) = map ctx_content (cs_contexts s) @ new) \<and>
     (\<forall>b. b \<notin> set ts \<longrightarrow> filter (\<lambda>r. ctx_tenant r = b) (cs_contexts (fold ?f ts s)) =
        filter (\<lambda>r. ctx_tenant r = b) (cs_contexts s))" for ts
    using assms(2)
  proof (induction ts arbitrary: s)
    case (Cons a ts)
    have st: "ctx_step a (cs_contexts s) (cs_contexts (?f a s))"
      unfolding activate_tenant_def by (rule activate_purposes_step)
    then have one: "one_active (cs_contexts (?f a s))" using Cons.prems by (simp add: ctx_step_def)
    obtain n1 n2 where "map ctx_content (cs_contexts (?f a s)) = map ctx_content (cs_contexts s) @ n1"
      "map ctx_content (cs_contexts (fold ?f ts (?f a s))) = map ctx_content (cs_contexts (?f a s)) @ n2"
      using st Cons.IH [OF one] unfolding ctx_step_def by blast
    then have "map ctx_content (cs_contexts (fold ?f (a # ts) s)) = map ctx_content (cs_contexts s) @ (n1 @ n2)"
      by simp
    then show ?case using Cons.IH [OF one] st unfolding ctx_step_def by (intro conjI exI) auto
  qed simp
  from this [of tenants] show ?thesis by (simp add: assms(1) run_activation_cycle_def)
qed

text \<open>
  A new activation supersedes: when the row of an active context is inserted, it is the one
  active context of its tenant and purpose.
\<close>

theorem new_activation_supersedes:
  assumes "save_context c t = (t', Some c')" and "ctx_active c"
  shows "filter (\<lambda>r. ctx_active r \<and> ctx_tenant r = ctx_tenant c \<and> ctx_purpose r = ctx_purpose c) t' = [c]"
proof -
  let ?d = "deactivate_context (ctx_tenant c) (ctx_purpose c) (ctx_id c) t"
  have new: "ctx_id c \<notin> ctx_id ` set ?d" and t': "t' = ?d @ [c]"
    using assms by (auto simp: save_context_def insert_row_def simp del: deactivate_ids_set split: if_splits)
  have "\<not> (ctx_active r \<and> ctx_tenant r = ctx_tenant c \<and> ctx_purpose r = ctx_purpose c)" if "r \<in> set ?d" for r
    using deactivate_active [OF that] new that by (metis imageI)
  then show ?thesis using assms(2) by (simp add: t' filter_empty_conv)
qed

text \<open>
  Saving a superseded context once more: its row is already there, so nothing is inserted,
  but the active context of the tenant and purpose is deactivated first, and none is left.
\<close>

theorem resaved_context_leaves_none:
  assumes "distinct (map ctx_id t)" and "r \<in> set t" and "ctx_id r = ctx_id c" and "\<not> ctx_active r"
    and "ctx_active c"
  shows "snd (save_context c t) = None \<and>
     filter (\<lambda>q. ctx_active q \<and> ctx_tenant q = ctx_tenant c \<and> ctx_purpose q = ctx_purpose c)
       (fst (save_context c t)) = []"
proof -
  let ?d = "deactivate_context (ctx_tenant c) (ctx_purpose c) (ctx_id c) t"
  have "ctx_id c \<in> ctx_id ` set t" using assms(2,3) by (metis imageI)
  then have sv: "save_context c t = (?d, None)" using assms(5) by (simp add: save_context_def insert_row_def)
  have "\<not> (ctx_active q \<and> ctx_tenant q = ctx_tenant c \<and> ctx_purpose q = ctx_purpose c)" if q: "q \<in> set ?d" for q
  proof
    assume a: "ctx_active q \<and> ctx_tenant q = ctx_tenant c \<and> ctx_purpose q = ctx_purpose c"
    then have "q \<in> set t" "ctx_id q = ctx_id r" using deactivate_active [OF q] assms(3) by auto
    then have "q = r" using assms(1,2) by (metis distinct_map inj_onD)
    then show False using a assms(4) by simp
  qed
  then show ?thesis by (simp add: sv filter_empty_conv)
qed

text \<open>Two batches of evidence of one tenant and the contexts they activate.\<close>

definition ex_evidence :: "uuid \<Rightarrow> string \<Rightarrow> datetime \<Rightarrow> evidence" where
  "ex_evidence i typ t = \<lparr>ev_id = i, ev_tenant = 7, ev_observation_ids = [i], ev_type = typ,
     ev_description = [], ev_quality = Q2, ev_weight = 625/1000, ev_organized_at = t\<rparr>"

definition ex_hash :: context_hash where
  "ex_hash tenant purpose evs model coh competing = of_nat (length evs)"

lemma ex_compete: "compete [ex_evidence 1 ''auth_anomaly_evidence'' 5] ''security_posture'' (Some MENTAL_MODEL_CATALOG)
    = Some \<lparr>comp_purpose = ''security_posture'',
        comp_winner = \<lparr>ms_model = ''auth_compromise'', ms_coherence = 1, ms_weight = 625/1000, ms_count = 1\<rparr>,
        comp_candidates = [\<lparr>ms_model = ''auth_compromise'', ms_coherence = 1, ms_weight = 625/1000, ms_count = 1\<rparr>,
          \<lparr>ms_model = ''service_failure'', ms_coherence = 0, ms_weight = 0, ms_count = 0\<rparr>],
        comp_evidence = [1]\<rparr>"
  by (simp add: compete_def MENTAL_MODEL_CATALOG_def Let_def score_model_def weights_by_type_def
      total_weight_def get0_def ex_evidence_def)


definition ex_context :: "uuid \<Rightarrow> bool \<Rightarrow> context_row" where
  "ex_context i active = \<lparr>ctx_id = i, ctx_tenant = 7, ctx_evidence_ids = [i], ctx_model = ''auth_compromise'',
     ctx_purpose = ''security_posture'', ctx_coherence = 1, ctx_competing = [], ctx_activated_at = 0,
     ctx_active = active\<rparr>"

theorem cycle_keeps_store_witness:
  "one_active (cs_contexts (run_activation_cycle MENTAL_MODEL_CATALOG ex_hash (\<lambda>_. True) 9 [7]
     [ex_evidence 1 ''auth_anomaly_evidence'' 5]
     \<lparr>cs_contexts = [ex_context 44 True], cs_purposes = [''security_posture''], cs_activated = 0,
      cs_duplicates = 0, cs_errors = 0, cs_by_model = (\<lambda>_. 0), cs_by_purpose = (\<lambda>_. 0), cs_last_run_at = None\<rparr>))"
proof -
  let ?s = "\<lparr>cs_contexts = [ex_context 44 True], cs_purposes = [''security_posture''], cs_activated = 0,
      cs_duplicates = 0, cs_errors = 0, cs_by_model = (\<lambda>_. 0), cs_by_purpose = (\<lambda>_. 0), cs_last_run_at = None\<rparr>"
  have "one_active (cs_contexts ?s)" by (simp add: one_active_def)
  from cycle_keeps_store [OF refl this] show ?thesis by blast
qed

theorem new_activation_supersedes_witness:
  "save_context (ex_context 2 True) [ex_context 1 True] = ([ex_context 1 False, ex_context 2 True], Some (ex_context 2 True)) \<and>
   filter (\<lambda>r. ctx_active r \<and> ctx_tenant r = ctx_tenant (ex_context 2 True) \<and>
     ctx_purpose r = ctx_purpose (ex_context 2 True)) [ex_context 1 False, ex_context 2 True] = [ex_context 2 True]"
proof -
  have sv: "save_context (ex_context 2 True) [ex_context 1 True] = ([ex_context 1 False, ex_context 2 True], Some (ex_context 2 True))"
    by (simp add: save_context_def insert_row_def deactivate_context_def ex_context_def)
  have a: "ctx_active (ex_context 2 True)" by (simp add: ex_context_def)
  show ?thesis using sv new_activation_supersedes [OF sv a] by blast
qed

theorem resaved_context_leaves_none_witness:
  "filter ctx_active [ex_context 1 False, ex_context 2 True] \<noteq> [] \<and>
   snd (save_context (ex_context 1 True) [ex_context 1 False, ex_context 2 True]) = None \<and>
   filter ctx_active (fst (save_context (ex_context 1 True) [ex_context 1 False, ex_context 2 True])) = []"
proof -
  let ?t = "[ex_context 1 False, ex_context 2 True]"
  have h: "distinct (map ctx_id ?t)" "ex_context 1 False \<in> set ?t"
      "ctx_id (ex_context 1 False) = ctx_id (ex_context 1 True)" "\<not> ctx_active (ex_context 1 False)"
      "ctx_active (ex_context 1 True)"
    by (simp_all add: ex_context_def)
  have same: "ctx_tenant q = 7 \<and> ctx_purpose q = ''security_posture''"
    if "q \<in> set (fst (save_context (ex_context 1 True) ?t))" for q
    using that by (auto simp: save_context_def insert_row_def deactivate_context_def ex_context_def)
  show ?thesis using resaved_context_leaves_none [OF h] same
    by (auto simp: filter_empty_conv ex_context_def)
qed

end
