(* ===== verification/Action_Space.thy ===== *)
theory Action_Space
  imports Context_Activation
begin

text \<open>
  The procedural memory of the action layer: the action spaces of
  \<open>libs/procedural_memory/action_space.py\<close> and the commitment rules of
  \<open>libs/procedural_memory/decision_policy.py\<close>, with their validation.
\<close>

section \<open>Action spaces (action_space.py)\<close>

definition DOMAINS :: "string set" where
  "DOMAINS = {''storage'', ''compute'', ''security'', ''backup'', ''network'', ''observability''}"

record action_space_entry =
  as_id :: string
  as_domain :: string
  as_actions :: "string set"
  as_purposes :: "string set"
  as_description :: string

text \<open>\<open>__post_init__\<close>\<close>

definition action_space_entry_ok :: "action_space_entry \<Rightarrow> unit result" where
  "action_space_entry_ok e =
     (if as_domain e \<notin> DOMAINS then Inl (ValueError ''unknown domain'')
      else if strip (as_id e) = [] then Inl (ValueError ''action_id must not be empty'')
      else if as_actions e = {} then Inl (ValueError ''allowed_actions must not be empty'')
      else Inr ())"

definition action_entry :: "string \<Rightarrow> string \<Rightarrow> string set \<Rightarrow> string set \<Rightarrow> string \<Rightarrow> action_space_entry" where
  "action_entry i domain actions purps description =
     \<lparr>as_id = i, as_domain = domain, as_actions = actions, as_purposes = purps, as_description = description\<rparr>"

definition ACTION_SPACE_LIBRARY :: "action_space_entry list" where
  "ACTION_SPACE_LIBRARY =
    [action_entry ''storage_actions_v1'' ''storage''
      {''expand_volume'', ''add_disk'', ''move_data'', ''compress'', ''purge_old'', ''change_retention'', ''enable_dedup''}
      {''infrastructure_health'', ''capacity_management''}
      (''Acciones permitidas sobre almacenamiento (vol'' @ [CHR 0xFA] @ ''menes, discos, retenci'' @ [CHR 0xF3] @ ''n).''),
     action_entry ''compute_actions_v1'' ''compute''
      {''scale_up'', ''scale_out'', ''restart_service'', ''migrate_vm'', ''adjust_limits'', ''tune_kernel''}
      {''infrastructure_health''}
      (''Acciones permitidas sobre c'' @ [CHR 0xF3] @ ''mputo (capacidad, servicios, VMs).''),
     action_entry ''security_actions_v1'' ''security''
      {''reset_credentials'', ''revoke_sessions'', ''enable_mfa'', ''block_ip'', ''isolate_host'', ''rotate_keys''}
      {''security_posture''}
      (''Acciones permitidas sobre postura de seguridad (credenciales, sesiones, acceso).''),
     action_entry ''backup_actions_v1'' ''backup''
      {''retry_job'', ''change_schedule'', ''change_target'', ''verify_integrity'', ''test_restore''}
      {''infrastructure_health'', ''capacity_management''}
      (''Acciones permitidas sobre backup (jobs, horarios, destinos, integridad).''),
     action_entry ''network_actions_v1'' ''network''
      {''block_port'', ''modify_acl'', ''reroute_traffic'', ''enable_ddos_protection''}
      {''infrastructure_health''}
      (''Acciones permitidas sobre red (puertos, ACLs, rutas, protecci'' @ [CHR 0xF3] @ ''n DDoS).''),
     action_entry ''observability_actions_v1'' ''observability''
      {''increase_log_level'', ''add_metric'', ''create_alert_rule'', ''adjust_threshold''}
      {''infrastructure_health'', ''security_posture''}
      (''Acciones permitidas de observabilidad (registro, m'' @ [CHR 0xE9] @ ''tricas, alertas).'')]"

definition filter_action_space :: "action_space_entry list \<Rightarrow> string set \<Rightarrow> action_space_entry list result" where
  "filter_action_space library enabled =
     (if enabled = {} then Inr library
      else if enabled - DOMAINS \<noteq> {} then Inl (ValueError ''unknown enabled domains'')
      else Inr (filter (\<lambda>e. as_domain e \<in> enabled) library))"

section \<open>Decision policies (decision_policy.py)\<close>

record decision_policy =
  dp_id :: string
  dp_domain :: string
  dp_min_commit :: real
  dp_min_irreversible :: real
  dp_risk :: "string set"
  dp_authority :: bool

definition decision_policy_ok :: "decision_policy \<Rightarrow> unit result" where
  "decision_policy_ok p =
     (if dp_domain p \<notin> DOMAINS then Inl (ValueError ''unknown domain'')
      else if strip (dp_id p) = [] then Inl (ValueError ''policy_id must not be empty'')
      else if \<not> (0 \<le> dp_min_commit p \<and> dp_min_commit p \<le> 1)
           then Inl (ValueError ''min_confidence_for_commit must be in [0, 1]'')
      else if \<not> (0 \<le> dp_min_irreversible p \<and> dp_min_irreversible p \<le> 1)
           then Inl (ValueError ''min_confidence_irreversible must be in [0, 1]'')
      else if dp_min_irreversible p < dp_min_commit p
           then Inl (ValueError ''min_confidence_irreversible must be >= min_confidence_for_commit'')
      else if dp_risk p = {} then Inl (ValueError ''allowed_risk_tolerance must not be empty'')
      else if dp_risk p - {''low'', ''medium'', ''high''} \<noteq> {} then Inl (ValueError ''unknown risk tolerances'')
      else Inr ())"

definition policy_entry :: "string \<Rightarrow> string \<Rightarrow> real \<Rightarrow> real \<Rightarrow> string set \<Rightarrow> decision_policy" where
  "policy_entry i domain commit irreversible risks =
     \<lparr>dp_id = i, dp_domain = domain, dp_min_commit = commit, dp_min_irreversible = irreversible,
      dp_risk = risks, dp_authority = True\<rparr>"

definition DECISION_POLICY_LIBRARY :: "decision_policy list" where
  "DECISION_POLICY_LIBRARY =
    [policy_entry ''storage_commit_v1'' ''storage'' (3/4) (9/10) {''low'', ''medium'', ''high''},
     policy_entry ''compute_commit_v1'' ''compute'' (3/4) (9/10) {''low'', ''medium''},
     policy_entry ''security_commit_v1'' ''security'' (3/4) (9/10) {''low'', ''medium'', ''high''},
     policy_entry ''backup_commit_v1'' ''backup'' (3/4) (9/10) {''low'', ''medium''},
     policy_entry ''network_commit_v1'' ''network'' (3/4) (9/10) {''low'', ''medium''},
     policy_entry ''observability_commit_v1'' ''observability'' (3/4) (9/10) {''low'', ''medium'', ''high''}]"

definition POLICY_BY_DOMAIN :: "(string \<times> decision_policy) list" where
  "POLICY_BY_DOMAIN = dict_of (map (\<lambda>p. (dp_domain p, p)) DECISION_POLICY_LIBRARY)"

definition select_policy :: "(string \<times> decision_policy) list \<Rightarrow> string option \<Rightarrow> decision_policy option" where
  "select_policy policies domain = (case domain of None \<Rightarrow> None | Some d \<Rightarrow> map_of policies d)"

text \<open>A new entry is constructed, so it is validated again.\<close>

definition apply_threshold_overrides :: "decision_policy \<Rightarrow> real option \<Rightarrow> real option \<Rightarrow> decision_policy result" where
  "apply_threshold_overrides p commit irreversible =
     (if commit = None \<and> irreversible = None then Inr p
      else let q = p\<lparr>dp_min_commit := (case commit of None \<Rightarrow> dp_min_commit p | Some x \<Rightarrow> x),
                     dp_min_irreversible := (case irreversible of None \<Rightarrow> dp_min_irreversible p | Some x \<Rightarrow> x)\<rparr>
           in and_then (decision_policy_ok q) (\<lambda>_. Inr q))"

section \<open>The catalogues\<close>

lemma action_library_ok: "\<forall>e \<in> set ACTION_SPACE_LIBRARY. action_space_entry_ok e = Inr ()"
  by (simp add: ACTION_SPACE_LIBRARY_def action_entry_def action_space_entry_ok_def DOMAINS_def strip_def is_space_def Let_def)

lemma action_sets_disjoint:
  assumes "e \<in> set ACTION_SPACE_LIBRARY" and "e' \<in> set ACTION_SPACE_LIBRARY" and "a \<in> as_actions e" and "a \<in> as_actions e'"
  shows "as_domain e = as_domain e'"
proof -
  have "list_all (\<lambda>e. list_all (\<lambda>e'. as_domain e = as_domain e' \<or> as_actions e \<inter> as_actions e' = {}) ACTION_SPACE_LIBRARY)
      ACTION_SPACE_LIBRARY"
    by code_simp
  then show ?thesis using assms by (auto simp: list_all_iff)
qed

lemma action_entry_finite: "e \<in> set ACTION_SPACE_LIBRARY \<Longrightarrow> finite (as_actions e)"
  by (auto simp: ACTION_SPACE_LIBRARY_def action_entry_def)

lemma domain_has_policy:
  "e \<in> set ACTION_SPACE_LIBRARY \<Longrightarrow> \<exists>p \<in> set DECISION_POLICY_LIBRARY. select_policy POLICY_BY_DOMAIN (Some (as_domain e)) = Some p \<and>
     dp_domain p = as_domain e"
  by (auto simp: ACTION_SPACE_LIBRARY_def action_entry_def select_policy_def POLICY_BY_DOMAIN_def DECISION_POLICY_LIBRARY_def
      policy_entry_def dict_of_def)

lemma policy_library_ok: "\<forall>p \<in> set DECISION_POLICY_LIBRARY. decision_policy_ok p = Inr () \<and> dp_authority p \<and> ''medium'' \<in> dp_risk p"
  by (simp add: DECISION_POLICY_LIBRARY_def policy_entry_def decision_policy_ok_def DOMAINS_def strip_def is_space_def Let_def)

lemma overrides_ok:
  assumes "apply_threshold_overrides p commit irreversible = Inr q" and "decision_policy_ok p = Inr ()"
  shows "decision_policy_ok q = Inr () \<and> dp_domain q = dp_domain p \<and> dp_risk q = dp_risk p \<and> dp_authority q = dp_authority p \<and>
     (\<forall>x. commit = Some x \<longrightarrow> dp_min_commit q = x) \<and> (\<forall>x. irreversible = Some x \<longrightarrow> dp_min_irreversible q = x)"
  using assms by (auto simp: apply_threshold_overrides_def Let_def and_then_eq_Inr split: if_splits)

end
