(* ===== verification/Pattern_Detection.thy ===== *)
theory Pattern_Detection
  imports Context_Activation
begin

text \<open>
  The Generalize capability: the pattern library of \<open>libs/procedural_memory/pattern_library.py\<close>,
  the detector and the detection cycle of \<open>apps/services/pattern-service/src\<close>, and the identity
  of \<open>libs/reasoning/pattern.py\<close>.
\<close>

section \<open>Pattern library (pattern_library.py)\<close>

text \<open>A description template: literal text and the facts \<open>format\<close> fills in.\<close>

datatype slot = Txt string | Scope | Occurrences | Window_days | Median_interval

record pattern_definition =
  pd_id :: string
  pd_type :: string
  pd_domain :: string
  scope_mental_models :: "string set"
  scope_purposes :: "string set"
  min_occurrences :: int
  strength_threshold :: real
  frequency_label :: string
  description_template :: "slot list"

definition PATTERN_TYPES :: "string set" where
  "PATTERN_TYPES = {''temporal'', ''correlation'', ''sequential'', ''threshold''}"

definition FREQUENCY_LABELS :: "string set" where
  "FREQUENCY_LABELS = {''daily'', ''weekly'', ''hourly'', ''event-driven''}"

text \<open>\<open>__post_init__\<close>\<close>

definition pattern_definition_ok :: "pattern_definition \<Rightarrow> unit result" where
  "pattern_definition_ok d =
     (if pd_type d \<notin> PATTERN_TYPES then Inl (ValueError ''unknown pattern_type'')
      else if \<not> (0 \<le> strength_threshold d \<and> strength_threshold d \<le> 1)
      then Inl (ValueError ''strength_threshold must be in [0, 1]'')
      else if frequency_label d \<notin> FREQUENCY_LABELS then Inl (ValueError ''unknown frequency_label'')
      else if min_occurrences d < 1 then Inl (ValueError ''min_occurrences must be >= 1'')
      else Inr ())"

definition recurrence_template :: "slot list" where
  "recurrence_template =
    [Txt (''El contexto ''), Scope, Txt ('' se activ'' @ [CHR 0xF3] @ '' ''), Occurrences,
     Txt ('' veces en la ventana de ''), Window_days,
     Txt ('' d'' @ [CHR 0xED] @ ''as (intervalo mediano ~''), Median_interval,
     Txt ('' d'' @ [CHR 0xED] @ ''as). Regularidad detectada.'')]"

definition PATTERN_LIBRARY :: "pattern_definition list" where
  "PATTERN_LIBRARY =
    [\<lparr>pd_id = ''context_recurrence_capacity_risk_v1'', pd_type = ''temporal'', pd_domain = ''capacity'',
      scope_mental_models = {''capacity_risk''}, scope_purposes = {}, min_occurrences = 3,
      strength_threshold = 6/10, frequency_label = ''weekly'', description_template = recurrence_template\<rparr>,
     \<lparr>pd_id = ''context_recurrence_service_failure_v1'', pd_type = ''temporal'', pd_domain = ''service'',
      scope_mental_models = {''service_failure''}, scope_purposes = {}, min_occurrences = 3,
      strength_threshold = 6/10, frequency_label = ''event-driven'', description_template = recurrence_template\<rparr>,
     \<lparr>pd_id = ''context_recurrence_resource_pressure_v1'', pd_type = ''temporal'', pd_domain = ''resources'',
      scope_mental_models = {''resource_pressure''}, scope_purposes = {}, min_occurrences = 3,
      strength_threshold = 6/10, frequency_label = ''daily'', description_template = recurrence_template\<rparr>,
     \<lparr>pd_id = ''context_recurrence_auth_compromise_v1'', pd_type = ''temporal'', pd_domain = ''security'',
      scope_mental_models = {''auth_compromise''}, scope_purposes = {}, min_occurrences = 2,
      strength_threshold = 6/10, frequency_label = ''event-driven'', description_template = recurrence_template\<rparr>,
     \<lparr>pd_id = ''context_recurrence_connectivity_degradation_v1'', pd_type = ''temporal'', pd_domain = ''network'',
      scope_mental_models = {''connectivity_degradation''}, scope_purposes = {}, min_occurrences = 3,
      strength_threshold = 6/10, frequency_label = ''daily'', description_template = recurrence_template\<rparr>]"

section \<open>Detector (detector.py)\<close>

record candidate_pattern =
  cp_library_id :: string
  cp_type :: string
  cp_model :: string
  cp_purpose :: string
  cp_context :: uuid
  cp_occurrences :: nat
  cp_window_days :: real
  cp_median :: "real option"
  cp_frequency :: string
  cp_strength :: real
  cp_description :: fstring

record pattern_result =
  pr_candidates :: "candidate_pattern list"
  pr_evaluated :: nat
  pr_below :: nat

text \<open>\<open>statistics.median\<close>\<close>

definition median :: "real list \<Rightarrow> real" where
  "median xs = (let ys = sort xs; n = length xs
     in if odd n then ys ! (n div 2) else (ys ! (n div 2 - 1) + ys ! (n div 2)) / 2)"

definition median_interval_days :: "context_row list \<Rightarrow> real option" where
  "median_interval_days activations =
     (if length activations < 2 then None
      else Some (median (map (\<lambda>(earlier, later). total_days (ctx_activated_at later - ctx_activated_at earlier))
             (zip activations (tl activations)))))"

definition derive_frequency :: "context_row list \<Rightarrow> real option \<times> string" where
  "derive_frequency activations =
     (case median_interval_days activations of
        None \<Rightarrow> (None, ''event-driven'')
      | Some interval \<Rightarrow>
          (Some interval, if interval < 1/24 then ''hourly'' else if interval \<le> 1 then ''daily''
                          else if interval \<le> 7 then ''weekly'' else ''event-driven''))"

definition fill_slot :: "string \<Rightarrow> nat \<Rightarrow> real \<Rightarrow> real option \<Rightarrow> slot \<Rightarrow> piece" where
  "fill_slot scope occurrences window_days med s = (case s of
       Txt t \<Rightarrow> Lit t
     | Scope \<Rightarrow> PStr scope
     | Occurrences \<Rightarrow> PInt (int occurrences)
     | Window_days \<Rightarrow> (if of_int \<lfloor>window_days\<rfloor> = window_days then PInt \<lfloor>window_days\<rfloor> else PReal window_days)
     | Median_interval \<Rightarrow> (case med of None \<Rightarrow> Lit ''no medible'' | Some m \<Rightarrow> PFixed 1 m))"

definition build_description :: "pattern_definition \<Rightarrow> string \<Rightarrow> nat \<Rightarrow> real \<Rightarrow> real option \<Rightarrow> fstring" where
  "build_description d scope occurrences window_days med =
     map (fill_slot scope occurrences window_days med) (description_template d)"

definition in_scope :: "pattern_definition \<Rightarrow> context_row \<Rightarrow> bool" where
  "in_scope d c \<longleftrightarrow> ctx_model c \<in> scope_mental_models d \<and>
     (scope_purposes d = {} \<or> ctx_purpose c \<in> scope_purposes d)"

definition pattern_strength :: "pattern_definition \<Rightarrow> nat \<Rightarrow> real" where
  "pattern_strength d occurrences = min (of_nat occurrences / of_int (max (min_occurrences d) 1)) 1"

text \<open>The body of the loop over the groups: \<open>None\<close> when the support stays below the threshold.\<close>

definition measure_group :: "pattern_definition \<Rightarrow> real \<Rightarrow> (string \<times> string) \<times> context_row list \<Rightarrow>
    candidate_pattern option" where
  "measure_group d window_days g = (case g of ((model, purpose), acts0) \<Rightarrow>
     (let acts = sort_key ctx_activated_at acts0;
          occurrences = length acts;
          strength = pattern_strength d occurrences
      in if strength < strength_threshold d then None
         else (let (median_days, frequency) = derive_frequency acts; anchor = last acts
               in Some \<lparr>cp_library_id = pd_id d, cp_type = pd_type d, cp_model = model,
                  cp_purpose = purpose, cp_context = ctx_id anchor, cp_occurrences = occurrences,
                  cp_window_days = window_days, cp_median = median_days, cp_frequency = frequency,
                  cp_strength = round_to 4 strength,
                  cp_description = build_description d (model @ '' para '' @ purpose) occurrences
                    window_days median_days\<rparr>)))"

definition definition_groups :: "context_row list \<Rightarrow> pattern_definition \<Rightarrow>
    ((string \<times> string) \<times> context_row list) list" where
  "definition_groups windowed d = group_by (\<lambda>c. (ctx_model c, ctx_purpose c)) (filter (in_scope d) windowed)"

definition in_window :: "datetime \<Rightarrow> real \<Rightarrow> uuid option \<Rightarrow> context_row \<Rightarrow> bool" where
  "in_window now window_days tenant c \<longleftrightarrow>
     (case tenant of None \<Rightarrow> True | Some t \<Rightarrow> ctx_tenant c = t) \<and>
     now - days window_days \<le> ctx_activated_at c \<and> ctx_activated_at c \<le> now"

definition detect_patterns :: "context_row list \<Rightarrow> pattern_definition list \<Rightarrow> real \<Rightarrow> datetime \<Rightarrow>
    uuid option \<Rightarrow> pattern_result" where
  "detect_patterns contexts library window_days now tenant =
     (let windowed = filter (in_window now window_days tenant) contexts;
          measured = concat (map (\<lambda>d. map (measure_group d window_days) (definition_groups windowed d)) library)
      in \<lparr>pr_candidates = List.map_filter id measured, pr_evaluated = length measured,
          pr_below = length (filter (\<lambda>m. m = None) measured)\<rparr>)"

section \<open>Identity (pattern.py) and the cycle (service.py)\<close>

definition pattern_id :: "uuid5 \<Rightarrow> uuid \<Rightarrow> uuid \<Rightarrow> string \<Rightarrow> uuid" where
  "pattern_id uuid5 tenant context library_pattern_id =
     uuid5 125 (uuid_str tenant @ '':'' @ uuid_str context @ '':'' @ library_pattern_id)"

text \<open>\<open>_persist\<close>, up to the save: the creation request and \<open>build_pattern\<close>.\<close>

definition build_pattern :: "uuid5 \<Rightarrow> (piece \<Rightarrow> string) \<Rightarrow> datetime \<Rightarrow> uuid \<Rightarrow> candidate_pattern \<Rightarrow> pattern" where
  "build_pattern uuid5 fmt now tenant c =
     \<lparr>pat_id = pattern_id uuid5 tenant (cp_context c) (cp_library_id c), pat_tenant = tenant,
      pat_context = cp_context c, pat_type = cp_type c, pat_description = render fmt (cp_description c),
      pat_strength = cp_strength c, pat_frequency = cp_frequency c, pat_detected_at = now,
      pat_active = True\<rparr>"

record pattern_service =
  ps_patterns :: "pattern list"
  ps_library :: "pattern_definition list"
  ps_window_days :: real
  ps_total :: nat
  ps_duplicates :: nat
  ps_below :: nat
  ps_errors :: nat
  ps_by_type :: "string \<Rightarrow> nat"
  ps_last_run_at :: "datetime option"

definition detect_pattern_tenant :: "uuid5 \<Rightarrow> (piece \<Rightarrow> string) \<Rightarrow> (pattern \<Rightarrow> bool) \<Rightarrow> datetime \<Rightarrow>
    context_row list \<Rightarrow> uuid \<Rightarrow> pattern_service \<Rightarrow> pattern_service" where
  "detect_pattern_tenant uuid5 fmt accepts now ctx_table tenant s =
     (let r = detect_patterns (list_contexts tenant ctx_table) (ps_library s) (ps_window_days s) now (Some tenant)
      in case save_each pat_id accepts (map (build_pattern uuid5 fmt now tenant) (pr_candidates r)) (ps_patterns s) of
           (ok, t, ins, dup) \<Rightarrow>
             s\<lparr>ps_patterns := t, ps_total := ps_total s + length ins, ps_duplicates := ps_duplicates s + dup,
               ps_below := ps_below s + pr_below r, ps_errors := ps_errors s + (if ok then 0 else 1),
               ps_by_type := add_counts pat_type ins (ps_by_type s)\<rparr>)"

definition run_pattern_cycle :: "uuid5 \<Rightarrow> (piece \<Rightarrow> string) \<Rightarrow> (pattern \<Rightarrow> bool) \<Rightarrow> datetime \<Rightarrow>
    uuid list \<Rightarrow> context_row list \<Rightarrow> pattern_service \<Rightarrow> pattern_service" where
  "run_pattern_cycle uuid5 fmt accepts now tenants ctx_table s =
     (fold (detect_pattern_tenant uuid5 fmt accepts now ctx_table) tenants s)\<lparr>ps_last_run_at := Some now\<rparr>"

section \<open>What the detector measures\<close>

abbreviation members_of :: "(context_row \<Rightarrow> bool) \<Rightarrow> pattern_definition \<Rightarrow> string \<Rightarrow> string \<Rightarrow>
    context_row list \<Rightarrow> context_row list" where
  "members_of p d m pu ctxs \<equiv>
     filter (\<lambda>x. (ctx_model x, ctx_purpose x) = (m, pu)) (filter (in_scope d) (filter p ctxs))"

lemma candidates_iff:
  "c \<in> set (pr_candidates (detect_patterns ctxs lib w now tenant)) \<longleftrightarrow>
   (\<exists>d \<in> set lib. \<exists>m pu. members_of (in_window now w tenant) d m pu ctxs \<noteq> [] \<and>
      measure_group d w ((m, pu), members_of (in_window now w tenant) d m pu ctxs) = Some c)"
proof -
  let ?k = "\<lambda>c. (ctx_model c, ctx_purpose c)" and ?w = "filter (in_window now w tenant) ctxs"
  have g: "g \<in> set (definition_groups ?w d) \<longleftrightarrow>
      snd g = filter (\<lambda>x. ?k x = fst g) (filter (in_scope d) ?w) \<and> snd g \<noteq> []" for g d
    unfolding definition_groups_def using group_by_mem [of "fst g" "snd g" ?k] by (simp only: prod.collapse)
  have "c \<in> set (pr_candidates (detect_patterns ctxs lib w now tenant)) \<longleftrightarrow>
      (\<exists>d \<in> set lib. \<exists>g. g \<in> set (definition_groups ?w d) \<and> measure_group d w g = Some c)"
    by (auto simp: detect_patterns_def Let_def map_filter_id image_iff) metis+
  then show ?thesis unfolding g by (simp add: split_paired_Ex)
qed

lemma measure_group_Some:
  assumes "measure_group d w ((m, pu), acts) = Some c" and "acts \<noteq> []"
  shows "cp_library_id c = pd_id d \<and> cp_model c = m \<and> cp_purpose c = pu \<and> cp_occurrences c = length acts \<and>
     strength_threshold d \<le> pattern_strength d (length acts) \<and>
     cp_strength c = round_to 4 (pattern_strength d (length acts)) \<and>
     (\<exists>a \<in> set acts. ctx_id a = cp_context c \<and> (\<forall>x \<in> set acts. ctx_activated_at x \<le> ctx_activated_at a))"
proof -
  let ?s = "sort_key ctx_activated_at acts"
  have ne: "?s \<noteq> []" using assms(2) by (metis length_0_conv length_sort)
  have "ctx_activated_at x \<le> ctx_activated_at (last ?s)" if "x \<in> set acts" for x
  proof -
    have "x \<in> set ?s" using that by simp
    then obtain i where i: "i < length ?s" "?s ! i = x" by (metis in_set_conv_nth)
    have "map ctx_activated_at ?s ! i \<le> map ctx_activated_at ?s ! (length ?s - 1)"
      using i ne by (intro sorted_nth_mono) auto
    then show ?thesis using i ne by (simp add: last_conv_nth)
  qed
  moreover have "last ?s \<in> set acts" using last_in_set [OF ne] by simp
  ultimately show ?thesis using assms(1)
    by (auto simp: measure_group_def Let_def split: prod.splits if_splits)
qed

lemma pattern_strength_unit: "0 \<le> pattern_strength d n \<and> pattern_strength d n \<le> 1"
  by (simp add: pattern_strength_def)

lemma library_cases:
  assumes "d \<in> set PATTERN_LIBRARY" and "0 < n"
  shows "(strength_threshold d \<le> pattern_strength d n \<longleftrightarrow> 2 \<le> n) \<and> scope_purposes d = {} \<and>
     pattern_definition_ok d = Inr ()"
proof -
  have "\<forall>d \<in> set PATTERN_LIBRARY. min_occurrences d \<in> {2, 3} \<and> strength_threshold d = 6/10 \<and>
      scope_purposes d = {} \<and> pattern_definition_ok d = Inr ()"
    by (simp add: PATTERN_LIBRARY_def pattern_definition_ok_def PATTERN_TYPES_def FREQUENCY_LABELS_def)
  then have d: "min_occurrences d \<in> {2, 3}" "strength_threshold d = 6/10"
      "scope_purposes d = {} \<and> pattern_definition_ok d = Inr ()" using assms(1) by auto
  have "n = 1 \<or> 2 \<le> n" using assms(2) by linarith
  then have "strength_threshold d \<le> pattern_strength d n \<longleftrightarrow> 2 \<le> n"
    using d(1) by (auto simp: d(2) pattern_strength_def min_def)
  then show ?thesis using d(3) by blast
qed

section \<open>Soundness and completeness of a run\<close>

lemma detection_facts:
  assumes "c \<in> set (pr_candidates (detect_patterns ctxs lib w now (Some tenant)))"
  shows "\<exists>d \<in> set lib. \<exists>a \<in> set ctxs.
     cp_library_id c = pd_id d \<and> cp_context c = ctx_id a \<and> ctx_tenant a = tenant \<and>
     cp_model c = ctx_model a \<and> cp_purpose c = ctx_purpose a \<and> in_scope d a \<and>
     now - days w \<le> ctx_activated_at a \<and> ctx_activated_at a \<le> now \<and>
     cp_occurrences c = length (members_of (in_window now w (Some tenant)) d (cp_model c) (cp_purpose c) ctxs) \<and>
     (\<forall>x \<in> set (members_of (in_window now w (Some tenant)) d (cp_model c) (cp_purpose c) ctxs).
        ctx_activated_at x \<le> ctx_activated_at a) \<and>
     strength_threshold d \<le> pattern_strength d (cp_occurrences c) \<and>
     cp_strength c = round_to 4 (pattern_strength d (cp_occurrences c)) \<and> cp_strength c \<le> 1"
proof -
  obtain d m pu where d: "d \<in> set lib"
    and ne: "members_of (in_window now w (Some tenant)) d m pu ctxs \<noteq> []"
    and c: "measure_group d w ((m, pu), members_of (in_window now w (Some tenant)) d m pu ctxs) = Some c"
    using assms unfolding candidates_iff by blast
  note f = measure_group_Some [OF c ne]
  then obtain a where a: "a \<in> set (members_of (in_window now w (Some tenant)) d m pu ctxs)"
      "ctx_id a = cp_context c"
      "\<forall>x \<in> set (members_of (in_window now w (Some tenant)) d m pu ctxs). ctx_activated_at x \<le> ctx_activated_at a"
    by blast
  have "cp_strength c \<le> 1"
    using f round_to_unit [of "pattern_strength d (cp_occurrences c)" 4] pattern_strength_unit by auto
  then show ?thesis using d a f by (intro bexI [of _ d] bexI [of _ a]) (auto simp: in_window_def)
qed

lemma reports_from_two:
  "(\<exists>c \<in> set (pr_candidates (detect_patterns ctxs PATTERN_LIBRARY w now (Some tenant))).
      cp_model c = m \<and> cp_purpose c = pu) \<longleftrightarrow>
   (\<exists>d \<in> set PATTERN_LIBRARY. m \<in> scope_mental_models d) \<and>
   2 \<le> length (filter (\<lambda>x. in_window now w (Some tenant) x \<and> ctx_model x = m \<and> ctx_purpose x = pu) ctxs)"
proof -
  let ?n = "length (filter (\<lambda>x. in_window now w (Some tenant) x \<and> ctx_model x = m \<and> ctx_purpose x = pu) ctxs)"
  let ?M = "\<lambda>d. members_of (in_window now w (Some tenant)) d m pu ctxs"
  have mem: "length (?M d) = (if m \<in> scope_mental_models d then ?n else 0)" if "d \<in> set PATTERN_LIBRARY" for d
  proof -
    have "scope_purposes d = {}" using library_cases [OF that, of 1] by simp
    then have "in_scope d x \<longleftrightarrow> m \<in> scope_mental_models d" if "ctx_model x = m" for x
      using that by (simp add: in_scope_def)
    then have "?M d = filter (\<lambda>x. m \<in> scope_mental_models d \<and>
        in_window now w (Some tenant) x \<and> ctx_model x = m \<and> ctx_purpose x = pu) ctxs"
      unfolding filter_filter by (intro filter_cong refl) auto
    then show ?thesis by simp
  qed
  have some: "(\<exists>c. measure_group d w ((m, pu), acts) = Some c) \<longleftrightarrow> 2 \<le> length acts"
    if "d \<in> set PATTERN_LIBRARY" "acts \<noteq> []" for d acts
    using library_cases [OF that(1), of "length acts"] that(2)
    by (auto simp: measure_group_def Let_def not_less split: prod.splits)
  have name: "measure_group d w ((m', pu'), acts) = Some c \<and> acts \<noteq> [] \<Longrightarrow> cp_model c = m' \<and> cp_purpose c = pu'"
    for d m' pu' acts c using measure_group_Some by blast
  have "(\<exists>c \<in> set (pr_candidates (detect_patterns ctxs PATTERN_LIBRARY w now (Some tenant))).
      cp_model c = m \<and> cp_purpose c = pu) \<longleftrightarrow>
    (\<exists>d \<in> set PATTERN_LIBRARY. ?M d \<noteq> [] \<and> (\<exists>c. measure_group d w ((m, pu), ?M d) = Some c))"
    unfolding candidates_iff Bex_def using name by blast
  also have "\<dots> \<longleftrightarrow> (\<exists>d \<in> set PATTERN_LIBRARY. m \<in> scope_mental_models d \<and> 2 \<le> ?n)"
  proof (intro bex_cong refl)
    fix d assume d: "d \<in> set PATTERN_LIBRARY"
    have "?M d \<noteq> [] \<and> (\<exists>c. measure_group d w ((m, pu), ?M d) = Some c) \<longleftrightarrow> 2 \<le> length (?M d)"
      using some [OF d] by (cases "?M d = []") (simp_all del: filter_filter)
    then show "?M d \<noteq> [] \<and> (\<exists>c. measure_group d w ((m, pu), ?M d) = Some c) \<longleftrightarrow>
        m \<in> scope_mental_models d \<and> 2 \<le> ?n" unfolding mem [OF d] by simp
  qed
  finally show ?thesis by blast
qed

section \<open>Properties\<close>

text \<open>
  A candidate is measured, not invented: it names a definition of the library and a context of
  the tenant in the window and in the scope of that definition, the most recent of its group; the
  occurrences are the size of the group, the strength is the rounded support, at most 1 and at least
  the threshold before rounding.
\<close>

theorem detection_sound:
  assumes "c \<in> set (pr_candidates (detect_patterns ctxs lib w now (Some tenant)))"
  shows "\<exists>d \<in> set lib. \<exists>a \<in> set ctxs.
     cp_library_id c = pd_id d \<and> cp_context c = ctx_id a \<and> ctx_tenant a = tenant \<and>
     cp_model c = ctx_model a \<and> cp_purpose c = ctx_purpose a \<and> in_scope d a \<and>
     now - days w \<le> ctx_activated_at a \<and> ctx_activated_at a \<le> now \<and>
     cp_occurrences c = length (members_of (in_window now w (Some tenant)) d (cp_model c) (cp_purpose c) ctxs) \<and>
     (\<forall>x \<in> set (members_of (in_window now w (Some tenant)) d (cp_model c) (cp_purpose c) ctxs).
        ctx_activated_at x \<le> ctx_activated_at a) \<and>
     strength_threshold d \<le> pattern_strength d (cp_occurrences c) \<and>
     cp_strength c = round_to 4 (pattern_strength d (cp_occurrences c)) \<and> cp_strength c \<le> 1"
  using assms by (rule detection_facts)

text \<open>
  With the library as published a recurrence is reported from the second activation on: a
  definition of the library covers the mental model, and a pattern is emitted for the model and a
  purpose exactly when the tenant has two activations of them in the window, although the
  definitions ask for three (two for authentication).
\<close>

theorem library_reports_from_two:
  "(\<exists>c \<in> set (pr_candidates (detect_patterns ctxs PATTERN_LIBRARY w now (Some tenant))).
      cp_model c = m \<and> cp_purpose c = pu) \<longleftrightarrow>
   (\<exists>d \<in> set PATTERN_LIBRARY. m \<in> scope_mental_models d) \<and>
   2 \<le> length (filter (\<lambda>x. in_window now w (Some tenant) x \<and> ctx_model x = m \<and> ctx_purpose x = pu) ctxs)"
  by (rule reports_from_two)

section \<open>The cycle\<close>

lemma pattern_tenant_step:
  "\<exists>ins. ps_patterns (detect_pattern_tenant u r acc now ctxs tenant s) = ps_patterns s @ ins \<and>
     distinct (map pat_id ins) \<and> pat_id ` set ins \<inter> pat_id ` set (ps_patterns s) = {} \<and>
     (\<forall>p \<in> set ins. pat_tenant p = tenant \<and>
        (\<exists>a \<in> set ctxs. ctx_tenant a = tenant \<and> pat_context p = ctx_id a) \<and> pat_strength p \<le> 1) \<and>
     ps_library (detect_pattern_tenant u r acc now ctxs tenant s) = ps_library s \<and>
     ps_window_days (detect_pattern_tenant u r acc now ctxs tenant s) = ps_window_days s"
proof -
  let ?cs = "pr_candidates (detect_patterns (list_contexts tenant ctxs) (ps_library s) (ps_window_days s) now (Some tenant))"
  obtain ok t ins dup where sv:
    "save_each pat_id acc (map (build_pattern u r now tenant) ?cs) (ps_patterns s) = (ok, t, ins, dup)"
    by (metis prod_cases4)
  have "pat_tenant p = tenant \<and> (\<exists>a \<in> set ctxs. ctx_tenant a = tenant \<and> pat_context p = ctx_id a) \<and> pat_strength p \<le> 1"
    if p: "p \<in> set ins" for p
  proof -
    obtain c where c: "c \<in> set ?cs" "p = build_pattern u r now tenant c"
      using save_each_new [OF sv] p by auto
    obtain a where "a \<in> set (list_contexts tenant ctxs)" "cp_context c = ctx_id a" "ctx_tenant a = tenant"
        "cp_strength c \<le> 1"
      using detection_facts [OF c(1)] by blast
    then show ?thesis using c(2) by (auto simp: build_pattern_def list_contexts_def)
  qed
  then show ?thesis using save_each_table [OF sv] save_each_new [OF sv]
    by (intro exI [of _ ins]) (simp add: detect_pattern_tenant_def Let_def sv)
qed

text \<open>
  A detection cycle only appends: the patterns stored before are kept, no identity is stored
  twice, and every new pattern belongs to a tenant the cycle visited and is anchored to a context
  of that same tenant.
\<close>

theorem pattern_cycle_appends:
  assumes "distinct (map pat_id (ps_patterns s))"
  shows "\<exists>ins. ps_patterns (run_pattern_cycle u r acc now tenants ctxs s) = ps_patterns s @ ins \<and>
     distinct (map pat_id (ps_patterns s @ ins)) \<and>
     (\<forall>p \<in> set ins. pat_tenant p \<in> set tenants \<and>
        (\<exists>a \<in> set ctxs. ctx_tenant a = pat_tenant p \<and> pat_context p = ctx_id a))"
proof -
  let ?f = "detect_pattern_tenant u r acc now ctxs"
  have "\<exists>ins. ps_patterns (fold ?f ts s) = ps_patterns s @ ins \<and> distinct (map pat_id (ps_patterns s @ ins)) \<and>
     (\<forall>p \<in> set ins. pat_tenant p \<in> set ts \<and> (\<exists>a \<in> set ctxs. ctx_tenant a = pat_tenant p \<and> pat_context p = ctx_id a))"
    for ts
    using assms
  proof (induction ts arbitrary: s)
    case (Cons t ts)
    obtain i1 where i1: "ps_patterns (?f t s) = ps_patterns s @ i1"
        "distinct (map pat_id i1)" "pat_id ` set i1 \<inter> pat_id ` set (ps_patterns s) = {}"
        "\<forall>p \<in> set i1. pat_tenant p = t \<and> (\<exists>a \<in> set ctxs. ctx_tenant a = t \<and> pat_context p = ctx_id a)"
      using pattern_tenant_step [of u r acc now ctxs t s] by blast
    have "distinct (map pat_id (ps_patterns (?f t s)))" using Cons.prems i1 by auto
    from Cons.IH [OF this] obtain i2 where i2: "ps_patterns (fold ?f ts (?f t s)) = ps_patterns (?f t s) @ i2"
        "distinct (map pat_id (ps_patterns (?f t s) @ i2))"
        "\<forall>p \<in> set i2. pat_tenant p \<in> set ts \<and> (\<exists>a \<in> set ctxs. ctx_tenant a = pat_tenant p \<and> pat_context p = ctx_id a)"
      by blast
    show ?case using i1 i2 by (intro exI [of _ "i1 @ i2"]) auto
  qed simp
  from this [of tenants] show ?thesis by (simp add: run_pattern_cycle_def)
qed

section \<open>Witnesses\<close>

definition ex_activation :: "uuid \<Rightarrow> datetime \<Rightarrow> context_row" where
  "ex_activation i t = \<lparr>ctx_id = i, ctx_tenant = 7, ctx_evidence_ids = [i], ctx_model = ''capacity_risk'',
     ctx_purpose = ''capacity_management'', ctx_coherence = 1, ctx_competing = [], ctx_activated_at = t,
     ctx_active = True\<rparr>"

lemma ex_activation_sel [simp]: "ctx_id (ex_activation i t) = i" "ctx_tenant (ex_activation i t) = 7" "ctx_model (ex_activation i t) = ''capacity_risk''"
    "ctx_purpose (ex_activation i t) = ''capacity_management''" "ctx_activated_at (ex_activation i t) = t"
  by (simp_all add: ex_activation_def)

text \<open>Two activations, one day apart.\<close>

lemma two_activations: "\<exists>c \<in> set (pr_candidates (detect_patterns [ex_activation 1 0, ex_activation 2 86400000000] PATTERN_LIBRARY 28
    86400000000 (Some 7))). cp_model c = ''capacity_risk'' \<and> cp_purpose c = ''capacity_management''"
proof -
  let ?p = "\<lambda>x. in_window 86400000000 28 (Some 7) x \<and> ctx_model x = ''capacity_risk'' \<and> ctx_purpose x = ''capacity_management''"
  let ?cs = "[ex_activation 1 0, ex_activation 2 86400000000]"
  have f: "length (filter ?p ?cs) = 2" by (simp add: in_window_def)
  have d: "\<exists>d \<in> set PATTERN_LIBRARY. ''capacity_risk'' \<in> scope_mental_models d" by (simp add: PATTERN_LIBRARY_def)
  have iff: "(\<exists>c \<in> set (pr_candidates (detect_patterns ?cs PATTERN_LIBRARY 28 86400000000 (Some 7))).
      cp_model c = ''capacity_risk'' \<and> cp_purpose c = ''capacity_management'') \<longleftrightarrow>
    (\<exists>d \<in> set PATTERN_LIBRARY. ''capacity_risk'' \<in> scope_mental_models d) \<and> 2 \<le> length (filter ?p ?cs)"
    by (rule reports_from_two)
  then show ?thesis using f d by simp
qed

theorem detection_sound_witness:
  "\<exists>c \<in> set (pr_candidates (detect_patterns [ex_activation 1 0, ex_activation 2 86400000000] PATTERN_LIBRARY 28
      86400000000 (Some 7))). cp_context c = 2 \<and> cp_occurrences c = 2"
proof -
  let ?cs = "[ex_activation 1 0, ex_activation 2 86400000000]"
  obtain c where c: "c \<in> set (pr_candidates (detect_patterns ?cs PATTERN_LIBRARY 28 86400000000 (Some 7)))"
      "cp_model c = ''capacity_risk''" "cp_purpose c = ''capacity_management''"
    using two_activations by blast
  obtain d a where d: "d \<in> set PATTERN_LIBRARY" "a \<in> set ?cs" "cp_context c = ctx_id a" "in_scope d a"
    and n: "cp_occurrences c = length (members_of (in_window 86400000000 28 (Some 7)) d (cp_model c) (cp_purpose c) ?cs)"
    and m: "\<forall>x \<in> set (members_of (in_window 86400000000 28 (Some 7)) d (cp_model c) (cp_purpose c) ?cs).
      ctx_activated_at x \<le> ctx_activated_at a"
    using detection_sound [OF c(1)] by blast
  have sc: "in_scope d (ex_activation i t)" for i t using d(2,4) by (auto simp: in_scope_def)
  then have "members_of (in_window 86400000000 28 (Some 7)) d (cp_model c) (cp_purpose c) ?cs = ?cs"
    by (simp add: c in_window_def)
  then show ?thesis using c n m d by (intro bexI [of _ c]) auto
qed

theorem pattern_cycle_appends_witness:
  "\<exists>ins. ps_patterns (run_pattern_cycle (\<lambda>n s. of_nat (length s)) (\<lambda>_. []) (\<lambda>_. True) 86400000000 [7]
     [ex_activation 1 0, ex_activation 2 86400000000]
     \<lparr>ps_patterns = [], ps_library = PATTERN_LIBRARY, ps_window_days = 28, ps_total = 0, ps_duplicates = 0,
      ps_below = 0, ps_errors = 0, ps_by_type = (\<lambda>_. 0), ps_last_run_at = None\<rparr>) = ins \<and> distinct (map pat_id ins)"
proof -
  let ?s = "\<lparr>ps_patterns = [], ps_library = PATTERN_LIBRARY, ps_window_days = 28, ps_total = 0, ps_duplicates = 0,
      ps_below = 0, ps_errors = 0, ps_by_type = (\<lambda>_. 0), ps_last_run_at = None\<rparr>"
  have "distinct (map pat_id (ps_patterns ?s))" by simp
  from pattern_cycle_appends [OF this, of "\<lambda>n s. of_nat (length s)" "\<lambda>_. []" "\<lambda>_. True" 86400000000 "[7]"
      "[ex_activation 1 0, ex_activation 2 86400000000]"]
  show ?thesis by auto
qed

end
