(* ===== verification/Anomaly_Detection.thy ===== *)
theory Anomaly_Detection
  imports Pattern_Detection
begin

text \<open>
  The Detect Deviation capability: the tolerance library of
  \<open>libs/procedural_memory/tolerance_library.py\<close>, the detector and the cycle of
  \<open>apps/services/anomaly-service/src\<close> and the identity of \<open>libs/reasoning/anomaly.py\<close>.
\<close>

section \<open>Tolerance library (tolerance_library.py)\<close>

record tolerance_definition =
  tol_id :: string
  tol_pattern_type :: string
  tol_models :: "string set"
  tol_purposes :: "string set"
  tol_class :: string
  deviation_spec :: string
  tol_threshold :: real
  expected_max_activations :: int
  tol_window_days :: real

definition ANOMALY_CLASSES :: "string set" where
  "ANOMALY_CLASSES = {''point'', ''contextual'', ''collective''}"

definition DEVIATION_SPECS :: "string set" where
  "DEVIATION_SPECS = {''days_off_schedule'', ''count_exceeding_window''}"

definition FREQUENCY_INTERVAL_DAYS :: "(string \<times> real) list" where
  "FREQUENCY_INTERVAL_DAYS = [(''hourly'', 1/24), (''daily'', 1), (''weekly'', 7)]"

definition tolerance_definition_ok :: "tolerance_definition \<Rightarrow> unit result" where
  "tolerance_definition_ok t =
     (if tol_pattern_type t \<notin> PATTERN_TYPES then Inl (ValueError ''unknown pattern_type'')
      else if tol_class t \<notin> ANOMALY_CLASSES then Inl (ValueError ''unknown anomaly_class'')
      else if deviation_spec t \<notin> DEVIATION_SPECS then Inl (ValueError ''unknown deviation_spec'')
      else if tol_threshold t < 0 then Inl (ValueError ''threshold must be >= 0'')
      else if deviation_spec t = ''count_exceeding_window''
      then (if expected_max_activations t < 1 then Inl (ValueError ''expected_max_activations must be >= 1'')
            else if tol_window_days t \<le> 0 then Inl (ValueError ''window_days must be > 0'')
            else Inr ())
      else Inr ())"

definition TOLERANCE_LIBRARY :: "tolerance_definition list" where
  "TOLERANCE_LIBRARY =
    [\<lparr>tol_id = ''schedule_deviation_capacity_risk_v1'', tol_pattern_type = ''temporal'', tol_models = {''capacity_risk''},
      tol_purposes = {}, tol_class = ''point'', deviation_spec = ''days_off_schedule'', tol_threshold = 1/2,
      expected_max_activations = 1, tol_window_days = 1\<rparr>,
     \<lparr>tol_id = ''clustering_deviation_service_failure_v1'', tol_pattern_type = ''temporal'', tol_models = {''service_failure''},
      tol_purposes = {}, tol_class = ''point'', deviation_spec = ''count_exceeding_window'', tol_threshold = 1,
      expected_max_activations = 1, tol_window_days = 1\<rparr>,
     \<lparr>tol_id = ''schedule_deviation_resource_pressure_v1'', tol_pattern_type = ''temporal'', tol_models = {''resource_pressure''},
      tol_purposes = {}, tol_class = ''point'', deviation_spec = ''days_off_schedule'', tol_threshold = 1/2,
      expected_max_activations = 1, tol_window_days = 1\<rparr>,
     \<lparr>tol_id = ''clustering_deviation_auth_compromise_v1'', tol_pattern_type = ''temporal'', tol_models = {''auth_compromise''},
      tol_purposes = {}, tol_class = ''point'', deviation_spec = ''count_exceeding_window'', tol_threshold = 1,
      expected_max_activations = 2, tol_window_days = 1\<rparr>,
     \<lparr>tol_id = ''schedule_deviation_connectivity_degradation_v1'', tol_pattern_type = ''temporal'', tol_models = {''connectivity_degradation''},
      tol_purposes = {}, tol_class = ''point'', deviation_spec = ''days_off_schedule'', tol_threshold = 1/2,
      expected_max_activations = 1, tol_window_days = 1\<rparr>]"

section \<open>Detector (detector.py)\<close>

record candidate_anomaly =
  ca_context :: uuid
  ca_pattern :: uuid
  ca_model :: string
  ca_purpose :: string
  ca_score :: real
  ca_threshold :: real
  ca_class :: string
  ca_tolerance :: string
  ca_spec :: string
  ca_rationale :: fstring

record anomaly_result =
  ar_candidates :: "candidate_anomaly list"
  ar_active :: nat
  ar_without_pattern :: nat
  ar_without_tolerance :: nat

definition resolve_pattern_scopes :: "pattern list \<Rightarrow> (uuid \<times> context_row) list \<Rightarrow>
    ((string \<times> string) \<times> pattern list) list" where
  "resolve_pattern_scopes patterns anchors =
     (let usable = filter (\<lambda>p. pat_active p \<and> map_of anchors (pat_context p) \<noteq> None) patterns;
          scope = (\<lambda>p. case map_of anchors (pat_context p) of None \<Rightarrow> ([], [])
                        | Some a \<Rightarrow> (ctx_model a, ctx_purpose a))
      in map (\<lambda>(k, ps). (k, sort_key (\<lambda>p. - pat_detected_at p) ps)) (group_by scope usable))"

definition find_tolerance :: "tolerance_definition list \<Rightarrow> context_row \<Rightarrow> string \<Rightarrow> tolerance_definition option" where
  "find_tolerance tolerances ctx pattern_type =
     find (\<lambda>t. ctx_model ctx \<in> tol_models t \<and> (tol_purposes t = {} \<or> ctx_purpose ctx \<in> tol_purposes t) \<and>
               tol_pattern_type t = pattern_type) tolerances"

definition deviation_days_off_schedule :: "context_row \<Rightarrow> pattern \<Rightarrow> real option" where
  "deviation_days_off_schedule ctx p =
     (case map_of FREQUENCY_INTERVAL_DAYS (pat_frequency p) of None \<Rightarrow> None
      | Some interval \<Rightarrow>
          (let gap_days = total_days (ctx_activated_at ctx - pat_detected_at p)
           in Some (\<bar>gap_days - interval\<bar> / interval)))"

definition count_activations_in_window :: "context_row \<Rightarrow> context_row list \<Rightarrow> tolerance_definition \<Rightarrow> nat" where
  "count_activations_in_window ctx stream t =
     (let window_start = ctx_activated_at ctx - days (tol_window_days t)
      in length (filter (\<lambda>other. ctx_tenant other = ctx_tenant ctx \<and> ctx_model other = ctx_model ctx \<and>
           ctx_purpose other = ctx_purpose ctx \<and> window_start \<le> ctx_activated_at other \<and>
           ctx_activated_at other \<le> ctx_activated_at ctx) stream))"

definition deviation_count_exceeding_window :: "context_row \<Rightarrow> context_row list \<Rightarrow> tolerance_definition \<Rightarrow> real" where
  "deviation_count_exceeding_window ctx stream t =
     of_nat (count_activations_in_window ctx stream t) / of_int (max (expected_max_activations t) 1)"

definition rationale_days_off_schedule :: "context_row \<Rightarrow> pattern \<Rightarrow> real \<Rightarrow> real \<Rightarrow> fstring" where
  "rationale_days_off_schedule ctx p interval score =
     (let gap = total_days (ctx_activated_at ctx - pat_detected_at p)
      in [Lit ''El contexto '', PStr (ctx_model ctx @ '' para '' @ ctx_purpose ctx), Lit ('' se activ'' @ [CHR 0xF3] @ '' el ''), PTime (ctx_activated_at ctx),
          Lit (''; el patr'' @ [CHR 0xF3] @ ''n esperado ''), PUuid (pat_id p), Lit '' (frecuencia '', PStr (pat_frequency p), Lit '', intervalo esperado de '', PGeneral interval,
          Lit ('' d'' @ [CHR 0xED] @ ''as desde ''), PTime (pat_detected_at p), Lit ('') presenta una desviaci'' @ [CHR 0xF3] @ ''n de ''),
          PSigned 1 gap, Lit ('' d'' @ [CHR 0xED] @ ''as respecto al intervalo esperado (score ''), PGeneral score, Lit '').''])"

definition rationale_count_exceeding_window :: "context_row \<Rightarrow> nat \<Rightarrow> tolerance_definition \<Rightarrow> real \<Rightarrow> fstring" where
  "rationale_count_exceeding_window ctx n t score =
     [Lit ''El contexto '', PStr (ctx_model ctx @ '' para '' @ ctx_purpose ctx), Lit ('' se activ'' @ [CHR 0xF3] @ '' ''), PInt (int n), Lit '' veces en la ventana de '',
      (if of_int \<lfloor>tol_window_days t\<rfloor> = tol_window_days t then PInt \<lfloor>tol_window_days t\<rfloor> else PReal (tol_window_days t)),
      Lit ('' d'' @ [CHR 0xED] @ ''a(s); el patr'' @ [CHR 0xF3] @ ''n esperado tolera como m'' @ [CHR 0xE1] @ ''ximo ''), PInt (expected_max_activations t),
      Lit ('' activaci'' @ [CHR 0xF3] @ ''n(es) en esa ventana (score ''), PGeneral score, Lit '').'']"

text \<open>What one Active Context contributes to the run.\<close>

datatype verdict = WithoutPattern | WithoutTolerance | Within | Deviates candidate_anomaly

definition judge_context :: "context_row list \<Rightarrow> ((string \<times> string) \<times> pattern list) list \<Rightarrow>
    tolerance_definition list \<Rightarrow> context_row \<Rightarrow> verdict" where
  "judge_context contexts scoped tolerances ctx =
     (case map_of scoped (ctx_model ctx, ctx_purpose ctx) of
        None \<Rightarrow> WithoutPattern
      | Some [] \<Rightarrow> WithoutPattern
      | Some (p # _) \<Rightarrow>
          (case find_tolerance tolerances ctx (pat_type p) of
             None \<Rightarrow> WithoutTolerance
           | Some t \<Rightarrow>
               (let measured =
                  (if deviation_spec t = ''count_exceeding_window''
                   then (let count = count_activations_in_window ctx contexts t;
                             score = deviation_count_exceeding_window ctx contexts t
                         in Some (score, rationale_count_exceeding_window ctx count t score))
                   else (case deviation_days_off_schedule ctx p of None \<Rightarrow> None
                         | Some score \<Rightarrow> Some (score, rationale_days_off_schedule ctx p
                             (case map_of FREQUENCY_INTERVAL_DAYS (pat_frequency p) of None \<Rightarrow> 0 | Some i \<Rightarrow> i) score)))
                in case measured of None \<Rightarrow> WithoutTolerance
                   | Some (score, rationale) \<Rightarrow>
                       if score > tol_threshold t
                       then Deviates \<lparr>ca_context = ctx_id ctx, ca_pattern = pat_id p, ca_model = ctx_model ctx,
                         ca_purpose = ctx_purpose ctx, ca_score = round_to 4 score,
                         ca_threshold = round_to 4 (tol_threshold t), ca_class = tol_class t,
                         ca_tolerance = tol_id t, ca_spec = deviation_spec t, ca_rationale = rationale\<rparr>
                       else Within)))"

definition detect_anomalies :: "context_row list \<Rightarrow> pattern list \<Rightarrow> tolerance_definition list \<Rightarrow>
    context_row list option \<Rightarrow> uuid option \<Rightarrow> anomaly_result" where
  "detect_anomalies contexts0 patterns0 tolerances active_contexts tenant =
     (let contexts = (case tenant of None \<Rightarrow> contexts0 | Some t \<Rightarrow> filter (\<lambda>c. ctx_tenant c = t) contexts0);
          patterns = (case tenant of None \<Rightarrow> patterns0 | Some t \<Rightarrow> filter (\<lambda>p. pat_tenant p = t) patterns0);
          actives = (case active_contexts of None \<Rightarrow> [] | Some a \<Rightarrow> a);
          anchors = dict_of (map (\<lambda>c. (ctx_id c, c)) (contexts @ actives));
          subjects = (case active_contexts of None \<Rightarrow> filter ctx_active contexts
                      | Some a \<Rightarrow> filter (\<lambda>c. Some (ctx_tenant c) = tenant) a);
          scoped = resolve_pattern_scopes patterns anchors;
          verdicts = map (judge_context contexts scoped tolerances) subjects
      in \<lparr>ar_candidates = List.map_filter (\<lambda>v. case v of Deviates c \<Rightarrow> Some c | _ \<Rightarrow> None) verdicts,
          ar_active = length subjects,
          ar_without_pattern = length (filter (\<lambda>v. v = WithoutPattern) verdicts),
          ar_without_tolerance = length (filter (\<lambda>v. v = WithoutTolerance) verdicts)\<rparr>)"

section \<open>Identity (anomaly.py) and the cycle (service.py)\<close>

definition anomaly_id :: "uuid5 \<Rightarrow> uuid \<Rightarrow> uuid \<Rightarrow> uuid \<Rightarrow> uuid" where
  "anomaly_id uuid5 tenant context pat =
     uuid5 126 (uuid_str tenant @ '':'' @ uuid_str context @ '':'' @ uuid_str pat)"

definition build_anomaly :: "uuid5 \<Rightarrow> datetime \<Rightarrow> uuid \<Rightarrow> candidate_anomaly \<Rightarrow> anomaly" where
  "build_anomaly uuid5 now tenant c =
     \<lparr>an_id = anomaly_id uuid5 tenant (ca_context c) (ca_pattern c), an_tenant = tenant,
      an_context = ca_context c, an_pattern = ca_pattern c, an_score = ca_score c,
      an_threshold = ca_threshold c, an_class = ca_class c, an_detected_at = now\<rparr>"

record anomaly_service =
  as_anomalies :: "anomaly list"
  as_tolerances :: "tolerance_definition list"
  as_total :: nat
  as_duplicates :: nat
  as_without_pattern :: nat
  as_without_tolerance :: nat
  as_errors :: nat
  as_by_class :: "string \<Rightarrow> nat"
  as_last_run_at :: "datetime option"

definition list_patterns :: "uuid \<Rightarrow> pattern list \<Rightarrow> pattern list" where
  "list_patterns tenant t = sort_key pat_detected_at (filter (\<lambda>p. pat_tenant p = tenant) t)"

definition detect_anomaly_tenant :: "uuid5 \<Rightarrow> (anomaly \<Rightarrow> bool) \<Rightarrow> datetime \<Rightarrow> context_row list \<Rightarrow>
    pattern list \<Rightarrow> uuid \<Rightarrow> anomaly_service \<Rightarrow> anomaly_service" where
  "detect_anomaly_tenant uuid5 accepts now ctx_table pat_table tenant s =
     (let r = detect_anomalies (list_contexts tenant ctx_table) (list_patterns tenant pat_table)
                (as_tolerances s) (Some (list_active_contexts tenant ctx_table)) (Some tenant)
      in case save_each an_id accepts (map (build_anomaly uuid5 now tenant) (ar_candidates r)) (as_anomalies s) of
           (ok, t, ins, dup) \<Rightarrow>
             s\<lparr>as_anomalies := t, as_total := as_total s + length ins, as_duplicates := as_duplicates s + dup,
               as_without_pattern := as_without_pattern s + ar_without_pattern r,
               as_without_tolerance := as_without_tolerance s + ar_without_tolerance r,
               as_errors := as_errors s + (if ok then 0 else 1),
               as_by_class := add_counts an_class ins (as_by_class s)\<rparr>)"

definition run_anomaly_cycle :: "uuid5 \<Rightarrow> (anomaly \<Rightarrow> bool) \<Rightarrow> datetime \<Rightarrow> uuid list \<Rightarrow> context_row list \<Rightarrow>
    pattern list \<Rightarrow> anomaly_service \<Rightarrow> anomaly_service" where
  "run_anomaly_cycle uuid5 accepts now tenants ctx_table pat_table s =
     (fold (detect_anomaly_tenant uuid5 accepts now ctx_table pat_table) tenants s)\<lparr>as_last_run_at := Some now\<rparr>"

section \<open>Lemmas\<close>

lemma find_toleranceD: "find_tolerance ts ctx pt = Some t \<Longrightarrow>
    t \<in> set ts \<and> ctx_model ctx \<in> tol_models t \<and> tol_pattern_type t = pt"
  by (auto simp: find_tolerance_def dest: find_SomeD)

text \<open>The newest usable pattern of a scope comes first.\<close>

lemma scoped_first:
  assumes "map_of (resolve_pattern_scopes ps anchors) sc = Some (p # rest)"
  shows "p \<in> set ps \<and> pat_active p \<and> (\<exists>a. map_of anchors (pat_context p) = Some a \<and> (ctx_model a, ctx_purpose a) = sc) \<and>
     (\<forall>q \<in> set ps. pat_active q \<and> (\<exists>a. map_of anchors (pat_context q) = Some a \<and> (ctx_model a, ctx_purpose a) = sc)
        \<longrightarrow> pat_detected_at q \<le> pat_detected_at p)"
proof -
  let ?u = "filter (\<lambda>p. pat_active p \<and> map_of anchors (pat_context p) \<noteq> None) ps"
  let ?s = "\<lambda>p. case map_of anchors (pat_context p) of None \<Rightarrow> ([], []) | Some a \<Rightarrow> (ctx_model a, ctx_purpose a)"
  let ?g = "filter (\<lambda>p. ?s p = sc) ?u"
  have "map_of (map (\<lambda>(k, ps). (k, sort_key (\<lambda>p. - pat_detected_at p) ps)) (group_by ?s ?u)) sc =
      map_option (sort_key (\<lambda>p. - pat_detected_at p)) (map_of (group_by ?s ?u) sc)"
    by (simp only: map_of_map comp_apply)
  then have srt: "sort_key (\<lambda>p. - pat_detected_at p) ?g = p # rest"
    using assms unfolding resolve_pattern_scopes_def Let_def grp.group_lookup
    by (simp split: if_splits)
  have ne: "?g \<noteq> []" using srt by (metis list.distinct(1) sort_key_simps(1))
  have p: "p \<in> set ?g" using hd_sort_in [OF ne, of "\<lambda>p. - pat_detected_at p"] srt by (metis list.sel(1))
  have mx: "pat_detected_at q \<le> pat_detected_at p" if "q \<in> set ?g" for q
    using sort_key_hd_min [OF ne that, of "\<lambda>p. - pat_detected_at p"] unfolding srt by simp
  have mem: "q \<in> set ?g \<longleftrightarrow> q \<in> set ps \<and> pat_active q \<and>
      (\<exists>a. map_of anchors (pat_context q) = Some a \<and> (ctx_model a, ctx_purpose a) = sc)" for q
    by (auto split: option.splits)
  show ?thesis using p mx unfolding mem by blast
qed

lemma scoped_found:
  assumes "p \<in> set ps" and "pat_active p" and "map_of anchors (pat_context p) = Some a"
  shows "\<exists>q rest. map_of (resolve_pattern_scopes ps anchors) (ctx_model a, ctx_purpose a) = Some (q # rest)"
proof -
  let ?sc = "(ctx_model a, ctx_purpose a)"
  let ?u = "filter (\<lambda>p. pat_active p \<and> map_of anchors (pat_context p) \<noteq> None) ps"
  let ?s = "\<lambda>p. case map_of anchors (pat_context p) of None \<Rightarrow> ([], []) | Some a \<Rightarrow> (ctx_model a, ctx_purpose a)"
  let ?g = "filter (\<lambda>p. ?s p = ?sc) ?u"
  have pg: "p \<in> set ?g" using assms by simp
  have ne: "?g \<noteq> []"
  proof
    assume "?g = []"
    then show False using pg by (simp only: list.set(1) empty_iff)
  qed
  have "sort_key (\<lambda>p. - pat_detected_at p) ?g \<noteq> []"
    using ne by (simp only: sort_key_eq_Nil not_False_eq_True)
  moreover have "map_of (resolve_pattern_scopes ps anchors) ?sc = Some (sort_key (\<lambda>p. - pat_detected_at p) ?g)"
    unfolding resolve_pattern_scopes_def Let_def map_of_map comp_apply grp.group_lookup using ne by (simp only: if_False option.map)
  moreover obtain q rest where "sort_key (\<lambda>p. - pat_detected_at p) ?g = q # rest"
    using calculation(1) by (cases "sort_key (\<lambda>p. - pat_detected_at p) ?g") (simp_all only:)
  ultimately show ?thesis by (simp only:) blast
qed

lemma judge_Deviates:
  assumes "judge_context contexts scoped tols ctx = Deviates c"
  shows "\<exists>p rest t score. map_of scoped (ctx_model ctx, ctx_purpose ctx) = Some (p # rest) \<and>
     find_tolerance tols ctx (pat_type p) = Some t \<and> tol_threshold t < score \<and>
     (if deviation_spec t = ''count_exceeding_window''
      then score = deviation_count_exceeding_window ctx contexts t
      else deviation_days_off_schedule ctx p = Some score) \<and>
     ca_context c = ctx_id ctx \<and> ca_pattern c = pat_id p \<and> ca_score c = round_to 4 score \<and>
     ca_threshold c = round_to 4 (tol_threshold t) \<and> ca_class c = tol_class t"
  using assms unfolding judge_context_def Let_def
  by (auto split: option.splits list.splits if_splits)

lemma judge_schedule:
  assumes "map_of scoped (ctx_model ctx, ctx_purpose ctx) = Some (q # rest)"
    and "find_tolerance tols ctx (pat_type q) = Some t" and "deviation_spec t \<noteq> ''count_exceeding_window''"
    and "map_of FREQUENCY_INTERVAL_DAYS (pat_frequency q) = Some i"
    and "tol_threshold t < \<bar>total_days (ctx_activated_at ctx - pat_detected_at q) - i\<bar> / i"
  shows "\<exists>c. judge_context contexts scoped tols ctx = Deviates c \<and> ca_context c = ctx_id ctx \<and>
    ca_score c = round_to 4 (\<bar>total_days (ctx_activated_at ctx - pat_detected_at q) - i\<bar> / i)"
  using assms by (simp add: judge_context_def deviation_days_off_schedule_def Let_def)

lemma verdict_counts:
  assumes "r = detect_anomalies cs ps tols act tenant"
  shows "length (ar_candidates r) + ar_without_pattern r + ar_without_tolerance r \<le> ar_active r"
proof -
  have "length (List.map_filter (\<lambda>v. case v of Deviates c \<Rightarrow> Some c | _ \<Rightarrow> None) vs) +
      length (filter (\<lambda>v. v = WithoutPattern) vs) + length (filter (\<lambda>v. v = WithoutTolerance) vs) \<le> length vs"
    for vs :: "verdict list"
  proof (induction vs)
    case (Cons v vs)
    then show ?case by (cases v) (auto simp: List.map_filter_def)
  qed (simp add: List.map_filter_def)
  then show ?thesis unfolding assms detect_anomalies_def Let_def
    by (simp only: anomaly_result.simps) (rule order_trans, assumption, simp)
qed

section \<open>Properties\<close>

lemma anomaly_candidates_iff:
  "c \<in> set (ar_candidates (detect_anomalies cs ps tols (Some active) (Some tenant))) \<longleftrightarrow>
   (\<exists>ctx \<in> set active. ctx_tenant ctx = tenant \<and>
      judge_context (filter (\<lambda>c. ctx_tenant c = tenant) cs)
        (resolve_pattern_scopes (filter (\<lambda>p. pat_tenant p = tenant) ps)
          (dict_of (map (\<lambda>c. (ctx_id c, c)) (filter (\<lambda>c. ctx_tenant c = tenant) cs @ active))))
        tols ctx = Deviates c)"
proof -
  have *: "c \<in> set (List.map_filter (\<lambda>v. case v of Deviates c \<Rightarrow> Some c | _ \<Rightarrow> None) (map j xs)) \<longleftrightarrow>
      (\<exists>x \<in> set xs. j x = Deviates c)" for j :: "context_row \<Rightarrow> verdict" and xs
    by (induction xs) (auto simp: List.map_filter_def split: verdict.splits)
  show ?thesis unfolding detect_anomalies_def Let_def anomaly_result.simps option.case * set_filter
    by blast
qed

lemma interval_found:
  assumes "f \<in> {''hourly'', ''daily'', ''weekly''}"
  shows "\<exists>i. map_of FREQUENCY_INTERVAL_DAYS f = Some i \<and> 0 < i"
proof -
  consider "f = ''hourly''" | "f = ''daily''" | "f = ''weekly''" using assms by blast
  then show ?thesis
  proof cases
    case 1
    then show ?thesis by (intro exI [of _ "1/24"]) (simp add: FREQUENCY_INTERVAL_DAYS_def)
  qed (simp_all add: FREQUENCY_INTERVAL_DAYS_def)
qed

lemma dict_of_ids: "map_of (dict_of (map (\<lambda>c. (ctx_id c, c)) cs)) i = Some a \<Longrightarrow> a \<in> set cs \<and> ctx_id a = i"
  unfolding map_of_dict_of by (auto dest!: map_of_SomeD)

lemma dict_of_found: "x \<in> set cs \<Longrightarrow> (\<And>y. y \<in> set cs \<Longrightarrow> ctx_id y = ctx_id x \<Longrightarrow> y = x) \<Longrightarrow>
    map_of (dict_of (map (\<lambda>c. (ctx_id c, c)) cs)) (ctx_id x) = Some x"
proof -
  assume x: "x \<in> set cs" and u: "\<And>y. y \<in> set cs \<Longrightarrow> ctx_id y = ctx_id x \<Longrightarrow> y = x"
  have "(ctx_id x, x) \<in> set (rev (map (\<lambda>c. (ctx_id c, c)) cs))" using x by simp
  from weak_map_of_SomeI [OF this] obtain a where a: "map_of (dict_of (map (\<lambda>c. (ctx_id c, c)) cs)) (ctx_id x) = Some a"
    unfolding map_of_dict_of by blast
  have "a = x" by (rule u) (use dict_of_ids [OF a] in simp_all)
  then show ?thesis using a by simp
qed

lemma late_pattern:
  assumes "ctx \<in> set active" and "ctx_tenant ctx = tenant"
    and "ctx_model ctx \<in> {''capacity_risk'', ''resource_pressure'', ''connectivity_degradation''}"
    and "\<And>x. x \<in> set cs \<union> set active \<Longrightarrow> ctx_id x = ctx_id ctx \<Longrightarrow> x = ctx"
    and "p \<in> set ps" and "pat_tenant p = tenant" and "pat_active p" and "pat_context p = ctx_id ctx"
    and "ctx_activated_at ctx \<le> pat_detected_at p"
    and "\<And>q. q \<in> set ps \<Longrightarrow> pat_type q = ''temporal'' \<and> pat_frequency q \<in> {''hourly'', ''daily'', ''weekly''}"
  shows "\<exists>c \<in> set (ar_candidates (detect_anomalies cs ps TOLERANCE_LIBRARY (Some active) (Some tenant))).
     ca_context c = ctx_id ctx \<and> 1 \<le> ca_score c"
proof -
  let ?cs = "filter (\<lambda>c. ctx_tenant c = tenant) cs" and ?ps = "filter (\<lambda>p. pat_tenant p = tenant) ps"
  let ?an = "dict_of (map (\<lambda>c. (ctx_id c, c)) (?cs @ active))"
  let ?sc = "(ctx_model ctx, ctx_purpose ctx)"
  have an: "map_of ?an (ctx_id ctx) = Some ctx" using assms(1,4) by (intro dict_of_found) auto
  obtain q rest where q: "map_of (resolve_pattern_scopes ?ps ?an) ?sc = Some (q # rest)"
    using scoped_found [of p ?ps ?an ctx] assms(5-8) an by auto
  have late: "pat_detected_at p \<le> pat_detected_at q" and qm: "q \<in> set ps"
    using scoped_first [OF q] assms(5-8) an by auto
  obtain i where i: "map_of FREQUENCY_INTERVAL_DAYS (pat_frequency q) = Some i" "0 < i"
    using assms(10) [OF qm] interval_found by blast
  have tol: "\<exists>t. find_tolerance TOLERANCE_LIBRARY ctx ''temporal'' = Some t \<and>
      deviation_spec t \<noteq> ''count_exceeding_window'' \<and> tol_threshold t < 1"
    using assms(3) by (auto simp: find_tolerance_def TOLERANCE_LIBRARY_def)
  obtain t where t: "find_tolerance TOLERANCE_LIBRARY ctx (pat_type q) = Some t"
      "deviation_spec t \<noteq> ''count_exceeding_window''" "tol_threshold t < 1"
    using tol assms(10) [OF qm] by auto
  let ?gap = "total_days (ctx_activated_at ctx - pat_detected_at q)"
  have "?gap \<le> 0" using assms(9) late by (simp add: total_days_def)
  then have s: "1 \<le> \<bar>?gap - i\<bar> / i" using i(2) by (simp add: field_simps)
  then have "tol_threshold t < \<bar>?gap - i\<bar> / i" using t(3) by linarith
  then obtain c where c: "judge_context ?cs (resolve_pattern_scopes ?ps ?an) TOLERANCE_LIBRARY ctx = Deviates c"
      "ca_context c = ctx_id ctx" "ca_score c = round_to 4 (\<bar>?gap - i\<bar> / i)"
    using judge_schedule [OF q t(1,2) i(1)] by blast
  have "1 \<le> ca_score c" using round_to_mono [OF s, of 4] c(3) by simp
  then show ?thesis using c assms(1,2) unfolding anomaly_candidates_iff Bex_def by blast
qed

text \<open>
  An anomaly is a measured deviation: it names an Active Context and an active Pattern of the
  tenant that was anchored to a context of the same mental model and purpose, and a tolerance of the
  library that covers both, whose threshold the score exceeds before both are rounded.
\<close>

theorem deviation_sound:
  assumes "c \<in> set (ar_candidates (detect_anomalies cs ps tols (Some active) (Some tenant)))"
  shows "\<exists>ctx \<in> set active. \<exists>p \<in> set ps. \<exists>t \<in> set tols. \<exists>a \<in> set cs \<union> set active. \<exists>score.
     ctx_tenant ctx = tenant \<and> ca_context c = ctx_id ctx \<and>
     pat_tenant p = tenant \<and> pat_active p \<and> ca_pattern c = pat_id p \<and>
     pat_context p = ctx_id a \<and> ctx_model a = ctx_model ctx \<and> ctx_purpose a = ctx_purpose ctx \<and>
     ctx_model ctx \<in> tol_models t \<and> tol_pattern_type t = pat_type p \<and>
     tol_threshold t < score \<and> ca_score c = round_to 4 score \<and> ca_threshold c = round_to 4 (tol_threshold t) \<and>
     (if deviation_spec t = ''count_exceeding_window''
      then score = deviation_count_exceeding_window ctx (filter (\<lambda>c. ctx_tenant c = tenant) cs) t
      else deviation_days_off_schedule ctx p = Some score)"
proof -
  let ?cs = "filter (\<lambda>c. ctx_tenant c = tenant) cs" and ?ps = "filter (\<lambda>p. pat_tenant p = tenant) ps"
  let ?an = "dict_of (map (\<lambda>c. (ctx_id c, c)) (?cs @ active))"
  obtain ctx where ctx: "ctx \<in> set active" "ctx_tenant ctx = tenant"
      "judge_context ?cs (resolve_pattern_scopes ?ps ?an) tols ctx = Deviates c"
    using assms unfolding anomaly_candidates_iff by blast
  obtain p rest t score where j:
    "map_of (resolve_pattern_scopes ?ps ?an) (ctx_model ctx, ctx_purpose ctx) = Some (p # rest)"
    "find_tolerance tols ctx (pat_type p) = Some t" "tol_threshold t < score"
    "if deviation_spec t = ''count_exceeding_window'' then score = deviation_count_exceeding_window ctx ?cs t
     else deviation_days_off_schedule ctx p = Some score"
    "ca_context c = ctx_id ctx" "ca_pattern c = pat_id p" "ca_score c = round_to 4 score"
    "ca_threshold c = round_to 4 (tol_threshold t)"
    using judge_Deviates [OF ctx(3)] by blast
  obtain a where p: "p \<in> set ?ps" "pat_active p" and a: "map_of ?an (pat_context p) = Some a"
      "(ctx_model a, ctx_purpose a) = (ctx_model ctx, ctx_purpose ctx)"
    using scoped_first [OF j(1)] by blast
  have am: "a \<in> set cs \<union> set active" "pat_context p = ctx_id a" using dict_of_ids [OF a(1)] by auto
  show ?thesis using ctx(1,2) p a(2) am find_toleranceD [OF j(2)] j(3-)
    by (intro bexI [of _ ctx] bexI [of _ p] bexI [of _ t] bexI [of _ a] exI [of _ score]) auto
qed

text \<open>
  False alarms on schedule: the deviation of a scheduled scope is measured from the moment the
  pattern was detected. When the pattern anchored to the Active Context was detected after the
  activation, as it is in every detection run over it, the score is at least 1 and an anomaly is
  emitted, whatever the real gap between activations was.
\<close>

theorem late_pattern_always_deviates:
  assumes "ctx \<in> set active" and "ctx_tenant ctx = tenant"
    and "ctx_model ctx \<in> {''capacity_risk'', ''resource_pressure'', ''connectivity_degradation''}"
    and "\<And>x. x \<in> set cs \<union> set active \<Longrightarrow> ctx_id x = ctx_id ctx \<Longrightarrow> x = ctx"
    and "p \<in> set ps" and "pat_tenant p = tenant" and "pat_active p" and "pat_context p = ctx_id ctx"
    and "ctx_activated_at ctx \<le> pat_detected_at p"
    and "\<And>q. q \<in> set ps \<Longrightarrow> pat_type q = ''temporal'' \<and> pat_frequency q \<in> {''hourly'', ''daily'', ''weekly''}"
  shows "\<exists>c \<in> set (ar_candidates (detect_anomalies cs ps TOLERANCE_LIBRARY (Some active) (Some tenant))).
     ca_context c = ctx_id ctx \<and> 1 \<le> ca_score c"
  using assms by (rule late_pattern)

text \<open>Two activations exactly one week apart, and the pattern detected a minute later.\<close>

definition ex_weekly :: pattern where
  "ex_weekly = \<lparr>pat_id = 5, pat_tenant = 7, pat_context = 2, pat_type = ''temporal'', pat_description = [],
     pat_strength = 1, pat_frequency = ''weekly'', pat_detected_at = 604860000000, pat_active = True\<rparr>"

lemma ex_weekly_alarm:
  "\<exists>c \<in> set (ar_candidates (detect_anomalies [ex_activation 1 0, ex_activation 2 604800000000] [ex_weekly]
     TOLERANCE_LIBRARY (Some [ex_activation 2 604800000000]) (Some 7))). ca_context c = 2 \<and> 1 \<le> ca_score c"
proof -
  have "\<exists>c \<in> set (ar_candidates (detect_anomalies [ex_activation 1 0, ex_activation 2 604800000000] [ex_weekly]
     TOLERANCE_LIBRARY (Some [ex_activation 2 604800000000]) (Some 7))).
     ca_context c = ctx_id (ex_activation 2 604800000000) \<and> 1 \<le> ca_score c"
    by (rule late_pattern [of _ _ _ _ ex_weekly]) (auto simp: ex_weekly_def)
  then show ?thesis by simp
qed

theorem deviation_sound_witness:
  "\<exists>c. c \<in> set (ar_candidates (detect_anomalies [ex_activation 1 0, ex_activation 2 604800000000] [ex_weekly]
     TOLERANCE_LIBRARY (Some [ex_activation 2 604800000000]) (Some 7))) \<and> ca_pattern c = 5"
proof -
  obtain c where c: "c \<in> set (ar_candidates (detect_anomalies [ex_activation 1 0, ex_activation 2 604800000000]
     [ex_weekly] TOLERANCE_LIBRARY (Some [ex_activation 2 604800000000]) (Some 7)))"
    using ex_weekly_alarm by blast
  have "ca_pattern c = 5" using deviation_sound [OF c] by (auto simp: ex_weekly_def)
  then show ?thesis using c by blast
qed

theorem late_pattern_always_deviates_witness:
  "\<exists>c \<in> set (ar_candidates (detect_anomalies [ex_activation 1 0, ex_activation 2 604800000000] [ex_weekly]
     TOLERANCE_LIBRARY (Some [ex_activation 2 604800000000]) (Some 7))). ca_context c = 2 \<and> 1 \<le> ca_score c"
proof -
  have "\<exists>c \<in> set (ar_candidates (detect_anomalies [ex_activation 1 0, ex_activation 2 604800000000] [ex_weekly]
     TOLERANCE_LIBRARY (Some [ex_activation 2 604800000000]) (Some 7))).
     ca_context c = ctx_id (ex_activation 2 604800000000) \<and> 1 \<le> ca_score c"
    by (rule late_pattern_always_deviates [of _ _ _ _ ex_weekly]) (auto simp: ex_weekly_def)
  then show ?thesis by simp
qed

end
