(* ===== verification/Hypothesis_Generation.thy ===== *)
theory Hypothesis_Generation
  imports Anomaly_Detection
begin

text \<open>
  The Predict capability: the template library of \<open>libs/procedural_memory/hypothesis_templates.py\<close>,
  the generator and the generation cycle of \<open>apps/services/hypothesis-service/src\<close>. The texts are
  rendered with \<open>render fmt\<close>, as the description is part of the identity of a hypothesis.
\<close>

section \<open>Template library (hypothesis_templates.py)\<close>

text \<open>A format string: literal text and the named facts, \<open>HScore\<close> with one decimal.\<close>

datatype hslot = HTxt string | HScope | HClass | HScore | HFrequency

record hypothesis_template =
  ht_id :: string
  ht_class :: string
  ht_models :: "string set"
  ht_purposes :: "string set"
  ht_description :: "hslot list"
  ht_consequences :: "hslot list list"
  ht_falsifications :: "hslot list list"
  ht_coherence :: real

text \<open>\<open>__post_init__\<close>; a template is blank when it has no text and no placeholder.\<close>

definition blank_template :: "hslot list \<Rightarrow> bool" where
  "blank_template t \<longleftrightarrow> list_all (\<lambda>s. case s of HTxt x \<Rightarrow> list_all is_space x | _ \<Rightarrow> False) t"

definition hypothesis_template_ok :: "hypothesis_template \<Rightarrow> unit result" where
  "hypothesis_template_ok t =
     (if ht_class t \<notin> ANOMALY_CLASSES then Inl (ValueError ''unknown anomaly_class'')
      else if blank_template (ht_description t) then Inl (ValueError ''description_template must not be empty'')
      else if ht_consequences t = [] then Inl (ValueError ''consequence_templates must not be empty'')
      else if ht_falsifications t = [] then Inl (ValueError ''falsification_templates must not be empty'')
      else if \<not> (0 \<le> ht_coherence t \<and> ht_coherence t \<le> 1) then Inl (ValueError ''coherence_estimate must be in [0, 1]'')
      else Inr ())"

definition mk_template :: "string \<Rightarrow> string \<Rightarrow> hslot list \<Rightarrow> hslot list list \<Rightarrow> hslot list list \<Rightarrow> real \<Rightarrow>
    hypothesis_template" where
  "mk_template i model description consequences falsifications coherence =
     \<lparr>ht_id = i, ht_class = ''point'', ht_models = {model}, ht_purposes = {}, ht_description = description,
      ht_consequences = consequences, ht_falsifications = falsifications, ht_coherence = coherence\<rparr>"

definition DISK_TEMPLATES :: "hypothesis_template list" where
  "DISK_TEMPLATES =
    [mk_template ''disk_logging_verbosity_v1'' ''resource_pressure''
      ([HTxt (''Un aumento de la verbosidad de logging podr'' @ [CHR 0xED] @ ''a elevar el uso de CPU/memoria/disco en el scope ''),
        HScope,
        HTxt ('' (desviaci'' @ [CHR 0xF3] @ ''n ''),
        HScore,
        HTxt '', clase '',
        HClass,
        HTxt '').''])
      [[HTxt (''El patr'' @ [CHR 0xF3] @ ''n de escritura de logs del proceso activo mostrar'' @ [CHR 0xE1] @ '' un incremento sostenido de l'' @ [CHR 0xED] @ ''neas por minuto (frecuencia observada ''),
        HFrequency,
        HTxt '').''],
       [HTxt (''Los niveles de verbosidad configurados habr'' @ [CHR 0xE1] @ ''n cambiado dentro de la ventana de la desviaci'' @ [CHR 0xF3] @ ''n.'')]]
      [[HTxt (''Si el nivel de verbosidad de logging se mantiene sin cambios y el volumen de l'' @ [CHR 0xED] @ ''neas por minuto no aument'' @ [CHR 0xF3] @ '', la hip'' @ [CHR 0xF3] @ ''tesis queda descartada.'')]]
      (5/10),
     mk_template ''disk_retention_policy_v1'' ''resource_pressure''
      ([HTxt (''Un cambio en la pol'' @ [CHR 0xED] @ ''tica de retenci'' @ [CHR 0xF3] @ ''n podr'' @ [CHR 0xED] @ ''a haber elevado el volumen de datos persistidos en el scope ''),
        HScope,
        HTxt ('' (desviaci'' @ [CHR 0xF3] @ ''n ''),
        HScore,
        HTxt '', clase '',
        HClass,
        HTxt '').''])
      [[HTxt (''El volumen de datos retenidos por los jobs de retenci'' @ [CHR 0xF3] @ ''n mostrar'' @ [CHR 0xE1] @ '' un incremento acorde a la nueva pol'' @ [CHR 0xED] @ ''tica (frecuencia observada ''),
        HFrequency,
        HTxt '').''],
       [HTxt (''Las pol'' @ [CHR 0xED] @ ''ticas de retenci'' @ [CHR 0xF3] @ ''n configuradas habr'' @ [CHR 0xE1] @ ''n cambiado dentro de la ventana de la desviaci'' @ [CHR 0xF3] @ ''n.'')]]
      [[HTxt (''Si la pol'' @ [CHR 0xED] @ ''tica de retenci'' @ [CHR 0xF3] @ ''n no cambi'' @ [CHR 0xF3] @ '' y el volumen retenido por los jobs permanece constante, la hip'' @ [CHR 0xF3] @ ''tesis queda descartada.'')]]
      (4/10),
     mk_template ''disk_auto_growth_v1'' ''resource_pressure''
      ([HTxt (''Una configuraci'' @ [CHR 0xF3] @ ''n de auto-growth mal ajustada podr'' @ [CHR 0xED] @ ''a haber agotado el espacio disponible en el scope ''),
        HScope,
        HTxt ('' (desviaci'' @ [CHR 0xF3] @ ''n ''),
        HScore,
        HTxt '', clase '',
        HClass,
        HTxt '').''])
      [[HTxt (''Los archivos de datos con auto-growth habr'' @ [CHR 0xE1] @ ''n crecido hasta el l'' @ [CHR 0xED] @ ''mite configurado (frecuencia observada ''),
        HFrequency,
        HTxt '').''],
       [HTxt (''Los eventos de auto-growth en el registro del motor habr'' @ [CHR 0xE1] @ ''n aumentado dentro de la ventana de la desviaci'' @ [CHR 0xF3] @ ''n.'')]]
      [[HTxt (''Si las configuraciones de auto-growth se encuentran en valores normales y no se registraron eventos de crecimiento en la ventana, la hip'' @ [CHR 0xF3] @ ''tesis queda descartada.'')]]
      (5/10)]"

definition BACKUP_TEMPLATES :: "hypothesis_template list" where
  "BACKUP_TEMPLATES =
    [mk_template ''backup_maintenance_schedule_v1'' ''capacity_risk''
      ([HTxt (''Un cambio en el horario del job de mantenimiento podr'' @ [CHR 0xED] @ ''a explicar la desviaci'' @ [CHR 0xF3] @ ''n en el scope ''),
        HScope,
        HTxt ('' (desviaci'' @ [CHR 0xF3] @ ''n ''),
        HScore,
        HTxt '', clase '',
        HClass,
        HTxt '').''])
      [[HTxt (''El job de mantenimiento aparecer'' @ [CHR 0xE1] @ '' programado en un horario distinto al registrado previamente (frecuencia observada ''),
        HFrequency,
        HTxt '').''],
       [HTxt (''La ventana de ejecuci'' @ [CHR 0xF3] @ ''n del mantenimiento habr'' @ [CHR 0xE1] @ '' cambiado dentro de la ventana de la desviaci'' @ [CHR 0xF3] @ ''n.'')]]
      [[HTxt (''Si el horario del job de mantenimiento no cambi'' @ [CHR 0xF3] @ '', la hip'' @ [CHR 0xF3] @ ''tesis queda descartada.'')]]
      (5/10),
     mk_template ''backup_target_capacity_v1'' ''capacity_risk''
      ([HTxt (''El destino de backup podr'' @ [CHR 0xED] @ ''a haber alcanzado su capacidad durante la ventana del scope ''),
        HScope,
        HTxt ('' (desviaci'' @ [CHR 0xF3] @ ''n ''),
        HScore,
        HTxt '', clase '',
        HClass,
        HTxt '').''])
      [[HTxt (''El espacio libre del destino de backup habr'' @ [CHR 0xE1] @ '' descendido por debajo del umbral documentado (frecuencia observada ''),
        HFrequency,
        HTxt '').''],
       [HTxt (''Los intentos de escritura del backup habr'' @ [CHR 0xE1] @ ''n fallado por falta de espacio dentro de la ventana.'')]]
      [[HTxt (''Si el espacio libre del destino permanece por encima del umbral, la hip'' @ [CHR 0xF3] @ ''tesis queda descartada.'')]]
      (6/10),
     mk_template ''backup_antivirus_conflict_v1'' ''capacity_risk''
      ([HTxt (''Un an'' @ [CHR 0xE1] @ ''lisis antivirus nuevo podr'' @ [CHR 0xED] @ ''a interferir con la ventana de backup en el scope ''),
        HScope,
        HTxt ('' (desviaci'' @ [CHR 0xF3] @ ''n ''),
        HScore,
        HTxt '', clase '',
        HClass,
        HTxt '').''])
      [[HTxt (''Se registrar'' @ [CHR 0xE1] @ '' un an'' @ [CHR 0xE1] @ ''lisis antivirus solapado con la ventana de backup (frecuencia observada ''),
        HFrequency,
        HTxt '').''],
       [HTxt (''El horario del an'' @ [CHR 0xE1] @ ''lisis antivirus habr'' @ [CHR 0xE1] @ '' cambiado dentro de la ventana de la desviaci'' @ [CHR 0xF3] @ ''n.'')]]
      [[HTxt (''Si no hay an'' @ [CHR 0xE1] @ ''lisis antivirus configurado en la ventana de backup o su horario no cambi'' @ [CHR 0xF3] @ '', la hip'' @ [CHR 0xF3] @ ''tesis queda descartada.'')]]
      (4/10)]"

definition AUTH_TEMPLATES :: "hypothesis_template list" where
  "AUTH_TEMPLATES =
    [mk_template ''auth_compromised_account_v1'' ''auth_compromise''
      ([HTxt (''Una cuenta comprometida podr'' @ [CHR 0xED] @ ''a estar siendo sondeada por un actor externo en el scope ''),
        HScope,
        HTxt ('' (desviaci'' @ [CHR 0xF3] @ ''n ''),
        HScore,
        HTxt '', clase '',
        HClass,
        HTxt '').''])
      [[HTxt (''Los intentos de autenticaci'' @ [CHR 0xF3] @ ''n fallidos provendr'' @ [CHR 0xE1] @ ''n de un conjunto acotado de or'' @ [CHR 0xED] @ ''genes (frecuencia observada ''),
        HFrequency,
        HTxt '').''],
       [HTxt (''Se observar'' @ [CHR 0xE1] @ '' un patr'' @ [CHR 0xF3] @ ''n de credenciales probadas sobre la misma cuenta dentro de la ventana.'')]]
      [[HTxt (''Si los intentos fallidos provienen de un '' @ [CHR 0xFA] @ ''nico origen o no se concentran en una cuenta, la hip'' @ [CHR 0xF3] @ ''tesis queda descartada.'')]]
      (6/10),
     mk_template ''auth_retry_loop_v1'' ''auth_compromise''
      ([HTxt (''Una aplicaci'' @ [CHR 0xF3] @ ''n mal configurada podr'' @ [CHR 0xED] @ ''a estar reintentando autenticaciones en un bucle en el scope ''),
        HScope,
        HTxt ('' (desviaci'' @ [CHR 0xF3] @ ''n ''),
        HScore,
        HTxt '', clase '',
        HClass,
        HTxt '').''])
      [[HTxt (''Los logs de la aplicaci'' @ [CHR 0xF3] @ ''n mostrar'' @ [CHR 0xE1] @ ''n reintentos peri'' @ [CHR 0xF3] @ ''dicos y regulares de autenticaci'' @ [CHR 0xF3] @ ''n (frecuencia observada ''),
        HFrequency,
        HTxt '').''],
       [HTxt (''El origen de los reintentos ser'' @ [CHR 0xE1] @ '' consistente con un '' @ [CHR 0xFA] @ ''nico cliente de aplicaci'' @ [CHR 0xF3] @ ''n.'')]]
      [[HTxt (''Si los logs de la aplicaci'' @ [CHR 0xF3] @ ''n no muestran reintentos peri'' @ [CHR 0xF3] @ ''dicos, la hip'' @ [CHR 0xF3] @ ''tesis queda descartada.'')]]
      (5/10),
     mk_template ''auth_external_monitoring_v1'' ''auth_compromise''
      ([HTxt (''Una herramienta de monitoreo externa podr'' @ [CHR 0xED] @ ''a estar probando credenciales en el scope ''),
        HScope,
        HTxt ('' (desviaci'' @ [CHR 0xF3] @ ''n ''),
        HScore,
        HTxt '', clase '',
        HClass,
        HTxt '').''])
      [[HTxt (''Se identificar'' @ [CHR 0xE1] @ '' una herramienta de monitoreo configurada que realiza pruebas de autenticaci'' @ [CHR 0xF3] @ ''n (frecuencia observada ''),
        HFrequency,
        HTxt '').''],
       [HTxt (''El patr'' @ [CHR 0xF3] @ ''n de los intentos coincidir'' @ [CHR 0xE1] @ '' con la cadencia documentada de dicha herramienta.'')]]
      [[HTxt (''Si no existe una herramienta de monitoreo configurada que pruebe credenciales, la hip'' @ [CHR 0xF3] @ ''tesis queda descartada.'')]]
      (4/10)]"

definition HYPOTHESIS_TEMPLATE_LIBRARY :: "hypothesis_template list" where
  "HYPOTHESIS_TEMPLATE_LIBRARY = DISK_TEMPLATES @ BACKUP_TEMPLATES @ AUTH_TEMPLATES"

section \<open>Generator (generator.py)\<close>

definition anomaly_scope :: "anomaly \<Rightarrow> context_row list \<Rightarrow> (string \<times> string) option" where
  "anomaly_scope a contexts =
     map_option (\<lambda>c. (ctx_model c, ctx_purpose c)) (find (\<lambda>c. ctx_id c = an_context a) contexts)"

definition expected_pattern :: "anomaly \<Rightarrow> pattern list \<Rightarrow> pattern option" where
  "expected_pattern a patterns = find (\<lambda>p. pat_id p = an_pattern a) patterns"

definition matching_templates :: "anomaly \<Rightarrow> string \<times> string \<Rightarrow> hypothesis_template list \<Rightarrow> hypothesis_template list" where
  "matching_templates a scope library =
     filter (\<lambda>t. ht_class t = an_class a \<and> fst scope \<in> ht_models t \<and>
       (ht_purposes t = {} \<or> snd scope \<in> ht_purposes t)) library"

record facts =
  f_scope :: string
  f_class :: string
  f_score :: real
  f_frequency :: string

definition mk_facts :: "anomaly \<Rightarrow> string \<times> string \<Rightarrow> pattern option \<Rightarrow> facts" where
  "mk_facts a scope p =
     \<lparr>f_scope = fst scope @ '' para '' @ snd scope, f_class = an_class a, f_score = an_score a,
      f_frequency = (case p of None \<Rightarrow> ''desconocida'' | Some q \<Rightarrow> pat_frequency q)\<rparr>"

definition fill :: "facts \<Rightarrow> hslot \<Rightarrow> piece" where
  "fill f s = (case s of HTxt t \<Rightarrow> Lit t | HScope \<Rightarrow> PStr (f_scope f) | HClass \<Rightarrow> PStr (f_class f)
     | HScore \<Rightarrow> PFixed 1 (f_score f) | HFrequency \<Rightarrow> PStr (f_frequency f))"

definition format_template :: "(piece \<Rightarrow> string) \<Rightarrow> facts \<Rightarrow> hslot list \<Rightarrow> string" where
  "format_template fmt f t = render fmt (map (fill f) t)"

definition instantiate :: "(piece \<Rightarrow> string) \<Rightarrow> datetime \<Rightarrow> anomaly \<Rightarrow> pattern option \<Rightarrow> facts \<Rightarrow>
    hypothesis_template \<Rightarrow> hypothesis_create" where
  "instantiate fmt now a p f t =
     \<lparr>hc_tenant = an_tenant a, hc_anomaly_ids = [an_id a],
      hc_pattern_ids = (case p of None \<Rightarrow> [] | Some q \<Rightarrow> [pat_id q]),
      hc_description = format_template fmt f (ht_description t),
      hc_consequences = map (format_template fmt f) (ht_consequences t),
      hc_falsification = format_template fmt f (hd (ht_falsifications t)),
      hc_coherence = ht_coherence t, hc_status = ''candidate'', hc_generated_at = now\<rparr>"

definition generate :: "(piece \<Rightarrow> string) \<Rightarrow> datetime \<Rightarrow> anomaly \<Rightarrow> context_row list \<Rightarrow> pattern list \<Rightarrow>
    hypothesis_template list \<Rightarrow> hypothesis_create list result" where
  "generate fmt now a contexts patterns library =
     (case anomaly_scope a contexts of None \<Rightarrow> Inr []
      | Some scope \<Rightarrow>
          (let templates = matching_templates a scope library
           in if templates = [] then Inr []
              else let p = expected_pattern a patterns;
                       creations = map (instantiate fmt now a p (mk_facts a scope p)) templates
                   in if length creations \<ge> 2 then Inr creations else Inl (AssertionError ''premature convergence'')))"

section \<open>Cycle (service.py)\<close>

record hypothesis_service =
  hs_hypotheses :: "hypothesis list"
  hs_templates :: "hypothesis_template list"
  hs_total :: nat
  hs_duplicates :: nat
  hs_no_templates :: nat
  hs_errors :: nat
  hs_by_status :: "string \<Rightarrow> nat"
  hs_last_run_at :: "datetime option"

definition list_anomalies :: "uuid \<Rightarrow> anomaly list \<Rightarrow> anomaly list" where
  "list_anomalies tenant t = sort_key an_detected_at (filter (\<lambda>a. an_tenant a = tenant) t)"

text \<open>The loop over the anomalies: an exception ends it and counts one error.\<close>

fun generate_each :: "uuid5 \<Rightarrow> (piece \<Rightarrow> string) \<Rightarrow> (hypothesis \<Rightarrow> bool) \<Rightarrow> datetime \<Rightarrow> context_row list \<Rightarrow>
    pattern list \<Rightarrow> anomaly list \<Rightarrow> hypothesis_service \<Rightarrow> hypothesis_service" where
  "generate_each uuid5 fmt accepts now contexts patterns [] s = s"
| "generate_each uuid5 fmt accepts now contexts patterns (a # rest) s =
     (case generate fmt now a contexts patterns (hs_templates s) of
        Inl _ \<Rightarrow> s\<lparr>hs_errors := hs_errors s + 1\<rparr>
      | Inr creations \<Rightarrow>
          (if creations = []
           then generate_each uuid5 fmt accepts now contexts patterns rest
                  (s\<lparr>hs_no_templates := hs_no_templates s + 1\<rparr>)
           else case save_each hyp_id accepts (map (build_hypothesis uuid5) creations) (hs_hypotheses s) of
             (ok, t, ins, dup) \<Rightarrow>
               (let s1 = s\<lparr>hs_hypotheses := t, hs_total := hs_total s + length ins,
                          hs_duplicates := hs_duplicates s + dup,
                          hs_by_status := add_counts hyp_status ins (hs_by_status s)\<rparr>
                in if ok then generate_each uuid5 fmt accepts now contexts patterns rest s1
                   else s1\<lparr>hs_errors := hs_errors s1 + 1\<rparr>)))"

definition generate_tenant :: "uuid5 \<Rightarrow> (piece \<Rightarrow> string) \<Rightarrow> (hypothesis \<Rightarrow> bool) \<Rightarrow> datetime \<Rightarrow> context_row list \<Rightarrow>
    pattern list \<Rightarrow> anomaly list \<Rightarrow> uuid \<Rightarrow> hypothesis_service \<Rightarrow> hypothesis_service" where
  "generate_tenant uuid5 fmt accepts now ctx_table pat_table an_table tenant s =
     generate_each uuid5 fmt accepts now (list_contexts tenant ctx_table) (list_patterns tenant pat_table)
       (list_anomalies tenant an_table) s"

definition run_generation_cycle :: "uuid5 \<Rightarrow> (piece \<Rightarrow> string) \<Rightarrow> (hypothesis \<Rightarrow> bool) \<Rightarrow> datetime \<Rightarrow> uuid list \<Rightarrow>
    context_row list \<Rightarrow> pattern list \<Rightarrow> anomaly list \<Rightarrow> hypothesis_service \<Rightarrow> hypothesis_service" where
  "run_generation_cycle uuid5 fmt accepts now tenants ctx_table pat_table an_table s =
     (fold (generate_tenant uuid5 fmt accepts now ctx_table pat_table an_table) tenants s)
       \<lparr>hs_last_run_at := Some now\<rparr>"

section \<open>The library\<close>

lemmas template_groups = DISK_TEMPLATES_def BACKUP_TEMPLATES_def AUTH_TEMPLATES_def

lemma disk_templates: "list_all (\<lambda>t. ht_class t = ''point'' \<and> ht_models t = {''resource_pressure''} \<and>
    ht_purposes t = {} \<and> ht_consequences t \<noteq> [] \<and> ht_falsifications t \<noteq> []) DISK_TEMPLATES"
  by (simp add: DISK_TEMPLATES_def mk_template_def)

lemma backup_templates: "list_all (\<lambda>t. ht_class t = ''point'' \<and> ht_models t = {''capacity_risk''} \<and>
    ht_purposes t = {} \<and> ht_consequences t \<noteq> [] \<and> ht_falsifications t \<noteq> []) BACKUP_TEMPLATES"
  by (simp add: BACKUP_TEMPLATES_def mk_template_def)

lemma auth_templates: "list_all (\<lambda>t. ht_class t = ''point'' \<and> ht_models t = {''auth_compromise''} \<and>
    ht_purposes t = {} \<and> ht_consequences t \<noteq> [] \<and> ht_falsifications t \<noteq> []) AUTH_TEMPLATES"
  by (simp add: AUTH_TEMPLATES_def mk_template_def)

lemma template_lengths: "length DISK_TEMPLATES = 3" "length BACKUP_TEMPLATES = 3" "length AUTH_TEMPLATES = 3"
  by (simp_all add: template_groups)

lemma matching_group:
  assumes "list_all (\<lambda>t. ht_class t = ''point'' \<and> ht_models t = {m} \<and> ht_purposes t = {} \<and> q t) ts"
  shows "matching_templates a scope ts = (if an_class a = ''point'' \<and> fst scope = m then ts else [])"
  using assms unfolding matching_templates_def
  by (induction ts) auto

lemma library_matches:
  "matching_templates a scope HYPOTHESIS_TEMPLATE_LIBRARY =
     (if an_class a \<noteq> ''point'' then []
      else if fst scope = ''resource_pressure'' then DISK_TEMPLATES
      else if fst scope = ''capacity_risk'' then BACKUP_TEMPLATES
      else if fst scope = ''auth_compromise'' then AUTH_TEMPLATES else [])"
proof -
  have "matching_templates a scope HYPOTHESIS_TEMPLATE_LIBRARY =
      matching_templates a scope DISK_TEMPLATES @ matching_templates a scope BACKUP_TEMPLATES @
      matching_templates a scope AUTH_TEMPLATES"
    by (simp add: matching_templates_def HYPOTHESIS_TEMPLATE_LIBRARY_def)
  then show ?thesis
    by (simp add: matching_group [OF disk_templates] matching_group [OF backup_templates]
        matching_group [OF auth_templates])
qed

text \<open>The first words of the explanations tell them apart, whatever the facts are.\<close>

lemma distinct_descriptions:
  "distinct (map (\<lambda>t. format_template fmt f (ht_description t)) DISK_TEMPLATES)"
  "distinct (map (\<lambda>t. format_template fmt f (ht_description t)) BACKUP_TEMPLATES)"
  "distinct (map (\<lambda>t. format_template fmt f (ht_description t)) AUTH_TEMPLATES)"
  by (simp_all add: template_groups mk_template_def format_template_def fill_def)

lemma hypothesis_library_ok: "list_all (\<lambda>t. hypothesis_template_ok t = Inr ()) HYPOTHESIS_TEMPLATE_LIBRARY"
  by (simp add: HYPOTHESIS_TEMPLATE_LIBRARY_def template_groups mk_template_def hypothesis_template_ok_def
      blank_template_def is_space_def ANOMALY_CLASSES_def)

section \<open>Generation\<close>

lemma name_of_description:
  "hypothesis_name t a p d = hypothesis_name t a p d' \<longleftrightarrow> d = d'"
  by (simp add: hypothesis_name_def)

lemma instantiate_sel [simp]:
  "hc_tenant (instantiate fmt now a p f t) = an_tenant a"
  "hc_anomaly_ids (instantiate fmt now a p f t) = [an_id a]"
  "hc_description (instantiate fmt now a p f t) = format_template fmt f (ht_description t)"
  "hc_status (instantiate fmt now a p f t) = ''candidate''"
  "hc_consequences (instantiate fmt now a p f t) = map (format_template fmt f) (ht_consequences t)"
  "hc_pattern_ids (instantiate fmt now a p f t) = (case p of None \<Rightarrow> [] | Some q \<Rightarrow> [pat_id q])"
  by (simp_all add: instantiate_def)

lemma generate_mem: "generate fmt now a contexts patterns library = Inr cs \<Longrightarrow> c \<in> set cs \<Longrightarrow>
    hc_tenant c = an_tenant a \<and> hc_anomaly_ids c = [an_id a] \<and> hc_status c = ''candidate''"
  by (auto simp: generate_def Let_def split: option.splits if_splits)

definition explained_models :: "string set" where
  "explained_models = {''resource_pressure'', ''capacity_risk'', ''auth_compromise''}"

lemma library_group:
  assumes "an_class a = ''point''" and "fst scope \<in> explained_models"
  shows "\<exists>ts. matching_templates a scope HYPOTHESIS_TEMPLATE_LIBRARY = ts \<and> length ts = 3 \<and>
     list_all (\<lambda>t. ht_consequences t \<noteq> []) ts \<and>
     (\<forall>f. distinct (map (\<lambda>t. format_template fmt f (ht_description t)) ts))"
proof -
  have c: "list_all (\<lambda>t. ht_consequences t \<noteq> []) DISK_TEMPLATES" "list_all (\<lambda>t. ht_consequences t \<noteq> []) BACKUP_TEMPLATES"
      "list_all (\<lambda>t. ht_consequences t \<noteq> []) AUTH_TEMPLATES"
    using disk_templates backup_templates auth_templates by (auto elim: list.pred_mono_strong)
  consider "fst scope = ''resource_pressure''" | "fst scope = ''capacity_risk''" | "fst scope = ''auth_compromise''"
    using assms(2) by (auto simp: explained_models_def)
  then show ?thesis
    by cases (simp_all add: library_matches assms(1) template_lengths c distinct_descriptions)
qed

section \<open>Properties\<close>

text \<open>
  With the published library the generator never raises. A point anomaly whose scope is resolved
  and whose mental model has templates gets exactly three candidate hypotheses about it, for its
  tenant, each with consequences, with pairwise distinct explanations and hence identities;
  any other anomaly gets none.
\<close>

theorem competing_hypotheses:
  shows "\<exists>cs. generate fmt now a contexts patterns HYPOTHESIS_TEMPLATE_LIBRARY = Inr cs \<and>
     length cs = (if an_class a = ''point'' \<and> (\<exists>m \<in> explained_models. \<exists>p. anomaly_scope a contexts = Some (m, p))
                  then 3 else 0) \<and>
     distinct (map (\<lambda>c. hypothesis_name (hc_tenant c) (hc_anomaly_ids c) (hc_pattern_ids c) (hc_description c)) cs) \<and>
     list_all (\<lambda>c. hc_tenant c = an_tenant a \<and> hc_anomaly_ids c = [an_id a] \<and> hc_status c = ''candidate'' \<and>
       hc_consequences c \<noteq> []) cs"
proof (cases "an_class a = ''point'' \<and> (\<exists>m \<in> explained_models. \<exists>p. anomaly_scope a contexts = Some (m, p))")
  case True
  then obtain m pu where s: "m \<in> explained_models" "anomaly_scope a contexts = Some (m, pu)" by blast
  obtain ts where ts: "matching_templates a (m, pu) HYPOTHESIS_TEMPLATE_LIBRARY = ts" "length ts = 3"
      "list_all (\<lambda>t. ht_consequences t \<noteq> []) ts"
      "\<forall>f. distinct (map (\<lambda>t. format_template fmt f (ht_description t)) ts)"
    using library_group [of a "(m, pu)" fmt] True s(1) by auto
  let ?p = "expected_pattern a patterns"
  let ?cs = "map (instantiate fmt now a ?p (mk_facts a (m, pu) ?p)) ts"
  have g: "generate fmt now a contexts patterns HYPOTHESIS_TEMPLATE_LIBRARY = Inr ?cs"
    using ts(2) by (auto simp: generate_def s(2) ts(1) Let_def)
  have "distinct (map (\<lambda>c. hypothesis_name (hc_tenant c) (hc_anomaly_ids c) (hc_pattern_ids c) (hc_description c)) ?cs)"
    using ts(4) by (simp add: comp_def distinct_map inj_on_def name_of_description)
  then show ?thesis using g True ts(2,3) by (intro exI [of _ ?cs]) (auto simp: list_all_iff)
next
  case False
  have "generate fmt now a contexts patterns HYPOTHESIS_TEMPLATE_LIBRARY = Inr []"
  proof (cases "anomaly_scope a contexts")
    case None
    then show ?thesis by (simp add: generate_def)
  next
    case (Some scope)
    then have "matching_templates a scope HYPOTHESIS_TEMPLATE_LIBRARY = []"
      using False by (cases scope) (auto simp: library_matches explained_models_def)
    then show ?thesis by (simp add: generate_def Some)
  qed
  then show ?thesis using False by simp
qed

text \<open>
  Two mental models are watched and never explained: the pattern and tolerance libraries cover
  service failures and connectivity, and every anomaly of theirs ends without a hypothesis.
\<close>

theorem watched_but_unexplained:
  assumes "m = ''service_failure'' \<or> m = ''connectivity_degradation''"
    and "anomaly_scope a contexts = Some (m, p)"
  shows "(\<exists>d \<in> set PATTERN_LIBRARY. m \<in> scope_mental_models d) \<and> (\<exists>t \<in> set TOLERANCE_LIBRARY. m \<in> tol_models t) \<and>
     generate fmt now a contexts patterns HYPOTHESIS_TEMPLATE_LIBRARY = Inr []"
proof -
  have "matching_templates a (m, p) HYPOTHESIS_TEMPLATE_LIBRARY = []"
    using assms(1) by (auto simp: library_matches)
  then have "generate fmt now a contexts patterns HYPOTHESIS_TEMPLATE_LIBRARY = Inr []"
    by (simp add: generate_def assms(2))
  moreover have "\<exists>d \<in> set PATTERN_LIBRARY. m \<in> scope_mental_models d"
    using assms(1) by (auto simp: PATTERN_LIBRARY_def)
  moreover have "\<exists>t \<in> set TOLERANCE_LIBRARY. m \<in> tol_models t"
    using assms(1) by (auto simp: TOLERANCE_LIBRARY_def)
  ultimately show ?thesis by blast
qed

definition ex_anomaly :: "uuid \<Rightarrow> anomaly" where
  "ex_anomaly i = \<lparr>an_id = i, an_tenant = 7, an_context = 1, an_pattern = 5, an_score = 2, an_threshold = 1,
     an_class = ''point'', an_detected_at = 0\<rparr>"

theorem watched_but_unexplained_witness:
  "generate (\<lambda>_. []) 0 (ex_anomaly 3) [(ex_activation 1 0)\<lparr>ctx_model := ''service_failure''\<rparr>] [] HYPOTHESIS_TEMPLATE_LIBRARY = Inr []"
proof -
  have s: "anomaly_scope (ex_anomaly 3) [(ex_activation 1 0)\<lparr>ctx_model := ''service_failure''\<rparr>]
      = Some (''service_failure'', ''capacity_management'')"
    by (simp add: anomaly_scope_def ex_anomaly_def)
  show ?thesis using watched_but_unexplained [OF disjI1 [OF refl] s] by blast
qed

end
