(* ===== verification/Insight_Generation.thy ===== *)
theory Insight_Generation
  imports Hypothesis_Generation
begin

text \<open>
  The Restructure capability: the rules of \<open>libs/procedural_memory/insight_rules.py\<close>, the generator
  and the cycle of \<open>apps/services/insight-service/src\<close> and the identity of \<open>libs/reasoning/insight.py\<close>.
  The code keys its dictionaries by \<open>str(uuid)\<close>, here by the identifier itself. It visits the contexts
  of a hypothesis in the order of a hash set, here in the order of the anomalies.
\<close>

section \<open>Rules (insight_rules.py)\<close>

datatype islot = ITxt string | IScope | IContextId | IN | IAnomalyIds | IDescriptions

record insight_rule =
  ir_id :: string
  ir_name :: string
  ir_min_hypotheses :: nat
  ir_description :: "islot list"
  ir_prior :: "islot list"
  ir_frame :: string

record insight_create =
  ic_tenant :: uuid
  ic_context :: uuid
  ic_hypothesis_ids :: "uuid list"
  ic_description :: string
  ic_prior :: string
  ic_update :: json
  ic_generated_at :: datetime

record insight =
  ins_id :: uuid
  ins_tenant :: uuid
  ins_context :: uuid
  ins_hypothesis_ids :: "uuid list"
  ins_description :: string
  ins_prior :: string
  ins_update :: json
  ins_generated_at :: datetime

definition blank_rule_text :: "islot list \<Rightarrow> bool" where
  "blank_rule_text t \<longleftrightarrow> list_all (\<lambda>s. case s of ITxt x \<Rightarrow> list_all is_space x | _ \<Rightarrow> False) t"

definition insight_rule_ok :: "insight_rule \<Rightarrow> unit result" where
  "insight_rule_ok r =
     (if ir_min_hypotheses r < 2 then Inl (ValueError ''min_hypotheses must be >= 2'')
      else if blank_rule_text (ir_description r) then Inl (ValueError ''description_template must not be empty'')
      else if blank_rule_text (ir_prior r) then Inl (ValueError ''prior_understanding_template must not be empty'')
      else if list_all is_space (ir_frame r) then Inl (ValueError ''frame must not be empty'')
      else Inr ())"

definition INSIGHT_RULE_LIBRARY :: "insight_rule list" where
  "INSIGHT_RULE_LIBRARY =
    [\<lparr>ir_id = ''competitive_frame_v1'', ir_name = ''Competitive frame resolution'', ir_min_hypotheses = 2,
      ir_description =
       [ITxt ''El marco actual mantiene '',
        IN,
        ITxt ('' hip'' @ [CHR 0xF3] @ ''tesis candidatas en competencia sobre el scope ''),
        IScope,
        ITxt '' (contexto '',
        IContextId,
        ITxt (''): la explicaci'' @ [CHR 0xF3] @ ''n no ha convergido prematuramente en una '' @ [CHR 0xFA] @ ''nica causa. La organizaci'' @ [CHR 0xF3] @ ''n del conocimiento se reestructura tratando esas ''),
        IN,
        ITxt ('' explicaciones como interpretaciones alternativas de una misma desviaci'' @ [CHR 0xF3] @ ''n observada (anomal'' @ [CHR 0xED] @ ''as ''),
        IAnomalyIds,
        ITxt '') en lugar de problemas independientes.''],
      ir_prior =
       [ITxt (''Comprensi'' @ [CHR 0xF3] @ ''n previa: ''),
        IN,
        ITxt ('' hip'' @ [CHR 0xF3] @ ''tesis tratadas de forma independiente sobre el scope ''),
        IScope,
        ITxt '' - '',
        IDescriptions],
      ir_frame = ''single-deviation-multi-explanation''\<rparr>]"

definition ctx_scope :: "context_row \<Rightarrow> string" where
  "ctx_scope c = ctx_model c @ '' para '' @ ctx_purpose c"

definition anomaly_ids_of :: "hypothesis list \<Rightarrow> string list" where
  "anomaly_ids_of hs = sort (remdups (concat (map (\<lambda>h. map uuid_str (hyp_anomaly_ids h)) hs)))"

fun join :: "string \<Rightarrow> string list \<Rightarrow> string" where
  "join sep [] = []"
| "join sep [x] = x"
| "join sep (x # y # ys) = x @ sep @ join sep (y # ys)"

definition descriptions_of :: "hypothesis list \<Rightarrow> string" where
  "descriptions_of hs = join ''; '' (map hyp_description hs)"

definition fill_rule :: "context_row \<Rightarrow> hypothesis list \<Rightarrow> islot \<Rightarrow> piece" where
  "fill_rule ctx hs s = (case s of ITxt t \<Rightarrow> Lit t | IScope \<Rightarrow> PStr (ctx_scope ctx)
     | IContextId \<Rightarrow> PStr (uuid_str (ctx_id ctx)) | IN \<Rightarrow> PInt (int (length hs))
     | IAnomalyIds \<Rightarrow> PStr (join '', '' (anomaly_ids_of hs)) | IDescriptions \<Rightarrow> PStr (descriptions_of hs))"

definition build_insight_create :: "(piece \<Rightarrow> string) \<Rightarrow> datetime \<Rightarrow> insight_rule \<Rightarrow> uuid \<Rightarrow> context_row \<Rightarrow>
    hypothesis list \<Rightarrow> insight_create" where
  "build_insight_create fmt now rule tenant ctx hs =
     \<lparr>ic_tenant = tenant, ic_context = ctx_id ctx, ic_hypothesis_ids = map hyp_id hs,
      ic_description = render fmt (map (fill_rule ctx hs) (ir_description rule)),
      ic_prior = render fmt (map (fill_rule ctx hs) (ir_prior rule)),
      ic_update = JObj [(''frame'', JStr (ir_frame rule)), (''context_id'', JStr (uuid_str (ctx_id ctx))),
        (''scope'', JStr (ctx_scope ctx)), (''hypothesis_ids'', JArr (map (\<lambda>h. JStr (uuid_str (hyp_id h))) hs)),
        (''anomaly_ids'', JArr (map JStr (anomaly_ids_of hs)))],
      ic_generated_at = now\<rparr>"

section \<open>Generator (generator.py)\<close>

text \<open>The contexts of the anomalies of one hypothesis.\<close>

definition hypothesis_contexts :: "anomaly list \<Rightarrow> hypothesis \<Rightarrow> uuid list" where
  "hypothesis_contexts anomalies h =
     remdups (map an_context (filter (\<lambda>a. an_id a \<in> set (hyp_anomaly_ids h)) anomalies))"

definition active_context :: "hypothesis list \<Rightarrow> anomaly list \<Rightarrow> context_row list \<Rightarrow> (uuid \<times> context_row) list" where
  "active_context hs anomalies contexts =
     (let ids = set (concat (map hyp_anomaly_ids hs));
          ctx_by_anomaly = dict_of (map (\<lambda>a. (an_id a, an_context a)) (filter (\<lambda>a. an_id a \<in> ids) anomalies))
      in dict_of (map (\<lambda>c. (ctx_id c, c))
           (filter (\<lambda>c. ctx_active c \<and> ctx_id c \<in> snd ` set ctx_by_anomaly) contexts)))"

definition competitive_frames :: "hypothesis list \<Rightarrow> anomaly list \<Rightarrow> context_row list \<Rightarrow>
    (context_row \<times> hypothesis list) list" where
  "competitive_frames hs anomalies contexts =
     (let active = active_context hs anomalies contexts
      in if active = [] then []
         else let pairs = concat (map (\<lambda>h. map (\<lambda>c. (c, h))
                    (filter (\<lambda>c. map_of active c \<noteq> None) (hypothesis_contexts anomalies h))) hs);
                  by_context = map (\<lambda>(c, ps). (c, map snd ps)) (group_by fst pairs)
              in List.map_filter (\<lambda>(c, grouped).
                    if length grouped \<ge> 2 then map_option (\<lambda>ctx. (ctx, grouped)) (map_of active c) else None)
                   by_context)"

definition generate_insights :: "(piece \<Rightarrow> string) \<Rightarrow> datetime \<Rightarrow> uuid \<Rightarrow> hypothesis list \<Rightarrow> anomaly list \<Rightarrow>
    context_row list \<Rightarrow> insight_rule list \<Rightarrow> insight_create list" where
  "generate_insights fmt now tenant hs anomalies contexts rules =
     concat (map (\<lambda>(ctx, grouped).
        map (\<lambda>rule. build_insight_create fmt now rule tenant ctx (sort_key hyp_id grouped))
          (filter (\<lambda>rule. length grouped \<ge> ir_min_hypotheses rule) rules))
       (competitive_frames hs anomalies contexts))"

section \<open>Identity (insight.py) and the cycle (service.py)\<close>

definition insight_id :: "uuid5 \<Rightarrow> uuid \<Rightarrow> uuid \<Rightarrow> uuid list \<Rightarrow> string \<Rightarrow> uuid" where
  "insight_id uuid5 tenant context hyps descr =
     uuid5 131 (uuid_str tenant @ '':'' @ uuid_str context @ '':'' @ ordered_ids hyps @ '':'' @ descr)"

definition build_insight :: "uuid5 \<Rightarrow> insight_create \<Rightarrow> insight" where
  "build_insight uuid5 c =
     \<lparr>ins_id = insight_id uuid5 (ic_tenant c) (ic_context c) (ic_hypothesis_ids c) (ic_description c),
      ins_tenant = ic_tenant c, ins_context = ic_context c, ins_hypothesis_ids = ic_hypothesis_ids c,
      ins_description = ic_description c, ins_prior = ic_prior c, ins_update = ic_update c,
      ins_generated_at = ic_generated_at c\<rparr>"

record insight_service =
  is_insights :: "insight list"
  is_total :: nat
  is_duplicates :: nat
  is_non_competitive :: nat
  is_errors :: nat
  is_by_frame :: "string \<Rightarrow> nat"
  is_last_run_at :: "datetime option"

definition all_hypotheses :: "uuid \<Rightarrow> hypothesis list \<Rightarrow> hypothesis list" where
  "all_hypotheses tenant t = sort_key hyp_generated_at (filter (\<lambda>h. hyp_tenant h = tenant) t)"

text \<open>\<open>list_hypotheses\<close> reads a page; its callers without a page take the first 500 rows.\<close>

definition list_hypotheses :: "nat \<Rightarrow> nat \<Rightarrow> uuid \<Rightarrow> hypothesis list \<Rightarrow> hypothesis list" where
  "list_hypotheses limit offset tenant t = take limit (drop offset (all_hypotheses tenant t))"

definition insight_frame :: "insight \<Rightarrow> string" where
  "insight_frame i = (case ins_update i of JObj d \<Rightarrow> (case get d ''frame'' of JStr f \<Rightarrow> f | _ \<Rightarrow> ''unknown'') | _ \<Rightarrow> ''unknown'')"

definition restructure_tenant :: "uuid5 \<Rightarrow> (piece \<Rightarrow> string) \<Rightarrow> (insight \<Rightarrow> bool) \<Rightarrow> datetime \<Rightarrow> hypothesis list \<Rightarrow>
    anomaly list \<Rightarrow> context_row list \<Rightarrow> uuid \<Rightarrow> insight_service \<Rightarrow> insight_service" where
  "restructure_tenant uuid5 fmt accepts now hyp_table an_table ctx_table tenant s =
     (let creations = generate_insights fmt now tenant (list_hypotheses 500 0 tenant hyp_table)
            (list_anomalies tenant an_table) (list_contexts tenant ctx_table) INSIGHT_RULE_LIBRARY
      in if creations = [] then s\<lparr>is_non_competitive := is_non_competitive s + 1\<rparr>
         else case save_each ins_id accepts (map (build_insight uuid5) creations) (is_insights s) of
           (ok, t, ins, dup) \<Rightarrow>
             s\<lparr>is_insights := t, is_total := is_total s + length ins, is_duplicates := is_duplicates s + dup,
               is_errors := is_errors s + (if ok then 0 else 1),
               is_by_frame := add_counts insight_frame ins (is_by_frame s)\<rparr>)"

definition run_restructure_cycle :: "uuid5 \<Rightarrow> (piece \<Rightarrow> string) \<Rightarrow> (insight \<Rightarrow> bool) \<Rightarrow> datetime \<Rightarrow> uuid list \<Rightarrow>
    hypothesis list \<Rightarrow> anomaly list \<Rightarrow> context_row list \<Rightarrow> insight_service \<Rightarrow> insight_service" where
  "run_restructure_cycle uuid5 fmt accepts now tenants hyp_table an_table ctx_table s =
     (fold (restructure_tenant uuid5 fmt accepts now hyp_table an_table ctx_table) tenants s)
       \<lparr>is_last_run_at := Some now\<rparr>"

section \<open>Frames\<close>

lemma dict_of_keys_nonempty: "map_of (dict_of kvs) k = Some v \<Longrightarrow> (k, v) \<in> set kvs"
  unfolding map_of_dict_of by (auto dest: map_of_SomeD)

lemma active_context_mem:
  assumes "map_of (active_context hs an ctxs) i = Some c"
  shows "c \<in> set ctxs \<and> ctx_active c \<and> ctx_id c = i"
  using dict_of_keys_nonempty [OF assms [unfolded active_context_def Let_def]] by auto

lemma hypothesis_contexts_mem: "c \<in> set (hypothesis_contexts an h) \<longleftrightarrow>
    (\<exists>a \<in> set an. an_id a \<in> set (hyp_anomaly_ids h) \<and> an_context a = c)"
  by (auto simp: hypothesis_contexts_def)

text \<open>A frame: an active context with at least two hypotheses, all with an anomaly in it.\<close>

lemma competitive_frames_mem:
  assumes "(ctx, grouped) \<in> set (competitive_frames hs an ctxs)"
  shows "ctx \<in> set ctxs \<and> ctx_active ctx \<and> 2 \<le> length grouped \<and>
     (\<forall>h \<in> set grouped. h \<in> set hs \<and> (\<exists>a \<in> set an. an_id a \<in> set (hyp_anomaly_ids h) \<and> an_context a = ctx_id ctx))"
proof -
  let ?A = "active_context hs an ctxs"
  let ?P = "concat (map (\<lambda>h. map (\<lambda>c. (c, h)) (filter (\<lambda>c. map_of ?A c \<noteq> None) (hypothesis_contexts an h))) hs)"
  obtain c ps where g: "(c, ps) \<in> set (group_by fst ?P)" "grouped = map snd ps" "2 \<le> length grouped"
      "map_of ?A c = Some ctx"
    using assms by (auto simp: competitive_frames_def Let_def List.map_filter_def split: if_splits)
  have "ps = filter (\<lambda>x. fst x = c) ?P" using g(1) unfolding group_by_mem by blast
  then have "h \<in> set hs \<and> c \<in> set (hypothesis_contexts an h)" if "h \<in> set grouped" for h
    using that unfolding g(2) by auto
  then show ?thesis using active_context_mem [OF g(4)] g(3) unfolding hypothesis_contexts_mem by blast
qed

text \<open>
  Insight is never forced: whatever is generated restructures an Active Context of the input
  under at least two hypotheses of the input, each of which explains an anomaly of that context,
  and lists them in the order of their identities.
\<close>

theorem insight_needs_competition:
  assumes "i \<in> set (generate_insights fmt now tenant hs an ctxs INSIGHT_RULE_LIBRARY)"
  shows "\<exists>ctx \<in> set ctxs. \<exists>grouped. ctx_active ctx \<and> ic_context i = ctx_id ctx \<and> ic_tenant i = tenant \<and>
     2 \<le> length grouped \<and> ic_hypothesis_ids i = sort (map hyp_id grouped) \<and>
     (\<forall>h \<in> set grouped. h \<in> set hs \<and> (\<exists>a \<in> set an. an_id a \<in> set (hyp_anomaly_ids h) \<and> an_context a = ctx_id ctx))"
proof -
  obtain ctx grouped rule where g: "(ctx, grouped) \<in> set (competitive_frames hs an ctxs)"
      "i = build_insight_create fmt now rule tenant ctx (sort_key hyp_id grouped)"
    using assms by (auto simp: generate_insights_def)
  have "map hyp_id (sort_key hyp_id grouped) = sort (map hyp_id grouped)"
    by (rule properties_for_sort [symmetric]) simp_all
  then have "ic_hypothesis_ids i = sort (map hyp_id grouped)"
    by (simp add: g(2) build_insight_create_def)
  then show ?thesis using competitive_frames_mem [OF g(1)] g(2)
    by (intro bexI [of _ ctx] exI [of _ grouped]) (auto simp: build_insight_create_def)
qed

definition ex_hyp :: "uuid \<Rightarrow> uuid \<Rightarrow> hypothesis" where
  "ex_hyp i a = \<lparr>hyp_id = i, hyp_tenant = 7, hyp_anomaly_ids = [a], hyp_pattern_ids = [], hyp_description = ''h'',
     hyp_consequences = [''c''], hyp_falsification = ''f'', hyp_coherence = 1/2, hyp_status = ''candidate'',
     hyp_generated_at = 0\<rparr>"

theorem insight_needs_competition_witness:
  "\<exists>i. generate_insights (\<lambda>_. []) 0 7 [ex_hyp 9 3, ex_hyp 8 3] [ex_anomaly 3] [ex_activation 1 0] INSIGHT_RULE_LIBRARY = [i] \<and>
     ic_context i = 1"
proof -
  let ?gen = "generate_insights (\<lambda>_. []) 0 7 [ex_hyp 9 3, ex_hyp 8 3] [ex_anomaly 3] [ex_activation 1 0] INSIGHT_RULE_LIBRARY"
  have act: "ctx_active (ex_activation 1 0)" by (simp add: ex_activation_def)
  have f: "competitive_frames [ex_hyp 9 3, ex_hyp 8 3] [ex_anomaly 3] [ex_activation 1 0] =
      [(ex_activation 1 0, [ex_hyp 9 3, ex_hyp 8 3])]"
    by (simp add: competitive_frames_def active_context_def hypothesis_contexts_def Let_def dict_of_def
        group_by_def List.map_filter_def ex_hyp_def ex_anomaly_def act)
  obtain i where i: "?gen = [i]" by (simp add: generate_insights_def f INSIGHT_RULE_LIBRARY_def)
  have "i \<in> set ?gen" by (simp add: i)
  from insight_needs_competition [OF this] have "ic_context i = 1" by auto
  then show ?thesis using i by blast
qed

end
