(* ===== verification/Calibration.thy ===== *)
theory Calibration
  imports Insight_Generation Organizer
begin

text \<open>
  The Calibrate capability: the calibration model of \<open>libs/cognitive_core/calibration_model.py\<close>,
  the learning history of \<open>libs/learning/learning_loop.py\<close>, the calibrator and the calibration cycle
  of \<open>apps/services/confidence-service/src\<close>, and the identity of \<open>libs/learning/confidence.py\<close>.
  Floats are reals. The evidence of a scope, a hash set in the code, is listed in the order of the
  contexts; nothing computed from it depends on the order.
\<close>

section \<open>Calibration model (calibration_model.py)\<close>

record calibration_params =
  alpha :: real
  bins :: int
  prior_L0 :: real

definition default_params :: calibration_params where
  "default_params = \<lparr>alpha = 1/2, bins = 10, prior_L0 = 0\<rparr>"

definition QUALITY_CLASS_RANGES :: "(string \<times> real \<times> real) list" where
  "QUALITY_CLASS_RANGES = [(''Q1'', 3/4, 1), (''Q2'', 1/2, 3/4), (''Q3'', 1/4, 1/2), (''Q4'', 0, 1/4)]"

definition quality_class_to_weight :: "string \<Rightarrow> real result" where
  "quality_class_to_weight qc = (case map_of QUALITY_CLASS_RANGES qc of
       None \<Rightarrow> Inl (InvalidQualityClassError qc)
     | Some (low, high) \<Rightarrow> Inr ((low + high) / 2))"

definition sigmoid :: "real \<Rightarrow> real" where
  "sigmoid L = 1 / (1 + exp (- L))"

definition evidential_support :: "real list \<Rightarrow> int list \<Rightarrow> real \<Rightarrow> real result" where
  "evidential_support ws es L0 =
     (if length ws \<noteq> length es then Inl (ValueError ''zip() argument lengths differ'')
      else Inr (sigmoid (L0 + sum_list (map2 (\<lambda>w e. w * of_int e) ws es))))"

record constraints =
  c_explains :: "string list"
  c_contradicts :: "string list"
  c_coherent_with :: "string list"
  c_incoherent_with :: "string list"

definition explanatory_coherence :: "string list \<Rightarrow> constraints \<Rightarrow> real" where
  "explanatory_coherence ev c =
     (let sc = set ev; ex = set (c_explains c); co = set (c_contradicts c)
      in if sc = {} then 1/2
         else (let positive = card (ex \<inter> sc) + card (set (c_coherent_with c));
                   negative = card (co \<inter> sc) + card (set (c_incoherent_with c));
                   tot = positive + negative + card (sc - (ex \<union> co))
               in if tot = 0 then 1/2 else max 0 (min 1 (of_nat positive / of_nat tot))))"

definition brier_score :: "real list \<Rightarrow> int list \<Rightarrow> real result" where
  "brier_score preds outs =
     (if preds = [] then Inr 0
      else if length preds \<noteq> length outs then Inl (ValueError ''zip() argument lengths differ'')
      else Inr (sum_list (map2 (\<lambda>p x. (p - of_int x)\<^sup>2) preds outs) / of_nat (length preds)))"

definition in_bin :: "nat \<Rightarrow> nat \<Rightarrow> real \<Rightarrow> bool" where
  "in_bin M m p \<longleftrightarrow> (let lower = of_nat m / of_nat M; upper = of_nat (m + 1) / of_nat M
     in lower \<le> p \<and> (p < upper \<or> (m = M - 1 \<and> p \<le> upper)))"

text \<open>One turn of the loop over the bins: the contribution of bin \<open>m\<close>.\<close>

definition bin_gap :: "real list \<Rightarrow> int list \<Rightarrow> nat \<Rightarrow> nat \<Rightarrow> real result" where
  "bin_gap preds outs M m =
     (let bin_preds = filter (in_bin M m) preds
      in if bin_preds = [] then Inr 0
         else if length preds \<noteq> length outs then Inl (ValueError ''zip() argument lengths differ'')
         else (let bin_outs = map snd (filter (\<lambda>(p, _). in_bin M m p) (zip preds outs));
                   acc = of_int (sum_list bin_outs) / of_nat (length bin_outs);
                   conf = sum_list bin_preds / of_nat (length bin_preds)
               in Inr (of_nat (length bin_preds) / of_nat (length preds) * \<bar>acc - conf\<bar>)))"

definition ece_score :: "real list \<Rightarrow> int list \<Rightarrow> int \<Rightarrow> real result" where
  "ece_score preds outs M =
     (if preds = [] then Inr 0
      else if M = 0 then Inl ZeroDivisionError
      else and_then (traverse (bin_gap preds outs (nat M)) [0..<nat M]) (\<lambda>gs. Inr (sum_list gs)))"

definition final_confidence :: "real \<Rightarrow> real \<Rightarrow> real \<Rightarrow> real \<Rightarrow> real result" where
  "final_confidence S C ECE a =
     (if \<not> (0 \<le> S \<and> S \<le> 1) then Inl (InvalidInputRangeError ''S'')
      else if \<not> (0 \<le> C \<and> C \<le> 1) then Inl (InvalidInputRangeError ''C'')
      else if \<not> (0 \<le> ECE \<and> ECE \<le> 1) then Inl (InvalidInputRangeError ''ECE'')
      else if \<not> (0 \<le> a \<and> a \<le> 1) then Inl (InvalidInputRangeError ''alpha'')
      else Inr (max 0 (min 1 ((a * S + (1 - a) * C) * (1 - ECE)))))"

section \<open>Learning history (learning_loop.py)\<close>

definition to_binary :: "json \<Rightarrow> int option" where
  "to_binary v = (case v of
       JBool b \<Rightarrow> Some (if b then 1 else 0)
     | JInt n \<Rightarrow> Some (if n \<noteq> 0 then 1 else 0)
     | JFloat x \<Rightarrow> Some (if x \<noteq> 0 then 1 else 0)
     | JStr s \<Rightarrow> (let low = lower (strip s)
          in if low \<in> {''true'', ''success'', ''ok'', ''yes'', ''1''} then Some 1
             else if low \<in> {''false'', ''failure'', ''fail'', ''no'', ''0'', []} then Some 0 else None)
     | _ \<Rightarrow> None)"

definition actual_by_metric :: "(json \<Rightarrow> string) \<Rightarrow> dict list \<Rightarrow> (string \<times> dict) list" where
  "actual_by_metric str_of actuals =
     dict_of (List.map_filter (\<lambda>ao. let metric = get ao ''verifiable_by''
        in if metric = JNull then None else Some (py_str str_of metric, ao)) actuals)"

text \<open>The body of the loop over the expected outcomes: \<open>None\<close> for \<open>continue\<close>, else whether it was correct.\<close>

definition outcome_correct :: "(json \<Rightarrow> string) \<Rightarrow> (string \<times> dict) list \<Rightarrow> dict \<Rightarrow> bool option" where
  "outcome_correct str_of by_metric eo =
     (let metric = get eo ''verifiable_by''
      in if metric = JNull then None
         else case map_of by_metric (py_str str_of metric) of None \<Rightarrow> None
           | Some actual \<Rightarrow>
               (let raw_pred = get_default eo ''predictiction'' (get_default eo ''prediction'' (JStr []));
                    pred = (case float_or_none raw_pred of None \<Rightarrow> 0 | Some x \<Rightarrow> x);
                    predicted_positive = (pred \<ge> 1/2)
                in case to_binary (get actual ''value'') of None \<Rightarrow> None
                   | Some b \<Rightarrow> Some ((predicted_positive \<and> b = 1) \<or> (\<not> predicted_positive \<and> b = 0))))"

definition compute_outcome_signal :: "(json \<Rightarrow> string) \<Rightarrow> decision \<Rightarrow> int option" where
  "compute_outcome_signal str_of d =
     (case dec_actual d of None \<Rightarrow> None
      | Some actuals \<Rightarrow>
          if dec_outcome_status d = ''pending'' \<or> actuals = [] \<or> dec_expected d = [] then None
          else (let verdicts = List.map_filter (outcome_correct str_of (actual_by_metric str_of actuals)) (dec_expected d);
                    corroborated = length (filter id verdicts);
                    contradicted = length (filter Not verdicts)
                in if corroborated + contradicted = 0 then None
                   else Some (if corroborated > contradicted then 1 else 0)))"

record learning_signal =
  ls_score :: real
  ls_outcome :: int
  ls_decision :: uuid
  ls_tenant :: uuid

record learning_history =
  lh_tenant :: uuid
  lh_total :: nat
  lh_pairs :: "learning_signal list"
  lh_ece :: "real option"
  lh_calibration :: "real option"

definition learning_pairs :: "(json \<Rightarrow> string) \<Rightarrow> uuid \<Rightarrow> decision list \<Rightarrow> confidence list \<Rightarrow> learning_signal list" where
  "learning_pairs str_of tenant decisions scores =
     (let by_id = dict_of (map (\<lambda>c. (conf_id c, c)) scores)
      in List.map_filter (\<lambda>d. case compute_outcome_signal str_of d of None \<Rightarrow> None
           | Some outcome \<Rightarrow> (case map_of by_id (dec_confidence d) of None \<Rightarrow> None
               | Some c \<Rightarrow> Some \<lparr>ls_score = conf_score c, ls_outcome = outcome, ls_decision = dec_id d,
                   ls_tenant = tenant\<rparr>)) decisions)"

definition build_learning_history :: "(json \<Rightarrow> string) \<Rightarrow> uuid \<Rightarrow> decision list \<Rightarrow> confidence list \<Rightarrow> learning_history result" where
  "build_learning_history str_of tenant decisions scores =
     (let pairs = learning_pairs str_of tenant decisions scores
      in if length pairs \<ge> 2
         then and_then (ece_score (map ls_score pairs) (map ls_outcome pairs) (bins default_params)) (\<lambda>e0.
                (let ece = round_to 4 e0
                 in Inr \<lparr>lh_tenant = tenant, lh_total = length pairs, lh_pairs = pairs, lh_ece = Some ece,
                      lh_calibration = Some (round_to 4 (max 0 (min 1 (1 - ece))))\<rparr>))
         else Inr \<lparr>lh_tenant = tenant, lh_total = length pairs, lh_pairs = pairs, lh_ece = None, lh_calibration = None\<rparr>)"

section \<open>Calibrator (calibrator.py)\<close>

definition sign :: "string \<Rightarrow> constraints \<Rightarrow> int" where
  "sign typ c = (if typ \<in> set (c_explains c) then 1 else if typ \<in> set (c_contradicts c) then - 1 else 0)"

definition evidential_support_score :: "evidence list \<Rightarrow> constraints \<Rightarrow> real \<Rightarrow> real result" where
  "evidential_support_score ev c L0 =
     (let relevant = filter (\<lambda>e. sign (ev_type e) c \<noteq> 0) ev
      in and_then (traverse (\<lambda>e. quality_class_to_weight (quality_value (ev_quality e))) relevant) (\<lambda>ws.
           evidential_support ws (map (\<lambda>e. sign (ev_type e) c) relevant) L0))"

definition coherence_score :: "evidence list \<Rightarrow> constraints \<Rightarrow> real" where
  "coherence_score sc c = explanatory_coherence (map ev_type sc) c"

definition historical_calibration_factor :: "(real \<times> int) list option \<Rightarrow> int \<Rightarrow> (real \<times> real) result" where
  "historical_calibration_factor historical M =
     (case historical of None \<Rightarrow> Inr (1, 0)
      | Some [] \<Rightarrow> Inr (1, 0)
      | Some hs \<Rightarrow> and_then (ece_score (map fst hs) (map snd hs) M) (\<lambda>ece. Inr (max 0 (min 1 (1 - ece)), ece)))"

definition resolve_scope_evidence :: "hypothesis \<Rightarrow> anomaly list \<Rightarrow> context_row list \<Rightarrow> (uuid \<times> evidence) list \<Rightarrow> evidence list" where
  "resolve_scope_evidence h anomalies contexts evidence_by_id =
     (let ctx_ids = an_context ` set (filter (\<lambda>a. an_id a \<in> set (hyp_anomaly_ids h)) anomalies);
          ev_ids = remdups (concat (map ctx_evidence_ids (filter (\<lambda>c. ctx_id c \<in> ctx_ids) contexts)))
      in List.map_filter (map_of evidence_by_id) ev_ids)"

definition validate_confidence_evidence_scope :: "uuid list \<Rightarrow> uuid list \<Rightarrow> unit result" where
  "validate_confidence_evidence_scope confidence_ids hypothesis_ids =
     (case find (\<lambda>i. i \<notin> set hypothesis_ids) confidence_ids of
        None \<Rightarrow> Inr () | Some i \<Rightarrow> Inl (EvidenceScopeError i))"

fun join_pieces :: "fstring \<Rightarrow> fstring list \<Rightarrow> fstring" where
  "join_pieces sep [] = []"
| "join_pieces sep [x] = x"
| "join_pieces sep (x # y # ys) = x @ sep @ join_pieces sep (y # ys)"

definition weight_of :: "evidence \<Rightarrow> real result" where
  "weight_of e = quality_class_to_weight (quality_value (ev_quality e))"

definition justification :: "string \<Rightarrow> real \<Rightarrow> real \<Rightarrow> real \<Rightarrow> real \<Rightarrow> calibration_params \<Rightarrow> evidence list \<Rightarrow>
    evidence list \<Rightarrow> constraints \<Rightarrow> (real \<times> int) list option \<Rightarrow> fstring result" where
  "justification judgment S C ece hist params supporting opposing c historical =
     and_then (traverse weight_of supporting) (\<lambda>sw. and_then (traverse weight_of opposing) (\<lambda>ow.
     and_then (final_confidence S C ece (alpha params)) (\<lambda>c_final.
       (let support_desc = (if supporting = [] then [Lit ''ninguna'']
              else join_pieces [Lit '', ''] (map2 (\<lambda>e w. [PStr (ev_type e), Lit '' (Q'', PStr (quality_value (ev_quality e)),
                     Lit '', w='', PFixed 4 w, Lit '')'']) supporting sw));
            oppose_desc = (if opposing = [] then [Lit ''ninguna'']
              else join_pieces [Lit '', ''] (map (\<lambda>e. [PStr (ev_type e)]) opposing));
            history_desc = (case historical of None \<Rightarrow> [Lit ''sin historial de outcomes (primeros datos)''] | Some [] \<Rightarrow> [Lit ''sin historial de outcomes (primeros datos)'']
              | Some hs \<Rightarrow> [PInt (int (length hs)), Lit '' outcomes historicos'']);
            l_odds = prior_L0 params + sum_list sw - sum_list ow
        in Inr ([Lit ''Confidence calibrada para '', PRepr (take 120 judgment), Lit ''. Parametros fijos a priori (nunca tunificados): alpha='', PFixed 4 (alpha params), Lit '', M='', PInt (bins params),
              Lit '', L0='', PFixed 4 (prior_L0 params), Lit ''. S(H|E)='', PFixed 4 S, Lit '' (log-odds L='', PFixed 4 l_odds, Lit ''; apoya: ''] @ support_desc @
             [Lit ''; contradice: ''] @ oppose_desc @
             [Lit ''). C(H)='', PFixed 4 C, Lit '' (satisfaccion de constraints normalizada; explains='', PStrs (sort (c_explains c)), Lit '', contradicts='', PStrs (sort (c_contradicts c)),
              Lit ''). ECE='', PFixed 4 ece, Lit '' (''] @ history_desc @
             [Lit ''); historical_calibration=1-ECE='', PFixed 4 hist, Lit ''. C_final=['', PFixed 4 (alpha params), Lit ''*'', PFixed 4 S, Lit ''+'',
              PFixed 4 (1 - alpha params), Lit ''*'', PFixed 4 C, Lit '']*'', PFixed 4 hist, Lit ''='', PFixed 4 c_final,
              Lit ''. El factor de calibracion se mide solo de outcomes; nunca se ajusta para justificar una confianza particular.''])))))"

record confidence_create =
  cfc_tenant :: uuid
  cfc_target_type :: string
  cfc_target_id :: uuid
  cfc_support :: real
  cfc_coherence :: real
  cfc_historical :: real
  cfc_score :: real
  cfc_alpha :: real
  cfc_justification :: string
  cfc_error :: real
  cfc_evidence_ids :: "uuid list"

definition calibrate :: "(piece \<Rightarrow> string) \<Rightarrow> hypothesis \<Rightarrow> evidence list \<Rightarrow> evidence list \<Rightarrow> constraints \<Rightarrow>
    calibration_params \<Rightarrow> (real \<times> int) list option \<Rightarrow> confidence_create result" where
  "calibrate fmt h ev sc c params historical =
     (if ev = [] then Inl (ValueError ''evidence sequence must not be empty'')
      else if sc = [] then Inl (ValueError ''scope sequence must not be empty'')
      else if \<not> (0 \<le> alpha params \<and> alpha params \<le> 1) then Inl (ValueError ''params.alpha must be in [0, 1]'')
      else if bins params \<le> 0 then Inl (ValueError ''params.M must be positive'')
      else and_then (validate_confidence_evidence_scope (map ev_id ev) (map ev_id sc)) (\<lambda>_.
        and_then (evidential_support_score ev c (prior_L0 params)) (\<lambda>S.
        (let C = coherence_score sc c
         in and_then (historical_calibration_factor historical (bins params)) (\<lambda>(hist, ece).
            and_then (final_confidence S C ece (alpha params)) (\<lambda>c_final.
            and_then (justification (hyp_description h) S C ece hist params
                (filter (\<lambda>e. sign (ev_type e) c = 1) ev) (filter (\<lambda>e. sign (ev_type e) c = - 1) ev) c historical) (\<lambda>j.
              Inr \<lparr>cfc_tenant = hyp_tenant h, cfc_target_type = ''hypothesis'', cfc_target_id = hyp_id h,
                cfc_support = S, cfc_coherence = C, cfc_historical = hist, cfc_score = c_final,
                cfc_alpha = alpha params, cfc_justification = render fmt j, cfc_error = ece,
                cfc_evidence_ids = []\<rparr>)))))))"

section \<open>Identity and listing (confidence.py)\<close>

text \<open>\<open>pack\<close> is \<open>struct.pack("!d", .)\<close>; the parts are joined by a colon.\<close>

definition confidence_name :: "(real \<Rightarrow> string) \<Rightarrow> uuid \<Rightarrow> string \<Rightarrow> uuid \<Rightarrow> real \<Rightarrow> real \<Rightarrow> real \<Rightarrow> real \<Rightarrow>
    uuid list \<Rightarrow> string" where
  "confidence_name pack tenant target_type target S C hist a evs =
     join '':'' ([uuid_str tenant, target_type, uuid_str target, pack S, pack C, pack hist, pack a] @
       map uuid_str (sort evs))"

definition build_confidence :: "uuid5 \<Rightarrow> (real \<Rightarrow> string) \<Rightarrow> datetime \<Rightarrow> confidence_create \<Rightarrow> confidence" where
  "build_confidence uuid5 pack now c =
     \<lparr>conf_id = uuid5 128 (confidence_name pack (cfc_tenant c) (cfc_target_type c) (cfc_target_id c) (cfc_support c)
        (cfc_coherence c) (cfc_historical c) (cfc_alpha c) (cfc_evidence_ids c)),
      conf_tenant = cfc_tenant c, conf_target_type = cfc_target_type c, conf_target_id = cfc_target_id c,
      conf_support = cfc_support c, conf_coherence = cfc_coherence c, conf_historical = cfc_historical c,
      conf_score = cfc_score c, conf_alpha = cfc_alpha c, conf_justification = cfc_justification c,
      conf_error = cfc_error c, conf_evidence_ids = cfc_evidence_ids c, conf_computed_at = now\<rparr>"

definition list_confidence :: "uuid \<Rightarrow> nat \<Rightarrow> nat \<Rightarrow> confidence list \<Rightarrow> confidence list" where
  "list_confidence tenant limit offset t =
     take limit (drop offset (sort_key (\<lambda>c. (conf_computed_at c, conf_id c)) (filter (\<lambda>c. conf_tenant c = tenant) t)))"

section \<open>Calibration cycle (service.py)\<close>

record running_stats =
  st_count :: nat
  st_mean :: real
  st_m2 :: real

definition init_stats :: running_stats where
  "init_stats = \<lparr>st_count = 0, st_mean = 0, st_m2 = 0\<rparr>"

definition add_stat :: "real \<Rightarrow> running_stats \<Rightarrow> running_stats" where
  "add_stat v s =
     (let n = st_count s + 1; delta = v - st_mean s; m = st_mean s + delta / of_nat n
      in s\<lparr>st_count := n, st_mean := m, st_m2 := st_m2 s + delta * (v - m)\<rparr>)"

definition mean_value :: "running_stats \<Rightarrow> real" where
  "mean_value s = (if st_count s > 0 then st_mean s else 0)"

record confidence_service =
  fs_scores :: "confidence list"
  fs_params :: calibration_params
  fs_batch_size :: nat
  fs_total :: nat
  fs_duplicates :: nat
  fs_errors :: nat
  fs_by_target :: "string \<Rightarrow> nat"
  fs_confidence_stats :: running_stats
  fs_error_stats :: running_stats
  fs_last_run_at :: "datetime option"

definition persist_confidence :: "uuid5 \<Rightarrow> (real \<Rightarrow> string) \<Rightarrow> (confidence \<Rightarrow> bool) \<Rightarrow> datetime \<Rightarrow> confidence_create \<Rightarrow>
    confidence_service \<Rightarrow> unit result \<times> confidence_service" where
  "persist_confidence uuid5 pack accepts now create s =
     (let c = build_confidence uuid5 pack now create
      in if \<not> accepts c then (Inl (PassedThrough ''database''), s)
         else case insert_row conf_id c (fs_scores s) of
             (t, Some _) \<Rightarrow> (Inr (), s\<lparr>fs_scores := t, fs_total := fs_total s + 1,
                fs_by_target := (fs_by_target s)(conf_target_type c := fs_by_target s (conf_target_type c) + 1),
                fs_confidence_stats := add_stat (conf_score c) (fs_confidence_stats s),
                fs_error_stats := add_stat (conf_error c) (fs_error_stats s)\<rparr>)
           | (t, None) \<Rightarrow> (Inr (), s\<lparr>fs_scores := t, fs_duplicates := fs_duplicates s + 1\<rparr>))"

definition coherence_inputs :: "evidence list \<Rightarrow> constraints" where
  "coherence_inputs sc = \<lparr>c_explains = sort (remdups (map ev_type sc)), c_contradicts = [],
     c_coherent_with = [], c_incoherent_with = []\<rparr>"

record calibration_env =
  e_uuid5 :: uuid5
  e_pack :: "real \<Rightarrow> string"
  e_fmt :: "piece \<Rightarrow> string"
  e_accepts :: "confidence \<Rightarrow> bool"
  e_now :: datetime

text \<open>The loop over the hypotheses of one page: an exception leaves it.\<close>

fun calibrate_each :: "calibration_env \<Rightarrow> anomaly list \<Rightarrow> context_row list \<Rightarrow> evidence list \<Rightarrow> (real \<times> int) list option \<Rightarrow>
    hypothesis list \<Rightarrow> confidence_service \<Rightarrow> unit result \<times> confidence_service" where
  "calibrate_each env anomalies contexts ev historical [] s = (Inr (), s)"
| "calibrate_each env anomalies contexts ev historical (h # hs) s =
     (let sc = resolve_scope_evidence h anomalies contexts (dict_of (map (\<lambda>e. (ev_id e, e)) ev))
      in case calibrate (e_fmt env) h ev sc (coherence_inputs sc) (fs_params s) historical of
           Inl x \<Rightarrow> (Inl x, s)
         | Inr create \<Rightarrow>
             (case persist_confidence (e_uuid5 env) (e_pack env) (e_accepts env) (e_now env) create s of
                (Inl x, s1) \<Rightarrow> (Inl x, s1)
              | (Inr _, s1) \<Rightarrow> calibrate_each env anomalies contexts ev historical hs s1))"

text \<open>The loop over the pages; a page size of 0 reads an empty page and stops.\<close>

function calibrate_pages :: "nat \<Rightarrow> calibration_env \<Rightarrow> anomaly list \<Rightarrow> context_row list \<Rightarrow> evidence list \<Rightarrow>
    (real \<times> int) list option \<Rightarrow> hypothesis list \<Rightarrow> confidence_service \<Rightarrow> unit result \<times> confidence_service" where
  "calibrate_pages n env anomalies contexts ev historical hyps s =
     (if take n hyps = [] then (Inr (), s)
      else case calibrate_each env anomalies contexts ev historical (take n hyps) s of
          (Inl x, s1) \<Rightarrow> (Inl x, s1)
        | (Inr _, s1) \<Rightarrow> calibrate_pages n env anomalies contexts ev historical (drop n hyps) s1)"
  by pat_completeness auto
termination
  by (relation "measure (\<lambda>(n, env, an, cx, ev, hi, hyps, s). length hyps)") auto

definition learning_historical :: "(json \<Rightarrow> string) \<Rightarrow> bool \<Rightarrow> uuid \<Rightarrow> decision list option \<Rightarrow> confidence list \<Rightarrow>
    (real \<times> int) list option" where
  "learning_historical str_of history_up tenant decisions scores =
     (case decisions of None \<Rightarrow> None
      | Some ds \<Rightarrow>
          if \<not> history_up then None
          else (let withs = filter (\<lambda>d. dec_actual d \<noteq> None \<and> dec_actual d \<noteq> Some []) (list_decisions tenant ds)
                in if withs = [] then None
                   else case build_learning_history str_of tenant withs (list_confidence tenant 500 0 scores) of
                          Inl _ \<Rightarrow> None
                        | Inr h \<Rightarrow> if lh_calibration h = None then None
                                   else Some (map (\<lambda>p. (ls_score p, ls_outcome p)) (lh_pairs h))))"

definition calibrate_tenant :: "(json \<Rightarrow> string) \<Rightarrow> bool \<Rightarrow> calibration_env \<Rightarrow> decision list option \<Rightarrow> hypothesis list \<Rightarrow>
    anomaly list \<Rightarrow> context_row list \<Rightarrow> evidence list \<Rightarrow> uuid \<Rightarrow> confidence_service \<Rightarrow> unit result \<times> confidence_service" where
  "calibrate_tenant str_of history_up env decisions hyp_table an_table ctx_table ev_table tenant s =
     calibrate_pages (fs_batch_size s) env (list_anomalies tenant an_table) (list_contexts tenant ctx_table)
       (list_evidence tenant ev_table) (learning_historical str_of history_up tenant decisions (fs_scores s))
       (all_hypotheses tenant hyp_table) s"

text \<open>\<open>gather(..., return_exceptions=True)\<close>: the exception of a tenant is dropped.\<close>

definition run_calibration_cycle :: "(json \<Rightarrow> string) \<Rightarrow> bool \<Rightarrow> calibration_env \<Rightarrow> decision list option \<Rightarrow> hypothesis list \<Rightarrow>
    anomaly list \<Rightarrow> context_row list \<Rightarrow> evidence list \<Rightarrow> uuid list \<Rightarrow> confidence_service \<Rightarrow> confidence_service" where
  "run_calibration_cycle str_of history_up env decisions hyp_table an_table ctx_table ev_table tenants s =
     (fold (\<lambda>t s. snd (calibrate_tenant str_of history_up env decisions hyp_table an_table ctx_table ev_table t s)) tenants s)
       \<lparr>fs_last_run_at := Some (e_now env)\<rparr>"

section \<open>Bounds of the model\<close>

lemma quality_weights_agree: "quality_class_to_weight (quality_value q) = Inr (quality_weight q)"
  by (cases q) (simp_all add: quality_class_to_weight_def QUALITY_CLASS_RANGES_def quality_value_def quality_weight_def)

lemma weight_of_eq [simp]: "weight_of e = Inr (quality_weight (ev_quality e))"
  by (simp add: weight_of_def quality_weights_agree)

lemma traverse_weights [simp]: "traverse weight_of es = Inr (map (\<lambda>e. quality_weight (ev_quality e)) es)"
  by (rule traverse_all_Inr) simp

lemma sigmoid_unit: "0 < sigmoid L \<and> sigmoid L < 1"
  by (simp add: sigmoid_def add_pos_pos)

lemma sigmoid_mono: "L \<le> L' \<Longrightarrow> sigmoid L \<le> sigmoid L'"
  unfolding sigmoid_def by (intro divide_left_mono mult_pos_pos add_pos_pos) auto

lemma support_score_eq:
  "\<exists>L. evidential_support_score ev c L0 = Inr (sigmoid L)"
  by (simp add: evidential_support_score_def Let_def quality_weights_agree
      traverse_all_Inr [of _ _ "\<lambda>e. quality_weight (ev_quality e)"] evidential_support_def)
    (rule exI, rule refl)

lemma coherence_unit_interval: "0 \<le> explanatory_coherence ev c \<and> explanatory_coherence ev c \<le> 1"
  by (simp add: explanatory_coherence_def Let_def)

text \<open>The evidence of a scope explains itself: with the inputs of the service the coherence is 1.\<close>

lemma coherence_of_own_scope: "sc \<noteq> [] \<Longrightarrow> coherence_score sc (coherence_inputs sc) = 1"
  by (simp add: coherence_score_def explanatory_coherence_def coherence_inputs_def Let_def)

lemma average_unit:
  assumes "xs \<noteq> []" and "\<And>x. x \<in> set xs \<Longrightarrow> 0 \<le> x \<and> x \<le> (1 :: real)"
  shows "0 \<le> sum_list xs / of_nat (length xs) \<and> sum_list xs / of_nat (length xs) \<le> 1"
proof -
  have "0 \<le> sum_list xs \<and> sum_list xs \<le> of_nat (length xs)"
    using assms(2) by (induction xs) (fastforce intro: add_mono)+
  then show ?thesis using assms(1) by (simp add: divide_le_eq)
qed

lemma average_unit_int:
  assumes "xs \<noteq> []" and "\<And>x. x \<in> set xs \<Longrightarrow> 0 \<le> x \<and> x \<le> (1 :: int)"
  shows "0 \<le> real_of_int (sum_list xs) / of_nat (length xs) \<and> real_of_int (sum_list xs) / of_nat (length xs) \<le> 1"
proof -
  have "sum_list (map real_of_int xs) = real_of_int (sum_list xs)" by (induction xs) auto
  moreover have "0 \<le> y \<and> y \<le> 1" if "y \<in> set (map real_of_int xs)" for y
    using that assms(2) by auto
  ultimately show ?thesis using assms(1) average_unit [of "map real_of_int xs"] by simp
qed

lemma zip_filter_fst: "length ps = length os \<Longrightarrow>
    map fst (filter (\<lambda>(p, _). P p) (zip ps os)) = filter P ps"
  by (induction ps os rule: list_induct2) auto

lemma bin_gap_bounds:
  assumes "length preds = length outs" and "\<And>p. p \<in> set preds \<Longrightarrow> 0 \<le> p \<and> p \<le> 1"
    and "\<And>x. x \<in> set outs \<Longrightarrow> 0 \<le> x \<and> x \<le> 1"
  shows "\<exists>g. bin_gap preds outs M m = Inr g \<and> 0 \<le> g \<and>
    g \<le> of_nat (length (filter (in_bin M m) preds)) / of_nat (length preds)"
proof (cases "filter (in_bin M m) preds = []")
  case True
  then show ?thesis by (simp add: bin_gap_def)
next
  case False
  let ?bp = "filter (in_bin M m) preds"
  let ?bo = "map snd (filter (\<lambda>(p, _). in_bin M m p) (zip preds outs))"
  have len: "length ?bo = length ?bp" using zip_filter_fst [OF assms(1), of "in_bin M m"] by (metis length_map)
  have u: "0 \<le> x \<and> x \<le> 1" if x: "x \<in> set ?bo" for x
  proof -
    have "x \<in> set outs" using x by (auto dest: set_zip_rightD)
    then show ?thesis using assms(3) [of x] by simp
  qed
  have "?bo \<noteq> []" using False len by (metis length_0_conv)
  then have acc: "0 \<le> real_of_int (sum_list ?bo) / of_nat (length ?bo) \<and>
      real_of_int (sum_list ?bo) / of_nat (length ?bo) \<le> 1" by (rule average_unit_int [OF _ u])
  have conf: "0 \<le> sum_list ?bp / of_nat (length ?bp) \<and> sum_list ?bp / of_nat (length ?bp) \<le> 1"
    using False assms(2) by (intro average_unit) auto
  let ?d = "\<bar>real_of_int (sum_list ?bo) / of_nat (length ?bo) - sum_list ?bp / of_nat (length ?bp)\<bar>"
  have d: "0 \<le> ?d" "?d \<le> 1" using acc conf by linarith+
  have g: "bin_gap preds outs M m = Inr (of_nat (length ?bp) / of_nat (length preds) * ?d)"
    unfolding bin_gap_def Let_def using False assms(1) by (simp only: if_False not_True_eq_False simp_thms)
  have "of_nat (length ?bp) / of_nat (length preds) * ?d \<le> of_nat (length ?bp) / of_nat (length preds) * 1"
    using d(2) by (intro mult_left_mono) auto
  moreover have "0 \<le> of_nat (length ?bp) / of_nat (length preds) * ?d" using d(1) by simp
  ultimately show ?thesis using g by (simp only: mult_1_right) blast
qed

lemma bins_disjoint:
  assumes "in_bin M m p" and "in_bin M m' p" and "m < M" and "m' < M"
  shows "m = m'"
proof -
  have *: "\<not> m < m'" if "in_bin M m p" "in_bin M m' p" "m < M" "m' < M" for m m'
  proof
    assume lt: "m < m'"
    then have "p < of_nat (m + 1) / of_nat M" using that by (auto simp: in_bin_def Let_def)
    moreover have "of_nat (m + 1) / of_nat M \<le> (of_nat m' / of_nat M :: real)"
      using lt that by (intro divide_right_mono) auto
    moreover have "of_nat m' / of_nat M \<le> p" using that by (simp add: in_bin_def Let_def)
    ultimately show False by linarith
  qed
  show ?thesis using * [OF assms] * [OF assms(2,1,4,3)] by linarith
qed

lemma one_bin: "length (filter (\<lambda>m. in_bin M m p) [0..<M]) \<le> 1"
proof -
  have "card (set (filter (\<lambda>m. in_bin M m p) [0..<M])) \<le> 1"
    using bins_disjoint [of M _ p] by (intro card_le_Suc0_iff_eq [THEN iffD2, unfolded One_nat_def [symmetric]]) auto
  then show ?thesis by (metis distinct_card distinct_filter distinct_upt)
qed

lemma bins_cover: "sum_list (map (\<lambda>m. length (filter (in_bin M m) preds)) [0..<M]) \<le> length preds"
proof (induction preds)
  case (Cons p ps)
  have "sum_list (map (\<lambda>m. length (filter (in_bin M m) (p # ps))) ms) =
      length (filter (\<lambda>m. in_bin M m p) ms) + sum_list (map (\<lambda>m. length (filter (in_bin M m) ps)) ms)" for ms
    by (induction ms) auto
  then show ?case using Cons one_bin [of M p] by simp
qed simp

lemma ece_unit:
  assumes "length preds = length outs" and "\<And>p. p \<in> set preds \<Longrightarrow> 0 \<le> p \<and> p \<le> 1"
    and "\<And>x. x \<in> set outs \<Longrightarrow> 0 \<le> x \<and> x \<le> 1" and "0 < M"
  shows "\<exists>e. ece_score preds outs M = Inr e \<and> 0 \<le> e \<and> e \<le> 1"
proof (cases "preds = []")
  case True
  then show ?thesis by (simp add: ece_score_def)
next
  case False
  define g where "g = (\<lambda>m. SOME x. bin_gap preds outs (nat M) m = Inr x)"
  let ?n = "real (length preds)" and ?c = "\<lambda>m. length (filter (in_bin (nat M) m) preds)"
  have g: "bin_gap preds outs (nat M) m = Inr (g m) \<and> 0 \<le> g m \<and> g m \<le> of_nat (?c m) / ?n" for m
  proof -
    obtain x where "bin_gap preds outs (nat M) m = Inr x" "0 \<le> x" "x \<le> of_nat (?c m) / ?n"
      using bin_gap_bounds [OF assms(1-3), of "nat M" m] by blast
    then show ?thesis by (simp add: g_def)
  qed
  have e: "ece_score preds outs M = Inr (sum_list (map g [0..<nat M]))"
    using False assms(4) traverse_all_Inr [of "[0..<nat M]" "bin_gap preds outs (nat M)" g] g
    by (simp add: ece_score_def)
  have "sum_list (map g ms) \<le> of_nat (sum_list (map ?c ms)) / ?n" for ms
    using g by (induction ms) (auto simp: add_divide_distrib intro: add_mono)
  moreover have "real (sum_list (map ?c [0..<nat M])) / ?n \<le> 1"
    using bins_cover [of "nat M" preds] False by (simp add: divide_le_eq)
  moreover have "0 \<le> sum_list (map g ms)" for ms using g by (induction ms) auto
  ultimately show ?thesis using e order_trans by blast
qed

lemma final_confidence_unit:
  assumes "0 \<le> S" "S \<le> 1" "0 \<le> C" "C \<le> 1" "0 \<le> e" "e \<le> 1" "0 \<le> a" "a \<le> 1"
  shows "\<exists>f. final_confidence S C e a = Inr f \<and> 0 \<le> f \<and> f \<le> 1 - e"
proof -
  have "0 \<le> a * S + (1 - a) * C" using assms by simp
  moreover have "a * S + (1 - a) * C \<le> 1" using convex_bound_le [of S 1 C a "1 - a"] assms by simp
  ultimately have "(a * S + (1 - a) * C) * (1 - e) \<le> 1 - e" "0 \<le> (a * S + (1 - a) * C) * (1 - e)"
    using assms mult_right_mono [of "a * S + (1 - a) * C" 1 "1 - e"] by simp_all
  then show ?thesis using assms by (simp add: final_confidence_def)
qed

lemma calibrate_range:
  assumes "ev \<noteq> []" and "ev_id ` set ev \<subseteq> ev_id ` set sc" and "0 \<le> alpha params" and "alpha params \<le> 1"
    and "0 < bins params"
    and "\<And>p x. (p, x) \<in> set hs \<Longrightarrow> 0 \<le> p \<and> p \<le> 1 \<and> (x = 0 \<or> x = 1)"
  shows "\<exists>c. calibrate fmt h ev sc cs params (Some hs) = Inr c \<and> cfc_tenant c = hyp_tenant h \<and>
     cfc_target_id c = hyp_id h \<and> 0 \<le> cfc_support c \<and> cfc_support c \<le> 1 \<and> 0 \<le> cfc_coherence c \<and>
     cfc_coherence c \<le> 1 \<and> 0 \<le> cfc_error c \<and> cfc_error c \<le> 1 \<and> cfc_historical c = 1 - cfc_error c \<and>
     0 \<le> cfc_score c \<and> cfc_score c \<le> cfc_historical c"
proof -
  have sc: "sc \<noteq> []" using assms(1,2) by auto
  have "find (\<lambda>i. i \<notin> set (map ev_id sc)) (map ev_id ev) = None"
    using assms(2) by (auto simp: find_None_iff)
  then have v: "validate_confidence_evidence_scope (map ev_id ev) (map ev_id sc) = Inr ()"
    by (simp add: validate_confidence_evidence_scope_def)
  obtain L where S: "evidential_support_score ev cs (prior_L0 params) = Inr (sigmoid L)"
    using support_score_eq by blast
  have C: "0 \<le> coherence_score sc cs" "coherence_score sc cs \<le> 1"
    using coherence_unit_interval by (simp_all add: coherence_score_def)
  obtain e where e: "historical_calibration_factor (Some hs) (bins params) = Inr (1 - e, e)" "0 \<le> e" "e \<le> 1"
  proof (cases hs)
    case Nil
    then show ?thesis using that [of 0] by (simp add: historical_calibration_factor_def)
  next
    case (Cons p ps)
    obtain e where "ece_score (map fst hs) (map snd hs) (bins params) = Inr e" "0 \<le> e" "e \<le> 1"
      using ece_unit [of "map fst hs" "map snd hs" "bins params"] assms(5,6) by fastforce
    then show ?thesis using that [of e] Cons by (simp add: historical_calibration_factor_def)
  qed
  have su: "0 \<le> sigmoid L" "sigmoid L \<le> 1" using sigmoid_unit [of L] by auto
  obtain f where f: "final_confidence (sigmoid L) (coherence_score sc cs) e (alpha params) = Inr f"
      "0 \<le> f" "f \<le> 1 - e"
    using final_confidence_unit [OF su C e(2,3) assms(3,4)] by blast
  show ?thesis using assms(1,3,4,5) sc su C e(2,3) f(2,3)
    by (simp add: calibrate_def v S Let_def e(1) f(1) justification_def)
qed

lemma calibrate_scope:
  assumes "calibrate fmt h ev sc cs params historical = Inr c"
  shows "ev_id ` set ev \<subseteq> ev_id ` set sc \<and> ev \<noteq> [] \<and> cfc_evidence_ids c = []"
proof -
  have v: "validate_confidence_evidence_scope (map ev_id ev) (map ev_id sc) = Inr ()" and n: "ev \<noteq> []"
      and i: "cfc_evidence_ids c = []"
    using assms unfolding calibrate_def Let_def
    by (auto simp: and_then_eq_Inr split: if_splits)
  have "find (\<lambda>i. i \<notin> set (map ev_id sc)) (map ev_id ev) = None"
    using v by (auto simp: validate_confidence_evidence_scope_def split: option.splits)
  then show ?thesis using n i by (auto simp: find_None_iff)
qed


lemma calibrate_outside_scope:
  assumes "e \<in> set ev" and "ev_id e \<notin> ev_id ` set sc"
  shows "\<exists>x. calibrate fmt h ev sc cs params historical = Inl x"
  using calibrate_scope [of fmt h ev sc cs params historical] assms
  by (cases "calibrate fmt h ev sc cs params historical") auto

text \<open>Welford's update keeps the arithmetic mean.\<close>

lemma fold_add_stat:
  "st_count (fold add_stat vs s) = st_count s + length vs \<and>
   st_mean (fold add_stat vs s) * of_nat (st_count s + length vs) = st_mean s * of_nat (st_count s) + sum_list vs"
proof (induction vs arbitrary: s)
  case (Cons v vs)
  have m: "st_mean (add_stat v s) * of_nat (st_count s + 1) = st_mean s * of_nat (st_count s) + v"
    by (simp add: add_stat_def Let_def field_simps)
  have c: "st_count (add_stat v s) = st_count s + 1" by (simp add: add_stat_def Let_def)
  show ?case using Cons.IH [of "add_stat v s"] m c by (simp add: algebra_simps)
qed simp

lemma outcome_correct_prose:
  assumes "float_or_none (get_default eo ''predictiction'' (get_default eo ''prediction'' (JStr []))) = None"
    and "outcome_correct str_of m eo = Some b"
  shows "\<exists>k ao. map_of m k = Some ao \<and> to_binary (get ao ''value'') = Some (if b then 0 else 1)"
proof -
  have bin: "to_binary v = Some x \<Longrightarrow> x = 0 \<or> x = 1" for v x
    by (auto simp: to_binary_def Let_def split: json.splits if_splits)
  from assms show ?thesis
    by (auto simp: outcome_correct_def Let_def split: if_splits option.splits dest: bin)
qed

lemma map_of_actual_by_metric: "map_of (actual_by_metric str_of actuals) k = Some ao \<Longrightarrow> ao \<in> set actuals"
  unfolding actual_by_metric_def map_of_dict_of
  by (auto simp: List.map_filter_def Let_def split: if_splits dest!: map_of_SomeD)

text \<open>The verdicts of a decision, one for each expected outcome that can be judged.\<close>

abbreviation verdicts :: "(json \<Rightarrow> string) \<Rightarrow> decision \<Rightarrow> dict list \<Rightarrow> bool list" where
  "verdicts str_of d actuals \<equiv> List.map_filter (outcome_correct str_of (actual_by_metric str_of actuals)) (dec_expected d)"

lemma verdicts_uniform:
  assumes "\<And>eo. eo \<in> set (dec_expected d) \<Longrightarrow>
      float_or_none (get_default eo ''predictiction'' (get_default eo ''prediction'' (JStr []))) = None"
    and "\<And>ao. ao \<in> set actuals \<Longrightarrow> to_binary (get ao ''value'') \<noteq> Some (if b then 0 else 1)"
  shows "b \<notin> set (verdicts str_of d actuals)"
proof
  assume "b \<in> set (verdicts str_of d actuals)"
  then obtain eo where eo: "eo \<in> set (dec_expected d)"
      "outcome_correct str_of (actual_by_metric str_of actuals) eo = Some b"
    by (auto simp: List.map_filter_def)
  from outcome_correct_prose [OF assms(1) [OF eo(1)] eo(2)] assms(2) map_of_actual_by_metric show False by blast
qed

section \<open>Properties\<close>



text \<open>
  C39. Scope isolation: a confidence is only produced from evidence of the scope of its hypothesis;
  but the row it creates names no evidence at all.
\<close>

theorem calibrate_scope_isolated:
  assumes "calibrate fmt h ev sc cs params historical = Inr c"
  shows "ev_id ` set ev \<subseteq> ev_id ` set sc \<and> ev \<noteq> [] \<and> cfc_evidence_ids c = []"
  using assms by (rule calibrate_scope)

theorem calibrate_scope_isolated_witness:
  "\<exists>c. calibrate (\<lambda>_. []) (ex_hyp 9 3) [ex_evidence 1 ''t'' 0] [ex_evidence 1 ''t'' 0]
     (coherence_inputs [ex_evidence 1 ''t'' 0]) default_params (Some []) = Inr c \<and> cfc_evidence_ids c = []"
proof -
  obtain c where c: "calibrate (\<lambda>_. []) (ex_hyp 9 3) [ex_evidence 1 ''t'' 0] [ex_evidence 1 ''t'' 0]
     (coherence_inputs [ex_evidence 1 ''t'' 0]) default_params (Some []) = Inr c"
    using calibrate_range [of "[ex_evidence 1 ''t'' 0]" "[ex_evidence 1 ''t'' 0]" default_params "[]"
      "\<lambda>_. []" "ex_hyp 9 3" "coherence_inputs [ex_evidence 1 ''t'' 0]"]
    by (auto simp: default_params_def)
  from calibrate_scope_isolated [OF c] c show ?thesis by blast
qed

text \<open>
  One piece of evidence stalls its tenant: the cycle passes all the evidence of the tenant with each
  hypothesis, so as soon as one piece lies outside the scope of the oldest hypothesis, calibration
  of the tenant raises at once and its state, the error counter included, stays as it was.
\<close>

theorem stray_evidence_stalls_tenant:
  assumes "all_hypotheses tenant hyps = h # hs" and "0 < fs_batch_size s"
    and "e \<in> set (list_evidence tenant evs)"
    and "ev_id e \<notin> ev_id ` set (resolve_scope_evidence h (list_anomalies tenant ans) (list_contexts tenant cxs)
           (dict_of (map (\<lambda>e. (ev_id e, e)) (list_evidence tenant evs))))"
  shows "snd (calibrate_tenant str_of up env decisions hyps ans cxs evs tenant s) = s"
proof -
  obtain k where k: "fs_batch_size s = Suc k" using assms(2) by (cases "fs_batch_size s") auto
  note stop = calibrate_outside_scope [OF assms(3,4)]
  obtain x where "calibrate (e_fmt env) h (list_evidence tenant evs) (resolve_scope_evidence h (list_anomalies tenant ans)
      (list_contexts tenant cxs) (dict_of (map (\<lambda>e. (ev_id e, e)) (list_evidence tenant evs))))
      (coherence_inputs (resolve_scope_evidence h (list_anomalies tenant ans) (list_contexts tenant cxs)
        (dict_of (map (\<lambda>e. (ev_id e, e)) (list_evidence tenant evs))))) (fs_params s)
      (learning_historical str_of up tenant decisions (fs_scores s)) = Inl x" using stop by blast
  then show ?thesis
    unfolding calibrate_tenant_def assms(1) k by (subst calibrate_pages.simps) (simp add: Let_def)
qed

definition ex_env :: calibration_env where
  "ex_env = \<lparr>e_uuid5 = (\<lambda>n s. 1), e_pack = (\<lambda>x. []), e_fmt = (\<lambda>p. []), e_accepts = (\<lambda>c. True), e_now = 0\<rparr>"

definition ex_calibrator :: confidence_service where
  "ex_calibrator = \<lparr>fs_scores = [], fs_params = default_params, fs_batch_size = 500, fs_total = 0, fs_duplicates = 0,
     fs_errors = 0, fs_by_target = (\<lambda>t. 0), fs_confidence_stats = init_stats, fs_error_stats = init_stats,
     fs_last_run_at = None\<rparr>"

theorem stray_evidence_stalls_tenant_witness:
  "snd (calibrate_tenant (\<lambda>_. []) True ex_env None [ex_hyp 9 3] [] [] [ex_evidence 1 ''t'' 0] 7 ex_calibrator) = ex_calibrator"
proof (rule stray_evidence_stalls_tenant)
  show "all_hypotheses 7 [ex_hyp 9 3] = ex_hyp 9 3 # []" by (simp add: all_hypotheses_def ex_hyp_def)
  show "0 < fs_batch_size ex_calibrator" by (simp add: ex_calibrator_def)
  show "ex_evidence 1 ''t'' 0 \<in> set (list_evidence 7 [ex_evidence 1 ''t'' 0])"
    by (simp add: list_evidence_def ex_evidence_def)
  show "ev_id (ex_evidence 1 ''t'' 0) \<notin> ev_id ` set (resolve_scope_evidence (ex_hyp 9 3) (list_anomalies 7 [])
      (list_contexts 7 []) (dict_of (map (\<lambda>e. (ev_id e, e)) (list_evidence 7 [ex_evidence 1 ''t'' 0]))))"
    by (simp add: resolve_scope_evidence_def list_anomalies_def list_contexts_def List.map_filter_def)
qed

text \<open>
  Prose predictions invert the learning signal: when no prediction of a decision reads as a number,
  outcomes that never failed are never learned as a success, and outcomes that never
  succeeded are never learned as a failure.
\<close>

theorem prose_predictions_invert:
  assumes "\<And>eo. eo \<in> set (dec_expected d) \<Longrightarrow>
      float_or_none (get_default eo ''predictiction'' (get_default eo ''prediction'' (JStr []))) = None"
    and "dec_actual d = Some actuals"
  shows "((\<forall>ao\<in>set actuals. to_binary (get ao ''value'') \<noteq> Some 0) \<longrightarrow> compute_outcome_signal str_of d \<noteq> Some 1) \<and>
     ((\<forall>ao\<in>set actuals. to_binary (get ao ''value'') \<noteq> Some 1) \<longrightarrow> compute_outcome_signal str_of d \<noteq> Some 0)"
proof (intro conjI impI)
  assume "\<forall>ao\<in>set actuals. to_binary (get ao ''value'') \<noteq> Some 0"
  then have "True \<notin> set (verdicts str_of d actuals)" using assms(1) by (intro verdicts_uniform) auto
  then have "filter id (verdicts str_of d actuals) = []" by (auto simp: filter_empty_conv)
  then show "compute_outcome_signal str_of d \<noteq> Some 1" using assms(2)
    by (simp add: compute_outcome_signal_def Let_def split: if_splits)
next
  assume "\<forall>ao\<in>set actuals. to_binary (get ao ''value'') \<noteq> Some 1"
  then have "False \<notin> set (verdicts str_of d actuals)" using assms(1) by (intro verdicts_uniform) auto
  then have "\<not> Not x" if "x \<in> set (verdicts str_of d actuals)" for x using that by (cases x) auto
  then have n: "filter Not (verdicts str_of d actuals) = []" by (intro filter_False) blast
  show "compute_outcome_signal str_of d \<noteq> Some 0" using assms(2) n
    by (auto simp: compute_outcome_signal_def Let_def simp del: filter_empty_conv)
qed

definition ex_prose :: decision where
  "ex_prose = \<lparr>dec_id = 1, dec_tenant = 7, dec_recommendation = 2, dec_confidence = 3, dec_authority = 4,
     dec_commitment = [], dec_expected = [[(''prediction'', JStr ''baja''), (''verifiable_by'', JStr ''disco'')]],
     dec_risk = ''low'', dec_status = ''completed'', dec_committed_at = 0, dec_executed_at = None,
     dec_actual = Some [[(''verifiable_by'', JStr ''disco''), (''value'', JStr ''success'')]],
     dec_outcome_status = ''observed''\<rparr>"

theorem prose_predictions_invert_witness: "compute_outcome_signal (\<lambda>_. []) ex_prose \<noteq> Some 1"
proof -
  have bin: "to_binary (JStr ''success'') = Some 1" by (simp add: to_binary_def Let_def) code_simp
  have prose: "float_or_none (JStr ''baja'') = None" by code_simp
  have "float_or_none (get_default eo ''predictiction'' (get_default eo ''prediction'' (JStr []))) = None"
    if "eo \<in> set (dec_expected ex_prose)" for eo
    using that prose by (simp add: ex_prose_def get_default_def)
  moreover have "dec_actual ex_prose = Some [[(''verifiable_by'', JStr ''disco''), (''value'', JStr ''success'')]]"
    by (simp add: ex_prose_def)
  ultimately show ?thesis using prose_predictions_invert [of ex_prose _ "\<lambda>_. []"] bin by (simp add: get_def)
qed

text \<open>
  The running statistics agree with their definition: after any sequence of scores, Welford's mean is
  the arithmetic mean of the scores, and 0 when there are none.
\<close>

theorem running_mean_exact: "mean_value (fold add_stat vs init_stats) = sum_list vs / of_nat (length vs)"
proof (cases "vs = []")
  case False
  have i: "st_count init_stats = 0" "st_mean init_stats = 0" by (simp_all add: init_stats_def)
  show ?thesis using False fold_add_stat [of vs init_stats] i by (simp add: mean_value_def field_simps)
qed (simp add: mean_value_def init_stats_def)

end
