(* ===== verification/Formulator.thy ===== *)
theory Formulator
  imports Action_Space Calibration
begin

text \<open>
  The Propose capability: the tables and the formulator of
  \<open>apps/services/recommendation-service/src/formulator/formulator.py\<close>, the identity of a recommendation
  of \<open>libs/action/recommendation.py\<close> and the cycle of the service. Tables are association lists; texts
  are rendered with \<open>render fmt\<close>.
\<close>

section \<open>Tables (formulator.py)\<close>

definition MENTAL_MODEL_DOMAINS :: "(string \<times> string) list" where
  "MENTAL_MODEL_DOMAINS =
    [(''resource_pressure'', ''storage''),
     (''service_failure'', ''compute''),
     (''auth_compromise'', ''security''),
     (''capacity_risk'', ''backup''),
     (''connectivity_degradation'', ''network'')]"

definition PURPOSE_DOMAINS :: "(string \<times> string) list" where
  "PURPOSE_DOMAINS =
    [(''security_posture'', ''security''),
     (''capacity_management'', ''storage''),
     (''infrastructure_health'', ''observability'')]"

definition LEADING_ACTION_BY_DOMAIN :: "(string \<times> string) list" where
  "LEADING_ACTION_BY_DOMAIN =
    [(''storage'', ''expand_volume''),
     (''compute'', ''restart_service''),
     (''security'', ''reset_credentials''),
     (''backup'', ''change_target''),
     (''network'', ''modify_acl''),
     (''observability'', ''adjust_threshold'')]"

definition ACTION_DESCRIPTION_TEMPLATES :: "(string \<times> string) list" where
  "ACTION_DESCRIPTION_TEMPLATES =
    [(''expand_volume'', ''Expandir el volumen objetivo del almacenamiento antes del umbral proyectado, o mover los datos a un destino con espacio disponible.''),
     (''add_disk'', ''A'' @ [CHR 0xF1] @ ''adir un disco adicional al volumen objetivo antes del umbral proyectado.''),
     (''move_data'', ''Mover los datos del volumen objetivo a un destino con espacio disponible.''),
     (''compress'', ''Comprimir los datos m'' @ [CHR 0xE1] @ ''s antiguos del volumen objetivo para liberar espacio.''),
     (''purge_old'', ''Purgar los datos fuera del periodo de retenci'' @ [CHR 0xF3] @ ''n documentado del volumen objetivo.''),
     (''change_retention'', ''Ajustar el periodo de retenci'' @ [CHR 0xF3] @ ''n del volumen objetivo al espacio disponible.''),
     (''enable_dedup'', ''Habilitar la deduplicaci'' @ [CHR 0xF3] @ ''n en el volumen objetivo para reducir el consumo.''),
     (''scale_up'', ''Aumentar la capacidad de c'' @ [CHR 0xF3] @ ''mputo del servicio afectado dentro del l'' @ [CHR 0xED] @ ''mite autorizado.''),
     (''scale_out'', ''A'' @ [CHR 0xF1] @ ''adir una instancia adicional del servicio afectado dentro del l'' @ [CHR 0xED] @ ''mite autorizado.''),
     (''restart_service'', ''Reiniciar el servicio afectado para restablecer su estado activo dentro de la ventana de mantenimiento.''),
     (''migrate_vm'', ''Migrar la VM afectada a un host con capacidad disponible.''),
     (''adjust_limits'', ''Ajustar los l'' @ [CHR 0xED] @ ''mites de recursos del servicio afectado a su patr'' @ [CHR 0xF3] @ ''n observado.''),
     (''tune_kernel'', ''Ajustar los par'' @ [CHR 0xE1] @ ''metros de kernel del host afectado al patr'' @ [CHR 0xF3] @ ''n observado.''),
     (''reset_credentials'', ''Resetear las credenciales de la cuenta afectada y monitorizar el acceso durante 7 d'' @ [CHR 0xED] @ ''as.''),
     (''revoke_sessions'', ''Revocar las sesiones activas de la cuenta afectada.''),
     (''enable_mfa'', ''Habilitar un segundo factor de autenticaci'' @ [CHR 0xF3] @ ''n en la cuenta afectada.''),
     (''block_ip'', ''Bloquear el origen de los intentos de autenticaci'' @ [CHR 0xF3] @ ''n concentrados.''),
     (''isolate_host'', ''Aislar el host afectado de la red productiva hasta confirmar el alcance del incidente.''),
     (''rotate_keys'', ''Rotar las claves del servicio afectado e invalidar las anteriores.''),
     (''retry_job'', ''Reintentar el job de backup fallido dentro de la ventana de ejecuci'' @ [CHR 0xF3] @ ''n.''),
     (''change_schedule'', ''Cambiar el horario del job de backup a la ventana documentada.''),
     (''change_target'', ''Cambiar el destino de backup al arreglo alternativo con espacio disponible.''),
     (''verify_integrity'', ''Verificar la integridad de los backups del objetivo.''),
     (''test_restore'', ''Ejecutar una restauraci'' @ [CHR 0xF3] @ ''n de prueba sobre los backups del objetivo.''),
     (''block_port'', ''Bloquear el puerto afectado en los hosts del alcance.''),
     (''modify_acl'', ''Modificar las reglas de acceso del alcance para restringir el tr'' @ [CHR 0xE1] @ ''fico.''),
     (''reroute_traffic'', ''Reenrutar el tr'' @ [CHR 0xE1] @ ''fico del alcance por la ruta alterna.''),
     (''enable_ddos_protection'', ''Habilitar la protecci'' @ [CHR 0xF3] @ ''n DDoS en el servicio afectado.''),
     (''increase_log_level'', ''Aumentar el nivel de registro del servicio afectado para observabilidad.''),
     (''add_metric'', ''A'' @ [CHR 0xF1] @ ''adir la m'' @ [CHR 0xE9] @ ''trica faltante al seguimiento del servicio afectado.''),
     (''create_alert_rule'', ''Crear una regla de alerta sobre la m'' @ [CHR 0xE9] @ ''trica afectada.''),
     (''adjust_threshold'', ''Ajustar el umbral de alerta de la m'' @ [CHR 0xE9] @ ''trica afectada al nuevo patr'' @ [CHR 0xF3] @ ''n.'')]"

definition CONSEQUENCE_TEMPLATES :: "(string \<times> string list) list" where
  "CONSEQUENCE_TEMPLATES =
    [(''expand_volume'', [''El espacio libre del volumen objetivo permanecer'' @ [CHR 0xE1] @ '' por encima del umbral documentado durante los pr'' @ [CHR 0xF3] @ ''ximos 90 d'' @ [CHR 0xED] @ ''as.'', ''No habr'' @ [CHR 0xE1] @ '' fallos de escritura por capacidad en el volumen objetivo en los pr'' @ [CHR 0xF3] @ ''ximos 90 d'' @ [CHR 0xED] @ ''as.'']),
     (''add_disk'', [''El espacio libre del volumen objetivo permanecer'' @ [CHR 0xE1] @ '' por encima del umbral documentado tras a'' @ [CHR 0xF1] @ ''adir el disco.'']),
     (''move_data'', [''El volumen objetivo quedar'' @ [CHR 0xE1] @ '' con espacio libre por encima del umbral documentado.'']),
     (''compress'', [''El volumen de datos persistidos del objetivo se reducir'' @ [CHR 0xE1] @ '' tras la compresi'' @ [CHR 0xF3] @ ''n.'']),
     (''purge_old'', [''La purga liberar'' @ [CHR 0xE1] @ '' espacio en el volumen objetivo sin eliminar datos dentro del periodo de retenci'' @ [CHR 0xF3] @ ''n documentado.'']),
     (''change_retention'', [''El crecimiento persistido se mantendr'' @ [CHR 0xE1] @ '' dentro del espacio disponible del objetivo.'']),
     (''enable_dedup'', [''El consumo de almacenamiento del objetivo se reducir'' @ [CHR 0xE1] @ '' tras habilitar la deduplicaci'' @ [CHR 0xF3] @ ''n.'']),
     (''scale_up'', [''La capacidad de c'' @ [CHR 0xF3] @ ''mputo del servicio aumentar'' @ [CHR 0xE1] @ '' sin interrupci'' @ [CHR 0xF3] @ ''n del servicio.'']),
     (''scale_out'', [''La capacidad de c'' @ [CHR 0xF3] @ ''mputo del servicio aumentar'' @ [CHR 0xE1] @ '' con una instancia adicional.'']),
     (''restart_service'', [''El servicio volver'' @ [CHR 0xE1] @ '' al estado activo y dejar'' @ [CHR 0xE1] @ '' de registrar el error observado.'']),
     (''migrate_vm'', [''La VM afectada quedar'' @ [CHR 0xE1] @ '' ejecut'' @ [CHR 0xE1] @ ''ndose en un host con capacidad disponible.'']),
     (''adjust_limits'', [''El consumo de recursos del servicio se mantendr'' @ [CHR 0xE1] @ '' dentro de los nuevos l'' @ [CHR 0xED] @ ''mites.'']),
     (''tune_kernel'', [''El comportamiento del host afectado converger'' @ [CHR 0xE1] @ '' al patr'' @ [CHR 0xF3] @ ''n documentado.'']),
     (''reset_credentials'', [''La cuenta afectada dejar'' @ [CHR 0xE1] @ '' de presentar autenticaciones fallidas concentradas durante los pr'' @ [CHR 0xF3] @ ''ximos 7 d'' @ [CHR 0xED] @ ''as.'']),
     (''revoke_sessions'', [''Las sesiones activas de la cuenta afectada quedar'' @ [CHR 0xE1] @ ''n revocadas.'']),
     (''enable_mfa'', [''Los intentos de autenticaci'' @ [CHR 0xF3] @ ''n de la cuenta requerir'' @ [CHR 0xE1] @ ''n un segundo factor.'']),
     (''block_ip'', [''El tr'' @ [CHR 0xE1] @ ''fico del origen acotado dejar'' @ [CHR 0xE1] @ '' de alcanzar el servicio afectado.'']),
     (''isolate_host'', [''El host afectado quedar'' @ [CHR 0xE1] @ '' aislado de la red productiva.'']),
     (''rotate_keys'', [''Las credenciales rotadas invalidar'' @ [CHR 0xE1] @ ''n el uso de las anteriores.'']),
     (''retry_job'', [''El job de backup completar'' @ [CHR 0xE1] @ '' la siguiente ejecuci'' @ [CHR 0xF3] @ ''n dentro de la ventana.'']),
     (''change_schedule'', [''El job de backup se ejecutar'' @ [CHR 0xE1] @ '' dentro de la nueva ventana programada.'']),
     (''change_target'', [''El destino alternativo mantendr'' @ [CHR 0xE1] @ '' espacio libre por encima del umbral documentado durante los pr'' @ [CHR 0xF3] @ ''ximos 90 d'' @ [CHR 0xED] @ ''as.'', ''No habr'' @ [CHR 0xE1] @ '' fallos de backup por capacidad en el nuevo destino en los pr'' @ [CHR 0xF3] @ ''ximos 90 d'' @ [CHR 0xED] @ ''as.'']),
     (''verify_integrity'', [''La integridad de los backups del objetivo quedar'' @ [CHR 0xE1] @ '' verificada sin restaurar datos.'']),
     (''test_restore'', [''Una restauraci'' @ [CHR 0xF3] @ ''n de prueba sobre los backups del objetivo completar'' @ [CHR 0xE1] @ '' sin errores.'']),
     (''block_port'', [''El tr'' @ [CHR 0xE1] @ ''fico hacia el puerto afectado quedar'' @ [CHR 0xE1] @ '' bloqueado en los hosts del alcance.'']),
     (''modify_acl'', [''Las reglas de acceso actualizadas restringir'' @ [CHR 0xE1] @ ''n el tr'' @ [CHR 0xE1] @ ''fico al rango documentado.'']),
     (''reroute_traffic'', [''El tr'' @ [CHR 0xE1] @ ''fico del alcance circular'' @ [CHR 0xE1] @ '' por la ruta alterna documentada.'']),
     (''enable_ddos_protection'', [''El servicio afectado quedar'' @ [CHR 0xE1] @ '' cubierto por la protecci'' @ [CHR 0xF3] @ ''n DDoS configurada.'']),
     (''increase_log_level'', [''El registro del servicio afectado capturar'' @ [CHR 0xE1] @ '' el nivel de detalle requerido.'']),
     (''add_metric'', [''La nueva m'' @ [CHR 0xE9] @ ''trica quedar'' @ [CHR 0xE1] @ '' disponible para su seguimiento continuo.'']),
     (''create_alert_rule'', [''Las alertas se disparar'' @ [CHR 0xE1] @ ''n cuando la m'' @ [CHR 0xE9] @ ''trica afectada supere el umbral configurado.'']),
     (''adjust_threshold'', [''Las alertas de la m'' @ [CHR 0xE9] @ ''trica afectada quedar'' @ [CHR 0xE1] @ ''n calibradas al nuevo umbral.''])]"

definition CONSIDERATION_RATIONALE :: "(string \<times> string) list" where
  "CONSIDERATION_RATIONALE =
    [(''expand_volume'', ''Ampl'' @ [CHR 0xED] @ ''a la capacidad del objetivo existente sin cambiar el destino.''),
     (''add_disk'', ''A'' @ [CHR 0xF1] @ ''ade capacidad f'' @ [CHR 0xED] @ ''sica al objetivo sin migrar datos.''),
     (''move_data'', ''Libera el objetivo moviendo datos a un destino con espacio.''),
     (''compress'', ''Reduce el volumen persistido con un coste inmediato bajo.''),
     (''purge_old'', ''Libera espacio eliminando datos fuera del periodo de retenci'' @ [CHR 0xF3] @ ''n.''),
     (''change_retention'', ''Ajusta el periodo de retenci'' @ [CHR 0xF3] @ ''n al espacio disponible.''),
     (''enable_dedup'', ''Reduce el consumo de almacenamiento del objetivo.''),
     (''scale_up'', ''Aumenta la capacidad del servicio existente.''),
     (''scale_out'', ''Distribuye la carga a'' @ [CHR 0xF1] @ ''adiendo instancias.''),
     (''restart_service'', ''Restablece el servicio afectado de forma inmediata.''),
     (''migrate_vm'', ''Traslada la VM a un host con capacidad.''),
     (''adjust_limits'', ''Ajusta los l'' @ [CHR 0xED] @ ''mites del servicio al patr'' @ [CHR 0xF3] @ ''n observado.''),
     (''tune_kernel'', ''Ajusta los par'' @ [CHR 0xE1] @ ''metros del host al patr'' @ [CHR 0xF3] @ ''n observado.''),
     (''reset_credentials'', ''Elimina el valor de las credenciales afectadas.''),
     (''revoke_sessions'', ''Invalida las sesiones activas de la cuenta afectada.''),
     (''enable_mfa'', ''Refuerza la autenticaci'' @ [CHR 0xF3] @ ''n de la cuenta afectada.''),
     (''block_ip'', ''Corta el tr'' @ [CHR 0xE1] @ ''fico del origen acotado.''),
     (''isolate_host'', ''Contiene el alcance del incidente aisl'' @ [CHR 0xE1] @ ''ndolo de la red productiva.''),
     (''rotate_keys'', ''Invalidan las claves potencialmente expuestas.''),
     (''retry_job'', ''Reintenta el job fallido en la misma ventana.''),
     (''change_schedule'', ''Mueve el job a la ventana documentada.''),
     (''change_target'', ''Dirige el backup a un destino con espacio disponible.''),
     (''verify_integrity'', ''Confirma la integridad de los backups sin restaurar.''),
     (''test_restore'', ''Valida la recuperaci'' @ [CHR 0xF3] @ ''n real de los backups.''),
     (''block_port'', ''Restringe el tr'' @ [CHR 0xE1] @ ''fico hacia el puerto afectado.''),
     (''modify_acl'', ''Ajusta el acceso del alcance al rango documentado.''),
     (''reroute_traffic'', ''Desv'' @ [CHR 0xED] @ ''a el tr'' @ [CHR 0xE1] @ ''fico por una ruta alterna.''),
     (''enable_ddos_protection'', ''Activa la protecci'' @ [CHR 0xF3] @ ''n DDoS sobre el servicio afectado.''),
     (''increase_log_level'', ''Aumenta el detalle de registro para diagn'' @ [CHR 0xF3] @ ''stico.''),
     (''add_metric'', ''Expone la m'' @ [CHR 0xE9] @ ''trica faltante para seguimiento.''),
     (''create_alert_rule'', ''Notifica cuando la m'' @ [CHR 0xE9] @ ''trica supere el umbral.''),
     (''adjust_threshold'', ''Calibra el umbral de alerta al patr'' @ [CHR 0xF3] @ ''n observado.'')]"

definition REJECTION_REASONS :: "(string \<times> string) list" where
  "REJECTION_REASONS =
    [(''expand_volume'', ''Requiere coordinaci'' @ [CHR 0xF3] @ ''n con el equipo de almacenamiento antes de ejecutarse.''),
     (''add_disk'', ''Depende de hardware disponible y de una ventana de mantenimiento mayor.''),
     (''move_data'', ''El movimiento de datos puede tardar m'' @ [CHR 0xE1] @ ''s que el alivio inmediato del objetivo.''),
     (''compress'', ''Puede no acompa'' @ [CHR 0xF1] @ ''ar el ritmo de crecimiento y demora el alivio inmediato.''),
     (''purge_old'', ''Riesgo de eliminar datos pr'' @ [CHR 0xF3] @ ''ximos al l'' @ [CHR 0xED] @ ''mite del periodo de retenci'' @ [CHR 0xF3] @ ''n documentado.''),
     (''change_retention'', ''Riesgo de incumplir la pol'' @ [CHR 0xED] @ ''tica de retenci'' @ [CHR 0xF3] @ ''n documentada.''),
     (''enable_dedup'', ''El beneficio depende del contenido y no es inmediato.''),
     (''scale_up'', ''Incrementa coste y no resuelve el desequilibrio subyacente.''),
     (''scale_out'', ''Mayor complejidad operativa y no aborda el estado del servicio.''),
     (''restart_service'', ''Provoca una interrupci'' @ [CHR 0xF3] @ ''n del servicio dentro de la ventana productiva.''),
     (''migrate_vm'', ''Implica un movimiento de mayor alcance y requiere ventana.''),
     (''adjust_limits'', ''Ajusta el s'' @ [CHR 0xED] @ ''ntoma sin abordar la causa de la presi'' @ [CHR 0xF3] @ ''n.''),
     (''tune_kernel'', ''Cambio a nivel de host con mayor superficie de riesgo.''),
     (''reset_credentials'', ''Requiere coordinaci'' @ [CHR 0xF3] @ ''n con el propietario de la cuenta antes de ejecutarse.''),
     (''revoke_sessions'', ''Puede interrumpir sesiones leg'' @ [CHR 0xED] @ ''timas en curso.''),
     (''enable_mfa'', ''Despliegue de mayor alcance y no es inmediato.''),
     (''block_ip'', ''Puede afectar tr'' @ [CHR 0xE1] @ ''fico leg'' @ [CHR 0xED] @ ''timo proveniente del mismo origen.''),
     (''isolate_host'', ''Impacto operativo mayor; solo se justifica si el compromiso se confirma.''),
     (''rotate_keys'', ''Requiere rotaci'' @ [CHR 0xF3] @ ''n coordinada con los sistemas dependientes.''),
     (''retry_job'', ''Reintentar sin corregir la causa puede repetir el fallo.''),
     (''change_schedule'', ''No libera capacidad si la causa es el destino.''),
     (''change_target'', ''Depende de que el arreglo alternativo est'' @ [CHR 0xE9] @ '' en l'' @ [CHR 0xED] @ ''nea.''),
     (''verify_integrity'', ''Verifica pero no previene el fallo de capacidad.''),
     (''test_restore'', ''Valida recuperaci'' @ [CHR 0xF3] @ ''n pero no resuelve la causa inmediata.''),
     (''block_port'', ''Puede cortar tr'' @ [CHR 0xE1] @ ''fico leg'' @ [CHR 0xED] @ ''timo hacia el puerto.''),
     (''modify_acl'', ''Cambia el plano de acceso y requiere revisi'' @ [CHR 0xF3] @ ''n de autorizaci'' @ [CHR 0xF3] @ ''n.''),
     (''reroute_traffic'', ''La ruta alterna debe verificarse antes de desviar tr'' @ [CHR 0xE1] @ ''fico.''),
     (''enable_ddos_protection'', ''Mitigaci'' @ [CHR 0xF3] @ ''n preventiva, no resuelve el incidente activo.''),
     (''increase_log_level'', ''Observa m'' @ [CHR 0xE1] @ ''s, no resuelve la causa.''),
     (''add_metric'', ''Expone m'' @ [CHR 0xE1] @ ''s datos, no resuelve la causa.''),
     (''create_alert_rule'', ''Notifica el problema, no lo mitiga.''),
     (''adjust_threshold'', ''Ajusta la se'' @ [CHR 0xF1] @ ''al de alerta sin abordar la causa.'')]"

section \<open>Formulator (formulator.py)\<close>

definition lookup_or :: "(string \<times> 'a) list \<Rightarrow> string \<Rightarrow> 'a \<Rightarrow> 'a" where
  "lookup_or table k v = (case map_of table k of None \<Rightarrow> v | Some x \<Rightarrow> x)"

definition resolve_domain :: "context_row \<Rightarrow> string option" where
  "resolve_domain c =
     (case map_of MENTAL_MODEL_DOMAINS (ctx_model c) of
        None \<Rightarrow> map_of PURPOSE_DOMAINS (ctx_purpose c) | Some d \<Rightarrow> Some d)"

definition select_action_space :: "action_space_entry list \<Rightarrow> string option \<Rightarrow> string \<Rightarrow> action_space_entry option" where
  "select_action_space spaces domain purpose =
     (case domain of None \<Rightarrow> None
      | Some d \<Rightarrow> find (\<lambda>e. as_domain e = d \<and> (as_purposes e = {} \<or> purpose \<in> as_purposes e)) spaces)"

definition resolve_active_context :: "hypothesis \<Rightarrow> anomaly list \<Rightarrow> context_row list \<Rightarrow> context_row option" where
  "resolve_active_context h anomalies contexts =
     (let ctx_ids = an_context ` {a \<in> set anomalies. an_id a \<in> set (hyp_anomaly_ids h)}
      in find (\<lambda>c. ctx_id c \<in> ctx_ids \<and> ctx_active c) contexts)"

definition validate_formulation :: "hypothesis \<Rightarrow> confidence \<Rightarrow> context_row \<Rightarrow> unit result" where
  "validate_formulation h c ctx =
     (if conf_target_type c \<noteq> ''hypothesis'' then Inl (ValueError ''confidence target_type must be hypothesis'')
      else if conf_target_id c \<noteq> hyp_id h
           then Inl (ValueError ''confidence must calibrate the leading hypothesis (target_id mismatch)'')
      else if conf_tenant c \<noteq> hyp_tenant h \<or> ctx_tenant ctx \<noteq> hyp_tenant h
           then Inl (ValueError ''tenant mismatch across hypothesis/confidence/context'')
      else Inr ())"

definition alternative_record :: "confidence \<Rightarrow> string \<Rightarrow> dict" where
  "alternative_record c action =
     [(''action'', JStr action),
      (''rationale'', JStr (lookup_or CONSIDERATION_RATIONALE action
         (''Opci'' @ [CHR 0xF3] @ ''n considerada dentro del action space expl'' @ [CHR 0xED] @ ''cito.''))),
      (''rejected_reason'', JStr (lookup_or REJECTION_REASONS action
         (''No elegida como acci'' @ [CHR 0xF3] @ ''n principal en esta formulaci'' @ [CHR 0xF3] @ ''n.''))),
      (''confidence'', JFloat (round_to 4 (conf_score c)))]"

definition rationale :: "hypothesis \<Rightarrow> confidence \<Rightarrow> context_row \<Rightarrow> action_space_entry \<Rightarrow> string \<Rightarrow> fstring" where
  "rationale h c ctx entry leading =
     (let joined = join ''; '' (hyp_consequences h);
          consequences = (if joined = [] then ''ninguna'' else joined)
      in [Lit (''Recomendaci'' @ [CHR 0xF3] @ ''n para el contexto activo ''), PRepr (ctx_model ctx), Lit ('' (prop'' @ [CHR 0xF3] @ ''sito ''), PRepr (ctx_purpose ctx),
          Lit ('', coherencia de activaci'' @ [CHR 0xF3] @ ''n ''), PFixed 4 (ctx_coherence ctx), Lit (''). Derivada de la hip'' @ [CHR 0xF3] @ ''tesis candidata ''),
          PUuid (hyp_id h), Lit '' - '', PRepr (hyp_description h), Lit '' - con consecuencias observables declaradas ('',
          PStr consequences, Lit ('') y criterio de falsificaci'' @ [CHR 0xF3] @ ''n ''), PRepr (hyp_falsification h), Lit ''. Confidence calibrada '',
          PFixed 4 (conf_score c), Lit '' (id '', PUuid (conf_id c), Lit ''): '', PStr (conf_justification c),
          Lit ('' Acci'' @ [CHR 0xF3] @ ''n propuesta ''), PRepr leading, Lit ('', elegida dentro del action space expl'' @ [CHR 0xED] @ ''cito ''), PRepr (as_id entry),
          Lit '' del dominio '', PRepr (as_domain entry), Lit ''. La propuesta es advisory y reversible: no se ejecuta nada (P6); '',
          Lit ''el compromiso y la autoridad residen en la Decision (Sprint 10).''])"

record recommendation_create =
  rc_tenant :: uuid
  rc_hypothesis :: uuid
  rc_insight :: "uuid option"
  rc_confidence_id :: uuid
  rc_action_description :: string
  rc_rationale :: string
  rc_consequences :: "string list"
  rc_alternatives :: "dict list"
  rc_score :: real
  rc_status :: string
  rc_proposed_at :: datetime

definition leading_action :: "action_space_entry \<Rightarrow> string \<Rightarrow> string list \<Rightarrow> string result" where
  "leading_action entry domain allowed =
     (case map_of LEADING_ACTION_BY_DOMAIN domain of
        Some a \<Rightarrow> if a \<in> as_actions entry then Inr a
                  else (case allowed of [] \<Rightarrow> Inl (PassedThrough ''IndexError'') | x # _ \<Rightarrow> Inr x)
      | None \<Rightarrow> (case allowed of [] \<Rightarrow> Inl (PassedThrough ''IndexError'') | x # _ \<Rightarrow> Inr x))"

text \<open>The score of the model class is constrained to the unit interval.\<close>

definition formulate :: "(piece \<Rightarrow> string) \<Rightarrow> datetime \<Rightarrow> hypothesis \<Rightarrow> confidence \<Rightarrow> context_row \<Rightarrow> action_space_entry \<Rightarrow>
    recommendation_create option result" where
  "formulate fmt now h c ctx entry =
     and_then (validate_formulation h c ctx) (\<lambda>_.
       case resolve_domain ctx of
         None \<Rightarrow> Inr None
       | Some domain \<Rightarrow>
           if domain \<noteq> as_domain entry then Inr None
           else if as_purposes entry \<noteq> {} \<and> ctx_purpose ctx \<notin> as_purposes entry then Inr None
           else let allowed = sorted_list_of_set (as_actions entry)
                in and_then (leading_action entry domain allowed) (\<lambda>leading.
                     if conf_score c < 0 \<or> conf_score c > 1 then Inl (PassedThrough ''ValidationError'')
                     else Inr (Some \<lparr>rc_tenant = hyp_tenant h, rc_hypothesis = hyp_id h, rc_insight = None,
                       rc_confidence_id = conf_id c,
                       rc_action_description = lookup_or ACTION_DESCRIPTION_TEMPLATES leading leading,
                       rc_rationale = render fmt (rationale h c ctx entry leading),
                       rc_consequences = lookup_or CONSEQUENCE_TEMPLATES leading [],
                       rc_alternatives = map (alternative_record c) (filter (\<lambda>a. a \<noteq> leading) allowed),
                       rc_score = conf_score c, rc_status = ''proposed'', rc_proposed_at = now\<rparr>)))"

section \<open>Identity (recommendation.py)\<close>

definition recommendation_name :: "uuid \<Rightarrow> uuid \<Rightarrow> uuid \<Rightarrow> string \<Rightarrow> string" where
  "recommendation_name tenant hypothesis confidence descr =
     uuid_str tenant @ '':'' @ uuid_str hypothesis @ '':'' @ uuid_str confidence @ '':'' @ descr"

definition recommendation_id :: "uuid5 \<Rightarrow> uuid \<Rightarrow> uuid \<Rightarrow> uuid \<Rightarrow> string \<Rightarrow> uuid" where
  "recommendation_id uuid5 tenant hypothesis confidence descr =
     uuid5 129 (recommendation_name tenant hypothesis confidence descr)"

definition build_recommendation :: "uuid5 \<Rightarrow> recommendation_create \<Rightarrow> recommendation" where
  "build_recommendation uuid5 c =
     \<lparr>rec_id = recommendation_id uuid5 (rc_tenant c) (rc_hypothesis c) (rc_confidence_id c) (rc_action_description c),
      rec_tenant = rc_tenant c, rec_hypothesis = rc_hypothesis c, rec_insight = rc_insight c,
      rec_confidence_id = rc_confidence_id c, rec_action_description = rc_action_description c,
      rec_rationale = rc_rationale c, rec_consequences = rc_consequences c, rec_alternatives = rc_alternatives c,
      rec_score = rc_score c, rec_status = rc_status c, rec_proposed_at = rc_proposed_at c\<rparr>"

text \<open>\<open>ORDER BY proposed_at\<close>\<close>

definition list_recommendations :: "uuid \<Rightarrow> recommendation list \<Rightarrow> recommendation list" where
  "list_recommendations tenant t = sort_key rec_proposed_at (filter (\<lambda>r. rec_tenant r = tenant) t)"

text \<open>\<open>ORDER BY computed_at DESC, id DESC LIMIT 1\<close>\<close>

definition get_confidence :: "uuid \<Rightarrow> string \<Rightarrow> uuid \<Rightarrow> confidence list \<Rightarrow> confidence option" where
  "get_confidence tenant target_type target t =
     (case rev (sort_key (\<lambda>c. (conf_computed_at c, conf_id c))
          (filter (\<lambda>c. conf_tenant c = tenant \<and> conf_target_type c = target_type \<and> conf_target_id c = target) t)) of
        [] \<Rightarrow> None | c # _ \<Rightarrow> Some c)"

section \<open>Cycle (service.py)\<close>

record recommendation_service =
  rs_table :: "recommendation list"
  rs_spaces :: "action_space_entry list"
  rs_total :: nat
  rs_duplicates :: nat
  rs_without_confidence :: nat
  rs_without_context :: nat
  rs_without_space :: nat
  rs_errors :: nat
  rs_by_status :: "string \<Rightarrow> nat"
  rs_by_domain :: "string \<Rightarrow> nat"
  rs_last_run_at :: "datetime option"

record propose_env =
  p_uuid5 :: uuid5
  p_fmt :: "piece \<Rightarrow> string"
  p_accepts :: "recommendation \<Rightarrow> bool"
  p_now :: datetime

definition persist_recommendation :: "propose_env \<Rightarrow> recommendation_create \<Rightarrow> string \<Rightarrow> recommendation_service \<Rightarrow>
    unit result \<times> recommendation_service" where
  "persist_recommendation env create domain s =
     (let r = build_recommendation (p_uuid5 env) create
      in if \<not> p_accepts env r then (Inl (PassedThrough ''database''), s)
         else case insert_row rec_id r (rs_table s) of
             (t, Some _) \<Rightarrow> (Inr (), s\<lparr>rs_table := t, rs_total := rs_total s + 1,
                rs_by_status := (rs_by_status s)(rec_status r := rs_by_status s (rec_status r) + 1),
                rs_by_domain := (rs_by_domain s)(domain := rs_by_domain s domain + 1)\<rparr>)
           | (t, None) \<Rightarrow> (Inr (), s\<lparr>rs_table := t, rs_duplicates := rs_duplicates s + 1\<rparr>))"

fun formulate_each :: "propose_env \<Rightarrow> uuid \<Rightarrow> confidence list \<Rightarrow> anomaly list \<Rightarrow> context_row list \<Rightarrow> hypothesis list \<Rightarrow>
    recommendation_service \<Rightarrow> unit result \<times> recommendation_service" where
  "formulate_each env tenant scores anomalies contexts [] s = (Inr (), s)"
| "formulate_each env tenant scores anomalies contexts (h # hs) s =
     (let next = formulate_each env tenant scores anomalies contexts hs
      in case get_confidence tenant ''hypothesis'' (hyp_id h) scores of
           None \<Rightarrow> next (s\<lparr>rs_without_confidence := rs_without_confidence s + 1\<rparr>)
         | Some c \<Rightarrow>
             (case resolve_active_context h anomalies contexts of
                None \<Rightarrow> next (s\<lparr>rs_without_context := rs_without_context s + 1\<rparr>)
              | Some ctx \<Rightarrow>
                  (case select_action_space (rs_spaces s) (resolve_domain ctx) (ctx_purpose ctx) of
                     None \<Rightarrow> next (s\<lparr>rs_without_space := rs_without_space s + 1\<rparr>)
                   | Some entry \<Rightarrow>
                       (case formulate (p_fmt env) (p_now env) h c ctx entry of
                          Inl x \<Rightarrow> (Inl x, s)
                        | Inr None \<Rightarrow> next (s\<lparr>rs_without_space := rs_without_space s + 1\<rparr>)
                        | Inr (Some create) \<Rightarrow>
                            (case persist_recommendation env create (the (resolve_domain ctx)) s of
                               (Inl x, s1) \<Rightarrow> (Inl x, s1)
                             | (Inr _, s1) \<Rightarrow> next s1)))))"

definition formulate_tenant :: "propose_env \<Rightarrow> hypothesis list \<Rightarrow> anomaly list \<Rightarrow> context_row list \<Rightarrow> confidence list \<Rightarrow> uuid \<Rightarrow>
    recommendation_service \<Rightarrow> unit result \<times> recommendation_service" where
  "formulate_tenant env hyp_table an_table ctx_table scores tenant s =
     formulate_each env tenant scores (list_anomalies tenant an_table) (list_contexts tenant ctx_table)
       (list_hypotheses 500 0 tenant hyp_table) s"

text \<open>\<open>gather(..., return_exceptions=True)\<close>: the exception of a tenant counts one error.\<close>

definition run_recommendation_cycle :: "propose_env \<Rightarrow> hypothesis list \<Rightarrow> anomaly list \<Rightarrow> context_row list \<Rightarrow> confidence list \<Rightarrow>
    uuid list \<Rightarrow> recommendation_service \<Rightarrow> recommendation_service" where
  "run_recommendation_cycle env hyp_table an_table ctx_table scores tenants s =
     (fold (\<lambda>t s. case formulate_tenant env hyp_table an_table ctx_table scores t s of
         (Inl _, s1) \<Rightarrow> s1\<lparr>rs_errors := rs_errors s1 + 1\<rparr> | (Inr _, s1) \<Rightarrow> s1) tenants s)
       \<lparr>rs_last_run_at := Some (p_now env)\<rparr>"

section \<open>The offers of the catalogue\<close>

lemma strip_Cons: "\<not> is_space c \<Longrightarrow> \<exists>cs'. strip (c # cs) = c # cs'"
  by (simp add: strip_def dropWhile_append3)

text \<open>A text that begins with a letter is no number.\<close>

definition prose :: "string \<Rightarrow> bool" where
  "prose s \<longleftrightarrow> (case s of [] \<Rightarrow> False | c # _ \<Rightarrow> \<not> is_space c \<and> \<not> is_digit c \<and> c \<noteq> CHR ''+'' \<and> c \<noteq> CHR ''-'' \<and> c \<noteq> CHR ''.'')"

lemma prose_no_number: "prose s \<Longrightarrow> float_or_none (JStr s) = None"
proof (cases s)
  case (Cons c cs)
  assume p: "prose s"
  obtain cs' where "strip s = c # cs'" using strip_Cons p Cons by (auto simp: prose_def)
  then have "read_decimal s = None" using p Cons by (simp add: read_decimal_def read_sign_def prose_def)
  then show ?thesis by (simp add: float_or_none_def)
qed (simp add: prose_def)

definition catalogue_offer :: "action_space_entry \<Rightarrow> bool" where
  "catalogue_offer e \<longleftrightarrow> (case map_of LEADING_ACTION_BY_DOMAIN (as_domain e) of None \<Rightarrow> False
     | Some a \<Rightarrow> a \<in> as_actions e \<and> as_actions e - {a} \<noteq> {} \<and>
        (case map_of CONSEQUENCE_TEMPLATES a of None \<Rightarrow> False | Some cs \<Rightarrow> cs \<noteq> [] \<and> list_all prose cs))"

lemma catalogue_offers: "e \<in> set ACTION_SPACE_LIBRARY \<Longrightarrow> catalogue_offer e"
proof -
  have "list_all catalogue_offer ACTION_SPACE_LIBRARY" by code_simp
  then show "e \<in> set ACTION_SPACE_LIBRARY \<Longrightarrow> catalogue_offer e" by (simp add: list_all_iff)
qed

lemma formulate_SomeD:
  assumes "formulate fmt now h c ctx e = Inr (Some rc)"
  shows "validate_formulation h c ctx = Inr ()" and "resolve_domain ctx = Some (as_domain e)"
    and "rc_tenant rc = hyp_tenant h \<and> rc_hypothesis rc = hyp_id h \<and> rc_confidence_id rc = conf_id c \<and>
      rc_score rc = conf_score c \<and> 0 \<le> rc_score rc \<and> rc_score rc \<le> 1 \<and> rc_status rc = ''proposed'' \<and> rc_insight rc = None"
    and "\<exists>a. leading_action e (as_domain e) (sorted_list_of_set (as_actions e)) = Inr a \<and>
      rc_action_description rc = lookup_or ACTION_DESCRIPTION_TEMPLATES a a \<and>
      rc_consequences rc = lookup_or CONSEQUENCE_TEMPLATES a [] \<and>
      rc_alternatives rc = map (alternative_record c) (filter (\<lambda>x. x \<noteq> a) (sorted_list_of_set (as_actions e)))"
proof -
  show v: "validate_formulation h c ctx = Inr ()" using assms by (auto simp: formulate_def and_then_eq_Inr)
  obtain d where d: "resolve_domain ctx = Some d" using assms v by (cases "resolve_domain ctx") (auto simp: formulate_def)
  have e: "d = as_domain e" using assms v d by (auto simp: formulate_def split: if_splits)
  then show "resolve_domain ctx = Some (as_domain e)" using d by simp
  obtain a where a: "leading_action e d (sorted_list_of_set (as_actions e)) = Inr a"
    using assms v d by (auto simp: formulate_def Let_def and_then_eq_Inr split: if_splits)
  show "rc_tenant rc = hyp_tenant h \<and> rc_hypothesis rc = hyp_id h \<and> rc_confidence_id rc = conf_id c \<and>
      rc_score rc = conf_score c \<and> 0 \<le> rc_score rc \<and> rc_score rc \<le> 1 \<and> rc_status rc = ''proposed'' \<and> rc_insight rc = None"
    using assms v d a by (auto simp: formulate_def Let_def split: if_splits)
  show "\<exists>a. leading_action e (as_domain e) (sorted_list_of_set (as_actions e)) = Inr a \<and>
      rc_action_description rc = lookup_or ACTION_DESCRIPTION_TEMPLATES a a \<and>
      rc_consequences rc = lookup_or CONSEQUENCE_TEMPLATES a [] \<and>
      rc_alternatives rc = map (alternative_record c) (filter (\<lambda>x. x \<noteq> a) (sorted_list_of_set (as_actions e)))"
    using assms v d a e by (auto simp: formulate_def Let_def split: if_splits)
qed

lemma catalogue_formulation:
  assumes "e \<in> set ACTION_SPACE_LIBRARY" and "formulate fmt now h c ctx e = Inr (Some rc)"
  obtains a where "a \<in> as_actions e" and "map_of LEADING_ACTION_BY_DOMAIN (as_domain e) = Some a"
    and "rc_action_description rc = lookup_or ACTION_DESCRIPTION_TEMPLATES a a"
    and "rc_consequences rc \<noteq> []" and "list_all prose (rc_consequences rc)"
    and "rc_alternatives rc = map (alternative_record c) (sorted_list_of_set (as_actions e - {a}))"
    and "as_actions e - {a} \<noteq> {}"
proof -
  obtain a cs where a: "map_of LEADING_ACTION_BY_DOMAIN (as_domain e) = Some a" "a \<in> as_actions e" "as_actions e - {a} \<noteq> {}"
      and cs: "map_of CONSEQUENCE_TEMPLATES a = Some cs" "cs \<noteq> []" "list_all prose cs"
    using catalogue_offers [OF assms(1)] by (auto simp: catalogue_offer_def split: option.splits)
  have l: "leading_action e (as_domain e) (sorted_list_of_set (as_actions e)) = Inr a" using a by (simp add: leading_action_def)
  have f: "filter (\<lambda>x. x \<noteq> a) (sorted_list_of_set (as_actions e)) = sorted_list_of_set (as_actions e - {a})"
    using sorted_list_of_set_remove [OF action_entry_finite [OF assms(1)], of a]
    by (simp add: distinct_remove1_removeAll removeAll_filter_not_eq) (metis (full_types))
  show thesis using formulate_SomeD(4) [OF assms(2)] l cs f by (intro that [OF a(2,1) _ _ _ _ a(3)]) (auto simp: lookup_or_def)
qed

definition ex_propose_env :: propose_env where
  "ex_propose_env = \<lparr>p_uuid5 = (\<lambda>_ _. 0), p_fmt = (\<lambda>_. []), p_accepts = (\<lambda>_. True), p_now = 0\<rparr>"

definition ex_leading :: hypothesis where
  "ex_leading = \<lparr>hyp_id = 3, hyp_tenant = 7, hyp_anomaly_ids = [4], hyp_pattern_ids = [], hyp_description = ''h'',
     hyp_consequences = [], hyp_falsification = ''f'', hyp_coherence = 1/2, hyp_status = ''candidate'', hyp_generated_at = 0\<rparr>"

definition ex_confidence :: "real \<Rightarrow> confidence" where
  "ex_confidence x = \<lparr>conf_id = 6, conf_tenant = 7, conf_target_type = ''hypothesis'', conf_target_id = 3, conf_support = x,
     conf_coherence = 1, conf_historical = 1, conf_score = x, conf_alpha = 1/2, conf_justification = [], conf_error = 0,
     conf_evidence_ids = [], conf_computed_at = 0\<rparr>"

definition ex_scope :: context_row where
  "ex_scope = \<lparr>ctx_id = 5, ctx_tenant = 7, ctx_evidence_ids = [], ctx_model = ''resource_pressure'',
     ctx_purpose = ''capacity_management'', ctx_coherence = 1, ctx_competing = [], ctx_activated_at = 0, ctx_active = True\<rparr>"

definition ex_space :: action_space_entry where
  "ex_space = hd ACTION_SPACE_LIBRARY"

definition ex_offer :: "real \<Rightarrow> recommendation_create" where
  "ex_offer x = (case formulate (\<lambda>_. []) 0 ex_leading (ex_confidence x) ex_scope ex_space of
     Inr (Some rc) \<Rightarrow> rc | _ \<Rightarrow> undefined)"

lemma ex_space: "ex_space \<in> set ACTION_SPACE_LIBRARY" "as_domain ex_space = ''storage''"
    "as_purposes ex_space = {''infrastructure_health'', ''capacity_management''}"
  by (simp_all add: ex_space_def ACTION_SPACE_LIBRARY_def action_entry_def)

lemma ex_formulate:
  assumes "0 \<le> x" and "x \<le> 1"
  shows "formulate (\<lambda>_. []) 0 ex_leading (ex_confidence x) ex_scope ex_space = Inr (Some (ex_offer x))"
proof -
  have v: "validate_formulation ex_leading (ex_confidence x) ex_scope = Inr ()"
    by (simp add: validate_formulation_def ex_leading_def ex_confidence_def ex_scope_def)
  have d: "resolve_domain ex_scope = Some ''storage''" by (simp add: resolve_domain_def MENTAL_MODEL_DOMAINS_def ex_scope_def)
  have a: "leading_action ex_space ''storage'' xs = Inr ''expand_volume''" for xs
    by (simp add: leading_action_def LEADING_ACTION_BY_DOMAIN_def ex_space_def ACTION_SPACE_LIBRARY_def action_entry_def)
  have "\<exists>rc. formulate (\<lambda>_. []) 0 ex_leading (ex_confidence x) ex_scope ex_space = Inr (Some rc)"
    using assms by (simp add: formulate_def v d a ex_space Let_def) (simp add: ex_confidence_def ex_scope_def)
  then show ?thesis by (auto simp: ex_offer_def)
qed

definition space_scopes :: "(string \<times> string set) list" where
  "space_scopes = map (\<lambda>e. (as_domain e, as_purposes e)) ACTION_SPACE_LIBRARY"

lemma space_scopes:
  "space_scopes = [(''storage'', {''infrastructure_health'', ''capacity_management''}), (''compute'', {''infrastructure_health''}),
     (''security'', {''security_posture''}), (''backup'', {''infrastructure_health'', ''capacity_management''}),
     (''network'', {''infrastructure_health''}), (''observability'', {''infrastructure_health'', ''security_posture''})]"
  by (simp add: space_scopes_def ACTION_SPACE_LIBRARY_def action_entry_def)

lemma select_none:
  "select_action_space ACTION_SPACE_LIBRARY domain p = None \<longleftrightarrow>
     \<not> (\<exists>d. domain = Some d \<and> (\<exists>x \<in> set space_scopes. fst x = d \<and> (snd x = {} \<or> p \<in> snd x)))"
  by (auto simp: select_action_space_def space_scopes_def find_None_iff split: option.splits)

section \<open>Properties\<close>

text \<open>
  C36. An offer stays inside the explicit action space: for a space of the catalogue the proposed action is
  the leading action of the domain of the active context and belongs to the space, its alternatives are
  exactly the other permitted actions, it predicts at least one consequence, and it carries the calibrated
  score and the tenant of its hypothesis, as a mere proposal.
\<close>

theorem offer_within_space:
  assumes "e \<in> set ACTION_SPACE_LIBRARY" and "formulate fmt now h c ctx e = Inr (Some rc)"
  shows "(\<exists>a \<in> as_actions e. map_of LEADING_ACTION_BY_DOMAIN (as_domain e) = Some a \<and>
       rc_action_description rc = lookup_or ACTION_DESCRIPTION_TEMPLATES a a \<and>
       (\<lambda>alt. get alt ''action'') ` set (rc_alternatives rc) = JStr ` (as_actions e - {a})) \<and>
     resolve_domain ctx = Some (as_domain e) \<and> rc_consequences rc \<noteq> [] \<and>
     rc_score rc = conf_score c \<and> conf_target_id c = hyp_id h \<and> rc_confidence_id rc = conf_id c \<and>
       rc_tenant rc = hyp_tenant h \<and> conf_tenant c = hyp_tenant h \<and> ctx_tenant ctx = hyp_tenant h \<and> rc_status rc = ''proposed''"
  (is "?leads \<and> ?domain \<and> ?predicts \<and> ?carries")
proof -
  obtain a where a: "a \<in> as_actions e" "map_of LEADING_ACTION_BY_DOMAIN (as_domain e) = Some a"
      "rc_action_description rc = lookup_or ACTION_DESCRIPTION_TEMPLATES a a" "rc_consequences rc \<noteq> []"
      "rc_alternatives rc = map (alternative_record c) (sorted_list_of_set (as_actions e - {a}))"
    by (rule catalogue_formulation [OF assms])
  have "(\<lambda>alt. get alt ''action'') ` set (rc_alternatives rc) = JStr ` (as_actions e - {a})"
    using a(5) action_entry_finite [OF assms(1)] by (simp add: image_image alternative_record_def get_def)
  then have ?leads using a(1-3) by blast
  moreover have ?carries
    using formulate_SomeD(1,3) [OF assms(2)] by (auto simp: validate_formulation_def split: if_splits)
  ultimately show ?thesis using a(4) formulate_SomeD(2) [OF assms(2)] by blast
qed

theorem offer_within_space_witness:
  "rc_consequences (ex_offer (4/5)) \<noteq> [] \<and> rc_score (ex_offer (4/5)) = 4/5"
proof -
  have f: "formulate (\<lambda>_. []) 0 ex_leading (ex_confidence (4/5)) ex_scope ex_space = Inr (Some (ex_offer (4/5)))"
    by (rule ex_formulate) simp_all
  show ?thesis using offer_within_space [OF ex_space(1) f] by (simp add: ex_confidence_def)
qed

text \<open>
  One active understanding has no action space: of all mental models of the context catalogue and the
  purposes they are activated for, exactly a service failure under the security posture is left without
  an applicable space, so its hypotheses never lead to a recommendation.
\<close>

theorem unactionable_context:
  assumes "m \<in> set MENTAL_MODEL_CATALOG" and "p \<in> purposes m" and "ctx_model ctx = model_id m" and "ctx_purpose ctx = p"
  shows "select_action_space ACTION_SPACE_LIBRARY (resolve_domain ctx) (ctx_purpose ctx) = None \<longleftrightarrow>
     model_id m = ''service_failure'' \<and> p = ''security_posture''"
proof -
  have "(\<exists>d. resolve_domain ctx = Some d \<and> (\<exists>x \<in> set space_scopes. fst x = d \<and> (snd x = {} \<or> p \<in> snd x))) \<longleftrightarrow>
      \<not> (model_id m = ''service_failure'' \<and> p = ''security_posture'')"
    using assms(1,2) unfolding resolve_domain_def assms(3,4)
    by (auto simp: MENTAL_MODEL_CATALOG_def MENTAL_MODEL_DOMAINS_def space_scopes)
  then show ?thesis using assms(4) by (auto simp: select_none)
qed

theorem unactionable_context_witness:
  "select_action_space ACTION_SPACE_LIBRARY
     (resolve_domain (ex_scope\<lparr>ctx_model := ''service_failure'', ctx_purpose := ''security_posture''\<rparr>)) ''security_posture'' = None"
  using unactionable_context [of "MENTAL_MODEL_CATALOG ! 1" "''security_posture''"
      "ex_scope\<lparr>ctx_model := ''service_failure'', ctx_purpose := ''security_posture''\<rparr>"]
  by (simp add: MENTAL_MODEL_CATALOG_def)

end
