(* ===== verification/Committer.thy ===== *)
theory Committer
  imports Formulator
begin

text \<open>
  The Commit capability: the committer and the cycle of \<open>apps/services/decision-service/src\<close>, and the
  decisions of \<open>libs/action/decision.py\<close> with their store and the comparison of expected with actual
  outcomes. \<open>date_iso\<close> shows the date of a day number; the clock is an argument.
\<close>

section \<open>Decisions (decision.py)\<close>

record decision_create =
  dc_tenant :: uuid
  dc_recommendation :: uuid
  dc_confidence :: uuid
  dc_authority :: uuid
  dc_commitment :: string
  dc_expected :: "dict list"
  dc_risk :: string
  dc_status :: string
  dc_committed_at :: datetime
  dc_executed_at :: "datetime option"
  dc_actual :: "dict list option"
  dc_outcome_status :: string

definition decision_name :: "uuid \<Rightarrow> uuid \<Rightarrow> uuid \<Rightarrow> string" where
  "decision_name tenant recommendation confidence =
     uuid_str tenant @ '':'' @ uuid_str recommendation @ '':'' @ uuid_str confidence"

definition decision_id :: "uuid5 \<Rightarrow> uuid \<Rightarrow> uuid \<Rightarrow> uuid \<Rightarrow> uuid" where
  "decision_id uuid5 tenant recommendation confidence = uuid5 130 (decision_name tenant recommendation confidence)"

definition build_decision :: "uuid5 \<Rightarrow> decision_create \<Rightarrow> decision" where
  "build_decision uuid5 c =
     \<lparr>dec_id = decision_id uuid5 (dc_tenant c) (dc_recommendation c) (dc_confidence c), dec_tenant = dc_tenant c,
      dec_recommendation = dc_recommendation c, dec_confidence = dc_confidence c, dec_authority = dc_authority c,
      dec_commitment = dc_commitment c, dec_expected = dc_expected c, dec_risk = dc_risk c, dec_status = dc_status c,
      dec_committed_at = dc_committed_at c, dec_executed_at = dc_executed_at c, dec_actual = dc_actual c,
      dec_outcome_status = dc_outcome_status c\<rparr>"

definition list_decisions_by_status :: "uuid \<Rightarrow> string \<Rightarrow> decision list \<Rightarrow> decision list" where
  "list_decisions_by_status tenant status t =
     sort_key (\<lambda>d. (dec_committed_at d, dec_id d)) (filter (\<lambda>d. dec_tenant d = tenant \<and> dec_status d = status) t)"

text \<open>The lifecycle columns are the only ones an update sets; no column, no statement.\<close>

definition set_lifecycle :: "dict list option \<Rightarrow> datetime option \<Rightarrow> string option \<Rightarrow> decision \<Rightarrow> decision" where
  "set_lifecycle actual executed_at status d =
     (let d1 = (case actual of None \<Rightarrow> d | Some os \<Rightarrow> d\<lparr>dec_actual := Some os, dec_outcome_status := ''observed''\<rparr>);
          d2 = (case executed_at of None \<Rightarrow> d1 | Some t \<Rightarrow> d1\<lparr>dec_executed_at := Some t\<rparr>)
      in (case status of None \<Rightarrow> d2 | Some st \<Rightarrow> d2\<lparr>dec_status := st\<rparr>))"

definition update_outcomes :: "uuid \<Rightarrow> uuid \<Rightarrow> dict list option \<Rightarrow> datetime option \<Rightarrow> string option \<Rightarrow> decision list \<Rightarrow>
    decision option \<times> decision list" where
  "update_outcomes i tenant actual executed_at status t =
     (if actual = None \<and> executed_at = None \<and> status = None then (None, t)
      else let t' = map (\<lambda>d. if dec_id d = i \<and> dec_tenant d = tenant then set_lifecycle actual executed_at status d else d) t
           in (find (\<lambda>d. dec_id d = i \<and> dec_tenant d = tenant) t', t'))"

subsection \<open>Expected against actual outcomes\<close>

record outcome_match =
  om_metric :: json
  om_prediction :: real
  om_actual :: "int option"
  om_matches :: "bool option"

record outcome_comparison =
  oc_brier :: real
  oc_ece :: real
  oc_historical :: real
  oc_adjustment :: real
  oc_count :: nat
  oc_details :: "outcome_match list"

definition prediction_and_metric :: "dict \<Rightarrow> real \<times> json" where
  "prediction_and_metric eo =
     ((case float_or_none (get_default eo ''prediction'' (JStr [])) of None \<Rightarrow> 0 | Some x \<Rightarrow> x), get eo ''verifiable_by'')"

text \<open>The last report of a metric; a list or an object as a key is unhashable.\<close>

definition unhashable :: "json \<Rightarrow> bool" where
  "unhashable v \<longleftrightarrow> (case v of JArr _ \<Rightarrow> True | JObj _ \<Rightarrow> True | _ \<Rightarrow> False)"

definition actual_for :: "dict list \<Rightarrow> json \<Rightarrow> dict option" where
  "actual_for actuals metric =
     find (\<lambda>ao. truthy (get ao ''verifiable_by'') \<and> get ao ''verifiable_by'' = metric) (rev actuals)"

definition outcome_value :: "dict \<Rightarrow> int" where
  "outcome_value ao = (case get ao ''value'' of
     JBool b \<Rightarrow> (if b then 1 else 0) | JInt n \<Rightarrow> (if n \<noteq> 0 then 1 else 0) | JFloat x \<Rightarrow> (if x \<noteq> 0 then 1 else 0) | _ \<Rightarrow> 0)"

text \<open>Predictions, outcomes and details of the loop; an unreported metric adds an outcome only.\<close>

fun compare_loop :: "dict list \<Rightarrow> dict list \<Rightarrow> real list \<times> int list \<times> outcome_match list" where
  "compare_loop actuals [] = ([], [], [])"
| "compare_loop actuals (eo # eos) =
     (case (prediction_and_metric eo, compare_loop actuals eos) of ((p, metric), (ps, os, ds)) \<Rightarrow>
        if metric = JNull then (ps, os, ds)
        else case actual_for actuals metric of
            Some ao \<Rightarrow> (p # ps, outcome_value ao # os,
              \<lparr>om_metric = metric, om_prediction = p, om_actual = Some (outcome_value ao),
               om_matches = Some (p \<ge> 1/2 \<and> outcome_value ao = 1)\<rparr> # ds)
          | None \<Rightarrow> (ps, 0 # os, \<lparr>om_metric = metric, om_prediction = p, om_actual = None, om_matches = None\<rparr> # ds))"

definition compare_expected_actual_outcomes :: "dict list \<Rightarrow> dict list option \<Rightarrow> calibration_params \<Rightarrow> outcome_comparison result" where
  "compare_expected_actual_outcomes expected actual params =
     (if expected = []
      then Inr \<lparr>oc_brier = 0, oc_ece = 0, oc_historical = 1, oc_adjustment = 0, oc_count = 0, oc_details = []\<rparr>
      else if \<exists>ao \<in> set (case actual of None \<Rightarrow> [] | Some os \<Rightarrow> os).
             truthy (get ao ''verifiable_by'') \<and> unhashable (get ao ''verifiable_by'')
        then Inl (TypeError ''unhashable type'')
      else if \<exists>eo \<in> set expected. unhashable (get eo ''verifiable_by'') then Inl (TypeError ''unhashable type'')
      else case compare_loop (case actual of None \<Rightarrow> [] | Some os \<Rightarrow> os) expected of (ps, os, ds) \<Rightarrow>
        and_then (if ps = [] then Inr 0 else brier_score ps os) (\<lambda>brier.
        and_then (if ps = [] then Inr 0 else ece_score ps os (bins params)) (\<lambda>ece.
          let hist = max 0 (min 1 (1 - ece))
          in Inr \<lparr>oc_brier = round_to 4 brier, oc_ece = round_to 4 ece, oc_historical = round_to 4 hist,
               oc_adjustment = round_to 4 (hist - 1), oc_count = length expected, oc_details = ds\<rparr>)))"

section \<open>Committer (committer.py)\<close>

record authority =
  au_id :: uuid
  au_label :: string
  au_risk :: string

definition VERIFICATION_METRIC_BY_DOMAIN :: "(string \<times> string) list" where
  "VERIFICATION_METRIC_BY_DOMAIN =
    [(''storage'', ''disk_free_percent''), (''compute'', ''service_status''), (''security'', ''auth_failure_rate''),
     (''backup'', ''backup_job_status''), (''network'', ''traffic_rule_status''),
     (''observability'', ''alert_threshold_status'')]"

definition DEADLINE_DAYS_BY_DOMAIN :: "(string \<times> nat) list" where
  "DEADLINE_DAYS_BY_DOMAIN =
    [(''storage'', 90), (''compute'', 30), (''security'', 30), (''backup'', 90), (''network'', 30), (''observability'', 30)]"

text \<open>The comprehension over the catalogue: a later entry overrides an earlier one.\<close>

definition action_domain :: "string \<Rightarrow> string option" where
  "action_domain a = map_option as_domain (find (\<lambda>e. a \<in> as_actions e) (rev ACTION_SPACE_LIBRARY))"

definition policy_authority_id :: "uuid5 \<Rightarrow> string \<Rightarrow> uuid" where
  "policy_authority_id uuid5 policy = uuid5 130 (''policy:'' @ policy)"

text \<open>A list or an object as a key is unhashable.\<close>

fun recommendation_domain :: "dict list \<Rightarrow> string option result" where
  "recommendation_domain [] = Inr None"
| "recommendation_domain (alt # alts) =
     (case get alt ''action'' of
        JArr _ \<Rightarrow> Inl (TypeError ''unhashable type'')
      | JObj _ \<Rightarrow> Inl (TypeError ''unhashable type'')
      | JStr a \<Rightarrow> (case action_domain a of None \<Rightarrow> recommendation_domain alts | Some d \<Rightarrow> Inr (Some d))
      | _ \<Rightarrow> recommendation_domain alts)"

definition risk_order :: "string \<Rightarrow> nat" where
  "risk_order level = (if level = ''high'' then 2 else if level = ''medium'' then 1 else 0)"

definition resolve_risk_tolerance :: "real \<Rightarrow> decision_policy \<Rightarrow> string option" where
  "resolve_risk_tolerance score p =
     (if score < dp_min_commit p then None
      else let ceiling = risk_order (if score \<ge> dp_min_irreversible p then ''high'' else ''medium'')
           in foldl (\<lambda>best level. if risk_order level \<le> ceiling \<and>
                  (case best of None \<Rightarrow> True | Some b \<Rightarrow> risk_order level > risk_order b) then Some level else best)
                None (sorted_list_of_set (dp_risk p)))"

datatype eligibility = COMMITTABLE | BELOW_CONFIDENCE | RISK_NOT_ALLOWED | NO_AUTHORITY | NO_POLICY

definition validate_commit :: "recommendation \<Rightarrow> confidence \<Rightarrow> unit result" where
  "validate_commit r c =
     (if conf_id c \<noteq> rec_confidence_id r
      then Inl (ValueError ''confidence must be the calibrated Confidence bound to the recommendation'')
      else if conf_tenant c \<noteq> rec_tenant r then Inl (ValueError ''tenant mismatch across recommendation/confidence'')
      else Inr ())"

definition commit_eligibility :: "recommendation \<Rightarrow> confidence \<Rightarrow> decision_policy option \<Rightarrow> authority option \<Rightarrow> eligibility result" where
  "commit_eligibility r c policy auth =
     (case policy of None \<Rightarrow> Inr NO_POLICY
      | Some p \<Rightarrow> and_then (validate_commit r c) (\<lambda>_.
          if dp_authority p \<and> auth = None then Inr NO_AUTHORITY
          else if conf_score c < dp_min_commit p then Inr BELOW_CONFIDENCE
          else case auth of
              None \<Rightarrow> Inr RISK_NOT_ALLOWED
            | Some a \<Rightarrow>
                if au_risk a \<notin> dp_risk p then Inr RISK_NOT_ALLOWED
                else if au_risk a = ''high'' \<and> conf_score c < dp_min_irreversible p then Inr RISK_NOT_ALLOWED
                else Inr COMMITTABLE))"

definition definitive_clause :: "string \<Rightarrow> string" where
  "definitive_clause descr = rstrip_chars ''.,; '' (strip (before '' o '' (strip descr))) @ ''.''"

definition deadline_iso :: "(int \<Rightarrow> string) \<Rightarrow> datetime \<Rightarrow> string \<Rightarrow> string" where
  "deadline_iso date_iso committed_at domain =
     (let n = (case map_of DEADLINE_DAYS_BY_DOMAIN domain of None \<Rightarrow> 30 | Some d \<Rightarrow> d)
      in date_iso ((committed_at + int n * 86400000000) div 86400000000))"

definition build_commitment :: "(piece \<Rightarrow> string) \<Rightarrow> recommendation \<Rightarrow> authority \<Rightarrow> string \<Rightarrow> string" where
  "build_commitment fmt r a deadline =
     render fmt [PStr (definitive_clause (rec_action_description r)), Lit '' Compromiso registrado bajo la autoridad '',
       PStr (au_label a), Lit '' (id '', PUuid (au_id a), Lit ''); outcomes esperados evaluados en '', PStr deadline, Lit ''.'']"

definition build_expected_outcomes :: "(int \<Rightarrow> string) \<Rightarrow> recommendation \<Rightarrow> decision_policy \<Rightarrow> datetime \<Rightarrow> dict list result" where
  "build_expected_outcomes date_iso r p committed_at =
     (if rec_consequences r = [] then Inl (ValueError ''cannot commit without falsifiable expected outcomes'')
      else let metric = lookup_or VERIFICATION_METRIC_BY_DOMAIN (dp_domain p) ''system_metric'';
               deadline = deadline_iso date_iso committed_at (dp_domain p)
           in Inr (map (\<lambda>c. [(''prediction'', JStr c), (''verifiable_by'', JStr metric), (''deadline'', JStr deadline)])
                (rec_consequences r)))"

definition commit :: "(piece \<Rightarrow> string) \<Rightarrow> (int \<Rightarrow> string) \<Rightarrow> datetime \<Rightarrow> recommendation \<Rightarrow> confidence \<Rightarrow> decision_policy \<Rightarrow>
    authority \<Rightarrow> decision_create option result" where
  "commit fmt date_iso now r c p a =
     and_then (commit_eligibility r c (Some p) (Some a)) (\<lambda>reason.
       if reason \<noteq> COMMITTABLE then Inr None
       else and_then (build_expected_outcomes date_iso r p now) (\<lambda>expected.
         Inr (Some \<lparr>dc_tenant = rec_tenant r, dc_recommendation = rec_id r, dc_confidence = rec_confidence_id r,
           dc_authority = au_id a, dc_commitment = build_commitment fmt r a (deadline_iso date_iso now (dp_domain p)),
           dc_expected = expected, dc_risk = au_risk a, dc_status = ''committed'', dc_committed_at = now,
           dc_executed_at = None, dc_actual = None, dc_outcome_status = ''pending''\<rparr>)))"

section \<open>Cycle (service.py)\<close>

record decision_service =
  ds_table :: "decision list"
  ds_min_commit :: real
  ds_min_irreversible :: real
  ds_total :: nat
  ds_duplicates :: nat
  ds_below :: nat
  ds_skipped :: nat
  ds_errors :: nat
  ds_by_status :: "string \<Rightarrow> nat"
  ds_by_risk :: "string \<Rightarrow> nat"
  ds_last_run_at :: "datetime option"

record commit_env =
  m_uuid5 :: uuid5
  m_fmt :: "piece \<Rightarrow> string"
  m_date :: "int \<Rightarrow> string"
  m_accepts :: "decision \<Rightarrow> bool"
  m_now :: datetime

definition policy_for :: "decision_service \<Rightarrow> recommendation \<Rightarrow> decision_policy option result" where
  "policy_for s r =
     and_then (recommendation_domain (rec_alternatives r)) (\<lambda>domain.
       case select_policy POLICY_BY_DOMAIN domain of
         None \<Rightarrow> Inr None
       | Some p \<Rightarrow> and_then (apply_threshold_overrides p (Some (ds_min_commit s)) (Some (ds_min_irreversible s))) (\<lambda>q. Inr (Some q)))"

definition persist_decision :: "commit_env \<Rightarrow> recommendation \<Rightarrow> confidence \<Rightarrow> decision_policy \<Rightarrow> authority \<Rightarrow> decision_service \<Rightarrow>
    unit result \<times> decision_service" where
  "persist_decision env r c p a s =
     (case commit (m_fmt env) (m_date env) (m_now env) r c p a of
        Inl x \<Rightarrow> (Inl x, s)
      | Inr None \<Rightarrow> (Inr (), s\<lparr>ds_skipped := ds_skipped s + 1\<rparr>)
      | Inr (Some create) \<Rightarrow>
          (let d = build_decision (m_uuid5 env) create
           in if \<not> m_accepts env d then (Inl (PassedThrough ''database''), s)
              else case insert_row dec_id d (ds_table s) of
                  (t, Some _) \<Rightarrow> (Inr (), s\<lparr>ds_table := t, ds_total := ds_total s + 1,
                     ds_by_status := (ds_by_status s)(dec_status d := ds_by_status s (dec_status d) + 1),
                     ds_by_risk := (ds_by_risk s)(dec_risk d := ds_by_risk s (dec_risk d) + 1)\<rparr>)
                | (t, None) \<Rightarrow> (Inr (), s\<lparr>ds_table := t, ds_duplicates := ds_duplicates s + 1\<rparr>)))"

definition commit_one :: "commit_env \<Rightarrow> (uuid \<times> confidence) list \<Rightarrow> recommendation \<Rightarrow> decision_service \<Rightarrow>
    unit result \<times> decision_service" where
  "commit_one env confidences r s =
     (if rec_status r \<noteq> ''proposed'' then (Inr (), s)
      else case map_of confidences (rec_confidence_id r) of
        None \<Rightarrow> (Inr (), s\<lparr>ds_skipped := ds_skipped s + 1\<rparr>)
      | Some c \<Rightarrow>
          (case policy_for s r of
             Inl x \<Rightarrow> (Inl x, s)
           | Inr None \<Rightarrow> (Inr (), s\<lparr>ds_skipped := ds_skipped s + 1\<rparr>)
           | Inr (Some p) \<Rightarrow>
               (case resolve_risk_tolerance (conf_score c) p of
                  None \<Rightarrow> (Inr (), s\<lparr>ds_below := ds_below s + 1\<rparr>)
                | Some risk \<Rightarrow>
                    (let a = \<lparr>au_id = policy_authority_id (m_uuid5 env) (dp_id p), au_label = ''policy:'' @ dp_id p, au_risk = risk\<rparr>
                     in case commit_eligibility r c (Some p) (Some a) of
                          Inl x \<Rightarrow> (Inl x, s)
                        | Inr reason \<Rightarrow>
                            if reason = BELOW_CONFIDENCE then (Inr (), s\<lparr>ds_below := ds_below s + 1\<rparr>)
                            else if reason \<noteq> COMMITTABLE then (Inr (), s\<lparr>ds_skipped := ds_skipped s + 1\<rparr>)
                            else persist_decision env r c p a s))))"

fun commit_each :: "commit_env \<Rightarrow> (uuid \<times> confidence) list \<Rightarrow> recommendation list \<Rightarrow> decision_service \<Rightarrow>
    unit result \<times> decision_service" where
  "commit_each env confidences [] s = (Inr (), s)"
| "commit_each env confidences (r # rs) s =
     (case commit_one env confidences r s of
        (Inl x, s1) \<Rightarrow> (Inl x, s1) | (Inr _, s1) \<Rightarrow> commit_each env confidences rs s1)"

text \<open>\<open>list_confidence\<close> without a page reads the 500 oldest rows.\<close>

definition commit_tenant :: "commit_env \<Rightarrow> recommendation list \<Rightarrow> confidence list \<Rightarrow> uuid \<Rightarrow> decision_service \<Rightarrow>
    unit result \<times> decision_service" where
  "commit_tenant env recs scores tenant s =
     commit_each env (dict_of (map (\<lambda>c. (conf_id c, c)) (list_confidence tenant 500 0 scores))) (list_recommendations tenant recs) s"

definition run_decision_cycle :: "commit_env \<Rightarrow> recommendation list \<Rightarrow> confidence list \<Rightarrow> uuid list \<Rightarrow> decision_service \<Rightarrow>
    decision_service" where
  "run_decision_cycle env recs scores tenants s =
     (fold (\<lambda>t s. case commit_tenant env recs scores t s of
         (Inl _, s1) \<Rightarrow> s1\<lparr>ds_errors := ds_errors s1 + 1\<rparr> | (Inr _, s1) \<Rightarrow> s1) tenants s)
       \<lparr>ds_last_run_at := Some (m_now env)\<rparr>"

section \<open>Risk\<close>

text \<open>The scan over the allowed levels keeps the most demanding one below the ceiling, in any order.\<close>

lemma risk_scan:
  "case foldl (\<lambda>best level. if risk_order level \<le> n \<and>
        (case best of None \<Rightarrow> True | Some b \<Rightarrow> risk_order level > risk_order b) then Some level else best) None ls of
     None \<Rightarrow> \<forall>l \<in> set ls. n < risk_order l
   | Some r \<Rightarrow> r \<in> set ls \<and> risk_order r \<le> n \<and> (\<forall>l \<in> set ls. risk_order l \<le> n \<longrightarrow> risk_order l \<le> risk_order r)"
proof (induction ls rule: rev_induct)
  case (snoc l ls)
  then show ?case by (fastforce split: option.splits)
qed simp

lemma resolve_risk_SomeD:
  assumes "resolve_risk_tolerance score p = Some r" and "finite (dp_risk p)"
  shows "dp_min_commit p \<le> score \<and> r \<in> dp_risk p \<and> (r = ''high'' \<longrightarrow> dp_min_irreversible p \<le> score)"
proof -
  let ?n = "risk_order (if score \<ge> dp_min_irreversible p then ''high'' else ''medium'')"
  have f: "\<not> score < dp_min_commit p" using assms(1) by (auto simp: resolve_risk_tolerance_def)
  have "r \<in> dp_risk p \<and> risk_order r \<le> ?n"
    using risk_scan [where n = ?n and ls = "sorted_list_of_set (dp_risk p)"] assms f by (simp add: resolve_risk_tolerance_def Let_def)
  then show ?thesis using f by (auto simp: risk_order_def split: if_splits)
qed

lemma resolve_risk_total:
  assumes "dp_min_commit p \<le> score" and "''medium'' \<in> dp_risk p" and "finite (dp_risk p)"
  shows "\<exists>r. resolve_risk_tolerance score p = Some r"
proof -
  let ?n = "risk_order (if score \<ge> dp_min_irreversible p then ''high'' else ''medium'')"
  have "\<not> (\<forall>l \<in> dp_risk p. ?n < risk_order l)" using assms(2) by (auto simp: risk_order_def)
  then show ?thesis using risk_scan [where n = ?n and ls = "sorted_list_of_set (dp_risk p)"] assms(1,3)
    by (auto simp: resolve_risk_tolerance_def Let_def split: option.splits)
qed

lemma policy_ok_finite: "decision_policy_ok p = Inr () \<Longrightarrow> finite (dp_risk p)"
  by (rule finite_subset [of _ "{''low'', ''medium'', ''high''}"]) (auto simp: decision_policy_ok_def split: if_splits)

text \<open>With the risk the service resolves, the eligibility test never refuses.\<close>

lemma resolved_committable:
  assumes "resolve_risk_tolerance (conf_score c) p = Some risk" and "finite (dp_risk p)" and "validate_commit r c = Inr ()"
    and "au_risk a = risk"
  shows "commit_eligibility r c (Some p) (Some a) = Inr COMMITTABLE"
  using resolve_risk_SomeD [OF assms(1,2)] assms(3,4) by (auto simp: commit_eligibility_def)

section \<open>The domain of an offer\<close>

lemma action_domain_known:
  assumes "e \<in> set ACTION_SPACE_LIBRARY" and "a \<in> as_actions e"
  shows "action_domain a = Some (as_domain e)"
proof -
  obtain e' where f: "find (\<lambda>e. a \<in> as_actions e) (rev ACTION_SPACE_LIBRARY) = Some e'"
    using assms by (cases "find (\<lambda>e. a \<in> as_actions e) (rev ACTION_SPACE_LIBRARY)") (auto simp: find_None_iff)
  then have "e' \<in> set ACTION_SPACE_LIBRARY" "a \<in> as_actions e'" by (auto dest: find_SomeD)
  then show ?thesis using action_sets_disjoint [OF assms(1) _ assms(2)] f by (simp add: action_domain_def)
qed

lemma formulated_domain:
  assumes "e \<in> set ACTION_SPACE_LIBRARY" and "formulate fmt now h c ctx e = Inr (Some rc)"
  shows "recommendation_domain (rc_alternatives rc) = Inr (Some (as_domain e))"
proof -
  obtain a where a: "rc_alternatives rc = map (alternative_record c) (sorted_list_of_set (as_actions e - {a}))" "as_actions e - {a} \<noteq> {}"
    by (rule catalogue_formulation [OF assms])
  have fin: "finite (as_actions e - {a})" using action_entry_finite [OF assms(1)] by simp
  then have "sorted_list_of_set (as_actions e - {a}) \<noteq> []" using a(2) by simp
  then obtain b bs where b: "sorted_list_of_set (as_actions e - {a}) = b # bs" using list.exhaust by blast
  then have "b \<in> as_actions e" using set_sorted_list_of_set [OF fin] by auto
  then show ?thesis using a(1) b action_domain_known [OF assms(1)] by (simp add: alternative_record_def get_def)
qed

section \<open>What the cycle commits\<close>

text \<open>A committed decision with the offer and the confidence it rests on.\<close>

definition backed :: "commit_env \<Rightarrow> decision_service \<Rightarrow> recommendation \<Rightarrow> confidence \<Rightarrow> decision \<Rightarrow> bool" where
  "backed env s r c d \<longleftrightarrow>
     rec_status r = ''proposed'' \<and> conf_id c = rec_confidence_id r \<and> conf_tenant c = rec_tenant r \<and>
     dec_id d = decision_id (m_uuid5 env) (rec_tenant r) (rec_id r) (conf_id c) \<and> dec_tenant d = rec_tenant r \<and>
     dec_recommendation d = rec_id r \<and> dec_confidence d = conf_id c \<and> ds_min_commit s \<le> conf_score c \<and>
     (dec_risk d = ''high'' \<longrightarrow> ds_min_irreversible s \<le> conf_score c) \<and>
     (\<exists>p \<in> set DECISION_POLICY_LIBRARY. dec_authority d = policy_authority_id (m_uuid5 env) (dp_id p) \<and> dec_risk d \<in> dp_risk p) \<and>
     map (\<lambda>eo. get eo ''prediction'') (dec_expected d) = map JStr (rec_consequences r) \<and> dec_expected d \<noteq> [] \<and>
     dec_status d = ''committed'' \<and> dec_executed_at d = None \<and> dec_actual d = None \<and> dec_outcome_status d = ''pending''"

lemma policy_for_SomeD:
  assumes "policy_for s r = Inr (Some p)"
  shows "decision_policy_ok p = Inr () \<and> dp_min_commit p = ds_min_commit s \<and> dp_min_irreversible p = ds_min_irreversible s \<and>
     (\<exists>q \<in> set DECISION_POLICY_LIBRARY. dp_id p = dp_id q \<and> dp_risk p = dp_risk q \<and> dp_domain p = dp_domain q)"
proof -
  obtain domain q where q: "select_policy POLICY_BY_DOMAIN domain = Some q"
      "apply_threshold_overrides q (Some (ds_min_commit s)) (Some (ds_min_irreversible s)) = Inr p"
    using assms by (auto simp: policy_for_def and_then_eq_Inr split: option.splits)
  have m: "q \<in> set DECISION_POLICY_LIBRARY" using q(1)
    by (auto simp: select_policy_def POLICY_BY_DOMAIN_def map_of_dict_of split: option.splits dest!: map_of_SomeD)
  then show ?thesis using q(2) policy_library_ok by (auto simp: apply_threshold_overrides_def Let_def and_then_eq_Inr)
qed

lemma commit_SomeD:
  assumes "commit fmt date_iso now r c p a = Inr (Some dc)"
  shows "commit_eligibility r c (Some p) (Some a) = Inr COMMITTABLE \<and> dc_tenant dc = rec_tenant r \<and> dc_recommendation dc = rec_id r \<and>
     dc_confidence dc = rec_confidence_id r \<and> dc_authority dc = au_id a \<and> dc_risk dc = au_risk a \<and> dc_status dc = ''committed'' \<and>
     dc_executed_at dc = None \<and> dc_actual dc = None \<and> dc_outcome_status dc = ''pending'' \<and>
     map (\<lambda>eo. get eo ''prediction'') (dc_expected dc) = map JStr (rec_consequences r) \<and> dc_expected dc \<noteq> []"
  using assms by (auto simp: commit_def and_then_eq_Inr build_expected_outcomes_def Let_def get_def split: if_splits)

lemma eligibility_committable:
  "commit_eligibility r c (Some p) (Some a) = Inr COMMITTABLE \<Longrightarrow> conf_id c = rec_confidence_id r \<and> conf_tenant c = rec_tenant r"
  by (auto simp: commit_eligibility_def validate_commit_def and_then_eq_Inr split: if_splits)

text \<open>One offer: the thresholds stay, and at most one backed decision is appended.\<close>

definition commits :: "commit_env \<Rightarrow> recommendation set \<Rightarrow> confidence set \<Rightarrow> decision_service \<Rightarrow> decision_service \<Rightarrow> bool" where
  "commits env R C s s' \<longleftrightarrow> ds_min_commit s' = ds_min_commit s \<and> ds_min_irreversible s' = ds_min_irreversible s \<and>
     (\<exists>new. ds_table s' = ds_table s @ new \<and> (\<forall>d \<in> set new. \<exists>r \<in> R. \<exists>c \<in> C. backed env s r c d))"

lemma commits_refl: "ds_table s' = ds_table s \<Longrightarrow> ds_min_commit s' = ds_min_commit s \<Longrightarrow>
    ds_min_irreversible s' = ds_min_irreversible s \<Longrightarrow> commits env R C s s'"
  by (simp add: commits_def)

lemma backed_same: "ds_min_commit s' = ds_min_commit s \<Longrightarrow> ds_min_irreversible s' = ds_min_irreversible s \<Longrightarrow>
    backed env s' r c d = backed env s r c d"
  by (simp add: backed_def)

lemma commits_trans: "commits env R C s s1 \<Longrightarrow> commits env R C s1 s2 \<Longrightarrow> commits env R C s s2"
  unfolding commits_def using backed_same [of s1 s] by fastforce

lemma commits_mono: "commits env R C s s' \<Longrightarrow> R \<subseteq> R' \<Longrightarrow> C \<subseteq> C' \<Longrightarrow> commits env R' C' s s'"
  unfolding commits_def by blast

lemma persist_decision_commits:
  assumes "rec_status r = ''proposed''" and "resolve_risk_tolerance (conf_score c) p = Some (au_risk a)"
    and "policy_for s r = Inr (Some p)" and "au_id a = policy_authority_id (m_uuid5 env) (dp_id p)"
  shows "commits env {r} {c} s (snd (persist_decision env r c p a s))"
proof -
  have p: "decision_policy_ok p = Inr ()" "dp_min_commit p = ds_min_commit s" "dp_min_irreversible p = ds_min_irreversible s"
      "\<exists>q \<in> set DECISION_POLICY_LIBRARY. dp_id p = dp_id q \<and> dp_risk p = dp_risk q \<and> dp_domain p = dp_domain q"
    using policy_for_SomeD [OF assms(3)] by simp_all
  note risk = resolve_risk_SomeD [OF assms(2) policy_ok_finite [OF p(1)]]
  have b: "backed env s r c (build_decision (m_uuid5 env) dc)"
    if dc: "commit (m_fmt env) (m_date env) (m_now env) r c p a = Inr (Some dc)" for dc
  proof -
    have e: "conf_id c = rec_confidence_id r" "conf_tenant c = rec_tenant r"
      using commit_SomeD [OF dc] eligibility_committable by blast+
    have authority: "\<exists>q \<in> set DECISION_POLICY_LIBRARY. au_id a = policy_authority_id (m_uuid5 env) (dp_id q) \<and> au_risk a \<in> dp_risk q"
      using p(4) assms(4) risk by metis
    show ?thesis using commit_SomeD [OF dc] e assms(1) risk p(2,3) authority by (simp add: backed_def build_decision_def)
  qed
  show ?thesis
  proof (cases "commit (m_fmt env) (m_date env) (m_now env) r c p a")
    case (Inr oc)
    show ?thesis
    proof (cases oc)
      case (Some dc)
      then show ?thesis using b [of dc] Inr
        by (auto simp: persist_decision_def Let_def insert_row_def commits_def split: prod.splits if_splits)
    qed (simp add: Inr persist_decision_def commits_refl)
  qed (simp add: persist_decision_def commits_refl)
qed

lemma commit_one_commits:
  assumes "\<And>c. map_of confidences (rec_confidence_id r) = Some c \<Longrightarrow> c \<in> C"
  shows "commits env {r} C s (snd (commit_one env confidences r s))"
proof (cases "rec_status r = ''proposed''")
  case True
  show ?thesis
  proof (cases "map_of confidences (rec_confidence_id r)")
    case (Some c)
    show ?thesis
    proof (cases "\<exists>p risk. policy_for s r = Inr (Some p) \<and> resolve_risk_tolerance (conf_score c) p = Some risk")
      case p: True
      then obtain p risk where p: "policy_for s r = Inr (Some p)" "resolve_risk_tolerance (conf_score c) p = Some risk" by blast
      define a where "a = \<lparr>au_id = policy_authority_id (m_uuid5 env) (dp_id p), au_label = ''policy:'' @ dp_id p, au_risk = risk\<rparr>"
      have "commits env {r} {c} s (snd (persist_decision env r c p a s))"
        by (rule persist_decision_commits [OF True _ p(1)]) (simp_all add: a_def p(2))
      then have "commits env {r} C s (snd (persist_decision env r c p a s))" using commits_mono assms [OF Some] by blast
      then show ?thesis using True Some p
        by (simp add: commit_one_def commits_refl a_def Let_def split: sum.splits)
    qed (auto simp: commit_one_def True Some commits_refl split: sum.splits option.splits)
  qed (simp add: commit_one_def True commits_refl)
qed (simp add: commit_one_def commits_refl)

lemma commit_each_commits:
  assumes "\<And>i c. map_of confidences i = Some c \<Longrightarrow> c \<in> C"
  shows "commits env (set rs) C s (snd (commit_each env confidences rs s))"
proof (induction rs arbitrary: s)
  case (Cons r rs)
  obtain x s1 where o1: "commit_one env confidences r s = (x, s1)" by fastforce
  have 1: "commits env (set (r # rs)) C s s1"
    by (rule commits_mono [OF commit_one_commits [of confidences r C env s, unfolded o1 snd_conv]]) (use assms in auto)
  have 2: "commits env (set (r # rs)) C s1 (snd (commit_each env confidences rs s1))"
    by (rule commits_mono [OF Cons.IH]) auto
  show ?case using o1 1 commits_trans [OF 1 2] by (cases x) simp_all
qed (simp add: commits_refl)

lemma cycle_commits: "commits env (set recs) (set scores) s (run_decision_cycle env recs scores tenants s)"
proof -
  have one: "commits env (set recs) (set scores) s (snd (commit_tenant env recs scores t s))" for t s
  proof -
    have "c \<in> set scores" if "map_of (dict_of (map (\<lambda>c. (conf_id c, c)) (list_confidence t 500 0 scores))) i = Some c" for i c
    proof -
      have "c \<in> set (list_confidence t 500 0 scores)" using that by (auto simp: map_of_dict_of dest!: map_of_SomeD)
      then show ?thesis by (auto simp: list_confidence_def dest!: in_set_takeD in_set_dropD)
    qed
    from commit_each_commits [OF this] show ?thesis unfolding commit_tenant_def
      by (rule commits_mono) (auto simp: list_recommendations_def)
  qed
  have "commits env (set recs) (set scores) s (fold (\<lambda>t s. case commit_tenant env recs scores t s of
      (Inl _, s1) \<Rightarrow> s1\<lparr>ds_errors := ds_errors s1 + 1\<rparr> | (Inr _, s1) \<Rightarrow> s1) tenants s)"
  proof (induction tenants arbitrary: s)
    case (Cons t ts)
    let ?s1 = "case commit_tenant env recs scores t s of (Inl _, s1) \<Rightarrow> s1\<lparr>ds_errors := ds_errors s1 + 1\<rparr> | (Inr _, s1) \<Rightarrow> s1"
    have "commits env (set recs) (set scores) s ?s1" using one [of s t]
      by (auto simp: commits_def split: prod.splits sum.splits)
    then show ?case using commits_trans [OF _ Cons.IH [of ?s1]] by simp
  qed (simp add: commits_refl)
  then show ?thesis by (simp add: run_decision_cycle_def commits_def)
qed

section \<open>Every eligible offer is committed\<close>

definition formulated :: "recommendation \<Rightarrow> bool" where
  "formulated r \<longleftrightarrow> (\<exists>uuid5 fmt now h c ctx e rc. e \<in> set ACTION_SPACE_LIBRARY \<and> formulate fmt now h c ctx e = Inr (Some rc) \<and>
     r = build_recommendation uuid5 rc)"

lemma formulatedD:
  assumes "formulated r"
  shows "rec_status r = ''proposed''" and "rec_consequences r \<noteq> []" and "list_all prose (rec_consequences r)"
    and "\<exists>e \<in> set ACTION_SPACE_LIBRARY. recommendation_domain (rec_alternatives r) = Inr (Some (as_domain e))"
proof -
  obtain uuid5 fmt now h c ctx e rc where e: "e \<in> set ACTION_SPACE_LIBRARY" "formulate fmt now h c ctx e = Inr (Some rc)"
      and r: "r = build_recommendation uuid5 rc"
    using assms unfolding formulated_def by blast
  show "rec_status r = ''proposed''" using formulate_SomeD(3) [OF e(2)] by (simp add: r build_recommendation_def)
  obtain a where "rc_consequences rc \<noteq> []" "list_all prose (rc_consequences rc)" by (rule catalogue_formulation [OF e])
  then show "rec_consequences r \<noteq> []" "list_all prose (rec_consequences r)" by (simp_all add: r build_recommendation_def)
  show "\<exists>e \<in> set ACTION_SPACE_LIBRARY. recommendation_domain (rec_alternatives r) = Inr (Some (as_domain e))"
    using formulated_domain [OF e] e(1) by (auto simp: r build_recommendation_def)
qed

definition sane_thresholds :: "decision_service \<Rightarrow> bool" where
  "sane_thresholds s \<longleftrightarrow> 0 \<le> ds_min_commit s \<and> ds_min_commit s \<le> ds_min_irreversible s \<and> ds_min_irreversible s \<le> 1"

lemma policy_for_formulated:
  assumes "formulated r" and "sane_thresholds s"
  shows "\<exists>p. policy_for s r = Inr (Some p) \<and> ''medium'' \<in> dp_risk p"
proof -
  obtain e where e: "e \<in> set ACTION_SPACE_LIBRARY" "recommendation_domain (rec_alternatives r) = Inr (Some (as_domain e))"
    using formulatedD(4) [OF assms(1)] by blast
  obtain p where p: "p \<in> set DECISION_POLICY_LIBRARY" "select_policy POLICY_BY_DOMAIN (Some (as_domain e)) = Some p"
    using domain_has_policy [OF e(1)] by blast
  have ok: "decision_policy_ok p = Inr ()" "''medium'' \<in> dp_risk p" using policy_library_ok p(1) by auto
  let ?q = "p\<lparr>dp_min_commit := ds_min_commit s, dp_min_irreversible := ds_min_irreversible s\<rparr>"
  have "decision_policy_ok ?q = Inr ()" using ok(1) assms(2) by (auto simp: decision_policy_ok_def sane_thresholds_def split: if_splits)
  then have "policy_for s r = Inr (Some ?q)" using e(2) p(2) by (simp add: policy_for_def apply_threshold_overrides_def Let_def)
  then show ?thesis using ok(2) by auto
qed

lemma persist_decision_ok:
  assumes "\<And>d. m_accepts env d" and "commit_eligibility r c (Some p) (Some a) = Inr COMMITTABLE" and "rec_consequences r \<noteq> []"
  shows "\<exists>s'. persist_decision env r c p a s = (Inr (), s') \<and> ds_errors s' = ds_errors s \<and>
     decision_id (m_uuid5 env) (rec_tenant r) (rec_id r) (rec_confidence_id r) \<in> dec_id ` set (ds_table s')"
proof -
  obtain dc where dc: "commit (m_fmt env) (m_date env) (m_now env) r c p a = Inr (Some dc)"
      "dc_tenant dc = rec_tenant r" "dc_recommendation dc = rec_id r" "dc_confidence dc = rec_confidence_id r"
    using assms(2,3) by (simp add: commit_def build_expected_outcomes_def Let_def)
  let ?d = "build_decision (m_uuid5 env) dc"
  have i: "dec_id ?d = decision_id (m_uuid5 env) (rec_tenant r) (rec_id r) (rec_confidence_id r)"
    using dc by (simp add: build_decision_def)
  show ?thesis unfolding i [symmetric] using dc(1) assms(1)
    by (cases "dec_id ?d \<in> dec_id ` set (ds_table s)") (simp_all add: persist_decision_def Let_def insert_row_def)
qed

lemma commit_one_ok:
  assumes "\<And>d. m_accepts env d" and "sane_thresholds s" and "formulated r"
    and "\<And>c. map_of confidences (rec_confidence_id r) = Some c \<Longrightarrow> conf_id c = rec_confidence_id r \<and> conf_tenant c = rec_tenant r"
  shows "\<exists>s'. commit_one env confidences r s = (Inr (), s') \<and> ds_errors s' = ds_errors s \<and>
     (\<forall>c. map_of confidences (rec_confidence_id r) = Some c \<and> ds_min_commit s \<le> conf_score c \<longrightarrow>
        decision_id (m_uuid5 env) (rec_tenant r) (rec_id r) (rec_confidence_id r) \<in> dec_id ` set (ds_table s'))"
proof (cases "map_of confidences (rec_confidence_id r)")
  case None
  then show ?thesis using formulatedD(1) [OF assms(3)] by (simp add: commit_one_def)
next
  case (Some c)
  obtain p where p: "policy_for s r = Inr (Some p)" "''medium'' \<in> dp_risk p" using policy_for_formulated [OF assms(3,2)] by blast
  have q: "decision_policy_ok p = Inr ()" "dp_min_commit p = ds_min_commit s" using policy_for_SomeD [OF p(1)] by auto
  show ?thesis
  proof (cases "resolve_risk_tolerance (conf_score c) p")
    case None
    have "\<not> ds_min_commit s \<le> conf_score c"
      using resolve_risk_total [of p "conf_score c"] None p(2) q policy_ok_finite by auto
    then show ?thesis using formulatedD(1) [OF assms(3)] Some p(1) None by (simp add: commit_one_def)
  next
    case r: (Some risk)
    define a where "a = \<lparr>au_id = policy_authority_id (m_uuid5 env) (dp_id p), au_label = ''policy:'' @ dp_id p, au_risk = risk\<rparr>"
    have v: "validate_commit r c = Inr ()" using assms(4) [OF Some] by (simp add: validate_commit_def)
    have e: "commit_eligibility r c (Some p) (Some a) = Inr COMMITTABLE"
      by (rule resolved_committable [OF r policy_ok_finite [OF q(1)] v]) (simp add: a_def)
    obtain s' where s': "persist_decision env r c p a s = (Inr (), s')" "ds_errors s' = ds_errors s"
        "decision_id (m_uuid5 env) (rec_tenant r) (rec_id r) (rec_confidence_id r) \<in> dec_id ` set (ds_table s')"
      using persist_decision_ok [OF assms(1) e formulatedD(2) [OF assms(3)]] by blast
    have "commit_one env confidences r s = (Inr (), s')"
      using formulatedD(1) [OF assms(3)] Some p(1) r e s'(1) by (simp add: commit_one_def a_def Let_def)
    then show ?thesis using s'(2,3) by simp
  qed
qed

lemma commits_sane: "commits env R C s s' \<Longrightarrow> sane_thresholds s' = sane_thresholds s \<and> ds_min_commit s' = ds_min_commit s"
  by (simp add: commits_def sane_thresholds_def)

lemma commits_keeps: "commits env R C s s' \<Longrightarrow> i \<in> dec_id ` set (ds_table s) \<Longrightarrow> i \<in> dec_id ` set (ds_table s')"
  by (auto simp: commits_def)

lemma commit_each_ok:
  assumes "\<And>d. m_accepts env d" and "\<And>r. r \<in> set rs \<Longrightarrow> formulated r"
    and "\<And>r c. r \<in> set rs \<Longrightarrow> map_of confidences (rec_confidence_id r) = Some c \<Longrightarrow>
      conf_id c = rec_confidence_id r \<and> conf_tenant c = rec_tenant r"
  shows "sane_thresholds s \<Longrightarrow> \<exists>s'. commit_each env confidences rs s = (Inr (), s') \<and> ds_errors s' = ds_errors s \<and>
     (\<forall>r \<in> set rs. \<forall>c. map_of confidences (rec_confidence_id r) = Some c \<and> ds_min_commit s \<le> conf_score c \<longrightarrow>
        decision_id (m_uuid5 env) (rec_tenant r) (rec_id r) (rec_confidence_id r) \<in> dec_id ` set (ds_table s'))"
  using assms(2,3)
proof (induction rs arbitrary: s)
  case (Cons r rs)
  obtain s1 where s1: "commit_one env confidences r s = (Inr (), s1)" "ds_errors s1 = ds_errors s"
      "\<forall>c. map_of confidences (rec_confidence_id r) = Some c \<and> ds_min_commit s \<le> conf_score c \<longrightarrow>
        decision_id (m_uuid5 env) (rec_tenant r) (rec_id r) (rec_confidence_id r) \<in> dec_id ` set (ds_table s1)"
    using commit_one_ok [OF assms(1) Cons.prems(1), of r confidences] Cons.prems(2,3) by auto
  have "commits env {r} UNIV s s1" using commit_one_commits [of confidences r UNIV env s] s1(1) by simp
  then have sane: "sane_thresholds s1" "ds_min_commit s1 = ds_min_commit s" using commits_sane Cons.prems(1) by blast+
  obtain s2 where s2: "commit_each env confidences rs s1 = (Inr (), s2)" "ds_errors s2 = ds_errors s1"
      "\<forall>r \<in> set rs. \<forall>c. map_of confidences (rec_confidence_id r) = Some c \<and> ds_min_commit s1 \<le> conf_score c \<longrightarrow>
        decision_id (m_uuid5 env) (rec_tenant r) (rec_id r) (rec_confidence_id r) \<in> dec_id ` set (ds_table s2)"
    using Cons.IH [OF sane(1)] Cons.prems(2,3) by auto
  have "commits env (set rs) UNIV s1 s2" using commit_each_commits [of confidences UNIV env rs s1] s2(1) by simp
  then have "\<forall>i \<in> dec_id ` set (ds_table s1). i \<in> dec_id ` set (ds_table s2)" using commits_keeps by blast
  then show ?case using s1 s2 sane(2) by auto
qed simp

lemma commit_tenant_ok:
  assumes "\<And>d. m_accepts env d" and "\<And>r. r \<in> set recs \<Longrightarrow> formulated r" and "sane_thresholds s"
  shows "\<exists>s'. commit_tenant env recs scores t s = (Inr (), s') \<and> ds_errors s' = ds_errors s \<and>
     (\<forall>r \<in> set recs. \<forall>c \<in> set (list_confidence t 500 0 scores). rec_tenant r = t \<and> conf_id c = rec_confidence_id r \<and>
        distinct (map conf_id scores) \<and> ds_min_commit s \<le> conf_score c \<longrightarrow>
        decision_id (m_uuid5 env) t (rec_id r) (conf_id c) \<in> dec_id ` set (ds_table s'))"
proof -
  let ?cs = "list_confidence t 500 0 scores"
  let ?m = "dict_of (map (\<lambda>c. (conf_id c, c)) ?cs)"
  have m: "conf_id c = i \<and> conf_tenant c = t" if "map_of ?m i = Some c" for i c
    using that by (auto simp: map_of_dict_of list_confidence_def dest!: map_of_SomeD in_set_takeD in_set_dropD)
  have known: "map_of ?m (conf_id c) = Some c" if "c \<in> set ?cs" "distinct (map conf_id scores)" for c
  proof -
    have "distinct (map conf_id ?cs)"
      using that(2) by (simp add: list_confidence_def distinct_map inj_on_def) (auto dest!: in_set_takeD in_set_dropD)
    then show ?thesis using that(1) by (simp add: map_of_dict_of map_of_eq_Some_iff comp_def rev_map [symmetric])
  qed
  let ?rs = "list_recommendations t recs"
  have rs: "set ?rs = {r \<in> set recs. rec_tenant r = t}" by (auto simp: list_recommendations_def)
  obtain s' where s': "commit_each env ?m ?rs s = (Inr (), s')" "ds_errors s' = ds_errors s"
      "\<forall>r \<in> set ?rs. \<forall>c. map_of ?m (rec_confidence_id r) = Some c \<and> ds_min_commit s \<le> conf_score c \<longrightarrow>
        decision_id (m_uuid5 env) (rec_tenant r) (rec_id r) (rec_confidence_id r) \<in> dec_id ` set (ds_table s')"
  proof (rule exE [OF commit_each_ok [where rs = ?rs and confidences = ?m and env = env, OF assms(1) _ _ assms(3)]])
    show "formulated r" if "r \<in> set ?rs" for r using that assms(2) rs by blast
    show "conf_id c = rec_confidence_id r \<and> conf_tenant c = rec_tenant r"
      if "r \<in> set ?rs" "map_of ?m (rec_confidence_id r) = Some c" for r c using that m [of _ c] rs by auto
  qed (use that in blast)
  have "decision_id (m_uuid5 env) t (rec_id r) (conf_id c) \<in> dec_id ` set (ds_table s')"
    if "r \<in> set recs" "c \<in> set ?cs" "rec_tenant r = t" "conf_id c = rec_confidence_id r" "distinct (map conf_id scores)"
      "ds_min_commit s \<le> conf_score c" for r c
  proof -
    have "map_of ?m (rec_confidence_id r) = Some c" using known [OF that(2,5)] that(4) by simp
    then show ?thesis using s'(3) that(1,3,4,6) rs by fastforce
  qed
  then show ?thesis using s'(1,2) by (auto simp: commit_tenant_def)
qed

lemma commit_tenant_commits: "commits env (set recs) (set scores) s (snd (commit_tenant env recs scores t s))"
proof -
  have "c \<in> set scores" if "map_of (dict_of (map (\<lambda>c. (conf_id c, c)) (list_confidence t 500 0 scores))) i = Some c" for i c
    using that by (auto simp: map_of_dict_of list_confidence_def dest!: map_of_SomeD in_set_takeD in_set_dropD)
  from commit_each_commits [OF this] show ?thesis unfolding commit_tenant_def
    by (rule commits_mono) (auto simp: list_recommendations_def)
qed

lemma tenants_ok:
  assumes "\<And>d. m_accepts env d" and "\<And>r. r \<in> set recs \<Longrightarrow> formulated r" and "distinct (map conf_id scores)"
  shows "sane_thresholds s \<Longrightarrow>
     let s' = fold (\<lambda>t s. case commit_tenant env recs scores t s of
         (Inl _, s1) \<Rightarrow> s1\<lparr>ds_errors := ds_errors s1 + 1\<rparr> | (Inr _, s1) \<Rightarrow> s1) tenants s
     in ds_errors s' = ds_errors s \<and> commits env (set recs) (set scores) s s' \<and>
       (\<forall>r \<in> set recs. \<forall>c \<in> set (list_confidence (rec_tenant r) 500 0 scores). rec_tenant r \<in> set tenants \<and>
          conf_id c = rec_confidence_id r \<and> ds_min_commit s \<le> conf_score c \<longrightarrow>
          decision_id (m_uuid5 env) (rec_tenant r) (rec_id r) (conf_id c) \<in> dec_id ` set (ds_table s'))"
proof (induction tenants arbitrary: s)
  case (Cons t ts)
  obtain s1 where s1: "commit_tenant env recs scores t s = (Inr (), s1)" "ds_errors s1 = ds_errors s"
      "\<forall>r \<in> set recs. \<forall>c \<in> set (list_confidence t 500 0 scores). rec_tenant r = t \<and> conf_id c = rec_confidence_id r \<and>
        distinct (map conf_id scores) \<and> ds_min_commit s \<le> conf_score c \<longrightarrow>
        decision_id (m_uuid5 env) t (rec_id r) (conf_id c) \<in> dec_id ` set (ds_table s1)"
    using commit_tenant_ok [OF assms(1) assms(2) Cons.prems] by blast
  have c1: "commits env (set recs) (set scores) s s1" using commit_tenant_commits [of env recs scores s t] s1(1) by simp
  have sane: "sane_thresholds s1" "ds_min_commit s1 = ds_min_commit s" using commits_sane [OF c1] Cons.prems by auto
  define s' where "s' = fold (\<lambda>t s. case commit_tenant env recs scores t s of
         (Inl _, s1) \<Rightarrow> s1\<lparr>ds_errors := ds_errors s1 + 1\<rparr> | (Inr _, s1) \<Rightarrow> s1) ts s1"
  have ih: "ds_errors s' = ds_errors s1" "commits env (set recs) (set scores) s1 s'"
      "\<forall>r \<in> set recs. \<forall>c \<in> set (list_confidence (rec_tenant r) 500 0 scores). rec_tenant r \<in> set ts \<and>
          conf_id c = rec_confidence_id r \<and> ds_min_commit s1 \<le> conf_score c \<longrightarrow>
          decision_id (m_uuid5 env) (rec_tenant r) (rec_id r) (conf_id c) \<in> dec_id ` set (ds_table s')"
    using Cons.IH [OF sane(1)] by (simp_all add: Let_def s'_def)
  have k: "i \<in> dec_id ` set (ds_table s1) \<Longrightarrow> i \<in> dec_id ` set (ds_table s')" for i by (rule commits_keeps [OF ih(2)])
  have "decision_id (m_uuid5 env) (rec_tenant r) (rec_id r) (conf_id c) \<in> dec_id ` set (ds_table s')"
    if "r \<in> set recs" "c \<in> set (list_confidence (rec_tenant r) 500 0 scores)" "rec_tenant r \<in> set (t # ts)"
      "conf_id c = rec_confidence_id r" "ds_min_commit s \<le> conf_score c" for r c
  proof (cases "rec_tenant r = t")
    case True
    then show ?thesis using k s1(3) that assms(3) by metis
  next
    case False
    then show ?thesis using ih(3) that sane(2) by auto
  qed
  then show ?case using s1(1,2) ih(1) commits_trans [OF c1 ih(2)] by (auto simp: Let_def s'_def [symmetric])
qed (simp add: commits_refl)

section \<open>Partial reports\<close>

lemma compare_loop_lengths:
  "case compare_loop actuals expected of (ps, os, ds) \<Rightarrow>
     length ps = length (filter (\<lambda>eo. get eo ''verifiable_by'' \<noteq> JNull \<and> actual_for actuals (get eo ''verifiable_by'') \<noteq> None) expected) \<and>
     length os = length (filter (\<lambda>eo. get eo ''verifiable_by'' \<noteq> JNull) expected)"
  by (induction expected) (auto simp: prediction_and_metric_def split: prod.splits option.splits)

definition ex_commit_env :: commit_env where
  "ex_commit_env = \<lparr>m_uuid5 = (\<lambda>_ _. 11), m_fmt = (\<lambda>_. []), m_date = (\<lambda>_. []), m_accepts = (\<lambda>_. True), m_now = 0\<rparr>"

definition ex_decisions :: decision_service where
  "ex_decisions = \<lparr>ds_table = [], ds_min_commit = 3/4, ds_min_irreversible = 9/10, ds_total = 0, ds_duplicates = 0, ds_below = 0,
     ds_skipped = 0, ds_errors = 0, ds_by_status = (\<lambda>_. 0), ds_by_risk = (\<lambda>_. 0), ds_last_run_at = None\<rparr>"

definition ex_rec :: recommendation where
  "ex_rec = build_recommendation (\<lambda>_ _. 9) (ex_offer (4/5))"

lemma ex_rec: "formulated ex_rec" "rec_tenant ex_rec = 7" "rec_confidence_id ex_rec = 6" "rec_id ex_rec = 9"
proof -
  have f: "formulate (\<lambda>_. []) 0 ex_leading (ex_confidence (4/5)) ex_scope ex_space = Inr (Some (ex_offer (4/5)))"
    by (rule ex_formulate) simp_all
  then show "formulated ex_rec" unfolding formulated_def ex_rec_def using ex_space(1) by blast
  show "rec_tenant ex_rec = 7" "rec_confidence_id ex_rec = 6" "rec_id ex_rec = 9"
    using formulate_SomeD(3) [OF f]
    by (simp_all add: ex_rec_def build_recommendation_def recommendation_id_def ex_leading_def ex_confidence_def)
qed

section \<open>Properties\<close>

text \<open>
  C37. The domain of an offer is recovered from its alternatives: whatever offer the formulator makes in a
  space of the catalogue, the committer reads back the domain of the active context, and that domain has a
  commitment policy.
\<close>

theorem offer_domain_roundtrip:
  assumes "e \<in> set ACTION_SPACE_LIBRARY" and "formulate fmt now h c ctx e = Inr (Some rc)"
  shows "recommendation_domain (rec_alternatives (build_recommendation uuid5 rc)) = Inr (resolve_domain ctx) \<and>
     (\<exists>p \<in> set DECISION_POLICY_LIBRARY. select_policy POLICY_BY_DOMAIN (resolve_domain ctx) = Some p \<and> resolve_domain ctx = Some (dp_domain p))"
  using formulated_domain [OF assms] formulate_SomeD(2) [OF assms(2)] domain_has_policy [OF assms(1)]
  by (auto simp: build_recommendation_def)

theorem offer_domain_roundtrip_witness:
  "recommendation_domain (rec_alternatives ex_rec) = Inr (Some ''storage'')"
proof -
  have f: "formulate (\<lambda>_. []) 0 ex_leading (ex_confidence (4/5)) ex_scope ex_space = Inr (Some (ex_offer (4/5)))"
    by (rule ex_formulate) simp_all
  show ?thesis using offer_domain_roundtrip [OF ex_space(1) f, of "\<lambda>_ _. 9"]
    by (simp add: ex_rec_def resolve_domain_def MENTAL_MODEL_DOMAINS_def ex_scope_def)
qed

text \<open>
  C7. Nothing is committed without its grounds: every decision a cycle adds rests on a proposed offer and
  the confidence bound to it, of the same tenant, at or above the commitment threshold, at or above the
  irreversible threshold when its risk is high, under the authority and a risk level of a policy of the
  catalogue; it predicts every consequence of the offer, and it is neither executed nor has outcomes.
\<close>

theorem commitments_backed:
  "\<exists>new. ds_table (run_decision_cycle env recs scores tenants s) = ds_table s @ new \<and>
     (\<forall>d \<in> set new. \<exists>r \<in> set recs. \<exists>c \<in> set scores. backed env s r c d)"
  using cycle_commits [of env recs scores s tenants] by (simp add: commits_def)

theorem commitments_backed_witness:
  "\<exists>new. ds_table (run_decision_cycle ex_commit_env [ex_rec] [ex_confidence (4/5)] [7] ex_decisions) = ds_table ex_decisions @ new \<and>
     (\<forall>d \<in> set new. \<exists>r \<in> set [ex_rec]. \<exists>c \<in> set [ex_confidence (4/5)]. backed ex_commit_env ex_decisions r c d)"
  by (rule commitments_backed)

text \<open>
  C8. Every eligible offer is committed: when all offers come from the catalogue, the thresholds are in
  order and the database accepts the rows, a cycle ends without an error and each offer whose confidence is
  among the first 500 of its tenant and reaches the threshold has its decision.
\<close>

theorem eligible_offers_committed:
  assumes "\<forall>d. m_accepts env d" and "\<forall>r \<in> set recs. formulated r" and "distinct (map conf_id scores)"
    and "0 \<le> ds_min_commit s \<and> ds_min_commit s \<le> ds_min_irreversible s \<and> ds_min_irreversible s \<le> 1"
    and "r \<in> set recs" and "rec_tenant r \<in> set tenants" and "c \<in> set (list_confidence (rec_tenant r) 500 0 scores)"
    and "conf_id c = rec_confidence_id r" and "ds_min_commit s \<le> conf_score c"
  shows "decision_id (m_uuid5 env) (rec_tenant r) (rec_id r) (conf_id c) \<in>
       dec_id ` set (ds_table (run_decision_cycle env recs scores tenants s)) \<and>
     ds_errors (run_decision_cycle env recs scores tenants s) = ds_errors s"
proof -
  have "sane_thresholds s" using assms(4) by (simp add: sane_thresholds_def)
  from tenants_ok [where env = env and recs = recs and scores = scores and tenants = tenants, OF _ _ assms(3) this]
  show ?thesis
    using assms by (auto simp: run_decision_cycle_def Let_def)
qed

theorem eligible_offers_committed_witness:
  "11 \<in> dec_id ` set (ds_table (run_decision_cycle ex_commit_env [ex_rec] [ex_confidence (4/5)] [7] ex_decisions))"
  using eligible_offers_committed [of ex_commit_env "[ex_rec]" "[ex_confidence (4/5)]" ex_decisions ex_rec "[7]" "ex_confidence (4/5)"]
  by (simp add: ex_rec ex_commit_env_def ex_decisions_def list_confidence_def ex_confidence_def decision_id_def)

text \<open>
  A partial report cannot be compared: as soon as one expected outcome has been reported and another
  has not, the comparison raises, because the unreported one adds an outcome without a prediction.
\<close>

theorem partial_report_raises:
  assumes "x \<in> set expected" and "actual_for actuals (get x ''verifiable_by'') \<noteq> None" and "get x ''verifiable_by'' \<noteq> JNull"
    and "y \<in> set expected" and "actual_for actuals (get y ''verifiable_by'') = None" and "get y ''verifiable_by'' \<noteq> JNull"
    and "\<forall>ao \<in> set (actuals @ expected). \<not> unhashable (get ao ''verifiable_by'')"
  shows "\<exists>msg. compare_expected_actual_outcomes expected (Some actuals) params = Inl (ValueError msg)"
proof -
  obtain ps os ds where l: "compare_loop actuals expected = (ps, os, ds)" by (cases "compare_loop actuals expected")
  let ?m = "filter (\<lambda>eo. get eo ''verifiable_by'' \<noteq> JNull) expected"
  let ?r = "filter (\<lambda>eo. get eo ''verifiable_by'' \<noteq> JNull \<and> actual_for actuals (get eo ''verifiable_by'') \<noteq> None) expected"
  have n: "length ps = length ?r" "length os = length ?m" using compare_loop_lengths [of actuals expected] l by simp_all
  have "?r = filter (\<lambda>eo. actual_for actuals (get eo ''verifiable_by'') \<noteq> None) ?m" by (simp add: conj_commute)
  moreover have "length (filter (\<lambda>eo. actual_for actuals (get eo ''verifiable_by'') \<noteq> None) ?m) < length ?m"
    by (rule length_filter_less [of y]) (use assms(4-6) in auto)
  ultimately have "length ps < length os" using n by simp
  moreover have "ps \<noteq> []" using n(1) assms(1-3) by (force simp: filter_empty_conv simp flip: length_greater_0_conv)
  moreover have "expected \<noteq> []" using assms(1) by auto
  ultimately show ?thesis using assms(7) l by (simp add: compare_expected_actual_outcomes_def brier_score_def)
qed

theorem partial_report_raises_witness:
  "\<exists>msg. compare_expected_actual_outcomes [[(''verifiable_by'', JStr ''a'')], [(''verifiable_by'', JStr ''b'')]]
     (Some [[(''verifiable_by'', JStr ''a'')]]) default_params = Inl (ValueError msg)"
  by (rule partial_report_raises [of "[(''verifiable_by'', JStr ''a'')]" _ _ "[(''verifiable_by'', JStr ''b'')]"])
    (simp_all add: actual_for_def get_def unhashable_def)

end
