(* ===== verification/Outcome_Learning.thy ===== *)
theory Outcome_Learning
  imports Calibration
begin

text \<open>
  What is learned from the outcomes of decisions: the consolidation of \<open>libs/memory/consolidation.py\<close>
  and the signals for patterns, contexts and insights of \<open>pattern_refinement.py\<close>,
  \<open>context_revision.py\<close> and \<open>insight_transformation.py\<close>, each computed from the first page the read
  stores of the gateway return. The payload rows of the read stores are the records of the
  artifacts; their identifiers, texts in the payloads, are the identifiers themselves.
\<close>

section \<open>Consolidation (consolidation.py)\<close>

text \<open>
  What \<open>build_consolidation\<close> reads of a decision. \<open>ov_status\<close> is \<open>None\<close> for the payload views,
  which have no \<open>outcome_status\<close>.
\<close>

record outcome_view =
  ov_id :: uuid
  ov_tenant :: uuid
  ov_expected :: "json list"
  ov_actual :: "json list"
  ov_status :: "string option"

definition decision_object :: "decision \<Rightarrow> outcome_view" where
  "decision_object d = \<lparr>ov_id = dec_id d, ov_tenant = dec_tenant d, ov_expected = map JObj (dec_expected d),
     ov_actual = (case dec_actual d of None \<Rightarrow> [] | Some os \<Rightarrow> map JObj os), ov_status = Some (dec_outcome_status d)\<rparr>"

text \<open>\<open>_DecisionView\<close>\<close>

definition decision_view :: "decision \<Rightarrow> outcome_view" where
  "decision_view d = (decision_object d)\<lparr>ov_status := None\<rparr>"

definition binary_outcome :: "json \<Rightarrow> int option" where
  "binary_outcome v = (case v of
       JBool b \<Rightarrow> Some (if b then 1 else 0)
     | JInt n \<Rightarrow> Some (if n \<noteq> 0 then 1 else 0)
     | JFloat x \<Rightarrow> Some (if x \<noteq> 0 then 1 else 0)
     | JStr s \<Rightarrow> (let low = lower (strip s)
          in if low \<in> {''true'', ''success'', ''ok'', ''yes'', ''1''} then Some 1
             else if low \<in> {''false'', ''failure'', ''fail'', ''no'', ''0'', []} then Some 0 else None)
     | _ \<Rightarrow> None)"

record outcome_detail =
  od_metric :: "string option"
  od_prediction :: "real option"
  od_class :: string
  od_reason :: "string option"
  od_actual :: "int option"

definition predicted :: "dict \<Rightarrow> real" where
  "predicted eo = (case float_or_none (get_default eo ''predictiction'' (get_default eo ''prediction'' (JStr []))) of
     None \<Rightarrow> 0 | Some x \<Rightarrow> x)"

definition metric_of :: "(json \<Rightarrow> string) \<Rightarrow> dict \<Rightarrow> string option" where
  "metric_of str_of eo = (let m = get eo ''verifiable_by'' in if m = JNull then None else Some (py_str str_of m))"

definition classify_expected_outcome :: "(json \<Rightarrow> string) \<Rightarrow> dict \<Rightarrow> (string \<times> dict) list \<Rightarrow> real \<Rightarrow> outcome_detail" where
  "classify_expected_outcome str_of eo by_metric threshold =
     (let pred = predicted eo; metric = metric_of str_of eo; positive = (pred \<ge> threshold)
      in case Option.bind metric (map_of by_metric) of
           None \<Rightarrow> \<lparr>od_metric = metric, od_prediction = Some (round_to 4 pred), od_class = ''inconclusive'',
                    od_reason = Some ''no_actual_outcome'', od_actual = None\<rparr>
         | Some actual \<Rightarrow>
             (case binary_outcome (get actual ''value'') of
                None \<Rightarrow> \<lparr>od_metric = metric, od_prediction = Some (round_to 4 pred), od_class = ''inconclusive'',
                         od_reason = Some ''actual_unparseable'', od_actual = None\<rparr>
              | Some b \<Rightarrow> \<lparr>od_metric = metric, od_prediction = Some (round_to 4 pred),
                  od_class = (if (positive \<and> b = 1) \<or> (\<not> positive \<and> b = 0) then ''corroborated'' else ''contradicted''),
                  od_reason = None, od_actual = Some b\<rparr>))"

record consolidation =
  cn_decision :: uuid
  cn_tenant :: uuid
  cn_has_actuals :: bool
  cn_expected :: nat
  cn_actuals :: nat
  cn_corroborated :: nat
  cn_contradicted :: nat
  cn_inconclusive :: nat
  cn_feedback :: real
  cn_brier :: "real option"
  cn_ece :: "real option"
  cn_details :: "outcome_detail list"

definition dicts :: "json list \<Rightarrow> dict list" where
  "dicts xs = List.map_filter (\<lambda>x. case x of JObj d \<Rightarrow> Some d | _ \<Rightarrow> None) xs"

definition detail_of :: "(json \<Rightarrow> string) \<Rightarrow> (string \<times> dict) list \<Rightarrow> json \<Rightarrow> outcome_detail" where
  "detail_of str_of by_metric x = (case x of
       JObj eo \<Rightarrow> classify_expected_outcome str_of eo by_metric (1/2)
     | _ \<Rightarrow> \<lparr>od_metric = None, od_prediction = None, od_class = ''inconclusive'', od_reason = None, od_actual = None\<rparr>)"

definition count_class :: "string \<Rightarrow> outcome_detail list \<Rightarrow> nat" where
  "count_class c ds = length (filter (\<lambda>d. od_class d = c) ds)"

text \<open>The predictions and outcomes of the details that were decided.\<close>

definition decided :: "outcome_detail list \<Rightarrow> (real \<times> int) list" where
  "decided ds = List.map_filter (\<lambda>d. if od_class d = ''corroborated'' \<or> od_class d = ''contradicted''
     then (case (od_prediction d, od_actual d) of (Some p, Some b) \<Rightarrow> Some (p, b) | _ \<Rightarrow> None) else None) ds"

definition feedback :: "nat \<Rightarrow> nat \<Rightarrow> real" where
  "feedback corroborated contradicted =
     (if corroborated + contradicted > 0
      then (of_nat corroborated - of_nat contradicted) / of_nat (corroborated + contradicted) else 0)"

definition scores :: "(real \<times> int) list \<Rightarrow> (real option \<times> real option) result" where
  "scores ps =
     (if ps = [] then Inr (None, None)
      else and_then (brier_score (map fst ps) (map snd ps)) (\<lambda>b.
           and_then (ece_score (map fst ps) (map snd ps) (bins default_params)) (\<lambda>e.
             Inr (Some (round_to 4 b), Some (round_to 4 e)))))"

definition build_consolidation :: "(json \<Rightarrow> string) \<Rightarrow> outcome_view \<Rightarrow> consolidation result" where
  "build_consolidation str_of d =
     (if ov_status d = Some ''pending''
      then Inr \<lparr>cn_decision = ov_id d, cn_tenant = ov_tenant d, cn_has_actuals = False,
             cn_expected = length (ov_expected d), cn_actuals = 0, cn_corroborated = 0, cn_contradicted = 0,
             cn_inconclusive = length (ov_expected d), cn_feedback = 0, cn_brier = None, cn_ece = None,
             cn_details = map (\<lambda>_. \<lparr>od_metric = None, od_prediction = None, od_class = ''inconclusive'',
               od_reason = Some ''outcome_status_pending'', od_actual = None\<rparr>) (ov_expected d)\<rparr>
      else (let by_metric = actual_by_metric str_of (dicts (ov_actual d));
                details = map (detail_of str_of by_metric) (ov_expected d);
                corroborated = count_class ''corroborated'' details;
                contradicted = count_class ''contradicted'' details
            in and_then (scores (decided details)) (\<lambda>(brier, ece).
                 Inr \<lparr>cn_decision = ov_id d, cn_tenant = ov_tenant d, cn_has_actuals = (ov_actual d \<noteq> []),
                   cn_expected = length (ov_expected d), cn_actuals = length (ov_actual d),
                   cn_corroborated = corroborated, cn_contradicted = contradicted,
                   cn_inconclusive = count_class ''inconclusive'' details,
                   cn_feedback = round_to 4 (feedback corroborated contradicted),
                   cn_brier = brier, cn_ece = ece, cn_details = details\<rparr>)))"

record consolidation_report =
  cr_tenant :: uuid
  cr_total :: nat
  cr_with_actuals :: nat
  cr_corroborated :: nat
  cr_contradicted :: nat
  cr_inconclusive :: nat
  cr_feedback :: real
  cr_brier :: "real option"
  cr_ece :: "real option"
  cr_results :: "consolidation list"

definition consolidate_decisions :: "(json \<Rightarrow> string) \<Rightarrow> uuid \<Rightarrow> decision list \<Rightarrow> consolidation_report result" where
  "consolidate_decisions str_of tenant ds =
     (case find (\<lambda>d. dec_tenant d \<noteq> tenant) ds of
        Some d \<Rightarrow> Inl (CrossTenantConsolidationError (dec_id d) (dec_tenant d) tenant)
      | None \<Rightarrow>
          and_then (traverse (\<lambda>d. build_consolidation str_of (decision_object d)) ds) (\<lambda>results.
            (let corroborated = sum_list (map cn_corroborated results);
                 contradicted = sum_list (map cn_contradicted results)
             in and_then (scores (decided (concat (map cn_details results)))) (\<lambda>(brier, ece).
                  Inr \<lparr>cr_tenant = tenant, cr_total = length results,
                    cr_with_actuals = length (filter cn_has_actuals results),
                    cr_corroborated = corroborated, cr_contradicted = contradicted,
                    cr_inconclusive = sum_list (map cn_inconclusive results),
                    cr_feedback = round_to 4 (feedback corroborated contradicted),
                    cr_brier = brier, cr_ece = ece, cr_results = results\<rparr>))))"

section \<open>Attribution along the trace\<close>

text \<open>\<open>list_*(tenant_id=...)\<close> of a read store without a page: the 50 newest rows.\<close>

definition first_page :: "('r \<Rightarrow> uuid) \<Rightarrow> ('r \<Rightarrow> datetime) \<Rightarrow> ('r \<Rightarrow> uuid) \<Rightarrow> uuid \<Rightarrow> 'r list \<Rightarrow> 'r list" where
  "first_page owner at_time key tenant rows =
     take 50 (sort_key (\<lambda>r. (- at_time r, key r)) (filter (\<lambda>r. owner r = tenant) rows))"

definition by_id :: "('r \<Rightarrow> uuid) \<Rightarrow> 'r list \<Rightarrow> uuid \<Rightarrow> 'r option" where
  "by_id key rows i = map_of (dict_of (map (\<lambda>r. (key r, r)) rows)) i"

record attribution =
  at_corroborated :: nat
  at_contradicted :: nat
  at_inconclusive :: nat
  at_linked :: nat

definition credit :: "uuid \<times> consolidation \<Rightarrow> (uuid \<Rightarrow> attribution option) \<Rightarrow> uuid \<Rightarrow> attribution option" where
  "credit = (\<lambda>(k, c) m. m(k \<mapsto>
     (let a = (case m k of None \<Rightarrow> \<lparr>at_corroborated = 0, at_contradicted = 0, at_inconclusive = 0, at_linked = 0\<rparr> | Some a \<Rightarrow> a)
      in \<lparr>at_corroborated = at_corroborated a + cn_corroborated c, at_contradicted = at_contradicted a + cn_contradicted c,
          at_inconclusive = at_inconclusive a + cn_inconclusive c, at_linked = at_linked a + 1\<rparr>)))"

text \<open>
  The loop over the decisions with outcomes; \<open>targets\<close> are the artifacts a decision is traced to.
\<close>

definition attribute_outcomes :: "(json \<Rightarrow> string) \<Rightarrow> (decision \<Rightarrow> uuid list) \<Rightarrow> decision list \<Rightarrow>
    (uuid \<Rightarrow> attribution option) result" where
  "attribute_outcomes str_of targets ds =
     (let judged = filter (\<lambda>d. dec_actual d \<noteq> None \<and> dec_actual d \<noteq> Some []) ds
      in and_then (traverse (\<lambda>d. build_consolidation str_of (decision_view d)) judged) (\<lambda>cs.
           Inr (fold credit (concat (map2 (\<lambda>d c. map (\<lambda>k. (k, c)) (targets d)) judged cs)) Map.empty)))"

definition pattern_targets :: "recommendation list \<Rightarrow> hypothesis list \<Rightarrow> pattern list \<Rightarrow> decision \<Rightarrow> uuid list" where
  "pattern_targets recs hyps pats d =
     (case by_id rec_id recs (dec_recommendation d) of None \<Rightarrow> []
      | Some r \<Rightarrow> (case by_id hyp_id hyps (rec_hypothesis r) of None \<Rightarrow> []
          | Some h \<Rightarrow> filter (\<lambda>p. by_id pat_id pats p \<noteq> None) (hyp_pattern_ids h)))"

definition context_targets :: "recommendation list \<Rightarrow> hypothesis list \<Rightarrow> pattern list \<Rightarrow> decision \<Rightarrow> uuid list" where
  "context_targets recs hyps pats d =
     (case by_id rec_id recs (dec_recommendation d) of None \<Rightarrow> []
      | Some r \<Rightarrow> (case by_id hyp_id hyps (rec_hypothesis r) of None \<Rightarrow> []
          | Some h \<Rightarrow> List.map_filter (\<lambda>p. map_option pat_context (by_id pat_id pats p)) (hyp_pattern_ids h)))"

definition insight_targets :: "recommendation list \<Rightarrow> decision \<Rightarrow> uuid list" where
  "insight_targets recs d =
     (case by_id rec_id recs (dec_recommendation d) of None \<Rightarrow> []
      | Some r \<Rightarrow> (case rec_insight r of None \<Rightarrow> [] | Some i \<Rightarrow> [i]))"

section \<open>Pattern refinement (pattern_refinement.py)\<close>

record pattern_refinement =
  pr_pattern :: uuid
  pr_type :: string
  pr_context :: uuid
  pr_tenant :: uuid
  pr_attribution :: attribution
  pr_ratio :: real
  pr_current :: real
  pr_recommended :: real
  pr_action :: string

definition contradiction_ratio :: "attribution \<Rightarrow> real" where
  "contradiction_ratio a = (let n = at_corroborated a + at_contradicted a
     in if n > 0 then of_nat (at_contradicted a) / of_nat n else 0)"

definition refine_pattern :: "pattern \<Rightarrow> attribution \<Rightarrow> pattern_refinement" where
  "refine_pattern p a =
     (let n = at_corroborated a + at_contradicted a; ratio = contradiction_ratio a; current = pat_strength p;
          (action, recommended) =
            (if n < 2 then (''keep'', current)
             else if ratio \<ge> 1/2 then (''deactivate'', 0)
             else if at_contradicted a > 0 then (''degrade'', round_to 4 (current * (of_nat (at_corroborated a) / of_nat n)))
             else (''keep'', current))
      in \<lparr>pr_pattern = pat_id p, pr_type = pat_type p, pr_context = pat_context p, pr_tenant = pat_tenant p,
          pr_attribution = a, pr_ratio = round_to 4 ratio, pr_current = current, pr_recommended = recommended,
          pr_action = action\<rparr>)"

text \<open>The tables the read stores of the gateway see.\<close>

record canonical =
  k_decisions :: "decision list"
  k_recommendations :: "recommendation list"
  k_hypotheses :: "hypothesis list"
  k_patterns :: "pattern list"
  k_contexts :: "context_row list"
  k_insights :: "insight list"

definition page_decisions :: "uuid \<Rightarrow> canonical \<Rightarrow> decision list" where
  "page_decisions tenant k = first_page dec_tenant dec_committed_at dec_id tenant (k_decisions k)"

definition page_recommendations :: "uuid \<Rightarrow> canonical \<Rightarrow> recommendation list" where
  "page_recommendations tenant k = first_page rec_tenant rec_proposed_at rec_id tenant (k_recommendations k)"

definition page_hypotheses :: "uuid \<Rightarrow> canonical \<Rightarrow> hypothesis list" where
  "page_hypotheses tenant k = first_page hyp_tenant hyp_generated_at hyp_id tenant (k_hypotheses k)"

definition page_patterns :: "uuid \<Rightarrow> canonical \<Rightarrow> pattern list" where
  "page_patterns tenant k = first_page pat_tenant pat_detected_at pat_id tenant (k_patterns k)"

definition page_contexts :: "uuid \<Rightarrow> canonical \<Rightarrow> context_row list" where
  "page_contexts tenant k = first_page ctx_tenant ctx_activated_at ctx_id tenant (k_contexts k)"

definition page_insights :: "uuid \<Rightarrow> canonical \<Rightarrow> insight list" where
  "page_insights tenant k = first_page ins_tenant ins_generated_at ins_id tenant (k_insights k)"

text \<open>A report: the artifacts of the page with an attribution, in page order.\<close>

definition build_pattern_refinement :: "(json \<Rightarrow> string) \<Rightarrow> uuid \<Rightarrow> canonical \<Rightarrow> pattern_refinement list result" where
  "build_pattern_refinement str_of tenant k =
     (let pats = page_patterns tenant k
      in and_then (attribute_outcomes str_of (pattern_targets (page_recommendations tenant k) (page_hypotheses tenant k) pats)
             (page_decisions tenant k)) (\<lambda>m.
           Inr (List.map_filter (\<lambda>p. map_option (refine_pattern p) (m (pat_id p))) pats)))"

section \<open>Context revision (context_revision.py)\<close>

record context_revision =
  cv_context :: uuid
  cv_tenant :: uuid
  cv_attribution :: attribution
  cv_ratio :: real
  cv_competing :: bool
  cv_revision :: string
  cv_competitor :: "string option"

definition revise_context :: "context_row \<Rightarrow> attribution \<Rightarrow> context_revision" where
  "revise_context c a =
     (let n = at_corroborated a + at_contradicted a; ratio = contradiction_ratio a; competing = ctx_competing c;
          (revision, suggested) =
            (if n < 2 \<or> at_contradicted a = 0 then (''keep'', None)
             else if ratio \<ge> 1/2 \<and> competing \<noteq> [] then (''consider_competitor'', Some (fst (hd competing)))
             else (''review'', None))
      in \<lparr>cv_context = ctx_id c, cv_tenant = ctx_tenant c, cv_attribution = a, cv_ratio = round_to 4 ratio,
          cv_competing = (competing \<noteq> []), cv_revision = revision, cv_competitor = suggested\<rparr>)"

definition build_context_revision :: "(json \<Rightarrow> string) \<Rightarrow> uuid \<Rightarrow> canonical \<Rightarrow> context_revision list result" where
  "build_context_revision str_of tenant k =
     and_then (attribute_outcomes str_of (context_targets (page_recommendations tenant k) (page_hypotheses tenant k)
         (page_patterns tenant k)) (page_decisions tenant k)) (\<lambda>m.
       Inr (List.map_filter (\<lambda>c. map_option (revise_context c) (m (ctx_id c))) (page_contexts tenant k)))"

section \<open>Insight transformation (insight_transformation.py)\<close>

record insight_transformation =
  it_insight :: uuid
  it_tenant :: uuid
  it_context :: uuid
  it_description :: string
  it_prior :: string
  it_update :: json
  it_kind :: string
  it_recommendations :: nat
  it_decisions :: nat
  it_corroborated :: nat
  it_contradicted :: nat
  it_inconclusive :: nat

text \<open>\<open>str_of\<close> renders the update; \<open>{}\<close> and \<open>null\<close> are blank.\<close>

definition classify_transformation :: "(json \<Rightarrow> string) \<Rightarrow> string \<Rightarrow> json \<Rightarrow> string" where
  "classify_transformation str_of prior updated =
     (let prior_blank = (prior = []); updated_blank = (updated = JNull \<or> updated = JObj [])
      in if prior_blank \<and> updated_blank then ''unchanged''
         else if prior_blank \<or> updated_blank then ''revised''
         else if strip prior \<noteq> strip (py_str str_of updated) then ''revised'' else ''stable'')"

definition journal_insight :: "(json \<Rightarrow> string) \<Rightarrow> insight \<Rightarrow> nat \<Rightarrow> attribution option \<Rightarrow> insight_transformation" where
  "journal_insight str_of i linked attr =
     (let a = (case attr of None \<Rightarrow> \<lparr>at_corroborated = 0, at_contradicted = 0, at_inconclusive = 0, at_linked = 0\<rparr> | Some a \<Rightarrow> a)
      in \<lparr>it_insight = ins_id i, it_tenant = ins_tenant i, it_context = ins_context i, it_description = ins_description i,
          it_prior = ins_prior i, it_update = ins_update i,
          it_kind = classify_transformation str_of (ins_prior i) (ins_update i), it_recommendations = linked,
          it_decisions = at_linked a, it_corroborated = at_corroborated a, it_contradicted = at_contradicted a,
          it_inconclusive = at_inconclusive a\<rparr>)"

definition build_insight_transformation :: "(json \<Rightarrow> string) \<Rightarrow> uuid \<Rightarrow> canonical \<Rightarrow> insight_transformation list result" where
  "build_insight_transformation str_of tenant k =
     (let recs = page_recommendations tenant k
      in and_then (attribute_outcomes str_of (insight_targets recs) (page_decisions tenant k)) (\<lambda>m.
           Inr (map (\<lambda>i. journal_insight str_of i (length (filter (\<lambda>r. rec_insight r = Some (ins_id i)) recs)) (m (ins_id i)))
             (page_insights tenant k))))"

section \<open>Consolidation never raises\<close>

lemma scores_total: "\<exists>b e. scores ps = Inr (b, e)"
proof (cases "ps = []")
  case False
  let ?p = "map fst ps" and ?o = "map snd ps"
  define g where "g = (\<lambda>m. case bin_gap ?p ?o 10 m of Inr x \<Rightarrow> x | Inl _ \<Rightarrow> 0)"
  have "bin_gap ?p ?o 10 m = Inr (g m)" for m by (simp add: g_def bin_gap_def Let_def)
  then have "traverse (bin_gap ?p ?o 10) [0..<10] = Inr (map g [0..<10])" by (intro traverse_all_Inr)
  then have "\<exists>e. ece_score ?p ?o (bins default_params) = Inr e" using False by (simp add: ece_score_def default_params_def)
  moreover have "\<exists>b. brier_score ?p ?o = Inr b" using False by (simp add: brier_score_def)
  ultimately show ?thesis using False by (auto simp: scores_def)
qed (simp add: scores_def)

lemma build_consolidation_total: "\<exists>c. build_consolidation str_of d = Inr c"
proof -
  obtain b e where "scores (decided (map (detail_of str_of (actual_by_metric str_of (dicts (ov_actual d)))) (ov_expected d))) = Inr (b, e)"
    using scores_total by blast
  then show ?thesis unfolding build_consolidation_def Let_def by (simp only: and_then_Inr prod.case) simp
qed

lemma classify_class: "od_class (detail_of str_of m x) \<in> {''corroborated'', ''contradicted'', ''inconclusive''}"
  by (auto simp: detail_of_def classify_expected_outcome_def Let_def split: json.splits option.splits)

lemma count_classes:
  "(\<And>d. d \<in> set ds \<Longrightarrow> od_class d \<in> {''corroborated'', ''contradicted'', ''inconclusive''}) \<Longrightarrow>
     count_class ''corroborated'' ds + count_class ''contradicted'' ds + count_class ''inconclusive'' ds = length ds"
  by (induction ds) (auto simp: count_class_def)

lemma feedback_bounds: "- 1 \<le> feedback a b \<and> feedback a b \<le> 1"
  by (auto simp: feedback_def divide_le_eq le_divide_eq)

lemma round_to_minus_1 [simp]: "round_to n (- 1) = - 1"
  using round_to_of_int [of n "- 1"] by simp

lemma feedback_rounded: "- 1 \<le> round_to 4 (feedback a b) \<and> round_to 4 (feedback a b) \<le> 1"
  using feedback_bounds [of a b] round_to_mono [of "- 1" "feedback a b" 4] round_to_mono [of "feedback a b" 1 4] by simp

lemma no_actuals_inconclusive: "od_class (detail_of str_of [] x) = ''inconclusive''"
  by (auto simp: detail_of_def classify_expected_outcome_def Let_def split: json.splits option.splits)

lemma actual_by_metric_Nil [simp]: "actual_by_metric str_of [] = []"
  by (simp add: actual_by_metric_def List.map_filter_def dict_of_def)

lemma dicts_Nil [simp]: "dicts [] = []"
  by (simp add: dicts_def List.map_filter_def)

lemma dicts_JObj [simp]: "dicts (map JObj ds) = ds"
  by (induction ds) (simp_all add: dicts_def List.map_filter_def)

text \<open>The verdict of the learning loop on an expected outcome is the class of the consolidation.\<close>

lemma binary_outcome_eq: "binary_outcome = to_binary"
  by (rule ext) (simp add: binary_outcome_def to_binary_def)

lemma outcome_correct_detail:
  "outcome_correct str_of m eo = (let c = od_class (detail_of str_of m (JObj eo)) in
     if c = ''corroborated'' then Some True else if c = ''contradicted'' then Some False else None)"
  by (auto simp: outcome_correct_def detail_of_def classify_expected_outcome_def metric_of_def predicted_def Let_def
      binary_outcome_eq split: option.splits)

lemma verdicts_counted:
  "length (filter id (List.map_filter (outcome_correct str_of m) es)) = count_class ''corroborated'' (map (\<lambda>e. detail_of str_of m (JObj e)) es)"
  "length (filter Not (List.map_filter (outcome_correct str_of m) es)) = count_class ''contradicted'' (map (\<lambda>e. detail_of str_of m (JObj e)) es)"
proof (induction es)
  case (Cons e es)
  { case 1 show ?case using Cons by (simp add: count_class_def outcome_correct_detail Let_def map_filter_simps) }
  { case 2 show ?case using Cons by (simp add: count_class_def outcome_correct_detail Let_def map_filter_simps) }
qed (simp_all add: count_class_def map_filter_simps)

section \<open>Attribution\<close>

definition contributions :: "(decision \<Rightarrow> uuid list) \<Rightarrow> decision list \<Rightarrow> consolidation list \<Rightarrow> (uuid \<times> consolidation) list" where
  "contributions targets ds cs = concat (map2 (\<lambda>d c. map (\<lambda>k. (k, c)) (targets d)) ds cs)"

lemma fold_credit:
  "fold credit ps m k =
     (let cs = map snd (filter (\<lambda>p. fst p = k) ps)
      in case m k of
           None \<Rightarrow> (if cs = [] then None else Some \<lparr>at_corroborated = sum_list (map cn_corroborated cs),
             at_contradicted = sum_list (map cn_contradicted cs), at_inconclusive = sum_list (map cn_inconclusive cs),
             at_linked = length cs\<rparr>)
         | Some a \<Rightarrow> Some \<lparr>at_corroborated = at_corroborated a + sum_list (map cn_corroborated cs),
             at_contradicted = at_contradicted a + sum_list (map cn_contradicted cs),
             at_inconclusive = at_inconclusive a + sum_list (map cn_inconclusive cs), at_linked = at_linked a + length cs\<rparr>)"
proof (induction ps arbitrary: m)
  case (Cons p ps)
  obtain i c where "p = (i, c)" by (cases p)
  then show ?case unfolding fold_Cons o_apply Cons.IH [of "credit p m"]
    by (cases "m k"; cases "i = k") (auto simp: credit_def Let_def split: option.splits)
qed (simp add: Let_def split: option.splits)

definition judged :: "decision list \<Rightarrow> decision list" where
  "judged ds = filter (\<lambda>d. dec_actual d \<noteq> None \<and> dec_actual d \<noteq> Some []) ds"

text \<open>The consolidation of a decision, which always exists.\<close>

definition consolidated :: "(json \<Rightarrow> string) \<Rightarrow> decision \<Rightarrow> consolidation" where
  "consolidated str_of d = (case build_consolidation str_of (decision_view d) of Inr c \<Rightarrow> c | Inl _ \<Rightarrow> undefined)"

lemma consolidated: "build_consolidation str_of (decision_view d) = Inr (consolidated str_of d)"
  using build_consolidation_total [of str_of "decision_view d"] by (auto simp: consolidated_def)

lemma concat_map2_map: "concat (map2 f xs (map g xs)) = concat (map (\<lambda>x. f x (g x)) xs)"
  by (induction xs) simp_all

lemma attribute_outcomes_eq:
  "attribute_outcomes str_of targets ds = Inr (fold credit
     (concat (map (\<lambda>d. map (\<lambda>k. (k, consolidated str_of d)) (targets d)) (judged ds))) Map.empty)"
proof -
  have t: "traverse (\<lambda>d. build_consolidation str_of (decision_view d)) (judged ds) = Inr (map (consolidated str_of) (judged ds))"
    by (rule traverse_all_Inr) (rule consolidated)
  show ?thesis unfolding attribute_outcomes_def Let_def judged_def [symmetric] t by (simp only: and_then_Inr concat_map2_map)
qed

lemma credits_of:
  "filter (\<lambda>p. fst p = k) (concat (map (\<lambda>d. map (\<lambda>i. (i, f d)) (targets d)) ds)) =
     concat (map (\<lambda>d. replicate (count_list (targets d) k) (k, f d)) ds)"
proof (induction ds)
  case (Cons d ds)
  have "filter (\<lambda>p. fst p = k) (map (\<lambda>i. (i, f d)) is) = replicate (count_list is k) (k, f d)" for "is"
    by (induction "is") auto
  then show ?case using Cons by simp
qed simp

text \<open>A sum over the judged decisions, each counted as often as it is traced to the artifact.\<close>

definition traced_sum :: "(decision \<Rightarrow> uuid list) \<Rightarrow> (decision \<Rightarrow> nat) \<Rightarrow> decision list \<Rightarrow> uuid \<Rightarrow> nat" where
  "traced_sum targets f ds k = sum_list (map (\<lambda>d. count_list (targets d) k * f d) (judged ds))"

lemma sum_credits:
  "sum_list (map g (map snd (concat (map (\<lambda>d. replicate (n d) (k, f d)) ds)))) =
     sum_list (map (\<lambda>d. n d * (g (f d) :: nat)) ds)"
  by (induction ds) (simp_all add: sum_list_replicate)

lemma length_credits: "length (map snd (concat (map (\<lambda>d. replicate (n d) (k, f d)) ds))) = sum_list (map (\<lambda>d. n d * 1) ds)"
  by (induction ds) simp_all

lemma consolidation_counts:
  "\<exists>c. build_consolidation str_of d = Inr c \<and>
     cn_corroborated c + cn_contradicted c + cn_inconclusive c = length (ov_expected d) \<and>
     - 1 \<le> cn_feedback c \<and> cn_feedback c \<le> 1 \<and>
     cn_feedback c = round_to 4 (feedback (cn_corroborated c) (cn_contradicted c)) \<and>
     cn_corroborated c + cn_contradicted c \<le>
       (if ov_actual d = [] \<or> ov_status d = Some ''pending'' then 0 else length (ov_expected d))"
proof (cases "ov_status d = Some ''pending''")
  case True
  then show ?thesis by (simp add: build_consolidation_def feedback_def)
next
  case False
  let ?m = "actual_by_metric str_of (dicts (ov_actual d))"
  let ?ds = "map (detail_of str_of ?m) (ov_expected d)"
  obtain b e where s: "scores (decided ?ds) = Inr (b, e)" using scores_total by blast
  have sum: "count_class ''corroborated'' ?ds + count_class ''contradicted'' ?ds + count_class ''inconclusive'' ?ds = length (ov_expected d)"
    using count_classes [of ?ds] classify_class by fastforce
  have none: "count_class ''inconclusive'' ?ds = length (ov_expected d)" if "ov_actual d = []"
    using that by (simp add: count_class_def no_actuals_inconclusive)
  have f: "- 1 \<le> round_to 4 (feedback a b) \<and> round_to 4 (feedback a b) \<le> 1" for a b by (rule feedback_rounded)
  show ?thesis using False sum none f by (auto simp: build_consolidation_def Let_def s)
qed

lemma signal_majority:
  "\<exists>c. build_consolidation str_of (decision_object d) = Inr c \<and>
     compute_outcome_signal str_of d =
       (if cn_corroborated c + cn_contradicted c = 0 then None
        else Some (if cn_corroborated c > cn_contradicted c then 1 else 0))"
proof -
  let ?v = "decision_object d"
  let ?m = "actual_by_metric str_of (dicts (ov_actual ?v))"
  let ?ds = "map (detail_of str_of ?m) (ov_expected ?v)"
  obtain c where c: "build_consolidation str_of ?v = Inr c" using build_consolidation_total by blast
  have zero: "cn_corroborated c + cn_contradicted c \<le>
      (if ov_actual ?v = [] \<or> ov_status ?v = Some ''pending'' then 0 else length (ov_expected ?v))"
    using consolidation_counts [of str_of ?v] c by auto
  show ?thesis
  proof (cases "dec_outcome_status d = ''pending'' \<or> ov_actual ?v = [] \<or> dec_expected d = []")
    case True
    then have "cn_corroborated c + cn_contradicted c = 0" using zero by (auto simp: decision_object_def split: if_splits)
    moreover have "compute_outcome_signal str_of d = None"
      using True by (auto simp: compute_outcome_signal_def decision_object_def split: option.splits)
    ultimately show ?thesis using c by simp
  next
    case False
    then obtain os where os: "dec_actual d = Some os" "os \<noteq> []" by (auto simp: decision_object_def split: option.splits)
    have ds: "map (\<lambda>e. detail_of str_of (actual_by_metric str_of os) (JObj e)) (dec_expected d) = ?ds"
      by (simp add: decision_object_def os comp_def)
    have "cn_corroborated c = count_class ''corroborated'' ?ds \<and> cn_contradicted c = count_class ''contradicted'' ?ds"
      using c False by (auto simp: build_consolidation_def Let_def and_then_eq_Inr decision_object_def)
    then have n: "length (filter id (verdicts str_of d os)) = cn_corroborated c" "length (filter Not (verdicts str_of d os)) = cn_contradicted c"
      using verdicts_counted [of str_of "actual_by_metric str_of os" "dec_expected d", unfolded ds] by simp_all
    have "compute_outcome_signal str_of d =
        (if cn_corroborated c + cn_contradicted c = 0 then None else Some (if cn_corroborated c > cn_contradicted c then 1 else 0))"
      using False os(2) unfolding compute_outcome_signal_def os(1) option.case Let_def n
      by (simp only: de_Morgan_disj simp_thms if_False)
    then show ?thesis using c by blast
  qed
qed

section \<open>Properties\<close>


text \<open>
  Two readings of the same outcomes agree: the success signal the learning history derives from a
  decision is the majority of its consolidation, and no signal exactly when nothing matched.
\<close>

theorem signal_is_consolidated_majority:
  "\<exists>c. build_consolidation str_of (decision_object d) = Inr c \<and>
     compute_outcome_signal str_of d =
       (if cn_corroborated c + cn_contradicted c = 0 then None
        else Some (if cn_corroborated c > cn_contradicted c then 1 else 0))"
  by (rule signal_majority)

text \<open>
  Attribution is exact: the evidence of a target is the sum of the consolidations of the decisions
  with outcomes, each as often as the trace leads to the target, and a target no decision leads to has none.
\<close>

theorem attribution_is_traced_sum:
  "\<exists>m. attribute_outcomes str_of targets ds = Inr m \<and>
     m k = (if traced_sum targets (\<lambda>_. 1) ds k = 0 then None
            else Some \<lparr>at_corroborated = traced_sum targets (\<lambda>d. cn_corroborated (consolidated str_of d)) ds k,
              at_contradicted = traced_sum targets (\<lambda>d. cn_contradicted (consolidated str_of d)) ds k,
              at_inconclusive = traced_sum targets (\<lambda>d. cn_inconclusive (consolidated str_of d)) ds k,
              at_linked = traced_sum targets (\<lambda>_. 1) ds k\<rparr>)"
proof -
  let ?ps = "concat (map (\<lambda>d. map (\<lambda>k. (k, consolidated str_of d)) (targets d)) (judged ds))"
  define cs where "cs = map snd (filter (\<lambda>p. fst p = k) ?ps)"
  have s: "sum_list (map g cs) = traced_sum targets (\<lambda>d. g (consolidated str_of d)) ds k" for g :: "consolidation \<Rightarrow> nat"
    unfolding cs_def credits_of sum_credits traced_sum_def by (rule refl)
  have l: "length cs = traced_sum targets (\<lambda>_. 1) ds k"
    unfolding cs_def credits_of length_credits traced_sum_def by (rule refl)
  have n: "cs = [] \<longleftrightarrow> traced_sum targets (\<lambda>_. 1) ds k = 0" unfolding l [symmetric] by simp
  show ?thesis unfolding attribute_outcomes_eq
    by (intro exI conjI, rule refl) (simp only: fold_credit Let_def option.case n l s flip: cs_def)
qed



end
