(* ===== verification/Learning_Execution.thy ===== *)
theory Learning_Execution
  imports Cognitive_Types
begin

text \<open>
  Durable learning executions: the lifecycle of \<open>libs/learning/learning_execution.py\<close>, the outcome
  revisions of \<open>outcome_revision.py\<close> and the store of \<open>learning_execution_store.py\<close> with its
  advisory lock, and sessions of several workers interleaving on it.

  A transaction is a function from the tables it starts with to the tables it would commit; an
  exception leaves the tables as they were. \<open>strict\<close> says how the SQL layer takes a
  statement with a declared parameter nobody bound: refuse it (the documented behaviour of
  SQLAlchemy for \<open>text()\<close>) or bind NULL (what the \<open>COALESCE\<close>s of the store are written for).
  Identifiers and the clock, \<open>gen_random_uuid()\<close> and \<open>now()\<close>, are arguments.
\<close>

section \<open>Lifecycle (learning_execution.py)\<close>

definition VALID_STATUSES :: "string set" where
  "VALID_STATUSES = {''pending'', ''running'', ''completed'', ''failed'', ''stale''}"

definition TERMINAL_STATUSES :: "string set" where
  "TERMINAL_STATUSES = {''completed'', ''failed'', ''stale''}"

definition VALID_TRANSITIONS :: "(string \<times> string list) list" where
  "VALID_TRANSITIONS =
     [(''pending'', [''running'']), (''running'', [''completed'', ''failed'', ''stale'']),
      (''completed'', []), (''failed'', []), (''stale'', [])]"

definition is_valid_transition :: "string \<Rightarrow> string \<Rightarrow> bool" where
  "is_valid_transition current nxt =
     (if current \<notin> VALID_STATUSES then False
      else nxt \<in> set (case map_of VALID_TRANSITIONS current of None \<Rightarrow> [] | Some ns \<Rightarrow> ns))"

record learning_execution =
  le_id :: uuid
  le_tenant :: uuid
  le_decision :: uuid
  le_revision :: uuid
  le_status :: string
  le_attempt :: int
  le_parent :: "uuid option"
  le_started :: "datetime option"
  le_completed :: "datetime option"
  le_heartbeat :: "datetime option"
  le_signals :: int
  le_reason :: "string option"
  le_created :: datetime

definition build_learning_execution :: "uuid \<Rightarrow> datetime \<Rightarrow> uuid \<Rightarrow> uuid \<Rightarrow> uuid \<Rightarrow> int \<Rightarrow> uuid option \<Rightarrow> learning_execution" where
  "build_learning_execution i now tenant decision revision attempt parent =
     \<lparr>le_id = i, le_tenant = tenant, le_decision = decision, le_revision = revision, le_status = ''pending'',
      le_attempt = attempt, le_parent = parent, le_started = None, le_completed = None, le_heartbeat = None,
      le_signals = 0, le_reason = None, le_created = now\<rparr>"

definition transition_status :: "datetime \<Rightarrow> learning_execution \<Rightarrow> string \<Rightarrow> learning_execution result" where
  "transition_status now e new_status =
     (if \<not> is_valid_transition (le_status e) new_status then Inl (ValueError ''Invalid transition'')
      else if new_status = ''running''
           then Inr (e\<lparr>le_status := new_status, le_started := Some now, le_heartbeat := Some now\<rparr>)
      else if new_status \<in> {''completed'', ''failed'', ''stale''}
           then Inr (e\<lparr>le_status := new_status, le_completed := Some now\<rparr>)
      else Inr (e\<lparr>le_status := new_status\<rparr>))"

definition heartbeat :: "datetime \<Rightarrow> learning_execution \<Rightarrow> learning_execution" where
  "heartbeat now e = e\<lparr>le_heartbeat := Some now\<rparr>"

text \<open>\<open>STALE_THRESHOLD_SECONDS\<close> is 300; times are microseconds.\<close>

definition is_stale :: "datetime \<Rightarrow> learning_execution \<Rightarrow> bool" where
  "is_stale now e =
     (if le_status e \<noteq> ''running'' then False
      else case le_heartbeat e of None \<Rightarrow> True | Some h \<Rightarrow> now - h > 300 * 1000000)"

section \<open>Tables\<close>

record outcome_revision =
  or_id :: uuid
  or_tenant :: uuid
  or_decision :: uuid
  or_actual :: "dict list"
  or_executed_at :: "datetime option"
  or_created :: datetime

record learning_db =
  db_revisions :: "outcome_revision list"
  db_executions :: "learning_execution list"
  db_decisions :: "decision list"

text \<open>The parameters of \<open>_UPDATE_EXECUTION_STATUS\<close>; \<open>None\<close> where the caller binds nothing.\<close>

record status_update =
  su_id :: uuid
  su_status :: string
  su_started :: "datetime option"
  su_completed :: "datetime option"
  su_heartbeat :: "datetime option"
  su_signals :: "int option"
  su_reason :: "string option"

definition coalesce :: "'a option \<Rightarrow> 'a option \<Rightarrow> 'a option" where
  "coalesce a b = (case a of None \<Rightarrow> b | Some x \<Rightarrow> Some x)"

definition set_status :: "status_update \<Rightarrow> learning_execution \<Rightarrow> learning_execution" where
  "set_status u e = e\<lparr>le_status := su_status u, le_started := coalesce (su_started u) (le_started e),
     le_completed := coalesce (su_completed u) (le_completed e),
     le_heartbeat := coalesce (su_heartbeat u) (le_heartbeat e),
     le_signals := (case su_signals u of None \<Rightarrow> le_signals e | Some n \<Rightarrow> n),
     le_reason := coalesce (su_reason u) (le_reason e)\<rparr>"

definition unbound :: "status_update \<Rightarrow> bool" where
  "unbound u \<longleftrightarrow> su_started u = None \<or> su_completed u = None \<or> su_heartbeat u = None \<or> su_signals u = None \<or> su_reason u = None"

text \<open>What a transaction writes to \<open>learning_executions\<close>, applied in order.\<close>

datatype row_write = WInsert learning_execution | WStatus status_update

fun apply_write :: "row_write \<Rightarrow> learning_execution list \<Rightarrow> learning_execution list" where
  "apply_write (WInsert e) rows = rows @ [e]"
| "apply_write (WStatus u) rows = map (\<lambda>e. if le_id e = su_id u then set_status u e else e) rows"

definition apply_writes :: "row_write list \<Rightarrow> learning_execution list \<Rightarrow> learning_execution list" where
  "apply_writes ws rows = fold apply_write ws rows"

definition is_active :: "learning_execution \<Rightarrow> bool" where
  "is_active e \<longleftrightarrow> le_status e \<in> {''pending'', ''running''}"

section \<open>Store (learning_execution_store.py)\<close>

text \<open>\<open>ORDER BY attempt_number DESC LIMIT 1\<close>\<close>

definition newest_attempt :: "learning_execution list \<Rightarrow> learning_execution option" where
  "newest_attempt rows = (case sort_key (\<lambda>e. - le_attempt e) rows of [] \<Rightarrow> None | e # _ \<Rightarrow> Some e)"

definition find_active :: "uuid \<Rightarrow> learning_execution list \<Rightarrow> learning_execution option" where
  "find_active revision rows = newest_attempt (filter (\<lambda>e. le_revision e = revision \<and> is_active e) rows)"

definition find_latest :: "uuid \<Rightarrow> learning_execution list \<Rightarrow> learning_execution option" where
  "find_latest revision rows = newest_attempt (filter (\<lambda>e. le_revision e = revision) rows)"

definition update_status :: "bool \<Rightarrow> status_update \<Rightarrow> row_write result" where
  "update_status strict u =
     (if strict \<and> unbound u then Inl (PassedThrough ''a value is required for bind parameter'') else Inr (WStatus u))"

definition no_update :: "uuid \<Rightarrow> string \<Rightarrow> status_update" where
  "no_update i st = \<lparr>su_id = i, su_status = st, su_started = None, su_completed = None, su_heartbeat = None,
     su_signals = None, su_reason = None\<rparr>"

text \<open>
  The insert, with the primary key, the foreign keys and the unique index on the active execution
  of a revision.
\<close>

definition insert_execution :: "uuid \<Rightarrow> datetime \<Rightarrow> uuid \<Rightarrow> uuid \<Rightarrow> uuid \<Rightarrow> int \<Rightarrow> uuid option \<Rightarrow>
    outcome_revision list \<Rightarrow> learning_execution list \<Rightarrow> learning_execution result" where
  "insert_execution i now tenant decision revision attempt parent revisions rows =
     (if i \<in> le_id ` set rows then Inl (PassedThrough ''duplicate primary key'')
      else if revision \<notin> or_id ` set revisions then Inl (PassedThrough ''fk_learning_execution_outcome_revision'')
      else if (case parent of None \<Rightarrow> False | Some p \<Rightarrow> p \<notin> le_id ` set rows)
           then Inl (PassedThrough ''fk_learning_execution_parent'')
      else if \<exists>e \<in> set rows. le_revision e = revision \<and> is_active e
           then Inl (PassedThrough ''uq_learning_execution_active'')
      else Inr \<lparr>le_id = i, le_tenant = tenant, le_decision = decision, le_revision = revision,
             le_status = ''running'', le_attempt = attempt, le_parent = parent, le_started = None,
             le_completed = None, le_heartbeat = Some now, le_signals = 0, le_reason = None, le_created = now\<rparr>)"

text \<open>The body of \<open>begin_execution\<close> and \<open>begin_phase2\<close>, under the lock: the claimed execution and the writes.\<close>

definition claim :: "bool \<Rightarrow> uuid \<Rightarrow> datetime \<Rightarrow> uuid \<Rightarrow> uuid \<Rightarrow> uuid \<Rightarrow> outcome_revision list \<Rightarrow>
    learning_execution list \<Rightarrow> (learning_execution option \<times> row_write list) result" where
  "claim strict i now tenant decision revision revisions rows =
     (case find_active revision rows of
        None \<Rightarrow> and_then (insert_execution i now tenant decision revision 1 None revisions rows)
                  (\<lambda>e. Inr (Some e, [WInsert e]))
      | Some x \<Rightarrow>
          if le_status x = ''completed'' then Inr (None, [])
          else if le_status x = ''running'' then
            (if \<not> is_stale now x then Inr (None, [])
             else and_then (update_status strict ((no_update (le_id x) ''stale'')\<lparr>su_completed := Some now\<rparr>)) (\<lambda>w.
                  and_then (insert_execution i now tenant decision revision (le_attempt x + 1) (Some (le_id x))
                      revisions (apply_write w rows)) (\<lambda>e.
                    Inr (Some e, [w, WInsert e]))))
          else if le_status x = ''pending'' then
            and_then (update_status strict ((no_update (le_id x) ''running'')\<lparr>su_started := Some now, su_heartbeat := Some now\<rparr>))
              (\<lambda>w. Inr (Some (x\<lparr>le_status := ''running'', le_started := Some now, le_heartbeat := Some now\<rparr>), [w]))
          else Inr (None, []))"

definition begin_phase2 :: "bool \<Rightarrow> uuid \<Rightarrow> datetime \<Rightarrow> uuid \<Rightarrow> uuid \<Rightarrow> uuid \<Rightarrow> learning_db \<Rightarrow>
    (learning_execution option \<times> row_write list) result" where
  "begin_phase2 strict i now tenant decision revision db =
     claim strict i now tenant decision revision (db_revisions db) (db_executions db)"

definition write_db :: "row_write list \<Rightarrow> learning_db \<Rightarrow> learning_db" where
  "write_db ws db = db\<lparr>db_executions := apply_writes ws (db_executions db)\<rparr>"

definition begin_execution :: "bool \<Rightarrow> uuid \<Rightarrow> datetime \<Rightarrow> uuid \<Rightarrow> uuid \<Rightarrow> uuid \<Rightarrow> learning_db \<Rightarrow>
    learning_execution option result \<times> learning_db" where
  "begin_execution strict i now tenant decision revision db =
     (case claim strict i now tenant decision revision (db_revisions db) (db_executions db) of
        Inl x \<Rightarrow> (Inl x, db)
      | Inr (e, ws) \<Rightarrow> (Inr e, write_db ws db))"

definition get_execution :: "uuid \<Rightarrow> learning_db \<Rightarrow> learning_execution option" where
  "get_execution i db = lookup_row le_id (db_executions db) i"

definition get_latest_execution_for_revision :: "uuid \<Rightarrow> learning_db \<Rightarrow> learning_execution option" where
  "get_latest_execution_for_revision revision db = find_latest revision (db_executions db)"

text \<open>\<open>UPDATE ... WHERE id = :id RETURNING ...\<close>, with its own transaction and inside the caller's.\<close>

definition complete_update :: "uuid \<Rightarrow> datetime \<Rightarrow> int \<Rightarrow> status_update" where
  "complete_update i now n = (no_update i ''completed'')\<lparr>su_completed := Some now, su_signals := Some n\<rparr>"

definition fail_update :: "uuid \<Rightarrow> datetime \<Rightarrow> string \<Rightarrow> status_update" where
  "fail_update i now reason = (no_update i ''failed'')\<lparr>su_completed := Some now, su_reason := Some reason\<rparr>"

definition complete_execution :: "bool \<Rightarrow> datetime \<Rightarrow> uuid \<Rightarrow> int \<Rightarrow> learning_db \<Rightarrow> learning_execution option result \<times> learning_db" where
  "complete_execution strict now i n db =
     (case update_status strict (complete_update i now n) of
        Inl x \<Rightarrow> (Inl x, db)
      | Inr w \<Rightarrow> (let db' = write_db [w] db in (Inr (get_execution i db'), db')))"

definition fail_execution :: "bool \<Rightarrow> datetime \<Rightarrow> uuid \<Rightarrow> string \<Rightarrow> learning_db \<Rightarrow> learning_execution option result \<times> learning_db" where
  "fail_execution strict now i reason db =
     (case update_status strict (fail_update i now reason) of
        Inl x \<Rightarrow> (Inl x, db)
      | Inr w \<Rightarrow> (let db' = write_db [w] db in (Inr (get_execution i db'), db')))"

definition complete_execution_in_session :: "datetime \<Rightarrow> uuid \<Rightarrow> int \<Rightarrow> row_write" where
  "complete_execution_in_session now i n = WStatus (complete_update i now n)"

definition fail_execution_in_session :: "datetime \<Rightarrow> uuid \<Rightarrow> string \<Rightarrow> row_write" where
  "fail_execution_in_session now i reason = WStatus (fail_update i now reason)"

definition update_heartbeat :: "datetime \<Rightarrow> uuid \<Rightarrow> learning_db \<Rightarrow> learning_db" where
  "update_heartbeat now i db = db\<lparr>db_executions :=
     map (\<lambda>e. if le_id e = i \<and> le_status e = ''running'' then heartbeat now e else e) (db_executions db)\<rparr>"

text \<open>A NULL heartbeat compares as unknown: such a row is never found.\<close>

definition find_stale_executions :: "datetime \<Rightarrow> int \<Rightarrow> learning_db \<Rightarrow> learning_execution list" where
  "find_stale_executions now threshold db =
     filter (\<lambda>e. le_status e = ''running'' \<and>
        (case le_heartbeat e of None \<Rightarrow> False | Some h \<Rightarrow> h < now - threshold * 1000000)) (db_executions db)"

definition find_orphaned_revisions :: "learning_db \<Rightarrow> outcome_revision list" where
  "find_orphaned_revisions db =
     filter (\<lambda>r. or_id r \<notin> le_revision ` set (db_executions db)) (db_revisions db)"

definition reconcile :: "bool \<Rightarrow> uuid \<Rightarrow> datetime \<Rightarrow> learning_execution \<Rightarrow> outcome_revision list \<Rightarrow> learning_execution list \<Rightarrow>
    (learning_execution option \<times> row_write list) result" where
  "reconcile strict i now stale revisions rows =
     (case lookup_row le_id rows (le_id stale) of
        None \<Rightarrow> Inr (None, [])
      | Some c \<Rightarrow>
          if \<not> is_stale now c then Inr (None, [])
          else if (case find_active (le_revision c) rows of None \<Rightarrow> False | Some a \<Rightarrow> le_id a \<noteq> le_id c) then Inr (None, [])
          else and_then (update_status strict ((no_update (le_id c) ''stale'')\<lparr>su_completed := Some now\<rparr>)) (\<lambda>w.
               and_then (insert_execution i now (le_tenant c) (le_decision c) (le_revision c) (le_attempt c + 1)
                   (Some (le_id c)) revisions (apply_write w rows)) (\<lambda>e.
                 Inr (Some e, [w, WInsert e]))))"

definition reconcile_stale_execution :: "bool \<Rightarrow> uuid \<Rightarrow> datetime \<Rightarrow> learning_execution \<Rightarrow> learning_db \<Rightarrow>
    learning_execution option result \<times> learning_db" where
  "reconcile_stale_execution strict i now stale db =
     (case reconcile strict i now stale (db_revisions db) (db_executions db) of
        Inl x \<Rightarrow> (Inl x, db)
      | Inr (e, ws) \<Rightarrow> (Inr e, write_db ws db))"

text \<open>Phase 1: one transaction, so an unknown decision takes the revision with it.\<close>

definition create_outcome_revision :: "uuid \<Rightarrow> datetime \<Rightarrow> uuid \<Rightarrow> uuid \<Rightarrow> dict list \<Rightarrow> datetime option \<Rightarrow> learning_db \<Rightarrow>
    outcome_revision \<times> learning_db" where
  "create_outcome_revision i now tenant decision actual executed_at db =
     (let r = \<lparr>or_id = i, or_tenant = tenant, or_decision = decision, or_actual = actual,
                or_executed_at = executed_at, or_created = now\<rparr>
      in (r, db\<lparr>db_revisions := db_revisions db @ [r]\<rparr>))"

definition record_outcomes :: "dict list \<Rightarrow> datetime option \<Rightarrow> decision \<Rightarrow> decision" where
  "record_outcomes actual executed_at d = d\<lparr>dec_actual := Some actual, dec_outcome_status := ''observed'',
     dec_executed_at := coalesce executed_at (dec_executed_at d)\<rparr>"

definition submit_outcomes_with_revision :: "uuid \<Rightarrow> datetime \<Rightarrow> uuid \<Rightarrow> uuid \<Rightarrow> dict list \<Rightarrow> datetime option \<Rightarrow> learning_db \<Rightarrow>
    outcome_revision result \<times> learning_db" where
  "submit_outcomes_with_revision i now tenant decision actual executed_at db =
     (case create_outcome_revision i now tenant decision actual executed_at db of (r, db1) \<Rightarrow>
        if \<exists>d \<in> set (db_decisions db). dec_id d = decision \<and> dec_tenant d = tenant
        then (Inr r, db1\<lparr>db_decisions := map (\<lambda>d. if dec_id d = decision \<and> dec_tenant d = tenant
                then record_outcomes actual executed_at d else d) (db_decisions db)\<rparr>)
        else (Inl (ValueError ''Decision not found''), db))"

section \<open>Several workers\<close>

text \<open>
  Workers share the committed tables. A session opened by \<open>begin_phase2\<close> holds the advisory lock of
  its decision and the writes it will commit, with the claimed execution. Lock keys are taken as
  distinct; a collision of \<open>hashtext\<close> only makes two decisions wait for one another.
\<close>

type_synonym lock_key = "uuid \<times> uuid"

record workers =
  w_db :: learning_db
  w_open :: "lock_key \<Rightarrow> (uuid \<times> row_write list) option"

definition le_key :: "learning_execution \<Rightarrow> lock_key" where
  "le_key e = (le_tenant e, le_decision e)"

definition revision_key :: "learning_db \<Rightarrow> uuid \<Rightarrow> lock_key option" where
  "revision_key db revision = map_option (\<lambda>r. (or_tenant r, or_decision r)) (lookup_row or_id (db_revisions db) revision)"

abbreviation executions :: "workers \<Rightarrow> learning_execution list" where
  "executions s \<equiv> db_executions (w_db s)"

definition inserted_ids :: "row_write list \<Rightarrow> uuid set" where
  "inserted_ids ws = le_id ` set (apply_writes ws [])"

definition fresh :: "uuid \<Rightarrow> workers \<Rightarrow> bool" where
  "fresh i s \<longleftrightarrow> i \<notin> le_id ` set (executions s) \<and> (\<forall>k j ws. w_open s k = Some (j, ws) \<longrightarrow> i \<notin> inserted_ids ws)"

inductive h3_step :: "bool \<Rightarrow> workers \<Rightarrow> workers \<Rightarrow> bool" for strict where
  submit: "submit_outcomes_with_revision i now t d actual at_time (w_db s) = (Inr r, db') \<Longrightarrow>
      i \<notin> or_id ` set (db_revisions (w_db s)) \<Longrightarrow> h3_step strict s (s\<lparr>w_db := db'\<rparr>)"
| open_phase2: "w_open s (t, d) = None \<Longrightarrow> revision_key (w_db s) rv = Some (t, d) \<Longrightarrow> fresh i s \<Longrightarrow>
      begin_phase2 strict i now t d rv (w_db s) = Inr (Some e, ws) \<Longrightarrow>
      h3_step strict s (s\<lparr>w_open := (w_open s)((t, d) \<mapsto> (le_id e, ws))\<rparr>)"
| finish: "w_open s k = Some (i, ws) \<Longrightarrow>
      h3_step strict s (s\<lparr>w_open := (w_open s)(k \<mapsto> (i, ws @ [complete_execution_in_session now i n]))\<rparr>)"
| commit: "w_open s k = Some (i, ws) \<Longrightarrow>
      h3_step strict s \<lparr>w_db = write_db ws (w_db s), w_open = (w_open s)(k := None)\<rparr>"
| rollback: "w_open s k = Some (i, ws) \<Longrightarrow> h3_step strict s (s\<lparr>w_open := (w_open s)(k := None)\<rparr>)"
| claim_now: "w_open s (t, d) = None \<Longrightarrow> revision_key (w_db s) rv = Some (t, d) \<Longrightarrow> fresh i s \<Longrightarrow>
      begin_execution strict i now t d rv (w_db s) = (Inr r, db') \<Longrightarrow> h3_step strict s (s\<lparr>w_db := db'\<rparr>)"
| reconcile: "w_open s (le_key x) = None \<Longrightarrow> fresh i s \<Longrightarrow>
      (\<And>c. get_execution (le_id x) (w_db s) = Some c \<Longrightarrow> le_key c = le_key x) \<Longrightarrow>
      reconcile_stale_execution strict i now x (w_db s) = (Inr r, db') \<Longrightarrow> h3_step strict s (s\<lparr>w_db := db'\<rparr>)"
| complete: "complete_execution strict now i n (w_db s) = (r, db') \<Longrightarrow> h3_step strict s (s\<lparr>w_db := db'\<rparr>)"
| fail: "fail_execution strict now i reason (w_db s) = (r, db') \<Longrightarrow> h3_step strict s (s\<lparr>w_db := db'\<rparr>)"
| beat: "h3_step strict s (s\<lparr>w_db := update_heartbeat now i (w_db s)\<rparr>)"

section \<open>What the writes of a session do to a row\<close>

definition after :: "row_write list \<Rightarrow> learning_execution \<Rightarrow> learning_execution" where
  "after ws e = fold (\<lambda>w e. case w of WInsert _ \<Rightarrow> e | WStatus u \<Rightarrow> if le_id e = su_id u then set_status u e else e) ws e"

lemma after_simps [simp]:
  "after [] e = e" "after (WInsert x # ws) e = after ws e"
  "after (WStatus u # ws) e = after ws (if le_id e = su_id u then set_status u e else e)"
  by (simp_all add: after_def)

lemma set_status_same [simp]:
  "le_id (set_status u e) = le_id e" "le_revision (set_status u e) = le_revision e" "le_key (set_status u e) = le_key e"
  "le_status (set_status u e) = su_status u"
  by (simp_all add: set_status_def le_key_def)

lemma after_same [simp]:
  "le_id (after ws e) = le_id e" "le_revision (after ws e) = le_revision e" "le_key (after ws e) = le_key e"
proof -
  have "le_id (after ws e) = le_id e \<and> le_revision (after ws e) = le_revision e \<and> le_key (after ws e) = le_key e"
  proof (induction ws arbitrary: e)
    case (Cons w ws)
    then show ?case by (cases w) simp_all
  qed simp
  then show "le_id (after ws e) = le_id e" "le_revision (after ws e) = le_revision e" "le_key (after ws e) = le_key e"
    by simp_all
qed

lemma apply_writes_simps [simp]:
  "apply_writes [] rows = rows" "apply_writes (w # ws) rows = apply_writes ws (apply_write w rows)"
  by (simp_all add: apply_writes_def)

lemma apply_writes_append: "apply_writes (ws @ vs) rows = apply_writes vs (apply_writes ws rows)"
  by (simp add: apply_writes_def)

lemma apply_writes_split: "apply_writes ws rows = map (after ws) rows @ apply_writes ws []"
proof (induction ws arbitrary: rows)
  case (Cons w ws)
  show ?case
  proof (cases w)
    case (WInsert e)
    then show ?thesis using Cons [of "rows @ [e]"] Cons [of "[e]"] by simp
  next
    case (WStatus u)
    then show ?thesis using Cons [of "apply_write w rows"] by simp
  qed
qed (simp add: map_idI)

lemma after_append: "after (ws @ vs) e = after vs (after ws e)"
  by (simp add: after_def)

text \<open>A row that another worker finished, or that beat, is no more active after the session than it was before.\<close>

definition calmer :: "learning_execution \<Rightarrow> learning_execution \<Rightarrow> bool" where
  "calmer e' e \<longleftrightarrow> le_id e' = le_id e \<and> le_revision e' = le_revision e \<and> le_key e' = le_key e \<and>
     (is_active e' \<longrightarrow> is_active e)"

lemma calmer_after: "calmer e' e \<Longrightarrow> calmer (after ws e') (after ws e)"
proof (induction ws arbitrary: e' e)
  case (Cons w ws)
  show ?case
  proof (cases w)
    case (WStatus u)
    have "calmer (if le_id e' = su_id u then set_status u e' else e') (if le_id e = su_id u then set_status u e else e)"
      using Cons.prems by (auto simp: calmer_def is_active_def)
    then show ?thesis using Cons.IH WStatus by simp
  qed (use Cons in simp)
qed simp

section \<open>The invariant\<close>

text \<open>At most one execution of a revision is pending or running.\<close>

definition one_execution :: "learning_execution list \<Rightarrow> bool" where
  "one_execution rows \<longleftrightarrow> (\<forall>e \<in> set rows. \<forall>e' \<in> set rows.
     is_active e \<and> is_active e' \<and> le_revision e = le_revision e' \<longrightarrow> le_id e = le_id e')"

definition rows_wf :: "learning_db \<Rightarrow> bool" where
  "rows_wf db \<longleftrightarrow> distinct (map le_id (db_executions db)) \<and> one_execution (db_executions db) \<and>
     (\<forall>e \<in> set (db_executions db). revision_key db (le_revision e) = Some (le_key e))"

definition session_ok :: "learning_db \<Rightarrow> lock_key \<Rightarrow> row_write list \<Rightarrow> bool" where
  "session_ok db k ws \<longleftrightarrow>
     (let rows = db_executions db; new = apply_writes ws [] in
      distinct (map le_id new) \<and> le_id ` set new \<inter> le_id ` set rows = {} \<and>
      (\<forall>e \<in> set new. le_key e = k \<and> revision_key db (le_revision e) = Some k) \<and>
      (\<forall>u. WStatus u \<in> set ws \<longrightarrow> su_id u \<in> le_id ` set rows \<union> le_id ` set new) \<and>
      (\<forall>u. WStatus u \<in> set ws \<longrightarrow> (\<forall>e \<in> set rows. le_id e = su_id u \<longrightarrow> le_key e = k)) \<and>
      one_execution (apply_writes ws rows))"

definition workers_wf :: "workers \<Rightarrow> bool" where
  "workers_wf s \<longleftrightarrow> rows_wf (w_db s) \<and>
     (\<forall>k j ws. w_open s k = Some (j, ws) \<longrightarrow> session_ok (w_db s) k ws \<and>
        j \<in> le_id ` set (executions s) \<union> inserted_ids ws \<and>
        (\<forall>e \<in> set (executions s). le_id e = j \<longrightarrow> le_key e = k)) \<and>
     (\<forall>k k' j j' ws ws'. w_open s k = Some (j, ws) \<and> w_open s k' = Some (j', ws') \<and> k \<noteq> k' \<longrightarrow>
        inserted_ids ws \<inter> inserted_ids ws' = {})"

section \<open>Every step keeps the invariant\<close>

lemma after_untouched: "(\<And>u. WStatus u \<in> set ws \<Longrightarrow> le_id e \<noteq> su_id u) \<Longrightarrow> after ws e = e"
proof (induction ws arbitrary: e)
  case (Cons w ws)
  then show ?case by (cases w) auto
qed simp

lemma one_executionD:
  "one_execution rows \<Longrightarrow> e \<in> set rows \<Longrightarrow> e' \<in> set rows \<Longrightarrow> is_active e \<Longrightarrow> is_active e' \<Longrightarrow>
     le_revision e = le_revision e' \<Longrightarrow> le_id e = le_id e'"
  unfolding one_execution_def by blast

lemma one_execution_calmer:
  assumes "one_execution rows" and "\<And>e'. e' \<in> set rows' \<Longrightarrow> \<exists>e \<in> set rows. calmer e' e"
  shows "one_execution rows'"
  unfolding one_execution_def
proof (intro ballI impI)
  fix x y assume xy: "x \<in> set rows'" "y \<in> set rows'"
    and a: "is_active x \<and> is_active y \<and> le_revision x = le_revision y"
  obtain x0 y0 where "x0 \<in> set rows" "calmer x x0" "y0 \<in> set rows" "calmer y y0"
    using assms(2) [OF xy(1)] assms(2) [OF xy(2)] by blast
  then show "le_id x = le_id y" using one_executionD [OF assms(1), of x0 y0] a by (simp add: calmer_def)
qed

lemma revision_key_write [simp]: "revision_key (write_db ws db) rv = revision_key db rv"
  "revision_key (db\<lparr>db_executions := rows\<rparr>) rv = revision_key db rv"
  by (simp_all add: revision_key_def write_db_def)

lemma db_executions_upd: "db_executions (db\<lparr>db_executions := rows\<rparr>) = rows"
  by simp

lemma calmer_ids: "(\<And>e. e \<in> set rows \<Longrightarrow> calmer (g e) e) \<Longrightarrow> map le_id (map g rows) = map le_id rows"
  by (simp add: calmer_def)

lemma rows_wf_map:
  assumes "rows_wf db" and "\<And>e. e \<in> set (db_executions db) \<Longrightarrow> calmer (g e) e"
  shows "rows_wf (db\<lparr>db_executions := map g (db_executions db)\<rparr>)"
proof -
  let ?rows = "db_executions db"
  have d: "distinct (map le_id ?rows)" and o1: "one_execution ?rows"
    and k: "\<And>e. e \<in> set ?rows \<Longrightarrow> revision_key db (le_revision e) = Some (le_key e)"
    using assms(1) by (simp_all add: rows_wf_def)
  have m: "map le_id (map g ?rows) = map le_id ?rows" using assms(2) by (rule calmer_ids)
  have "distinct (map le_id (map g ?rows))" unfolding m by (rule d)
  moreover have "one_execution (map g ?rows)"
  proof (rule one_execution_calmer [OF o1])
    fix e' assume "e' \<in> set (map g ?rows)"
    then obtain e where "e \<in> set ?rows" "e' = g e" by auto
    then show "\<exists>e \<in> set ?rows. calmer e' e" using assms(2) by blast
  qed
  moreover have "revision_key db (le_revision e') = Some (le_key e')" if e': "e' \<in> set (map g ?rows)" for e'
  proof -
    obtain e where "e \<in> set ?rows" "e' = g e" using e' by auto
    then show ?thesis using k [of e] assms(2) [of e] by (simp add: calmer_def)
  qed
  ultimately show ?thesis unfolding rows_wf_def by (simp only: revision_key_write db_executions_upd) blast
qed

lemma session_ok_map:
  assumes "session_ok db k ws" and "\<And>e. e \<in> set (db_executions db) \<Longrightarrow> calmer (g e) e"
  shows "session_ok (db\<lparr>db_executions := map g (db_executions db)\<rparr>) k ws"
proof -
  have ids: "le_id ` set (map g (db_executions db)) = le_id ` set (db_executions db)"
    using calmer_ids [OF assms(2)] by (metis list.set_map)
  have "one_execution (apply_writes ws (map g (db_executions db)))"
  proof (rule one_execution_calmer [of "apply_writes ws (db_executions db)"])
    show "one_execution (apply_writes ws (db_executions db))" using assms(1) by (simp add: session_ok_def Let_def)
    fix e' assume "e' \<in> set (apply_writes ws (map g (db_executions db)))"
    then consider e where "e \<in> set (db_executions db)" "e' = after ws (g e)" | "e' \<in> set (apply_writes ws [])"
      by (subst (asm) apply_writes_split) auto
    then show "\<exists>e \<in> set (apply_writes ws (db_executions db)). calmer e' e"
    proof cases
      case 1
      then show ?thesis using calmer_after [OF assms(2)] by (subst apply_writes_split) auto
    next
      case 2
      then show ?thesis by (subst apply_writes_split) (auto simp: calmer_def)
    qed
  qed
  moreover have "\<forall>u. WStatus u \<in> set ws \<longrightarrow> (\<forall>e \<in> set (map g (db_executions db)). le_id e = su_id u \<longrightarrow> le_key e = k)"
    using assms by (auto simp: session_ok_def Let_def calmer_def)
  ultimately show ?thesis using assms(1) unfolding session_ok_def Let_def
    by (simp only: ids simp_thms revision_key_write db_executions_upd) blast
qed

text \<open>A commit of the session of another decision.\<close>

lemma rows_wf_commit:
  assumes "rows_wf db" and "session_ok db k ws"
  shows "rows_wf (write_db ws db)"
proof -
  have r: "db_executions (write_db ws db) = map (after ws) (db_executions db) @ apply_writes ws []"
    unfolding write_db_def by (simp add: apply_writes_split [of ws "db_executions db"])
  have "map le_id (db_executions (write_db ws db)) = map le_id (db_executions db) @ map le_id (apply_writes ws [])"
    unfolding r by simp
  moreover have "distinct (map le_id (db_executions db))" "distinct (map le_id (apply_writes ws []))"
      "le_id ` set (apply_writes ws []) \<inter> le_id ` set (db_executions db) = {}"
    using assms by (simp_all add: rows_wf_def session_ok_def Let_def)
  ultimately have "distinct (map le_id (db_executions (write_db ws db)))"
    by (simp only: distinct_append list.set_map Int_commute simp_thms)
  moreover have "one_execution (db_executions (write_db ws db))"
    using assms(2) by (simp add: session_ok_def Let_def write_db_def)
  moreover have "\<forall>e \<in> set (db_executions (write_db ws db)). revision_key db (le_revision e) = Some (le_key e)"
    using assms unfolding r rows_wf_def session_ok_def Let_def by auto
  ultimately show ?thesis by (simp add: rows_wf_def)
qed

lemma session_untouched:
  assumes "session_ok db k ws" and "e \<in> set (db_executions db)" and "le_key e \<noteq> k"
  shows "after ws e = e"
  using assms by (intro after_untouched) (auto simp: session_ok_def Let_def)

lemma session_ok_commit:
  assumes wf: "rows_wf db" and s: "session_ok db k ws" and s': "session_ok db k' ws'" and kk: "k \<noteq> k'"
    and disj: "inserted_ids ws \<inter> inserted_ids ws' = {}"
  shows "session_ok (write_db ws db) k' ws'"
proof -
  let ?rows = "db_executions db" and ?new = "apply_writes ws []" and ?new' = "apply_writes ws' []"
  have r: "db_executions (write_db ws db) = map (after ws) ?rows @ ?new"
    unfolding write_db_def by (simp add: apply_writes_split [of ws ?rows])
  have ids: "le_id ` set (map (after ws) ?rows @ ?new) = le_id ` set ?rows \<union> le_id ` set ?new"
    by (simp add: image_Un image_image)
  have newkey: "le_key e = k" if "e \<in> set ?new" for e using s that by (simp add: session_ok_def Let_def)
  have newkey': "le_key e = k'" if "e \<in> set ?new'" for e using s' that by (simp add: session_ok_def Let_def)
  have touch: "le_key e = k'" if u: "WStatus u \<in> set ws'" and e: "e \<in> set (map (after ws) ?rows @ ?new)" "le_id e = su_id u" for u e
  proof (cases "e \<in> set ?new")
    case True
    have "su_id u \<in> le_id ` set ?rows \<union> le_id ` set ?new'" using s' u by (simp add: session_ok_def Let_def)
    moreover have "le_id e \<notin> le_id ` set ?rows" using s True by (auto simp: session_ok_def Let_def)
    ultimately show ?thesis using disj True e(2) by (auto simp: inserted_ids_def)
  next
    case False
    then obtain e0 where "e0 \<in> set ?rows" "e = after ws e0" using e by auto
    then show ?thesis using s' u e(2) by (auto simp: session_ok_def Let_def)
  qed
  have key: "revision_key db (le_revision e) = Some (le_key e)"
    if "e \<in> set (apply_writes ws' (map (after ws) ?rows @ ?new))" for e
  proof -
    from that consider e0 where "e0 \<in> set ?rows" "e = after ws' (after ws e0)" |
        e0 where "e0 \<in> set ?new" "e = after ws' e0" | "e \<in> set ?new'"
      by (subst (asm) apply_writes_split) auto
    then show ?thesis using wf s s' by cases (auto simp: rows_wf_def session_ok_def Let_def)
  qed
  have mine: "e \<in> set (apply_writes ws ?rows)"
    if e: "e \<in> set (apply_writes ws' (map (after ws) ?rows @ ?new))" and k: "le_key e = k" for e
  proof -
    have "e \<notin> set ?new'" using k newkey' kk by auto
    then obtain x where x: "x \<in> set (map (after ws) ?rows @ ?new)" "e = after ws' x"
      using e by (subst (asm) apply_writes_split) auto
    then have "after ws' x = x" using k kk touch by (intro after_untouched) auto
    then show ?thesis using x by (simp add: apply_writes_split [of ws ?rows])
  qed
  have yours: "e \<in> set (apply_writes ws' ?rows)"
    if e: "e \<in> set (apply_writes ws' (map (after ws) ?rows @ ?new))" and k: "le_key e \<noteq> k" for e
  proof (cases "e \<in> set ?new'")
    case True
    then show ?thesis by (simp add: apply_writes_split [of ws' ?rows])
  next
    case False
    then obtain x where x: "x \<in> set (map (after ws) ?rows @ ?new)" "e = after ws' x"
      using e by (subst (asm) apply_writes_split) auto
    then obtain x0 where "x0 \<in> set ?rows" "x = after ws x0" using k newkey by auto
    then show ?thesis using x k session_untouched [OF s] by (auto simp: apply_writes_split [of ws' ?rows])
  qed
  have "one_execution (apply_writes ws' (map (after ws) ?rows @ ?new))"
    unfolding one_execution_def
  proof (intro ballI impI)
    fix x y assume xy: "x \<in> set (apply_writes ws' (map (after ws) ?rows @ ?new))"
      "y \<in> set (apply_writes ws' (map (after ws) ?rows @ ?new))"
      and a: "is_active x \<and> is_active y \<and> le_revision x = le_revision y"
    have eq: "le_key x = le_key y" using key [OF xy(1)] key [OF xy(2)] a by simp
    have one: "one_execution (apply_writes ws ?rows)" "one_execution (apply_writes ws' ?rows)"
      using s s' by (simp_all add: session_ok_def Let_def)
    show "le_id x = le_id y"
    proof (cases "le_key x = k")
      case True
      then show ?thesis using one_executionD [OF one(1) mine [OF xy(1)] mine [OF xy(2)]] a eq by simp
    next
      case False
      then show ?thesis using one_executionD [OF one(2) yours [OF xy(1)] yours [OF xy(2)]] a eq by simp
    qed
  qed
  note c6 = this
  have c1: "distinct (map le_id ?new')" and c2: "le_id ` set ?new' \<inter> (le_id ` set ?rows \<union> le_id ` set ?new) = {}"
    and c3: "\<forall>e \<in> set ?new'. le_key e = k' \<and> revision_key db (le_revision e) = Some k'"
    and c4: "\<forall>u. WStatus u \<in> set ws' \<longrightarrow> su_id u \<in> le_id ` set ?rows \<union> le_id ` set ?new \<union> le_id ` set ?new'"
    using s' disj by (auto simp: session_ok_def Let_def inserted_ids_def)
  have c5: "\<forall>u. WStatus u \<in> set ws' \<longrightarrow> (\<forall>e \<in> set (map (after ws) ?rows @ ?new). le_id e = su_id u \<longrightarrow> le_key e = k')"
    using touch by blast
  show ?thesis unfolding session_ok_def Let_def r ids revision_key_write
    by (intro conjI) (fact c1 c2 c3 c4 c5 c6)+
qed

lemma one_execution_snoc:
  "one_execution rows \<Longrightarrow> (\<And>x. x \<in> set rows \<Longrightarrow> is_active x \<Longrightarrow> le_revision x \<noteq> le_revision e) \<Longrightarrow> one_execution (rows @ [e])"
  unfolding one_execution_def by (metis in_set_conv_decomp_first rotate1.simps(2) set_ConsD set_rotate1)

lemma newest_attempt_mem: "newest_attempt rows = Some x \<Longrightarrow> x \<in> set rows"
  unfolding newest_attempt_def by (metis (no_types, lifting) list.case_eq_if list.set_sel(1) option.distinct(1) option.inject set_sort)

lemma newest_attempt_None [simp]: "newest_attempt rows = None \<longleftrightarrow> rows = []"
  by (auto simp: newest_attempt_def split: list.splits)

lemma find_active_SomeD: "find_active rv rows = Some x \<Longrightarrow> x \<in> set rows \<and> le_revision x = rv \<and> is_active x"
  unfolding find_active_def by (drule newest_attempt_mem) simp

lemma find_active_None: "find_active rv rows = None \<longleftrightarrow> (\<forall>x \<in> set rows. le_revision x = rv \<longrightarrow> \<not> is_active x)"
  by (auto simp: find_active_def filter_empty_conv)

lemma insert_execution_InrD:
  "insert_execution i now t d rv a p rs rows = Inr e \<Longrightarrow>
     le_id e = i \<and> le_key e = (t, d) \<and> le_revision e = rv \<and> le_attempt e = a \<and> le_parent e = p \<and> le_status e = ''running'' \<and>
     i \<notin> le_id ` set rows \<and> (\<forall>x \<in> set rows. is_active x \<longrightarrow> le_revision x \<noteq> rv)"
  by (auto simp: insert_execution_def le_key_def split: if_splits)

lemma update_status_InrD: "update_status strict u = Inr w \<Longrightarrow> w = WStatus u"
  by (auto simp: update_status_def split: if_splits)

lemma session_insert:
  assumes "rows_wf db" and "le_id e \<notin> le_id ` set (db_executions db)" and "revision_key db (le_revision e) = Some (le_key e)"
    and "\<And>x. x \<in> set (db_executions db) \<Longrightarrow> is_active x \<Longrightarrow> le_revision x \<noteq> le_revision e"
  shows "session_ok db (le_key e) [WInsert e]"
proof -
  have "one_execution (db_executions db @ [e])" using assms by (intro one_execution_snoc) (auto simp: rows_wf_def)
  then show ?thesis using assms by (simp add: session_ok_def)
qed

lemma session_replace:
  assumes wf: "rows_wf db" and x: "x \<in> set (db_executions db)" "le_key x = le_key e" and u: "su_id u = le_id x" "su_status u = ''stale''"
    and e: "le_id e \<notin> le_id ` set (db_executions db)" "revision_key db (le_revision e) = Some (le_key e)"
    and n: "\<And>y. y \<in> set (apply_write (WStatus u) (db_executions db)) \<Longrightarrow> is_active y \<Longrightarrow> le_revision y \<noteq> le_revision e"
  shows "session_ok db (le_key e) [WStatus u, WInsert e]"
proof -
  let ?rows = "db_executions db"
  have "one_execution (apply_write (WStatus u) ?rows)"
  proof (rule one_execution_calmer [of ?rows])
    show "one_execution ?rows" using wf by (simp add: rows_wf_def)
    fix e' assume "e' \<in> set (apply_write (WStatus u) ?rows)"
    then obtain y where "y \<in> set ?rows" "e' = (if le_id y = su_id u then set_status u y else y)" by auto
    then show "\<exists>e \<in> set ?rows. calmer e' e" using u(2) by (intro bexI [of _ y]) (auto simp: calmer_def is_active_def)
  qed
  then have one: "one_execution (apply_writes [WStatus u, WInsert e] ?rows)"
    using one_execution_snoc [of "apply_write (WStatus u) ?rows" e] n by simp
  have "le_key y = le_key e" if y: "y \<in> set ?rows" "le_id y = su_id u" for y
  proof -
    have "y = x" using wf x(1) y u(1) by (auto simp: rows_wf_def dest: inj_onD [OF distinct_map [THEN iffD1, THEN conjunct2]])
    then show ?thesis using x(2) by simp
  qed
  then show ?thesis using one x(1) u(1) e by (auto simp: session_ok_def Let_def)
qed

lemma session_status:
  assumes wf: "rows_wf db" and x: "x \<in> set (db_executions db)" "is_active x" and u: "su_id u = le_id x"
  shows "session_ok db (le_key x) [WStatus u]"
proof -
  let ?rows = "db_executions db"
  have same: "y = x" if y: "y \<in> set ?rows" "le_id y = le_id x" for y
    using wf x(1) y by (auto simp: rows_wf_def dest: inj_onD [OF distinct_map [THEN iffD1, THEN conjunct2]])
  have "one_execution (apply_writes [WStatus u] ?rows)"
  proof (rule one_execution_calmer [of ?rows])
    show "one_execution ?rows" using wf by (simp add: rows_wf_def)
    fix e' assume "e' \<in> set (apply_writes [WStatus u] ?rows)"
    then show "\<exists>e \<in> set ?rows. calmer e' e" using x u same by (fastforce simp: calmer_def)
  qed
  then show ?thesis using x u same by (auto simp: session_ok_def Let_def)
qed

text \<open>What a worker may write under the lock of \<open>k\<close> with the fresh identifier \<open>i\<close>, having claimed \<open>j\<close>.\<close>

definition claims :: "learning_db \<Rightarrow> lock_key \<Rightarrow> uuid \<Rightarrow> uuid \<Rightarrow> row_write list \<Rightarrow> bool" where
  "claims db k i j ws \<longleftrightarrow> session_ok db k ws \<and> inserted_ids ws \<subseteq> {i} \<and>
     j \<in> le_id ` set (db_executions db) \<union> inserted_ids ws \<and>
     (\<forall>e \<in> set (db_executions db). le_id e = j \<longrightarrow> le_key e = k)"

lemma claims_new:
  "session_ok db (le_key e) ws \<Longrightarrow> inserted_ids ws = {le_id e} \<Longrightarrow> le_id e \<notin> le_id ` set (db_executions db) \<Longrightarrow>
     claims db (le_key e) (le_id e) (le_id e) ws"
  unfolding claims_def by (auto simp: image_iff)

lemma ids_apply_status: "le_id ` set (apply_write (WStatus u) rows) = le_id ` set rows"
proof -
  have "map le_id (apply_write (WStatus u) rows) = map le_id rows" by simp
  then show ?thesis by (metis list.set_map)
qed

text \<open>A stale execution is superseded: by the worker that claims its revision or by the reconciler.\<close>

lemma supersede_claims:
  assumes wf: "rows_wf db" and x: "x \<in> set (db_executions db)" and kx: "le_key x = (t, d)"
    and c: "and_then (update_status strict ((no_update (le_id x) ''stale'')\<lparr>su_completed := Some now\<rparr>)) (\<lambda>w.
       and_then (insert_execution i now t d (le_revision x) a p (db_revisions db) (apply_write w (db_executions db)))
         (\<lambda>e. Inr (Some e, [w, WInsert e]))) = Inr (Some e, ws)"
  shows "claims db (t, d) i (le_id e) ws"
proof -
  define u where "u = (no_update (le_id x) ''stale'')\<lparr>su_completed := Some now\<rparr>"
  have u: "su_id u = le_id x" "su_status u = ''stale''" by (simp_all add: u_def no_update_def)
  obtain w where w: "update_status strict u = Inr w" "ws = [w, WInsert e]"
    and "insert_execution i now t d (le_revision x) a p (db_revisions db) (apply_write w (db_executions db)) = Inr e"
    using c by (auto simp: and_then_eq_Inr simp flip: u_def)
  then have ins: "insert_execution i now t d (le_revision x) a p (db_revisions db) (apply_write (WStatus u) (db_executions db)) = Inr e"
    and ws: "ws = [WStatus u, WInsert e]" using update_status_InrD [OF w(1)] by simp_all
  note e = insert_execution_InrD [OF ins, unfolded ids_apply_status]
  have k: "revision_key db (le_revision x) = Some (t, d)" using wf x kx by (simp add: rows_wf_def)
  have "session_ok db (le_key e) ws" unfolding ws
    using e x kx k u by (intro session_replace [OF wf x]) (simp_all del: apply_write.simps(2))
  then show ?thesis using claims_new [of db e ws] e ws by (simp add: inserted_ids_def)
qed

lemma claim_claims:
  assumes wf: "rows_wf db" and k: "revision_key db rv = Some (t, d)" and i: "i \<notin> le_id ` set (db_executions db)"
    and c: "claim strict i now t d rv (db_revisions db) (db_executions db) = Inr (Some e, ws)"
  shows "claims db (t, d) i (le_id e) ws"
proof (cases "find_active rv (db_executions db)")
  case None
  then have "insert_execution i now t d rv 1 None (db_revisions db) (db_executions db) = Inr e" "ws = [WInsert e]"
    using c by (auto simp: claim_def and_then_eq_Inr)
  with insert_execution_InrD [OF this(1)] session_insert [OF wf, of e] k show ?thesis
    using claims_new [of db e ws] by (auto simp: inserted_ids_def)
next
  case (Some x)
  then have x: "x \<in> set (db_executions db)" "le_revision x = rv" "is_active x" by (auto dest: find_active_SomeD)
  have kx: "le_key x = (t, d)" using wf x k by (auto simp: rows_wf_def)
  have same: "y = x" if y: "y \<in> set (db_executions db)" "le_id y = le_id x" for y
    using wf x(1) y by (auto simp: rows_wf_def dest: inj_onD [OF distinct_map [THEN iffD1, THEN conjunct2]])
  consider "le_status x = ''running''" | "le_status x = ''pending''" using x(3) by (auto simp: is_active_def)
  then show ?thesis
  proof cases
    case 1
    then have "and_then (update_status strict ((no_update (le_id x) ''stale'')\<lparr>su_completed := Some now\<rparr>)) (\<lambda>w.
       and_then (insert_execution i now t d (le_revision x) (le_attempt x + 1) (Some (le_id x)) (db_revisions db)
         (apply_write w (db_executions db))) (\<lambda>e. Inr (Some e, [w, WInsert e]))) = Inr (Some e, ws)"
      using c Some x(2) by (simp add: claim_def split: if_splits)
    then show ?thesis by (rule supersede_claims [OF wf x(1) kx])
  next
    case 2
    define u where "u = (no_update (le_id x) ''running'')\<lparr>su_started := Some now, su_heartbeat := Some now\<rparr>"
    obtain w where "update_status strict u = Inr w" "ws = [w]" "le_id e = le_id x"
      using c Some 2 by (auto simp: claim_def and_then_eq_Inr simp flip: u_def)
    then have u: "su_id u = le_id x" "ws = [WStatus u]" "le_id e = le_id x"
      using update_status_InrD by (auto simp: u_def no_update_def)
    then show ?thesis using session_status [OF wf x(1,3) u(1)] x kx same by (auto simp: claims_def inserted_ids_def)
  qed
qed

lemma reconcile_claims:
  assumes wf: "rows_wf db" and i: "i \<notin> le_id ` set (db_executions db)"
    and k: "\<And>c. lookup_row le_id (db_executions db) (le_id x) = Some c \<Longrightarrow> le_key c = le_key x"
    and c: "reconcile strict i now x (db_revisions db) (db_executions db) = Inr (Some e, ws)"
  shows "claims db (le_key x) i (le_id e) ws"
proof -
  obtain y where y: "lookup_row le_id (db_executions db) (le_id x) = Some y" using c by (auto simp: reconcile_def split: option.splits)
  then have y': "y \<in> set (db_executions db)" "le_id y = le_id x" by (auto simp: lookup_row_def dest: find_SomeD)
  have "and_then (update_status strict ((no_update (le_id y) ''stale'')\<lparr>su_completed := Some now\<rparr>)) (\<lambda>w.
     and_then (insert_execution i now (le_tenant y) (le_decision y) (le_revision y) (le_attempt y + 1) (Some (le_id y))
       (db_revisions db) (apply_write w (db_executions db))) (\<lambda>e. Inr (Some e, [w, WInsert e]))) = Inr (Some e, ws)"
    using c y by (simp add: reconcile_def split: if_splits)
  then have "claims db (le_tenant y, le_decision y) i (le_id e) ws"
    using supersede_claims [OF wf y'(1)] by (simp only: le_key_def)
  then show ?thesis using k [OF y] by (simp add: le_key_def)
qed

definition holds :: "learning_db \<Rightarrow> lock_key \<Rightarrow> uuid \<Rightarrow> row_write list \<Rightarrow> bool" where
  "holds db k j ws \<longleftrightarrow> session_ok db k ws \<and> j \<in> le_id ` set (db_executions db) \<union> inserted_ids ws \<and>
     (\<forall>e \<in> set (db_executions db). le_id e = j \<longrightarrow> le_key e = k)"

lemma workers_wf_alt: "workers_wf s \<longleftrightarrow> rows_wf (w_db s) \<and>
    (\<forall>k j ws. w_open s k = Some (j, ws) \<longrightarrow> holds (w_db s) k j ws) \<and>
    (\<forall>k k' j j' ws ws'. w_open s k = Some (j, ws) \<and> w_open s k' = Some (j', ws') \<and> k \<noteq> k' \<longrightarrow>
        inserted_ids ws \<inter> inserted_ids ws' = {})"
  unfolding workers_wf_def holds_def by (rule refl)

lemma workers_wfD:
  assumes "workers_wf s"
  shows "rows_wf (w_db s)" "w_open s k = Some (j, ws) \<Longrightarrow> holds (w_db s) k j ws"
    "w_open s k = Some (j, ws) \<Longrightarrow> w_open s k' = Some (j', ws') \<Longrightarrow> k \<noteq> k' \<Longrightarrow> inserted_ids ws \<inter> inserted_ids ws' = {}"
  using assms unfolding workers_wf_alt by blast+

lemma workers_wfI:
  assumes "rows_wf (w_db s)" and "\<And>k j ws. w_open s k = Some (j, ws) \<Longrightarrow> holds (w_db s) k j ws"
    and "\<And>k k' j j' ws ws'. w_open s k = Some (j, ws) \<Longrightarrow> w_open s k' = Some (j', ws') \<Longrightarrow> k \<noteq> k' \<Longrightarrow>
        inserted_ids ws \<inter> inserted_ids ws' = {}"
  shows "workers_wf s"
  unfolding workers_wf_alt using assms by blast

lemma freshD: "fresh i s \<Longrightarrow> w_open s k = Some (j, ws) \<Longrightarrow> i \<notin> inserted_ids ws"
  unfolding fresh_def by blast

lemma fresh_disjoint:
  "fresh i s \<Longrightarrow> claims db k i j ws \<Longrightarrow> w_open s k' = Some (j', ws') \<Longrightarrow> inserted_ids ws \<inter> inserted_ids ws' = {}"
  using freshD [of i s k' j' ws'] unfolding claims_def by blast

text \<open>Operations that change single rows in place and make none more active.\<close>

lemma workers_wf_map:
  assumes wf: "workers_wf s" and g: "\<And>e. e \<in> set (executions s) \<Longrightarrow> calmer (g e) e"
  shows "workers_wf (s\<lparr>w_db := (w_db s)\<lparr>db_executions := map g (executions s)\<rparr>\<rparr>)"
proof (rule workers_wfI)
  show "rows_wf (w_db (s\<lparr>w_db := (w_db s)\<lparr>db_executions := map g (executions s)\<rparr>\<rparr>))"
    using rows_wf_map [OF workers_wfD(1) [OF wf] g] by simp
next
  fix k j ws assume "w_open (s\<lparr>w_db := (w_db s)\<lparr>db_executions := map g (executions s)\<rparr>\<rparr>) k = Some (j, ws)"
  then have h: "holds (w_db s) k j ws" by (intro workers_wfD(2) [OF wf]) simp
  have ids: "le_id ` set (map g (executions s)) = le_id ` set (executions s)"
    using calmer_ids [of "executions s" g, OF g] by (metis list.set_map)
  have "\<forall>e \<in> set (map g (executions s)). le_id e = j \<longrightarrow> le_key e = k"
    using h g by (auto simp: calmer_def holds_def)
  then show "holds (w_db (s\<lparr>w_db := (w_db s)\<lparr>db_executions := map g (executions s)\<rparr>\<rparr>)) k j ws"
    using h session_ok_map [of "w_db s" k ws g, OF _ g] unfolding holds_def
    by (simp only: ids workers.select_convs workers.update_convs workers.simps db_executions_upd simp_thms) (simp add: ids [simplified])
next
  fix k k' j j' ws ws' assume "w_open (s\<lparr>w_db := (w_db s)\<lparr>db_executions := map g (executions s)\<rparr>\<rparr>) k = Some (j, ws)"
    "w_open (s\<lparr>w_db := (w_db s)\<lparr>db_executions := map g (executions s)\<rparr>\<rparr>) k' = Some (j', ws')" "k \<noteq> k'"
  then show "inserted_ids ws \<inter> inserted_ids ws' = {}" using workers_wfD(3) [OF wf, of k j ws k' j' ws'] by simp
qed

lemma update_wf:
  assumes "workers_wf s" and "\<not> is_active (set_status u e0)"
  shows "workers_wf (s\<lparr>w_db := write_db [WStatus u] (w_db s)\<rparr>)"
proof -
  have "is_active (set_status u e) \<longleftrightarrow> is_active (set_status u e0)" for e by (simp add: is_active_def)
  then have "calmer (if le_id e = su_id u then set_status u e else e) e" for e using assms(2) by (simp add: calmer_def)
  from workers_wf_map [OF assms(1) this] show ?thesis by (simp add: write_db_def)
qed

lemma holds_commit:
  assumes wf: "rows_wf db" and ok: "session_ok db k ws" and h: "holds db k' j ws'" and n: "k \<noteq> k'"
    and disj: "inserted_ids ws \<inter> inserted_ids ws' = {}"
  shows "holds (write_db ws db) k' j ws'"
proof -
  have r: "db_executions (write_db ws db) = map (after ws) (db_executions db) @ apply_writes ws []"
    unfolding write_db_def by (simp add: apply_writes_split [of ws "db_executions db"])
  have "le_key e = k'" if e: "e \<in> set (db_executions (write_db ws db))" "le_id e = j" for e
  proof -
    have "e \<notin> set (apply_writes ws [])"
    proof
      assume new: "e \<in> set (apply_writes ws [])"
      then have "j \<in> inserted_ids ws" using e(2) by (auto simp: inserted_ids_def)
      moreover have "j \<notin> le_id ` set (db_executions db)" using ok new e(2) by (auto simp: session_ok_def Let_def)
      ultimately show False using h disj by (auto simp: holds_def)
    qed
    then show ?thesis using e h unfolding r by (auto simp: holds_def)
  qed
  moreover have "le_id ` set (db_executions db) \<subseteq> le_id ` set (db_executions (write_db ws db))"
    unfolding r by (auto simp: image_Un image_image)
  ultimately show ?thesis using h session_ok_commit [OF wf ok _ n disj] unfolding holds_def by blast
qed

lemma commit_wf:
  assumes wf: "workers_wf s" and ok: "session_ok (w_db s) k ws"
    and disj: "\<And>k' j ws'. w_open s k' = Some (j, ws') \<Longrightarrow> k' \<noteq> k \<Longrightarrow> inserted_ids ws \<inter> inserted_ids ws' = {}"
  shows "workers_wf \<lparr>w_db = write_db ws (w_db s), w_open = (w_open s)(k := None)\<rparr>"
proof (rule workers_wfI)
  show "rows_wf (w_db \<lparr>w_db = write_db ws (w_db s), w_open = (w_open s)(k := None)\<rparr>)"
    using rows_wf_commit [OF workers_wfD(1) [OF wf] ok] by simp
next
  fix k' j ws' assume "w_open \<lparr>w_db = write_db ws (w_db s), w_open = (w_open s)(k := None)\<rparr> k' = Some (j, ws')"
  then have o: "w_open s k' = Some (j, ws')" "k \<noteq> k'" by (auto split: if_splits)
  show "holds (w_db \<lparr>w_db = write_db ws (w_db s), w_open = (w_open s)(k := None)\<rparr>) k' j ws'"
    using holds_commit [OF workers_wfD(1) [OF wf] ok workers_wfD(2) [OF wf o(1)] o(2) disj [OF o(1)]] o(2) by simp
next
  fix k1 k2 j1 j2 ws1 ws2 assume "w_open \<lparr>w_db = write_db ws (w_db s), w_open = (w_open s)(k := None)\<rparr> k1 = Some (j1, ws1)"
    "w_open \<lparr>w_db = write_db ws (w_db s), w_open = (w_open s)(k := None)\<rparr> k2 = Some (j2, ws2)" "k1 \<noteq> k2"
  then show "inserted_ids ws1 \<inter> inserted_ids ws2 = {}"
    using workers_wfD(3) [OF wf, of k1 j1 ws1 k2 j2 ws2] by (auto split: if_splits)
qed

lemma open_wf:
  assumes wf: "workers_wf s" and c: "claims (w_db s) k i j ws" and f: "fresh i s"
  shows "workers_wf (s\<lparr>w_open := (w_open s)(k \<mapsto> (j, ws))\<rparr>)"
proof (rule workers_wfI)
  show "rows_wf (w_db (s\<lparr>w_open := (w_open s)(k \<mapsto> (j, ws))\<rparr>))" using workers_wfD(1) [OF wf] by simp
next
  fix k' j' ws' assume "w_open (s\<lparr>w_open := (w_open s)(k \<mapsto> (j, ws))\<rparr>) k' = Some (j', ws')"
  then have "k' = k \<and> j' = j \<and> ws' = ws \<or> w_open s k' = Some (j', ws')" by (auto split: if_splits)
  moreover have "holds (w_db s) k j ws" using c by (simp add: claims_def holds_def)
  ultimately show "holds (w_db (s\<lparr>w_open := (w_open s)(k \<mapsto> (j, ws))\<rparr>)) k' j' ws'" using workers_wfD(2) [OF wf, of k' j' ws'] by auto
next
  fix k1 k2 j1 j2 ws1 ws2
  assume "w_open (s\<lparr>w_open := (w_open s)(k \<mapsto> (j, ws))\<rparr>) k1 = Some (j1, ws1)"
    "w_open (s\<lparr>w_open := (w_open s)(k \<mapsto> (j, ws))\<rparr>) k2 = Some (j2, ws2)" "k1 \<noteq> k2"
  then consider "ws1 = ws" "w_open s k2 = Some (j2, ws2)" | "ws2 = ws" "w_open s k1 = Some (j1, ws1)" |
      "w_open s k1 = Some (j1, ws1)" "w_open s k2 = Some (j2, ws2)" "k1 \<noteq> k2" by (auto split: if_splits)
  then show "inserted_ids ws1 \<inter> inserted_ids ws2 = {}"
    using fresh_disjoint [OF f c] workers_wfD(3) [OF wf] by cases blast+
qed

lemma close_wf: "workers_wf s \<Longrightarrow> workers_wf (s\<lparr>w_open := (w_open s)(k := None)\<rparr>)"
  by (rule workers_wfI) (auto dest: workers_wfD split: if_splits)

text \<open>Claiming and committing at once.\<close>

lemma claim_commit_wf:
  assumes "workers_wf s" and "claims (w_db s) k i j ws" and "fresh i s" and "w_open s k = None"
  shows "workers_wf (s\<lparr>w_db := write_db ws (w_db s)\<rparr>)"
proof -
  have "session_ok (w_db s) k ws" using assms(2) by (simp add: claims_def)
  then have "workers_wf \<lparr>w_db = write_db ws (w_db s), w_open = (w_open s)(k := None)\<rparr>"
    using fresh_disjoint [OF assms(3,2)] by (rule commit_wf [OF assms(1)])
  moreover have "(w_open s)(k := None) = w_open s" using assms(4) by auto
  ultimately show ?thesis by (cases s) simp
qed

text \<open>Completing the claimed execution inside the session.\<close>

lemma finish_wf:
  assumes wf: "workers_wf s" and o: "w_open s k = Some (j, ws)"
  shows "workers_wf (s\<lparr>w_open := (w_open s)(k \<mapsto> (j, ws @ [complete_execution_in_session now j n]))\<rparr>)"
proof -
  define u where "u = complete_update j now n"
  have w: "complete_execution_in_session now j n = WStatus u" "su_id u = j" "su_status u = ''completed''"
    by (simp_all add: complete_execution_in_session_def u_def complete_update_def no_update_def)
  let ?ws = "ws @ [WStatus u]" and ?rows = "executions s"
  have h: "holds (w_db s) k j ws" by (rule workers_wfD(2) [OF wf o])
  then have ok: "session_ok (w_db s) k ws" by (simp add: holds_def)
  have new: "apply_writes ?ws [] = apply_write (WStatus u) (apply_writes ws [])" by (simp add: apply_writes_append del: apply_write.simps)
  have ids: "inserted_ids ?ws = inserted_ids ws"
    unfolding inserted_ids_def new ids_apply_status by (rule refl)
  have idl: "map le_id (apply_writes ?ws []) = map le_id (apply_writes ws [])" unfolding new by simp
  have keys: "\<forall>e \<in> set (apply_writes ?ws []). le_key e = k \<and> revision_key (w_db s) (le_revision e) = Some k"
    using ok unfolding new by (auto simp: session_ok_def Let_def)
  have one: "one_execution (apply_writes ?ws ?rows)"
  proof (rule one_execution_calmer [of "apply_writes ws ?rows"])
    show "one_execution (apply_writes ws ?rows)" using ok by (simp add: session_ok_def Let_def)
    fix e' assume "e' \<in> set (apply_writes ?ws ?rows)"
    then obtain y where "y \<in> set (apply_writes ws ?rows)" "e' = (if le_id y = su_id u then set_status u y else y)"
      by (auto simp: apply_writes_append)
    then show "\<exists>e \<in> set (apply_writes ws ?rows). calmer e' e"
      using w(3) by (intro bexI [of _ y]) (auto simp: calmer_def is_active_def)
  qed
  have "session_ok (w_db s) k ?ws"
    unfolding session_ok_def Let_def idl
  proof (intro conjI)
    show "distinct (map le_id (apply_writes ws []))" using ok by (simp add: session_ok_def Let_def)
    show "le_id ` set (apply_writes ?ws []) \<inter> le_id ` set ?rows = {}"
      using ok ids by (simp add: session_ok_def Let_def inserted_ids_def)
    show "\<forall>v. WStatus v \<in> set ?ws \<longrightarrow> su_id v \<in> le_id ` set ?rows \<union> le_id ` set (apply_writes ?ws [])"
      using ok ids h w(2) by (auto simp: session_ok_def Let_def inserted_ids_def holds_def)
    show "\<forall>v. WStatus v \<in> set ?ws \<longrightarrow> (\<forall>e \<in> set ?rows. le_id e = su_id v \<longrightarrow> le_key e = k)"
      using ok h w(2) by (auto simp: session_ok_def Let_def holds_def)
  qed (fact keys one)+
  then have h': "holds (w_db s) k j ?ws" using h by (simp add: holds_def ids)
  show ?thesis unfolding w
  proof (rule workers_wfI)
    show "rows_wf (w_db (s\<lparr>w_open := (w_open s)(k \<mapsto> (j, ?ws))\<rparr>))" using workers_wfD(1) [OF wf] by simp
  next
    fix k' j' ws' assume "w_open (s\<lparr>w_open := (w_open s)(k \<mapsto> (j, ?ws))\<rparr>) k' = Some (j', ws')"
    then have "k' = k \<and> j' = j \<and> ws' = ?ws \<or> w_open s k' = Some (j', ws')" by (auto split: if_splits)
    then show "holds (w_db (s\<lparr>w_open := (w_open s)(k \<mapsto> (j, ?ws))\<rparr>)) k' j' ws'"
      using h' workers_wfD(2) [OF wf, of k' j' ws'] by auto
  next
    fix k1 k2 j1 j2 ws1 ws2
    assume a: "w_open (s\<lparr>w_open := (w_open s)(k \<mapsto> (j, ?ws))\<rparr>) k1 = Some (j1, ws1)"
      "w_open (s\<lparr>w_open := (w_open s)(k \<mapsto> (j, ?ws))\<rparr>) k2 = Some (j2, ws2)" "k1 \<noteq> k2"
    obtain v1 where v1: "w_open s k1 = Some (j1, v1)" "inserted_ids ws1 = inserted_ids v1" using a(1) o ids by (auto split: if_splits)
    obtain v2 where v2: "w_open s k2 = Some (j2, v2)" "inserted_ids ws2 = inserted_ids v2" using a(2) o ids by (auto split: if_splits)
    show "inserted_ids ws1 \<inter> inserted_ids ws2 = {}" using workers_wfD(3) [OF wf v1(1) v2(1) a(3)] v1(2) v2(2) by simp
  qed
qed

lemma submit_wf:
  assumes wf: "workers_wf s" and c: "submit_outcomes_with_revision i now t d actual at_time (w_db s) = (Inr r, db')"
    and i: "i \<notin> or_id ` set (db_revisions (w_db s))"
  shows "workers_wf (s\<lparr>w_db := db'\<rparr>)"
proof -
  have e: "db_executions db' = executions s"
    using c by (auto simp: submit_outcomes_with_revision_def create_outcome_revision_def Let_def split: if_splits)
  obtain x where "db_revisions db' = db_revisions (w_db s) @ [x]"
    using c by (auto simp: submit_outcomes_with_revision_def create_outcome_revision_def Let_def split: if_splits)
  then have k: "revision_key (w_db s) rv = Some k \<Longrightarrow> revision_key db' rv = Some k" for rv k
    by (auto simp: revision_key_def lookup_row_def find_append split: option.splits)
  have rows: "rows_wf db'" using workers_wfD(1) [OF wf] k by (simp add: rows_wf_def e)
  have "holds db' k j ws" if "w_open s k = Some (j, ws)" for k j ws
    using workers_wfD(2) [OF wf that] k by (auto simp: holds_def session_ok_def Let_def e)
  then show ?thesis using rows workers_wfD(3) [OF wf] by (intro workers_wfI) (simp_all, blast?)
qed

lemma step_wf: "h3_step strict s s' \<Longrightarrow> workers_wf s \<Longrightarrow> workers_wf s'"
proof (induction rule: h3_step.induct)
  case (submit i now t d actual at_time s r db')
  then show ?case by (intro submit_wf)
next
  case (open_phase2 s t d rv i now e ws)
  then have "claim strict i now t d rv (db_revisions (w_db s)) (executions s) = Inr (Some e, ws)" by (simp add: begin_phase2_def)
  moreover have "i \<notin> le_id ` set (executions s)" using open_phase2.hyps(3) by (simp add: fresh_def)
  ultimately have "claims (w_db s) (t, d) i (le_id e) ws"
    using claim_claims [OF workers_wfD(1) [OF open_phase2.prems] open_phase2.hyps(2)] by blast
  then show ?case using open_wf open_phase2 by blast
next
  case (finish s k i ws now n)
  then show ?case by (intro finish_wf)
next
  case (commit s k i ws)
  then have "session_ok (w_db s) k ws" using workers_wfD(2) by (auto simp: holds_def)
  then show ?case using workers_wfD(3) [OF commit.prems commit.hyps] by (intro commit_wf [OF commit.prems]) (blast, metis)
next
  case (rollback s k i ws)
  then show ?case by (intro close_wf)
next
  case (claim_now s t d rv i now r db')
  then obtain ws where c: "claim strict i now t d rv (db_revisions (w_db s)) (executions s) = Inr (r, ws)" "db' = write_db ws (w_db s)"
    by (auto simp: begin_execution_def split: sum.splits)
  show ?case
  proof (cases r)
    case None
    then have "ws = []" using c(1) by (auto simp: claim_def and_then_eq_Inr split: option.splits if_splits)
    then show ?thesis using c(2) claim_now.prems by (simp add: write_db_def)
  next
    case (Some e)
    have "i \<notin> le_id ` set (executions s)" using claim_now.hyps(3) by (simp add: fresh_def)
    then have "claims (w_db s) (t, d) i (le_id e) ws"
      using claim_claims [OF workers_wfD(1) [OF claim_now.prems] claim_now.hyps(2)] c(1) Some by blast
    then show ?thesis unfolding c(2) using claim_commit_wf claim_now by blast
  qed
next
  case (reconcile s x i now r db')
  then obtain ws where c: "Learning_Execution.reconcile strict i now x (db_revisions (w_db s)) (executions s) = Inr (r, ws)"
      "db' = write_db ws (w_db s)"
    by (auto simp: reconcile_stale_execution_def split: sum.splits)
  show ?case
  proof (cases r)
    case None
    then have "ws = []" using c(1) by (auto simp: reconcile_def and_then_eq_Inr split: option.splits if_splits)
    then show ?thesis using c(2) reconcile.prems by (simp add: write_db_def)
  next
    case (Some e)
    have "i \<notin> le_id ` set (executions s)" using reconcile.hyps(2) by (simp add: fresh_def)
    then have "claims (w_db s) (le_key x) i (le_id e) ws"
      using reconcile_claims [OF workers_wfD(1) [OF reconcile.prems], of i x strict now e ws] reconcile.hyps(3) c(1) Some
      by (auto simp: get_execution_def)
    then show ?thesis unfolding c(2) using claim_commit_wf reconcile by blast
  qed
next
  case (complete now i n s r db')
  show ?case
  proof (cases "update_status strict (complete_update i now n)")
    case (Inr w)
    then have "db' = write_db [WStatus (complete_update i now n)] (w_db s)"
      using complete.hyps update_status_InrD [OF Inr] by (auto simp: complete_execution_def Let_def)
    then show ?thesis using update_wf [OF complete.prems] by (simp add: is_active_def complete_update_def no_update_def)
  qed (use complete in \<open>auto simp: complete_execution_def\<close>)
next
  case (fail now i reason s r db')
  show ?case
  proof (cases "update_status strict (fail_update i now reason)")
    case (Inr w)
    then have "db' = write_db [WStatus (fail_update i now reason)] (w_db s)"
      using fail.hyps update_status_InrD [OF Inr] by (auto simp: fail_execution_def Let_def)
    then show ?thesis using update_wf [OF fail.prems] by (simp add: is_active_def fail_update_def no_update_def)
  qed (use fail in \<open>auto simp: fail_execution_def\<close>)
next
  case (beat s now i)
  have "calmer (if le_id e = i \<and> le_status e = ''running'' then heartbeat now e else e) e" for e
    by (simp add: calmer_def heartbeat_def is_active_def le_key_def)
  from workers_wf_map [OF beat this] show ?case by (simp add: update_heartbeat_def)
qed

lemma steps_wf: "(h3_step strict)\<^sup>*\<^sup>* s s' \<Longrightarrow> workers_wf s \<Longrightarrow> workers_wf s'"
  by (induction rule: rtranclp_induct) (auto intro: step_wf)

lemma one_execution_count:
  assumes "distinct (map le_id rows)" and "one_execution rows"
  shows "length (filter (\<lambda>e. le_revision e = rv \<and> is_active e) rows) \<le> 1"
proof -
  let ?xs = "filter (\<lambda>e. le_revision e = rv \<and> is_active e) rows"
  have "x = y" if "x \<in> set ?xs" "y \<in> set ?xs" for x y
    using that assms by (auto simp: one_execution_def distinct_map dest: inj_onD)
  then have "card (set ?xs) \<le> 1" by (auto simp: card_le_Suc0_iff_eq)
  moreover have "distinct ?xs" using assms(1) by (simp add: distinct_map)
  ultimately show ?thesis using distinct_card [of ?xs] by simp
qed

lemma unbound_no_update [simp]:
  "unbound ((no_update i st)\<lparr>su_completed := c\<rparr>)"
  "unbound ((no_update i st)\<lparr>su_started := a, su_heartbeat := h\<rparr>)"
  "unbound (complete_update i now n)" "unbound (fail_update i now reason)"
  by (simp_all add: unbound_def no_update_def complete_update_def fail_update_def)

lemma update_status_lenient [simp]: "update_status False u = Inr (WStatus u)"
  by (simp add: update_status_def)

lemma update_status_strict: "unbound u \<Longrightarrow> \<exists>x. update_status True u = Inl x"
  by (simp add: update_status_def)

text \<open>How the status of a row moves when a worker claims a revision or reconciles an execution.\<close>

definition moves :: "row_write list \<Rightarrow> learning_execution list \<Rightarrow> bool" where
  "moves ws rows \<longleftrightarrow> (\<forall>e \<in> set rows. le_status (after ws e) = le_status e \<or>
     is_valid_transition (le_status e) (le_status (after ws e)))"

lemma moves_status:
  assumes "distinct (map le_id rows)" and "x \<in> set rows" and "su_id u = le_id x"
    and "is_valid_transition (le_status x) (su_status u)"
  shows "moves (WStatus u # map WInsert es) rows"
proof -
  have ins: "after (map WInsert es) e = e" for e by (induction es) simp_all
  have "e = x" if "e \<in> set rows" "le_id e = su_id u" for e
    using that assms(1-3) by (auto simp: distinct_map dest: inj_onD)
  then show ?thesis using assms(4) by (auto simp: moves_def ins)
qed

lemma valid_moves [simp]:
  "is_valid_transition ''pending'' ''running''" "is_valid_transition ''running'' ''stale''"
  "is_valid_transition ''running'' ''completed''" "is_valid_transition ''running'' ''failed''"
  by (simp_all add: is_valid_transition_def VALID_STATUSES_def VALID_TRANSITIONS_def)

lemma supersede_moves:
  assumes "distinct (map le_id rows)" and "x \<in> set rows" and "le_status x = ''running''"
    and "and_then (update_status strict ((no_update (le_id x) ''stale'')\<lparr>su_completed := Some now\<rparr>)) (\<lambda>w.
       and_then (f w) (\<lambda>e. Inr (Some e, [w, WInsert e]))) = Inr (r, ws)"
  shows "moves ws rows"
proof -
  define u where "u = (no_update (le_id x) ''stale'')\<lparr>su_completed := Some now\<rparr>"
  have u: "su_id u = le_id x" "su_status u = ''stale''" by (simp_all add: u_def no_update_def)
  obtain w e where "update_status strict u = Inr w" "ws = [w, WInsert e]"
    using assms(4) by (auto simp: and_then_eq_Inr simp flip: u_def)
  then have ws: "ws = WStatus u # map WInsert [e]" using update_status_InrD by auto
  show ?thesis unfolding ws using u(2) assms(3) by (intro moves_status [OF assms(1,2) u(1)]) simp
qed

lemma claim_moves:
  assumes d: "distinct (map le_id rows)" and c: "claim strict i now t k rv revs rows = Inr (r, ws)"
  shows "moves ws rows"
proof (cases "find_active rv rows")
  case None
  then obtain e where "ws = [WInsert e]" using c by (auto simp: claim_def and_then_eq_Inr)
  then show ?thesis by (simp add: moves_def)
next
  case (Some x)
  then have x: "x \<in> set rows" "is_active x" by (auto dest: find_active_SomeD)
  consider "le_status x = ''running''" "\<not> is_stale now x" | "le_status x = ''running''" "is_stale now x" | "le_status x = ''pending''"
    using x(2) by (auto simp: is_active_def)
  then show ?thesis
  proof cases
    case 1
    then show ?thesis using c Some by (simp add: claim_def moves_def)
  next
    case 2
    then show ?thesis using c Some by (intro supersede_moves [OF d x(1) 2(1), of strict now _ r]) (simp add: claim_def)
  next
    case 3
    define u where "u = (no_update (le_id x) ''running'')\<lparr>su_started := Some now, su_heartbeat := Some now\<rparr>"
    have u: "su_id u = le_id x" "su_status u = ''running''" by (simp_all add: u_def no_update_def)
    obtain w where "update_status strict u = Inr w" "ws = [w]" using c Some 3 by (auto simp: claim_def and_then_eq_Inr simp flip: u_def)
    then have ws: "ws = WStatus u # map WInsert []" using update_status_InrD by auto
    show ?thesis unfolding ws using u(2) 3 by (intro moves_status [OF d x(1) u(1)]) simp
  qed
qed

lemma reconcile_moves:
  assumes d: "distinct (map le_id rows)" and c: "reconcile strict i now x revs rows = Inr (r, ws)"
  shows "moves ws rows"
proof (cases "lookup_row le_id rows (le_id x)")
  case None
  then show ?thesis using c by (simp add: reconcile_def moves_def)
next
  case (Some y)
  then have y: "y \<in> set rows" by (auto simp: lookup_row_def dest: find_SomeD)
  show ?thesis
  proof (cases "is_stale now y \<and> \<not> (case find_active (le_revision y) rows of None \<Rightarrow> False | Some a \<Rightarrow> le_id a \<noteq> le_id y)")
    case True
    then have run: "le_status y = ''running''" by (auto simp: is_stale_def split: if_splits)
    show ?thesis using c Some True
      by (intro supersede_moves [OF d y run, of strict now _ r]) (simp add: reconcile_def)
  qed (use c Some in \<open>auto simp: reconcile_def moves_def split: if_splits\<close>)
qed

section \<open>An example\<close>

definition ex_committed :: decision where
  "ex_committed = \<lparr>dec_id = 5, dec_tenant = 7, dec_recommendation = 2, dec_confidence = 3, dec_authority = 4,
     dec_commitment = [], dec_expected = [], dec_risk = ''low'', dec_status = ''committed'', dec_committed_at = 0,
     dec_executed_at = None, dec_actual = None, dec_outcome_status = ''pending''\<rparr>"

definition ex_revision :: outcome_revision where
  "ex_revision = \<lparr>or_id = 1, or_tenant = 7, or_decision = 5, or_actual = [], or_executed_at = None, or_created = 0\<rparr>"

definition ex_execution :: "string \<Rightarrow> learning_execution" where
  "ex_execution st = \<lparr>le_id = 2, le_tenant = 7, le_decision = 5, le_revision = 1, le_status = st, le_attempt = 1,
     le_parent = None, le_started = None, le_completed = None, le_heartbeat = Some 0, le_signals = 0,
     le_reason = None, le_created = 0\<rparr>"

definition ex_db :: "string list \<Rightarrow> learning_db" where
  "ex_db sts = \<lparr>db_revisions = [ex_revision], db_executions = map ex_execution sts, db_decisions = [ex_committed]\<rparr>"

definition ex_workers :: workers where
  "ex_workers = \<lparr>w_db = (ex_db [])\<lparr>db_revisions := []\<rparr>, w_open = (\<lambda>k. None)\<rparr>"

lemma ex_rows_wf: "rows_wf (ex_db [st])"
  by (simp add: rows_wf_def ex_db_def one_execution_def revision_key_def lookup_row_def ex_revision_def ex_execution_def le_key_def)

section \<open>Properties\<close>

text \<open>
  C4. The advisory lock keeps executions exclusive: in every state that any interleaving of workers
  reaches, with open sessions, heartbeats, completions, failures, new revisions and reconciliation, a
  revision has at most one pending or running execution, and committing any open session keeps it so.
\<close>

theorem advisory_lock_exclusive:
  assumes "db_executions (w_db s0) = []" and "w_open s0 = (\<lambda>k. None)" and "(h3_step strict)\<^sup>*\<^sup>* s0 s"
  shows "length (filter (\<lambda>e. le_revision e = rv \<and> is_active e) (db_executions (w_db s))) \<le> 1 \<and>
     (\<forall>k j ws. w_open s k = Some (j, ws) \<longrightarrow>
        length (filter (\<lambda>e. le_revision e = rv \<and> is_active e) (db_executions (write_db ws (w_db s)))) \<le> 1)"
proof -
  have "workers_wf s0" using assms(1,2) by (intro workers_wfI) (simp_all add: rows_wf_def one_execution_def)
  then have wf: "workers_wf s" using assms(3) steps_wf by blast
  have "length (filter (\<lambda>e. le_revision e = rv \<and> is_active e) (db_executions db)) \<le> 1" if "rows_wf db" for db
    using one_execution_count that by (simp add: rows_wf_def)
  moreover have "rows_wf (write_db ws (w_db s))" if "w_open s k = Some (j, ws)" for k j ws
    using rows_wf_commit [OF workers_wfD(1) [OF wf], of k ws] workers_wfD(2) [OF wf that] by (simp add: holds_def)
  ultimately show ?thesis using workers_wfD(1) [OF wf] by blast
qed

theorem advisory_lock_exclusive_witness:
  "\<exists>s. (h3_step True)\<^sup>*\<^sup>* ex_workers s \<and> w_open s (7, 5) = Some (2, [WInsert (ex_execution ''running'')]) \<and>
     length (filter (\<lambda>e. le_revision e = 1 \<and> is_active e)
       (db_executions (write_db [WInsert (ex_execution ''running'')] (w_db s)))) \<le> 1"
proof -
  define d where "d = record_outcomes [] None ex_committed"
  let ?db = "(ex_db [])\<lparr>db_decisions := [d]\<rparr>" and ?ws = "[WInsert (ex_execution ''running'')]"
  let ?s1 = "ex_workers\<lparr>w_db := ?db\<rparr>"
  let ?s2 = "?s1\<lparr>w_open := (w_open ?s1)((7, 5) \<mapsto> (le_id (ex_execution ''running''), ?ws))\<rparr>"
  have "submit_outcomes_with_revision 1 0 7 5 [] None (w_db ex_workers) = (Inr ex_revision, ?db)"
    by (simp add: submit_outcomes_with_revision_def create_outcome_revision_def ex_workers_def ex_db_def
        ex_committed_def d_def ex_revision_def Let_def)
  then have 1: "h3_step True ex_workers ?s1"
    by (rule h3_step.submit) (simp add: ex_workers_def)
  have "begin_phase2 True 2 0 7 5 1 (w_db ?s1) = Inr (Some (ex_execution ''running''), ?ws)"
    by (simp add: begin_phase2_def claim_def find_active_def newest_attempt_def insert_execution_def ex_db_def
        ex_revision_def ex_execution_def)
  moreover have "revision_key (w_db ?s1) 1 = Some (7, 5)"
    by (simp add: revision_key_def lookup_row_def ex_db_def ex_revision_def)
  moreover have "fresh 2 ?s1" "w_open ?s1 (7, 5) = None" by (simp_all add: fresh_def ex_workers_def ex_db_def)
  ultimately have 2: "h3_step True ?s1 ?s2" by (intro h3_step.open_phase2)
  have r: "(h3_step True)\<^sup>*\<^sup>* ex_workers ?s2" by (rule rtranclp.rtrancl_into_rtrancl [of "h3_step True", OF r_into_rtranclp [of "h3_step True", OF 1] 2])
  have o: "w_open ?s2 (7, 5) = Some (2, ?ws)" by (simp add: ex_execution_def)
  have i: "db_executions (w_db ex_workers) = []" "w_open ex_workers = (\<lambda>k. None)" by (simp_all add: ex_workers_def ex_db_def)
  have "length (filter (\<lambda>e. le_revision e = 1 \<and> is_active e) (db_executions (write_db ?ws (w_db ?s2)))) \<le> 1"
    using advisory_lock_exclusive [OF i r, of 1] o by blast
  then show ?thesis using r o by blast
qed

text \<open>
  A learned revision is learned again: the search for an existing execution only sees pending and
  running ones, so whatever executions of a revision have completed, failed or gone stale, the
  next run claims a new one, as attempt 1 without parent; the announced skip does not happen.
\<close>

theorem finished_revision_runs_again:
  assumes "\<forall>e \<in> set (db_executions db). le_revision e = rv \<longrightarrow> le_status e \<in> TERMINAL_STATUSES"
    and "rv \<in> or_id ` set (db_revisions db)" and "i \<notin> le_id ` set (db_executions db)"
  shows "\<exists>e. begin_phase2 strict i now t d rv db = Inr (Some e, [WInsert e]) \<and> le_status e = ''running'' \<and>
     le_attempt e = 1 \<and> le_parent e = None"
proof -
  have n: "\<forall>e \<in> set (db_executions db). le_revision e = rv \<longrightarrow> \<not> is_active e"
    using assms(1) by (auto simp: TERMINAL_STATUSES_def is_active_def)
  then have "find_active rv (db_executions db) = None" by (simp add: find_active_None)
  then show ?thesis using n assms(2,3) by (auto simp: begin_phase2_def claim_def insert_execution_def)
qed

theorem finished_revision_runs_again_witness:
  "\<exists>e. begin_phase2 True 9 0 7 5 1 (ex_db [''completed'']) = Inr (Some e, [WInsert e]) \<and> le_attempt e = 1"
  using finished_revision_runs_again [of "ex_db [''completed'']" 1 9 True 0 7 5]
  by (auto simp: ex_db_def ex_execution_def ex_revision_def TERMINAL_STATUSES_def)

text \<open>
  Recovery from a crash depends on unbound parameters: when the execution of a revision is running
  and stale, a layer that binds NULL for them marks it stale and starts the next attempt as its
  child, and a layer that refuses them raises in every later run, which changes nothing.
\<close>

theorem stale_recovery_needs_null_binding:
  assumes "rows_wf db" and "x \<in> set (db_executions db)" and "is_stale now x"
    and "le_revision x \<in> or_id ` set (db_revisions db)" and "i \<notin> le_id ` set (db_executions db)"
  shows "(\<exists>y. begin_execution True i now t d (le_revision x) db = (Inl y, db)) \<and>
     (\<exists>e. begin_execution False i now t d (le_revision x) db =
        (Inr (Some e), db\<lparr>db_executions := map (\<lambda>r. if le_id r = le_id x
            then r\<lparr>le_status := ''stale'', le_completed := Some now\<rparr> else r) (db_executions db) @ [e]\<rparr>) \<and>
        le_attempt e = le_attempt x + 1 \<and> le_parent e = Some (le_id x))"
proof -
  let ?rows = "db_executions db"
  define u where "u = (no_update (le_id x) ''stale'')\<lparr>su_completed := Some now\<rparr>"
  have run: "le_status x = ''running''" using assms(3) by (auto simp: is_stale_def split: if_splits)
  then have ax: "is_active x" by (simp add: is_active_def)
  have same: "r = x" if "r \<in> set ?rows" "le_revision r = le_revision x" "is_active r" for r
    using that assms(1,2) ax by (auto simp: rows_wf_def distinct_map dest: one_executionD inj_onD)
  have f: "find_active (le_revision x) ?rows = Some x"
  proof (cases "find_active (le_revision x) ?rows")
    case None
    then show ?thesis using assms(2) ax by (simp add: find_active_None)
  next
    case (Some y)
    then show ?thesis using same find_active_SomeD [OF Some] by simp
  qed
  have uid: "su_id u = le_id x" by (simp add: u_def no_update_def)
  have set_u: "set_status u r = r\<lparr>le_status := ''stale'', le_completed := Some now\<rparr>" for r
    by (simp add: set_status_def u_def no_update_def coalesce_def)
  let ?rows1 = "apply_write (WStatus u) ?rows"
  have ids: "le_id ` set ?rows1 = le_id ` set ?rows" by (rule ids_apply_status)
  have none: "\<not> (\<exists>r \<in> set ?rows1. le_revision r = le_revision x \<and> is_active r)"
  proof
    assume "\<exists>r \<in> set ?rows1. le_revision r = le_revision x \<and> is_active r"
    then obtain r where r: "r \<in> set ?rows" "le_id r \<noteq> le_id x" "le_revision r = le_revision x" "is_active r"
      by (auto simp: u_def no_update_def is_active_def)
    then show False using same by blast
  qed
  obtain e where e: "insert_execution i now t d (le_revision x) (le_attempt x + 1) (Some (le_id x)) (db_revisions db) ?rows1 = Inr e"
      "le_attempt e = le_attempt x + 1" "le_parent e = Some (le_id x)"
    unfolding insert_execution_def ids using assms(2,4,5) none by simp
  have "claim False i now t d (le_revision x) (db_revisions db) ?rows = Inr (Some e, [WStatus u, WInsert e])"
    using f run assms(3) e(1) by (simp add: claim_def flip: u_def del: apply_write.simps)
  moreover have "\<exists>y. claim True i now t d (le_revision x) (db_revisions db) ?rows = Inl y"
    using f run assms(3) update_status_strict [of u] by (auto simp: claim_def u_def)
  moreover have "write_db [WStatus u, WInsert e] db = db\<lparr>db_executions := map (\<lambda>r. if le_id r = le_id x
            then r\<lparr>le_status := ''stale'', le_completed := Some now\<rparr> else r) ?rows @ [e]\<rparr>"
    by (simp only: write_db_def apply_writes_simps apply_write.simps uid set_u)
  ultimately show ?thesis using e by (auto simp: begin_execution_def)
qed

theorem stale_recovery_needs_null_binding_witness:
  "\<exists>y. begin_execution True 9 300000001 7 5 1 (ex_db [''running'']) = (Inl y, ex_db [''running''])"
  using stale_recovery_needs_null_binding [OF ex_rows_wf [of "''running''"], of "ex_execution ''running''" 300000001 9 7 5]
  by (auto simp: ex_db_def ex_execution_def ex_revision_def is_stale_def)



text \<open>
  Phase 1 is atomic: for an unknown decision nothing is stored, not even the revision; otherwise
  the revision is appended, no execution changes, and of the decisions only the outcome fields of the
  addressed one, whose earlier outcomes the new ones replace.
\<close>

theorem outcome_submission_atomic:
  "case submit_outcomes_with_revision i now t d actual at_time db of
     (Inl _, db') \<Rightarrow> db' = db \<and> \<not> (\<exists>x \<in> set (db_decisions db). dec_id x = d \<and> dec_tenant x = t)
   | (Inr r, db') \<Rightarrow> (\<exists>x \<in> set (db_decisions db). dec_id x = d \<and> dec_tenant x = t) \<and>
       or_id r = i \<and> or_actual r = actual \<and> db_revisions db' = db_revisions db @ [r] \<and> db_executions db' = db_executions db \<and>
       db_decisions db' = map (\<lambda>x. if dec_id x = d \<and> dec_tenant x = t
         then x\<lparr>dec_actual := Some actual, dec_outcome_status := ''observed'',
                dec_executed_at := coalesce at_time (dec_executed_at x)\<rparr> else x) (db_decisions db)"
proof (cases "\<exists>x \<in> set (db_decisions db). dec_id x = d \<and> dec_tenant x = t")
  case True
  then show ?thesis by (simp add: submit_outcomes_with_revision_def create_outcome_revision_def record_outcomes_def Let_def)
next
  case False
  then show ?thesis unfolding submit_outcomes_with_revision_def create_outcome_revision_def Let_def by (simp only: if_False) simp
qed

end
