(* ===== verification/Learning_Loop.thy ===== *)
theory Learning_Loop
  imports Outcome_Learning Learning_Execution
begin

text \<open>
  The learning loop of a decision: the trace, the signals and both loops of
  \<open>libs/memory/learning_loop.py\<close>, the ledger of \<open>libs/memory/memory_ledger.py\<close>, the cognitive gate of
  \<open>libs/learning/cognitive_gate.py\<close> and the outcome endpoint of the gateway as \<open>main.py\<close> wires it.
  The digest of a signal (\<open>sha\<close>) and fresh identifiers are arguments; \<open>fault\<close> is an exception of
  the infrastructure (a reader or the commit) inside the guarded part of a run.
\<close>

section \<open>Ledger (memory_ledger.py)\<close>

definition TARGET_TYPES :: "string set" where
  "TARGET_TYPES = {''pattern'', ''context'', ''insight'', ''decision''}"

record memory_input =
  mi_tenant :: uuid
  mi_type :: string
  mi_target :: uuid
  mi_signal :: dict
  mi_provenance :: dict
  mi_execution :: "uuid option"

record memory_record =
  lm_id :: uuid
  lm_tenant :: uuid
  lm_type :: string
  lm_target :: uuid
  lm_signal :: dict
  lm_provenance :: dict
  lm_hash :: string
  lm_execution :: "uuid option"
  lm_created :: datetime

text \<open>The unique index of the ledger.\<close>

definition lm_key :: "memory_record \<Rightarrow> uuid \<times> string \<times> uuid \<times> string" where
  "lm_key r = (lm_tenant r, lm_type r, lm_target r, lm_hash r)"

definition memory_row :: "(dict \<Rightarrow> string) \<Rightarrow> uuid \<Rightarrow> datetime \<Rightarrow> uuid option \<Rightarrow> memory_input \<Rightarrow> memory_record" where
  "memory_row sha i now execution r =
     \<lparr>lm_id = i, lm_tenant = mi_tenant r, lm_type = mi_type r, lm_target = mi_target r, lm_signal = mi_signal r,
      lm_provenance = mi_provenance r, lm_hash = sha (mi_signal r), lm_execution = execution, lm_created = now\<rparr>"

definition get_latest :: "uuid \<Rightarrow> string \<Rightarrow> uuid \<Rightarrow> memory_record list \<Rightarrow> memory_record option" where
  "get_latest tenant typ target rows =
     (case sort_key (\<lambda>r. - lm_created r) (filter (\<lambda>r. lm_tenant r = tenant \<and> lm_type r = typ \<and> lm_target r = target) rows) of
        [] \<Rightarrow> None | r # _ \<Rightarrow> Some r)"

text \<open>
  The query of \<open>list\<close> leaves out \<open>execution_id\<close>, which \<open>_row_to_record\<close> reads from every row.
\<close>

definition list_memory :: "uuid \<Rightarrow> string option \<Rightarrow> uuid option \<Rightarrow> memory_record list \<Rightarrow> memory_record list result" where
  "list_memory tenant typ target rows =
     traverse (\<lambda>r. Inl (KeyError ''execution_id''))
       (sort_key (\<lambda>r. - lm_created r) (filter (\<lambda>r. lm_tenant r = tenant \<and> (typ = None \<or> typ = Some (lm_type r)) \<and>
          (target = None \<or> target = Some (lm_target r))) rows))"

text \<open>
  Both ways to persist: the row when it was inserted, else the latest row of the target, whatever its signal.
\<close>

definition persist_row :: "memory_input \<Rightarrow> memory_record \<Rightarrow> memory_record list \<Rightarrow> memory_record option result \<times> memory_record list" where
  "persist_row r row rows =
     (if mi_type r \<notin> TARGET_TYPES then (Inl (ValueError ''invalid target_type''), rows)
      else case insert_row lm_key row rows of
          (rows', Some x) \<Rightarrow> (Inr (Some x), rows')
        | (rows', None) \<Rightarrow> (Inr (get_latest (mi_tenant r) (mi_type r) (mi_target r) rows'), rows'))"

definition persist_memory :: "(dict \<Rightarrow> string) \<Rightarrow> uuid \<Rightarrow> datetime \<Rightarrow> memory_input \<Rightarrow> memory_record list \<Rightarrow>
    memory_record option result \<times> memory_record list" where
  "persist_memory sha i now r rows = persist_row r (memory_row sha i now (mi_execution r) r) rows"

definition persist_in_session :: "(dict \<Rightarrow> string) \<Rightarrow> uuid \<Rightarrow> datetime \<Rightarrow> memory_input \<Rightarrow> uuid option \<Rightarrow> memory_record list \<Rightarrow>
    memory_record result \<times> memory_record list" where
  "persist_in_session sha i now r execution rows =
     (case persist_row r (memory_row sha i now (case mi_execution r of None \<Rightarrow> execution | Some e \<Rightarrow> Some e) r) rows of
        (Inl x, rows') \<Rightarrow> (Inl x, rows')
      | (Inr (Some m), rows') \<Rightarrow> (Inr m, rows')
      | (Inr None, rows') \<Rightarrow> (Inl (TypeError ''NoneType is not subscriptable''), rows'))"

section \<open>Trace and signals (learning_loop.py)\<close>

record traced =
  tr_patterns :: "uuid list"
  tr_contexts :: "uuid list"
  tr_insights :: "uuid list"

definition trace_decision :: "canonical \<Rightarrow> decision \<Rightarrow> traced" where
  "trace_decision k d =
     (let tenant = dec_tenant d
      in case by_id rec_id (page_recommendations tenant k) (dec_recommendation d) of
           None \<Rightarrow> \<lparr>tr_patterns = [], tr_contexts = [], tr_insights = []\<rparr>
         | Some r \<Rightarrow>
             (case by_id hyp_id (page_hypotheses tenant k) (rec_hypothesis r) of
                None \<Rightarrow> \<lparr>tr_patterns = [], tr_contexts = [], tr_insights = []\<rparr>
              | Some h \<Rightarrow>
                  (let pats = List.map_filter (by_id pat_id (page_patterns tenant k)) (hyp_pattern_ids h)
                   in \<lparr>tr_patterns = map pat_id pats, tr_contexts = map pat_context pats,
                       tr_insights = (case rec_insight r of None \<Rightarrow> [] | Some i \<Rightarrow> [i])\<rparr>)))"

definition jid :: "uuid \<Rightarrow> json" where
  "jid u = JStr (uuid_str u)"

definition jnat :: "nat \<Rightarrow> json" where
  "jnat n = JInt (int n)"

definition jopt :: "('a \<Rightarrow> json) \<Rightarrow> 'a option \<Rightarrow> json" where
  "jopt f x = (case x of None \<Rightarrow> JNull | Some y \<Rightarrow> f y)"

definition detail_json :: "outcome_detail \<Rightarrow> json" where
  "detail_json d = JObj ([(''metric'', jopt JStr (od_metric d)), (''prediction'', jopt JFloat (od_prediction d))] @
     (case od_actual d of None \<Rightarrow> [] | Some b \<Rightarrow> [(''actual'', JInt b)]) @
     [(''classification'', JStr (od_class d))] @
     (case od_reason d of None \<Rightarrow> [] | Some r \<Rightarrow> [(''reason'', JStr r)]))"

type_synonym signal = "string \<times> uuid \<times> dict \<times> dict"

definition attribution_fields :: "attribution \<Rightarrow> dict" where
  "attribution_fields a = [(''corroborated'', jnat (at_corroborated a)), (''contradicted'', jnat (at_contradicted a)),
     (''inconclusive'', jnat (at_inconclusive a))]"

definition consolidation_signal :: "uuid \<Rightarrow> uuid \<Rightarrow> consolidation \<Rightarrow> signal" where
  "consolidation_signal tenant decision c =
     (''decision'', decision,
      [(''decision_id'', jid decision), (''calibration_feedback'', JFloat (cn_feedback c)), (''brier'', jopt JFloat (cn_brier c)),
       (''ece'', jopt JFloat (cn_ece c)), (''corroborated'', jnat (cn_corroborated c)), (''contradicted'', jnat (cn_contradicted c)),
       (''inconclusive'', jnat (cn_inconclusive c)), (''details'', JArr (map detail_json (cn_details c)))],
      [(''decision_id'', jid decision), (''tenant_id'', jid tenant), (''source'', JStr ''outcome_consolidation'')])"

definition pattern_signal :: "uuid \<Rightarrow> uuid \<Rightarrow> pattern_refinement \<Rightarrow> signal" where
  "pattern_signal tenant decision p =
     (''pattern'', pr_pattern p,
      [(''pattern_id'', jid (pr_pattern p)), (''recommended_action'', JStr (pr_action p)),
       (''recommended_strength'', JFloat (pr_recommended p)), (''current_strength'', JFloat (pr_current p)),
       (''linked_decisions'', jnat (at_linked (pr_attribution p)))] @ attribution_fields (pr_attribution p) @
      [(''contradiction_ratio'', JFloat (pr_ratio p))],
      [(''pattern_id'', jid (pr_pattern p)), (''context_id'', jid (pr_context p)), (''tenant_id'', jid tenant),
       (''source'', JStr ''pattern_refinement''), (''decision_id'', jid decision)])"

definition context_signal :: "uuid \<Rightarrow> uuid \<Rightarrow> context_revision \<Rightarrow> signal" where
  "context_signal tenant decision c =
     (''context'', cv_context c,
      [(''context_id'', jid (cv_context c)), (''recommended_revision'', JStr (cv_revision c)),
       (''suggested_competitor'', jopt JStr (cv_competitor c)), (''linked_decisions'', jnat (at_linked (cv_attribution c)))] @
      attribution_fields (cv_attribution c) @
      [(''contradiction_ratio'', JFloat (cv_ratio c)), (''has_competing_models'', JBool (cv_competing c))],
      [(''context_id'', jid (cv_context c)), (''tenant_id'', jid tenant), (''source'', JStr ''context_revision''),
       (''decision_id'', jid decision)])"

definition insight_signal :: "uuid \<Rightarrow> uuid \<Rightarrow> insight_transformation \<Rightarrow> signal" where
  "insight_signal tenant decision i =
     (''insight'', it_insight i,
      [(''insight_id'', jid (it_insight i)), (''transformation_kind'', JStr (it_kind i)), (''description'', JStr (it_description i)),
       (''prior_understanding'', JStr (it_prior i)), (''mental_model_update'', it_update i),
       (''linked_recommendations'', jnat (it_recommendations i)), (''linked_decisions_with_outcomes'', jnat (it_decisions i)),
       (''corroborated'', jnat (it_corroborated i)), (''contradicted'', jnat (it_contradicted i)),
       (''inconclusive'', jnat (it_inconclusive i))],
      [(''insight_id'', jid (it_insight i)), (''tenant_id'', jid tenant), (''source'', JStr ''insight_transformation''),
       (''decision_id'', jid decision)])"

definition compute_learning_signals :: "uuid \<Rightarrow> uuid \<Rightarrow> consolidation \<Rightarrow> pattern_refinement list \<Rightarrow> context_revision list \<Rightarrow>
    insight_transformation list \<Rightarrow> traced \<Rightarrow> signal list" where
  "compute_learning_signals tenant decision c ps cs is t =
     consolidation_signal tenant decision c #
     map (pattern_signal tenant decision) (filter (\<lambda>p. pr_pattern p \<in> set (tr_patterns t)) ps) @
     map (context_signal tenant decision) (filter (\<lambda>c. cv_context c \<in> set (tr_contexts t)) cs) @
     map (insight_signal tenant decision) (filter (\<lambda>i. it_insight i \<in> set (tr_insights t)) is)"

text \<open>Loading and computing, common to both loops.\<close>

definition learning_signals :: "(json \<Rightarrow> string) \<Rightarrow> uuid \<Rightarrow> uuid \<Rightarrow> canonical \<Rightarrow> signal list result" where
  "learning_signals str_of tenant decision k =
     (case find (\<lambda>d. dec_tenant d = tenant \<and> dec_id d = decision) (k_decisions k) of
        None \<Rightarrow> Inl (ValueError ''Decision not found'')
      | Some d \<Rightarrow>
          and_then (build_consolidation str_of (decision_view d)) (\<lambda>c.
          and_then (build_pattern_refinement str_of tenant k) (\<lambda>ps.
          and_then (build_context_revision str_of tenant k) (\<lambda>cs.
          and_then (build_insight_transformation str_of tenant k) (\<lambda>is.
            Inr (compute_learning_signals tenant decision c ps cs is (trace_decision k d)))))))"

section \<open>The durable loop\<close>

record learner =
  ln_db :: learning_db
  ln_memory :: "memory_record list"
  ln_canonical :: canonical

text \<open>The read stores and the execution store share the decisions table.\<close>

definition canonical_of :: "learner \<Rightarrow> canonical" where
  "canonical_of s = (ln_canonical s)\<lparr>k_decisions := db_decisions (ln_db s)\<rparr>"

definition signal_input :: "uuid \<Rightarrow> uuid option \<Rightarrow> signal \<Rightarrow> memory_input" where
  "signal_input tenant execution s = (case s of (typ, target, signal, provenance) \<Rightarrow>
     \<lparr>mi_tenant = tenant, mi_type = typ, mi_target = target, mi_signal = signal, mi_provenance = provenance,
      mi_execution = execution\<rparr>)"

fun persist_signals :: "(dict \<Rightarrow> string) \<Rightarrow> (nat \<Rightarrow> uuid) \<Rightarrow> datetime \<Rightarrow> uuid \<Rightarrow> uuid \<Rightarrow> signal list \<Rightarrow> memory_record list \<Rightarrow>
    memory_record list result \<times> memory_record list" where
  "persist_signals sha ids now tenant execution [] rows = (Inr [], rows)"
| "persist_signals sha ids now tenant execution (s # ss) rows =
     (case persist_in_session sha (ids (length ss)) now (signal_input tenant (Some execution) s) (Some execution) rows of
        (Inl x, rows1) \<Rightarrow> (Inl x, rows1)
      | (Inr r, rows1) \<Rightarrow>
          (case persist_signals sha ids now tenant execution ss rows1 of
             (Inl x, rows2) \<Rightarrow> (Inl x, rows2)
           | (Inr rs, rows2) \<Rightarrow> (Inr (r # rs), rows2)))"

record loop_result =
  lr_status :: string
  lr_execution :: "uuid option"
  lr_persisted :: "memory_record list"

record loop_env =
  le_strict :: bool
  le_str_of :: "json \<Rightarrow> string"
  le_str_exn :: "exn \<Rightarrow> string"
  le_sha :: "dict \<Rightarrow> string"
  le_now :: datetime

text \<open>
  \<open>run_h3_learning_loop_for_decision\<close>: the claim, the guarded part that ends in the commit, and the
  handler, which rolls back and then marks the execution failed in a transaction of its own; an exception
  of the handler replaces the first one.
\<close>

definition run_h3_learning_loop :: "loop_env \<Rightarrow> uuid \<Rightarrow> (nat \<Rightarrow> uuid) \<Rightarrow> exn option \<Rightarrow> uuid \<Rightarrow> uuid \<Rightarrow> uuid \<Rightarrow> learner \<Rightarrow>
    loop_result result \<times> learner" where
  "run_h3_learning_loop env i ids fault tenant decision revision s =
     (case begin_phase2 (le_strict env) i (le_now env) tenant decision revision (ln_db s) of
        Inl x \<Rightarrow> (Inl x, s)
      | Inr (None, _) \<Rightarrow> (Inr \<lparr>lr_status = ''skipped'', lr_execution = None, lr_persisted = []\<rparr>, s)
      | Inr (Some e, ws) \<Rightarrow>
          (let attempt = and_then (learning_signals (le_str_of env) tenant decision (canonical_of s)) (\<lambda>ss.
                 case persist_signals (le_sha env) ids (le_now env) tenant (le_id e) ss (ln_memory s) of
                   (Inl x, _) \<Rightarrow> Inl x
                 | (Inr rs, rows) \<Rightarrow> (case fault of Some x \<Rightarrow> Inl x | None \<Rightarrow> Inr (rs, rows)))
           in case attempt of
                Inr (rs, rows) \<Rightarrow>
                  (Inr \<lparr>lr_status = ''completed'', lr_execution = Some (le_id e), lr_persisted = rs\<rparr>,
                   s\<lparr>ln_db := write_db (ws @ [complete_execution_in_session (le_now env) (le_id e) (int (length rs))]) (ln_db s),
                     ln_memory := rows\<rparr>)
              | Inl x \<Rightarrow>
                  (case fail_execution (le_strict env) (le_now env) (le_id e) (le_str_exn env x) (ln_db s) of
                     (Inl y, db) \<Rightarrow> (Inl y, s\<lparr>ln_db := db\<rparr>)
                   | (Inr _, db) \<Rightarrow> (Inl x, s\<lparr>ln_db := db\<rparr>))))"

text \<open>\<open>submit_decision_outcomes_and_learn\<close>\<close>

definition cognitive_gate :: "loop_env \<Rightarrow> uuid \<Rightarrow> uuid \<Rightarrow> (nat \<Rightarrow> uuid) \<Rightarrow> exn option \<Rightarrow> uuid \<Rightarrow> uuid \<Rightarrow> dict list \<Rightarrow> datetime option \<Rightarrow>
    learner \<Rightarrow> loop_result result \<times> learner" where
  "cognitive_gate env r i ids fault tenant decision actual executed_at s =
     (case submit_outcomes_with_revision r (le_now env) tenant decision actual executed_at (ln_db s) of
        (Inl x, db) \<Rightarrow> (Inl x, s\<lparr>ln_db := db\<rparr>)
      | (Inr rv, db) \<Rightarrow> run_h3_learning_loop env i ids fault tenant decision (or_id rv) (s\<lparr>ln_db := db\<rparr>))"

section \<open>The loop the gateway runs\<close>

text \<open>
  \<open>_persist_learning_signal\<close> takes keyword arguments only; \<open>run_learning_loop_for_decision\<close> passes its
  arguments by position, so the first call, for the consolidation of the decision, raises.
\<close>

definition run_learning_loop :: "(json \<Rightarrow> string) \<Rightarrow> uuid \<Rightarrow> uuid \<Rightarrow> learner \<Rightarrow> memory_record list result" where
  "run_learning_loop str_of tenant decision s =
     and_then (learning_signals str_of tenant decision (canonical_of s)) (\<lambda>ss.
       case ss of [] \<Rightarrow> Inr []
       | _ \<Rightarrow> Inl (TypeError ''_persist_learning_signal() takes 0 positional arguments''))"

text \<open>\<open>DecisionReadStore.submit_outcomes\<close>\<close>

definition submit_outcomes :: "uuid \<Rightarrow> uuid \<Rightarrow> dict list \<Rightarrow> datetime option \<Rightarrow> learning_db \<Rightarrow> unit result \<times> learning_db" where
  "submit_outcomes tenant decision actual executed_at db =
     (if actual = [] then (Inl (PassedThrough ''InvalidOutcomesError''), db)
      else if \<not> (\<exists>d \<in> set (db_decisions db). dec_id d = decision \<and> dec_tenant d = tenant)
           then (Inl (PassedThrough ''DecisionNotFoundError''), db)
      else (Inr (), db\<lparr>db_decisions := map (\<lambda>d. if dec_id d = decision \<and> dec_tenant d = tenant
              then record_outcomes actual executed_at d else d) (db_decisions db)\<rparr>))"

text \<open>
  \<open>GatewayService.submit_decision_outcomes\<close>, with the execution store when it is configured; the answer
  is the status of the decision and of the learning loop, and the counter of transitions.
\<close>

record gateway_outcomes =
  go_learner :: learner
  go_transitions :: nat

definition submit_decision_outcomes :: "bool \<Rightarrow> bool \<Rightarrow> loop_env \<Rightarrow> uuid \<Rightarrow> uuid \<Rightarrow> (nat \<Rightarrow> uuid) \<Rightarrow> exn option \<Rightarrow> uuid \<Rightarrow> uuid \<Rightarrow>
    dict list \<Rightarrow> datetime option \<Rightarrow> gateway_outcomes \<Rightarrow> (string \<times> string) result \<times> gateway_outcomes" where
  "submit_decision_outcomes has_execution_store has_loop env r i ids fault tenant decision actual executed_at g =
     (let s = go_learner g
      in if has_execution_store \<and> has_loop then
           (case submit_outcomes_with_revision r (le_now env) tenant decision actual executed_at (ln_db s) of
              (Inl _, db) \<Rightarrow> (Inr (''outcomes_submitted'', ''failed''), g\<lparr>go_learner := s\<lparr>ln_db := db\<rparr>\<rparr>)
            | (Inr rv, db) \<Rightarrow>
                (case run_h3_learning_loop env i ids fault tenant decision (or_id rv) (s\<lparr>ln_db := db\<rparr>) of
                   (Inl _, s') \<Rightarrow> (Inr (''outcomes_submitted'', ''failed''), \<lparr>go_learner = s', go_transitions = go_transitions g + 1\<rparr>)
                 | (Inr lr, s') \<Rightarrow> (Inr (''outcomes_submitted'', lr_status lr), \<lparr>go_learner = s', go_transitions = go_transitions g + 1\<rparr>)))
         else (case submit_outcomes tenant decision actual executed_at (ln_db s) of
              (Inl x, _) \<Rightarrow> (Inl x, g)
            | (Inr _, db) \<Rightarrow>
                (let g' = \<lparr>go_learner = s\<lparr>ln_db := db\<rparr>, go_transitions = go_transitions g + 1\<rparr>
                 in if \<not> has_loop then (Inr (''outcomes_submitted'', ''pending''), g')
                    else case run_learning_loop (le_str_of env) tenant decision (s\<lparr>ln_db := db\<rparr>) of
                        Inl _ \<Rightarrow> (Inr (''outcomes_submitted'', ''failed''), g')
                      | Inr _ \<Rightarrow> (Inr (''outcomes_submitted'', ''completed''), g'))))"

section \<open>Signals always compute\<close>

lemma learning_signals_total:
  assumes "find (\<lambda>d. dec_tenant d = tenant \<and> dec_id d = decision) (k_decisions k) = Some d"
  shows "\<exists>ss. learning_signals str_of tenant decision k = Inr ss"
proof -
  obtain c where c: "build_consolidation str_of (decision_view d) = Inr c" using build_consolidation_total by blast
  obtain ps where p: "build_pattern_refinement str_of tenant k = Inr ps"
    by (simp add: build_pattern_refinement_def Let_def attribute_outcomes_eq)
  obtain cs where v: "build_context_revision str_of tenant k = Inr cs"
    by (simp add: build_context_revision_def Let_def attribute_outcomes_eq)
  obtain js where i: "build_insight_transformation str_of tenant k = Inr js"
    by (simp add: build_insight_transformation_def Let_def attribute_outcomes_eq)
  show ?thesis by (simp add: learning_signals_def assms c p v i)
qed

lemma signal_fields [simp]:
  "fst (consolidation_signal t d c) = ''decision''" "fst (snd (consolidation_signal t d c)) = d"
  "fst (pattern_signal t d p) = ''pattern''" "fst (snd (pattern_signal t d p)) = pr_pattern p"
  "fst (context_signal t d v) = ''context''" "fst (snd (context_signal t d v)) = cv_context v"
  "fst (insight_signal t d i) = ''insight''" "fst (snd (insight_signal t d i)) = it_insight i"
  by (simp_all add: consolidation_signal_def pattern_signal_def context_signal_def insight_signal_def)

text \<open>Where a signal of a decision may point.\<close>

definition traced_target :: "uuid \<Rightarrow> traced \<Rightarrow> string \<Rightarrow> uuid \<Rightarrow> bool" where
  "traced_target decision t typ target \<longleftrightarrow>
     typ = ''decision'' \<and> target = decision \<or> typ = ''pattern'' \<and> target \<in> set (tr_patterns t) \<or>
     typ = ''context'' \<and> target \<in> set (tr_contexts t) \<or> typ = ''insight'' \<and> target \<in> set (tr_insights t)"

lemma computed_signals_traced:
  "s \<in> set (compute_learning_signals tenant decision c ps cs is t) \<Longrightarrow> traced_target decision t (fst s) (fst (snd s))"
  by (auto simp: compute_learning_signals_def traced_target_def)

lemma traced_target_type: "traced_target decision t typ target \<Longrightarrow> typ \<in> TARGET_TYPES"
  by (auto simp: traced_target_def TARGET_TYPES_def)

lemma learning_signals_InrD:
  assumes "learning_signals str_of tenant decision k = Inr ss"
  obtains d where "find (\<lambda>d. dec_tenant d = tenant \<and> dec_id d = decision) (k_decisions k) = Some d"
    and "ss \<noteq> []" and "\<forall>s \<in> set ss. traced_target decision (trace_decision k d) (fst s) (fst (snd s))"
proof -
  obtain d c ps cs js where d: "find (\<lambda>d. dec_tenant d = tenant \<and> dec_id d = decision) (k_decisions k) = Some d"
    and ss: "ss = compute_learning_signals tenant decision c ps cs js (trace_decision k d)"
    using assms by (auto simp: learning_signals_def and_then_eq_Inr split: option.splits)
  have "ss \<noteq> []" by (simp add: ss compute_learning_signals_def)
  then show ?thesis using that [OF d] ss computed_signals_traced by blast
qed

section \<open>Persisting signals\<close>

definition signal_key :: "(dict \<Rightarrow> string) \<Rightarrow> uuid \<Rightarrow> signal \<Rightarrow> uuid \<times> string \<times> uuid \<times> string" where
  "signal_key sha tenant s = (tenant, fst s, fst (snd s), sha (fst (snd (snd s))))"

lemma signal_input_fields [simp]:
  "mi_tenant (signal_input tenant e s) = tenant" "mi_type (signal_input tenant e s) = fst s"
  "mi_target (signal_input tenant e s) = fst (snd s)" "mi_execution (signal_input tenant e s) = e"
  "mi_signal (signal_input tenant e s) = fst (snd (snd s))"
  by (simp_all add: signal_input_def split: prod.splits)

lemma signal_row_key: "lm_key (memory_row sha i now e (signal_input tenant e' s)) = signal_key sha tenant s"
  by (simp add: lm_key_def memory_row_def signal_key_def)

lemma get_latest_known:
  assumes "(tenant, typ, target, h) \<in> lm_key ` set rows"
  shows "\<exists>m. get_latest tenant typ target rows = Some m \<and> m \<in> set rows"
proof -
  let ?rs = "sort_key (\<lambda>r. - lm_created r) (filter (\<lambda>r. lm_tenant r = tenant \<and> lm_type r = typ \<and> lm_target r = target) rows)"
  have ne: "?rs \<noteq> []" using assms by (auto simp: lm_key_def filter_empty_conv sort_key_simps simp flip: set_empty)
  then have "hd ?rs \<in> set ?rs" by (rule hd_in_set)
  moreover have "get_latest tenant typ target rows = Some (hd ?rs)" using ne by (simp add: get_latest_def split: list.splits)
  ultimately show ?thesis by simp
qed

lemma persist_in_session_ok:
  assumes "fst s \<in> TARGET_TYPES"
  shows "\<exists>m. persist_in_session sha i now (signal_input tenant (Some e) s) (Some e) rows =
     (Inr m, fst (insert_row lm_key (memory_row sha i now (Some e) (signal_input tenant (Some e) s)) rows))"
proof (cases "signal_key sha tenant s \<in> lm_key ` set rows")
  case True
  then obtain m where "get_latest tenant (fst s) (fst (snd s)) rows = Some m"
    using get_latest_known [of tenant "fst s" "fst (snd s)" _ rows] by (auto simp: signal_key_def)
  then show ?thesis using assms True
    by (simp add: persist_in_session_def persist_row_def insert_row_def signal_row_key)
next
  case False
  then show ?thesis using assms by (simp add: persist_in_session_def persist_row_def insert_row_def signal_row_key)
qed

definition ledger_grows :: "(dict \<Rightarrow> string) \<Rightarrow> uuid \<Rightarrow> uuid \<Rightarrow> signal list \<Rightarrow> memory_record list \<Rightarrow> memory_record list \<Rightarrow> bool" where
  "ledger_grows sha tenant execution ss rows rows' \<longleftrightarrow>
     (\<exists>new. rows' = rows @ new \<and> distinct (map lm_key new) \<and>
        lm_key ` set new = signal_key sha tenant ` set ss - lm_key ` set rows \<and> (\<forall>m \<in> set new. lm_execution m = Some execution))"

lemma insert_minus: "k \<notin> K \<Longrightarrow> insert k (A - insert k K) = insert k A - K"
  by auto

lemma ledger_grows_Cons:
  assumes "ledger_grows sha tenant e ss (fst (insert_row lm_key m rows)) rows'" and "lm_key m = signal_key sha tenant s"
    and "lm_execution m = Some e"
  shows "ledger_grows sha tenant e (s # ss) rows rows'"
proof (cases "lm_key m \<in> lm_key ` set rows")
  case True
  then show ?thesis using assms by (auto simp: ledger_grows_def insert_row_def)
next
  case False
  then obtain new where n: "rows' = rows @ m # new" "distinct (map lm_key new)"
      "lm_key ` set new = signal_key sha tenant ` set ss - insert (lm_key m) (lm_key ` set rows)"
      "\<forall>m \<in> set new. lm_execution m = Some e"
    using assms(1) by (auto simp: ledger_grows_def insert_row_def)
  have "lm_key m \<notin> lm_key ` set new" unfolding n(3) by simp
  moreover have "insert (lm_key m) (lm_key ` set new) = signal_key sha tenant ` set (s # ss) - lm_key ` set rows"
    unfolding n(3) using insert_minus [OF False] assms(2) by simp
  ultimately have "distinct (map lm_key (m # new)) \<and> lm_key ` set (m # new) = signal_key sha tenant ` set (s # ss) - lm_key ` set rows"
    using n(2) by simp
  then show ?thesis using n(1,4) assms(3) unfolding ledger_grows_def by (intro exI [of _ "m # new"]) simp
qed

lemma persist_signals_ok:
  "(\<forall>s \<in> set ss. fst s \<in> TARGET_TYPES) \<Longrightarrow>
     \<exists>rs rows'. persist_signals sha ids now tenant e ss rows = (Inr rs, rows') \<and> length rs = length ss \<and>
       ledger_grows sha tenant e ss rows rows'"
proof (induction ss arbitrary: rows)
  case (Cons s ss)
  let ?m = "memory_row sha (ids (length ss)) now (Some e) (signal_input tenant (Some e) s)"
  obtain m where m: "persist_in_session sha (ids (length ss)) now (signal_input tenant (Some e) s) (Some e) rows =
      (Inr m, fst (insert_row lm_key ?m rows))"
    using persist_in_session_ok [of s] Cons.prems by fastforce
  obtain rs rows' where r: "persist_signals sha ids now tenant e ss (fst (insert_row lm_key ?m rows)) = (Inr rs, rows')"
      "length rs = length ss" "ledger_grows sha tenant e ss (fst (insert_row lm_key ?m rows)) rows'"
    using Cons.IH [of "fst (insert_row lm_key ?m rows)"] Cons.prems by auto
  have "ledger_grows sha tenant e (s # ss) rows rows'"
    by (rule ledger_grows_Cons [OF r(3) signal_row_key]) (simp add: memory_row_def)
  then show ?case using m r by simp
qed (simp add: ledger_grows_def)

lemma ledger_grows_again:
  assumes "ledger_grows sha tenant e ss rows rows'" and "ledger_grows sha tenant e' ss rows' rows''"
  shows "rows'' = rows'"
proof -
  obtain new where n: "rows' = rows @ new" "lm_key ` set new = signal_key sha tenant ` set ss - lm_key ` set rows"
    using assms(1) unfolding ledger_grows_def by blast
  have "signal_key sha tenant ` set ss \<subseteq> lm_key ` set rows'" unfolding n(1) set_append image_Un n(2) by blast
  then obtain new' where n': "rows'' = rows' @ new'" "lm_key ` set new' = {}"
    using assms(2) unfolding ledger_grows_def by (metis Diff_eq_empty_iff)
  then show ?thesis by simp
qed

section \<open>Runs\<close>

lemma claimed_row:
  assumes "begin_phase2 strict i now tenant decision rv db = Inr (Some e, ws)"
  shows "\<exists>row \<in> set (apply_writes ws (db_executions db)). le_id row = le_id e"
proof -
  let ?rows = "db_executions db"
  have ins: "\<exists>row \<in> set (apply_writes (vs @ [WInsert e]) ?rows). le_id row = le_id e" for vs
    by (simp add: apply_writes_append)
  show ?thesis
  proof (cases "find_active rv ?rows")
    case None
    then have "ws = [WInsert e]" using assms by (auto simp: begin_phase2_def claim_def and_then_eq_Inr)
    then show ?thesis using ins [of "[]"] by simp
  next
    case (Some x)
    have x: "x \<in> set ?rows" using find_active_SomeD [OF Some] by simp
    consider w where "ws = [w, WInsert e]" | u where "ws = [WStatus u]" "le_id e = le_id x"
      using assms Some by (auto simp: begin_phase2_def claim_def and_then_eq_Inr split: if_splits dest: update_status_InrD)
    then show ?thesis
    proof cases
      case 1
      then show ?thesis using ins [of "[w]"] by simp
    next
      case 2
      have "le_id e \<in> le_id ` set (apply_write (WStatus u) ?rows)" unfolding ids_apply_status using 2(2) x by simp
      then obtain row where "row \<in> set (apply_write (WStatus u) ?rows)" "le_id row = le_id e"
        by (metis (no_types, lifting) imageE)
      then show ?thesis unfolding 2(1) apply_writes_simps by blast
    qed
  qed
qed

lemma new_claim:
  assumes "\<forall>e \<in> set (db_executions db). le_revision e = rv \<longrightarrow> le_status e \<in> TERMINAL_STATUSES"
    and "rv \<in> or_id ` set (db_revisions db)" and "i \<notin> le_id ` set (db_executions db)"
  shows "\<exists>e. begin_phase2 strict i now t d rv db = Inr (Some e, [WInsert e]) \<and> le_id e = i \<and> le_revision e = rv"
proof -
  have n: "\<forall>e \<in> set (db_executions db). le_revision e = rv \<longrightarrow> \<not> is_active e"
    using assms(1) by (auto simp: TERMINAL_STATUSES_def is_active_def)
  then have "find_active rv (db_executions db) = None" by (simp add: find_active_None)
  then show ?thesis using n assms(2,3) by (auto simp: begin_phase2_def claim_def insert_execution_def)
qed

lemma completed_row:
  assumes "begin_phase2 strict i now tenant decision rv db = Inr (Some e, ws)"
  shows "\<exists>row \<in> set (db_executions (write_db (ws @ [complete_execution_in_session now' (le_id e) n]) db)).
     le_id row = le_id e \<and> le_status row = ''completed'' \<and> le_signals row = n"
proof -
  obtain row where r: "row \<in> set (apply_writes ws (db_executions db))" "le_id row = le_id e" using claimed_row [OF assms] by blast
  let ?u = "complete_update (le_id e) now' n"
  have "set_status ?u row \<in> set (apply_write (WStatus ?u) (apply_writes ws (db_executions db)))"
    using r by (force simp: complete_update_def no_update_def)
  moreover have "le_id (set_status ?u row) = le_id e" "le_status (set_status ?u row) = ''completed''" "le_signals (set_status ?u row) = n"
    using r(2) by (simp_all add: set_status_def complete_update_def no_update_def)
  moreover have "db_executions (write_db (ws @ [complete_execution_in_session now' (le_id e) n]) db) =
      apply_write (WStatus ?u) (apply_writes ws (db_executions db))"
    unfolding write_db_def db_executions_upd apply_writes_append complete_execution_in_session_def apply_writes_simps ..
  ultimately show ?thesis by metis
qed

lemma fail_execution_tables:
  "db_decisions (snd (fail_execution strict now i reason db)) = db_decisions db \<and>
   db_revisions (snd (fail_execution strict now i reason db)) = db_revisions db"
  by (simp add: fail_execution_def write_db_def Let_def split: sum.split)

lemma fail_unknown_execution:
  "i \<notin> le_id ` set (db_executions db) \<Longrightarrow> snd (fail_execution strict now i reason db) = db"
  by (auto simp: fail_execution_def update_status_def write_db_def fail_update_def no_update_def Let_def intro!: learning_db.equality map_idI)

text \<open>The guarded part of a run: what it would commit.\<close>

definition attempt :: "loop_env \<Rightarrow> (nat \<Rightarrow> uuid) \<Rightarrow> exn option \<Rightarrow> uuid \<Rightarrow> uuid \<Rightarrow> uuid \<Rightarrow> learner \<Rightarrow>
    (memory_record list \<times> memory_record list) result" where
  "attempt env ids fault tenant decision execution s =
     and_then (learning_signals (le_str_of env) tenant decision (canonical_of s)) (\<lambda>ss.
       case persist_signals (le_sha env) ids (le_now env) tenant execution ss (ln_memory s) of
         (Inl x, _) \<Rightarrow> Inl x
       | (Inr rs, rows) \<Rightarrow> (case fault of Some x \<Rightarrow> Inl x | None \<Rightarrow> Inr (rs, rows)))"

lemma attempt_Inr:
  assumes "attempt env ids fault tenant decision execution s = Inr (rs, rows)"
  shows "\<exists>ss. learning_signals (le_str_of env) tenant decision (canonical_of s) = Inr ss \<and> length rs = length ss \<and>
     ledger_grows (le_sha env) tenant execution ss (ln_memory s) rows"
proof -
  obtain ss where ss: "learning_signals (le_str_of env) tenant decision (canonical_of s) = Inr ss"
    using assms by (auto simp: attempt_def and_then_eq_Inr)
  then have "\<forall>x \<in> set ss. fst x \<in> TARGET_TYPES" by (rule learning_signals_InrD) (use traced_target_type in blast)
  then obtain rs' rows' where "persist_signals (le_sha env) ids (le_now env) tenant execution ss (ln_memory s) = (Inr rs', rows')"
      "length rs' = length ss" "ledger_grows (le_sha env) tenant execution ss (ln_memory s) rows'"
    using persist_signals_ok by blast
  then show ?thesis using assms ss by (auto simp: attempt_def split: option.splits)
qed

lemma attempt_total:
  assumes "learning_signals (le_str_of env) tenant decision (canonical_of s) = Inr ss"
  shows "\<exists>rs rows. attempt env ids None tenant decision execution s = Inr (rs, rows)"
proof -
  have "\<forall>x \<in> set ss. fst x \<in> TARGET_TYPES" by (rule learning_signals_InrD [OF assms]) (use traced_target_type in blast)
  then obtain rs' rows' where "persist_signals (le_sha env) ids (le_now env) tenant execution ss (ln_memory s) = (Inr rs', rows')"
    using persist_signals_ok by blast
  then show ?thesis using assms by (simp add: attempt_def)
qed

lemma run_h3_eq:
  "run_h3_learning_loop env i ids fault tenant decision rv s =
     (case begin_phase2 (le_strict env) i (le_now env) tenant decision rv (ln_db s) of
        Inl x \<Rightarrow> (Inl x, s)
      | Inr (None, _) \<Rightarrow> (Inr \<lparr>lr_status = ''skipped'', lr_execution = None, lr_persisted = []\<rparr>, s)
      | Inr (Some e, ws) \<Rightarrow>
          (case attempt env ids fault tenant decision (le_id e) s of
             Inr (rs, rows) \<Rightarrow>
               (Inr \<lparr>lr_status = ''completed'', lr_execution = Some (le_id e), lr_persisted = rs\<rparr>,
                s\<lparr>ln_db := write_db (ws @ [complete_execution_in_session (le_now env) (le_id e) (int (length rs))]) (ln_db s),
                  ln_memory := rows\<rparr>)
           | Inl x \<Rightarrow>
               (case fail_execution (le_strict env) (le_now env) (le_id e) (le_str_exn env x) (ln_db s) of
                  (Inl y, db) \<Rightarrow> (Inl y, s\<lparr>ln_db := db\<rparr>)
                | (Inr _, db) \<Rightarrow> (Inl x, s\<lparr>ln_db := db\<rparr>))))"
  unfolding run_h3_learning_loop_def attempt_def Let_def ..

text \<open>What a run comes to, by its outcome.\<close>

lemma run_h3_cases:
  obtains (skipped) "run_h3_learning_loop env i ids fault tenant decision rv s =
      (Inr \<lparr>lr_status = ''skipped'', lr_execution = None, lr_persisted = []\<rparr>, s)"
  | (refused) x where "run_h3_learning_loop env i ids fault tenant decision rv s = (Inl x, s)"
  | (failed) e ws x y where "begin_phase2 (le_strict env) i (le_now env) tenant decision rv (ln_db s) = Inr (Some e, ws)"
      and "attempt env ids fault tenant decision (le_id e) s = Inl x"
      and "run_h3_learning_loop env i ids fault tenant decision rv s =
        (Inl y, s\<lparr>ln_db := snd (fail_execution (le_strict env) (le_now env) (le_id e) (le_str_exn env x) (ln_db s))\<rparr>)"
  | (completed) e ws rs rows where "begin_phase2 (le_strict env) i (le_now env) tenant decision rv (ln_db s) = Inr (Some e, ws)"
      and "attempt env ids fault tenant decision (le_id e) s = Inr (rs, rows)"
      and "run_h3_learning_loop env i ids fault tenant decision rv s =
        (Inr \<lparr>lr_status = ''completed'', lr_execution = Some (le_id e), lr_persisted = rs\<rparr>,
         s\<lparr>ln_db := write_db (ws @ [complete_execution_in_session (le_now env) (le_id e) (int (length rs))]) (ln_db s),
           ln_memory := rows\<rparr>)"
proof (cases "begin_phase2 (le_strict env) i (le_now env) tenant decision rv (ln_db s)")
  case (Inl x)
  then show thesis by (intro refused [of x]) (simp add: run_h3_eq)
next
  case (Inr p)
  obtain oe ws where p: "p = (oe, ws)" by fastforce
  show thesis
  proof (cases oe)
    case None
    then show thesis using Inr p by (intro skipped) (simp add: run_h3_eq)
  next
    case (Some e)
    then have b: "begin_phase2 (le_strict env) i (le_now env) tenant decision rv (ln_db s) = Inr (Some e, ws)" using Inr p by simp
    show thesis
    proof (cases "attempt env ids fault tenant decision (le_id e) s")
      case (Inr q)
      obtain rs rows where "q = (rs, rows)" by fastforce
      then show thesis using b Inr by (intro completed [of e ws rs rows]) (simp_all add: run_h3_eq)
    next
      case (Inl x)
      obtain f db where f: "fail_execution (le_strict env) (le_now env) (le_id e) (le_str_exn env x) (ln_db s) = (f, db)" by fastforce
      show thesis using b Inl f
        by (intro failed [of e ws x "case f of Inl y \<Rightarrow> y | Inr _ \<Rightarrow> x"]) (simp_all add: run_h3_eq split: sum.split)
    qed
  qed
qed

text \<open>A run of a revision whose executions are all finished, with no failure of the infrastructure.\<close>

definition finished_revision :: "uuid \<Rightarrow> learning_db \<Rightarrow> bool" where
  "finished_revision rv db \<longleftrightarrow> (\<forall>e \<in> set (db_executions db). le_revision e = rv \<longrightarrow> le_status e \<in> TERMINAL_STATUSES)"

lemma commit_new_execution:
  assumes "finished_revision rv db" and "le_id e = k" and "k \<notin> le_id ` set (db_executions db)" and "le_revision e = rv"
    and db': "db' = write_db ([WInsert e] @ [complete_execution_in_session now k n]) db"
  shows "finished_revision rv db'" and "le_id ` set (db_executions db') = insert k (le_id ` set (db_executions db))"
    and "db_decisions db' = db_decisions db" and "db_revisions db' = db_revisions db"
proof -
  have m: "map (\<lambda>x. if le_id x = su_id u then set_status u x else x) (db_executions db) = db_executions db" if "su_id u = k" for u
    using assms(3) that by (intro map_idI) force
  have k: "su_id (complete_update k now n) = k" by (simp add: complete_update_def no_update_def)
  have "db_executions db' = db_executions db @ [set_status (complete_update k now n) e]"
    unfolding db' complete_execution_in_session_def using m [OF k] k assms(2) by (simp add: write_db_def)
  then show "finished_revision rv db'" "le_id ` set (db_executions db') = insert k (le_id ` set (db_executions db))"
    using assms(1,2) by (simp_all add: finished_revision_def set_status_def complete_update_def no_update_def TERMINAL_STATUSES_def)
  show "db_decisions db' = db_decisions db" "db_revisions db' = db_revisions db" by (simp_all add: db' write_db_def)
qed

lemma run_new:
  assumes "finished_revision rv (ln_db t)"
    and "rv \<in> or_id ` set (db_revisions (ln_db t))" and "\<exists>d \<in> set (db_decisions (ln_db t)). dec_tenant d = tenant \<and> dec_id d = decision"
    and "k \<notin> le_id ` set (db_executions (ln_db t))"
  obtains r s' ss where "run_h3_learning_loop ev k ks None tenant decision rv t = (Inr r, s')" and "lr_execution r = Some k"
    and "learning_signals (le_str_of ev) tenant decision (canonical_of t) = Inr ss"
    and "ledger_grows (le_sha ev) tenant k ss (ln_memory t) (ln_memory s')" and "canonical_of s' = canonical_of t"
    and "db_decisions (ln_db s') = db_decisions (ln_db t)" and "db_revisions (ln_db s') = db_revisions (ln_db t)"
    and "le_id ` set (db_executions (ln_db s')) = insert k (le_id ` set (db_executions (ln_db t)))"
    and "finished_revision rv (ln_db s')"
proof -
  obtain e where e: "begin_phase2 (le_strict ev) k (le_now ev) tenant decision rv (ln_db t) = Inr (Some e, [WInsert e])"
      "le_id e = k" "le_revision e = rv"
    using new_claim [OF assms(1) [unfolded finished_revision_def] assms(2,4)] by blast
  obtain d where "find (\<lambda>d. dec_tenant d = tenant \<and> dec_id d = decision) (k_decisions (canonical_of t)) = Some d"
    using assms(3) by (cases "find (\<lambda>d. dec_tenant d = tenant \<and> dec_id d = decision) (k_decisions (canonical_of t))")
      (auto simp: find_None_iff canonical_of_def)
  then obtain ss where ss: "learning_signals (le_str_of ev) tenant decision (canonical_of t) = Inr ss"
    using learning_signals_total by blast
  obtain rs rows where a: "attempt ev ks None tenant decision k t = Inr (rs, rows)" using attempt_total [OF ss] by blast
  then have g: "ledger_grows (le_sha ev) tenant k ss (ln_memory t) rows" using attempt_Inr ss by fastforce
  define db' where "db' = write_db ([WInsert e] @ [complete_execution_in_session (le_now ev) k (int (length rs))]) (ln_db t)"
  note db = commit_new_execution [OF assms(1) e(2) assms(4) e(3) db'_def]
  have r: "run_h3_learning_loop ev k ks None tenant decision rv t =
      (Inr \<lparr>lr_status = ''completed'', lr_execution = Some k, lr_persisted = rs\<rparr>, t\<lparr>ln_db := db', ln_memory := rows\<rparr>)"
    by (simp add: run_h3_eq e(1,2) a db'_def)
  show ?thesis by (rule that [OF r _ ss]) (simp_all add: g db canonical_of_def)
qed

definition ex_learner :: "string list \<Rightarrow> learner" where
  "ex_learner sts = \<lparr>ln_db = ex_db sts, ln_memory = [], ln_canonical = \<lparr>k_decisions = [], k_recommendations = [],
     k_hypotheses = [], k_patterns = [], k_contexts = [], k_insights = []\<rparr>\<rparr>"

definition ex_loop_env :: loop_env where
  "ex_loop_env = \<lparr>le_strict = False, le_str_of = (\<lambda>_. []), le_str_exn = (\<lambda>_. []), le_sha = (\<lambda>_. []), le_now = 0\<rparr>"

section \<open>Properties\<close>

text \<open>
  C3. A learning run is all or nothing: a failed run leaves ledger, decisions and revisions as they were,
  a skipped one changes nothing, and a completed one appends exactly the signals of the decision that the
  ledger did not have, under its execution, which ends completed with their number.
\<close>

theorem learning_run_atomic:
  "case run_h3_learning_loop env i ids fault tenant decision rv s of
     (Inl x, s') \<Rightarrow> ln_memory s' = ln_memory s \<and> db_decisions (ln_db s') = db_decisions (ln_db s) \<and>
       db_revisions (ln_db s') = db_revisions (ln_db s) \<and> ln_canonical s' = ln_canonical s
   | (Inr r, s') \<Rightarrow>
       if lr_status r = ''skipped'' then s' = s
       else lr_status r = ''completed'' \<and>
         (\<exists>e ss. lr_execution r = Some e \<and> learning_signals (le_str_of env) tenant decision (canonical_of s) = Inr ss \<and>
            ledger_grows (le_sha env) tenant e ss (ln_memory s) (ln_memory s') \<and>
            (\<exists>row \<in> set (db_executions (ln_db s')). le_id row = e \<and> le_status row = ''completed'' \<and>
               le_signals row = int (length ss)))"
proof (cases rule: run_h3_cases [of env i ids fault tenant decision rv s])
  case (completed e ws rs rows)
  obtain ss where ss: "learning_signals (le_str_of env) tenant decision (canonical_of s) = Inr ss" "length rs = length ss"
      "ledger_grows (le_sha env) tenant (le_id e) ss (ln_memory s) rows"
    using attempt_Inr [OF completed(2)] by blast
  show ?thesis using ss completed_row [OF completed(1), of "le_now env" "int (length ss)"] by (simp add: completed(3))
qed (simp_all add: fail_execution_tables)

text \<open>
  A failure is not remembered: when a run fails in the execution it has just created, the rollback takes
  that row with it, the status update finds nothing (or raises), and the state is as before the run; the
  failure leaves no execution behind.
\<close>

theorem failed_run_leaves_no_trace:
  assumes "\<forall>e \<in> set (db_executions (ln_db s)). le_revision e = rv \<longrightarrow> \<not> is_active e"
    and "run_h3_learning_loop env i ids fault tenant decision rv s = (Inl x, s')"
  shows "s' = s"
proof (cases rule: run_h3_cases [of env i ids fault tenant decision rv s])
  case (failed e ws y z)
  have "find_active rv (db_executions (ln_db s)) = None" using assms(1) by (simp add: find_active_None)
  then have "insert_execution i (le_now env) tenant decision rv 1 None (db_revisions (ln_db s)) (db_executions (ln_db s)) = Inr e"
    using failed(1) by (auto simp: begin_phase2_def claim_def and_then_eq_Inr)
  then have "le_id e \<notin> le_id ` set (db_executions (ln_db s))" using insert_execution_InrD by fastforce
  then show ?thesis using assms(2) failed(3) by (simp add: fail_unknown_execution)
qed (use assms(2) in simp_all)

theorem failed_run_leaves_no_trace_witness:
  "snd (run_h3_learning_loop ex_loop_env 9 (\<lambda>_. 0) (Some ZeroDivisionError) 7 5 1 (ex_learner [])) = ex_learner []"
proof -
  let ?r = "run_h3_learning_loop ex_loop_env 9 (\<lambda>_. 0) (Some ZeroDivisionError) 7 5 1 (ex_learner [])"
  have b: "begin_phase2 (le_strict ex_loop_env) 9 (le_now ex_loop_env) 7 5 1 (ln_db (ex_learner [])) \<noteq> Inr (None, ws)" for ws
    by (auto simp: begin_phase2_def claim_def find_active_def newest_attempt_def and_then_eq_Inr ex_learner_def ex_db_def)
  have a: "attempt ex_loop_env (\<lambda>_. 0) (Some ZeroDivisionError) 7 5 e (ex_learner []) \<noteq> Inr q" for e q
    by (auto simp: attempt_def and_then_eq_Inr split: prod.splits sum.splits)
  obtain x where "fst ?r = Inl x"
  proof (cases rule: run_h3_cases [of ex_loop_env 9 "\<lambda>_. 0" "Some ZeroDivisionError" 7 5 1 "ex_learner []"])
    case skipped
    then show ?thesis using b by (auto simp: run_h3_eq split: sum.splits prod.splits option.splits)
  qed (use a that in auto)
  then have r: "?r = (Inl x, snd ?r)" by (metis prod.collapse)
  show ?thesis by (rule failed_run_leaves_no_trace [OF _ r]) (simp add: ex_learner_def ex_db_def)
qed

text \<open>
  C19. Learning is idempotent: with no failure of the infrastructure a revision whose executions are all
  finished is learned, and learning it once more, at any later time, completes as well under a new
  execution and adds nothing to the ledger.
\<close>

theorem learning_idempotent:
  assumes "finished_revision rv (ln_db s)"
    and "rv \<in> or_id ` set (db_revisions (ln_db s))" and "\<exists>d \<in> set (db_decisions (ln_db s)). dec_tenant d = tenant \<and> dec_id d = decision"
    and "i \<notin> le_id ` set (db_executions (ln_db s))" and "j \<notin> insert i (le_id ` set (db_executions (ln_db s)))"
  shows "\<exists>r s' r' s''. run_h3_learning_loop env i ids None tenant decision rv s = (Inr r, s') \<and> lr_execution r = Some i \<and>
     run_h3_learning_loop (env\<lparr>le_now := now\<rparr>) j ids' None tenant decision rv s' = (Inr r', s'') \<and> lr_execution r' = Some j \<and>
     ln_memory s'' = ln_memory s'"
proof -
  obtain r s' ss where 1: "run_h3_learning_loop env i ids None tenant decision rv s = (Inr r, s')" "lr_execution r = Some i"
      "learning_signals (le_str_of env) tenant decision (canonical_of s) = Inr ss"
      "ledger_grows (le_sha env) tenant i ss (ln_memory s) (ln_memory s')" "canonical_of s' = canonical_of s"
      "db_decisions (ln_db s') = db_decisions (ln_db s)" "db_revisions (ln_db s') = db_revisions (ln_db s)"
      "le_id ` set (db_executions (ln_db s')) = insert i (le_id ` set (db_executions (ln_db s)))"
      "finished_revision rv (ln_db s')"
    using run_new [OF assms(1,2,3,4), of env ids] by blast
  have "rv \<in> or_id ` set (db_revisions (ln_db s'))" "\<exists>d \<in> set (db_decisions (ln_db s')). dec_tenant d = tenant \<and> dec_id d = decision"
      "j \<notin> le_id ` set (db_executions (ln_db s'))" using assms(2,3,5) unfolding 1(6,7,8) by blast+
  then obtain r' s'' ss' where 2:
      "run_h3_learning_loop (env\<lparr>le_now := now\<rparr>) j ids' None tenant decision rv s' = (Inr r', s'')" "lr_execution r' = Some j"
      "learning_signals (le_str_of (env\<lparr>le_now := now\<rparr>)) tenant decision (canonical_of s') = Inr ss'"
      "ledger_grows (le_sha (env\<lparr>le_now := now\<rparr>)) tenant j ss' (ln_memory s') (ln_memory s'')"
    using run_new [OF 1(9)] by metis
  have "ss' = ss" using 1(3,5) 2(3) by simp
  then have "ln_memory s'' = ln_memory s'" using ledger_grows_again [OF 1(4)] 2(4) by simp
  then show ?thesis using 1(1,2) 2(1,2) by blast
qed

theorem learning_idempotent_witness:
  "\<exists>r s' r' s''. run_h3_learning_loop ex_loop_env 8 (\<lambda>_. 0) None 7 5 1 (ex_learner [''completed'']) = (Inr r, s') \<and> lr_execution r = Some 8 \<and>
     run_h3_learning_loop (ex_loop_env\<lparr>le_now := 60\<rparr>) 9 (\<lambda>_. 0) None 7 5 1 s' = (Inr r', s'') \<and> lr_execution r' = Some 9 \<and>
     ln_memory s'' = ln_memory s'"
  by (rule learning_idempotent)
    (simp_all add: finished_revision_def ex_learner_def ex_db_def ex_execution_def ex_revision_def ex_committed_def TERMINAL_STATUSES_def)

lemma run_learning_loop_raises: "run_learning_loop str_of tenant decision t \<noteq> Inr rs"
  by (auto simp: run_learning_loop_def and_then_eq_Inr split: list.splits elim!: learning_signals_InrD)


text \<open>
  Rejected outcomes are reported as submitted: with an execution store, outcomes for a decision the
  tenant does not have are rolled back and nothing is written, yet the answer has the
  status outcomes_submitted; without the store the same request raises.
\<close>

theorem rejected_outcomes_reported_submitted:
  assumes "\<forall>d \<in> set (db_decisions (ln_db (go_learner g))). dec_id d = decision \<longrightarrow> dec_tenant d \<noteq> tenant"
    and "actual \<noteq> []"
  shows "submit_decision_outcomes True True env r i ids fault tenant decision actual executed_at g =
       (Inr (''outcomes_submitted'', ''failed''), g) \<and>
     submit_decision_outcomes False True env r i ids fault tenant decision actual executed_at g =
       (Inl (PassedThrough ''DecisionNotFoundError''), g)"
  using assms by (auto simp: submit_decision_outcomes_def submit_outcomes_def submit_outcomes_with_revision_def
      create_outcome_revision_def Let_def)

theorem rejected_outcomes_reported_submitted_witness:
  "submit_decision_outcomes True True ex_loop_env 3 9 (\<lambda>_. 0) None 8 5 [[]] None \<lparr>go_learner = ex_learner [], go_transitions = 0\<rparr> =
     (Inr (''outcomes_submitted'', ''failed''), \<lparr>go_learner = ex_learner [], go_transitions = 0\<rparr>)"
  using rejected_outcomes_reported_submitted [of "\<lparr>go_learner = ex_learner [], go_transitions = 0\<rparr>" 5 8 "[[]]"]
  by (simp add: ex_learner_def ex_db_def ex_committed_def)

end
