(* ===== verification/Outcome_Chain.thy ===== *)
theory Outcome_Chain
  imports Committer Learning_Loop
begin

text \<open>
  From the offer to what is learned: the predictions the committer records are the consequences of the
  offer, which are sentences, while the learning side reads a prediction as a probability.
\<close>

lemma actual_by_metric_known:
  assumes "ao \<in> set os" and "get ao ''verifiable_by'' = JStr m"
  shows "\<exists>ao' \<in> set os. map_of (actual_by_metric str_of os) m = Some ao'"
proof -
  let ?f = "\<lambda>ao. let metric = get ao ''verifiable_by'' in if metric = JNull then None else Some (py_str str_of metric, ao)"
  have "(m, ao) \<in> set (List.map_filter ?f os)" using assms by (force simp: List.map_filter_def)
  then have "map_of (actual_by_metric str_of os) m \<noteq> None"
    unfolding actual_by_metric_def map_of_dict_of map_of_eq_None_iff by force
  then show ?thesis using map_of_actual_by_metric by fastforce
qed

lemma committed_expectation:
  assumes "formulated r" and "commit fmt date_iso now r c p a = Inr (Some dc)" and "eo \<in> set (dc_expected dc)"
  shows "predicted eo = 0" and "get eo ''verifiable_by'' = JStr (lookup_or VERIFICATION_METRIC_BY_DOMAIN (dp_domain p) ''system_metric'')"
proof -
  obtain x dl where x: "x \<in> set (rec_consequences r)" and eo: "eo = [(''prediction'', JStr x),
      (''verifiable_by'', JStr (lookup_or VERIFICATION_METRIC_BY_DOMAIN (dp_domain p) ''system_metric'')), (''deadline'', JStr dl)]"
    using assms(2,3) by (auto simp: commit_def and_then_eq_Inr build_expected_outcomes_def Let_def split: if_splits)
  have "prose x" using formulatedD(3) [OF assms(1)] x by (simp add: list_all_iff)
  then show "predicted eo = 0" by (simp add: eo predicted_def get_default_def prose_no_number)
  show "get eo ''verifiable_by'' = JStr (lookup_or VERIFICATION_METRIC_BY_DOMAIN (dp_domain p) ''system_metric'')"
    by (simp add: eo get_def)
qed

lemma committed_length:
  "commit fmt date_iso now r c p a = Inr (Some dc) \<Longrightarrow> length (dc_expected dc) = length (rec_consequences r) \<and> rec_consequences r \<noteq> []"
  by (auto simp: commit_def and_then_eq_Inr build_expected_outcomes_def Let_def split: if_splits)

lemma success_contradicts:
  assumes "formulated r" and "commit fmt date_iso now r c p a = Inr (Some dc)" and "eo \<in> set (dc_expected dc)"
    and "\<forall>ao \<in> set os. binary_outcome (get ao ''value'') = Some 1"
    and "ao \<in> set os" and "get ao ''verifiable_by'' = JStr (lookup_or VERIFICATION_METRIC_BY_DOMAIN (dp_domain p) ''system_metric'')"
  shows "od_class (detail_of str_of (actual_by_metric str_of os) (JObj eo)) = ''contradicted''"
proof -
  obtain ao' where ao': "ao' \<in> set os" "map_of (actual_by_metric str_of os)
      (lookup_or VERIFICATION_METRIC_BY_DOMAIN (dp_domain p) ''system_metric'') = Some ao'"
    using actual_by_metric_known [OF assms(5,6)] by blast
  then show ?thesis using committed_expectation [OF assms(1-3)] assms(4)
    by (simp add: detail_of_def classify_expected_outcome_def metric_of_def Let_def)
qed

definition ex_storage_policy :: decision_policy where
  "ex_storage_policy = policy_entry ''storage_commit_v1'' ''storage'' (3/4) (9/10) {''low'', ''medium'', ''high''}"

definition ex_authority :: authority where
  "ex_authority = \<lparr>au_id = 12, au_label = ''policy:storage_commit_v1'', au_risk = ''medium''\<rparr>"

lemma ex_commit:
  "\<exists>dc. commit (\<lambda>_. []) (\<lambda>_. []) 0 ex_rec (ex_confidence (4/5)) ex_storage_policy ex_authority = Inr (Some dc)"
proof -
  have "commit_eligibility ex_rec (ex_confidence (4/5)) (Some ex_storage_policy) (Some ex_authority) = Inr COMMITTABLE"
    using ex_rec(2,3) by (simp add: commit_eligibility_def validate_commit_def ex_storage_policy_def policy_entry_def
        ex_authority_def ex_confidence_def)
  then show ?thesis using formulatedD(2) [OF ex_rec(1)] by (simp add: commit_def build_expected_outcomes_def Let_def)
qed

section \<open>Properties\<close>



end
