(* ===== verification/Json_Text.thy ===== *)
theory Json_Text
  imports Insight_Generation
begin

text \<open>
  The text of values: \<open>str(int)\<close>, \<open>json.dumps\<close>, UTF-8, and reading identifiers back with
  \<open>uuid.UUID(text)\<close>. The shortest decimal of a float (\<open>repr\<close>) is an argument.
\<close>

section \<open>Integers and identifiers\<close>

fun digits :: "nat \<Rightarrow> string" where
  "digits n = (if n < 10 then [char_of (48 + n)] else digits (n div 10) @ [char_of (48 + n mod 10)])"

declare digits.simps [simp del]

definition show_int :: "int \<Rightarrow> string" where
  "show_int n = (if n < 0 then ''-'' @ digits (nat (- n)) else digits (nat n))"

definition hex_digit :: "char \<Rightarrow> nat option" where
  "hex_digit c = (let n = of_char c :: nat
     in if 48 \<le> n \<and> n \<le> 57 then Some (n - 48) else if 97 \<le> n \<and> n \<le> 102 then Some (n - 87)
        else if 65 \<le> n \<and> n \<le> 70 then Some (n - 55) else None)"

definition read_hex :: "string \<Rightarrow> nat option" where
  "read_hex s = foldl (\<lambda>a c. case (a, hex_digit c) of (Some n, Some d) \<Rightarrow> Some (16 * n + d) | _ \<Rightarrow> None) (Some 0) s"

text \<open>\<open>s.replace(sub, "")\<close>\<close>

function remove_sub :: "string \<Rightarrow> string \<Rightarrow> string" where
  "remove_sub sub s = (if s = [] then [] else if sub \<noteq> [] \<and> prefix sub s then remove_sub sub (drop (length sub) s)
     else hd s # remove_sub sub (tl s))"
  by pat_completeness auto
termination by (relation "measure (\<lambda>(sub, s). length s)") auto

declare remove_sub.simps [simp del]

text \<open>
  \<open>uuid.UUID(text)\<close>: prefixes, braces and hyphens are dropped and 32 hexadecimal digits must
  remain. (\<open>int(text, 16)\<close> also takes digit separators and a sign, which are left out.)
\<close>

definition strip_chars :: "char list \<Rightarrow> string \<Rightarrow> string" where
  "strip_chars cs s = rev (dropWhile (\<lambda>c. c \<in> set cs) (rev (dropWhile (\<lambda>c. c \<in> set cs) s)))"

definition parse_uuid :: "string \<Rightarrow> uuid option" where
  "parse_uuid s = (let h = remove_sub ''-'' (strip_chars ''{}'' (remove_sub ''uuid:'' (remove_sub ''urn:'' s)))
     in if length h \<noteq> 32 then None else map_option of_nat (read_hex h))"

lemma hex_digit_hex_char: "d < 16 \<Longrightarrow> hex_digit (hex_char d) = Some d"
  by (auto simp: hex_digit_def hex_char_def Let_def)

lemma read_hex_append: "read_hex (s @ t) = foldl (\<lambda>a c. case (a, hex_digit c) of (Some n, Some d) \<Rightarrow> Some (16 * n + d) | _ \<Rightarrow> None) (read_hex s) t"
  by (simp add: read_hex_def)

lemma read_hex_hex: "n < 16 ^ k \<Longrightarrow> read_hex (hex k n) = Some n"
proof (induction k arbitrary: n)
  case (Suc k)
  have "read_hex (hex k (n div 16)) = Some (n div 16)"
    using Suc.prems by (intro Suc.IH) (auto simp: less_mult_imp_div_less mult.commute)
  then show ?case by (simp add: read_hex_append hex_digit_hex_char)
qed (simp add: read_hex_def)

lemma hex_digits: "c \<in> set (hex k n) \<Longrightarrow> hex_digit c \<noteq> None"
  by (induction k n rule: hex.induct) (auto simp: hex_digit_hex_char)

lemma remove_absent: "(\<And>c. c \<in> set s \<Longrightarrow> c \<noteq> x) \<Longrightarrow> x \<in> set sub \<Longrightarrow> remove_sub sub s = s"
proof (induction s)
  case (Cons c s)
  have "\<not> prefix sub (c # s)" using Cons.prems by (auto simp: prefix_def) (metis Un_iff set_append set_ConsD)
  then show ?case using Cons by (subst remove_sub.simps) auto
qed (simp add: remove_sub.simps)

lemma remove_hyphen: "remove_sub ''-'' s = filter (\<lambda>c. c \<noteq> CHR ''-'') s"
proof (induction s)
  case (Cons c s)
  then show ?case by (subst remove_sub.simps) auto
qed (simp add: remove_sub.simps)

lemma strip_none: "(\<And>c. c \<in> set s \<Longrightarrow> c \<notin> set cs) \<Longrightarrow> strip_chars cs s = s"
proof -
  assume s: "\<And>c. c \<in> set s \<Longrightarrow> c \<notin> set cs"
  then have d: "dropWhile (\<lambda>c. c \<in> set cs) s = s" "dropWhile (\<lambda>c. c \<in> set cs) (rev s) = rev s"
    by (cases s; cases "rev s"; fastforce dest: arg_cong [of _ _ set])+
  show ?thesis by (simp add: strip_chars_def d)
qed

lemma parse_uuid_str [simp]: "parse_uuid (uuid_str u) = Some u"
proof -
  define h where "h = hex 32 (unat u)"
  have hx: "hex_digit c \<noteq> None" if "c \<in> set h" for c using that hex_digits unfolding h_def by blast
  have sub: "c \<in> set h \<or> c = CHR ''-''" if "c \<in> set (uuid_str u)" for c
    using that by (auto simp: uuid_str_def Let_def simp flip: h_def dest: in_set_takeD in_set_dropD)
  have bad: "hex_digit (CHR '':'') = None" "hex_digit (CHR ''{'') = None" "hex_digit (CHR ''}'') = None" "hex_digit (CHR ''-'') = None"
    by (simp_all add: hex_digit_def)
  have hy: "CHR ''-'' \<notin> set h" using hx bad(4) by metis
  have no: "c \<noteq> CHR '':''" "c \<notin> set ''{}''" if "c \<in> set (uuid_str u)" for c
    using sub [OF that] hx bad by (auto, metis+)
  have "filter (\<lambda>c. c \<noteq> CHR ''-'') xs = xs" if "set xs \<subseteq> set h" for xs
    using that hy by (intro filter_True) auto
  then have "filter (\<lambda>c. c \<noteq> CHR ''-'') (uuid_str u) =
      take 8 h @ take 4 (drop 8 h) @ take 4 (drop 12 h) @ take 4 (drop 16 h) @ drop 20 h"
    by (simp add: uuid_str_def Let_def set_take_subset set_drop_subset subset_trans [OF set_take_subset set_drop_subset]
        flip: h_def)
  also have "\<dots> = h" by (simp add: take_add [symmetric] flip: take_add append_assoc)
  finally have "filter (\<lambda>c. c \<noteq> CHR ''-'') (uuid_str u) = h" .
  moreover have "remove_sub ''urn:'' (uuid_str u) = uuid_str u" "remove_sub ''uuid:'' (uuid_str u) = uuid_str u"
    using no(1) by (auto intro!: remove_absent [where x = "CHR '':''"])
  moreover have "strip_chars ''{}'' (uuid_str u) = uuid_str u" by (rule strip_none) (rule no(2))
  moreover have "unat u < 16 ^ 32" using unsigned_less [of u, where ?'a = nat] by simp
  then have "read_hex h = Some (unat u)" unfolding h_def by (rule read_hex_hex)
  ultimately show ?thesis by (simp add: parse_uuid_def remove_hyphen h_def)
qed

section \<open>JSON text\<close>

definition escape_control :: "char \<Rightarrow> string" where
  "escape_control c = (let n = of_char c :: nat
     in if n = 34 then [CHR 92, CHR 34] else if n = 92 then [CHR 92, CHR 92]
        else if n = 10 then [CHR 92, CHR ''n''] else if n = 13 then [CHR 92, CHR ''r'']
        else if n = 9 then [CHR 92, CHR ''t''] else if n = 8 then [CHR 92, CHR ''b'']
        else if n = 12 then [CHR 92, CHR ''f''] else [CHR 92, CHR ''u''] @ hex 4 n)"

text \<open>With \<open>ensure_ascii\<close> everything outside the printable ASCII range is escaped, without it only control characters.\<close>

definition escape :: "bool \<Rightarrow> char \<Rightarrow> string" where
  "escape ascii c = (let n = of_char c :: nat
     in if n = 34 \<or> n = 92 \<or> n < 32 \<or> (ascii \<and> 126 < n) then escape_control c else [c])"

definition quote :: "bool \<Rightarrow> string \<Rightarrow> string" where
  "quote ascii s = [CHR 34] @ concat (map (escape ascii) s) @ [CHR 34]"

text \<open>\<open>json.dumps\<close> with its default separators.\<close>

fun dumps :: "(real \<Rightarrow> string) \<Rightarrow> json \<Rightarrow> string" where
  "dumps fr JNull = ''null''"
| "dumps fr (JBool b) = (if b then ''true'' else ''false'')"
| "dumps fr (JInt n) = show_int n"
| "dumps fr (JFloat x) = fr x"
| "dumps fr (JStr s) = quote True s"
| "dumps fr (JArr xs) = ''['' @ join '', '' (map (dumps fr) xs) @ '']''"
| "dumps fr (JObj d) = ''{'' @ join '', '' (map (\<lambda>kv. quote True (fst kv) @ '': '' @ dumps fr (snd kv)) d) @ ''}''"

text \<open>UTF-8 of Latin-1 text, one character per byte.\<close>

definition utf8 :: "string \<Rightarrow> string" where
  "utf8 s = concat (map (\<lambda>c. let n = of_char c :: nat
     in if n < 128 then [c] else [char_of (192 + n div 64), char_of (128 + n mod 64)]) s)"

end
