(* ===== verification/Evaluation.thy ===== *)
theory Evaluation
  imports Calibration Json_Text
begin

text \<open>
  The Evaluate capability: the rule of \<open>libs/reasoning/evaluation_policy.py\<close>, the evaluation row
  of \<open>libs/reasoning/evaluation.py\<close>, the status of a hypothesis in \<open>libs/reasoning/hypothesis.py\<close>
  and the cycle of \<open>apps/services/evaluation-service/src/service.py\<close>. The loop over the pages,
  which reads the live table until a page is empty, is a partial function: that it returns is a
  theorem. The tenants of a cycle, which the code runs concurrently, write disjoint rows; they are
  taken in order.
\<close>

section \<open>Matching evidence (evaluation_policy.py)\<close>

definition evaluated_text :: "evidence \<Rightarrow> string" where
  "evaluated_text e = lower (join '' '' [ev_description e, ev_type e])"

text \<open>Both matchers of the policy have this body.\<close>

definition mentions :: "string \<Rightarrow> string \<Rightarrow> bool" where
  "mentions txt phrase = (let p = lower phrase
     in sublist p txt \<or> list_ex (\<lambda>kw. sublist kw txt) (filter (\<lambda>kw. 4 < length kw) (split_ws p)))"

definition evidence_supports_prediction :: "evidence \<Rightarrow> string \<Rightarrow> bool" where
  "evidence_supports_prediction e prediction = mentions (evaluated_text e) prediction"

definition evidence_meets_falsification :: "evidence \<Rightarrow> string \<Rightarrow> bool" where
  "evidence_meets_falsification e criterion = mentions (evaluated_text e) criterion"

record match_result =
  support_count :: nat
  contradiction_count :: nat
  supported :: "string list"
  contradicted :: "string list"

text \<open>The second loop stops at the first evidence that meets the criterion.\<close>

definition evaluate_evidence_against_hypothesis :: "hypothesis \<Rightarrow> evidence list \<Rightarrow> match_result" where
  "evaluate_evidence_against_hypothesis h evs =
     (let sup = filter (\<lambda>p. list_ex (\<lambda>e. evidence_supports_prediction e p) evs) (hyp_consequences h);
          con = (case find (\<lambda>e. evidence_meets_falsification e (hyp_falsification h)) evs of
                   None \<Rightarrow> [] | Some _ \<Rightarrow> [hyp_falsification h])
      in \<lparr>support_count = length sup, contradiction_count = length con, supported = sup, contradicted = con\<rparr>)"

section \<open>The decision\<close>

definition MIN_PREDICTIONS_FOR_CONFIRMATION :: nat where [catalogue]: "MIN_PREDICTIONS_FOR_CONFIRMATION = 2"
definition MIN_CONTRADICTIONS_FOR_FALSIFICATION :: nat where [catalogue]: "MIN_CONTRADICTIONS_FOR_FALSIFICATION = 1"
definition CONFIDENCE_THRESHOLD_CONFIRM :: real where [catalogue]: "CONFIDENCE_THRESHOLD_CONFIRM = 3/4"

definition formal_decision :: "match_result \<Rightarrow> real \<Rightarrow> bool \<Rightarrow> string \<times> fstring" where
  "formal_decision m score reliable =
     (if contradiction_count m \<ge> MIN_CONTRADICTIONS_FOR_FALSIFICATION then
        (if reliable then
           (''falsified'', [Lit ''Falsification criterion met ('', PInt (int (contradiction_count m)),
              Lit '' contradiction(s)). Observed evidence contradicts the hypothesis; Confidence does not override contradictory evidence. Contradicted: '',
              PStr (case contradicted m of [] \<Rightarrow> ''N/A'' | c # _ \<Rightarrow> c)])
         else
           (''insufficient'', [Lit ''Falsification criterion met by heuristic evidence ('', PInt (int (contradiction_count m)),
              Lit '' contradiction(s)); terminal promotion requires a reliable/structured evidence basis (see evaluation_policy). Hypothesis remains candidate pending explicit evaluation.'']))
      else if support_count m \<ge> MIN_PREDICTIONS_FOR_CONFIRMATION then
        (if score \<ge> CONFIDENCE_THRESHOLD_CONFIRM then
           (if reliable then
              (''confirmed'', [PInt (int (support_count m)), Lit '' prediction(s) corroborated with high confidence ('',
                 PFixed 2 score, Lit '' >= '', PReal CONFIDENCE_THRESHOLD_CONFIRM,
                 Lit ''). No falsification criterion met. Supported: '', PStr (join '', '' (take 2 (supported m))),
                 PStr (if length (supported m) > 2 then ''...'' else [])])
            else
              (''insufficient'', [PInt (int (support_count m)), Lit '' prediction(s) corroborated with high confidence ('',
                 PFixed 2 score, Lit '' >= '', PReal CONFIDENCE_THRESHOLD_CONFIRM,
                 Lit '') on heuristic evidence; terminal promotion requires a reliable/structured evidence basis. Hypothesis remains candidate.'']))
         else
           (''insufficient'', [PInt (int (support_count m)), Lit '' prediction(s) corroborated but Confidence is low ('',
              PFixed 2 score, Lit '' < '', PReal CONFIDENCE_THRESHOLD_CONFIRM,
              Lit ''). Confidence is necessary-but-not-sufficient gating; requires higher calibrated confidence for confirmation.'']))
      else
        (''insufficient'', [Lit ''Insufficient evidence for confirmation or falsification. Support: '', PInt (int (support_count m)),
           Lit ''/'', PInt (int MIN_PREDICTIONS_FOR_CONFIRMATION), Lit '' predictions, Contradictions: '',
           PInt (int (contradiction_count m)), Lit '', Confidence: '', PFixed 2 score,
           Lit ''. Hypothesis remains candidate.'']))"

record evaluation_inputs =
  ei_hypothesis :: hypothesis
  ei_evidence :: "evidence list"
  ei_confidence :: "confidence option"
  ei_reliable :: bool

record evaluation_decision =
  ed_result :: string
  ed_support :: nat
  ed_contradiction :: nat
  ed_rationale :: fstring

definition apply_evaluation_policy :: "evaluation_inputs \<Rightarrow> evaluation_decision" where
  "apply_evaluation_policy i =
     (let score = (case ei_confidence i of None \<Rightarrow> 0 | Some c \<Rightarrow> conf_score c);
          m = evaluate_evidence_against_hypothesis (ei_hypothesis i) (ei_evidence i)
      in case formal_decision m score (ei_reliable i) of (result, rationale) \<Rightarrow>
           \<lparr>ed_result = result, ed_support = support_count m, ed_contradiction = contradiction_count m,
            ed_rationale = rationale\<rparr>)"

section \<open>Evaluation rows (evaluation.py)\<close>

record evaluation =
  evl_id :: uuid
  evl_tenant :: uuid
  evl_hypothesis :: uuid
  evl_evidence_ids :: "uuid list"
  evl_observed :: "dict list"
  evl_support :: nat
  evl_contradiction :: nat
  evl_confidence :: "uuid option"
  evl_result :: string
  evl_rationale :: string
  evl_evaluated_at :: datetime

record evaluation_create =
  elc_tenant :: uuid
  elc_hypothesis :: uuid
  elc_evidence_ids :: "uuid list"
  elc_observed :: "dict list"
  elc_support :: nat
  elc_contradiction :: nat
  elc_confidence :: "uuid option"
  elc_result :: string
  elc_rationale :: string
  elc_evaluated_at :: datetime

definition EVALUATION_RESULTS :: "string list" where
  [catalogue]: "EVALUATION_RESULTS = [''confirmed'', ''falsified'', ''insufficient'']"

definition evaluation_name :: "uuid \<Rightarrow> uuid \<Rightarrow> uuid list \<Rightarrow> string \<Rightarrow> string" where
  "evaluation_name tenant hyp evs result =
     uuid_str tenant @ '':'' @ uuid_str hyp @ '':'' @ ordered_ids evs @ '':'' @ result"

definition evaluation_id :: "uuid5 \<Rightarrow> uuid \<Rightarrow> uuid \<Rightarrow> uuid list \<Rightarrow> string \<Rightarrow> uuid" where
  "evaluation_id uuid5 tenant hyp evs result = uuid5 131 (evaluation_name tenant hyp evs result)"

definition build_evaluation :: "uuid5 \<Rightarrow> evaluation_create \<Rightarrow> evaluation" where
  "build_evaluation uuid5 c =
     \<lparr>evl_id = evaluation_id uuid5 (elc_tenant c) (elc_hypothesis c) (elc_evidence_ids c) (elc_result c),
      evl_tenant = elc_tenant c, evl_hypothesis = elc_hypothesis c, evl_evidence_ids = elc_evidence_ids c,
      evl_observed = elc_observed c, evl_support = elc_support c, evl_contradiction = elc_contradiction c,
      evl_confidence = elc_confidence c, evl_result = elc_result c, evl_rationale = elc_rationale c,
      evl_evaluated_at = elc_evaluated_at c\<rparr>"

text \<open>The validator of \<open>EvaluationCreate\<close>.\<close>

definition validate_result :: "string \<Rightarrow> string result" where
  "validate_result v = (if v \<in> set EVALUATION_RESULTS then Inr v else Inl (ValueError ''invalid result''))"

definition create_evaluation :: "uuid5 \<Rightarrow> datetime \<Rightarrow> uuid \<Rightarrow> uuid \<Rightarrow> uuid list \<Rightarrow> dict list \<Rightarrow> nat \<Rightarrow> nat \<Rightarrow>
    uuid option \<Rightarrow> string \<Rightarrow> string \<Rightarrow> evaluation result" where
  "create_evaluation uuid5 now tenant hyp evs observed support contradiction conf result rationale =
     and_then (validate_result result) (\<lambda>r. Inr (build_evaluation uuid5
       \<lparr>elc_tenant = tenant, elc_hypothesis = hyp, elc_evidence_ids = evs, elc_observed = observed,
        elc_support = support, elc_contradiction = contradiction, elc_confidence = conf, elc_result = r,
        elc_rationale = rationale, elc_evaluated_at = now\<rparr>))"

definition list_evaluations :: "uuid \<Rightarrow> nat \<Rightarrow> nat \<Rightarrow> evaluation list \<Rightarrow> evaluation list" where
  "list_evaluations tenant limit offset t =
     take limit (drop offset (sort_key evl_evaluated_at (filter (\<lambda>r. evl_tenant r = tenant) t)))"

definition list_evaluations_by_hypothesis :: "uuid \<Rightarrow> uuid \<Rightarrow> evaluation list \<Rightarrow> evaluation list" where
  "list_evaluations_by_hypothesis tenant hyp t =
     sort_key evl_evaluated_at (filter (\<lambda>r. evl_tenant r = tenant \<and> evl_hypothesis r = hyp) t)"

definition evaluation_exists :: "uuid \<Rightarrow> evaluation list \<Rightarrow> bool" where
  "evaluation_exists i t = (lookup_row evl_id t i \<noteq> None)"

section \<open>Status of a hypothesis (hypothesis.py)\<close>

text \<open>\<open>UPDATE hypotheses SET status = :status WHERE id = :id AND tenant_id = :tenant_id\<close>\<close>

definition set_hypothesis_status :: "uuid \<Rightarrow> uuid \<Rightarrow> string \<Rightarrow> hypothesis \<Rightarrow> hypothesis" where
  "set_hypothesis_status tenant hyp status h =
     (if hyp_id h = hyp \<and> hyp_tenant h = tenant then h\<lparr>hyp_status := status\<rparr> else h)"

definition get_hypothesis_by_id :: "uuid \<Rightarrow> uuid \<Rightarrow> hypothesis list \<Rightarrow> hypothesis option" where
  "get_hypothesis_by_id tenant hyp t = find (\<lambda>h. hyp_id h = hyp \<and> hyp_tenant h = tenant) t"

definition update_hypothesis_status :: "uuid \<Rightarrow> uuid \<Rightarrow> string \<Rightarrow> hypothesis list \<Rightarrow>
    (hypothesis option \<times> hypothesis list) result" where
  "update_hypothesis_status tenant hyp status t =
     (if status \<notin> {''confirmed'', ''falsified''} then Inl (ValueError ''Invalid status transition'')
      else (let t1 = map (set_hypothesis_status tenant hyp status) t
            in Inr (get_hypothesis_by_id tenant hyp t1, t1)))"

text \<open>
  \<open>evaluate_hypothesis\<close>: the judgement on evidence handed over as dictionaries. \<open>fr\<close> shows
  the floats in their JSON text.
\<close>

definition evidence_matches_prediction :: "(real \<Rightarrow> string) \<Rightarrow> dict \<Rightarrow> string \<Rightarrow> bool" where
  "evidence_matches_prediction fr ev prediction \<longleftrightarrow> sublist (lower prediction) (lower (dumps fr (JObj ev)))"

definition evidence_matches_falsification :: "(real \<Rightarrow> string) \<Rightarrow> dict \<Rightarrow> string \<Rightarrow> bool" where
  "evidence_matches_falsification fr ev criterion \<longleftrightarrow> sublist (lower criterion) (lower (dumps fr (JObj ev)))"

record evaluation_result =
  er_hypothesis :: uuid
  er_prior :: string
  er_new :: string
  er_rationale :: fstring
  er_supporting :: nat
  er_contradicting :: nat
  er_sufficient :: bool
  er_falsified :: bool
  er_corroborated :: nat
  er_total :: nat
  er_confidence :: "real option"

definition evaluate_hypothesis :: "(real \<Rightarrow> string) \<Rightarrow> hypothesis \<Rightarrow> dict list \<Rightarrow> dict list \<Rightarrow> real option \<Rightarrow> evaluation_result" where
  "evaluate_hypothesis fr h supporting contradicting score =
     (let matched = (\<lambda>evs p. list_ex (\<lambda>ev. evidence_matches_prediction fr ev p) evs);
          corroborated = length (filter (matched supporting) (hyp_consequences h));
          met = list_ex (\<lambda>ev. evidence_matches_falsification fr ev (hyp_falsification h)) contradicting;
          total_predictions = length (hyp_consequences h);
          tested = length (filter (matched (supporting @ contradicting)) (hyp_consequences h));
          sufficient = (tested > 0 \<and> (corroborated > 0 \<or> met));
          prior = hyp_status h;
          (new, rationale) =
            (if prior \<in> {''confirmed'', ''falsified''} then
               (prior, [Lit ''Hypothesis already '', PStr prior, Lit ''; evaluation is append-only per P1''])
             else if met then (''falsified'', [Lit ''Falsification criterion met by contradicting evidence''])
             else if sufficient \<and> real corroborated > real total_predictions * (1/2) then
               (''confirmed'', [Lit ''Sufficient evidence corroborates '', PInt (int corroborated), Lit ''/'',
                  PInt (int total_predictions), Lit '' predictions (strict majority)''])
             else if sufficient \<and> corroborated > 0 then
               (''candidate'', [Lit ''Partial corroboration ('', PInt (int corroborated), Lit ''/'', PInt (int total_predictions),
                  Lit '') but not majority; remains candidate''])
             else (''candidate'', [Lit ''Insufficient evidence for status change; remains candidate'']))
      in \<lparr>er_hypothesis = hyp_id h, er_prior = prior, er_new = new, er_rationale = rationale,
          er_supporting = length supporting, er_contradicting = length contradicting, er_sufficient = sufficient,
          er_falsified = met, er_corroborated = corroborated, er_total = total_predictions, er_confidence = score\<rparr>)"

text \<open>
  The judgement follows the lifecycle, and an unknown status is reset to a candidate unless the evidence decides.
\<close>

lemma evaluate_hypothesis_new:
  "er_new (evaluate_hypothesis fr h sups cons score) =
     (if hyp_status h \<in> {''confirmed'', ''falsified''} then hyp_status h
      else if \<exists>ev \<in> set cons. evidence_matches_falsification fr ev (hyp_falsification h) then ''falsified''
      else if 2 * length (filter (\<lambda>p. \<exists>ev \<in> set sups. evidence_matches_prediction fr ev p) (hyp_consequences h))
          > length (hyp_consequences h) then ''confirmed'' else ''candidate'')"
proof -
  let ?m = "\<lambda>evs. filter (\<lambda>p. list_ex (\<lambda>ev. evidence_matches_prediction fr ev p) evs) (hyp_consequences h)"
  have "?m sups \<noteq> [] \<Longrightarrow> ?m (sups @ cons) \<noteq> []" by (auto simp: filter_empty_conv)
  then have "0 < length (?m sups) \<Longrightarrow> 0 < length (?m (sups @ cons))" by simp
  moreover have "real (length (?m sups)) > real (length (hyp_consequences h)) * (1/2) \<longleftrightarrow> 2 * length (?m sups) > length (hyp_consequences h)"
    by linarith
  moreover have "2 * length (?m sups) > length (hyp_consequences h) \<Longrightarrow> ?m sups \<noteq> []" by auto
  ultimately show ?thesis by (auto simp: evaluate_hypothesis_def Let_def list_ex_iff split: if_splits)
qed

section \<open>Evaluation cycle (service.py)\<close>

record evaluation_service =
  es_hypotheses :: "hypothesis list"
  es_evaluations :: "evaluation list"
  es_batch_size :: nat
  es_reliable :: bool
  es_total :: nat
  es_duplicates :: nat
  es_confirmed :: nat
  es_falsified :: nat
  es_insufficient :: nat
  es_errors :: nat
  es_cycles :: nat
  es_by_result :: "string \<Rightarrow> nat"
  es_last_at :: "datetime option"

text \<open>
  The surroundings of a cycle: hashing, rendering, the clock, the evaluations whose insertion
  commits and the hypotheses whose status update does.
\<close>

record evaluation_env =
  en_uuid5 :: uuid5
  en_fmt :: "piece \<Rightarrow> string"
  en_now :: datetime
  en_accepts :: "evaluation \<Rightarrow> bool"
  en_updates :: "uuid \<Rightarrow> bool"

definition list_evidence_since :: "uuid \<Rightarrow> datetime \<Rightarrow> evidence list \<Rightarrow> evidence list" where
  "list_evidence_since tenant since t = filter (\<lambda>e. ev_organized_at e \<ge> since) (list_evidence tenant t)"

text \<open>\<open>_get_confidences_for_hypotheses\<close>: the first confidence of each candidate in the page read.\<close>

definition get_confidences_for_hypotheses :: "uuid \<Rightarrow> hypothesis list \<Rightarrow> confidence list \<Rightarrow> (uuid \<times> confidence) list" where
  "get_confidences_for_hypotheses tenant hs scores =
     foldl (\<lambda>d c. if conf_target_type c = ''hypothesis'' \<and> conf_target_id c \<in> hyp_id ` set hs
                     \<and> map_of d (conf_target_id c) = None
                  then AList.update (conf_target_id c) c d else d) [] (list_confidence tenant 500 0 scores)"

definition observed_outcome :: "evidence \<Rightarrow> dict" where
  "observed_outcome e = [(''evidence_id'', JStr (uuid_str (ev_id e))), (''organization_type'', JStr (ev_type e)),
     (''description'', JStr (ev_description e)), (''quality_class'', JStr (quality_value (ev_quality e)))]"

definition promote :: "evaluation_env \<Rightarrow> uuid \<Rightarrow> uuid \<Rightarrow> string \<Rightarrow> evaluation_service \<Rightarrow> unit result \<times> evaluation_service" where
  "promote env tenant hyp status s =
     (if \<not> en_updates env hyp then (Inl (PassedThrough ''database''), s)
      else case update_hypothesis_status tenant hyp status (es_hypotheses s) of
          Inl x \<Rightarrow> (Inl x, s) | Inr (_, t) \<Rightarrow> (Inr (), s\<lparr>es_hypotheses := t\<rparr>))"

definition hypothesis_decision :: "bool \<Rightarrow> evidence list \<Rightarrow> confidence option \<Rightarrow> hypothesis \<Rightarrow> evaluation_decision" where
  "hypothesis_decision reliable evs conf h = apply_evaluation_policy
     \<lparr>ei_hypothesis = h, ei_evidence = evs, ei_confidence = conf, ei_reliable = reliable\<rparr>"

definition evaluate_one :: "evaluation_env \<Rightarrow> uuid \<Rightarrow> evidence list \<Rightarrow> (uuid \<times> confidence) list \<Rightarrow> hypothesis \<Rightarrow>
    evaluation_service \<Rightarrow> unit result \<times> evaluation_service" where
  "evaluate_one env tenant evs confs h s =
     (let conf = map_of confs (hyp_id h);
          d = hypothesis_decision (es_reliable s) evs conf h
      in case create_evaluation (en_uuid5 env) (en_now env) tenant (hyp_id h) (map ev_id evs)
                (map observed_outcome evs) (ed_support d) (ed_contradiction d) (map_option conf_id conf)
                (ed_result d) (render (en_fmt env) (ed_rationale d)) of
           Inl x \<Rightarrow> (Inl x, s)
         | Inr e \<Rightarrow>
             if \<not> en_accepts env e then (Inl (PassedThrough ''database''), s)
             else case insert_row evl_id e (es_evaluations s) of
                 (t, None) \<Rightarrow> (Inr (), s\<lparr>es_evaluations := t, es_duplicates := es_duplicates s + 1\<rparr>)
               | (t, Some _) \<Rightarrow>
                   (let s1 = s\<lparr>es_evaluations := t, es_total := es_total s + 1,
                          es_by_result := (es_by_result s)(ed_result d := es_by_result s (ed_result d) + 1)\<rparr>
                    in if ed_result d = ''confirmed'' then
                         promote env tenant (hyp_id h) ''confirmed'' (s1\<lparr>es_confirmed := es_confirmed s + 1\<rparr>)
                       else if ed_result d = ''falsified'' then
                         promote env tenant (hyp_id h) ''falsified'' (s1\<lparr>es_falsified := es_falsified s + 1\<rparr>)
                       else (Inr (), s1\<lparr>es_insufficient := es_insufficient s + 1\<rparr>)))"

fun evaluate_each :: "evaluation_env \<Rightarrow> uuid \<Rightarrow> evidence list \<Rightarrow> (uuid \<times> confidence) list \<Rightarrow> hypothesis list \<Rightarrow>
    evaluation_service \<Rightarrow> unit result \<times> evaluation_service" where
  "evaluate_each env tenant evs confs [] s = (Inr (), s)"
| "evaluate_each env tenant evs confs (h # hs) s =
     (case evaluate_one env tenant evs confs h s of
        (Inl x, s1) \<Rightarrow> (Inl x, s1)
      | (Inr _, s1) \<Rightarrow> evaluate_each env tenant evs confs hs s1)"

definition is_candidate :: "hypothesis \<Rightarrow> bool" where
  "is_candidate h \<longleftrightarrow> hyp_status h = ''candidate''"

text \<open>The body of the loop over the pages, for a page that has candidates.\<close>

definition evaluate_page :: "evaluation_env \<Rightarrow> uuid \<Rightarrow> evidence list \<Rightarrow> confidence list \<Rightarrow> hypothesis list \<Rightarrow>
    evaluation_service \<Rightarrow> unit result \<times> evaluation_service" where
  "evaluate_page env tenant ev_table scores candidates s =
     evaluate_each env tenant
       (list_evidence_since tenant (Min (set (map hyp_generated_at candidates))) ev_table)
       (get_confidences_for_hypotheses tenant candidates scores) candidates s"

text \<open>\<open>while True\<close>: \<open>None\<close> would be a loop that never ends.\<close>

partial_function (option) evaluate_pages :: "evaluation_env \<Rightarrow> uuid \<Rightarrow> evidence list \<Rightarrow> confidence list \<Rightarrow> nat \<Rightarrow>
    evaluation_service \<Rightarrow> (unit result \<times> evaluation_service) option" where
  "evaluate_pages env tenant ev_table scores offset s =
     (let hs = list_hypotheses (es_batch_size s) offset tenant (es_hypotheses s)
      in if hs = [] then Some (Inr (), s)
         else if filter is_candidate hs = [] then
           evaluate_pages env tenant ev_table scores (offset + es_batch_size s) s
         else case evaluate_page env tenant ev_table scores (filter is_candidate hs) s of
             (Inl x, s1) \<Rightarrow> Some (Inl x, s1)
           | (Inr _, s1) \<Rightarrow> evaluate_pages env tenant ev_table scores (offset + es_batch_size s) s1)"

definition evaluate_tenant :: "evaluation_env \<Rightarrow> evidence list \<Rightarrow> confidence list \<Rightarrow> uuid \<Rightarrow> evaluation_service \<Rightarrow>
    (unit result \<times> evaluation_service) option" where
  "evaluate_tenant env ev_table scores tenant s =
     map_option (\<lambda>(r, s1). (r, case r of Inl _ \<Rightarrow> s1\<lparr>es_errors := es_errors s1 + 1\<rparr> | Inr _ \<Rightarrow> s1))
       (evaluate_pages env tenant ev_table scores 0 s)"

text \<open>\<open>gather(..., return_exceptions=True)\<close>: the outcome of every tenant, in order.\<close>

fun evaluate_tenants :: "evaluation_env \<Rightarrow> evidence list \<Rightarrow> confidence list \<Rightarrow> uuid list \<Rightarrow> evaluation_service \<Rightarrow>
    (unit result list \<times> evaluation_service) option" where
  "evaluate_tenants env ev_table scores [] s = Some ([], s)"
| "evaluate_tenants env ev_table scores (t # ts) s =
     (case evaluate_tenant env ev_table scores t s of
        None \<Rightarrow> None
      | Some (r, s1) \<Rightarrow> map_option (\<lambda>(rs, s2). (r # rs, s2)) (evaluate_tenants env ev_table scores ts s1))"

definition run_evaluation_cycle :: "evaluation_env \<Rightarrow> evidence list \<Rightarrow> confidence list \<Rightarrow> uuid list \<Rightarrow>
    evaluation_service \<Rightarrow> evaluation_service option" where
  "run_evaluation_cycle env ev_table scores tenants s =
     (if tenants = [] then Some (s\<lparr>es_cycles := es_cycles s + 1, es_last_at := Some (en_now env)\<rparr>)
      else map_option (\<lambda>(rs, s1).
             (let failed = length (filter (\<lambda>r. case r of Inl _ \<Rightarrow> True | Inr _ \<Rightarrow> False) rs);
                  s2 = s1\<lparr>es_errors := es_errors s1 + failed, es_cycles := es_cycles s1 + 1\<rparr>
              in if es_errors s2 = 0 \<or> failed < length rs then s2\<lparr>es_last_at := Some (en_now env)\<rparr> else s2))
           (evaluate_tenants env ev_table scores tenants s))"

section \<open>The rule\<close>

definition formal_result :: "nat \<Rightarrow> nat \<Rightarrow> real \<Rightarrow> bool \<Rightarrow> string" where
  "formal_result support contradiction score reliable =
     (if \<not> reliable then ''insufficient'' else if 1 \<le> contradiction then ''falsified''
      else if 2 \<le> support \<and> 3/4 \<le> score then ''confirmed'' else ''insufficient'')"

lemma formal_decision_result:
  "fst (formal_decision m score reliable) = formal_result (support_count m) (contradiction_count m) score reliable"
  by (simp add: formal_decision_def formal_result_def catalogue)

lemma policy_result:
  "ed_result (hypothesis_decision reliable evs conf h) =
     formal_result (ed_support (hypothesis_decision reliable evs conf h)) (ed_contradiction (hypothesis_decision reliable evs conf h))
       (case conf of None \<Rightarrow> 0 | Some c \<Rightarrow> conf_score c) reliable"
proof -
  let ?m = "evaluate_evidence_against_hypothesis h evs" and ?s = "case conf of None \<Rightarrow> 0 | Some c \<Rightarrow> conf_score c"
  show ?thesis using formal_decision_result [of ?m ?s reliable]
    by (cases "formal_decision ?m ?s reliable") (simp add: hypothesis_decision_def apply_evaluation_policy_def Let_def)
qed

lemma policy_counts:
  "ed_support (hypothesis_decision reliable evs conf h) =
     length (filter (\<lambda>p. \<exists>e \<in> set evs. evidence_supports_prediction e p) (hyp_consequences h))"
  "ed_contradiction (hypothesis_decision reliable evs conf h) =
     (if \<exists>e \<in> set evs. evidence_meets_falsification e (hyp_falsification h) then 1 else 0)"
  by (auto simp: hypothesis_decision_def apply_evaluation_policy_def evaluate_evidence_against_hypothesis_def Let_def
      list_ex_iff find_None_iff find_Some_iff split: prod.splits option.splits)

lemma result_cases: "formal_result n c x b \<in> {''confirmed'', ''falsified'', ''insufficient''}"
  by (simp add: formal_result_def)

section \<open>What a cycle changes\<close>

definition promotes :: "hypothesis set \<Rightarrow> hypothesis list \<Rightarrow> hypothesis list \<Rightarrow> bool" where
  "promotes S t t' \<longleftrightarrow> (\<exists>g. t' = map g t \<and> (\<forall>h \<in> set t. g h = h \<or>
     (h \<in> S \<and> is_candidate h \<and> (\<exists>st \<in> {''confirmed'', ''falsified''}. g h = h\<lparr>hyp_status := st\<rparr>))))"

lemma promotes_refl [simp]: "promotes S t t"
  unfolding promotes_def by (intro exI [of _ "\<lambda>h. h"]) simp

lemma promotes_mono: "promotes S t t' \<Longrightarrow> S \<subseteq> S' \<Longrightarrow> promotes S' t t'"
  unfolding promotes_def by blast

lemma promotes_trans:
  assumes "promotes S t t1" and "promotes S' t1 t2" shows "promotes (S \<union> S') t t2"
proof -
  obtain f g where f: "t1 = map f t" "\<And>h. h \<in> set t \<Longrightarrow> f h = h \<or>
      (h \<in> S \<and> is_candidate h \<and> (\<exists>st \<in> {''confirmed'', ''falsified''}. f h = h\<lparr>hyp_status := st\<rparr>))"
    and g: "t2 = map g t1" "\<And>h. h \<in> set t1 \<Longrightarrow> g h = h \<or>
      (h \<in> S' \<and> is_candidate h \<and> (\<exists>st \<in> {''confirmed'', ''falsified''}. g h = h\<lparr>hyp_status := st\<rparr>))"
    using assms unfolding promotes_def by metis
  have "g (f h) = h \<or> (h \<in> S \<union> S' \<and> is_candidate h \<and> (\<exists>st \<in> {''confirmed'', ''falsified''}. g (f h) = h\<lparr>hyp_status := st\<rparr>))"
    if h: "h \<in> set t" for h
    using f(2) [OF h] g(2) [of "f h"] h unfolding f(1) by (auto simp: is_candidate_def)
  then show ?thesis unfolding promotes_def f(1) g(1) by (intro exI [of _ "g \<circ> f"]) simp
qed

lemma promotes_same: "promotes S t t' \<Longrightarrow> map hyp_id t' = map hyp_id t \<and> map hyp_tenant t' = map hyp_tenant t"
  unfolding promotes_def by fastforce

lemma promotes_keeps: "promotes S t t' \<Longrightarrow> h \<in> set t \<Longrightarrow> h \<notin> S \<Longrightarrow> h \<in> set t'"
proof -
  assume p: "promotes S t t'" and h: "h \<in> set t" "h \<notin> S"
  then obtain g where "t' = map g t" "g h = h" unfolding promotes_def by metis
  then show "h \<in> set t'" using h(1) by (metis image_eqI set_map)
qed

lemma sort_key_map:
  "(\<And>x. x \<in> set xs \<Longrightarrow> k (g x) = k x) \<Longrightarrow> sort_key k (map g xs) = map g (sort_key k xs)"
proof (induction xs)
  case (Cons x xs)
  have "insort_key k (g x) (map g ys) = map g (insort_key k x ys)" if "\<forall>y \<in> set (x # ys). k (g y) = k y" for ys
    using that by (induction ys) auto
  then have "insort_key k (g x) (map g (sort_key k xs)) = map g (insort_key k x (sort_key k xs))" using Cons.prems by simp
  moreover have "sort_key k (map g xs) = map g (sort_key k xs)" using Cons.prems by (intro Cons.IH) simp
  ultimately show ?case by simp
qed simp

lemma promotes_listing:
  assumes "promotes S t t'"
  obtains g where "all_hypotheses tenant t' = map g (all_hypotheses tenant t)" and "\<And>h. h \<in> set t \<Longrightarrow> h \<notin> S \<Longrightarrow> g h = h"
proof -
  obtain g where g: "t' = map g t" "\<And>h. h \<in> set t \<Longrightarrow> g h = h \<or>
      (h \<in> S \<and> is_candidate h \<and> (\<exists>st \<in> {''confirmed'', ''falsified''}. g h = h\<lparr>hyp_status := st\<rparr>))"
    using assms unfolding promotes_def by metis
  have same: "hyp_tenant (g h) = hyp_tenant h \<and> hyp_generated_at (g h) = hyp_generated_at h" if "h \<in> set t" for h
    using g(2) [OF that] by auto
  have "filter (\<lambda>h. hyp_tenant h = tenant) (map g t) = map g (filter (\<lambda>h. hyp_tenant h = tenant) t)"
    using same by (auto simp: filter_map o_def cong: filter_cong)
  moreover have "sort_key hyp_generated_at (map g (filter (\<lambda>h. hyp_tenant h = tenant) t)) =
      map g (sort_key hyp_generated_at (filter (\<lambda>h. hyp_tenant h = tenant) t))"
    using same by (intro sort_key_map) simp
  ultimately have "all_hypotheses tenant t' = map g (all_hypotheses tenant t)"
    unfolding all_hypotheses_def g(1) by simp
  then show thesis using g(2) that by blast
qed

lemma create_evaluation_ok:
  "\<exists>e. create_evaluation uuid5 now tenant hyp evids obs (ed_support d) (ed_contradiction d) ci
     (ed_result (hypothesis_decision reliable evs conf h)) rat = Inr e \<and>
     evl_id e = evaluation_id uuid5 tenant hyp evids (ed_result (hypothesis_decision reliable evs conf h))"
  using result_cases unfolding policy_result
  by (simp add: create_evaluation_def validate_result_def EVALUATION_RESULTS_def build_evaluation_def)

lemma set_status_promotes:
  assumes "distinct (map hyp_id t)" and "h \<in> set t" and "is_candidate h" and "st \<in> {''confirmed'', ''falsified''}"
  shows "promotes {h} t (map (set_hypothesis_status tenant (hyp_id h) st) t)"
proof -
  have "h' = h" if "h' \<in> set t" "hyp_id h' = hyp_id h" for h'
    using assms(1,2) that by (auto simp: distinct_map dest: inj_onD)
  then show ?thesis unfolding promotes_def
    by (intro exI [of _ "set_hypothesis_status tenant (hyp_id h) st"]) (use assms(3,4) in \<open>auto simp: set_hypothesis_status_def\<close>)
qed

text \<open>The settings of the service and the owners of the rows, which no step changes.\<close>

definition fixed_part :: "evaluation_service \<Rightarrow> nat \<times> bool \<times> uuid list" where
  "fixed_part s = (es_batch_size s, es_reliable s, map hyp_tenant (es_hypotheses s))"

definition handled :: "evaluation_service \<Rightarrow> nat" where
  "handled s = es_total s + es_duplicates s"

definition healthy :: "evaluation_env \<Rightarrow> bool" where
  "healthy env \<longleftrightarrow> (\<forall>e. en_accepts env e) \<and> (\<forall>i. en_updates env i)"

lemma promote_effect:
  assumes "promote env tenant hyp st s = (r, s1)" and "st \<in> {''confirmed'', ''falsified''}"
  shows "fixed_part s1 = fixed_part s" and "handled s1 = handled s"
    and "es_hypotheses s1 = es_hypotheses s \<or> es_hypotheses s1 = map (set_hypothesis_status tenant hyp st) (es_hypotheses s)"
    and "healthy env \<Longrightarrow> r = Inr ()"
  using assms by (auto simp: promote_def update_hypothesis_status_def fixed_part_def handled_def healthy_def
      set_hypothesis_status_def Let_def split: if_splits prod.splits)

lemma evaluate_one_effect:
  assumes "evaluate_one env tenant evs confs h s = (r, s1)"
  shows "fixed_part s1 = fixed_part s"
    and "es_hypotheses s1 = es_hypotheses s \<or> (es_reliable s \<and> (\<exists>st \<in> {''confirmed'', ''falsified''}.
       es_hypotheses s1 = map (set_hypothesis_status tenant (hyp_id h) st) (es_hypotheses s)))"
    and "healthy env \<Longrightarrow> r = Inr () \<and> handled s1 = Suc (handled s)"
proof -
  let ?c = "map_of confs (hyp_id h)"
  let ?d = "hypothesis_decision (es_reliable s) evs ?c h"
  obtain e where e: "create_evaluation (en_uuid5 env) (en_now env) tenant (hyp_id h) (map ev_id evs) (map observed_outcome evs)
      (ed_support ?d) (ed_contradiction ?d) (map_option conf_id ?c) (ed_result ?d) (render (en_fmt env) (ed_rationale ?d)) = Inr e"
    using create_evaluation_ok by metis
  have rel: "es_reliable s" if "ed_result ?d \<in> {''confirmed'', ''falsified''}"
    using that unfolding policy_result by (auto simp: formal_result_def split: if_splits)
  consider "(r, s1) = (Inl (PassedThrough ''database''), s)" "\<not> en_accepts env e"
    | "(r, s1) = (Inr (), s\<lparr>es_duplicates := es_duplicates s + 1\<rparr>)"
    | st s2 where "st = ed_result ?d" "st \<in> {''confirmed'', ''falsified''}" "promote env tenant (hyp_id h) st s2 = (r, s1)"
        "fixed_part s2 = fixed_part s" "handled s2 = Suc (handled s)" "es_hypotheses s2 = es_hypotheses s"
    | "r = Inr ()" "fixed_part s1 = fixed_part s" "handled s1 = Suc (handled s)" "es_hypotheses s1 = es_hypotheses s"
  proof (cases "en_accepts env e \<and> evl_id e \<notin> evl_id ` set (es_evaluations s)")
    case False
    then show ?thesis using assms that(1,2) by (auto simp: evaluate_one_def insert_row_def Let_def e split: if_splits)
  next
    case True
    define s2 where "s2 = s\<lparr>es_evaluations := es_evaluations s @ [e], es_total := es_total s + 1,
      es_by_result := (es_by_result s)(ed_result ?d := es_by_result s (ed_result ?d) + 1)\<rparr>"
    have s2: "fixed_part s2 = fixed_part s" "handled s2 = Suc (handled s)" "es_hypotheses s2 = es_hypotheses s"
      by (simp_all add: s2_def fixed_part_def handled_def)
    have run: "evaluate_one env tenant evs confs h s =
        (if ed_result ?d = ''confirmed'' then promote env tenant (hyp_id h) ''confirmed'' (s2\<lparr>es_confirmed := es_confirmed s + 1\<rparr>)
         else if ed_result ?d = ''falsified'' then promote env tenant (hyp_id h) ''falsified'' (s2\<lparr>es_falsified := es_falsified s + 1\<rparr>)
         else (Inr (), s2\<lparr>es_insufficient := es_insufficient s + 1\<rparr>))"
      using True by (simp add: evaluate_one_def insert_row_def Let_def e s2_def)
    show ?thesis
    proof (cases "ed_result ?d \<in> {''confirmed'', ''falsified''}")
      case True
      then obtain s3 where "promote env tenant (hyp_id h) (ed_result ?d) s3 = (r, s1)"
          "fixed_part s3 = fixed_part s2 \<and> handled s3 = handled s2 \<and> es_hypotheses s3 = es_hypotheses s2"
        using run assms by (auto simp: fixed_part_def handled_def)
      then show ?thesis using that(3) True s2 by metis
    next
      case False
      then have "r = Inr ()" "s1 = s2\<lparr>es_insufficient := es_insufficient s + 1\<rparr>" using run assms by auto
      then show ?thesis using that(4) s2 by (simp add: fixed_part_def handled_def)
    qed
  qed
  note cases = this
  show "fixed_part s1 = fixed_part s"
    by (cases rule: cases) (auto simp: fixed_part_def dest: promote_effect(1))
  show "es_hypotheses s1 = es_hypotheses s \<or> (es_reliable s \<and> (\<exists>st \<in> {''confirmed'', ''falsified''}.
       es_hypotheses s1 = map (set_hypothesis_status tenant (hyp_id h) st) (es_hypotheses s)))"
    by (cases rule: cases) (use rel in \<open>auto dest!: promote_effect(3)\<close>)
  show "r = Inr () \<and> handled s1 = Suc (handled s)" if "healthy env"
    by (cases rule: cases) (use that in \<open>auto simp: handled_def healthy_def dest: promote_effect(2,4)\<close>)
qed

lemma evaluate_each_effect:
  assumes "evaluate_each env tenant evs confs hs s = (r, s1)"
  shows "fixed_part s1 = fixed_part s \<and> (\<not> es_reliable s \<longrightarrow> es_hypotheses s1 = es_hypotheses s) \<and>
    (healthy env \<longrightarrow> r = Inr () \<and> handled s1 = handled s + length hs)"
  using assms
proof (induction hs arbitrary: s)
  case (Cons h hs)
  obtain r0 s0 where one: "evaluate_one env tenant evs confs h s = (r0, s0)" by (cases "evaluate_one env tenant evs confs h s")
  note o = evaluate_one_effect [OF one]
  have same: "es_reliable s0 = es_reliable s" using o(1) by (simp add: fixed_part_def)
  show ?case
  proof (cases r0)
    case (Inl x)
    then show ?thesis using Cons.prems one o by auto
  next
    case (Inr u)
    then have "evaluate_each env tenant evs confs hs s0 = (r, s1)" using Cons.prems one by simp
    from Cons.IH [OF this] show ?thesis using o same by auto
  qed
qed simp

lemma evaluate_each_promotes:
  assumes "evaluate_each env tenant evs confs hs s = (r, s1)" and "distinct (map hyp_id (es_hypotheses s))"
    and "set hs \<subseteq> set (es_hypotheses s)" and "distinct hs" and "list_all is_candidate hs"
  shows "promotes (set hs) (es_hypotheses s) (es_hypotheses s1)"
  using assms
proof (induction hs arbitrary: s)
  case (Cons h hs)
  obtain r0 s0 where one: "evaluate_one env tenant evs confs h s = (r0, s0)" by (cases "evaluate_one env tenant evs confs h s")
  have p: "promotes {h} (es_hypotheses s) (es_hypotheses s0)"
    using evaluate_one_effect(2) [OF one] set_status_promotes [OF Cons.prems(2), of h _ tenant] Cons.prems(3,5) by auto
  show ?case
  proof (cases r0)
    case (Inl x)
    then show ?thesis using Cons.prems(1) one promotes_mono [OF p] by auto
  next
    case (Inr u)
    then have rest: "evaluate_each env tenant evs confs hs s0 = (r, s1)" using Cons.prems(1) one by simp
    have "promotes (set hs) (es_hypotheses s0) (es_hypotheses s1)"
      using Cons.prems promotes_same [OF p] promotes_keeps [OF p] by (intro Cons.IH [OF rest]) auto
    from promotes_trans [OF p this] show ?thesis by simp
  qed
qed simp

lemma fixed_listing:
  assumes "fixed_part s1 = fixed_part s"
  shows "length (all_hypotheses tenant (es_hypotheses s1)) = length (all_hypotheses tenant (es_hypotheses s))"
proof -
  have l: "length (all_hypotheses tenant t) = length (filter (\<lambda>x. x = tenant) (map hyp_tenant t))" for t
    by (simp add: all_hypotheses_def filter_map o_def)
  have "map hyp_tenant (es_hypotheses s1) = map hyp_tenant (es_hypotheses s)" using assms by (simp add: fixed_part_def)
  then show ?thesis unfolding l by (simp only:)
qed

lemma listing_mem: "h \<in> set (all_hypotheses tenant t) \<longleftrightarrow> h \<in> set t \<and> hyp_tenant h = tenant"
  by (auto simp: all_hypotheses_def)

lemma listing_distinct: "distinct (map hyp_id t) \<Longrightarrow> distinct (all_hypotheses tenant t)"
  by (simp add: all_hypotheses_def distinct_map)

text \<open>One turn of the loop, for a page that is not empty.\<close>

definition page_step :: "evaluation_env \<Rightarrow> uuid \<Rightarrow> evidence list \<Rightarrow> confidence list \<Rightarrow> hypothesis list \<Rightarrow>
    evaluation_service \<Rightarrow> unit result \<times> evaluation_service" where
  "page_step env tenant ev_table scores hs s =
     (if filter is_candidate hs = [] then (Inr (), s)
      else evaluate_page env tenant ev_table scores (filter is_candidate hs) s)"

lemma evaluate_pages_step:
  "evaluate_pages env tenant ev_table scores offset s =
     (let hs = list_hypotheses (es_batch_size s) offset tenant (es_hypotheses s)
      in if hs = [] then Some (Inr (), s)
         else case page_step env tenant ev_table scores hs s of
             (Inl x, s1) \<Rightarrow> Some (Inl x, s1)
           | (Inr _, s1) \<Rightarrow> evaluate_pages env tenant ev_table scores (offset + es_batch_size s) s1)"
  by (subst evaluate_pages.simps) (simp add: page_step_def Let_def)

lemma page_step_effect:
  assumes "page_step env tenant ev_table scores hs s = (r, s1)"
  shows "fixed_part s1 = fixed_part s" and "\<not> es_reliable s \<Longrightarrow> es_hypotheses s1 = es_hypotheses s"
    and "healthy env \<Longrightarrow> r = Inr () \<and> handled s1 = handled s + length (filter is_candidate hs)"
  using assms evaluate_each_effect by (auto simp: page_step_def evaluate_page_def split: if_splits)

lemma page_step_promotes:
  assumes "page_step env tenant ev_table scores hs s = (r, s1)" and "distinct (map hyp_id (es_hypotheses s))"
    and "set hs \<subseteq> set (es_hypotheses s)" and "distinct hs"
  shows "promotes (set hs) (es_hypotheses s) (es_hypotheses s1)"
proof (cases "filter is_candidate hs = []")
  case False
  then have e: "evaluate_each env tenant
      (list_evidence_since tenant (Min (set (map hyp_generated_at (filter is_candidate hs)))) ev_table)
      (get_confidences_for_hypotheses tenant (filter is_candidate hs) scores) (filter is_candidate hs) s = (r, s1)"
    using assms(1) by (simp add: page_step_def evaluate_page_def)
  have "promotes (set (filter is_candidate hs)) (es_hypotheses s) (es_hypotheses s1)"
    by (rule evaluate_each_promotes [OF e assms(2)]) (use assms(3,4) in \<open>auto simp: list_all_iff\<close>)
  then show ?thesis by (rule promotes_mono) auto
qed (use assms(1) in \<open>simp add: page_step_def\<close>)

lemma evaluate_pages_returns:
  "\<exists>r s1. evaluate_pages env tenant ev_table scores offset s = Some (r, s1) \<and> fixed_part s1 = fixed_part s \<and>
     (\<not> es_reliable s \<longrightarrow> es_hypotheses s1 = es_hypotheses s) \<and> (healthy env \<longrightarrow> r = Inr ())"
proof (induction "length (all_hypotheses tenant (es_hypotheses s)) - offset" arbitrary: s offset rule: less_induct)
  case less
  let ?hs = "list_hypotheses (es_batch_size s) offset tenant (es_hypotheses s)"
  show ?case
  proof (cases "?hs = []")
    case False
    obtain r s1 where step: "page_step env tenant ev_table scores ?hs s = (r, s1)" by (cases "page_step env tenant ev_table scores ?hs s")
    note e = page_step_effect [OF step]
    show ?thesis
    proof (cases r)
      case (Inl x)
      then show ?thesis using e step False by (subst evaluate_pages_step) auto
    next
      case (Inr u)
      have "length (all_hypotheses tenant (es_hypotheses s1)) - (offset + es_batch_size s) <
          length (all_hypotheses tenant (es_hypotheses s)) - offset"
        using False unfolding fixed_listing [OF e(1)] by (auto simp: list_hypotheses_def)
      from less.hyps [OF this] show ?thesis
        using e step False Inr by (subst evaluate_pages_step) (auto simp: fixed_part_def)
    qed
  qed (subst evaluate_pages_step, simp)
qed

lemma pages_disjoint: "distinct xs \<Longrightarrow> set (take n (drop k xs)) \<inter> set (drop (k + n) xs) = {}"
proof -
  assume "distinct xs"
  then have "distinct (drop k xs)" by (rule distinct_drop)
  moreover have "drop k xs = take n (drop k xs) @ drop (k + n) xs"
    using append_take_drop_id [of n "drop k xs"] by (simp add: add.commute)
  ultimately show ?thesis by (metis distinct_append)
qed

lemma evaluate_pages_promotes:
  assumes "evaluate_pages env tenant ev_table scores offset s = Some (r, s1)" and "distinct (map hyp_id (es_hypotheses s))"
  shows "promotes {h. hyp_tenant h = tenant} (es_hypotheses s) (es_hypotheses s1) \<and>
    (healthy env \<and> 0 < es_batch_size s \<longrightarrow>
       handled s1 = handled s + length (filter is_candidate (drop offset (all_hypotheses tenant (es_hypotheses s)))))"
  using assms
proof (induction "length (all_hypotheses tenant (es_hypotheses s)) - offset" arbitrary: s offset rule: less_induct)
  case less
  let ?all = "all_hypotheses tenant (es_hypotheses s)" and ?n = "es_batch_size s"
  let ?hs = "list_hypotheses ?n offset tenant (es_hypotheses s)"
  have page: "?hs = take ?n (drop offset ?all)" by (simp add: list_hypotheses_def)
  show ?case
  proof (cases "?hs = []")
    case True
    then show ?thesis using less.prems(1) by (subst (asm) evaluate_pages_step) (auto simp: page)
  next
    case False
    obtain r0 s0 where step: "page_step env tenant ev_table scores ?hs s = (r0, s0)" by (cases "page_step env tenant ev_table scores ?hs s")
    note e = page_step_effect [OF step]
    have d: "distinct ?all" by (rule listing_distinct [OF less.prems(2)])
    have sub: "set ?hs \<subseteq> {h. h \<in> set (es_hypotheses s) \<and> hyp_tenant h = tenant}"
      unfolding page using listing_mem [of _ tenant "es_hypotheses s"] by (auto dest: in_set_takeD in_set_dropD)
    have p: "promotes (set ?hs) (es_hypotheses s) (es_hypotheses s0)"
      by (rule page_step_promotes [OF step less.prems(2)]) (use sub d in \<open>auto simp: page\<close>)
    have p': "promotes {h. hyp_tenant h = tenant} (es_hypotheses s) (es_hypotheses s0)"
      by (rule promotes_mono [OF p]) (use sub in auto)
    show ?thesis
    proof (cases r0)
      case (Inl x)
      then have "s1 = s0" using less.prems(1) step False by (subst (asm) evaluate_pages_step) auto
      then show ?thesis using p' e(3) Inl by auto
    next
      case (Inr u)
      have n: "es_batch_size s0 = ?n" using e(1) by (simp add: fixed_part_def)
      have rest: "evaluate_pages env tenant ev_table scores (offset + ?n) s0 = Some (r, s1)"
        using less.prems(1) step False Inr by (subst (asm) evaluate_pages_step) auto
      have "length (all_hypotheses tenant (es_hypotheses s0)) - (offset + ?n) < length ?all - offset"
        using False unfolding fixed_listing [OF e(1)] by (auto simp: list_hypotheses_def)
      from less.hyps [OF this rest] have ih: "promotes {h. hyp_tenant h = tenant} (es_hypotheses s0) (es_hypotheses s1)"
          "healthy env \<and> 0 < ?n \<longrightarrow> handled s1 = handled s0 +
             length (filter is_candidate (drop (offset + ?n) (all_hypotheses tenant (es_hypotheses s0))))"
        using less.prems(2) promotes_same [OF p] n by simp_all
      obtain g where g: "all_hypotheses tenant (es_hypotheses s0) = map g ?all"
          "\<And>h. h \<in> set (es_hypotheses s) \<Longrightarrow> h \<notin> set ?hs \<Longrightarrow> g h = h"
        by (rule promotes_listing [OF p, of tenant]) (rule that, assumption+)
      have "set ?hs \<inter> set (drop (offset + ?n) ?all) = {}" unfolding page by (rule pages_disjoint [OF d])
      then have "map g (drop (offset + ?n) ?all) = drop (offset + ?n) ?all"
        using g(2) listing_mem [of _ tenant "es_hypotheses s"] by (intro map_idI) (auto dest: in_set_dropD)
      then have later: "drop (offset + ?n) (all_hypotheses tenant (es_hypotheses s0)) = drop (offset + ?n) ?all"
        unfolding g(1) by (simp add: drop_map)
      have "filter is_candidate (drop offset ?all) = filter is_candidate ?hs @ filter is_candidate (drop (offset + ?n) ?all)"
        using append_take_drop_id [of ?n "drop offset ?all"] unfolding page by (metis add.commute drop_drop filter_append)
      then show ?thesis using promotes_trans [OF p' ih(1)] ih(2) e(3) unfolding later by auto
    qed
  qed
qed

definition open_hypotheses :: "uuid list \<Rightarrow> hypothesis list \<Rightarrow> hypothesis list" where
  "open_hypotheses tenants t = filter (\<lambda>h. is_candidate h \<and> hyp_tenant h \<in> set tenants) t"

lemma open_of_tenant: "length (filter is_candidate (all_hypotheses tenant t)) = length (open_hypotheses [tenant] t)"
  by (simp add: all_hypotheses_def open_hypotheses_def filter_sort conj_commute)

lemma open_split: "tenant \<notin> set ts \<Longrightarrow>
    length (open_hypotheses (tenant # ts) t) = length (open_hypotheses [tenant] t) + length (open_hypotheses ts t)"
  unfolding open_hypotheses_def by (induction t) auto

lemma open_elsewhere:
  assumes "promotes {h. hyp_tenant h = tenant} t t'" and "tenant \<notin> set ts"
  shows "length (open_hypotheses ts t') = length (open_hypotheses ts t)"
proof -
  obtain g where g: "t' = map g t" "\<And>h. h \<in> set t \<Longrightarrow> g h = h \<or>
      (hyp_tenant h = tenant \<and> is_candidate h \<and> (\<exists>st \<in> {''confirmed'', ''falsified''}. g h = h\<lparr>hyp_status := st\<rparr>))"
    using assms(1) unfolding promotes_def mem_Collect_eq by metis
  have "(is_candidate (g h) \<and> hyp_tenant (g h) \<in> set ts) = (is_candidate h \<and> hyp_tenant h \<in> set ts)" if "h \<in> set t" for h
    using g(2) [OF that] assms(2) by auto
  then show ?thesis unfolding open_hypotheses_def g(1) by (simp add: filter_map o_def cong: filter_cong)
qed

lemma evaluate_tenant_returns:
  "\<exists>r s1. evaluate_tenant env ev_table scores tenant s = Some (r, s1) \<and> fixed_part s1 = fixed_part s \<and>
     (\<not> es_reliable s \<longrightarrow> es_hypotheses s1 = es_hypotheses s) \<and>
     (distinct (map hyp_id (es_hypotheses s)) \<longrightarrow>
       promotes {h. hyp_tenant h = tenant} (es_hypotheses s) (es_hypotheses s1) \<and>
       (healthy env \<and> 0 < es_batch_size s \<longrightarrow> handled s1 = handled s + length (open_hypotheses [tenant] (es_hypotheses s))))"
proof -
  obtain r s0 where e: "evaluate_pages env tenant ev_table scores 0 s = Some (r, s0)" "fixed_part s0 = fixed_part s"
      "\<not> es_reliable s \<longrightarrow> es_hypotheses s0 = es_hypotheses s" "healthy env \<longrightarrow> r = Inr ()"
    using evaluate_pages_returns by blast
  show ?thesis
    by (intro exI [of _ r] exI [of _ "case r of Inl _ \<Rightarrow> s0\<lparr>es_errors := es_errors s0 + 1\<rparr> | Inr _ \<Rightarrow> s0"])
       (use e evaluate_pages_promotes [OF e(1)] in
         \<open>auto simp: evaluate_tenant_def fixed_part_def handled_def open_of_tenant split: sum.splits\<close>)
qed

lemma evaluate_tenants_return:
  "\<exists>rs s1. evaluate_tenants env ev_table scores ts s = Some (rs, s1) \<and> length rs = length ts \<and>
     (\<not> es_reliable s \<longrightarrow> es_hypotheses s1 = es_hypotheses s) \<and>
     (distinct (map hyp_id (es_hypotheses s)) \<longrightarrow>
        promotes {h. hyp_tenant h \<in> set ts} (es_hypotheses s) (es_hypotheses s1) \<and>
        (healthy env \<and> 0 < es_batch_size s \<and> distinct ts \<longrightarrow>
           handled s1 = handled s + length (open_hypotheses ts (es_hypotheses s))))"
proof (induction ts arbitrary: s)
  case Nil
  show ?case by (simp add: open_hypotheses_def)
next
  case (Cons t ts)
  obtain r s1 where one: "evaluate_tenant env ev_table scores t s = Some (r, s1)" "fixed_part s1 = fixed_part s"
    "\<not> es_reliable s \<longrightarrow> es_hypotheses s1 = es_hypotheses s"
    "distinct (map hyp_id (es_hypotheses s)) \<longrightarrow>
       promotes {h. hyp_tenant h = t} (es_hypotheses s) (es_hypotheses s1) \<and>
       (healthy env \<and> 0 < es_batch_size s \<longrightarrow> handled s1 = handled s + length (open_hypotheses [t] (es_hypotheses s)))"
    using evaluate_tenant_returns by blast
  obtain rs s2 where rest: "evaluate_tenants env ev_table scores ts s1 = Some (rs, s2)" "length rs = length ts"
    "\<not> es_reliable s1 \<longrightarrow> es_hypotheses s2 = es_hypotheses s1"
    "distinct (map hyp_id (es_hypotheses s1)) \<longrightarrow>
        promotes {h. hyp_tenant h \<in> set ts} (es_hypotheses s1) (es_hypotheses s2) \<and>
        (healthy env \<and> 0 < es_batch_size s1 \<and> distinct ts \<longrightarrow>
           handled s2 = handled s1 + length (open_hypotheses ts (es_hypotheses s1)))"
    using Cons.IH by blast
  have same: "es_reliable s1 = es_reliable s" "es_batch_size s1 = es_batch_size s" using one(2) by (simp_all add: fixed_part_def)
  have "promotes {h. hyp_tenant h \<in> set (t # ts)} (es_hypotheses s) (es_hypotheses s2) \<and>
      (healthy env \<and> 0 < es_batch_size s \<and> distinct (t # ts) \<longrightarrow>
         handled s2 = handled s + length (open_hypotheses (t # ts) (es_hypotheses s)))"
    if d: "distinct (map hyp_id (es_hypotheses s))"
  proof -
    note p = mp [OF one(4) d]
    have d1: "distinct (map hyp_id (es_hypotheses s1))" using promotes_same [OF conjunct1 [OF p]] d by simp
    have "promotes ({h. hyp_tenant h = t} \<union> {h. hyp_tenant h \<in> set ts}) (es_hypotheses s) (es_hypotheses s2)"
      using promotes_trans p rest(4) d1 by blast
    then have "promotes {h. hyp_tenant h \<in> set (t # ts)} (es_hypotheses s) (es_hypotheses s2)"
      by (rule promotes_mono) auto
    moreover have "handled s2 = handled s + length (open_hypotheses (t # ts) (es_hypotheses s))"
      if h: "healthy env \<and> 0 < es_batch_size s \<and> distinct (t # ts)"
    proof -
      have "handled s2 = handled s1 + length (open_hypotheses ts (es_hypotheses s1))"
        using h rest(4) d1 unfolding same by simp
      moreover have "handled s1 = handled s + length (open_hypotheses [t] (es_hypotheses s))" using h p by simp
      moreover have "length (open_hypotheses ts (es_hypotheses s1)) = length (open_hypotheses ts (es_hypotheses s))"
        using h by (intro open_elsewhere [OF conjunct1 [OF p]]) simp
      ultimately show ?thesis using h by (simp add: open_split [of t ts])
    qed
    ultimately show ?thesis by blast
  qed
  moreover have "evaluate_tenants env ev_table scores (t # ts) s = Some (r # rs, s2)" using one(1) rest(1) by simp
  moreover have "\<not> es_reliable s \<longrightarrow> es_hypotheses s2 = es_hypotheses s" using one(3) rest(3) same by simp
  moreover have "length (r # rs) = length (t # ts)" using rest(2) by simp
  ultimately show ?case by blast
qed

lemma cycle_shape:
  "\<exists>s'. run_evaluation_cycle env ev_table scores tenants s = Some s' \<and>
     (\<not> es_reliable s \<longrightarrow> es_hypotheses s' = es_hypotheses s) \<and>
     (distinct (map hyp_id (es_hypotheses s)) \<longrightarrow>
        promotes {h. hyp_tenant h \<in> set tenants} (es_hypotheses s) (es_hypotheses s') \<and>
        (healthy env \<and> 0 < es_batch_size s \<and> distinct tenants \<longrightarrow>
           handled s' = handled s + length (open_hypotheses tenants (es_hypotheses s))))"
proof (cases "tenants = []")
  case True
  then show ?thesis by (simp add: run_evaluation_cycle_def handled_def open_hypotheses_def)
next
  case False
  obtain rs s1 where e: "evaluate_tenants env ev_table scores tenants s = Some (rs, s1)"
     "\<not> es_reliable s \<longrightarrow> es_hypotheses s1 = es_hypotheses s"
     "distinct (map hyp_id (es_hypotheses s)) \<longrightarrow>
        promotes {h. hyp_tenant h \<in> set tenants} (es_hypotheses s) (es_hypotheses s1) \<and>
        (healthy env \<and> 0 < es_batch_size s \<and> distinct tenants \<longrightarrow>
           handled s1 = handled s + length (open_hypotheses tenants (es_hypotheses s)))"
    using evaluate_tenants_return by blast
  have "\<exists>s'. run_evaluation_cycle env ev_table scores tenants s = Some s' \<and> es_hypotheses s' = es_hypotheses s1 \<and> handled s' = handled s1"
    using False e(1) by (simp add: run_evaluation_cycle_def handled_def Let_def)
  then obtain s' where s': "run_evaluation_cycle env ev_table scores tenants s = Some s'"
      "es_hypotheses s' = es_hypotheses s1" "handled s' = handled s1" by blast
  show ?thesis by (intro exI [of _ s']) (use e(2,3) s' in \<open>simp only: s'(2,3) simp_thms\<close>)
qed

lemma promotes_rows:
  assumes "promotes S t t'"
  shows "list_all2 (\<lambda>h h'. h' = h \<or> (h \<in> S \<and> is_candidate h \<and>
     (\<exists>st \<in> {''confirmed'', ''falsified''}. h' = h\<lparr>hyp_status := st\<rparr>))) t t'" (is "list_all2 ?P t t'")
proof -
  obtain g where "t' = map g t" "\<forall>h \<in> set t. ?P h (g h)" using assms unfolding promotes_def by blast
  then show ?thesis by (simp add: list_all2_conv_all_nth)
qed

section \<open>Properties\<close>

text \<open>
  C9. The verdict is evidence first: a hypothesis is confirmed exactly when the evidence basis is reliable, no
  evidence meets its falsification criterion, at least two of its predictions are corroborated and the
  confidence reaches 0.75; it is falsified exactly when the basis is reliable and some evidence meets the
  criterion, whatever the confidence; in every other case the verdict is "insufficient".
\<close>

theorem evaluation_rule:
  "let d = apply_evaluation_policy \<lparr>ei_hypothesis = h, ei_evidence = evs, ei_confidence = conf, ei_reliable = reliable\<rparr>;
       met = (\<exists>e \<in> set evs. evidence_meets_falsification e (hyp_falsification h));
       sup = length (filter (\<lambda>p. \<exists>e \<in> set evs. evidence_supports_prediction e p) (hyp_consequences h));
       score = (case conf of None \<Rightarrow> 0 | Some c \<Rightarrow> conf_score c)
   in (ed_result d = ''confirmed'' \<longleftrightarrow> reliable \<and> \<not> met \<and> 2 \<le> sup \<and> 3/4 \<le> score) \<and>
      (ed_result d = ''falsified'' \<longleftrightarrow> reliable \<and> met) \<and>
      ed_result d \<in> {''confirmed'', ''falsified'', ''insufficient''} \<and> ed_support d = sup"
  using policy_result [of reliable evs conf h] policy_counts [of reliable evs conf h]
  by (simp add: hypothesis_decision_def formal_result_def Let_def split: if_splits)

text \<open>
  C10. The status of a hypothesis follows its lifecycle: an evaluation cycle changes no other column, and the
  status only of candidates of the tenants it visits, to "confirmed" or "falsified", so a terminal status
  never changes; with the heuristic evidence basis the service is deployed with, it changes nothing.
\<close>

theorem hypothesis_lifecycle:
  assumes "distinct (map hyp_id (es_hypotheses s))" and "run_evaluation_cycle env ev_table scores tenants s = Some s'"
  shows "list_all2 (\<lambda>h h'. h' = h \<or> (hyp_tenant h \<in> set tenants \<and> is_candidate h \<and>
       (\<exists>st \<in> {''confirmed'', ''falsified''}. h' = h\<lparr>hyp_status := st\<rparr>))) (es_hypotheses s) (es_hypotheses s') \<and>
     (\<not> es_reliable s \<longrightarrow> es_hypotheses s' = es_hypotheses s)"
proof -
  have c: "promotes {h. hyp_tenant h \<in> set tenants} (es_hypotheses s) (es_hypotheses s')"
      "\<not> es_reliable s \<longrightarrow> es_hypotheses s' = es_hypotheses s"
    using cycle_shape [of env ev_table scores tenants s] assms by simp_all
  show ?thesis using promotes_rows [OF c(1)] c(2) unfolding mem_Collect_eq by blast
qed


text \<open>
  A verdict whose status update fails is lost: the evaluation row has been committed, so when the same
  verdict is reached again on the same evidence it is taken for a duplicate, and the hypothesis stays a
  candidate even though the database now accepts everything.
\<close>

theorem lost_promotion:
  assumes "hypothesis_decision (es_reliable s) evs (map_of confs (hyp_id h)) h = d" and "ed_result d \<in> {''confirmed'', ''falsified''}"
    and "\<forall>e. en_accepts env e" and "\<not> en_updates env (hyp_id h)"
    and "evaluation_id (en_uuid5 env) tenant (hyp_id h) (map ev_id evs) (ed_result d) \<notin> evl_id ` set (es_evaluations s)"
    and "healthy env'" and "en_uuid5 env' = en_uuid5 env"
    and "evaluate_one env tenant evs confs h s = (r, s1)"
  shows "r = Inl (PassedThrough ''database'') \<and> (\<exists>s2. evaluate_one env' tenant evs confs h s1 = (Inr (), s2) \<and>
       es_hypotheses s2 = es_hypotheses s \<and> es_duplicates s2 = es_duplicates s + 1)"
proof -
  have d: "apply_evaluation_policy \<lparr>ei_hypothesis = h, ei_evidence = evs, ei_confidence = map_of confs (hyp_id h),
      ei_reliable = es_reliable s\<rparr> = d"
    using assms(1) by (simp add: hypothesis_decision_def)
  have row: "\<exists>e. create_evaluation (en_uuid5 env) now tenant (hyp_id h) (map ev_id evs) obs (ed_support d) (ed_contradiction d) ci
      (ed_result d) rat = Inr e \<and> evl_id e = evaluation_id (en_uuid5 env) tenant (hyp_id h) (map ev_id evs) (ed_result d)"
    for now obs ci rat
    using create_evaluation_ok [where d = d and reliable = "es_reliable s" and evs = evs and conf = "map_of confs (hyp_id h)" and h = h]
    unfolding assms(1) by blast
  obtain e where e: "create_evaluation (en_uuid5 env) (en_now env) tenant (hyp_id h) (map ev_id evs) (map observed_outcome evs)
      (ed_support d) (ed_contradiction d) (map_option conf_id (map_of confs (hyp_id h))) (ed_result d)
      (render (en_fmt env) (ed_rationale d)) = Inr e"
      "evl_id e = evaluation_id (en_uuid5 env) tenant (hyp_id h) (map ev_id evs) (ed_result d)"
    using row by blast
  have first: "r = Inl (PassedThrough ''database'')" "es_hypotheses s1 = es_hypotheses s" "es_duplicates s1 = es_duplicates s"
      "es_reliable s1 = es_reliable s" "e \<in> set (es_evaluations s1)"
  proof -
    have "\<exists>s2. evaluate_one env tenant evs confs h s = (Inl (PassedThrough ''database''), s2) \<and> es_hypotheses s2 = es_hypotheses s \<and>
        es_duplicates s2 = es_duplicates s \<and> es_reliable s2 = es_reliable s \<and> e \<in> set (es_evaluations s2)"
      using assms(2-5) e by (simp add: evaluate_one_def assms(1) Let_def insert_row_def promote_def) blast
    then show "r = Inl (PassedThrough ''database'')" "es_hypotheses s1 = es_hypotheses s" "es_duplicates s1 = es_duplicates s"
        "es_reliable s1 = es_reliable s" "e \<in> set (es_evaluations s1)"
      using assms(8) by simp_all
  qed
  obtain e' where e': "create_evaluation (en_uuid5 env) (en_now env') tenant (hyp_id h) (map ev_id evs) (map observed_outcome evs)
      (ed_support d) (ed_contradiction d) (map_option conf_id (map_of confs (hyp_id h))) (ed_result d)
      (render (en_fmt env') (ed_rationale d)) = Inr e'"
      "evl_id e' = evaluation_id (en_uuid5 env) tenant (hyp_id h) (map ev_id evs) (ed_result d)"
    using row by blast
  have "evl_id e' \<in> evl_id ` set (es_evaluations s1)" using e(2) e'(2) first(5) by (metis imageI)
  then have "evaluate_one env' tenant evs confs h s1 =
      (Inr (), s1\<lparr>es_evaluations := es_evaluations s1, es_duplicates := es_duplicates s1 + 1\<rparr>)"
    using assms(6,7) e'(1) by (simp add: evaluate_one_def first(4) assms(1) Let_def insert_row_def healthy_def)
  then show ?thesis using first by simp
qed

section \<open>Instances\<close>

definition ex_open :: hypothesis where
  "ex_open = \<lparr>hyp_id = 5, hyp_tenant = 7, hyp_anomaly_ids = [], hyp_pattern_ids = [], hyp_description = ''full'',
     hyp_consequences = [''disk''], hyp_falsification = ''space freed'', hyp_coherence = 1/2, hyp_status = ''candidate'',
     hyp_generated_at = 0\<rparr>"

definition ex_freed :: evidence where
  "ex_freed = \<lparr>ev_id = 8, ev_tenant = 7, ev_observation_ids = [], ev_type = ''resource'', ev_description = ''space freed'',
     ev_quality = Q1, ev_weight = 1, ev_organized_at = 3\<rparr>"

definition ex_evaluation_env :: evaluation_env where
  "ex_evaluation_env = \<lparr>en_uuid5 = \<lambda>_ _. 11, en_fmt = \<lambda>_. [], en_now = 9, en_accepts = \<lambda>_. True, en_updates = \<lambda>_. True\<rparr>"

definition ex_evaluations :: evaluation_service where
  "ex_evaluations = \<lparr>es_hypotheses = [ex_open], es_evaluations = [], es_batch_size = 1, es_reliable = True, es_total = 0,
     es_duplicates = 0, es_confirmed = 0, es_falsified = 0, es_insufficient = 0, es_errors = 0, es_cycles = 0,
     es_by_result = (\<lambda>_. 0), es_last_at = None\<rparr>"

lemma ex_met: "evidence_meets_falsification ex_freed ''space freed''"
  by (simp add: evidence_meets_falsification_def mentions_def evaluated_text_def ex_freed_def lower_def lower_char_def Let_def
      sublist_code)

lemma ex_decision: "ed_result (hypothesis_decision True [ex_freed] None ex_open) = ''falsified''"
  using policy_counts(2) [of True "[ex_freed]" None ex_open] ex_met
  unfolding policy_result by (simp add: formal_result_def ex_open_def)

theorem hypothesis_lifecycle_witness:
  "\<exists>s'. run_evaluation_cycle ex_evaluation_env [ex_freed] [] [7] ex_evaluations = Some s' \<and>
     hyp_description (hd (es_hypotheses s')) = ''full''"
proof -
  obtain s' where s': "run_evaluation_cycle ex_evaluation_env [ex_freed] [] [7] ex_evaluations = Some s'"
    using cycle_shape by blast
  show ?thesis using hypothesis_lifecycle [OF _ s'] s' by (auto simp: ex_evaluations_def ex_open_def list_all2_Cons1)
qed


theorem lost_promotion_witness:
  "\<exists>r s1 s2. evaluate_one (ex_evaluation_env\<lparr>en_updates := \<lambda>_. False\<rparr>) 7 [ex_freed] [] ex_open ex_evaluations = (r, s1) \<and>
     evaluate_one ex_evaluation_env 7 [ex_freed] [] ex_open s1 = (Inr (), s2) \<and> es_hypotheses s2 = [ex_open]"
proof -
  let ?env = "ex_evaluation_env\<lparr>en_updates := \<lambda>_. False\<rparr>"
  obtain r s1 where one: "evaluate_one ?env 7 [ex_freed] [] ex_open ex_evaluations = (r, s1)"
    by (cases "evaluate_one ?env 7 [ex_freed] [] ex_open ex_evaluations")
  have "\<exists>s2. evaluate_one ex_evaluation_env 7 [ex_freed] [] ex_open s1 = (Inr (), s2) \<and> es_hypotheses s2 = es_hypotheses ex_evaluations"
    using lost_promotion [of ex_evaluations "[ex_freed]" "[]" ex_open _ ?env 7 ex_evaluation_env, OF refl _ _ _ _ _ _ one] ex_decision
    by (auto simp: ex_evaluation_env_def healthy_def ex_evaluations_def)
  then show ?thesis using one by (auto simp: ex_evaluations_def)
qed

end
