(* ===== verification/Telemetry.thy ===== *)
theory Telemetry
  imports Json_Text "HOL-Library.Char_ord" "HOL-Library.List_Lexorder"
begin

text \<open>
  Telemetry of machines: the canonical payload (\<open>libs/telemetry/canonical.py\<close>), the ingestion of a
  batch (\<open>ingest_service.py\<close>, \<open>observation_id.py\<close>) and the worker that publishes the outbox on the
  observation bus (\<open>publisher.py\<close>). The constraints of the tables are those of
  \<open>infrastructure/db-migrations/h4-001-schema.sql\<close>. Arguments are SHA-256, \<open>uuid5\<close>, the
  text of floats, ISO 8601 times and what the columns of \<open>metric_samples\<close> accept. A JSON column holds
  the value that was written. One worker polls; two workers at a time are not modelled.
\<close>

section \<open>Canonical payload (canonical.py)\<close>

text \<open>\<open>repr\<close> is the argument \<open>fr\<close>; a JSON number of the model is neither NaN nor infinite.\<close>

definition canonical_float :: "(real \<Rightarrow> string) \<Rightarrow> real \<Rightarrow> string" where
  "canonical_float fr v = (let s = fr v
     in if CHR ''.'' \<in> set s \<and> CHR ''e'' \<notin> set s \<and> CHR ''E'' \<notin> set s
        then rstrip_chars ''.'' (rstrip_chars ''0'' s) else s)"

fun serialize_value :: "(real \<Rightarrow> string) \<Rightarrow> json \<Rightarrow> string" where
  "serialize_value fr (JFloat v) = canonical_float fr v"
| "serialize_value fr (JObj d) = ''{'' @ join '','' (map (\<lambda>kv. quote True (fst kv) @ '':'' @ snd kv)
     (sort_key fst (map (\<lambda>kv. (fst kv, serialize_value fr (snd kv))) d))) @ ''}''"
| "serialize_value fr (JArr xs) = ''['' @ join '','' (map (serialize_value fr) xs) @ '']''"
| "serialize_value fr (JStr s) = quote False s"
| "serialize_value fr v = dumps fr v"

definition canonical_payload :: "(real \<Rightarrow> string) \<Rightarrow> dict \<Rightarrow> string" where
  "canonical_payload fr body = utf8 (serialize_value fr (JObj (filter (\<lambda>kv. fst kv \<noteq> ''batch_id'') body)))"

definition payload_hash :: "(string \<Rightarrow> string) \<Rightarrow> string \<Rightarrow> string" where
  "payload_hash sha256 data = sha256 data"

section \<open>Observation ids (observation_id.py)\<close>

text \<open>The text of a value in an f-string.\<close>

definition format_value :: "(json \<Rightarrow> string) \<Rightarrow> json \<Rightarrow> string" where
  "format_value str_of v = (case v of JInt n \<Rightarrow> show_int n | JStr s \<Rightarrow> s
     | JBool b \<Rightarrow> if b then ''True'' else ''False'' | JNull \<Rightarrow> ''None'' | _ \<Rightarrow> str_of v)"

definition observation_name :: "(json \<Rightarrow> string) \<Rightarrow> uuid \<Rightarrow> uuid \<Rightarrow> uuid \<Rightarrow> json \<Rightarrow> json \<Rightarrow> string" where
  "observation_name str_of tenant installation batch sequence fact_type =
     uuid_str tenant @ '':'' @ uuid_str installation @ '':'' @ uuid_str batch @ '':'' @
     format_value str_of sequence @ '':'' @ format_value str_of fact_type"

definition OBSERVATION_NAMESPACE :: uuid where
  "OBSERVATION_NAMESPACE = 0x6ba7b8109dad11d180b400c04fd430c8"

definition observation_id :: "uuid5 \<Rightarrow> (json \<Rightarrow> string) \<Rightarrow> uuid \<Rightarrow> uuid \<Rightarrow> uuid \<Rightarrow> json \<Rightarrow> json \<Rightarrow> uuid" where
  "observation_id uuid5 str_of tenant installation batch sequence fact_type =
     uuid5 OBSERVATION_NAMESPACE (observation_name str_of tenant installation batch sequence fact_type)"

section \<open>Tables\<close>

record installation =
  in_id :: uuid
  in_tenant :: uuid
  in_server :: uuid
  in_agent_type :: string
  in_capabilities :: json
  in_status :: string

record batch_row =
  mb_id :: uuid
  mb_tenant :: uuid
  mb_installation :: uuid
  mb_instance :: uuid
  mb_credential :: uuid
  mb_hash :: string
  mb_captured_at :: datetime
  mb_received_at :: datetime
  mb_count :: nat

record sample_row =
  sm_tenant :: uuid
  sm_batch :: uuid
  sm_sequence :: json
  sm_fact_type :: json
  sm_fact_value :: json
  sm_unit :: json
  sm_labels :: json

record outbox_row =
  ob_id :: uuid
  ob_tenant :: uuid
  ob_installation :: uuid
  ob_batch :: uuid
  ob_credential :: uuid
  ob_hash :: string
  ob_observation :: dict
  ob_status :: string
  ob_attempts :: nat
  ob_next_attempt_at :: datetime
  ob_last_error :: "string option"
  ob_published_at :: "datetime option"

record telemetry_db =
  td_installations :: "installation list"
  td_batches :: "batch_row list"
  td_samples :: "sample_row list"
  td_outbox :: "outbox_row list"
  td_stream :: "observation list"

section \<open>Validation (ingest_service.py)\<close>

datatype ingest_error = PayloadConflictError uuid string | ValidationError fstring | Crash exn

type_synonym 'a ingest = "ingest_error + 'a"

definition ibind :: "'a ingest \<Rightarrow> ('a \<Rightarrow> 'b ingest) \<Rightarrow> 'b ingest" where
  "ibind r f = (case r of Inl e \<Rightarrow> Inl e | Inr x \<Rightarrow> f x)"

lemma ibind_simps [simp]: "ibind (Inl e) f = Inl e" "ibind (Inr x) f = f x"
  by (simp_all add: ibind_def)

lemma ibind_Inr: "ibind r f = Inr y \<longleftrightarrow> (\<exists>x. r = Inr x \<and> f x = Inr y)"
  by (cases r) auto

definition invalid :: "string \<Rightarrow> 'a ingest" where
  "invalid msg = Inl (ValidationError [Lit msg])"

definition sample_error :: "nat \<Rightarrow> string \<Rightarrow> 'a ingest" where
  "sample_error i msg = Inl (ValidationError [Lit ''samples['', PInt (int i), Lit ('']'' @ msg)])"

definition check_sample :: "nat \<Rightarrow> json \<Rightarrow> unit ingest" where
  "check_sample i s = (case s of JObj d \<Rightarrow>
       if map_of d ''sequence'' = None then sample_error i ''.sequence is required''
       else if map_of d ''fact_type'' = None then sample_error i ''.fact_type is required''
       else if map_of d ''fact_value'' = None then sample_error i ''.fact_value is required''
       else if map_of d ''unit'' = None then sample_error i ''.unit is required''
       else Inr ()
     | _ \<Rightarrow> sample_error i '' must be a JSON object'')"

fun check_samples :: "nat \<Rightarrow> json list \<Rightarrow> unit ingest" where
  "check_samples i [] = Inr ()"
| "check_samples i (s # ss) = ibind (check_sample i s) (\<lambda>_. check_samples (i + 1) ss)"

text \<open>The identifier of the batch, its body and its samples.\<close>

definition validate_body :: "(json \<Rightarrow> string) \<Rightarrow> json \<Rightarrow> (uuid \<times> dict \<times> json list) ingest" where
  "validate_body str_of body = (case body of JObj d \<Rightarrow>
       if get d ''batch_id'' = JNull then invalid ''batch_id is required''
       else (case parse_uuid (format_value str_of (get d ''batch_id'')) of
           None \<Rightarrow> invalid ''batch_id must be a valid UUID''
         | Some batch_id \<Rightarrow> (case get d ''samples'' of
             JArr (s # ss) \<Rightarrow>
               if map_of d ''captured_at'' = None then invalid ''captured_at is required''
               else ibind (check_samples 0 (s # ss)) (\<lambda>_. Inr (batch_id, d, s # ss))
           | _ \<Rightarrow> invalid ''samples must be a non-empty array''))
     | _ \<Rightarrow> invalid ''request body must be a JSON object'')"

text \<open>\<open>datetime.fromisoformat\<close>: a time with an offset, or one without.\<close>

datatype iso_time = Aware datetime | Naive datetime

fun replace_Z :: "string \<Rightarrow> string" where
  "replace_Z [] = []"
| "replace_Z (c # cs) = (if c = CHR ''Z'' then ''+00:00'' else [c]) @ replace_Z cs"

definition parse_captured_at :: "(string \<Rightarrow> iso_time option) \<Rightarrow> json \<Rightarrow> iso_time ingest" where
  "parse_captured_at fromiso v =
     (case (case v of JStr s \<Rightarrow> fromiso (replace_Z s) | _ \<Rightarrow> None) of
        None \<Rightarrow> invalid ''captured_at must be a valid ISO 8601 timestamp''
      | Some t \<Rightarrow> Inr t)"

text \<open>\<open>isinstance(seq, int)\<close>: a bool is an int.\<close>

definition int_value :: "json \<Rightarrow> int option" where
  "int_value v = (case v of JInt n \<Rightarrow> Some n | JBool b \<Rightarrow> Some (if b then 1 else 0) | _ \<Rightarrow> None)"

definition sample_get :: "json \<Rightarrow> string \<Rightarrow> json" where
  "sample_get s k = (case s of JObj d \<Rightarrow> get d k | _ \<Rightarrow> JNull)"

fun validate_sequences :: "nat \<Rightarrow> int \<Rightarrow> json list \<Rightarrow> unit ingest" where
  "validate_sequences i expected [] = Inr ()"
| "validate_sequences i expected (s # ss) =
     (case int_value (sample_get s ''sequence'') of
        None \<Rightarrow> sample_error i ''.sequence must be a positive integer''
      | Some seq \<Rightarrow>
          if seq < 1 then sample_error i ''.sequence must be a positive integer''
          else if seq \<noteq> expected then Inl (ValidationError [Lit ''samples['', PInt (int i), Lit ''].sequence must be '',
             PInt expected, Lit '', got '', PInt seq, Lit '' (sequences must be 1-based and monotonic)''])
          else validate_sequences (i + 1) (seq + 1) ss)"

text \<open>Subtracting a time without an offset from the current time raises.\<close>

definition validate_captured_at_drift :: "datetime \<Rightarrow> iso_time \<Rightarrow> datetime ingest" where
  "validate_captured_at_drift now t = (case t of
       Naive _ \<Rightarrow> Inl (Crash (TypeError ''can't subtract offset-naive and offset-aware datetimes''))
     | Aware c \<Rightarrow> if \<bar>now - c\<bar> \<ge> minutes 5
         then Inl (ValidationError [Lit ''captured_at drift too large: '', PFixed 0 (of_int \<bar>now - c\<bar> / 1000000),
           Lit ''s (max '', PInt 300, Lit ''s)''])
         else Inr c)"

definition resolve_installation :: "uuid \<Rightarrow> uuid \<Rightarrow> installation list \<Rightarrow> installation option" where
  "resolve_installation tenant installation t =
     find (\<lambda>r. in_id r = installation \<and> in_tenant r = tenant \<and> in_status r = ''ACTIVE'') t"

text \<open>\<open>mapping.get(fact_type, default)\<close>\<close>

definition quality_of :: "json \<Rightarrow> json \<Rightarrow> json \<Rightarrow> json ingest" where
  "quality_of mapping default_qc fact_type = (case mapping of
       JObj m \<Rightarrow> (case fact_type of
           JStr f \<Rightarrow> Inr (get_default m f default_qc)
         | JArr _ \<Rightarrow> Inl (Crash (TypeError ''unhashable type''))
         | JObj _ \<Rightarrow> Inl (Crash (TypeError ''unhashable type''))
         | _ \<Rightarrow> Inr default_qc)
     | _ \<Rightarrow> Inl (Crash (AttributeError ''get'')))"

section \<open>Ingestion\<close>

record telemetry_env =
  te_uuid5 :: uuid5
  te_str :: "json \<Rightarrow> string"
  te_float :: "real \<Rightarrow> string"
  te_sha256 :: "string \<Rightarrow> string"
  te_fromiso :: "string \<Rightarrow> iso_time option"
  te_iso :: "datetime \<Rightarrow> string"
  te_takes :: "sample_row \<Rightarrow> bool"

text \<open>Who sends: the claims of the machine token.\<close>

record sender =
  sd_tenant :: uuid
  sd_installation :: uuid
  sd_instance :: uuid
  sd_credential :: uuid

record prepared =
  pp_batch :: uuid
  pp_samples :: "json list"
  pp_hash :: string
  pp_captured_at :: datetime
  pp_installation :: installation
  pp_mapping :: json
  pp_default :: json

definition capabilities_quality :: "json \<Rightarrow> (json \<times> json) ingest" where
  "capabilities_quality caps = (case caps of
       JObj d \<Rightarrow> Inr (get_default d ''quality_mapping'' (JObj []), get_default d ''default_quality_class'' (JStr ''Q3''))
     | _ \<Rightarrow> Inl (Crash (AttributeError ''get'')))"

text \<open>Everything before the transaction.\<close>

definition prepare :: "telemetry_env \<Rightarrow> datetime \<Rightarrow> sender \<Rightarrow> json \<Rightarrow> telemetry_db \<Rightarrow> prepared ingest" where
  "prepare env now sd body db =
     ibind (validate_body (te_str env) body) (\<lambda>(batch_id, d, samples).
     ibind (parse_captured_at (te_fromiso env) (get d ''captured_at'')) (\<lambda>t.
     ibind (validate_sequences 0 1 samples) (\<lambda>_.
     (let h = payload_hash (te_sha256 env) (canonical_payload (te_float env) d)
      in ibind (validate_captured_at_drift now t) (\<lambda>captured.
         case resolve_installation (sd_tenant sd) (sd_installation sd) (td_installations db) of
           None \<Rightarrow> invalid ''installation not found or tenant mismatch''
         | Some inst \<Rightarrow> ibind (capabilities_quality (in_capabilities inst)) (\<lambda>(mapping, dflt).
             Inr \<lparr>pp_batch = batch_id, pp_samples = samples, pp_hash = h, pp_captured_at = captured,
               pp_installation = inst, pp_mapping = mapping, pp_default = dflt\<rparr>))))))"

record ingest_result =
  ir_batch :: uuid
  ir_observations :: "uuid list"
  ir_ingested_at :: datetime

definition fetch_existing_observation_ids :: "(json \<Rightarrow> string) \<Rightarrow> uuid \<Rightarrow> uuid \<Rightarrow> outbox_row list \<Rightarrow> uuid list ingest" where
  "fetch_existing_observation_ids str_of tenant batch t =
     (case find (\<lambda>r. ob_tenant r = tenant \<and> ob_batch r = batch) t of
        None \<Rightarrow> Inr []
      | Some r \<Rightarrow> (case get_default (ob_observation r) ''observation_ids'' (JArr []) of
            JArr ids \<Rightarrow> (let us = map (\<lambda>i. parse_uuid (format_value str_of i)) ids
               in if None \<in> set us then Inl (Crash (ValueError ''badly formed hexadecimal UUID string''))
                  else Inr (map the us))
          | _ \<Rightarrow> Inl (Crash (TypeError ''not iterable''))))"

definition sample_default :: "json \<Rightarrow> string \<Rightarrow> json \<Rightarrow> json" where
  "sample_default s k v = (case s of JObj d \<Rightarrow> get_default d k v | _ \<Rightarrow> v)"

definition build_sample :: "uuid \<Rightarrow> uuid \<Rightarrow> json \<Rightarrow> sample_row" where
  "build_sample tenant batch s =
     \<lparr>sm_tenant = tenant, sm_batch = batch, sm_sequence = sample_get s ''sequence'', sm_fact_type = sample_get s ''fact_type'',
      sm_fact_value = sample_default s ''fact_value'' (JObj []), sm_unit = sample_default s ''unit'' (JStr []),
      sm_labels = sample_default s ''labels'' (JObj [])\<rparr>"

definition outbox_observation :: "telemetry_env \<Rightarrow> uuid \<Rightarrow> installation \<Rightarrow> datetime \<Rightarrow> uuid \<Rightarrow> json \<Rightarrow> json \<Rightarrow> dict" where
  "outbox_observation env tenant inst captured oid quality s =
     [(''id'', JStr (uuid_str oid)), (''tenant_id'', JStr (uuid_str tenant)), (''source_id'', JStr (uuid_str (in_server inst))),
      (''source_type'', JStr (in_agent_type inst)), (''fact_type'', sample_get s ''fact_type''),
      (''fact_value'', sample_default s ''fact_value'' (JObj [])), (''unit'', sample_default s ''unit'' (JStr [])),
      (''captured_at'', JStr (te_iso env captured)), (''quality_class'', quality), (''raw_payload'', s)]"

text \<open>The loop over the samples, inside the transaction.\<close>

fun ingest_samples :: "telemetry_env \<Rightarrow> sender \<Rightarrow> prepared \<Rightarrow> json list \<Rightarrow> (uuid list \<times> dict list \<times> sample_row list) ingest" where
  "ingest_samples env sd p [] = Inr ([], [], [])"
| "ingest_samples env sd p (s # ss) =
     (let oid = observation_id (te_uuid5 env) (te_str env) (sd_tenant sd) (sd_installation sd) (pp_batch p)
                  (sample_get s ''sequence'') (sample_get s ''fact_type'');
          row = build_sample (sd_tenant sd) (pp_batch p) s
      in ibind (quality_of (pp_mapping p) (pp_default p) (sample_get s ''fact_type'')) (\<lambda>quality.
         if \<not> te_takes env row then Inl (Crash (PassedThrough ''database''))
         else ibind (ingest_samples env sd p ss) (\<lambda>(oids, obs, rows).
           Inr (oid # oids,
                outbox_observation env (sd_tenant sd) (pp_installation p) (pp_captured_at p) oid quality s # obs,
                row # rows))))"

definition combined_observation :: "uuid \<Rightarrow> uuid list \<Rightarrow> dict list \<Rightarrow> dict" where
  "combined_observation batch oids obs =
     [(''batch_id'', JStr (uuid_str batch)), (''observation_ids'', JArr (map (\<lambda>i. JStr (uuid_str i)) oids)),
      (''observations'', JArr (map JObj obs))]"

definition new_outbox_row :: "uuid \<Rightarrow> datetime \<Rightarrow> sender \<Rightarrow> prepared \<Rightarrow> dict \<Rightarrow> outbox_row" where
  "new_outbox_row i now sd p combined =
     \<lparr>ob_id = i, ob_tenant = sd_tenant sd, ob_installation = sd_installation sd, ob_batch = pp_batch p,
      ob_credential = sd_credential sd, ob_hash = pp_hash p, ob_observation = combined, ob_status = ''pending'',
      ob_attempts = 0, ob_next_attempt_at = now, ob_last_error = None, ob_published_at = None\<rparr>"

definition new_batch_row :: "datetime \<Rightarrow> sender \<Rightarrow> prepared \<Rightarrow> batch_row" where
  "new_batch_row now sd p =
     \<lparr>mb_id = pp_batch p, mb_tenant = sd_tenant sd, mb_installation = sd_installation sd, mb_instance = sd_instance sd,
      mb_credential = sd_credential sd, mb_hash = pp_hash p, mb_captured_at = pp_captured_at p, mb_received_at = now,
      mb_count = length (pp_samples p)\<rparr>"

definition same_outbox_key :: "outbox_row \<Rightarrow> outbox_row \<Rightarrow> bool" where
  "same_outbox_key r r' \<longleftrightarrow> ob_id r = ob_id r' \<or> (ob_tenant r = ob_tenant r' \<and> ob_installation r = ob_installation r' \<and>
     ob_batch r = ob_batch r' \<and> ob_hash r = ob_hash r')"

text \<open>
  The transaction: an exception rolls it back. The identifier of a batch is the primary key of its
  row, over all tenants. \<open>i\<close> is the identifier drawn for the outbox row.
\<close>

definition ingest_tx :: "telemetry_env \<Rightarrow> uuid \<Rightarrow> datetime \<Rightarrow> sender \<Rightarrow> prepared \<Rightarrow> telemetry_db \<Rightarrow> ingest_result ingest \<times> telemetry_db" where
  "ingest_tx env i now sd p db =
     (if pp_batch p \<in> mb_id ` set (td_batches db) then
        ((case find (\<lambda>b. mb_tenant b = sd_tenant sd \<and> mb_installation b = sd_installation sd \<and> mb_id b = pp_batch p) (td_batches db) of
            None \<Rightarrow> Inl (PayloadConflictError (pp_batch p) ''unknown'')
          | Some b \<Rightarrow> if mb_hash b = pp_hash p
              then ibind (fetch_existing_observation_ids (te_str env) (sd_tenant sd) (pp_batch p) (td_outbox db)) (\<lambda>ids.
                Inr \<lparr>ir_batch = pp_batch p, ir_observations = ids, ir_ingested_at = mb_received_at b\<rparr>)
              else Inl (PayloadConflictError (pp_batch p) (mb_hash b))), db)
      else case ingest_samples env sd p (pp_samples p) of
          Inl e \<Rightarrow> (Inl e, db)
        | Inr (oids, obs, rows) \<Rightarrow>
            (let row = new_outbox_row i now sd p (combined_observation (pp_batch p) oids obs)
             in if list_ex (same_outbox_key row) (td_outbox db) then (Inl (Crash (PassedThrough ''database'')), db)
                else (Inr \<lparr>ir_batch = pp_batch p, ir_observations = oids, ir_ingested_at = now\<rparr>,
                      db\<lparr>td_batches := td_batches db @ [new_batch_row now sd p], td_samples := td_samples db @ rows,
                         td_outbox := td_outbox db @ [row]\<rparr>)))"

definition ingest_batch :: "telemetry_env \<Rightarrow> uuid \<Rightarrow> datetime \<Rightarrow> sender \<Rightarrow> json \<Rightarrow> telemetry_db \<Rightarrow> ingest_result ingest \<times> telemetry_db" where
  "ingest_batch env i now sd body db =
     (case prepare env now sd body db of Inl e \<Rightarrow> (Inl e, db) | Inr p \<Rightarrow> ingest_tx env i now sd p db)"

section \<open>Publishing (publisher.py)\<close>

definition MAX_ATTEMPTS :: nat where [catalogue]: "MAX_ATTEMPTS = 5"
definition BASE_DELAY_SECONDS :: nat where [catalogue]: "BASE_DELAY_SECONDS = 2"
definition MAX_DELAY_SECONDS :: nat where [catalogue]: "MAX_DELAY_SECONDS = 60"

text \<open>\<open>u\<close> is the value drawn between -0.25 and 0.25.\<close>

definition next_attempt_at :: "datetime \<Rightarrow> real \<Rightarrow> nat \<Rightarrow> datetime" where
  "next_attempt_at now u attempts =
     (let delay = real (min (BASE_DELAY_SECONDS * 2 ^ (attempts - 1)) MAX_DELAY_SECONDS)
      in now + half_even ((delay + delay * u) * 1000000))"

text \<open>The fields of an observation, as the constructor of the model reads and checks them.\<close>

definition key_uuid :: "dict \<Rightarrow> string \<Rightarrow> uuid result" where
  "key_uuid d k = (case map_of d k of None \<Rightarrow> Inl (KeyError k)
     | Some (JStr s) \<Rightarrow> (case parse_uuid s of None \<Rightarrow> Inl (ValueError ''badly formed hexadecimal UUID string'') | Some u \<Rightarrow> Inr u)
     | Some _ \<Rightarrow> Inl (AttributeError ''replace''))"

definition want_str :: "json \<Rightarrow> string result" where
  "want_str v = (case v of JStr s \<Rightarrow> Inr s | _ \<Rightarrow> Inl (ValueError ''string_type''))"

definition want_dict :: "json \<Rightarrow> dict result" where
  "want_dict v = (case v of JObj d \<Rightarrow> Inr d | _ \<Rightarrow> Inl (ValueError ''dict_type''))"

definition want_quality :: "json \<Rightarrow> quality_class result" where
  "want_quality v = (case v of JStr s \<Rightarrow>
       (case find (\<lambda>q. quality_value q = s) [Q1, Q2, Q3, Q4] of None \<Rightarrow> Inl (ValueError ''literal_error'') | Some q \<Rightarrow> Inr q)
     | _ \<Rightarrow> Inl (ValueError ''literal_error''))"

definition iso_of :: "(string \<Rightarrow> iso_time option) \<Rightarrow> dict \<Rightarrow> datetime result" where
  "iso_of fromiso d = (case map_of d ''captured_at'' of None \<Rightarrow> Inl (KeyError ''captured_at'')
     | Some (JStr s) \<Rightarrow> (case fromiso s of None \<Rightarrow> Inl (ValueError ''Invalid isoformat string'')
         | Some (Aware t) \<Rightarrow> Inr t | Some (Naive t) \<Rightarrow> Inr t)
     | Some _ \<Rightarrow> Inl (TypeError ''fromisoformat: argument must be str''))"

definition read_observation :: "(string \<Rightarrow> iso_time option) \<Rightarrow> dict \<Rightarrow> observation result" where
  "read_observation fromiso d =
     and_then (key_uuid d ''id'') (\<lambda>oid. and_then (key_uuid d ''tenant_id'') (\<lambda>tenant.
     and_then (key_uuid d ''source_id'') (\<lambda>source.
     and_then (case map_of d ''fact_type'' of None \<Rightarrow> Inl (KeyError ''fact_type'') | Some v \<Rightarrow> Inr v) (\<lambda>ft.
     and_then (iso_of fromiso d) (\<lambda>captured.
     and_then (want_str (get_default d ''source_type'' (JStr ''unknown''))) (\<lambda>st.
     and_then (want_str ft) (\<lambda>fact_type.
     and_then (want_dict (get_default d ''fact_value'' (JObj []))) (\<lambda>fv.
     and_then (want_str (get_default d ''unit'' (JStr []))) (\<lambda>un.
     and_then (want_quality (get_default d ''quality_class'' (JStr ''Q3''))) (\<lambda>q.
     and_then (want_dict (get_default d ''raw_payload'' (JObj []))) (\<lambda>raw.
       Inr \<lparr>o_id = oid, o_tenant = tenant, o_source = source, o_source_type = st, o_fact_type = fact_type,
         o_fact_value = fv, o_unit = un, o_captured_at = captured, o_quality = q, o_raw = raw\<rparr>)))))))))))"

record publish_env =
  pe_now :: datetime
  pe_jitter :: real
  pe_fromiso :: "string \<Rightarrow> iso_time option"
  pe_bus_up :: "observation \<Rightarrow> bool"

definition due :: "datetime \<Rightarrow> outbox_row \<Rightarrow> bool" where
  "due now r \<longleftrightarrow> ob_status r = ''pending'' \<or> (ob_status r = ''failed'' \<and> ob_next_attempt_at r \<le> now)"

definition claim_rows :: "datetime \<Rightarrow> outbox_row list \<Rightarrow> outbox_row list" where
  "claim_rows now t = take 10 (sort_key ob_next_attempt_at (filter (due now) t))"

definition update_outbox :: "uuid \<Rightarrow> (outbox_row \<Rightarrow> outbox_row) \<Rightarrow> telemetry_db \<Rightarrow> telemetry_db" where
  "update_outbox i f db = db\<lparr>td_outbox := map (\<lambda>r. if ob_id r = i then f r else r) (td_outbox db)\<rparr>"

definition publish_one :: "publish_env \<Rightarrow> outbox_row \<Rightarrow> telemetry_db \<Rightarrow> bool \<times> telemetry_db" where
  "publish_one env row db =
     (let out = and_then (read_observation (pe_fromiso env) (ob_observation row)) (\<lambda>obs.
            if pe_bus_up env obs then Inr obs else Inl (PassedThrough ''redis''))
      in case out of
           Inr obs \<Rightarrow> (True, update_outbox (ob_id row) (\<lambda>r. r\<lparr>ob_status := ''published'', ob_published_at := Some (pe_now env),
               ob_attempts := ob_attempts r + 1\<rparr>) (db\<lparr>td_stream := td_stream db @ [obs]\<rparr>))
         | Inl _ \<Rightarrow>
             (let n = ob_attempts row + 1
              in (False, update_outbox (ob_id row) (\<lambda>r. if n \<ge> MAX_ATTEMPTS
                   then r\<lparr>ob_status := ''dead_letter'', ob_attempts := n, ob_last_error := Some ''max attempts exceeded'',
                     ob_next_attempt_at := pe_now env\<rparr>
                   else r\<lparr>ob_status := ''failed'', ob_attempts := n, ob_last_error := Some ''publish failed'',
                     ob_next_attempt_at := next_attempt_at (pe_now env) (pe_jitter env) n\<rparr>) db)))"

fun publish_rows :: "publish_env \<Rightarrow> outbox_row list \<Rightarrow> telemetry_db \<Rightarrow> nat \<times> telemetry_db" where
  "publish_rows env [] db = (0, db)"
| "publish_rows env (r # rs) db =
     (case publish_one env r db of (ok, db1) \<Rightarrow>
        (case publish_rows env rs db1 of (n, db2) \<Rightarrow> ((if ok then 1 else 0) + n, db2)))"

definition poll_once :: "publish_env \<Rightarrow> telemetry_db \<Rightarrow> nat \<times> telemetry_db" where
  "poll_once env db = publish_rows env (claim_rows (pe_now env) (td_outbox db)) db"

section \<open>Runs\<close>

datatype telemetry_event =
    Ingest uuid datetime sender json
  | Poll publish_env

definition telemetry_step :: "telemetry_env \<Rightarrow> telemetry_event \<Rightarrow> telemetry_db \<Rightarrow> telemetry_db" where
  "telemetry_step env e db = (case e of
       Ingest i now sd body \<Rightarrow> snd (ingest_batch env i now sd body db)
     | Poll penv \<Rightarrow> snd (poll_once penv db))"

definition telemetry_run :: "telemetry_env \<Rightarrow> telemetry_event list \<Rightarrow> telemetry_db \<Rightarrow> telemetry_db" where
  "telemetry_run env es db = foldl (\<lambda>db e. telemetry_step env e db) db es"

lemma telemetry_run_simps [simp]:
  "telemetry_run env [] db = db" "telemetry_run env (e # es) db = telemetry_run env es (telemetry_step env e db)"
  by (simp_all add: telemetry_run_def)

section \<open>What the transaction writes\<close>

lemma ingest_samples_shape:
  "ingest_samples env sd p ss = Inr (oids, obs, rows) \<Longrightarrow>
     oids = map (\<lambda>s. observation_id (te_uuid5 env) (te_str env) (sd_tenant sd) (sd_installation sd) (pp_batch p)
       (sample_get s ''sequence'') (sample_get s ''fact_type'')) ss \<and>
     rows = map (build_sample (sd_tenant sd) (pp_batch p)) ss \<and> length obs = length ss"
  by (induction ss arbitrary: oids obs rows) (auto simp: Let_def ibind_Inr split: if_splits)

lemma ingest_tx_cases:
  obtains e where "ingest_tx env i now sd p db = (Inl e, db)"
  | r where "ingest_tx env i now sd p db = (Inr r, db)" "pp_batch p \<in> mb_id ` set (td_batches db)" "ir_batch r = pp_batch p"
      "fetch_existing_observation_ids (te_str env) (sd_tenant sd) (pp_batch p) (td_outbox db) = Inr (ir_observations r)"
      "\<exists>b \<in> set (td_batches db). mb_id b = pp_batch p \<and> mb_tenant b = sd_tenant sd \<and> mb_installation b = sd_installation sd \<and>
         mb_hash b = pp_hash p"
  | oids obs where "pp_batch p \<notin> mb_id ` set (td_batches db)"
      "ingest_samples env sd p (pp_samples p) = Inr (oids, obs, map (build_sample (sd_tenant sd) (pp_batch p)) (pp_samples p))"
      "\<not> list_ex (same_outbox_key (new_outbox_row i now sd p (combined_observation (pp_batch p) oids obs))) (td_outbox db)"
      "ingest_tx env i now sd p db = (Inr \<lparr>ir_batch = pp_batch p, ir_observations = oids, ir_ingested_at = now\<rparr>,
         db\<lparr>td_batches := td_batches db @ [new_batch_row now sd p],
            td_samples := td_samples db @ map (build_sample (sd_tenant sd) (pp_batch p)) (pp_samples p),
            td_outbox := td_outbox db @ [new_outbox_row i now sd p (combined_observation (pp_batch p) oids obs)]\<rparr>)"
proof (cases "pp_batch p \<in> mb_id ` set (td_batches db)")
  case True
  let ?find = "find (\<lambda>b. mb_tenant b = sd_tenant sd \<and> mb_installation b = sd_installation sd \<and> mb_id b = pp_batch p) (td_batches db)"
  have run: "ingest_tx env i now sd p db = ((case ?find of
            None \<Rightarrow> Inl (PayloadConflictError (pp_batch p) ''unknown'')
          | Some b \<Rightarrow> if mb_hash b = pp_hash p
              then ibind (fetch_existing_observation_ids (te_str env) (sd_tenant sd) (pp_batch p) (td_outbox db)) (\<lambda>ids.
                Inr \<lparr>ir_batch = pp_batch p, ir_observations = ids, ir_ingested_at = mb_received_at b\<rparr>)
              else Inl (PayloadConflictError (pp_batch p) (mb_hash b))), db)"
    using True by (simp add: ingest_tx_def)
  show ?thesis
  proof (cases ?find)
    case None
    then show ?thesis using run that(1) by simp
  next
    case (Some b)
    then have b: "b \<in> set (td_batches db)" "mb_tenant b = sd_tenant sd" "mb_installation b = sd_installation sd" "mb_id b = pp_batch p"
      by (auto dest: find_SomeD)
    let ?ids = "fetch_existing_observation_ids (te_str env) (sd_tenant sd) (pp_batch p) (td_outbox db)"
    show ?thesis
    proof (cases "\<exists>ids. mb_hash b = pp_hash p \<and> ?ids = Inr ids")
      case ok: True
      then obtain ids where ids: "mb_hash b = pp_hash p" "?ids = Inr ids" by blast
      show ?thesis
        by (rule that(2) [of "\<lparr>ir_batch = pp_batch p, ir_observations = ids, ir_ingested_at = mb_received_at b\<rparr>"])
          (use run Some b True ids in auto)
    next
      case False
      then show ?thesis using run Some that(1) by (cases ?ids) (auto split: if_splits)
    qed
  qed
next
  case False
  show ?thesis
  proof (cases "ingest_samples env sd p (pp_samples p)")
    case (Inl e)
    then show ?thesis using False that(1) by (simp add: ingest_tx_def)
  next
    case (Inr x)
    obtain oids obs rows where x: "x = (oids, obs, rows)" by (cases x)
    note s = ingest_samples_shape [OF Inr [unfolded x]]
    show ?thesis
      by (cases "list_ex (same_outbox_key (new_outbox_row i now sd p (combined_observation (pp_batch p) oids obs))) (td_outbox db)")
        (use False Inr x s that(1) that(3) [of oids obs] in \<open>simp_all add: ingest_tx_def Let_def\<close>)
  qed
qed

lemma validate_sequences_ok:
  "validate_sequences i e ss = Inr () \<Longrightarrow> map (\<lambda>s. int_value (sample_get s ''sequence'')) ss = map Some [e..e + int (length ss) - 1]"
proof (induction ss arbitrary: i e)
  case (Cons s ss)
  then have s: "int_value (sample_get s ''sequence'') = Some e" and rest: "validate_sequences (i + 1) (e + 1) ss = Inr ()"
    by (auto simp: sample_error_def split: option.splits if_splits)
  have "[e..e + int (length (s # ss)) - 1] = e # [e + 1..(e + 1) + int (length ss) - 1]" by (subst upto_rec1) auto
  then show ?case using s Cons.IH [OF rest] by simp
qed simp

lemma prepare_Inr:
  assumes "prepare env now sd body db = Inr p"
  obtains d where "validate_body (te_str env) body = Inr (pp_batch p, d, pp_samples p)"
    and "pp_hash p = te_sha256 env (canonical_payload (te_float env) d)"
    and "validate_sequences 0 1 (pp_samples p) = Inr ()" and "\<bar>now - pp_captured_at p\<bar> < minutes 5"
    and "pp_installation p \<in> set (td_installations db)" and "in_id (pp_installation p) = sd_installation sd"
    and "in_tenant (pp_installation p) = sd_tenant sd" and "in_status (pp_installation p) = ''ACTIVE''"
proof -
  obtain batch d samples where b: "validate_body (te_str env) body = Inr (batch, d, samples)"
    using assms by (auto simp: prepare_def ibind_Inr)
  obtain t captured inst where t: "validate_sequences 0 1 samples = Inr ()" "validate_captured_at_drift now t = Inr captured"
      "resolve_installation (sd_tenant sd) (sd_installation sd) (td_installations db) = Some inst"
      "pp_batch p = batch" "pp_samples p = samples" "pp_captured_at p = captured" "pp_installation p = inst"
      "pp_hash p = te_sha256 env (canonical_payload (te_float env) d)"
    using assms b by (auto simp: prepare_def ibind_Inr payload_hash_def invalid_def Let_def split: option.splits)
  have "\<bar>now - captured\<bar> < minutes 5"
    using t(2) by (auto simp: validate_captured_at_drift_def split: iso_time.splits if_splits)
  moreover have "inst \<in> set (td_installations db)" "in_id inst = sd_installation sd" "in_tenant inst = sd_tenant sd" "in_status inst = ''ACTIVE''"
    using find_SomeD [OF t(3) [unfolded resolve_installation_def]] by auto
  ultimately show thesis using that [of d] b t by simp
qed

lemma fetch_append:
  "fetch_existing_observation_ids f tenant batch (xs @ ys) =
     (if \<exists>r \<in> set xs. ob_tenant r = tenant \<and> ob_batch r = batch then fetch_existing_observation_ids f tenant batch xs
      else fetch_existing_observation_ids f tenant batch ys)"
proof (cases "find (\<lambda>r. ob_tenant r = tenant \<and> ob_batch r = batch) xs")
  case None
  then have "\<not> (\<exists>r \<in> set xs. ob_tenant r = tenant \<and> ob_batch r = batch)" by (auto simp: find_None_iff)
  then show ?thesis using None by (auto simp: fetch_existing_observation_ids_def find_append)
next
  case (Some r)
  then have "\<exists>r \<in> set xs. ob_tenant r = tenant \<and> ob_batch r = batch" by (auto dest: find_SomeD)
  then show ?thesis using Some by (simp add: fetch_existing_observation_ids_def find_append)
qed

lemma fetch_new:
  "fetch_existing_observation_ids f (sd_tenant sd) (pp_batch p)
     [new_outbox_row i now sd p (combined_observation (pp_batch p) oids obs)] = Inr oids"
  by (auto simp: fetch_existing_observation_ids_def new_outbox_row_def combined_observation_def get_default_def
        Let_def format_value_def o_def image_iff)

text \<open>Every outbox row belongs to a batch that was received.\<close>

definition outbox_backed :: "telemetry_db \<Rightarrow> bool" where
  "outbox_backed db \<longleftrightarrow> ob_batch ` set (td_outbox db) \<subseteq> mb_id ` set (td_batches db)"

section \<open>What publishing writes\<close>

text \<open>The life of an outbox row under the worker.\<close>

definition terminal :: "outbox_row \<Rightarrow> bool" where
  "terminal r \<longleftrightarrow> ob_status r \<in> {''published'', ''dead_letter''}"

definition row_ok :: "outbox_row \<Rightarrow> bool" where
  "row_ok r \<longleftrightarrow> ob_status r \<in> {''pending'', ''failed'', ''published'', ''dead_letter''} \<and>
     ob_attempts r \<le> 5 \<and> (\<not> terminal r \<longrightarrow> ob_attempts r < 5)"

definition outbox_ok :: "telemetry_db \<Rightarrow> bool" where
  "outbox_ok db \<longleftrightarrow> distinct (map ob_id (td_outbox db)) \<and> (\<forall>r \<in> set (td_outbox db). row_ok r)"

definition row_content :: "outbox_row \<Rightarrow> uuid \<times> uuid \<times> uuid \<times> uuid \<times> uuid \<times> string \<times> dict" where
  "row_content r = (ob_id r, ob_tenant r, ob_installation r, ob_batch r, ob_credential r, ob_hash r, ob_observation r)"

definition row_moves :: "outbox_row \<Rightarrow> outbox_row \<Rightarrow> bool" where
  "row_moves r r' \<longleftrightarrow> row_content r' = row_content r \<and> (terminal r \<longrightarrow> r' = r) \<and> (row_ok r \<longrightarrow> row_ok r') \<and>
     ob_attempts r \<le> ob_attempts r'"

lemma row_moves_refl [simp]: "row_moves r r"
  by (simp add: row_moves_def)

lemma row_moves_trans: "row_moves a b \<Longrightarrow> row_moves b c \<Longrightarrow> row_moves a c"
  by (auto simp: row_moves_def)

lemma update_outbox_simps [simp]:
  "td_outbox (update_outbox i f db) = map (\<lambda>r. if ob_id r = i then f r else r) (td_outbox db)"
  "td_stream (update_outbox i f db) = td_stream db" "td_batches (update_outbox i f db) = td_batches db"
  by (simp_all add: update_outbox_def)

lemma publish_one_moves:
  assumes "distinct (map ob_id (td_outbox db))" and "row \<in> set (td_outbox db)" and "\<not> terminal row"
  shows "list_all2 row_moves (td_outbox db) (td_outbox (snd (publish_one env row db)))"
proof -
  have same: "r = row" if "r \<in> set (td_outbox db)" "ob_id r = ob_id row" for r
    using assms(1,2) that by (auto simp: distinct_map dest: inj_onD)
  have upd: "list_all2 row_moves (td_outbox db) (map (\<lambda>r. if ob_id r = ob_id row then f r else r) (td_outbox db))"
    if "row_moves row (f row)" for f
    using that same [OF nth_mem] by (fastforce simp: list_all2_conv_all_nth)
  show ?thesis unfolding publish_one_def Let_def
    by (cases "and_then (read_observation (pe_fromiso env) (ob_observation row))
        (\<lambda>obs. if pe_bus_up env obs then Inr obs else Inl (PassedThrough ''redis''))")
      (use assms(3) in \<open>auto simp: row_moves_def row_ok_def row_content_def terminal_def MAX_ATTEMPTS_def intro!: upd\<close>)
qed

lemma list_all2_moves_trans:
  "list_all2 row_moves a b \<Longrightarrow> list_all2 row_moves b c \<Longrightarrow> list_all2 row_moves a c"
  by (rule list_all2_trans [of row_moves row_moves row_moves]) (auto intro: row_moves_trans)

lemma moves_ids: "list_all2 row_moves a b \<Longrightarrow> map ob_id b = map ob_id a"
  by (auto simp: list_all2_conv_all_nth row_moves_def row_content_def intro: nth_equalityI)

lemma moves_mem: "list_all2 row_moves a b \<Longrightarrow> r' \<in> set b \<Longrightarrow> \<exists>r \<in> set a. row_moves r r'"
  by (fastforce simp: list_all2_conv_all_nth in_set_conv_nth)

lemma publish_one_other:
  assumes "publish_one env row db = (ok, db1)" and "r \<in> set (td_outbox db)" and "ob_id r \<noteq> ob_id row"
  shows "r \<in> set (td_outbox db1)"
  using assms by (force simp: publish_one_def Let_def image_iff split: sum.splits)

lemma publish_rows_moves:
  assumes "publish_rows env rs db = (n, db1)" and "distinct (map ob_id (td_outbox db))" and "distinct (map ob_id rs)"
    and "set rs \<subseteq> set (td_outbox db)" and "\<forall>r \<in> set rs. \<not> terminal r"
  shows "list_all2 row_moves (td_outbox db) (td_outbox db1)"
  using assms
proof (induction rs arbitrary: db n)
  case (Cons r rs)
  obtain ok db0 where one: "publish_one env r db = (ok, db0)" by (cases "publish_one env r db")
  obtain m where rest: "publish_rows env rs db0 = (m, db1)" using Cons.prems(1) one by (auto split: prod.splits)
  have p: "list_all2 row_moves (td_outbox db) (td_outbox db0)"
    using publish_one_moves [of db r env] Cons.prems one by simp
  have "list_all2 row_moves (td_outbox db0) (td_outbox db1)"
  proof (rule Cons.IH [OF rest])
    show "distinct (map ob_id (td_outbox db0))" using moves_ids [OF p] Cons.prems(2) by simp
    show "set rs \<subseteq> set (td_outbox db0)"
      using Cons.prems(3,4) publish_one_other [OF one] by (force simp: image_iff)
  qed (use Cons.prems in auto)
  then show ?case by (rule list_all2_moves_trans [OF p])
qed (simp add: list_all2_conv_all_nth)

lemma claimed:
  "set (claim_rows now t) \<subseteq> set t" "r \<in> set (claim_rows now t) \<Longrightarrow> \<not> terminal r"
  "distinct (map ob_id t) \<Longrightarrow> distinct (map ob_id (claim_rows now t))"
proof -
  show "set (claim_rows now t) \<subseteq> set t" by (auto simp: claim_rows_def dest: in_set_takeD)
  show "r \<in> set (claim_rows now t) \<Longrightarrow> \<not> terminal r"
    by (auto simp: claim_rows_def due_def terminal_def dest: in_set_takeD)
  assume "distinct (map ob_id t)"
  then have "distinct (map ob_id (sort_key ob_next_attempt_at (filter (due now) t)))"
    by (simp add: distinct_map_filter distinct_map inj_on_def)
  then show "distinct (map ob_id (claim_rows now t))" by (simp add: claim_rows_def flip: take_map)
qed

lemma poll_moves:
  assumes "distinct (map ob_id (td_outbox db))"
  shows "list_all2 row_moves (td_outbox db) (td_outbox (snd (poll_once env db)))"
proof -
  obtain n db1 where "publish_rows env (claim_rows (pe_now env) (td_outbox db)) db = (n, db1)"
    by (cases "publish_rows env (claim_rows (pe_now env) (td_outbox db)) db")
  then show ?thesis using publish_rows_moves [OF _ assms] claimed assms by (simp add: poll_once_def)
qed

definition outbox_grows :: "telemetry_db \<Rightarrow> telemetry_db \<Rightarrow> bool" where
  "outbox_grows db db' \<longleftrightarrow> (\<exists>moved fresh. td_outbox db' = moved @ fresh \<and> list_all2 row_moves (td_outbox db) moved)"

lemma step_outbox:
  assumes "outbox_ok db"
  shows "outbox_ok (telemetry_step env e db) \<and> outbox_grows db (telemetry_step env e db)"
proof (cases e)
  case (Poll penv)
  have m: "list_all2 row_moves (td_outbox db) (td_outbox (snd (poll_once penv db)))"
    using assms by (intro poll_moves) (simp add: outbox_ok_def)
  have "row_ok r'" if "r' \<in> set (td_outbox (snd (poll_once penv db)))" for r'
    using moves_mem [OF m that] assms by (auto simp: outbox_ok_def row_moves_def)
  then have "outbox_ok (snd (poll_once penv db))" using moves_ids [OF m] assms by (simp add: outbox_ok_def)
  then show ?thesis using m Poll unfolding outbox_grows_def by (simp add: telemetry_step_def) (metis append_Nil2)
next
  case (Ingest i now sd body)
  have refl: "list_all2 row_moves t t" for t by (simp add: list_all2_conv_all_nth)
  have "outbox_ok (snd (ingest_tx env i now sd p db)) \<and> outbox_grows db (snd (ingest_tx env i now sd p db))" for p
  proof (cases rule: ingest_tx_cases [of env i now sd p db])
    case (3 oids obs)
    let ?row = "new_outbox_row i now sd p (combined_observation (pp_batch p) oids obs)"
    have "ob_id ?row \<notin> ob_id ` set (td_outbox db)" using 3(3) by (auto simp: list_ex_iff same_outbox_key_def)
    moreover have "row_ok ?row" by (simp add: row_ok_def terminal_def new_outbox_row_def)
    ultimately have "outbox_ok (snd (ingest_tx env i now sd p db))" using assms unfolding 3(4) by (simp add: outbox_ok_def)
    then show ?thesis using refl unfolding 3(4) outbox_grows_def by auto
  qed (use assms refl in \<open>auto simp: outbox_grows_def\<close>)
  then show ?thesis using assms refl Ingest
    by (auto simp: telemetry_step_def ingest_batch_def outbox_grows_def split: sum.splits)
qed

lemma outbox_grows_trans: "outbox_grows a b \<Longrightarrow> outbox_grows b c \<Longrightarrow> outbox_grows a c"
proof -
  assume "outbox_grows a b" "outbox_grows b c"
  then obtain m f m' f' where a: "td_outbox b = m @ f" "list_all2 row_moves (td_outbox a) m"
      "td_outbox c = m' @ f'" "list_all2 row_moves (m @ f) m'"
    unfolding outbox_grows_def by auto
  obtain x y where "m' = x @ y" "list_all2 row_moves m x" using a(4) by (auto simp: list_all2_append1)
  then show "outbox_grows a c"
    unfolding outbox_grows_def using a(3) list_all2_moves_trans [OF a(2)] by (intro exI [of _ x] exI [of _ "y @ f'"]) simp
qed

lemma run_outbox:
  "outbox_ok db \<Longrightarrow> outbox_ok (telemetry_run env es db) \<and> outbox_grows db (telemetry_run env es db)"
proof (induction es arbitrary: db)
  case Nil
  have "list_all2 row_moves (td_outbox db) (td_outbox db)" by (simp add: list_all2_conv_all_nth)
  then have "outbox_grows db db" unfolding outbox_grows_def by (metis append_Nil2)
  then show ?case using Nil by simp
next
  case (Cons e es)
  then show ?case using step_outbox [of db env e] outbox_grows_trans by fastforce
qed

section \<open>What reaches the bus\<close>

definition combined_rows :: "telemetry_db \<Rightarrow> bool" where
  "combined_rows db \<longleftrightarrow> (\<forall>r \<in> set (td_outbox db). map_of (ob_observation r) ''id'' = None)"

lemma publish_combined:
  assumes "map_of (ob_observation row) ''id'' = None" and "publish_one env row db = (ok, db1)"
  shows "\<not> ok \<and> td_stream db1 = td_stream db \<and> (combined_rows db \<longrightarrow> combined_rows db1)"
proof -
  have "read_observation f (ob_observation row) = Inl (KeyError ''id'')" for f
    using assms(1) by (simp add: read_observation_def key_uuid_def)
  then show ?thesis using assms(2) by (auto simp: publish_one_def Let_def combined_rows_def)
qed

lemma publish_rows_combined:
  "publish_rows env rs db = (n, db1) \<Longrightarrow> combined_rows db \<Longrightarrow> \<forall>r \<in> set rs. map_of (ob_observation r) ''id'' = None \<Longrightarrow>
     n = 0 \<and> td_stream db1 = td_stream db \<and> combined_rows db1"
proof (induction rs arbitrary: db n)
  case (Cons r rs)
  obtain ok db0 where one: "publish_one env r db = (ok, db0)" by (cases "publish_one env r db")
  obtain m where rest: "publish_rows env rs db0 = (m, db1)" using Cons.prems(1) one by (auto split: prod.splits)
  note c = publish_combined [OF _ one]
  show ?case using Cons.IH [OF rest] c Cons.prems one rest by auto
qed simp

lemma step_combined:
  assumes "combined_rows db"
  shows "combined_rows (telemetry_step env e db) \<and> td_stream (telemetry_step env e db) = td_stream db"
proof (cases e)
  case (Poll penv)
  obtain n db1 where r: "publish_rows penv (claim_rows (pe_now penv) (td_outbox db)) db = (n, db1)"
    by (cases "publish_rows penv (claim_rows (pe_now penv) (td_outbox db)) db")
  have "\<forall>r \<in> set (claim_rows (pe_now penv) (td_outbox db)). map_of (ob_observation r) ''id'' = None"
    using claimed(1) assms unfolding combined_rows_def by blast
  then show ?thesis using publish_rows_combined [OF r assms] r Poll by (simp add: telemetry_step_def poll_once_def)
next
  case (Ingest i now sd body)
  have "combined_rows (snd (ingest_tx env i now sd p db)) \<and> td_stream (snd (ingest_tx env i now sd p db)) = td_stream db" for p
    by (cases rule: ingest_tx_cases [of env i now sd p db])
      (use assms in \<open>auto simp: combined_rows_def new_outbox_row_def combined_observation_def\<close>)
  then show ?thesis using assms Ingest by (auto simp: telemetry_step_def ingest_batch_def split: sum.splits)
qed

lemma run_combined:
  "combined_rows db \<Longrightarrow> combined_rows (telemetry_run env es db) \<and> td_stream (telemetry_run env es db) = td_stream db"
proof (induction es arbitrary: db)
  case (Cons e es)
  then show ?case using step_combined [of db env e] by simp
qed simp

section \<open>Retries\<close>

lemma serialize_perm:
  assumes "mset d' = mset d" and "distinct (map fst d)"
  shows "serialize_value fr (JObj d') = serialize_value fr (JObj d)"
proof -
  let ?f = "\<lambda>kv. (fst kv, serialize_value fr (snd kv))"
  have "mset (map ?f d') = mset (map ?f d)" using assms(1) by simp
  moreover have "inj_on fst (set (map ?f d'))"
    using assms mset_eq_setD [OF assms(1)] by (auto simp: inj_on_def distinct_map)
  ultimately have "sort_key fst (map ?f d') = sort_key fst (map ?f d)"
    using sort_key_inj_key_eq [of "map ?f d'" "sort_key fst (map ?f d)" fst] by simp
  then show ?thesis by simp
qed

lemma canonical_perm:
  assumes "mset d' = mset d" and "distinct (map fst d)"
  shows "canonical_payload fr d' = canonical_payload fr d"
  unfolding canonical_payload_def
  using serialize_perm [of "filter (\<lambda>kv. fst kv \<noteq> ''batch_id'') d'" "filter (\<lambda>kv. fst kv \<noteq> ''batch_id'') d"] assms
  by (simp add: mset_filter distinct_map_filter)

lemma map_of_perm:
  assumes "mset d' = mset d" and "distinct (map fst d)"
  shows "map_of d' = map_of d"
proof -
  have "distinct (map fst d')" using assms by (metis mset_eq_imp_distinct_iff mset_map)
  then show ?thesis using assms mset_eq_setD [OF assms(1)] by (intro map_of_inject_set [THEN iffD2]) auto
qed

lemma validate_dict: "validate_body f (JObj d) = Inr (b, x, s) \<Longrightarrow> x = d"
  by (auto simp: validate_body_def invalid_def ibind_Inr split: option.splits json.splits list.splits if_splits)

lemma prepare_perm:
  assumes "mset d' = mset d" and "distinct (map fst d)"
  shows "prepare env now sd (JObj d') db = prepare env now sd (JObj d) db"
proof -
  have g: "get d' k = get d k" for k by (simp add: get_def map_of_perm [OF assms])
  have v: "validate_body f (JObj d') = ibind (validate_body f (JObj d)) (\<lambda>(b, _, s). Inr (b, d', s))" for f
    by (auto simp: validate_body_def g map_of_perm [OF assms] invalid_def ibind_def split: option.splits json.splits list.splits sum.splits)
  show ?thesis
  proof (cases "validate_body (te_str env) (JObj d)")
    case (Inl e)
    then show ?thesis by (simp add: prepare_def v)
  next
    case (Inr x)
    then obtain b s where "validate_body (te_str env) (JObj d) = Inr (b, d, s)" using validate_dict by (cases x) blast
    then show ?thesis by (simp add: prepare_def v g) (unfold canonical_perm [OF assms], rule refl)
  qed
qed

lemma prepare_again:
  assumes "prepare env now sd body db = Inr p" and "prepare env now' sd body db' = Inr p'"
  shows "pp_batch p' = pp_batch p \<and> pp_hash p' = pp_hash p"
proof -
  obtain d where d: "validate_body (te_str env) body = Inr (pp_batch p, d, pp_samples p)"
    "pp_hash p = te_sha256 env (canonical_payload (te_float env) d)" by (rule prepare_Inr [OF assms(1)])
  obtain d' where d': "validate_body (te_str env) body = Inr (pp_batch p', d', pp_samples p')"
    "pp_hash p' = te_sha256 env (canonical_payload (te_float env) d')" by (rule prepare_Inr [OF assms(2)])
  show ?thesis using d d' by simp
qed

section \<open>Properties\<close>


text \<open>
  C14. A retry is harmless: the body of an accepted batch, sent again with its keys in any order and at any later
  time, writes nothing, and unless it is refused as such (too old, installation gone) it is answered with the
  identifiers of the first time, read back from the outbox.
\<close>

theorem ingest_idempotent:
  assumes "outbox_backed db" and "distinct (map fst d)" and "mset d' = mset d"
    and "ingest_batch env i now sd (JObj d) db = (Inr r, db1)"
  shows "(\<exists>e. prepare env now' sd (JObj d') db1 = Inl e \<and> ingest_batch env i' now' sd (JObj d') db1 = (Inl e, db1)) \<or>
    (\<exists>r'. ingest_batch env i' now' sd (JObj d') db1 = (Inr r', db1) \<and> ir_batch r' = ir_batch r \<and> ir_observations r' = ir_observations r)"
proof -
  obtain p where p: "prepare env now sd (JObj d) db = Inr p" and run: "ingest_tx env i now sd p db = (Inr r, db1)"
    using assms(4) by (auto simp: ingest_batch_def split: sum.splits)
  have same: "prepare env now' sd (JObj d') db1 = prepare env now' sd (JObj d) db1" by (rule prepare_perm [OF assms(3,2)])
  have known: "ir_batch r = pp_batch p \<and> fetch_existing_observation_ids (te_str env) (sd_tenant sd) (pp_batch p) (td_outbox db1) = Inr (ir_observations r) \<and>
      pp_batch p \<in> mb_id ` set (td_batches db1) \<and>
      (\<exists>b. find (\<lambda>b. mb_tenant b = sd_tenant sd \<and> mb_installation b = sd_installation sd \<and> mb_id b = pp_batch p) (td_batches db1) = Some b \<and>
           mb_hash b = pp_hash p)"
  proof (cases rule: ingest_tx_cases [of env i now sd p db])
    case (1 e)
    then show ?thesis using run by simp
  next
    case (2 r0)
    have "\<exists>b. find (\<lambda>b. mb_tenant b = sd_tenant sd \<and> mb_installation b = sd_installation sd \<and> mb_id b = pp_batch p) (td_batches db) = Some b \<and>
        mb_hash b = pp_hash p"
      using run 2(2) by (auto simp: ingest_tx_def split: option.splits if_splits)
    then show ?thesis using run 2 by simp
  next
    case (3 oids obs)
    have none: "\<not> (\<exists>r \<in> set (td_outbox db). ob_tenant r = sd_tenant sd \<and> ob_batch r = pp_batch p)"
      using assms(1) 3(1) unfolding outbox_backed_def by (metis imageI subsetD)
    have "find (\<lambda>b. mb_tenant b = sd_tenant sd \<and> mb_installation b = sd_installation sd \<and> mb_id b = pp_batch p) (td_batches db) = None"
      unfolding find_None_iff using 3(1) by (metis imageI)
    then have "find (\<lambda>b. mb_tenant b = sd_tenant sd \<and> mb_installation b = sd_installation sd \<and> mb_id b = pp_batch p)
        (td_batches db @ [new_batch_row now sd p]) = Some (new_batch_row now sd p)"
      by (simp add: find_append new_batch_row_def)
    then show ?thesis using run 3(4) none by (auto simp: fetch_append fetch_new new_batch_row_def)
  qed
  show ?thesis
  proof (cases "prepare env now' sd (JObj d) db1")
    case (Inl e)
    then show ?thesis using same by (simp add: ingest_batch_def)
  next
    case (Inr p')
    then have "pp_batch p' = pp_batch p" "pp_hash p' = pp_hash p" using prepare_again [OF p] by auto
    then show ?thesis using known Inr same by (auto simp: ingest_batch_def ingest_tx_def)
  qed
qed

text \<open>
  C12. An outbox row follows its lifecycle in every run of ingestions and polls: its content never changes, a
  published or dead-lettered row never changes at all, and no row is attempted more than five times.
\<close>

theorem outbox_lifecycle:
  assumes "outbox_ok db" and "r \<in> set (td_outbox db)"
  shows "\<exists>r' \<in> set (td_outbox (telemetry_run env es db)). row_content r' = row_content r \<and> (terminal r \<longrightarrow> r' = r) \<and>
     ob_attempts r \<le> ob_attempts r' \<and> ob_attempts r' \<le> 5"
proof -
  note run = run_outbox [OF assms(1), of env es]
  obtain moved fresh where m: "td_outbox (telemetry_run env es db) = moved @ fresh" "list_all2 row_moves (td_outbox db) moved"
    using run unfolding outbox_grows_def by blast
  obtain k where k: "k < length (td_outbox db)" "td_outbox db ! k = r" using assms(2) by (auto simp: in_set_conv_nth)
  have "row_moves r (moved ! k)" using list_all2_nthD [OF m(2) k(1)] k(2) by simp
  moreover have "moved ! k \<in> set (td_outbox (telemetry_run env es db))" using m k(1) by (simp add: list_all2_lengthD)
  ultimately show ?thesis using run unfolding outbox_ok_def row_moves_def row_ok_def by blast
qed

text \<open>
  C30. Ingested telemetry never reaches the observation bus: ingestion writes one outbox row per batch that holds
  the list of its observations, and the worker reads every row as a single observation, so every attempt fails.
  Whatever is ingested and however often the worker polls, nothing is ever published.
\<close>

theorem ingested_never_published:
  assumes "td_outbox db = []"
  shows "td_stream (telemetry_run env es db) = td_stream db"
  using run_combined [of db env es] assms by (simp add: combined_rows_def)

section \<open>Instances\<close>

definition ex_telemetry :: telemetry_env where
  "ex_telemetry = \<lparr>te_uuid5 = \<lambda>_ _. 42, te_str = \<lambda>_. [], te_float = \<lambda>_. [], te_sha256 = \<lambda>_. ''h'',
     te_fromiso = \<lambda>_. Some (Aware 100), te_iso = \<lambda>_. [], te_takes = \<lambda>_. True\<rparr>"

definition ex_sender :: sender where
  "ex_sender = \<lparr>sd_tenant = 7, sd_installation = 3, sd_instance = 4, sd_credential = 6\<rparr>"

definition ex_sample :: json where
  "ex_sample = JObj [(''sequence'', JInt 1), (''fact_type'', JStr ''cpu''), (''fact_value'', JObj []), (''unit'', JStr ''percent'')]"

definition ex_body :: dict where
  "ex_body = [(''batch_id'', JStr (uuid_str 5)), (''captured_at'', JStr ''now''), (''samples'', JArr [ex_sample])]"

definition ex_telemetry_db :: telemetry_db where
  "ex_telemetry_db = \<lparr>td_installations = [\<lparr>in_id = 3, in_tenant = 7, in_server = 9, in_agent_type = ''linux'',
     in_capabilities = JObj [], in_status = ''ACTIVE''\<rparr>], td_batches = [], td_samples = [], td_outbox = [], td_stream = []\<rparr>"

definition ex_poll :: publish_env where
  "ex_poll = \<lparr>pe_now = 200, pe_jitter = 0, pe_fromiso = \<lambda>_. Some (Aware 100), pe_bus_up = \<lambda>_. True\<rparr>"

lemma ex_ingest:
  "\<exists>db1. ingest_batch ex_telemetry 1 100 ex_sender (JObj ex_body) ex_telemetry_db =
     (Inr \<lparr>ir_batch = 5, ir_observations = [42], ir_ingested_at = 100\<rparr>, db1) \<and> length (td_outbox db1) = 1"
  by (simp add: ingest_batch_def prepare_def validate_body_def ex_body_def get_def format_value_def check_sample_def ex_sample_def
      parse_captured_at_def ex_telemetry_def sample_get_def int_value_def validate_captured_at_drift_def resolve_installation_def
      ex_telemetry_db_def ex_sender_def capabilities_quality_def get_default_def ingest_tx_def quality_of_def observation_id_def Let_def
      payload_hash_def)


theorem ingest_idempotent_witness:
  "\<exists>db1. snd (ingest_batch ex_telemetry 1 100 ex_sender (JObj ex_body) ex_telemetry_db) = db1 \<and>
     snd (ingest_batch ex_telemetry 2 200 ex_sender (JObj (rev ex_body)) db1) = db1"
proof -
  obtain db1 where db1: "ingest_batch ex_telemetry 1 100 ex_sender (JObj ex_body) ex_telemetry_db =
      (Inr \<lparr>ir_batch = 5, ir_observations = [42], ir_ingested_at = 100\<rparr>, db1)"
    using ex_ingest by blast
  have "outbox_backed ex_telemetry_db" "distinct (map fst ex_body)" "mset (rev ex_body) = mset ex_body"
    by (simp_all add: outbox_backed_def ex_telemetry_db_def ex_body_def)
  from ingest_idempotent [OF this db1, of 200 2] show ?thesis using db1 by auto
qed

theorem outbox_lifecycle_witness:
  "let row = (new_outbox_row 1 0 ex_sender undefined [])\<lparr>ob_status := ''published'', ob_attempts := 1\<rparr>
   in row \<in> set (td_outbox (telemetry_run ex_telemetry [Poll ex_poll] (ex_telemetry_db\<lparr>td_outbox := [row]\<rparr>)))"
proof -
  define row where "row = (new_outbox_row 1 0 ex_sender undefined [])\<lparr>ob_status := ''published'', ob_attempts := 1\<rparr>"
  have "outbox_ok (ex_telemetry_db\<lparr>td_outbox := [row]\<rparr>)" "terminal row"
    by (simp_all add: outbox_ok_def row_ok_def terminal_def row_def)
  then show ?thesis
    using outbox_lifecycle [of "ex_telemetry_db\<lparr>td_outbox := [row]\<rparr>" row ex_telemetry "[Poll ex_poll]"] unfolding row_def [symmetric] Let_def by auto
qed

theorem ingested_never_published_witness:
  "td_stream (telemetry_run ex_telemetry [Ingest 1 100 ex_sender (JObj ex_body), Poll ex_poll] ex_telemetry_db) = []"
  using ingested_never_published [of ex_telemetry_db] by (simp add: ex_telemetry_db_def del: telemetry_run_simps)

end
