(* ===== verification/Access_Tokens.thy ===== *)
theory Access_Tokens
  imports Rbac Json_Text
begin

text \<open>
  The tokens of \<open>libs/access\<close>: issuing and verifying them (\<open>security.py\<close>), the Redis blacklist
  (\<open>token_blacklist.py\<close>), and what stands in front of a handler (\<open>middleware.py\<close>, \<open>csrf.py\<close>,
  \<open>tenant_scope.py\<close>). The signature library is an argument: \<open>encode\<close> and \<open>decode\<close> over an abstract
  type of tokens. Times are seconds in Redis and in claims. Keys of Redis that have run out are kept
  with their expiry and read as absent.
\<close>

section \<open>Errors\<close>

datatype access_error =
    InvalidTokenError string
  | AuthenticationError string
  | AuthorizationError string
  | UserConflictError string
  | AccessError string
  | SecurityControlUnavailable string
  | Raised exn

type_synonym 'a access = "access_error + 'a"

definition abind :: "'a access \<Rightarrow> ('a \<Rightarrow> 'b access) \<Rightarrow> 'b access" where
  "abind r f = (case r of Inl e \<Rightarrow> Inl e | Inr x \<Rightarrow> f x)"

lemma abind_simps [simp]: "abind (Inl e) f = Inl e" "abind (Inr x) f = f x"
  by (simp_all add: abind_def)

lemma abind_Inr: "abind r f = Inr y \<longleftrightarrow> (\<exists>x. r = Inr x \<and> f x = Inr y)"
  by (cases r) auto

definition lift :: "'a result \<Rightarrow> 'a access" where
  "lift r = (case r of Inl e \<Rightarrow> Inl (Raised e) | Inr x \<Rightarrow> Inr x)"

lemma lift_simps [simp]: "lift (Inl e) = Inl (Raised e)" "lift (Inr x) = Inr x"
  by (simp_all add: lift_def)

section \<open>Placeholders (security.py)\<close>

definition upper_char :: "char \<Rightarrow> string" where
  "upper_char c = (let n = of_char c :: nat
     in if n = 223 then ''SS''
        else if 97 \<le> n \<and> n \<le> 122 \<or> 224 \<le> n \<and> n \<le> 254 \<and> n \<noteq> 247 then [char_of (n - 32)] else [c])"

definition upper :: "string \<Rightarrow> string" where
  "upper s = concat (map upper_char s)"

definition PLACEHOLDER_MARKERS :: "string list" where
  [catalogue]: "PLACEHOLDER_MARKERS = [''REPLACE-WITH'', ''CHANGE-ME'', ''YOUR-SECRET-KEY-CHANGE-IN-PRODUCTION'', ''...'']"

definition PLACEHOLDER_EXACT :: "string list" where
  [catalogue]: "PLACEHOLDER_EXACT = [''changeme'', ''change-me'', ''your-secret-key-change-in-production'']"

definition is_placeholder :: "string \<Rightarrow> bool" where
  "is_placeholder value \<longleftrightarrow> (let candidate = strip value
     in list_ex (\<lambda>m. sublist m (upper candidate)) PLACEHOLDER_MARKERS \<or> lower candidate \<in> set PLACEHOLDER_EXACT
        \<or> (prefix ''<'' candidate \<and> suffix ''>'' candidate))"

definition reject_placeholder :: "string option \<Rightarrow> unit result" where
  "reject_placeholder v = (case v of None \<Rightarrow> Inr ()
     | Some s \<Rightarrow> if is_placeholder s then Inl (ValueError ''still a placeholder from .env.example'') else Inr ())"

section \<open>Passwords\<close>

text \<open>bcrypt is an argument; both of its functions may raise \<open>ValueError\<close>.\<close>

record bcrypt =
  bc_hash :: "string \<Rightarrow> string \<Rightarrow> string option"
  bc_check :: "string \<Rightarrow> string \<Rightarrow> bool option"

definition hash_password :: "bcrypt \<Rightarrow> string \<Rightarrow> string \<Rightarrow> string result" where
  "hash_password bc salt password = (case bc_hash bc (utf8 password) salt of
     None \<Rightarrow> Inl (ValueError ''bcrypt'') | Some h \<Rightarrow> Inr h)"

definition verify_password :: "bcrypt \<Rightarrow> string \<Rightarrow> string \<Rightarrow> bool" where
  "verify_password bc password password_hash = (case bc_check bc (utf8 password) (utf8 password_hash) of
     None \<Rightarrow> False | Some b \<Rightarrow> b)"

section \<open>Tokens\<close>

text \<open>
  \<open>jl_encode headers claims key algorithm\<close> and
  \<open>jl_decode now token key algorithm audience issuer\<close>, \<open>None\<close> being a \<open>JWTError\<close>. The audience
  a token must name, none at all, or no check of it.
\<close>

datatype audience = Audience "string option" | Unchecked

record 't jwt_library =
  jl_encode :: "dict \<Rightarrow> dict \<Rightarrow> string \<Rightarrow> string \<Rightarrow> 't"
  jl_decode :: "int \<Rightarrow> 't \<Rightarrow> string \<Rightarrow> string \<Rightarrow> audience \<Rightarrow> string option \<Rightarrow> dict option"
  jl_header :: "'t \<Rightarrow> dict option"

record jwt_service =
  js_algorithm :: string
  js_secret :: "string option"
  js_private :: "string option"
  js_public :: "string option"
  js_access_minutes :: int
  js_refresh_days :: int
  js_issuer :: "string option"
  js_audience :: "string option"

definition given :: "string option \<Rightarrow> bool" where
  "given v = (case v of None \<Rightarrow> False | Some s \<Rightarrow> s \<noteq> [])"

definition check_jwt_service :: "jwt_service \<Rightarrow> jwt_service result" where
  "check_jwt_service s =
     and_then (if js_algorithm s = ''RS256'' then
                 (if \<not> given (js_private s) \<or> \<not> given (js_public s) then Inl (ValueError ''JWT_ALGORITHM=RS256 requires keys'')
                  else and_then (reject_placeholder (js_private s)) (\<lambda>_. reject_placeholder (js_public s)))
               else if js_algorithm s \<noteq> ''HS256'' then Inl (ValueError ''unsupported JWT algorithm'')
               else Inr ()) (\<lambda>_.
     and_then (if \<not> given (js_secret s) \<and> js_algorithm s = ''HS256''
               then Inl (ValueError ''JWT_ALGORITHM=HS256 requires JWT_SECRET_KEY'') else Inr ()) (\<lambda>_.
     and_then (if js_algorithm s = ''HS256'' then reject_placeholder (js_secret s) else Inr ()) (\<lambda>_. Inr s)))"

definition signing_key :: "jwt_service \<Rightarrow> string" where
  "signing_key s = (case (if js_algorithm s = ''RS256'' then js_private s else js_secret s) of None \<Rightarrow> [] | Some k \<Rightarrow> k)"

definition verifying_key :: "jwt_service \<Rightarrow> string" where
  "verifying_key s = (case (if js_algorithm s = ''RS256'' then js_public s else js_secret s) of None \<Rightarrow> [] | Some k \<Rightarrow> k)"

definition sign_claims :: "'t jwt_library \<Rightarrow> jwt_service \<Rightarrow> dict \<Rightarrow> 't" where
  "sign_claims lib s claims = jl_encode lib [] claims (signing_key s) (js_algorithm s)"

text \<open>\<open>int(t.timestamp())\<close>\<close>

definition epoch :: "datetime \<Rightarrow> int" where
  "epoch t = t div 1000000"

text \<open>Who a token is for: the identity, the tenant, the e-mail and the role.\<close>

record subject =
  sj_user :: string
  sj_tenant :: string
  sj_email :: string
  sj_role :: string

definition token_claims :: "jwt_service \<Rightarrow> datetime \<Rightarrow> uuid \<Rightarrow> subject \<Rightarrow> string \<Rightarrow> timedelta \<Rightarrow> dict" where
  "token_claims s now jti sj typ delta =
     [(''sub'', JStr (sj_user sj)), (''tenant_id'', JStr (sj_tenant sj)), (''email'', JStr (sj_email sj)),
      (''role'', JStr (sj_role sj)), (''token_type'', JStr typ), (''iat'', JInt (epoch now)),
      (''exp'', JInt (epoch (now + delta))), (''jti'', JStr (uuid_str jti))] @
     (if given (js_issuer s) then [(''iss'', JStr (the (js_issuer s)))] else []) @
     (if given (js_audience s) then [(''aud'', JStr (the (js_audience s)))] else [])"

text \<open>The callers of the program pass no extra claims.\<close>

definition create_token :: "'t jwt_library \<Rightarrow> jwt_service \<Rightarrow> datetime \<Rightarrow> uuid \<Rightarrow> subject \<Rightarrow> string \<Rightarrow> timedelta \<Rightarrow> 't" where
  "create_token lib s now jti sj typ delta = sign_claims lib s (token_claims s now jti sj typ delta)"

definition create_access_token :: "'t jwt_library \<Rightarrow> jwt_service \<Rightarrow> datetime \<Rightarrow> uuid \<Rightarrow> subject \<Rightarrow> 't" where
  "create_access_token lib s now jti sj =
     create_token lib s now jti sj ''access'' (minutes (of_int (js_access_minutes s)))"

definition create_refresh_token :: "'t jwt_library \<Rightarrow> jwt_service \<Rightarrow> datetime \<Rightarrow> uuid \<Rightarrow> subject \<Rightarrow> 't" where
  "create_refresh_token lib s now jti sj =
     create_token lib s now jti sj ''refresh'' (days (of_int (js_refresh_days s)))"

definition only_given :: "string option \<Rightarrow> string option" where
  "only_given v = (if given v then v else None)"

definition decode_token :: "'t jwt_library \<Rightarrow> jwt_service \<Rightarrow> int \<Rightarrow> 't \<Rightarrow> dict access" where
  "decode_token lib s now token =
     (case jl_decode lib now token (verifying_key s) (js_algorithm s) (Audience (only_given (js_audience s))) (only_given (js_issuer s)) of
        None \<Rightarrow> Inl (InvalidTokenError ''jwt'') | Some claims \<Rightarrow> Inr claims)"

record token_payload =
  tp_user :: string
  tp_tenant :: string
  tp_email :: string
  tp_role :: string
  tp_type :: string
  tp_exp :: int
  tp_jti :: string
  tp_installation :: string

text \<open>\<open>str(v)\<close> and \<open>int(v)\<close> (of a string: a sign and decimal digits)\<close>

definition text_of :: "(json \<Rightarrow> string) \<Rightarrow> json \<Rightarrow> string" where
  "text_of str_of v = (case v of JInt n \<Rightarrow> show_int n | JStr s \<Rightarrow> s
     | JBool b \<Rightarrow> if b then ''True'' else ''False'' | JNull \<Rightarrow> ''None'' | _ \<Rightarrow> str_of v)"

definition py_int :: "json \<Rightarrow> int option" where
  "py_int v = (case v of
       JInt n \<Rightarrow> Some n
     | JBool b \<Rightarrow> Some (if b then 1 else 0)
     | JFloat x \<Rightarrow> Some (if x < 0 then \<lceil>x\<rceil> else \<lfloor>x\<rfloor>)
     | JStr s \<Rightarrow> (case read_sign (strip s) of (sg, ds) \<Rightarrow>
          if ds \<noteq> [] \<and> list_all is_digit ds then Some (\<lfloor>sg\<rfloor> * int (digits_value ds)) else None)
     | _ \<Rightarrow> None)"

text \<open>\<open>need\<close>: a claim whose absence makes the payload invalid; \<open>strict\<close>: whether e-mail and role are needed.\<close>

definition need :: "dict \<Rightarrow> string \<Rightarrow> json access" where
  "need claims k = (case map_of claims k of None \<Rightarrow> Inl (InvalidTokenError ''token payload is missing required claims'') | Some v \<Rightarrow> Inr v)"

definition read_payload :: "bool \<Rightarrow> (json \<Rightarrow> string) \<Rightarrow> string \<Rightarrow> dict \<Rightarrow> token_payload access" where
  "read_payload strict str_of expected_type claims =
     (if get claims ''token_type'' \<noteq> JStr expected_type then Inl (InvalidTokenError (''token is not of type '' @ expected_type))
      else abind (need claims ''sub'') (\<lambda>user. abind (need claims ''tenant_id'') (\<lambda>tenant.
        abind (if strict then need claims ''email'' else Inr (get_default claims ''email'' (JStr []))) (\<lambda>email.
        abind (if strict then need claims ''role'' else Inr (get_default claims ''role'' (JStr []))) (\<lambda>role.
        abind (need claims ''exp'') (\<lambda>e.
          case py_int e of
            None \<Rightarrow> Inl (InvalidTokenError ''token payload is missing required claims'')
          | Some n \<Rightarrow> Inr \<lparr>tp_user = text_of str_of user, tp_tenant = text_of str_of tenant, tp_email = text_of str_of email,
              tp_role = text_of str_of role, tp_type = expected_type, tp_exp = n,
              tp_jti = text_of str_of (get_default claims ''jti'' (JStr [])),
              tp_installation = text_of str_of (get_default claims ''installation_id'' (JStr []))\<rparr>))))))"

definition decode_payload :: "'t jwt_library \<Rightarrow> (json \<Rightarrow> string) \<Rightarrow> jwt_service \<Rightarrow> int \<Rightarrow> string \<Rightarrow> 't \<Rightarrow> token_payload access" where
  "decode_payload lib str_of s now expected_type token =
     abind (decode_token lib s now token) (read_payload True str_of expected_type)"

definition verify_access_token :: "'t jwt_library \<Rightarrow> (json \<Rightarrow> string) \<Rightarrow> jwt_service \<Rightarrow> int \<Rightarrow> 't \<Rightarrow> token_payload access" where
  "verify_access_token lib str_of s now token = decode_payload lib str_of s now ''access'' token"

definition verify_refresh_token :: "'t jwt_library \<Rightarrow> (json \<Rightarrow> string) \<Rightarrow> jwt_service \<Rightarrow> int \<Rightarrow> 't \<Rightarrow> token_payload access" where
  "verify_refresh_token lib str_of s now token = decode_payload lib str_of s now ''refresh'' token"

section \<open>Machine tokens\<close>

record machine_jwt =
  mj_key_set :: "(string \<times> string \<times> string) list"
  mj_active_kid :: string
  mj_access_seconds :: int
  mj_refresh_hours :: int
  mj_audience :: "string option"

definition check_machine_jwt :: "machine_jwt \<Rightarrow> machine_jwt result" where
  "check_machine_jwt m =
     (if mj_key_set m = [] then Inl (ValueError ''MachineJwtService requires at least one key in key_set'')
      else if map_of (mj_key_set m) (mj_active_kid m) = None then Inl (ValueError ''active_kid not found in key_set'')
      else Inr m)"

definition machine_claims :: "datetime \<Rightarrow> uuid \<Rightarrow> string \<Rightarrow> string \<Rightarrow> string \<Rightarrow> timedelta \<Rightarrow> dict \<Rightarrow> dict" where
  "machine_claims now jti credential tenant typ delta extra =
     foldl (\<lambda>d (k, v). AList.update k v d)
       [(''sub'', JStr credential), (''tenant_id'', JStr tenant), (''token_type'', JStr typ), (''iat'', JInt (epoch now)),
        (''exp'', JInt (epoch (now + delta))), (''jti'', JStr (uuid_str jti))] extra"

text \<open>\<open>key_set[active_kid]\<close> is there by the check of the constructor.\<close>

definition create_machine_token :: "'t jwt_library \<Rightarrow> machine_jwt \<Rightarrow> datetime \<Rightarrow> uuid \<Rightarrow> string \<Rightarrow> string \<Rightarrow> string \<Rightarrow> timedelta \<Rightarrow> dict \<Rightarrow> 't result" where
  "create_machine_token lib m now jti credential tenant typ delta extra =
     (case map_of (mj_key_set m) (mj_active_kid m) of
        None \<Rightarrow> Inl (KeyError (mj_active_kid m))
      | Some (private, public) \<Rightarrow> Inr (jl_encode lib [(''alg'', JStr ''RS256''), (''kid'', JStr (mj_active_kid m)), (''typ'', JStr ''JWT'')]
          (machine_claims now jti credential tenant typ delta extra) private ''RS256''))"

definition create_machine_access_token :: "'t jwt_library \<Rightarrow> machine_jwt \<Rightarrow> datetime \<Rightarrow> uuid \<Rightarrow> string \<Rightarrow> string \<Rightarrow> dict \<Rightarrow> 't result" where
  "create_machine_access_token lib m now jti credential tenant extra =
     create_machine_token lib m now jti credential tenant ''machine_access'' (mj_access_seconds m * 1000000) extra"

definition create_machine_refresh_token :: "'t jwt_library \<Rightarrow> machine_jwt \<Rightarrow> datetime \<Rightarrow> uuid \<Rightarrow> string \<Rightarrow> string \<Rightarrow> dict \<Rightarrow> 't result" where
  "create_machine_refresh_token lib m now jti credential tenant extra =
     create_machine_token lib m now jti credential tenant ''machine_refresh'' (mj_refresh_hours m * 3600000000) extra"

definition create_registration_token :: "'t jwt_library \<Rightarrow> machine_jwt \<Rightarrow> datetime \<Rightarrow> uuid \<Rightarrow> string \<Rightarrow> string \<Rightarrow> string \<Rightarrow> 't result" where
  "create_registration_token lib m now jti credential tenant installation =
     create_machine_token lib m now jti credential tenant ''registration_token'' (minutes 10) [(''installation_id'', JStr installation)]"

definition decode_machine_token :: "'t jwt_library \<Rightarrow> machine_jwt \<Rightarrow> int \<Rightarrow> 't \<Rightarrow> dict access" where
  "decode_machine_token lib m now token =
     (case jl_header lib token of
        None \<Rightarrow> Inl (InvalidTokenError ''invalid token header'')
      | Some header \<Rightarrow> (case get header ''kid'' of
          JStr kid \<Rightarrow>
            if kid = [] then Inl (InvalidTokenError ''machine token missing required kid header'')
            else (case map_of (mj_key_set m) kid of
                None \<Rightarrow> Inl (InvalidTokenError ''unknown kid; rejecting (fail-closed)'')
              | Some (private, public) \<Rightarrow>
                  (case jl_decode lib now token public ''RS256''
                      (if given (mj_audience m) then Audience (mj_audience m) else Unchecked) None of
                     None \<Rightarrow> Inl (InvalidTokenError ''jwt'') | Some claims \<Rightarrow> Inr claims))
        | v \<Rightarrow> if \<not> truthy v then Inl (InvalidTokenError ''machine token missing required kid header'')
            else (case v of JArr _ \<Rightarrow> Inl (Raised (TypeError ''unhashable type'')) | JObj _ \<Rightarrow> Inl (Raised (TypeError ''unhashable type''))
                  | _ \<Rightarrow> Inl (InvalidTokenError ''unknown kid; rejecting (fail-closed)''))))"

definition verify_machine_token :: "'t jwt_library \<Rightarrow> (json \<Rightarrow> string) \<Rightarrow> machine_jwt \<Rightarrow> int \<Rightarrow> string \<Rightarrow> 't \<Rightarrow> token_payload access" where
  "verify_machine_token lib str_of m now expected_type token =
     abind (decode_machine_token lib m now token) (read_payload False str_of expected_type)"

section \<open>Redis (token_blacklist.py)\<close>

datatype redis_kind = Connected | Unreachable | NotInstalled

text \<open>
  \<open>rd_setnx_ex\<close>: whether \<open>setnx\<close> of the client takes an expiry, as the protocol class of the module says.
\<close>

record redis =
  rd_kind :: redis_kind
  rd_setnx_ex :: bool
  rd_keys :: "(string \<times> int) list"

definition alive :: "redis \<Rightarrow> int \<Rightarrow> string \<Rightarrow> bool" where
  "alive r now key = (case map_of (rd_keys r) key of None \<Rightarrow> False | Some e \<Rightarrow> now < e)"

definition redis_set :: "int \<Rightarrow> string \<Rightarrow> int \<Rightarrow> redis \<Rightarrow> redis" where
  "redis_set now key ttl r = r\<lparr>rd_keys := AList.update key (now + ttl) (rd_keys r)\<rparr>"

definition revocation_ttl :: "int \<Rightarrow> int \<Rightarrow> int" where
  "revocation_ttl expires_at now = max (expires_at - now) 60"

text \<open>Every exception of \<open>set\<close> is logged and swallowed.\<close>

definition revoke :: "int \<Rightarrow> string \<Rightarrow> int \<Rightarrow> redis \<Rightarrow> redis" where
  "revoke now jti expires_at r = (if rd_kind r = Connected
     then redis_set now (''jwt:blacklist:'' @ jti) (revocation_ttl expires_at now) r else r)"

definition is_revoked :: "int \<Rightarrow> string \<Rightarrow> redis \<Rightarrow> bool access" where
  "is_revoked now jti r = (if jti = [] then Inr False
     else case rd_kind r of
         Connected \<Rightarrow> Inr (alive r now (''jwt:blacklist:'' @ jti))
       | NotInstalled \<Rightarrow> Inr False
       | Unreachable \<Rightarrow> Inl (SecurityControlUnavailable jti))"

definition is_revoked_non_critical :: "int \<Rightarrow> string \<Rightarrow> redis \<Rightarrow> bool access" where
  "is_revoked_non_critical now jti r = (if jti = [] then Inr False
     else case rd_kind r of Connected \<Rightarrow> Inr (alive r now (''jwt:blacklist:'' @ jti)) | _ \<Rightarrow> Inr False)"

definition consume_refresh_token :: "int \<Rightarrow> string \<Rightarrow> int \<Rightarrow> redis \<Rightarrow> bool access \<times> redis" where
  "consume_refresh_token now jti expires_at r =
     (let key = ''jwt:refresh:'' @ jti
      in if rd_kind r \<noteq> Connected \<or> \<not> rd_setnx_ex r then (Inl (SecurityControlUnavailable jti), r)
         else if alive r now key then (Inr False, r)
         else (Inr True, redis_set now key (revocation_ttl expires_at now) r))"

section \<open>In front of a handler\<close>

text \<open>\<open>jwt_auth_middleware\<close>: the payload handed to the handler; \<open>None\<close> for a public path.\<close>

definition bearer_token :: "string \<Rightarrow> string access" where
  "bearer_token header = (if prefix ''bearer '' (lower header)
     then Inr (strip (drop (Suc (length (takeWhile (\<lambda>c. c \<noteq> CHR '' '') header))) header))
     else Inl (InvalidTokenError ''missing bearer token''))"

definition jwt_auth_middleware :: "string jwt_library \<Rightarrow> (json \<Rightarrow> string) \<Rightarrow> jwt_service \<Rightarrow> string list \<Rightarrow> redis option \<Rightarrow>
    int \<Rightarrow> string \<Rightarrow> string \<Rightarrow> token_payload option access" where
  "jwt_auth_middleware lib str_of s public_paths blacklist now path header =
     (if path \<in> set ([''/health'', ''/metrics''] @ public_paths) then Inr None
      else abind (bearer_token header) (\<lambda>token.
        abind (verify_access_token lib str_of s now token) (\<lambda>payload.
        case blacklist of
          None \<Rightarrow> Inr (Some payload)
        | Some r \<Rightarrow>
            if tp_jti payload = [] then Inr (Some payload)
            else (case is_revoked now (tp_jti payload) r of
                Inl _ \<Rightarrow> Inl (InvalidTokenError ''security control unavailable; token cannot be verified'')
              | Inr True \<Rightarrow> Inl (InvalidTokenError ''token has been revoked'')
              | Inr False \<Rightarrow> Inr (Some payload)))))"

text \<open>
  \<open>csrf_protection_middleware\<close>: whether the handler runs. \<open>referer_origin\<close> is what \<open>urlparse\<close>
  makes of a referer with a scheme and a host.
\<close>

record http_request =
  rq_path :: string
  rq_origin :: "string option"
  rq_referer :: "string option"
  rq_proto :: "string option"
  rq_host :: "string option"

definition CSRF_PROTECTED_PATHS :: "string list" where
  [catalogue]: "CSRF_PROTECTED_PATHS = [''/api/v1/auth/refresh'', ''/api/v1/auth/logout'']"

definition request_origin :: "(string \<Rightarrow> string option) \<Rightarrow> http_request \<Rightarrow> string option" where
  "request_origin referer_origin rq = (if given (rq_origin rq) then rq_origin rq
     else if given (rq_referer rq) then referer_origin (the (rq_referer rq)) else None)"

definition expected_origin :: "http_request \<Rightarrow> string" where
  "expected_origin rq = (case rq_proto rq of None \<Rightarrow> ''http'' | Some p \<Rightarrow> p) @ ''://'' @
     (case rq_host rq of None \<Rightarrow> ''localhost'' | Some h \<Rightarrow> h)"

definition csrf_allows :: "(string \<Rightarrow> string option) \<Rightarrow> string list \<Rightarrow> http_request \<Rightarrow> bool" where
  "csrf_allows referer_origin extra rq \<longleftrightarrow> rq_path rq \<notin> set CSRF_PROTECTED_PATHS \<or>
     (case request_origin referer_origin rq of None \<Rightarrow> True | Some o' \<Rightarrow> o' = expected_origin rq \<or> o' \<in> set extra)"

text \<open>\<open>AuthorizationContext\<close>\<close>

record authorization_context =
  ac_user :: string
  ac_tenant :: string
  ac_role :: string
  ac_effective :: string

definition from_token_payload :: "token_payload \<Rightarrow> authorization_context" where
  "from_token_payload p = \<lparr>ac_user = tp_user p, ac_tenant = tp_tenant p, ac_role = tp_role p, ac_effective = tp_tenant p\<rparr>"

definition resolve :: "authorization_context \<Rightarrow> string option \<Rightarrow> string result" where
  "resolve c requested = (case requested of None \<Rightarrow> Inr (ac_effective c)
     | Some target \<Rightarrow>
         if target = ac_tenant c then Inr target
         else and_then (cross_tenant_allowed (ac_role c)) (\<lambda>ok. if ok then Inr target else Inl TenantIsolationError))"

definition validate_same_tenant :: "authorization_context \<Rightarrow> string \<Rightarrow> unit result" where
  "validate_same_tenant c resource_tenant = (if resource_tenant = ac_effective c then Inr () else Inl TenantIsolationError)"

text \<open>The cookie of the refresh token (\<open>cookie_auth.py\<close>); a browser sends it to the paths below its own.\<close>

record cookie_config =
  ck_secure :: bool
  ck_samesite :: string
  ck_max_age :: int
  ck_path :: string

definition DEFAULT_REFRESH_COOKIE_CONFIG :: cookie_config where
  "DEFAULT_REFRESH_COOKIE_CONFIG = \<lparr>ck_secure = True, ck_samesite = ''Lax'', ck_max_age = 604800, ck_path = ''/api/v1/auth/refresh''\<rparr>"

text \<open>RFC 6265, path matching: what the browser does with the path of a cookie.\<close>

definition path_matches :: "string \<Rightarrow> string \<Rightarrow> bool" where
  "path_matches cookie_path path \<longleftrightarrow> path = cookie_path \<or>
     (prefix cookie_path path \<and> (suffix ''/'' cookie_path \<or> prefix ''/'' (drop (length cookie_path) path)))"

section \<open>What the signature library does\<close>

text \<open>
  The documented behaviour the services rely on: a token decodes with the key that belongs to the one it was
  signed with, to the claims that were signed, exactly as long as it has not expired and its audience and
  issuer are the expected ones. \<open>pair\<close> holds the RSA key pairs.
\<close>

definition claims_valid :: "int \<Rightarrow> audience \<Rightarrow> string option \<Rightarrow> dict \<Rightarrow> bool" where
  "claims_valid now aud iss claims \<longleftrightarrow>
     (case get claims ''exp'' of JInt e \<Rightarrow> now \<le> e | _ \<Rightarrow> True) \<and>
     (case aud of Unchecked \<Rightarrow> True | Audience a \<Rightarrow> get claims ''aud'' = JNull \<or> get claims ''aud'' = (case a of None \<Rightarrow> JNull | Some x \<Rightarrow> JStr x)) \<and>
     (case iss of None \<Rightarrow> True | Some i \<Rightarrow> get claims ''iss'' = JStr i)"

definition key_matches :: "(string \<Rightarrow> string \<Rightarrow> bool) \<Rightarrow> string \<Rightarrow> string \<Rightarrow> string \<Rightarrow> bool" where
  "key_matches pair alg k k' \<longleftrightarrow> (if alg = ''RS256'' then pair k k' else k = k')"

definition jwt_law :: "'t jwt_library \<Rightarrow> (string \<Rightarrow> string \<Rightarrow> bool) \<Rightarrow> bool" where
  "jwt_law lib pair \<longleftrightarrow> (\<forall>now h claims k k' alg aud iss. key_matches pair alg k k' \<longrightarrow>
     jl_decode lib now (jl_encode lib h claims k alg) k' alg aud iss =
       (if claims_valid now aud iss claims then Some claims else None))"

text \<open>A library with this behaviour: the token is the claims and how they were signed.\<close>

definition plain_jwt :: "(dict \<times> dict \<times> string \<times> string) jwt_library" where
  "plain_jwt = \<lparr>jl_encode = \<lambda>h claims k alg. (h, claims, k, alg),
     jl_decode = \<lambda>now (h, claims, k, alg) k' alg' aud iss.
       (if alg' = alg \<and> k' = k \<and> claims_valid now aud iss claims then Some claims else None),
     jl_header = \<lambda>(h, claims, k, alg). Some h\<rparr>"

lemma plain_jwt_law: "jwt_law plain_jwt (=)"
  by (simp add: jwt_law_def plain_jwt_def key_matches_def)

lemma claims_of_token:
  "get (token_claims s now jti sj typ delta) ''sub'' = JStr (sj_user sj)"
  "get (token_claims s now jti sj typ delta) ''token_type'' = JStr typ"
  "get (token_claims s now jti sj typ delta) ''exp'' = JInt (epoch (now + delta))"
  "get (token_claims s now jti sj typ delta) ''iss'' = (if given (js_issuer s) then JStr (the (js_issuer s)) else JNull)"
  "get (token_claims s now jti sj typ delta) ''aud'' = (if given (js_audience s) then JStr (the (js_audience s)) else JNull)"
  by (simp_all add: token_claims_def get_def)

lemma given_Some: "given v \<Longrightarrow> v = Some (the v)"
  by (auto simp: given_def split: option.splits)

lemma claims_valid_token:
  "claims_valid t (Audience (only_given (js_audience s))) (only_given (js_issuer s)) (token_claims s now jti sj typ delta)
     \<longleftrightarrow> t \<le> epoch (now + delta)"
  by (auto simp: claims_valid_def claims_of_token only_given_def split: option.splits dest: given_Some)

lemma read_own_payload:
  "read_payload True str_of expected (token_claims s now jti sj typ delta) =
     (if expected = typ then Inr \<lparr>tp_user = sj_user sj, tp_tenant = sj_tenant sj, tp_email = sj_email sj, tp_role = sj_role sj,
        tp_type = typ, tp_exp = epoch (now + delta), tp_jti = uuid_str jti, tp_installation = []\<rparr>
      else Inl (InvalidTokenError (''token is not of type '' @ expected)))"
  by (auto simp: read_payload_def claims_of_token(2)) (simp_all add: token_claims_def need_def get_default_def text_of_def py_int_def)

lemma decode_own_token:
  assumes "jwt_law lib pair" and "key_matches pair (js_algorithm s) (signing_key s) (verifying_key s)"
  shows "decode_payload lib str_of s t expected (create_token lib s now jti sj typ delta) =
    (if t \<le> epoch (now + delta)
     then (if expected = typ then Inr \<lparr>tp_user = sj_user sj, tp_tenant = sj_tenant sj, tp_email = sj_email sj, tp_role = sj_role sj,
             tp_type = typ, tp_exp = epoch (now + delta), tp_jti = uuid_str jti, tp_installation = []\<rparr>
           else Inl (InvalidTokenError (''token is not of type '' @ expected)))
     else Inl (InvalidTokenError ''jwt''))"
  using assms by (simp add: decode_payload_def decode_token_def create_token_def sign_claims_def jwt_law_def claims_valid_token read_own_payload)

lemma service_keys_match:
  assumes "check_jwt_service s = Inr s'" and "js_algorithm s = ''RS256'' \<longrightarrow> pair (the (js_private s)) (the (js_public s))"
  shows "key_matches pair (js_algorithm s) (signing_key s) (verifying_key s)"
proof (cases "js_algorithm s = ''RS256''")
  case True
  then have "given (js_private s)" "given (js_public s)" using assms(1) by (auto simp: check_jwt_service_def split: if_splits)
  then show ?thesis using True assms(2) by (auto simp: key_matches_def signing_key_def verifying_key_def dest!: given_Some split: option.splits)
qed (simp add: key_matches_def signing_key_def verifying_key_def)

section \<open>Properties\<close>

text \<open>
  C16. A token is good for one purpose and one time: with a service the constructor accepts, an access token
  verifies as an access token to the identity, tenant and role it was issued for, exactly until it expires, and
  never verifies as a refresh token; a refresh token likewise.
\<close>

theorem token_roundtrip:
  assumes "jwt_law lib pair" and "check_jwt_service s = Inr s'"
    and "js_algorithm s = ''RS256'' \<longrightarrow> pair (the (js_private s)) (the (js_public s))"
  shows "(verify_access_token lib str_of s t (create_access_token lib s now jti sj) =
       (let e = epoch (now + minutes (of_int (js_access_minutes s)))
        in if t \<le> e then Inr \<lparr>tp_user = sj_user sj, tp_tenant = sj_tenant sj, tp_email = sj_email sj, tp_role = sj_role sj,
             tp_type = ''access'', tp_exp = e, tp_jti = uuid_str jti, tp_installation = []\<rparr>
           else Inl (InvalidTokenError ''jwt''))) \<and>
     (\<exists>m. verify_refresh_token lib str_of s t (create_access_token lib s now jti sj) = Inl (InvalidTokenError m)) \<and>
     (verify_refresh_token lib str_of s t (create_refresh_token lib s now jti sj) =
       (let e = epoch (now + days (of_int (js_refresh_days s)))
        in if t \<le> e then Inr \<lparr>tp_user = sj_user sj, tp_tenant = sj_tenant sj, tp_email = sj_email sj, tp_role = sj_role sj,
             tp_type = ''refresh'', tp_exp = e, tp_jti = uuid_str jti, tp_installation = []\<rparr>
           else Inl (InvalidTokenError ''jwt''))) \<and>
     (\<exists>m. verify_access_token lib str_of s t (create_refresh_token lib s now jti sj) = Inl (InvalidTokenError m))"
  using decode_own_token [OF assms(1) service_keys_match [where pair = pair, OF assms(2,3)]]
  by (simp add: verify_access_token_def verify_refresh_token_def create_access_token_def create_refresh_token_def Let_def)

definition ex_jwt_service :: jwt_service where
  "ex_jwt_service = \<lparr>js_algorithm = ''HS256'', js_secret = Some ''k3y'', js_private = None, js_public = None,
     js_access_minutes = 15, js_refresh_days = 7, js_issuer = None, js_audience = None\<rparr>"

lemma ex_jwt_service_ok: "check_jwt_service ex_jwt_service = Inr ex_jwt_service"
  by (simp add: check_jwt_service_def ex_jwt_service_def given_def reject_placeholder_def is_placeholder_def
      PLACEHOLDER_MARKERS_def PLACEHOLDER_EXACT_def strip_def is_space_def upper_def upper_char_def lower_def lower_char_def
      sublist_code suffix_def prefix_def Let_def)

theorem token_roundtrip_witness:
  "\<exists>p. verify_access_token plain_jwt (\<lambda>_. []) ex_jwt_service 900 (create_access_token plain_jwt ex_jwt_service 0 1
       \<lparr>sj_user = ''u'', sj_tenant = ''t'', sj_email = ''e'', sj_role = ''viewer''\<rparr>) = Inr p \<and> tp_role p = ''viewer''"
  using token_roundtrip [OF plain_jwt_law ex_jwt_service_ok, of "\<lambda>_. []" 900 0 1]
  by (simp add: ex_jwt_service_def epoch_def)

text \<open>
  The blacklist fails closed: without a reachable Redis no token that carries an identifier passes the
  middleware, and a token revoked while Redis was reachable does not pass before it has expired.
\<close>

lemma revoked_access_rejected:
  assumes "path \<notin> {''/health'', ''/metrics''} \<union> set public_paths"
    and "bearer_token header = Inr token" and "verify_access_token lib str_of s now token = Inr p" and "tp_jti p \<noteq> []"
  shows "(rd_kind r = Unreachable \<longrightarrow> (\<exists>m. jwt_auth_middleware lib str_of s public_paths (Some r) now path header = Inl (InvalidTokenError m))) \<and>
    (rd_kind r = Connected \<and> t0 \<le> now \<and> now < tp_exp p \<longrightarrow>
      jwt_auth_middleware lib str_of s public_paths (Some (revoke t0 (tp_jti p) (tp_exp p) r)) now path header =
        Inl (InvalidTokenError ''token has been revoked''))"
proof -
  have "now < t0 + revocation_ttl (tp_exp p) t0" if "now < tp_exp p" using that by (simp add: revocation_ttl_def)
  then show ?thesis using assms by (simp add: jwt_auth_middleware_def is_revoked_def revoke_def redis_set_def alive_def)
qed

end
