(* ===== verification/Users.thy ===== *)
theory Users
  imports Access_Tokens "HOL-Library.Product_Lexorder" "HOL-Library.Char_ord" "HOL-Library.List_Lexorder"
begin

text \<open>
  The user service: the users and tenants of \<open>libs/access/users.py\<close>, the \<open>AuthService\<close> of
  \<open>apps/services/user-service/src/service.py\<close> and the authentication of its HTTP surface
  (\<open>health.py\<close>). Every operation takes the current time and the identifiers it draws, and returns its
  outcome and the service after it; the queries are over lists of rows. The rate limiter in front of the
  login is a component of its own.
\<close>

section \<open>Users and tenants (users.py)\<close>

record user =
  us_id :: uuid
  us_tenant :: uuid
  us_email :: string
  us_password_hash :: string
  us_name :: "string option"
  us_role :: string
  us_active :: bool
  us_created_at :: datetime
  us_updated_at :: datetime

record tenant =
  tn_id :: uuid
  tn_name :: string
  tn_slug :: string
  tn_settings :: dict
  tn_created_at :: datetime

definition get_by_email :: "string \<Rightarrow> user list \<Rightarrow> user option" where
  "get_by_email email t = find (\<lambda>u. us_email u = email) t"

definition get_by_id :: "uuid \<Rightarrow> user list \<Rightarrow> user option" where
  "get_by_id i t = find (\<lambda>u. us_id u = i) t"

definition list_by_tenant :: "uuid \<Rightarrow> user list \<Rightarrow> user list" where
  "list_by_tenant tenant t = sort_key (\<lambda>u. (us_created_at u, us_email u)) (filter (\<lambda>u. us_tenant u = tenant) t)"

definition get_tenant_by_id :: "uuid \<Rightarrow> tenant list \<Rightarrow> tenant option" where
  "get_tenant_by_id i t = find (\<lambda>r. tn_id r = i) t"

text \<open>
  \<open>INSERT ... ON CONFLICT (email) DO NOTHING\<close>; an unknown tenant violates the foreign key and a
  used identifier the primary key. \<open>fits\<close>: the widths of the columns.
\<close>

definition fits :: "string option \<Rightarrow> nat \<Rightarrow> bool" where
  "fits v n \<longleftrightarrow> (case v of None \<Rightarrow> True | Some s \<Rightarrow> length s \<le> n)"

definition insert_user :: "uuid \<Rightarrow> datetime \<Rightarrow> uuid \<Rightarrow> string \<Rightarrow> string \<Rightarrow> string option \<Rightarrow> string \<Rightarrow> tenant list \<Rightarrow> user list \<Rightarrow>
    (user option \<times> user list) result" where
  "insert_user i now tenant email password_hash name role tenants t =
     (let u = \<lparr>us_id = i, us_tenant = tenant, us_email = email, us_password_hash = password_hash, us_name = name,
                us_role = role, us_active = True, us_created_at = now, us_updated_at = now\<rparr>
      in if i \<in> us_id ` set t \<or> \<not> fits (Some email) 255 \<or> \<not> fits name 100 then Inl (PassedThrough ''database'')
         else if email \<in> us_email ` set t then Inr (None, t)
         else if tenant \<notin> tn_id ` set tenants then Inl (PassedThrough ''database'')
         else Inr (Some u, t @ [u]))"

definition column_or_old :: "'a option \<Rightarrow> 'a \<Rightarrow> 'a" where
  "column_or_old v old = (case v of None \<Rightarrow> old | Some x \<Rightarrow> x)"

definition change_user :: "uuid \<Rightarrow> (user \<Rightarrow> user) \<Rightarrow> user list \<Rightarrow> user option \<times> user list" where
  "change_user i f t = (let t1 = map (\<lambda>u. if us_id u = i then f u else u) t in (get_by_id i t1, t1))"

definition update_user_row :: "datetime \<Rightarrow> uuid \<Rightarrow> string option \<Rightarrow> string option \<Rightarrow> bool option \<Rightarrow> user list \<Rightarrow> user option \<times> user list" where
  "update_user_row now i name role active t = change_user i (\<lambda>u. u\<lparr>us_name := (case name of None \<Rightarrow> us_name u | Some n \<Rightarrow> Some n),
     us_role := column_or_old role (us_role u), us_active := column_or_old active (us_active u), us_updated_at := now\<rparr>) t"

definition deactivate_user_row :: "datetime \<Rightarrow> uuid \<Rightarrow> user list \<Rightarrow> user option \<times> user list" where
  "deactivate_user_row now i t = change_user i (\<lambda>u. u\<lparr>us_active := False, us_updated_at := now\<rparr>) t"

section \<open>The service (service.py)\<close>

record auth_service =
  au_users :: "user list"
  au_tenants :: "tenant list"
  au_redis :: "redis option"
  au_logins :: nat
  au_login_failures :: nat
  au_tokens_issued :: nat
  au_tokens_revoked :: nat
  au_errors :: nat
  au_users_created :: nat
  au_by_role :: "string \<Rightarrow> nat"
  au_last_login_at :: "datetime option"

record 't auth_env =
  ae_lib :: "'t jwt_library"
  ae_jwt :: jwt_service
  ae_str :: "json \<Rightarrow> string"
  ae_bcrypt :: bcrypt

record 't token_pair =
  pt_access :: 't
  pt_refresh :: 't
  pt_expires_in :: int

definition subject_of :: "user \<Rightarrow> subject" where
  "subject_of u = \<lparr>sj_user = uuid_str (us_id u), sj_tenant = uuid_str (us_tenant u), sj_email = us_email u, sj_role = us_role u\<rparr>"

definition issue_token_pair :: "'t auth_env \<Rightarrow> datetime \<Rightarrow> uuid \<Rightarrow> uuid \<Rightarrow> user \<Rightarrow> auth_service \<Rightarrow> 't token_pair access \<times> auth_service" where
  "issue_token_pair env now j1 j2 u s =
     (Inr \<lparr>pt_access = create_access_token (ae_lib env) (ae_jwt env) now j1 (subject_of u),
        pt_refresh = create_refresh_token (ae_lib env) (ae_jwt env) now j2 (subject_of u),
        pt_expires_in = js_access_minutes (ae_jwt env) * 60\<rparr>,
      s\<lparr>au_tokens_issued := au_tokens_issued s + 2\<rparr>)"

definition login_failure :: "string \<Rightarrow> auth_service \<Rightarrow> 'a access \<times> auth_service" where
  "login_failure msg s = (Inl (AuthenticationError msg), s\<lparr>au_login_failures := au_login_failures s + 1\<rparr>)"

definition counted_error :: "access_error \<Rightarrow> auth_service \<Rightarrow> 'a access \<times> auth_service" where
  "counted_error e s = (Inl e, s\<lparr>au_errors := au_errors s + 1\<rparr>)"

definition login :: "'t auth_env \<Rightarrow> datetime \<Rightarrow> uuid \<Rightarrow> uuid \<Rightarrow> string \<Rightarrow> string \<Rightarrow> string option \<Rightarrow> auth_service \<Rightarrow>
    't token_pair access \<times> auth_service" where
  "login env now j1 j2 email password tenant s =
     (case get_by_email email (au_users s) of
        None \<Rightarrow> login_failure ''invalid credentials'' s
      | Some u \<Rightarrow>
          if \<not> verify_password (ae_bcrypt env) password (us_password_hash u) then login_failure ''invalid credentials'' s
          else if \<not> us_active u then login_failure ''user is deactivated'' s
          else if tenant \<noteq> None \<and> tenant \<noteq> Some (uuid_str (us_tenant u))
            then login_failure ''tenant assertion does not match the user's tenant'' s
          else issue_token_pair env now j1 j2 u (s\<lparr>au_logins := au_logins s + 1, au_last_login_at := Some now,
                 au_by_role := (au_by_role s)(us_role u := au_by_role s (us_role u) + 1)\<rparr>))"

text \<open>\<open>uuid.UUID(text)\<close>\<close>

definition uuid_of :: "string \<Rightarrow> uuid access" where
  "uuid_of t = (case parse_uuid t of None \<Rightarrow> Inl (Raised (ValueError ''badly formed hexadecimal UUID string'')) | Some u \<Rightarrow> Inr u)"

definition refresh :: "'t auth_env \<Rightarrow> datetime \<Rightarrow> uuid \<Rightarrow> uuid \<Rightarrow> 't \<Rightarrow> auth_service \<Rightarrow> 't token_pair access \<times> auth_service" where
  "refresh env now j1 j2 token s =
     (case verify_refresh_token (ae_lib env) (ae_str env) (ae_jwt env) (epoch now) token of
        Inl e \<Rightarrow> (Inl e, s)
      | Inr p \<Rightarrow> (case uuid_of (tp_user p) of
          Inl e \<Rightarrow> (Inl e, s)
        | Inr i \<Rightarrow> (case get_by_id i (au_users s) of
            None \<Rightarrow> counted_error (AuthenticationError ''refresh token references an unknown user'') s
          | Some u \<Rightarrow>
              if \<not> us_active u then counted_error (AuthenticationError ''refresh token references an unknown user'') s
              else if au_redis s = None \<or> tp_jti p = [] then issue_token_pair env now j1 j2 u s
              else (case consume_refresh_token (epoch now) (tp_jti p) (tp_exp p) (the (au_redis s)) of
                  (Inl e, r) \<Rightarrow> (Inl e, s\<lparr>au_redis := Some r\<rparr>)
                | (Inr False, r) \<Rightarrow> counted_error (AuthenticationError ''refresh token has already been used (replay detected)'')
                      (s\<lparr>au_redis := Some r\<rparr>)
                | (Inr True, r) \<Rightarrow> issue_token_pair env now j1 j2 u (s\<lparr>au_redis := Some r\<rparr>)))))"

text \<open>\<open>revoke\<close> swallows every exception, so the branches that handle one are never taken.\<close>

definition logout :: "'t auth_env \<Rightarrow> datetime \<Rightarrow> 't \<Rightarrow> auth_service \<Rightarrow> unit access \<times> auth_service" where
  "logout env now token s =
     (case verify_refresh_token (ae_lib env) (ae_str env) (ae_jwt env) (epoch now) token of
        Inl (InvalidTokenError _) \<Rightarrow> (Inr (), s)
      | Inl e \<Rightarrow> (Inl e, s)
      | Inr p \<Rightarrow>
          if au_redis s = None \<or> tp_jti p = [] then (Inr (), s)
          else (Inr (), s\<lparr>au_redis := Some (revoke (epoch now) (tp_jti p) (tp_exp p) (the (au_redis s))),
                          au_tokens_revoked := au_tokens_revoked s + 1\<rparr>))"

definition validate_role :: "string \<Rightarrow> unit access" where
  "validate_role role = lift (require_valid_role role)"

definition can_create :: "string \<Rightarrow> bool" where
  "can_create role \<longleftrightarrow> role \<in> {''admin'', ''superadmin''}"

definition create_user :: "'t auth_env \<Rightarrow> datetime \<Rightarrow> uuid \<Rightarrow> string \<Rightarrow> token_payload \<Rightarrow> string \<Rightarrow> string \<Rightarrow> string option \<Rightarrow> string \<Rightarrow>
    string option \<Rightarrow> auth_service \<Rightarrow> user access \<times> auth_service" where
  "create_user env now i salt actor email password name role tenant s =
     (case validate_role role of
        Inl e \<Rightarrow> (Inl e, s)
      | Inr _ \<Rightarrow>
          if \<not> can_create (tp_role actor) then counted_error (AuthorizationError ''may not create users'') s
          else (case abind (lift (tenant_scope (tp_role actor) (tp_tenant actor) tenant)) uuid_of of
              Inl e \<Rightarrow> (Inl e, s)
            | Inr target \<Rightarrow> (case lift (hash_password (ae_bcrypt env) salt password) of
                Inl e \<Rightarrow> (Inl e, s)
              | Inr h \<Rightarrow> (case insert_user i now target email h name role (au_tenants s) (au_users s) of
                  Inl e \<Rightarrow> (Inl (Raised e), s)
                | Inr (None, t) \<Rightarrow> counted_error (UserConflictError email) (s\<lparr>au_users := t\<rparr>)
                | Inr (Some u, t) \<Rightarrow> (Inr u, s\<lparr>au_users := t, au_users_created := au_users_created s + 1,
                      au_by_role := (au_by_role s)(us_role u := au_by_role s (us_role u) + 1)\<rparr>)))))"

definition list_users :: "token_payload \<Rightarrow> string option \<Rightarrow> auth_service \<Rightarrow> user list access \<times> auth_service" where
  "list_users actor tenant s =
     (if \<not> can_create (tp_role actor) then counted_error (AuthorizationError ''may not list users'') s
      else (abind (abind (lift (tenant_scope (tp_role actor) (tp_tenant actor) tenant)) uuid_of)
              (\<lambda>target. Inr (list_by_tenant target (au_users s))), s))"

definition list_tenants :: "token_payload \<Rightarrow> auth_service \<Rightarrow> tenant list access \<times> auth_service" where
  "list_tenants actor s =
     (if tp_role actor \<noteq> ''superadmin'' then counted_error (AuthorizationError ''may not list tenants'') s
      else (Inr (sort_key (\<lambda>r. (tn_created_at r, tn_name r)) (au_tenants s)), s))"

definition get_tenant :: "token_payload \<Rightarrow> string \<Rightarrow> auth_service \<Rightarrow> tenant option access \<times> auth_service" where
  "get_tenant actor tenant s =
     (if tp_role actor \<noteq> ''superadmin'' then counted_error (AuthorizationError ''may not read tenants'') s
      else (abind (uuid_of tenant) (\<lambda>i. Inr (get_tenant_by_id i (au_tenants s))), s))"

text \<open>The checks that update and deactivation share: the target user.\<close>

definition target_user :: "token_payload \<Rightarrow> string \<Rightarrow> auth_service \<Rightarrow> user access \<times> auth_service" where
  "target_user actor user_id s =
     (if \<not> can_create (tp_role actor) then counted_error (AuthorizationError ''may not change users'') s
      else (case uuid_of user_id of
          Inl e \<Rightarrow> (Inl e, s)
        | Inr i \<Rightarrow> (case get_by_id i (au_users s) of
            None \<Rightarrow> (Inl (AccessError ''user not found''), s)
          | Some u \<Rightarrow>
              if uuid_str (us_tenant u) \<noteq> tp_tenant actor \<and> tp_role actor \<noteq> ''superadmin''
              then counted_error (AuthorizationError ''cannot change users in another tenant'') s
              else (Inr u, s))))"

definition update_user :: "datetime \<Rightarrow> token_payload \<Rightarrow> string \<Rightarrow> string option \<Rightarrow> string option \<Rightarrow> auth_service \<Rightarrow> user access \<times> auth_service" where
  "update_user now actor user_id name role s =
     (case target_user actor user_id s of
        (Inl e, s1) \<Rightarrow> (Inl e, s1)
      | (Inr u, s1) \<Rightarrow> (case (case role of None \<Rightarrow> Inr () | Some r \<Rightarrow> validate_role r) of
            Inl e \<Rightarrow> (Inl e, s1)
          | Inr _ \<Rightarrow> if \<not> fits name 100 then (Inl (Raised (PassedThrough ''database'')), s1) else (case update_user_row now (us_id u) name role None (au_users s1) of
              (None, t) \<Rightarrow> (Inl (AccessError ''user not found''), s1\<lparr>au_users := t\<rparr>)
            | (Some u', t) \<Rightarrow> (Inr u', s1\<lparr>au_users := t\<rparr>))))"

definition deactivate_user :: "datetime \<Rightarrow> token_payload \<Rightarrow> string \<Rightarrow> auth_service \<Rightarrow> user access \<times> auth_service" where
  "deactivate_user now actor user_id s =
     (case target_user actor user_id s of
        (Inl e, s1) \<Rightarrow> (Inl e, s1)
      | (Inr u, s1) \<Rightarrow> (case deactivate_user_row now (us_id u) (au_users s1) of
            (None, t) \<Rightarrow> (Inl (AccessError ''user not found''), s1\<lparr>au_users := t\<rparr>)
          | (Some u', t) \<Rightarrow> (Inr u', s1\<lparr>au_users := t\<rparr>)))"

definition authorize :: "string \<Rightarrow> string \<Rightarrow> string option \<Rightarrow> string option \<Rightarrow> string option \<Rightarrow> bool result" where
  "authorize role permission risk tenant actor_tenant =
     and_then (if permission \<in> {''read'', ''ack'', ''propose'', ''execute'', ''define_policy''} then can role permission
               else if permission = ''commit'' then commit_allowed role risk
               else Inl (ValueError ''unknown action permission'')) (\<lambda>ok.
       if \<not> ok then Inr False
       else if given tenant \<and> given actor_tenant \<and> tenant \<noteq> actor_tenant then cross_tenant_allowed role
       else Inr True)"

text \<open>\<open>UserServer._authenticate\<close>: the blacklist is not consulted.\<close>

definition authenticate :: "string auth_env \<Rightarrow> datetime \<Rightarrow> string \<Rightarrow> token_payload access" where
  "authenticate env now header = abind (bearer_token header)
     (\<lambda>token. verify_access_token (ae_lib env) (ae_str env) (ae_jwt env) (epoch now) token)"

section \<open>Runs\<close>

datatype 't auth_event =
    Login datetime uuid uuid string string "string option"
  | Refresh datetime uuid uuid 't
  | Logout datetime 't
  | CreateUser datetime uuid string token_payload string string "string option" string "string option"
  | UpdateUser datetime token_payload string "string option" "string option"
  | DeactivateUser datetime token_payload string
  | RedisBecomes redis_kind

fun auth_step :: "'t auth_env \<Rightarrow> 't auth_event \<Rightarrow> auth_service \<Rightarrow> auth_service" where
  "auth_step env (Login now j1 j2 email password tenant) s = snd (login env now j1 j2 email password tenant s)"
| "auth_step env (Refresh now j1 j2 token) s = snd (refresh env now j1 j2 token s)"
| "auth_step env (Logout now token) s = snd (logout env now token s)"
| "auth_step env (CreateUser now i salt actor email password name role tenant) s =
     snd (create_user env now i salt actor email password name role tenant s)"
| "auth_step env (UpdateUser now actor user_id name role) s = snd (update_user now actor user_id name role s)"
| "auth_step env (DeactivateUser now actor user_id) s = snd (deactivate_user now actor user_id s)"
| "auth_step env (RedisBecomes k) s = s\<lparr>au_redis := map_option (\<lambda>r. r\<lparr>rd_kind := k\<rparr>) (au_redis s)\<rparr>"

definition auth_run :: "'t auth_env \<Rightarrow> 't auth_event list \<Rightarrow> auth_service \<Rightarrow> auth_service" where
  "auth_run env es s = foldl (\<lambda>s e. auth_step env e s) s es"

lemma auth_run_simps [simp]: "auth_run env [] s = s" "auth_run env (e # es) s = auth_run env es (auth_step env e s)"
  by (simp_all add: auth_run_def)

text \<open>When an event reads the clock for the blacklist, and who acts in it.\<close>

fun redis_time :: "'t auth_event \<Rightarrow> int option" where
  "redis_time (Refresh now j1 j2 token) = Some (epoch now)"
| "redis_time (Logout now token) = Some (epoch now)"
| "redis_time e = None"

fun event_actor :: "'t auth_event \<Rightarrow> token_payload option" where
  "event_actor (CreateUser now i salt actor email password name role tenant) = Some actor"
| "event_actor (UpdateUser now actor user_id name role) = Some actor"
| "event_actor (DeactivateUser now actor user_id) = Some actor"
| "event_actor e = None"

section \<open>The blacklist\<close>

lemma login_redis: "login env now j1 j2 email password tenant s = (r, s1) \<Longrightarrow> au_redis s1 = au_redis s \<and> au_users s1 = au_users s"
  by (auto simp: login_def login_failure_def issue_token_pair_def split: option.splits if_splits)

lemma create_redis: "create_user env now i salt actor email password name role tenant s = (r, s1) \<Longrightarrow> au_redis s1 = au_redis s"
  by (auto simp: create_user_def counted_error_def split: sum.splits option.splits if_splits prod.splits)

lemma target_user_service: "target_user actor i s = (r, s1) \<Longrightarrow> au_redis s1 = au_redis s \<and> au_users s1 = au_users s \<and> au_tenants s1 = au_tenants s"
  by (auto simp: target_user_def counted_error_def split: sum.splits option.splits if_splits)

lemma update_redis: "update_user now actor i name role s = (r, s1) \<Longrightarrow> au_redis s1 = au_redis s"
  by (cases "target_user actor i s")
    (auto simp: update_user_def dest!: target_user_service split: sum.splits option.splits if_splits prod.splits)

lemma deactivate_redis: "deactivate_user now actor i s = (r, s1) \<Longrightarrow> au_redis s1 = au_redis s"
  by (cases "target_user actor i s")
    (auto simp: deactivate_user_def dest!: target_user_service split: sum.splits option.splits prod.splits)

lemma revoke_refresh_key: "map_of (rd_keys (revoke now jti' x r)) (''jwt:refresh:'' @ jti) = map_of (rd_keys r) (''jwt:refresh:'' @ jti)"
  by (simp add: revoke_def redis_set_def)

text \<open>The key of a consumed token lives at least until the token expires.\<close>

definition consumed :: "string \<Rightarrow> int \<Rightarrow> auth_service \<Rightarrow> bool" where
  "consumed jti expiry s \<longleftrightarrow> (\<exists>r e. au_redis s = Some r \<and> map_of (rd_keys r) (''jwt:refresh:'' @ jti) = Some e \<and> expiry \<le> e)"

lemma consume_keeps:
  assumes "consume_refresh_token now jti' x r = (v, r')" and "map_of (rd_keys r) (''jwt:refresh:'' @ jti) = Some e" and "now < e"
  shows "map_of (rd_keys r') (''jwt:refresh:'' @ jti) = Some e"
  using assms by (auto simp: consume_refresh_token_def Let_def redis_set_def alive_def split: if_splits)

lemma refresh_redis:
  assumes "refresh env now j1 j2 token s = (v, s1)" and "au_redis s = Some r"
  shows "au_redis s1 = Some r \<or> (\<exists>p::token_payload. au_redis s1 = Some (snd (consume_refresh_token (epoch now) (tp_jti p) (tp_exp p) r)))"
proof (cases "verify_refresh_token (ae_lib env) (ae_str env) (ae_jwt env) (epoch now) token")
  case (Inr p)
  then have "au_redis s1 = Some r \<or> au_redis s1 = Some (snd (consume_refresh_token (epoch now) (tp_jti p) (tp_exp p) r))"
    using assms by (cases "consume_refresh_token (epoch now) (tp_jti p) (tp_exp p) r")
      (auto simp: refresh_def counted_error_def issue_token_pair_def split: sum.splits option.splits if_splits bool.splits)
  then show ?thesis by blast
qed (use assms in \<open>auto simp: refresh_def\<close>)

lemma refresh_keeps:
  assumes "refresh env now j1 j2 token s = (v, s1)" and "consumed jti expiry s" and "epoch now < expiry"
  shows "consumed jti expiry s1"
proof -
  obtain r e where r: "au_redis s = Some r" "map_of (rd_keys r) (''jwt:refresh:'' @ jti) = Some e" "expiry \<le> e"
    using assms(2) by (auto simp: consumed_def)
  have "au_redis s1 = Some r \<or> (\<exists>p::token_payload. au_redis s1 = Some (snd (consume_refresh_token (epoch now) (tp_jti p) (tp_exp p) r)))"
    using assms(1) r(1) by (rule refresh_redis)
  then show ?thesis
  proof
    assume "\<exists>p::token_payload. au_redis s1 = Some (snd (consume_refresh_token (epoch now) (tp_jti p) (tp_exp p) r))"
    then obtain jti' x v where c: "consume_refresh_token (epoch now) jti' x r = (v, the (au_redis s1))" "au_redis s1 \<noteq> None"
      by (metis option.distinct(1) option.sel prod.collapse)
    have "map_of (rd_keys (the (au_redis s1))) (''jwt:refresh:'' @ jti) = Some e"
      using consume_keeps [OF c(1) r(2)] r(3) assms(3) by simp
    then show ?thesis using c(2) r(3) by (auto simp: consumed_def)
  qed (use assms(2) r in \<open>auto simp: consumed_def\<close>)
qed

lemma logout_redis:
  assumes "logout env now token s = (v, s1)"
  shows "au_users s1 = au_users s \<and> (au_redis s1 = au_redis s \<or>
     (\<exists>r jti x. au_redis s = Some r \<and> au_redis s1 = Some (revoke (epoch now) jti x r)))"
proof (cases "verify_refresh_token (ae_lib env) (ae_str env) (ae_jwt env) (epoch now) token")
  case (Inl e)
  then show ?thesis using assms by (cases e) (auto simp: logout_def)
next
  case (Inr p)
  then show ?thesis using assms
    by (cases "au_redis s = None \<or> tp_jti p = []") (auto simp: logout_def, blast)
qed

lemma consumed_cong: "au_redis s1 = au_redis s \<Longrightarrow> consumed jti expiry s1 = consumed jti expiry s"
  by (simp add: consumed_def)

lemma logout_keeps:
  assumes "logout env now token s = (v, s1)" and "consumed jti expiry s"
  shows "consumed jti expiry s1"
  using logout_redis [OF assms(1)] assms(2) unfolding consumed_def by (metis option.sel revoke_refresh_key)

lemma step_redis:
  "redis_time e = None \<Longrightarrow> \<forall>k. e \<noteq> RedisBecomes k \<Longrightarrow> au_redis (auth_step env e s) = au_redis s"
  by (cases e) (simp_all, (metis login_redis create_redis update_redis deactivate_redis prod.collapse)+)

lemma step_same:
  "redis_time e = None \<Longrightarrow> \<forall>k. e \<noteq> RedisBecomes k \<Longrightarrow> consumed jti expiry (auth_step env e s) = consumed jti expiry s"
  by (rule consumed_cong) (rule step_redis)

lemma step_keeps:
  assumes "consumed jti expiry s" and "\<forall>t. redis_time e = Some t \<longrightarrow> t < expiry"
  shows "consumed jti expiry (auth_step env e s)"
proof (cases e)
  case (Refresh now j1 j2 token)
  then show ?thesis using assms refresh_keeps [OF prod.collapse [symmetric]] by simp
next
  case (Logout now token)
  then show ?thesis using assms logout_keeps [OF prod.collapse [symmetric]] by simp
next
  case (RedisBecomes k)
  then show ?thesis using assms(1) by (auto simp: consumed_def)
qed (use assms(1) step_same [of e jti expiry env s] in simp_all)

lemma run_keeps:
  "consumed jti expiry s \<Longrightarrow> \<forall>e \<in> set es. \<forall>t. redis_time e = Some t \<longrightarrow> t < expiry \<Longrightarrow> consumed jti expiry (auth_run env es s)"
  by (induction es arbitrary: s) (auto simp: step_keeps)

lemma refresh_after_consumption:
  assumes "consumed (tp_jti p) expiry s" and "epoch now < expiry" and "tp_jti p \<noteq> []"
    and "verify_refresh_token (ae_lib env) (ae_str env) (ae_jwt env) (epoch now) token = Inr p"
  shows "\<exists>e. fst (refresh env now j1 j2 token s) = Inl e"
  using assms by (auto simp: refresh_def consumed_def consume_refresh_token_def alive_def counted_error_def Let_def
      split: sum.splits option.splits)

lemma refresh_consumes:
  assumes "refresh env now j1 j2 token s = (Inr pr, s1)" and "au_redis s \<noteq> None" and "tp_jti p \<noteq> []"
    and "verify_refresh_token (ae_lib env) (ae_str env) (ae_jwt env) (epoch now) token = Inr p"
  shows "consumed (tp_jti p) (tp_exp p) s1"
proof -
  obtain r where r: "au_redis s = Some r" using assms(2) by auto
  have "\<exists>r'. consume_refresh_token (epoch now) (tp_jti p) (tp_exp p) r = (Inr True, r') \<and> au_redis s1 = Some r'"
    using assms(1,3,4) r
    by (auto simp: refresh_def counted_error_def issue_token_pair_def split: sum.splits option.splits if_splits prod.splits bool.splits)
  then show ?thesis
    by (auto simp: consumed_def consume_refresh_token_def Let_def redis_set_def revocation_ttl_def split: if_splits)
qed

section \<open>The rows of a tenant\<close>

definition users_ok :: "auth_service \<Rightarrow> bool" where
  "users_ok s \<longleftrightarrow> distinct (map us_id (au_users s)) \<and> distinct (map us_email (au_users s))"

text \<open>The actors of a run: none of them a superadmin, all of one tenant.\<close>

definition acts_for :: "uuid \<Rightarrow> 't auth_event \<Rightarrow> bool" where
  "acts_for tenant e \<longleftrightarrow> (case event_actor e of None \<Rightarrow> True
     | Some a \<Rightarrow> tp_role a \<noteq> ''superadmin'' \<and> parse_uuid (tp_tenant a) = Some tenant)"

abbreviation others :: "uuid \<Rightarrow> user list \<Rightarrow> user list" where
  "others tenant t \<equiv> filter (\<lambda>u. us_tenant u \<noteq> tenant) t"

lemma scope_of_others:
  assumes "role \<noteq> ''superadmin''" and "parse_uuid own = Some tenant"
    and "abind (lift (tenant_scope role own req)) uuid_of = Inr target"
  shows "target = tenant"
proof -
  have "\<exists>x. tenant_scope role own req = Inr x \<and> uuid_of x = Inr target"
    using assms(3) by (auto simp: abind_Inr lift_def split: sum.splits)
  then obtain x where x: "tenant_scope role own req = Inr x" "uuid_of x = Inr target" by blast
  have "x = own" using x(1) assms(1)
    by (auto simp: tenant_scope_def Let_def and_then_eq_Inr cross_tenant_allowed_def can_eval rbac_tables split: if_splits option.splits)
  then show ?thesis using x(2) assms(2) by (simp add: uuid_of_def)
qed

lemma create_others:
  assumes "create_user env now i salt actor email password name role tenant s = (r, s1)"
    and "tp_role actor \<noteq> ''superadmin''" and "parse_uuid (tp_tenant actor) = Some own"
  shows "others own (au_users s1) = others own (au_users s)"
  using assms scope_of_others [OF assms(2,3)]
  by (auto simp: create_user_def counted_error_def insert_user_def Let_def
      split: sum.splits option.splits if_splits prod.splits)

lemma create_ok:
  assumes "create_user env now i salt actor email password name role tenant s = (r, s1)" and "users_ok s"
  shows "users_ok s1"
  using assms by (auto simp: create_user_def counted_error_def insert_user_def Let_def users_ok_def
      split: sum.splits option.splits if_splits prod.splits)

lemma target_user_known:
  assumes "target_user actor i s = (Inr u, s1)"
  shows "s1 = s \<and> u \<in> set (au_users s) \<and> can_create (tp_role actor) \<and>
    (uuid_str (us_tenant u) = tp_tenant actor \<or> tp_role actor = ''superadmin'')"
  using assms by (auto simp: target_user_def counted_error_def get_by_id_def
      split: sum.splits option.splits if_splits dest!: find_SomeD)

lemma change_user_others:
  assumes "distinct (map us_id t)" and "u \<in> set t" and "us_tenant u = own" and "\<And>v. us_tenant (f v) = us_tenant v"
  shows "others own (map (\<lambda>v. if us_id v = us_id u then f v else v) t) = others own t"
proof -
  have "us_tenant v = own" if "v \<in> set t" and "us_id v = us_id u" for v
    using that assms(1-3) by (metis distinct_map inj_onD)
  then show ?thesis using assms(4) by (induction t) auto
qed

lemma change_user_keys:
  assumes "\<And>v. us_id (f v) = us_id v \<and> us_email (f v) = us_email v"
  shows "map us_id (map (\<lambda>v. if us_id v = i then f v else v) t) = map us_id t"
    and "map us_email (map (\<lambda>v. if us_id v = i then f v else v) t) = map us_email t"
  using assms by (induction t) auto

text \<open>What update and deactivation have in common.\<close>

definition changed :: "auth_service \<Rightarrow> auth_service \<Rightarrow> user \<Rightarrow> (user \<Rightarrow> user) \<Rightarrow> bool" where
  "changed s s1 u f \<longleftrightarrow> au_users s1 = map (\<lambda>v. if us_id v = us_id u then f v else v) (au_users s) \<and>
     (\<forall>v. us_id (f v) = us_id v \<and> us_email (f v) = us_email v \<and> us_tenant (f v) = us_tenant v)"

lemma update_changes:
  assumes "update_user now actor i name role s = (r, s1)"
  shows "au_users s1 = au_users s \<or> (\<exists>u f. target_user actor i s = (Inr u, s) \<and> changed s s1 u f)"
proof (cases "target_user actor i s")
  case (Pair t s2)
  then show ?thesis
  proof (cases t)
    case (Inr u)
    then have k: "s2 = s" using target_user_known Pair by blast
    define f where "f = (\<lambda>u::user. u\<lparr>us_name := (case name of None \<Rightarrow> us_name u | Some n \<Rightarrow> Some n),
       us_role := column_or_old role (us_role u), us_active := column_or_old None (us_active u), us_updated_at := now\<rparr>)"
    have "au_users s1 = au_users s \<or> au_users s1 = map (\<lambda>v. if us_id v = us_id u then f v else v) (au_users s)"
      using assms Pair Inr k by (auto simp: update_user_def update_user_row_def change_user_def Let_def f_def
          split: sum.splits option.splits if_splits)
    then show ?thesis using Pair Inr k by (auto simp: changed_def f_def)
  qed (use assms target_user_service in \<open>auto simp: update_user_def\<close>)
qed

lemma deactivate_changes:
  assumes "deactivate_user now actor i s = (r, s1)"
  shows "au_users s1 = au_users s \<or> (\<exists>u f. target_user actor i s = (Inr u, s) \<and> changed s s1 u f)"
proof (cases "target_user actor i s")
  case (Pair t s2)
  then show ?thesis
  proof (cases t)
    case (Inr u)
    then have k: "s2 = s" using target_user_known Pair by blast
    have "changed s s1 u (\<lambda>u. u\<lparr>us_active := False, us_updated_at := now\<rparr>)"
      using assms Pair Inr k by (auto simp: deactivate_user_def deactivate_user_row_def change_user_def Let_def changed_def
          split: option.splits)
    then show ?thesis using Pair Inr k by blast
  qed (use assms target_user_service in \<open>auto simp: deactivate_user_def\<close>)
qed

lemma changed_ok: "changed s s1 u f \<Longrightarrow> users_ok s \<Longrightarrow> users_ok s1"
  using change_user_keys [of f "us_id u" "au_users s"] by (simp add: changed_def users_ok_def del: map_map)

lemma changed_others:
  assumes "changed s s1 u f" and "target_user actor i s = (Inr u, s)" and "users_ok s"
    and "tp_role actor \<noteq> ''superadmin''" and "parse_uuid (tp_tenant actor) = Some own"
  shows "others own (au_users s1) = others own (au_users s)"
proof -
  have "u \<in> set (au_users s)" and "uuid_str (us_tenant u) = tp_tenant actor"
    using target_user_known [OF assms(2)] assms(4) by auto
  then show ?thesis using change_user_others [of "au_users s" u own f] assms(1,3,5)
    by (auto simp: changed_def users_ok_def dest: sym)
qed

lemma refresh_users: "refresh env now j1 j2 token s = (r, s1) \<Longrightarrow> au_users s1 = au_users s"
  by (auto simp: refresh_def counted_error_def issue_token_pair_def split: sum.splits option.splits if_splits prod.splits bool.splits)

lemma token_users [simp]:
  "au_users (snd (login env now j1 j2 email password tenant s)) = au_users s"
  "au_users (snd (refresh env now j1 j2 token s)) = au_users s"
  "au_users (snd (logout env now token s)) = au_users s"
  using login_redis [OF prod.collapse [symmetric], of env now j1 j2 email password tenant s]
    refresh_users [OF prod.collapse [symmetric], of env now j1 j2 token s]
    logout_redis [OF prod.collapse [symmetric], of env now token s]
  by blast+

lemma step_ok: "users_ok s \<Longrightarrow> users_ok (auth_step env e s)"
proof (cases e)
  case (CreateUser now i salt actor email password name role tenant)
  then show "users_ok s \<Longrightarrow> ?thesis" using create_ok [OF prod.collapse [symmetric]] by simp
next
  case (UpdateUser now actor i name role)
  then show "users_ok s \<Longrightarrow> ?thesis"
    using update_changes [OF prod.collapse [symmetric], of now actor i name role s] changed_ok by (auto simp: users_ok_def)
next
  case (DeactivateUser now actor i)
  then show "users_ok s \<Longrightarrow> ?thesis"
    using deactivate_changes [OF prod.collapse [symmetric], of now actor i s] changed_ok by (auto simp: users_ok_def)
qed (simp_all add: users_ok_def)

lemma step_others:
  assumes "users_ok s" and "acts_for own e"
  shows "others own (au_users (auth_step env e s)) = others own (au_users s)"
proof (cases e)
  case (CreateUser now i salt actor email password name role tenant)
  then show ?thesis using assms create_others [OF prod.collapse [symmetric], of actor own] by (simp add: acts_for_def)
next
  case (UpdateUser now actor i name role)
  then have "tp_role actor \<noteq> ''superadmin''" "parse_uuid (tp_tenant actor) = Some own" using assms(2) by (simp_all add: acts_for_def)
  then show ?thesis using UpdateUser update_changes [OF prod.collapse [symmetric], of now actor i name role s] changed_others assms(1) by fastforce
next
  case (DeactivateUser now actor i)
  then have "tp_role actor \<noteq> ''superadmin''" "parse_uuid (tp_tenant actor) = Some own" using assms(2) by (simp_all add: acts_for_def)
  then show ?thesis using DeactivateUser deactivate_changes [OF prod.collapse [symmetric], of now actor i s] changed_others assms(1) by fastforce
qed simp_all

lemma run_others:
  "users_ok s \<Longrightarrow> \<forall>e \<in> set es. acts_for own e \<Longrightarrow>
     users_ok (auth_run env es s) \<and> others own (au_users (auth_run env es s)) = others own (au_users s)"
  by (induction es arbitrary: s) (auto simp: step_ok step_others)

section \<open>Properties\<close>

lemma minutes_of_int: "minutes (of_int n) = n * 60000000"
  using half_even_of_int [of "n * 60000000"] by (simp add: minutes_def)

lemma refresh_same_redis:
  assumes "au_users s1 = au_users s" and "au_redis s1 = au_redis s \<or> (\<exists>r jti x. au_redis s = Some r \<and> au_redis s1 = Some (revoke t0 jti x r))"
  shows "fst (refresh env now j1 j2 token s1) = fst (refresh env now j1 j2 token s)"
proof -
  have consume: "fst (consume_refresh_token (epoch now) j x (revoke t0 jti y r)) = fst (consume_refresh_token (epoch now) j x r)" for j x jti y r
    by (simp add: consume_refresh_token_def revoke_def redis_set_def alive_def Let_def)
  have blind: "fst (case c of (Inl e, r) \<Rightarrow> (Inl e, f1 e r) | (Inr False, r) \<Rightarrow> counted_error m (f2 r)
      | (Inr True, r) \<Rightarrow> issue_token_pair env now j1 j2 u (f3 r)) =
    (case fst c of Inl e \<Rightarrow> Inl e | Inr False \<Rightarrow> Inl m | Inr True \<Rightarrow> fst (issue_token_pair env now j1 j2 u s))"
    for c :: "bool access \<times> redis" and f1 f2 f3 m u
    by (auto simp: counted_error_def issue_token_pair_def split: prod.splits sum.splits bool.splits)
  show ?thesis
  proof (cases "verify_refresh_token (ae_lib env) (ae_str env) (ae_jwt env) (epoch now) token")
    case (Inr p)
    then show ?thesis using assms
      by (auto simp: refresh_def counted_error_def issue_token_pair_def blind consume split: sum.splits option.splits)
  qed (simp add: refresh_def)
qed

text \<open>
  Logging out takes nothing away: whatever token is handed to \<open>logout\<close>, every later refresh, also
  with that very token, has the outcome it would have had without it.
\<close>

theorem logout_without_effect:
  "fst (refresh env now j1 j2 token' (snd (logout env t0 token s))) = fst (refresh env now j1 j2 token' s)"
  by (rule refresh_same_redis) (use logout_redis [OF prod.collapse [symmetric], of env t0 token s] in blast)+

lemma uuid_str_nonempty [simp]: "uuid_str u \<noteq> []"
  by (simp add: uuid_str_def Let_def)

text \<open>
  C15. A refresh token buys one pair: with a reachable blacklist, once a refresh token has been exchanged, every
  exchange of it before it expires fails, whatever happened in between, Redis failing included. The
  token is the one the service issued; times of a run only have to stay below its expiry.
\<close>

theorem refresh_token_single_use:
  assumes "jwt_law (ae_lib env) pair"
    and "key_matches pair (js_algorithm (ae_jwt env)) (signing_key (ae_jwt env)) (verifying_key (ae_jwt env))"
    and "token = create_refresh_token (ae_lib env) (ae_jwt env) issued jti sj"
    and "expiry = epoch (issued + days (of_int (js_refresh_days (ae_jwt env))))"
    and "au_redis s \<noteq> None" and "refresh env now j1 j2 token s = (Inr pr, s1)"
    and "\<forall>e \<in> set es. \<forall>t. redis_time e = Some t \<longrightarrow> t < expiry" and "epoch now' < expiry"
  shows "\<exists>e. fst (refresh env now' j3 j4 token (auth_run env es s1)) = Inl e"
proof -
  define p where "p = \<lparr>tp_user = sj_user sj, tp_tenant = sj_tenant sj, tp_email = sj_email sj, tp_role = sj_role sj,
             tp_type = ''refresh'', tp_exp = expiry, tp_jti = uuid_str jti, tp_installation = []\<rparr>"
  have v: "verify_refresh_token (ae_lib env) (ae_str env) (ae_jwt env) t token =
      (if t \<le> expiry then Inr p else Inl (InvalidTokenError ''jwt''))" for t
    using decode_own_token [OF assms(1,2)] assms(3,4) by (simp add: verify_refresh_token_def create_refresh_token_def p_def)
  have "epoch now \<le> expiry" using assms(6) v [of "epoch now"] by (auto simp: refresh_def split: if_splits)
  then have "consumed (tp_jti p) (tp_exp p) s1" using refresh_consumes [OF assms(6,5), of p] v [of "epoch now"] by (simp add: p_def)
  then have "consumed (tp_jti p) expiry (auth_run env es s1)" using run_keeps assms(7) by (simp add: p_def)
  then show ?thesis using refresh_after_consumption [of p expiry _ now' env token] assms(8) v [of "epoch now'"] by (simp add: p_def)
qed

text \<open>
  C5. The users of other tenants are out of reach: whatever the actors of one tenant do, superadmins apart,
  between any logins, refreshes and logouts, the rows of the users of every other tenant stay as they are, and
  identifiers and e-mails stay unique.
\<close>

theorem tenant_users_isolated:
  assumes "users_ok s" and "\<forall>e \<in> set es. acts_for own e"
  shows "users_ok (auth_run env es s) \<and>
    filter (\<lambda>u. us_tenant u \<noteq> own) (au_users (auth_run env es s)) = filter (\<lambda>u. us_tenant u \<noteq> own) (au_users s)"
  using assms by (rule run_others)

lemma find_unique: "distinct (map k t) \<Longrightarrow> u \<in> set t \<Longrightarrow> find (\<lambda>v. k v = k u) t = Some u"
  by (induction t) auto

lemma promotion:
  assumes "users_ok s" and "u \<in> set (au_users s)" and "tp_role actor = ''admin''" and "tp_tenant actor = uuid_str (us_tenant u)"
  shows "\<exists>u' s1. update_user now actor (uuid_str (us_id u)) None (Some ''superadmin'') s = (Inr u', s1) \<and>
    get_by_email (us_email u) (au_users s1) = Some u' \<and>
    u' = u\<lparr>us_role := ''superadmin'', us_updated_at := now\<rparr>"
proof -
  define f where "f = (\<lambda>u::user. u\<lparr>us_role := ''superadmin'', us_updated_at := now\<rparr>)"
  define t where "t = map (\<lambda>v. if us_id v = us_id u then f v else v) (au_users s)"
  have d: "distinct (map us_id t)" "distinct (map us_email t)"
    using assms(1) change_user_keys [of f "us_id u" "au_users s"] by (simp_all add: users_ok_def t_def f_def del: map_map)
  have m: "f u \<in> set t" using assms(2) by (force simp: t_def)
  have keys: "us_id (f u) = us_id u" "us_email (f u) = us_email u" by (simp_all add: f_def)
  have target: "target_user actor (uuid_str (us_id u)) s = (Inr u, s)"
    using assms find_unique [of us_id "au_users s" u]
    by (simp add: target_user_def can_create_def uuid_of_def get_by_id_def users_ok_def)
  have f: "u\<lparr>us_name := (case None of None \<Rightarrow> us_name u | Some n \<Rightarrow> Some n), us_role := column_or_old (Some ''superadmin'') (us_role u),
      us_active := column_or_old None (us_active u), us_updated_at := now\<rparr> = f u" for u :: user by (simp add: f_def column_or_old_def)
  have row: "update_user_row now (us_id u) None (Some ''superadmin'') None (au_users s) = (Some (f u), t)"
    unfolding update_user_row_def change_user_def f using find_unique [OF d(1) m]
    by (simp add: get_by_id_def keys Let_def flip: t_def)
  have "update_user now actor (uuid_str (us_id u)) None (Some ''superadmin'') s = (Inr (f u), s\<lparr>au_users := t\<rparr>)"
    using target row by (simp add: update_user_def validate_role_def require_valid_role_def ROLES_def fits_def)
  then show ?thesis using find_unique [OF d(2) m] by (simp add: get_by_email_def keys) (simp add: f_def)
qed

text \<open>
  An administrator makes itself superadmin: the update of its own role to \<open>superadmin\<close> is accepted, and
  the access token of the next login carries that role, so every tenant is in its scope.
\<close>

theorem admin_becomes_superadmin:
  assumes "jwt_law (ae_lib env) pair" and "check_jwt_service (ae_jwt env) = Inr svc"
    and "js_algorithm (ae_jwt env) = ''RS256'' \<longrightarrow> pair (the (js_private (ae_jwt env))) (the (js_public (ae_jwt env)))"
    and "0 \<le> js_access_minutes (ae_jwt env)"
    and "users_ok s" and "u \<in> set (au_users s)" and "us_active u" and "verify_password (ae_bcrypt env) password (us_password_hash u)"
    and "tp_role actor = ''admin''" and "tp_tenant actor = uuid_str (us_tenant u)"
  shows "\<exists>pr p. fst (login env now j1 j2 (us_email u) password None
        (snd (update_user now actor (uuid_str (us_id u)) None (Some ''superadmin'') s))) = Inr pr \<and>
     verify_access_token (ae_lib env) (ae_str env) (ae_jwt env) (epoch now) (pt_access pr) = Inr p \<and>
     tp_user p = uuid_str (us_id u) \<and> tenant_scope (tp_role p) (tp_tenant p) (Some t) = Inr (if t = [] then tp_tenant p else t)"
proof -
  obtain u' s1 where u: "update_user now actor (uuid_str (us_id u)) None (Some ''superadmin'') s = (Inr u', s1)"
    "get_by_email (us_email u) (au_users s1) = Some u'" "u' = u\<lparr>us_role := ''superadmin'', us_updated_at := now\<rparr>"
    using promotion [OF assms(5,6,9,10), of now] by blast
  define pr where "pr = \<lparr>pt_access = create_access_token (ae_lib env) (ae_jwt env) now j1 (subject_of u'),
        pt_refresh = create_refresh_token (ae_lib env) (ae_jwt env) now j2 (subject_of u'),
        pt_expires_in = js_access_minutes (ae_jwt env) * 60\<rparr>"
  have "fst (login env now j1 j2 (us_email u) password None s1) = Inr pr"
    using u(2) assms(7,8) by (simp add: login_def issue_token_pair_def pr_def u(3))
  moreover have "epoch now \<le> epoch (now + minutes (of_int (js_access_minutes (ae_jwt env))))"
    using assms(4) by (simp add: epoch_def minutes_of_int zdiv_mono1)
  then have "\<exists>p. verify_access_token (ae_lib env) (ae_str env) (ae_jwt env) (epoch now) (pt_access pr) = Inr p \<and>
      tp_user p = uuid_str (us_id u) \<and> tp_role p = ''superadmin''"
    using decode_own_token [OF assms(1) service_keys_match [where pair = pair, OF assms(2,3)]]
    by (simp add: verify_access_token_def create_access_token_def pr_def u(3) subject_of_def)
  moreover have "tenant_scope ''superadmin'' a (Some t) = Inr (if t = [] then a else t)" for a
    by (simp add: tenant_scope_def require_valid_role_def cross_tenant_allowed_def can_eval rbac_tables Let_def)
  ultimately show ?thesis using u(1) by auto
qed

definition ex_bcrypt :: bcrypt where
  "ex_bcrypt = \<lparr>bc_hash = \<lambda>p salt. Some p, bc_check = \<lambda>p h. Some (p = h)\<rparr>"

definition ex_env :: "(dict \<times> dict \<times> string \<times> string) auth_env" where
  "ex_env = \<lparr>ae_lib = plain_jwt, ae_jwt = ex_jwt_service, ae_str = \<lambda>_. [], ae_bcrypt = ex_bcrypt\<rparr>"

definition ex_user :: "uuid \<Rightarrow> uuid \<Rightarrow> string \<Rightarrow> string \<Rightarrow> user" where
  "ex_user i tenant email role = \<lparr>us_id = i, us_tenant = tenant, us_email = email, us_password_hash = ''pw'', us_name = None,
     us_role = role, us_active = True, us_created_at = 0, us_updated_at = 0\<rparr>"

definition ex_auth :: auth_service where
  "ex_auth = \<lparr>au_users = [ex_user 1 7 ''a@x'' ''admin'', ex_user 2 8 ''b@y'' ''viewer''], au_tenants = [],
     au_redis = Some \<lparr>rd_kind = Connected, rd_setnx_ex = True, rd_keys = []\<rparr>, au_logins = 0, au_login_failures = 0,
     au_tokens_issued = 0, au_tokens_revoked = 0, au_errors = 0, au_users_created = 0, au_by_role = \<lambda>_. 0, au_last_login_at = None\<rparr>"

definition ex_actor :: "string \<Rightarrow> token_payload" where
  "ex_actor role = \<lparr>tp_user = uuid_str 1, tp_tenant = uuid_str 7, tp_email = ''a@x'', tp_role = role, tp_type = ''access'',
     tp_exp = 900, tp_jti = ''j'', tp_installation = []\<rparr>"

lemmas ex_auth_defs = ex_env_def ex_auth_def ex_user_def ex_actor_def ex_jwt_service_def

lemma ex_users_ok: "users_ok ex_auth"
  by (simp add: users_ok_def ex_auth_def ex_user_def)

lemma ex_password: "verify_password ex_bcrypt ''pw'' ''pw''"
  by (simp add: verify_password_def ex_bcrypt_def)

theorem admin_becomes_superadmin_witness:
  "\<exists>pr p. fst (login ex_env 0 3 4 ''a@x'' ''pw'' None
        (snd (update_user 0 (ex_actor ''admin'') (uuid_str 1) None (Some ''superadmin'') ex_auth))) = Inr pr \<and>
     verify_access_token plain_jwt (ae_str ex_env) ex_jwt_service 0 (pt_access pr) = Inr p \<and>
     tenant_scope (tp_role p) (tp_tenant p) (Some ''other'') = Inr ''other''"
  using admin_becomes_superadmin [of ex_env "(=)" ex_jwt_service ex_auth "ex_user 1 7 ''a@x'' ''admin''" "''pw''" "ex_actor ''admin''" 0 3 4 "''other''",
      simplified ex_env_def auth_env.simps, OF plain_jwt_law ex_jwt_service_ok _ _ ex_users_ok]
  by (fastforce simp: ex_env_def ex_auth_def ex_user_def ex_actor_def ex_jwt_service_def ex_password epoch_def)

lemma ex_tokens:
  "\<exists>pr. refresh ex_env 0 3 4 (create_refresh_token plain_jwt ex_jwt_service 0 9 (subject_of (ex_user 1 7 ''a@x'' ''admin''))) ex_auth =
     (Inr pr, snd (refresh ex_env 0 3 4 (create_refresh_token plain_jwt ex_jwt_service 0 9 (subject_of (ex_user 1 7 ''a@x'' ''admin''))) ex_auth))"
  using decode_own_token [OF plain_jwt_law service_keys_match [OF ex_jwt_service_ok], of "\<lambda>_. []" 0 "''refresh''" 0 9 "subject_of (ex_user 1 7 ''a@x'' ''admin'')" "''refresh''"]
  by (simp add: refresh_def verify_refresh_token_def create_refresh_token_def ex_env_def uuid_of_def subject_of_def
      ex_auth_def ex_user_def get_by_id_def consume_refresh_token_def alive_def issue_token_pair_def epoch_def Let_def
      ex_jwt_service_def)

theorem refresh_token_single_use_witness:
  "let tok = create_refresh_token plain_jwt ex_jwt_service 0 9 (subject_of (ex_user 1 7 ''a@x'' ''admin''))
   in (\<exists>pr. fst (refresh ex_env 0 3 4 tok ex_auth) = Inr pr) \<and>
      (\<exists>e. fst (refresh ex_env 5 5 6 tok (auth_run ex_env [Logout 1 tok, RedisBecomes Unreachable] (snd (refresh ex_env 0 3 4 tok ex_auth)))) = Inl e)"
proof -
  let ?tok = "create_refresh_token plain_jwt ex_jwt_service 0 9 (subject_of (ex_user 1 7 ''a@x'' ''admin''))"
  obtain pr where r: "refresh ex_env 0 3 4 ?tok ex_auth = (Inr pr, snd (refresh ex_env 0 3 4 ?tok ex_auth))" using ex_tokens by blast
  have "jwt_law (ae_lib ex_env) (=)" and "key_matches (=) (js_algorithm (ae_jwt ex_env)) (signing_key (ae_jwt ex_env)) (verifying_key (ae_jwt ex_env))"
    and "?tok = create_refresh_token (ae_lib ex_env) (ae_jwt ex_env) 0 9 (subject_of (ex_user 1 7 ''a@x'' ''admin''))"
    and "604800 = epoch (0 + days (of_int (js_refresh_days (ae_jwt ex_env))))" and "au_redis ex_auth \<noteq> None"
    and "\<forall>e \<in> set [Logout 1 ?tok, RedisBecomes Unreachable]. \<forall>t. redis_time e = Some t \<longrightarrow> t < (604800::int)" and "epoch 5 < 604800"
    using plain_jwt_law by (simp_all add: ex_env_def ex_auth_def key_matches_def signing_key_def verifying_key_def ex_jwt_service_def epoch_def)
  from refresh_token_single_use [OF this(1-5) r this(6,7), of 5 6] r show ?thesis by (metis fst_conv)
qed

theorem tenant_users_isolated_witness:
  "users_ok ex_auth \<and> acts_for 7 (UpdateUser 0 (ex_actor ''admin'') (uuid_str 2) None (Some ''admin'') :: (dict \<times> dict \<times> string \<times> string) auth_event) \<and>
   filter (\<lambda>u. us_tenant u \<noteq> 7) (au_users (auth_run ex_env [UpdateUser 0 (ex_actor ''admin'') (uuid_str 2) None (Some ''admin'')] ex_auth)) =
     [ex_user 2 8 ''b@y'' ''viewer'']"
proof -
  have a: "acts_for 7 (UpdateUser 0 (ex_actor ''admin'') (uuid_str 2) None (Some ''admin'') :: (dict \<times> dict \<times> string \<times> string) auth_event)"
    by (simp add: acts_for_def ex_actor_def)
  show ?thesis using tenant_users_isolated [OF ex_users_ok, of "[UpdateUser 0 (ex_actor ''admin'') (uuid_str 2) None (Some ''admin'')]" 7 ex_env] a
    ex_users_ok by (simp add: ex_auth_def ex_user_def)
qed

end
