(* ===== verification/Cognitive_Trace.thy ===== *)
theory Cognitive_Trace
  imports Access_Tokens "HOL-Library.Product_Lexorder" "HOL-Library.Char_ord" "HOL-Library.List_Lexorder"
begin

text \<open>
  The cognitive trace of the gateway (\<open>apps/gateway/api-gateway/src/cognitive_trace.py\<close>): from a report back
  to the observations behind it, read from the canonical tables. A dictionary of rows by identifier is the list of
  the rows, in the order the database returns them (identifiers are primary keys); \<open>json.loads\<close>, the text of
  times and days and the iteration order of a set of strings are arguments.
\<close>

section \<open>The canonical tables\<close>

record report_row =
  rp_id :: uuid
  rp_tenant :: uuid
  rp_type :: string
  rp_title :: string
  rp_summary :: "string option"
  rp_content :: json
  rp_generated_at :: datetime
  rp_period_start :: "datetime option"
  rp_period_end :: "datetime option"

record canon =
  cn_reports :: "report_row list"
  cn_decisions :: "decision list"
  cn_recommendations :: "recommendation list"
  cn_confidences :: "confidence list"
  cn_hypotheses :: "hypothesis list"
  cn_anomalies :: "anomaly list"
  cn_patterns :: "pattern list"
  cn_contexts :: "context_row list"
  cn_evidence :: "evidence list"
  cn_observations :: "observation list"

record trace_env =
  ce_loads :: "string \<Rightarrow> json option"
  ce_str :: "json \<Rightarrow> string"
  ce_iso :: "datetime \<Rightarrow> string"
  ce_day :: "datetime \<Rightarrow> string"
  ce_order :: "string set \<Rightarrow> string list"

definition TYPE_ORDER :: "(string \<times> nat) list" where
  [catalogue]: "TYPE_ORDER = [(''report'', 0), (''decision'', 1), (''recommendation'', 2), (''confidence'', 3),
     (''hypothesis'', 4), (''anomaly'', 5), (''pattern'', 6), (''context'', 7), (''evidence'', 8), (''observation'', 9)]"

text \<open>\<open>_as_json\<close>: a text that is not JSON is kept.\<close>

definition as_json :: "trace_env \<Rightarrow> json \<Rightarrow> json" where
  "as_json env v = (case v of JStr s \<Rightarrow> (case ce_loads env s of None \<Rightarrow> v | Some j \<Rightarrow> j) | _ \<Rightarrow> v)"

section \<open>Reads\<close>

text \<open>\<open>WHERE tenant_id = :tenant_id AND id = ANY(:ids)\<close>\<close>

definition bulk_by_ids :: "('r \<Rightarrow> uuid) \<Rightarrow> ('r \<Rightarrow> uuid) \<Rightarrow> uuid \<Rightarrow> uuid list \<Rightarrow> 'r list \<Rightarrow> 'r list" where
  "bulk_by_ids key ten tenant ids t = (if ids = [] then [] else filter (\<lambda>r. ten r = tenant \<and> key r \<in> set ids) t)"

text \<open>The decisions a report enumerates; everything that is not an identifier is skipped.\<close>

definition decision_of_trace :: "trace_env \<Rightarrow> json \<Rightarrow> uuid option" where
  "decision_of_trace env trace = (case trace of
       JObj t \<Rightarrow> (case get t ''decision'' of
           JObj d \<Rightarrow> (case get d ''id'' of JNull \<Rightarrow> None | raw \<Rightarrow> parse_uuid (text_of (ce_str env) raw))
         | _ \<Rightarrow> None)
     | _ \<Rightarrow> None)"

definition extract_decision_ids :: "trace_env \<Rightarrow> dict \<Rightarrow> uuid list" where
  "extract_decision_ids env content = (case get content ''decision_traces'' of
       JArr traces \<Rightarrow> List.map_filter (decision_of_trace env) traces | _ \<Rightarrow> [])"

text \<open>\<open>_as_json(row["content"]) or {}\<close>, on which \<open>get\<close> is called.\<close>

definition report_decisions :: "trace_env \<Rightarrow> report_row \<Rightarrow> uuid list result" where
  "report_decisions env r = (let content = as_json env (rp_content r)
     in if \<not> truthy content then Inr []
        else case content of JObj d \<Rightarrow> Inr (extract_decision_ids env d) | _ \<Rightarrow> Inl (AttributeError ''get''))"

record chain =
  ch_decisions :: "decision list"
  ch_recommendations :: "recommendation list"
  ch_confidences :: "confidence list"
  ch_hypotheses :: "hypothesis list"
  ch_anomalies :: "anomaly list"
  ch_patterns :: "pattern list"
  ch_contexts :: "context_row list"
  ch_evidence :: "evidence list"
  ch_observations :: "observation list"

definition load_chain :: "canon \<Rightarrow> uuid \<Rightarrow> uuid list \<Rightarrow> chain" where
  "load_chain db tenant ids =
     (let ds = bulk_by_ids dec_id dec_tenant tenant ids (cn_decisions db);
          rs = bulk_by_ids rec_id rec_tenant tenant (map dec_recommendation ds) (cn_recommendations db);
          cs = bulk_by_ids conf_id conf_tenant tenant (map dec_confidence ds @ map rec_confidence_id rs) (cn_confidences db);
          hs = bulk_by_ids hyp_id hyp_tenant tenant (map rec_hypothesis rs) (cn_hypotheses db);
          as = bulk_by_ids an_id an_tenant tenant (concat (map hyp_anomaly_ids hs)) (cn_anomalies db);
          ps = bulk_by_ids pat_id pat_tenant tenant (concat (map hyp_pattern_ids hs) @ map an_pattern as) (cn_patterns db);
          xs = bulk_by_ids ctx_id ctx_tenant tenant (map an_context as @ map pat_context ps) (cn_contexts db);
          es = bulk_by_ids ev_id ev_tenant tenant (concat (map ctx_evidence_ids xs)) (cn_evidence db);
          obs = bulk_by_ids o_id o_tenant tenant (concat (map ev_observation_ids es)) (cn_observations db)
      in \<lparr>ch_decisions = ds, ch_recommendations = rs, ch_confidences = cs, ch_hypotheses = hs, ch_anomalies = as,
          ch_patterns = ps, ch_contexts = xs, ch_evidence = es, ch_observations = obs\<rparr>)"

section \<open>Provenance\<close>

text \<open>A reference of \<open>who\<close> to the row \<open>i\<close> of a type that was not found.\<close>

definition missing :: "string \<Rightarrow> string \<Rightarrow> uuid \<Rightarrow> uuid list \<Rightarrow> uuid \<Rightarrow> string list" where
  "missing typ how who present i =
     (if i \<in> set present then [] else [typ @ '' '' @ uuid_str i @ '' '' @ how @ '' '' @ uuid_str who @ '' not found''])"

definition validate_provenance :: "trace_env \<Rightarrow> uuid list \<Rightarrow> chain \<Rightarrow> string list" where
  "validate_provenance env ids ch =
     (let rs = map rec_id (ch_recommendations ch); cs = map conf_id (ch_confidences ch); hs = map hyp_id (ch_hypotheses ch);
          as = map an_id (ch_anomalies ch); ps = map pat_id (ch_patterns ch); xs = map ctx_id (ch_contexts ch);
          es = map ev_id (ch_evidence ch); obs = map o_id (ch_observations ch)
      in map (\<lambda>m. ''decision '' @ m @ '' referenced by report not found'')
           (ce_order env (uuid_str ` set ids - uuid_str ` dec_id ` set (ch_decisions ch))) @
         concat (map (\<lambda>d. missing ''recommendation'' ''for decision'' (dec_id d) rs (dec_recommendation d) @
           missing ''confidence'' ''for decision'' (dec_id d) cs (dec_confidence d)) (ch_decisions ch)) @
         concat (map (\<lambda>r. missing ''hypothesis'' ''for recommendation'' (rec_id r) hs (rec_hypothesis r) @
           missing ''confidence'' ''for recommendation'' (rec_id r) cs (rec_confidence_id r)) (ch_recommendations ch)) @
         concat (map (\<lambda>c. if conf_target_type c = ''hypothesis''
           then missing ''hypothesis'' ''for confidence'' (conf_id c) hs (conf_target_id c) else []) (ch_confidences ch)) @
         concat (map (\<lambda>h. concat (map (missing ''anomaly'' ''referenced by hypothesis'' (hyp_id h) as) (hyp_anomaly_ids h)) @
           concat (map (missing ''pattern'' ''referenced by hypothesis'' (hyp_id h) ps) (hyp_pattern_ids h))) (ch_hypotheses ch)) @
         concat (map (\<lambda>a. missing ''pattern'' ''referenced by anomaly'' (an_id a) ps (an_pattern a) @
           missing ''context'' ''referenced by anomaly'' (an_id a) xs (an_context a)) (ch_anomalies ch)) @
         concat (map (\<lambda>p. missing ''context'' ''referenced by pattern'' (pat_id p) xs (pat_context p)) (ch_patterns ch)) @
         concat (map (\<lambda>x. concat (map (missing ''evidence'' ''referenced by context'' (ctx_id x) es) (ctx_evidence_ids x))) (ch_contexts ch)) @
         concat (map (\<lambda>e. concat (map (missing ''observation'' ''referenced by evidence'' (ev_id e) obs) (ev_observation_ids e))) (ch_evidence ch)))"

section \<open>Nodes\<close>

record trace_node =
  nd_type :: string
  nd_id :: string
  nd_tenant :: string
  nd_timestamp :: "string option"
  nd_data :: dict

definition mk_node :: "string \<Rightarrow> uuid \<Rightarrow> uuid \<Rightarrow> string \<Rightarrow> dict \<Rightarrow> trace_node" where
  "mk_node typ i tenant ts data = \<lparr>nd_type = typ, nd_id = uuid_str i, nd_tenant = uuid_str tenant, nd_timestamp = Some ts, nd_data = data\<rparr>"

definition jids :: "uuid list \<Rightarrow> json" where
  "jids ids = JArr (map (\<lambda>i. JStr (uuid_str i)) ids)"

definition jtime :: "trace_env \<Rightarrow> datetime option \<Rightarrow> json" where
  "jtime env t = (case t of None \<Rightarrow> JNull | Some x \<Rightarrow> JStr (ce_iso env x))"

definition jday :: "trace_env \<Rightarrow> datetime option \<Rightarrow> json" where
  "jday env t = (case t of None \<Rightarrow> JNull | Some x \<Rightarrow> JStr (ce_day env x))"

definition report_node :: "trace_env \<Rightarrow> report_row \<Rightarrow> trace_node" where
  "report_node env r = mk_node ''report'' (rp_id r) (rp_tenant r) (ce_iso env (rp_generated_at r))
     [(''report_type'', JStr (rp_type r)), (''title'', JStr (rp_title r)),
      (''summary'', (case rp_summary r of None \<Rightarrow> JNull | Some s \<Rightarrow> JStr s)),
      (''generated_at'', JStr (ce_iso env (rp_generated_at r))), (''period_start'', jday env (rp_period_start r)),
      (''period_end'', jday env (rp_period_end r))]"

definition decision_node :: "trace_env \<Rightarrow> decision \<Rightarrow> trace_node" where
  "decision_node env d = mk_node ''decision'' (dec_id d) (dec_tenant d) (ce_iso env (dec_committed_at d))
     [(''recommendation_id'', JStr (uuid_str (dec_recommendation d))), (''confidence_id'', JStr (uuid_str (dec_confidence d))),
      (''authority_id'', JStr (uuid_str (dec_authority d))), (''commitment'', JStr (dec_commitment d)),
      (''expected_outcomes'', JArr (map JObj (dec_expected d))), (''risk_tolerance'', JStr (dec_risk d)),
      (''status'', JStr (dec_status d)), (''committed_at'', JStr (ce_iso env (dec_committed_at d))),
      (''executed_at'', jtime env (dec_executed_at d)),
      (''actual_outcomes'', (case dec_actual d of None \<Rightarrow> JNull | Some xs \<Rightarrow> JArr (map JObj xs)))]"

definition recommendation_node :: "trace_env \<Rightarrow> recommendation \<Rightarrow> trace_node" where
  "recommendation_node env r = mk_node ''recommendation'' (rec_id r) (rec_tenant r) (ce_iso env (rec_proposed_at r))
     ([(''hypothesis_id'', JStr (uuid_str (rec_hypothesis r))), (''confidence_id'', JStr (uuid_str (rec_confidence_id r))),
       (''action_description'', JStr (rec_action_description r)), (''rationale'', JStr (rec_rationale r)),
       (''expected_consequences'', JArr (map JStr (rec_consequences r))), (''alternatives_considered'', JArr (map JObj (rec_alternatives r))),
       (''confidence_score'', JFloat (rec_score r)), (''status'', JStr (rec_status r)),
       (''proposed_at'', JStr (ce_iso env (rec_proposed_at r)))] @
      (case rec_insight r of None \<Rightarrow> [] | Some i \<Rightarrow> [(''insight_id'', JStr (uuid_str i))]))"

definition confidence_node :: "trace_env \<Rightarrow> confidence \<Rightarrow> trace_node" where
  "confidence_node env c = mk_node ''confidence'' (conf_id c) (conf_tenant c) (ce_iso env (conf_computed_at c))
     [(''target_type'', JStr (conf_target_type c)), (''target_id'', JStr (uuid_str (conf_target_id c))),
      (''evidential_support'', JFloat (conf_support c)), (''explanatory_coherence'', JFloat (conf_coherence c)),
      (''historical_calibration'', JFloat (conf_historical c)), (''confidence_score'', JFloat (conf_score c)),
      (''alpha'', JFloat (conf_alpha c)), (''calibration_justification'', JStr (conf_justification c)),
      (''calibration_error_estimate'', JFloat (conf_error c)), (''computed_at'', JStr (ce_iso env (conf_computed_at c)))]"

definition hypothesis_node :: "trace_env \<Rightarrow> hypothesis \<Rightarrow> trace_node" where
  "hypothesis_node env h = mk_node ''hypothesis'' (hyp_id h) (hyp_tenant h) (ce_iso env (hyp_generated_at h))
     [(''anomaly_ids'', jids (hyp_anomaly_ids h)), (''pattern_ids'', jids (hyp_pattern_ids h)),
      (''description'', JStr (hyp_description h)), (''predicted_consequences'', JArr (map JStr (hyp_consequences h))),
      (''falsification_criterion'', JStr (hyp_falsification h)), (''coherence_score'', JFloat (hyp_coherence h)),
      (''status'', JStr (hyp_status h)), (''generated_at'', JStr (ce_iso env (hyp_generated_at h)))]"

definition anomaly_node :: "trace_env \<Rightarrow> anomaly \<Rightarrow> trace_node" where
  "anomaly_node env a = mk_node ''anomaly'' (an_id a) (an_tenant a) (ce_iso env (an_detected_at a))
     [(''context_id'', JStr (uuid_str (an_context a))), (''pattern_id'', JStr (uuid_str (an_pattern a))),
      (''anomaly_class'', JStr (an_class a)), (''deviation_score'', JFloat (an_score a)),
      (''tolerance_threshold'', JFloat (an_threshold a)), (''detected_at'', JStr (ce_iso env (an_detected_at a)))]"

definition pattern_node :: "trace_env \<Rightarrow> pattern \<Rightarrow> trace_node" where
  "pattern_node env p = mk_node ''pattern'' (pat_id p) (pat_tenant p) (ce_iso env (pat_detected_at p))
     [(''context_id'', JStr (uuid_str (pat_context p))), (''pattern_type'', JStr (pat_type p)),
      (''description'', JStr (pat_description p)), (''strength_measure'', JFloat (pat_strength p)),
      (''frequency'', JStr (pat_frequency p)), (''detected_at'', JStr (ce_iso env (pat_detected_at p))),
      (''is_active'', JBool (pat_active p))]"

definition context_node :: "trace_env \<Rightarrow> context_row \<Rightarrow> trace_node" where
  "context_node env x = mk_node ''context'' (ctx_id x) (ctx_tenant x) (ce_iso env (ctx_activated_at x))
     [(''evidence_ids'', jids (ctx_evidence_ids x)), (''mental_model_id'', JStr (ctx_model x)), (''purpose'', JStr (ctx_purpose x)),
      (''coherence_score'', JFloat (ctx_coherence x)),
      (''competing_models'', JArr (map (\<lambda>(m, c). JObj [(''mental_model_id'', JStr m), (''coherence_score'', JFloat c)]) (ctx_competing x))),
      (''activated_at'', JStr (ce_iso env (ctx_activated_at x))), (''is_active'', JBool (ctx_active x))]"

definition evidence_node :: "trace_env \<Rightarrow> evidence \<Rightarrow> trace_node" where
  "evidence_node env e = mk_node ''evidence'' (ev_id e) (ev_tenant e) (ce_iso env (ev_organized_at e))
     [(''observation_ids'', jids (ev_observation_ids e)), (''organization_type'', JStr (ev_type e)),
      (''description'', JStr (ev_description e)), (''quality_class'', JStr (quality_value (ev_quality e))),
      (''weight'', JFloat (ev_weight e)), (''organized_at'', JStr (ce_iso env (ev_organized_at e)))]"

definition observation_node :: "trace_env \<Rightarrow> observation \<Rightarrow> trace_node" where
  "observation_node env x = mk_node ''observation'' (o_id x) (o_tenant x) (ce_iso env (o_captured_at x))
     [(''source_id'', JStr (uuid_str (o_source x))), (''source_type'', JStr (o_source_type x)), (''fact_type'', JStr (o_fact_type x)),
      (''fact_value'', JObj (o_fact_value x)), (''unit'', JStr (o_unit x)), (''captured_at'', JStr (ce_iso env (o_captured_at x))),
      (''quality_class'', JStr (quality_value (o_quality x))), (''raw_payload'', JObj (o_raw x))]"

text \<open>\<open>_add_node\<close>: the first node of a type and identifier stays.\<close>

definition add_node :: "trace_node list \<Rightarrow> trace_node \<Rightarrow> trace_node list" where
  "add_node ns n = (if (nd_type n, nd_id n) \<in> (\<lambda>m. (nd_type m, nd_id m)) ` set ns then ns else ns @ [n])"

definition chain_nodes :: "trace_env \<Rightarrow> report_row \<Rightarrow> chain \<Rightarrow> trace_node list" where
  "chain_nodes env r ch = foldl add_node [] ([report_node env r] @ map (decision_node env) (ch_decisions ch) @
     map (recommendation_node env) (ch_recommendations ch) @ map (confidence_node env) (ch_confidences ch) @
     map (hypothesis_node env) (ch_hypotheses ch) @ map (anomaly_node env) (ch_anomalies ch) @
     map (pattern_node env) (ch_patterns ch) @ map (context_node env) (ch_contexts ch) @
     map (evidence_node env) (ch_evidence ch) @ map (observation_node env) (ch_observations ch))"

definition node_rank :: "trace_node \<Rightarrow> nat" where
  "node_rank n = (case map_of TYPE_ORDER (nd_type n) of None \<Rightarrow> 99 | Some k \<Rightarrow> k)"

section \<open>Edges\<close>

type_synonym edge = "string \<times> string \<times> string"

definition link_to :: "uuid \<Rightarrow> string \<Rightarrow> uuid list \<Rightarrow> uuid \<Rightarrow> edge list" where
  "link_to who relation present i = (if i \<in> set present then [(uuid_str who, uuid_str i, relation)] else [])"

definition edges_report :: "uuid \<Rightarrow> uuid list \<Rightarrow> chain \<Rightarrow> edge list" where
  "edges_report report ids ch = concat (map (link_to report ''documents'' (map dec_id (ch_decisions ch))) ids)"

definition edges_decision :: "chain \<Rightarrow> decision \<Rightarrow> edge list" where
  "edges_decision ch d = link_to (dec_id d) ''commits'' (map rec_id (ch_recommendations ch)) (dec_recommendation d) @
     link_to (dec_id d) ''calibrated_by'' (map conf_id (ch_confidences ch)) (dec_confidence d)"

definition edges_recommendation :: "chain \<Rightarrow> recommendation \<Rightarrow> edge list" where
  "edges_recommendation ch r = link_to (rec_id r) ''explains'' (map hyp_id (ch_hypotheses ch)) (rec_hypothesis r) @
     link_to (rec_id r) ''carries'' (map conf_id (ch_confidences ch)) (rec_confidence_id r)"

definition edges_confidence :: "chain \<Rightarrow> confidence \<Rightarrow> edge list" where
  "edges_confidence ch c = (if conf_target_type c = ''hypothesis''
     then link_to (conf_id c) ''calibrates'' (map hyp_id (ch_hypotheses ch)) (conf_target_id c) else [])"

definition edges_hypothesis :: "chain \<Rightarrow> hypothesis \<Rightarrow> edge list" where
  "edges_hypothesis ch h = concat (map (link_to (hyp_id h) ''accounts_for'' (map an_id (ch_anomalies ch))) (hyp_anomaly_ids h)) @
     concat (map (link_to (hyp_id h) ''refers_to'' (map pat_id (ch_patterns ch))) (hyp_pattern_ids h))"

definition edges_anomaly :: "chain \<Rightarrow> anomaly \<Rightarrow> edge list" where
  "edges_anomaly ch a = link_to (an_id a) ''deviates_from'' (map pat_id (ch_patterns ch)) (an_pattern a) @
     link_to (an_id a) ''contextualized_by'' (map ctx_id (ch_contexts ch)) (an_context a)"

definition edges_pattern :: "chain \<Rightarrow> pattern \<Rightarrow> edge list" where
  "edges_pattern ch p = link_to (pat_id p) ''contextualized_by'' (map ctx_id (ch_contexts ch)) (pat_context p)"

definition edges_context :: "chain \<Rightarrow> context_row \<Rightarrow> edge list" where
  "edges_context ch x = concat (map (link_to (ctx_id x) ''organizes'' (map ev_id (ch_evidence ch))) (ctx_evidence_ids x))"

definition edges_evidence :: "chain \<Rightarrow> evidence \<Rightarrow> edge list" where
  "edges_evidence ch e = concat (map (link_to (ev_id e) ''observes'' (map o_id (ch_observations ch))) (ev_observation_ids e))"

definition chain_edges :: "report_row \<Rightarrow> uuid list \<Rightarrow> chain \<Rightarrow> edge list" where
  "chain_edges r ids ch = edges_report (rp_id r) ids ch @ concat (map (edges_decision ch) (ch_decisions ch)) @
     concat (map (edges_recommendation ch) (ch_recommendations ch)) @ concat (map (edges_confidence ch) (ch_confidences ch)) @
     concat (map (edges_hypothesis ch) (ch_hypotheses ch)) @ concat (map (edges_anomaly ch) (ch_anomalies ch)) @
     concat (map (edges_pattern ch) (ch_patterns ch)) @ concat (map (edges_context ch) (ch_contexts ch)) @
     concat (map (edges_evidence ch) (ch_evidence ch))"

section \<open>The trace\<close>

record cognitive_trace =
  ct_root :: uuid
  ct_tenant :: uuid
  ct_nodes :: "trace_node list"
  ct_edges :: "edge list"
  ct_completeness :: string
  ct_warnings :: "string list"

definition assemble :: "report_row \<Rightarrow> trace_node list \<Rightarrow> edge list \<Rightarrow> string list \<Rightarrow> cognitive_trace" where
  "assemble r nodes edges warnings = \<lparr>ct_root = rp_id r, ct_tenant = rp_tenant r, ct_nodes = nodes, ct_edges = edges,
     ct_completeness = (if warnings = [] then ''complete'' else ''partial''), ct_warnings = warnings\<rparr>"

definition trace_of :: "trace_env \<Rightarrow> canon \<Rightarrow> report_row \<Rightarrow> uuid list \<Rightarrow> cognitive_trace" where
  "trace_of env db r ids =
     (if ids = [] then assemble r [report_node env r] [] [''report has no decision_traces to trace'']
      else (let ch = load_chain db (rp_tenant r) ids
            in assemble r (sort_key (\<lambda>n. (node_rank n, nd_id n)) (chain_nodes env r ch))
                 (sort (remdups (chain_edges r ids ch))) (validate_provenance env ids ch)))"

definition get_trace :: "trace_env \<Rightarrow> canon \<Rightarrow> uuid \<Rightarrow> uuid \<Rightarrow> cognitive_trace option result" where
  "get_trace env db tenant report =
     (case find (\<lambda>r. rp_tenant r = tenant \<and> rp_id r = report) (cn_reports db) of
        None \<Rightarrow> Inr None
      | Some r \<Rightarrow> and_then (report_decisions env r) (\<lambda>ids. Inr (Some (trace_of env db r ids))))"

section \<open>What the tables say\<close>

text \<open>
  The specification: an artifact is a type and an identifier; \<open>stored\<close> says that the tenant has it, and
  \<open>refers\<close> is one reference of a stored row, named as the trace names it.
\<close>

type_synonym artifact = "string \<times> uuid"

definition has :: "('r \<Rightarrow> uuid) \<Rightarrow> ('r \<Rightarrow> uuid) \<Rightarrow> uuid \<Rightarrow> uuid \<Rightarrow> 'r list \<Rightarrow> bool" where
  "has key ten tenant i t \<longleftrightarrow> (\<exists>r \<in> set t. ten r = tenant \<and> key r = i)"

definition stored :: "canon \<Rightarrow> uuid \<Rightarrow> artifact \<Rightarrow> bool" where
  "stored db tenant x \<longleftrightarrow> (case x of (typ, i) \<Rightarrow>
     typ = ''decision'' \<and> has dec_id dec_tenant tenant i (cn_decisions db) \<or>
     typ = ''recommendation'' \<and> has rec_id rec_tenant tenant i (cn_recommendations db) \<or>
     typ = ''confidence'' \<and> has conf_id conf_tenant tenant i (cn_confidences db) \<or>
     typ = ''hypothesis'' \<and> has hyp_id hyp_tenant tenant i (cn_hypotheses db) \<or>
     typ = ''anomaly'' \<and> has an_id an_tenant tenant i (cn_anomalies db) \<or>
     typ = ''pattern'' \<and> has pat_id pat_tenant tenant i (cn_patterns db) \<or>
     typ = ''context'' \<and> has ctx_id ctx_tenant tenant i (cn_contexts db) \<or>
     typ = ''evidence'' \<and> has ev_id ev_tenant tenant i (cn_evidence db) \<or>
     typ = ''observation'' \<and> has o_id o_tenant tenant i (cn_observations db))"

inductive refers :: "canon \<Rightarrow> uuid \<Rightarrow> uuid \<Rightarrow> uuid list \<Rightarrow> string \<Rightarrow> artifact \<Rightarrow> artifact \<Rightarrow> bool"
  for db tenant report ids where
  documents: "i \<in> set ids \<Longrightarrow> refers db tenant report ids ''documents'' (''report'', report) (''decision'', i)"
| commits: "d \<in> set (cn_decisions db) \<Longrightarrow> dec_tenant d = tenant \<Longrightarrow>
    refers db tenant report ids ''commits'' (''decision'', dec_id d) (''recommendation'', dec_recommendation d)"
| calibrated_by: "d \<in> set (cn_decisions db) \<Longrightarrow> dec_tenant d = tenant \<Longrightarrow>
    refers db tenant report ids ''calibrated_by'' (''decision'', dec_id d) (''confidence'', dec_confidence d)"
| explains: "r \<in> set (cn_recommendations db) \<Longrightarrow> rec_tenant r = tenant \<Longrightarrow>
    refers db tenant report ids ''explains'' (''recommendation'', rec_id r) (''hypothesis'', rec_hypothesis r)"
| carries: "r \<in> set (cn_recommendations db) \<Longrightarrow> rec_tenant r = tenant \<Longrightarrow>
    refers db tenant report ids ''carries'' (''recommendation'', rec_id r) (''confidence'', rec_confidence_id r)"
| calibrates: "c \<in> set (cn_confidences db) \<Longrightarrow> conf_tenant c = tenant \<Longrightarrow> conf_target_type c = ''hypothesis'' \<Longrightarrow>
    refers db tenant report ids ''calibrates'' (''confidence'', conf_id c) (''hypothesis'', conf_target_id c)"
| accounts_for: "h \<in> set (cn_hypotheses db) \<Longrightarrow> hyp_tenant h = tenant \<Longrightarrow> i \<in> set (hyp_anomaly_ids h) \<Longrightarrow>
    refers db tenant report ids ''accounts_for'' (''hypothesis'', hyp_id h) (''anomaly'', i)"
| refers_to: "h \<in> set (cn_hypotheses db) \<Longrightarrow> hyp_tenant h = tenant \<Longrightarrow> i \<in> set (hyp_pattern_ids h) \<Longrightarrow>
    refers db tenant report ids ''refers_to'' (''hypothesis'', hyp_id h) (''pattern'', i)"
| deviates_from: "a \<in> set (cn_anomalies db) \<Longrightarrow> an_tenant a = tenant \<Longrightarrow>
    refers db tenant report ids ''deviates_from'' (''anomaly'', an_id a) (''pattern'', an_pattern a)"
| anomaly_context: "a \<in> set (cn_anomalies db) \<Longrightarrow> an_tenant a = tenant \<Longrightarrow>
    refers db tenant report ids ''contextualized_by'' (''anomaly'', an_id a) (''context'', an_context a)"
| pattern_context: "p \<in> set (cn_patterns db) \<Longrightarrow> pat_tenant p = tenant \<Longrightarrow>
    refers db tenant report ids ''contextualized_by'' (''pattern'', pat_id p) (''context'', pat_context p)"
| organizes: "x \<in> set (cn_contexts db) \<Longrightarrow> ctx_tenant x = tenant \<Longrightarrow> i \<in> set (ctx_evidence_ids x) \<Longrightarrow>
    refers db tenant report ids ''organizes'' (''context'', ctx_id x) (''evidence'', i)"
| observes: "e \<in> set (cn_evidence db) \<Longrightarrow> ev_tenant e = tenant \<Longrightarrow> i \<in> set (ev_observation_ids e) \<Longrightarrow>
    refers db tenant report ids ''observes'' (''evidence'', ev_id e) (''observation'', i)"

inductive_cases refers_cases: "refers db tenant report ids rel x y"

text \<open>The references the trace follows: all but the target of a confidence.\<close>

definition link :: "canon \<Rightarrow> uuid \<Rightarrow> uuid \<Rightarrow> uuid list \<Rightarrow> artifact \<Rightarrow> artifact \<Rightarrow> bool" where
  "link db tenant report ids x y \<longleftrightarrow> (\<exists>rel. rel \<noteq> ''calibrates'' \<and> refers db tenant report ids rel x y) \<and> stored db tenant y"

definition behind :: "canon \<Rightarrow> uuid \<Rightarrow> uuid \<Rightarrow> uuid list \<Rightarrow> artifact \<Rightarrow> bool" where
  "behind db tenant report ids x \<longleftrightarrow> (link db tenant report ids)\<^sup>*\<^sup>* (''report'', report) x"

section \<open>The loaded rows are the artifacts behind the report\<close>

lemma bulk_in [simp]: "r \<in> set (bulk_by_ids key ten tenant ids t) \<longleftrightarrow> r \<in> set t \<and> ten r = tenant \<and> key r \<in> set ids"
  by (auto simp: bulk_by_ids_def)

definition artifacts :: "uuid \<Rightarrow> chain \<Rightarrow> artifact set" where
  "artifacts report ch = {(''report'', report)} \<union> Pair ''decision'' ` dec_id ` set (ch_decisions ch) \<union>
     Pair ''recommendation'' ` rec_id ` set (ch_recommendations ch) \<union> Pair ''confidence'' ` conf_id ` set (ch_confidences ch) \<union>
     Pair ''hypothesis'' ` hyp_id ` set (ch_hypotheses ch) \<union> Pair ''anomaly'' ` an_id ` set (ch_anomalies ch) \<union>
     Pair ''pattern'' ` pat_id ` set (ch_patterns ch) \<union> Pair ''context'' ` ctx_id ` set (ch_contexts ch) \<union>
     Pair ''evidence'' ` ev_id ` set (ch_evidence ch) \<union> Pair ''observation'' ` o_id ` set (ch_observations ch)"

lemma behind_step:
  "behind db tenant report ids x \<Longrightarrow> refers db tenant report ids rel x y \<Longrightarrow> rel \<noteq> ''calibrates'' \<Longrightarrow> stored db tenant y \<Longrightarrow>
     behind db tenant report ids y"
  unfolding behind_def link_def by (blast intro: rtranclp.rtrancl_into_rtrancl)

lemma artifacts_simps [simp]:
  "(''report'', i) \<in> artifacts report ch \<longleftrightarrow> i = report"
  "(''decision'', i) \<in> artifacts report ch \<longleftrightarrow> i \<in> dec_id ` set (ch_decisions ch)"
  "(''recommendation'', i) \<in> artifacts report ch \<longleftrightarrow> i \<in> rec_id ` set (ch_recommendations ch)"
  "(''confidence'', i) \<in> artifacts report ch \<longleftrightarrow> i \<in> conf_id ` set (ch_confidences ch)"
  "(''hypothesis'', i) \<in> artifacts report ch \<longleftrightarrow> i \<in> hyp_id ` set (ch_hypotheses ch)"
  "(''anomaly'', i) \<in> artifacts report ch \<longleftrightarrow> i \<in> an_id ` set (ch_anomalies ch)"
  "(''pattern'', i) \<in> artifacts report ch \<longleftrightarrow> i \<in> pat_id ` set (ch_patterns ch)"
  "(''context'', i) \<in> artifacts report ch \<longleftrightarrow> i \<in> ctx_id ` set (ch_contexts ch)"
  "(''evidence'', i) \<in> artifacts report ch \<longleftrightarrow> i \<in> ev_id ` set (ch_evidence ch)"
  "(''observation'', i) \<in> artifacts report ch \<longleftrightarrow> i \<in> o_id ` set (ch_observations ch)"
  by (auto simp: artifacts_def)

lemma stored_simps [simp]:
  "stored db tenant (''report'', i) \<longleftrightarrow> False"
  "stored db tenant (''decision'', i) \<longleftrightarrow> has dec_id dec_tenant tenant i (cn_decisions db)"
  "stored db tenant (''recommendation'', i) \<longleftrightarrow> has rec_id rec_tenant tenant i (cn_recommendations db)"
  "stored db tenant (''confidence'', i) \<longleftrightarrow> has conf_id conf_tenant tenant i (cn_confidences db)"
  "stored db tenant (''hypothesis'', i) \<longleftrightarrow> has hyp_id hyp_tenant tenant i (cn_hypotheses db)"
  "stored db tenant (''anomaly'', i) \<longleftrightarrow> has an_id an_tenant tenant i (cn_anomalies db)"
  "stored db tenant (''pattern'', i) \<longleftrightarrow> has pat_id pat_tenant tenant i (cn_patterns db)"
  "stored db tenant (''context'', i) \<longleftrightarrow> has ctx_id ctx_tenant tenant i (cn_contexts db)"
  "stored db tenant (''evidence'', i) \<longleftrightarrow> has ev_id ev_tenant tenant i (cn_evidence db)"
  "stored db tenant (''observation'', i) \<longleftrightarrow> has o_id o_tenant tenant i (cn_observations db)"
  by (simp_all add: stored_def)

text \<open>Membership in each loaded table, one level at a time; a loaded identifier loads every row of the tenant that has it.\<close>

lemma in_chain:
  "d \<in> set (ch_decisions (load_chain db tenant ids)) \<longleftrightarrow> d \<in> set (cn_decisions db) \<and> dec_tenant d = tenant \<and> dec_id d \<in> set ids"
  "r \<in> set (ch_recommendations (load_chain db tenant ids)) \<longleftrightarrow> r \<in> set (cn_recommendations db) \<and> rec_tenant r = tenant \<and>
      rec_id r \<in> dec_recommendation ` set (ch_decisions (load_chain db tenant ids))"
  "c \<in> set (ch_confidences (load_chain db tenant ids)) \<longleftrightarrow> c \<in> set (cn_confidences db) \<and> conf_tenant c = tenant \<and>
      conf_id c \<in> dec_confidence ` set (ch_decisions (load_chain db tenant ids)) \<union> rec_confidence_id ` set (ch_recommendations (load_chain db tenant ids))"
  "h \<in> set (ch_hypotheses (load_chain db tenant ids)) \<longleftrightarrow> h \<in> set (cn_hypotheses db) \<and> hyp_tenant h = tenant \<and>
      hyp_id h \<in> rec_hypothesis ` set (ch_recommendations (load_chain db tenant ids))"
  "a \<in> set (ch_anomalies (load_chain db tenant ids)) \<longleftrightarrow> a \<in> set (cn_anomalies db) \<and> an_tenant a = tenant \<and>
      an_id a \<in> \<Union> (set ` hyp_anomaly_ids ` set (ch_hypotheses (load_chain db tenant ids)))"
  "p \<in> set (ch_patterns (load_chain db tenant ids)) \<longleftrightarrow> p \<in> set (cn_patterns db) \<and> pat_tenant p = tenant \<and>
      pat_id p \<in> \<Union> (set ` hyp_pattern_ids ` set (ch_hypotheses (load_chain db tenant ids))) \<union> an_pattern ` set (ch_anomalies (load_chain db tenant ids))"
  "x \<in> set (ch_contexts (load_chain db tenant ids)) \<longleftrightarrow> x \<in> set (cn_contexts db) \<and> ctx_tenant x = tenant \<and>
      ctx_id x \<in> an_context ` set (ch_anomalies (load_chain db tenant ids)) \<union> pat_context ` set (ch_patterns (load_chain db tenant ids))"
  "e \<in> set (ch_evidence (load_chain db tenant ids)) \<longleftrightarrow> e \<in> set (cn_evidence db) \<and> ev_tenant e = tenant \<and>
      ev_id e \<in> \<Union> (set ` ctx_evidence_ids ` set (ch_contexts (load_chain db tenant ids)))"
  "w \<in> set (ch_observations (load_chain db tenant ids)) \<longleftrightarrow> w \<in> set (cn_observations db) \<and> o_tenant w = tenant \<and>
      o_id w \<in> \<Union> (set ` ev_observation_ids ` set (ch_evidence (load_chain db tenant ids)))"
  by (simp_all add: load_chain_def Let_def image_image)

lemma by_key:
  "dec_id d \<in> dec_id ` set (ch_decisions (load_chain db tenant ids)) \<Longrightarrow> d \<in> set (cn_decisions db) \<Longrightarrow> dec_tenant d = tenant \<Longrightarrow>
     d \<in> set (ch_decisions (load_chain db tenant ids))"
  "rec_id r \<in> rec_id ` set (ch_recommendations (load_chain db tenant ids)) \<Longrightarrow> r \<in> set (cn_recommendations db) \<Longrightarrow> rec_tenant r = tenant \<Longrightarrow>
     r \<in> set (ch_recommendations (load_chain db tenant ids))"
  "conf_id c \<in> conf_id ` set (ch_confidences (load_chain db tenant ids)) \<Longrightarrow> c \<in> set (cn_confidences db) \<Longrightarrow> conf_tenant c = tenant \<Longrightarrow>
     c \<in> set (ch_confidences (load_chain db tenant ids))"
  "hyp_id h \<in> hyp_id ` set (ch_hypotheses (load_chain db tenant ids)) \<Longrightarrow> h \<in> set (cn_hypotheses db) \<Longrightarrow> hyp_tenant h = tenant \<Longrightarrow>
     h \<in> set (ch_hypotheses (load_chain db tenant ids))"
  "an_id a \<in> an_id ` set (ch_anomalies (load_chain db tenant ids)) \<Longrightarrow> a \<in> set (cn_anomalies db) \<Longrightarrow> an_tenant a = tenant \<Longrightarrow>
     a \<in> set (ch_anomalies (load_chain db tenant ids))"
  "pat_id p \<in> pat_id ` set (ch_patterns (load_chain db tenant ids)) \<Longrightarrow> p \<in> set (cn_patterns db) \<Longrightarrow> pat_tenant p = tenant \<Longrightarrow>
     p \<in> set (ch_patterns (load_chain db tenant ids))"
  "ctx_id x \<in> ctx_id ` set (ch_contexts (load_chain db tenant ids)) \<Longrightarrow> x \<in> set (cn_contexts db) \<Longrightarrow> ctx_tenant x = tenant \<Longrightarrow>
     x \<in> set (ch_contexts (load_chain db tenant ids))"
  "ev_id e \<in> ev_id ` set (ch_evidence (load_chain db tenant ids)) \<Longrightarrow> e \<in> set (cn_evidence db) \<Longrightarrow> ev_tenant e = tenant \<Longrightarrow>
     e \<in> set (ch_evidence (load_chain db tenant ids))"
  by (auto simp: load_chain_def Let_def)

lemma reached:
  "has dec_id dec_tenant tenant i (cn_decisions db) \<Longrightarrow> i \<in> set ids \<Longrightarrow> i \<in> dec_id ` set (ch_decisions (load_chain db tenant ids))"
  "has rec_id rec_tenant tenant (dec_recommendation d) (cn_recommendations db) \<Longrightarrow> d \<in> set (ch_decisions (load_chain db tenant ids)) \<Longrightarrow>
     dec_recommendation d \<in> rec_id ` set (ch_recommendations (load_chain db tenant ids))"
  "has conf_id conf_tenant tenant (dec_confidence d) (cn_confidences db) \<Longrightarrow> d \<in> set (ch_decisions (load_chain db tenant ids)) \<Longrightarrow>
     dec_confidence d \<in> conf_id ` set (ch_confidences (load_chain db tenant ids))"
  "has conf_id conf_tenant tenant (rec_confidence_id r) (cn_confidences db) \<Longrightarrow> r \<in> set (ch_recommendations (load_chain db tenant ids)) \<Longrightarrow>
     rec_confidence_id r \<in> conf_id ` set (ch_confidences (load_chain db tenant ids))"
  "has hyp_id hyp_tenant tenant (rec_hypothesis r) (cn_hypotheses db) \<Longrightarrow> r \<in> set (ch_recommendations (load_chain db tenant ids)) \<Longrightarrow>
     rec_hypothesis r \<in> hyp_id ` set (ch_hypotheses (load_chain db tenant ids))"
  "has an_id an_tenant tenant i (cn_anomalies db) \<Longrightarrow> h \<in> set (ch_hypotheses (load_chain db tenant ids)) \<Longrightarrow> i \<in> set (hyp_anomaly_ids h) \<Longrightarrow>
     i \<in> an_id ` set (ch_anomalies (load_chain db tenant ids))"
  "has pat_id pat_tenant tenant i (cn_patterns db) \<Longrightarrow> h \<in> set (ch_hypotheses (load_chain db tenant ids)) \<Longrightarrow> i \<in> set (hyp_pattern_ids h) \<Longrightarrow>
     i \<in> pat_id ` set (ch_patterns (load_chain db tenant ids))"
  "has pat_id pat_tenant tenant (an_pattern a) (cn_patterns db) \<Longrightarrow> a \<in> set (ch_anomalies (load_chain db tenant ids)) \<Longrightarrow>
     an_pattern a \<in> pat_id ` set (ch_patterns (load_chain db tenant ids))"
  "has ctx_id ctx_tenant tenant (an_context a) (cn_contexts db) \<Longrightarrow> a \<in> set (ch_anomalies (load_chain db tenant ids)) \<Longrightarrow>
     an_context a \<in> ctx_id ` set (ch_contexts (load_chain db tenant ids))"
  "has ctx_id ctx_tenant tenant (pat_context p) (cn_contexts db) \<Longrightarrow> p \<in> set (ch_patterns (load_chain db tenant ids)) \<Longrightarrow>
     pat_context p \<in> ctx_id ` set (ch_contexts (load_chain db tenant ids))"
  "has ev_id ev_tenant tenant i (cn_evidence db) \<Longrightarrow> x \<in> set (ch_contexts (load_chain db tenant ids)) \<Longrightarrow> i \<in> set (ctx_evidence_ids x) \<Longrightarrow>
     i \<in> ev_id ` set (ch_evidence (load_chain db tenant ids))"
  "has o_id o_tenant tenant i (cn_observations db) \<Longrightarrow> e \<in> set (ch_evidence (load_chain db tenant ids)) \<Longrightarrow> i \<in> set (ev_observation_ids e) \<Longrightarrow>
     i \<in> o_id ` set (ch_observations (load_chain db tenant ids))"
  unfolding has_def by (blast intro: in_chain [THEN iffD2] image_eqI [OF sym])+

lemma artifacts_closed:
  assumes "x \<in> artifacts report (load_chain db tenant ids)" and "link db tenant report ids x y"
  shows "y \<in> artifacts report (load_chain db tenant ids)"
proof -
  obtain rel where r: "refers db tenant report ids rel x y" "rel \<noteq> ''calibrates''" and s: "stored db tenant y"
    using assms(2) by (auto simp: link_def)
  from r show ?thesis
    by (cases rule: refers.cases) (use assms(1) s in \<open>simp_all, (blast intro: reached by_key)+\<close>)
qed

lemma behind_artifact: "behind db tenant report ids x \<Longrightarrow> x \<in> artifacts report (load_chain db tenant ids)"
  unfolding behind_def by (induction rule: rtranclp_induct) (auto intro: artifacts_closed)

lemmas steps = behind_step [OF _ documents, simplified] behind_step [OF _ commits, simplified] behind_step [OF _ calibrated_by, simplified]
  behind_step [OF _ explains, simplified] behind_step [OF _ carries, simplified] behind_step [OF _ accounts_for, simplified]
  behind_step [OF _ refers_to, simplified] behind_step [OF _ deviates_from, simplified] behind_step [OF _ anomaly_context, simplified]
  behind_step [OF _ pattern_context, simplified] behind_step [OF _ organizes, simplified] behind_step [OF _ observes, simplified]

lemma hasI: "r \<in> set t \<Longrightarrow> ten r = tenant \<Longrightarrow> key r = i \<Longrightarrow> has key ten tenant i t"
  by (auto simp: has_def)

lemma artifact_behind:
  assumes "x \<in> artifacts report (load_chain db tenant ids)"
  shows "behind db tenant report ids x"
proof -
  let ?B = "behind db tenant report ids" and ?ch = "load_chain db tenant ids"
  have root: "?B (''report'', report)" by (simp add: behind_def)
  have d: "?B (''decision'', dec_id d)" if i: "d \<in> set (ch_decisions ?ch)" for d
  proof -
    have "has dec_id dec_tenant tenant (dec_id d) (cn_decisions db)" using i by (auto simp: in_chain(1) has_def)
    then show ?thesis using i [unfolded in_chain(1)] root steps(1) [where db = db and tenant = tenant and report = report and ids = ids]
      by (elim conjE UnE imageE UN_E) metis+
  qed
  have r: "?B (''recommendation'', rec_id r)" if i: "r \<in> set (ch_recommendations ?ch)" for r
  proof -
    have "has rec_id rec_tenant tenant (rec_id r) (cn_recommendations db)" using i by (auto simp: in_chain(2) has_def)
    then show ?thesis using i [unfolded in_chain(2)] in_chain(1) d steps(2) [where db = db and tenant = tenant and report = report and ids = ids]
      by (elim conjE UnE imageE UN_E) metis+
  qed
  have c: "?B (''confidence'', conf_id c)" if i: "c \<in> set (ch_confidences ?ch)" for c
  proof -
    have "has conf_id conf_tenant tenant (conf_id c) (cn_confidences db)" using i by (auto simp: in_chain(3) has_def)
    then show ?thesis using i [unfolded in_chain(3)] in_chain(1,2) d r steps(3,5) [where db = db and tenant = tenant and report = report and ids = ids]
      by (elim conjE UnE imageE UN_E) metis+
  qed
  have h: "?B (''hypothesis'', hyp_id h)" if i: "h \<in> set (ch_hypotheses ?ch)" for h
  proof -
    have "has hyp_id hyp_tenant tenant (hyp_id h) (cn_hypotheses db)" using i by (auto simp: in_chain(4) has_def)
    then show ?thesis using i [unfolded in_chain(4)] in_chain(2) r steps(4) [where db = db and tenant = tenant and report = report and ids = ids]
      by (elim conjE UnE imageE UN_E) metis+
  qed
  have a: "?B (''anomaly'', an_id a)" if i: "a \<in> set (ch_anomalies ?ch)" for a
  proof -
    have "has an_id an_tenant tenant (an_id a) (cn_anomalies db)" using i by (auto simp: in_chain(5) has_def)
    then show ?thesis using i [unfolded in_chain(5)] in_chain(4) h steps(6) [where db = db and tenant = tenant and report = report and ids = ids]
      by (elim conjE UnE imageE UN_E) metis+
  qed
  have p: "?B (''pattern'', pat_id p)" if i: "p \<in> set (ch_patterns ?ch)" for p
  proof -
    have "has pat_id pat_tenant tenant (pat_id p) (cn_patterns db)" using i by (auto simp: in_chain(6) has_def)
    then show ?thesis using i [unfolded in_chain(6)] in_chain(4,5) h a steps(7,8) [where db = db and tenant = tenant and report = report and ids = ids]
      by (elim conjE UnE imageE UN_E) metis+
  qed
  have x: "?B (''context'', ctx_id x)" if i: "x \<in> set (ch_contexts ?ch)" for x
  proof -
    have "has ctx_id ctx_tenant tenant (ctx_id x) (cn_contexts db)" using i by (auto simp: in_chain(7) has_def)
    then show ?thesis using i [unfolded in_chain(7)] in_chain(5,6) a p steps(9,10) [where db = db and tenant = tenant and report = report and ids = ids]
      by (elim conjE UnE imageE UN_E) metis+
  qed
  have e: "?B (''evidence'', ev_id e)" if i: "e \<in> set (ch_evidence ?ch)" for e
  proof -
    have "has ev_id ev_tenant tenant (ev_id e) (cn_evidence db)" using i by (auto simp: in_chain(8) has_def)
    then show ?thesis using i [unfolded in_chain(8)] in_chain(7) x steps(11) [where db = db and tenant = tenant and report = report and ids = ids]
      by (elim conjE UnE imageE UN_E) metis+
  qed
  have w: "?B (''observation'', o_id w)" if i: "w \<in> set (ch_observations ?ch)" for w
  proof -
    have "has o_id o_tenant tenant (o_id w) (cn_observations db)" using i by (auto simp: in_chain(9) has_def)
    then show ?thesis using i [unfolded in_chain(9)] in_chain(8) e steps(12) [where db = db and tenant = tenant and report = report and ids = ids]
      by (elim conjE UnE imageE UN_E) metis+
  qed
  show ?thesis using assms root d r c h a p x e w by (auto simp: artifacts_def)
qed

lemma artifacts_behind: "artifacts report (load_chain db tenant ids) = {x. behind db tenant report ids x}"
  using behind_artifact artifact_behind by blast

section \<open>Nodes, edges and warnings\<close>

abbreviation node_key :: "trace_node \<Rightarrow> string \<times> string" where
  "node_key n \<equiv> (nd_type n, nd_id n)"

definition shown :: "artifact \<Rightarrow> string \<times> string" where
  "shown x = (fst x, uuid_str (snd x))"

lemma add_nodes_keys: "node_key ` set (foldl add_node ns xs) = node_key ` set ns \<union> node_key ` set xs"
  by (induction xs arbitrary: ns) (auto simp: add_node_def image_iff)

lemma add_nodes_from: "set (foldl add_node ns xs) \<subseteq> set ns \<union> set xs"
  by (induction xs arbitrary: ns) (fastforce simp: add_node_def split: if_splits)+

lemmas node_defs = report_node_def decision_node_def recommendation_node_def confidence_node_def hypothesis_node_def
  anomaly_node_def pattern_node_def context_node_def evidence_node_def observation_node_def mk_node_def

lemma chain_node_keys: "node_key ` set (chain_nodes env r ch) = shown ` artifacts (rp_id r) ch"
  unfolding chain_nodes_def add_nodes_keys
  by (simp add: artifacts_def image_Un image_image shown_def Un_assoc node_defs)

text \<open>A node shows a row of the tenant.\<close>

definition shows_row :: "trace_env \<Rightarrow> canon \<Rightarrow> report_row \<Rightarrow> trace_node \<Rightarrow> bool" where
  "shows_row env db r n \<longleftrightarrow> n = report_node env r \<or>
     (\<exists>x \<in> set (cn_decisions db). dec_tenant x = rp_tenant r \<and> n = decision_node env x) \<or>
     (\<exists>x \<in> set (cn_recommendations db). rec_tenant x = rp_tenant r \<and> n = recommendation_node env x) \<or>
     (\<exists>x \<in> set (cn_confidences db). conf_tenant x = rp_tenant r \<and> n = confidence_node env x) \<or>
     (\<exists>x \<in> set (cn_hypotheses db). hyp_tenant x = rp_tenant r \<and> n = hypothesis_node env x) \<or>
     (\<exists>x \<in> set (cn_anomalies db). an_tenant x = rp_tenant r \<and> n = anomaly_node env x) \<or>
     (\<exists>x \<in> set (cn_patterns db). pat_tenant x = rp_tenant r \<and> n = pattern_node env x) \<or>
     (\<exists>x \<in> set (cn_contexts db). ctx_tenant x = rp_tenant r \<and> n = context_node env x) \<or>
     (\<exists>x \<in> set (cn_evidence db). ev_tenant x = rp_tenant r \<and> n = evidence_node env x) \<or>
     (\<exists>x \<in> set (cn_observations db). o_tenant x = rp_tenant r \<and> n = observation_node env x)"

lemma in_tables:
  "x0 \<in> set (ch_decisions (load_chain db tenant ids)) \<Longrightarrow> x0 \<in> set (cn_decisions db) \<and> dec_tenant x0 = tenant"
  "x1 \<in> set (ch_recommendations (load_chain db tenant ids)) \<Longrightarrow> x1 \<in> set (cn_recommendations db) \<and> rec_tenant x1 = tenant"
  "x2 \<in> set (ch_confidences (load_chain db tenant ids)) \<Longrightarrow> x2 \<in> set (cn_confidences db) \<and> conf_tenant x2 = tenant"
  "x3 \<in> set (ch_hypotheses (load_chain db tenant ids)) \<Longrightarrow> x3 \<in> set (cn_hypotheses db) \<and> hyp_tenant x3 = tenant"
  "x4 \<in> set (ch_anomalies (load_chain db tenant ids)) \<Longrightarrow> x4 \<in> set (cn_anomalies db) \<and> an_tenant x4 = tenant"
  "x5 \<in> set (ch_patterns (load_chain db tenant ids)) \<Longrightarrow> x5 \<in> set (cn_patterns db) \<and> pat_tenant x5 = tenant"
  "x6 \<in> set (ch_contexts (load_chain db tenant ids)) \<Longrightarrow> x6 \<in> set (cn_contexts db) \<and> ctx_tenant x6 = tenant"
  "x7 \<in> set (ch_evidence (load_chain db tenant ids)) \<Longrightarrow> x7 \<in> set (cn_evidence db) \<and> ev_tenant x7 = tenant"
  "x8 \<in> set (ch_observations (load_chain db tenant ids)) \<Longrightarrow> x8 \<in> set (cn_observations db) \<and> o_tenant x8 = tenant"
  by (simp_all add: load_chain_def Let_def)

lemma chain_nodes_from:
  "n \<in> set (chain_nodes env r ch) \<Longrightarrow> n = report_node env r \<or>
    (\<exists>x \<in> set (ch_decisions ch). n = decision_node env x) \<or>
    (\<exists>x \<in> set (ch_recommendations ch). n = recommendation_node env x) \<or>
    (\<exists>x \<in> set (ch_confidences ch). n = confidence_node env x) \<or>
    (\<exists>x \<in> set (ch_hypotheses ch). n = hypothesis_node env x) \<or>
    (\<exists>x \<in> set (ch_anomalies ch). n = anomaly_node env x) \<or>
    (\<exists>x \<in> set (ch_patterns ch). n = pattern_node env x) \<or>
    (\<exists>x \<in> set (ch_contexts ch). n = context_node env x) \<or>
    (\<exists>x \<in> set (ch_evidence ch). n = evidence_node env x) \<or>
    (\<exists>x \<in> set (ch_observations ch). n = observation_node env x)"
  unfolding chain_nodes_def by (drule subsetD [OF add_nodes_from]) (simp only: Un_iff set_append set_map list.set image_iff, blast)

lemma chain_nodes_rows:
  assumes "n \<in> set (chain_nodes env r (load_chain db (rp_tenant r) ids))"
  shows "shows_row env db r n"
  using chain_nodes_from [OF assms] by (elim disjE bexE) (simp_all add: shows_row_def, (drule in_tables, blast)+)

lemma shows_row_tenant: "shows_row env db r n \<Longrightarrow> nd_tenant n = uuid_str (rp_tenant r)"
  by (auto simp: shows_row_def node_defs)

lemma link_to_in [simp]: "e \<in> set (link_to who rel present i) \<longleftrightarrow> i \<in> set present \<and> e = (uuid_str who, uuid_str i, rel)"
  by (auto simp: link_to_def)

lemmas edge_defs = chain_edges_def edges_report_def edges_decision_def edges_recommendation_def edges_confidence_def
  edges_hypothesis_def edges_anomaly_def edges_pattern_def edges_context_def edges_evidence_def

lemma missing_nil [simp]: "missing typ how who present i = [] \<longleftrightarrow> i \<in> set present"
  by (simp add: missing_def)

lemma provenance_nil:
  assumes "\<And>A. finite A \<Longrightarrow> set (ce_order env A) = A"
  shows "validate_provenance env ids ch = [] \<longleftrightarrow>
    set ids \<subseteq> dec_id ` set (ch_decisions ch) \<and>
    (\<forall>d \<in> set (ch_decisions ch). dec_recommendation d \<in> rec_id ` set (ch_recommendations ch) \<and> dec_confidence d \<in> conf_id ` set (ch_confidences ch)) \<and>
    (\<forall>r \<in> set (ch_recommendations ch). rec_hypothesis r \<in> hyp_id ` set (ch_hypotheses ch) \<and> rec_confidence_id r \<in> conf_id ` set (ch_confidences ch)) \<and>
    (\<forall>c \<in> set (ch_confidences ch). conf_target_type c = ''hypothesis'' \<longrightarrow> conf_target_id c \<in> hyp_id ` set (ch_hypotheses ch)) \<and>
    (\<forall>h \<in> set (ch_hypotheses ch). set (hyp_anomaly_ids h) \<subseteq> an_id ` set (ch_anomalies ch) \<and> set (hyp_pattern_ids h) \<subseteq> pat_id ` set (ch_patterns ch)) \<and>
    (\<forall>a \<in> set (ch_anomalies ch). an_pattern a \<in> pat_id ` set (ch_patterns ch) \<and> an_context a \<in> ctx_id ` set (ch_contexts ch)) \<and>
    (\<forall>p \<in> set (ch_patterns ch). pat_context p \<in> ctx_id ` set (ch_contexts ch)) \<and>
    (\<forall>x \<in> set (ch_contexts ch). set (ctx_evidence_ids x) \<subseteq> ev_id ` set (ch_evidence ch)) \<and>
    (\<forall>e \<in> set (ch_evidence ch). set (ev_observation_ids e) \<subseteq> o_id ` set (ch_observations ch))"
proof -
  have o: "ce_order env (uuid_str ` set ids - uuid_str ` dec_id ` set (ch_decisions ch)) = [] \<longleftrightarrow> set ids \<subseteq> dec_id ` set (ch_decisions ch)"
    using assms [of "uuid_str ` set ids - uuid_str ` dec_id ` set (ch_decisions ch)"]
    by (auto simp: inj_image_subset_iff [OF injI [OF uuid_str_inj]] simp flip: set_empty)
  show ?thesis unfolding validate_provenance_def Let_def by (simp add: o subset_eq if_bool_eq_conj del: if_image_distrib)
qed

lemma refers_rank: "refers db tenant report ids rel x y \<Longrightarrow> the (map_of TYPE_ORDER (fst x)) < the (map_of TYPE_ORDER (fst y))"
  by (induction rule: refers.induct) (simp_all add: TYPE_ORDER_def)

lemma refers_acyclic: "acyclic {(x, y). \<exists>rel. refers db tenant report ids rel x y}"
proof -
  have "{(x, y). \<exists>rel. refers db tenant report ids rel x y} \<subseteq> measure (\<lambda>x. the (map_of TYPE_ORDER (fst x)))"
    by (auto dest: refers_rank)
  then show ?thesis using wf_acyclic [OF wf_subset [OF wf_measure]] by blast
qed

lemma chain_edges_reference:
  assumes "e \<in> set (chain_edges r ids (load_chain db (rp_tenant r) ids))"
  shows "\<exists>x y rel. e = (uuid_str (snd x), uuid_str (snd y), rel) \<and> refers db (rp_tenant r) (rp_id r) ids rel x y \<and>
    x \<in> artifacts (rp_id r) (load_chain db (rp_tenant r) ids) \<and> y \<in> artifacts (rp_id r) (load_chain db (rp_tenant r) ids)"
proof -
  let ?ch = "load_chain db (rp_tenant r) ids" and ?R = "refers db (rp_tenant r) (rp_id r) ids"
  let ?A = "artifacts (rp_id r) ?ch"
  have go: "\<exists>x y rel. (uuid_str a, uuid_str b, l) = (uuid_str (snd x), uuid_str (snd y), rel) \<and> ?R rel x y \<and> x \<in> ?A \<and> y \<in> ?A"
    if "?R l (t, a) (t', b)" and "(t, a) \<in> ?A" and "(t', b) \<in> ?A" for a b l t t'
    using that by (intro exI [of _ "(t, a)"] exI [of _ "(t', b)"] exI [of _ l]) simp
  consider "e \<in> set (edges_report (rp_id r) ids ?ch)" | d where "d \<in> set (ch_decisions ?ch)" "e \<in> set (edges_decision ?ch d)"
    | x where "x \<in> set (ch_recommendations ?ch)" "e \<in> set (edges_recommendation ?ch x)"
    | c where "c \<in> set (ch_confidences ?ch)" "e \<in> set (edges_confidence ?ch c)"
    | h where "h \<in> set (ch_hypotheses ?ch)" "e \<in> set (edges_hypothesis ?ch h)"
    | a where "a \<in> set (ch_anomalies ?ch)" "e \<in> set (edges_anomaly ?ch a)"
    | p where "p \<in> set (ch_patterns ?ch)" "e \<in> set (edges_pattern ?ch p)"
    | x where "x \<in> set (ch_contexts ?ch)" "e \<in> set (edges_context ?ch x)"
    | v where "v \<in> set (ch_evidence ?ch)" "e \<in> set (edges_evidence ?ch v)"
    using assms by (auto simp: chain_edges_def)
  then show ?thesis
  proof cases
    case 1
    then show ?thesis using go [OF documents] by (auto simp: edges_report_def)
  next
    case (2 d)
    then show ?thesis using go [OF commits [of d]] go [OF calibrated_by [of d]] in_tables(1) [OF 2(1)] by (auto simp: edges_decision_def)
  next
    case (3 x)
    then show ?thesis using go [OF explains [of x]] go [OF carries [of x]] in_tables(2) [OF 3(1)] by (auto simp: edges_recommendation_def)
  next
    case (4 c)
    then show ?thesis using go [OF calibrates [of c]] in_tables(3) [OF 4(1)] by (auto simp: edges_confidence_def split: if_splits)
  next
    case (5 h)
    then show ?thesis using go [OF accounts_for [of h]] go [OF refers_to [of h]] in_tables(4) [OF 5(1)] by (auto simp: edges_hypothesis_def)
  next
    case (6 a)
    then show ?thesis using go [OF deviates_from [of a]] go [OF anomaly_context [of a]] in_tables(5) [OF 6(1)] by (auto simp: edges_anomaly_def)
  next
    case (7 p)
    then show ?thesis using go [OF pattern_context [of p]] in_tables(6) [OF 7(1)] by (auto simp: edges_pattern_def)
  next
    case (8 x)
    then show ?thesis using go [OF organizes [of x]] in_tables(7) [OF 8(1)] by (auto simp: edges_context_def)
  next
    case (9 v)
    then show ?thesis using go [OF observes [of v]] in_tables(8) [OF 9(1)] by (auto simp: edges_evidence_def)
  qed
qed

lemma uuid_str_eq [simp]: "uuid_str a = uuid_str b \<longleftrightarrow> a = b"
  by (auto dest: uuid_str_inj)

lemma in_chain_edges:
  "e \<in> set (edges_report (rp_id r) ids ch) \<Longrightarrow> e \<in> set (chain_edges r ids ch)"
  "x0 \<in> set (ch_decisions ch) \<Longrightarrow> e \<in> set (edges_decision ch x0) \<Longrightarrow> e \<in> set (chain_edges r ids ch)"
  "x1 \<in> set (ch_recommendations ch) \<Longrightarrow> e \<in> set (edges_recommendation ch x1) \<Longrightarrow> e \<in> set (chain_edges r ids ch)"
  "x2 \<in> set (ch_confidences ch) \<Longrightarrow> e \<in> set (edges_confidence ch x2) \<Longrightarrow> e \<in> set (chain_edges r ids ch)"
  "x3 \<in> set (ch_hypotheses ch) \<Longrightarrow> e \<in> set (edges_hypothesis ch x3) \<Longrightarrow> e \<in> set (chain_edges r ids ch)"
  "x4 \<in> set (ch_anomalies ch) \<Longrightarrow> e \<in> set (edges_anomaly ch x4) \<Longrightarrow> e \<in> set (chain_edges r ids ch)"
  "x5 \<in> set (ch_patterns ch) \<Longrightarrow> e \<in> set (edges_pattern ch x5) \<Longrightarrow> e \<in> set (chain_edges r ids ch)"
  "x6 \<in> set (ch_contexts ch) \<Longrightarrow> e \<in> set (edges_context ch x6) \<Longrightarrow> e \<in> set (chain_edges r ids ch)"
  "x7 \<in> set (ch_evidence ch) \<Longrightarrow> e \<in> set (edges_evidence ch x7) \<Longrightarrow> e \<in> set (chain_edges r ids ch)"
  by (simp_all add: chain_edges_def) blast+

lemma reference_chain_edges:
  assumes "refers db (rp_tenant r) (rp_id r) ids rel x y"
    and "x \<in> artifacts (rp_id r) (load_chain db (rp_tenant r) ids)" and "y \<in> artifacts (rp_id r) (load_chain db (rp_tenant r) ids)"
  shows "(uuid_str (snd x), uuid_str (snd y), rel) \<in> set (chain_edges r ids (load_chain db (rp_tenant r) ids))"
  using assms(1)
proof (cases rule: refers.cases)
  case (documents i)
  then show ?thesis using assms(3) by (intro in_chain_edges(1)) (simp add: edges_report_def)
next
  case (commits d)
  then have "d \<in> set (ch_decisions (load_chain db (rp_tenant r) ids))" using assms(2) by (intro by_key(1)) simp_all
  then show ?thesis using commits assms(3) by (intro in_chain_edges(2), simp) (simp add: edges_decision_def)
next
  case (calibrated_by d)
  then have "d \<in> set (ch_decisions (load_chain db (rp_tenant r) ids))" using assms(2) by (intro by_key(1)) simp_all
  then show ?thesis using calibrated_by assms(3) by (intro in_chain_edges(2), simp) (simp add: edges_decision_def)
next
  case (explains v)
  then have "v \<in> set (ch_recommendations (load_chain db (rp_tenant r) ids))" using assms(2) by (intro by_key(2)) simp_all
  then show ?thesis using explains assms(3) by (intro in_chain_edges(3), simp) (simp add: edges_recommendation_def)
next
  case (carries v)
  then have "v \<in> set (ch_recommendations (load_chain db (rp_tenant r) ids))" using assms(2) by (intro by_key(2)) simp_all
  then show ?thesis using carries assms(3) by (intro in_chain_edges(3), simp) (simp add: edges_recommendation_def)
next
  case (calibrates c)
  then have "c \<in> set (ch_confidences (load_chain db (rp_tenant r) ids))" using assms(2) by (intro by_key(3)) simp_all
  then show ?thesis using calibrates assms(3) by (intro in_chain_edges(4), simp) (simp add: edges_confidence_def)
next
  case (accounts_for h)
  then have "h \<in> set (ch_hypotheses (load_chain db (rp_tenant r) ids))" using assms(2) by (intro by_key(4)) simp_all
  then show ?thesis using accounts_for assms(3) by (intro in_chain_edges(5), simp) (simp add: edges_hypothesis_def)
next
  case (refers_to h)
  then have "h \<in> set (ch_hypotheses (load_chain db (rp_tenant r) ids))" using assms(2) by (intro by_key(4)) simp_all
  then show ?thesis using refers_to assms(3) by (intro in_chain_edges(5), simp) (simp add: edges_hypothesis_def)
next
  case (deviates_from a)
  then have "a \<in> set (ch_anomalies (load_chain db (rp_tenant r) ids))" using assms(2) by (intro by_key(5)) simp_all
  then show ?thesis using deviates_from assms(3) by (intro in_chain_edges(6), simp) (simp add: edges_anomaly_def)
next
  case (anomaly_context a)
  then have "a \<in> set (ch_anomalies (load_chain db (rp_tenant r) ids))" using assms(2) by (intro by_key(5)) simp_all
  then show ?thesis using anomaly_context assms(3) by (intro in_chain_edges(6), simp) (simp add: edges_anomaly_def)
next
  case (pattern_context p)
  then have "p \<in> set (ch_patterns (load_chain db (rp_tenant r) ids))" using assms(2) by (intro by_key(6)) simp_all
  then show ?thesis using pattern_context assms(3) by (intro in_chain_edges(7), simp) (simp add: edges_pattern_def)
next
  case (organizes v)
  then have "v \<in> set (ch_contexts (load_chain db (rp_tenant r) ids))" using assms(2) by (intro by_key(7)) simp_all
  then show ?thesis using organizes assms(3) by (intro in_chain_edges(8), simp) (simp add: edges_context_def)
next
  case (observes v)
  then have "v \<in> set (ch_evidence (load_chain db (rp_tenant r) ids))" using assms(2) by (intro by_key(8)) simp_all
  then show ?thesis using observes assms(3) by (intro in_chain_edges(9), simp) (simp add: edges_evidence_def)
qed

lemma provenance_closed:
  assumes "\<And>A. finite A \<Longrightarrow> set (ce_order env A) = A"
  shows "validate_provenance env ids (load_chain db tenant ids) = [] \<longleftrightarrow>
    (\<forall>x y rel. x \<in> artifacts report (load_chain db tenant ids) \<and> refers db tenant report ids rel x y \<longrightarrow>
       y \<in> artifacts report (load_chain db tenant ids))" (is "?L \<longleftrightarrow> ?R")
proof
  assume l: ?L
  note n = provenance_nil [of env ids "load_chain db tenant ids", THEN iffD1, OF assms l]
  show ?R
  proof (intro allI impI, elim conjE)
    fix x y rel
    assume x: "x \<in> artifacts report (load_chain db tenant ids)" and "refers db tenant report ids rel x y"
    from this(2) show "y \<in> artifacts report (load_chain db tenant ids)"
    proof (cases rule: refers.cases)
      case (documents i)
      then show ?thesis using n by (simp add: subset_iff)
    next
      case (commits d)
      then have "d \<in> set (ch_decisions (load_chain db tenant ids))" using x by (intro by_key(1)) simp_all
      then show ?thesis using n commits by (simp add: subset_iff)
    next
      case (calibrated_by d)
      then have "d \<in> set (ch_decisions (load_chain db tenant ids))" using x by (intro by_key(1)) simp_all
      then show ?thesis using n calibrated_by by (simp add: subset_iff)
    next
      case (explains v)
      then have "v \<in> set (ch_recommendations (load_chain db tenant ids))" using x by (intro by_key(2)) simp_all
      then show ?thesis using n explains by (simp add: subset_iff)
    next
      case (carries v)
      then have "v \<in> set (ch_recommendations (load_chain db tenant ids))" using x by (intro by_key(2)) simp_all
      then show ?thesis using n carries by (simp add: subset_iff)
    next
      case (calibrates c)
      then have "c \<in> set (ch_confidences (load_chain db tenant ids))" using x by (intro by_key(3)) simp_all
      then show ?thesis using n calibrates by (simp add: subset_iff)
    next
      case (accounts_for h)
      then have "h \<in> set (ch_hypotheses (load_chain db tenant ids))" using x by (intro by_key(4)) simp_all
      then show ?thesis using n accounts_for by (simp add: subset_iff)
    next
      case (refers_to h)
      then have "h \<in> set (ch_hypotheses (load_chain db tenant ids))" using x by (intro by_key(4)) simp_all
      then show ?thesis using n refers_to by (simp add: subset_iff)
    next
      case (deviates_from a)
      then have "a \<in> set (ch_anomalies (load_chain db tenant ids))" using x by (intro by_key(5)) simp_all
      then show ?thesis using n deviates_from by (simp add: subset_iff)
    next
      case (anomaly_context a)
      then have "a \<in> set (ch_anomalies (load_chain db tenant ids))" using x by (intro by_key(5)) simp_all
      then show ?thesis using n anomaly_context by (simp add: subset_iff)
    next
      case (pattern_context p)
      then have "p \<in> set (ch_patterns (load_chain db tenant ids))" using x by (intro by_key(6)) simp_all
      then show ?thesis using n pattern_context by (simp add: subset_iff)
    next
      case (organizes v)
      then have "v \<in> set (ch_contexts (load_chain db tenant ids))" using x by (intro by_key(7)) simp_all
      then show ?thesis using n organizes by (simp add: subset_iff)
    next
      case (observes v)
      then have "v \<in> set (ch_evidence (load_chain db tenant ids))" using x by (intro by_key(8)) simp_all
      then show ?thesis using n observes by (simp add: subset_iff)
    qed
  qed
next
  let ?ch = "load_chain db tenant ids"
  assume r: ?R
  have go: "(t', b) \<in> artifacts report ?ch" if "refers db tenant report ids l (t, a) (t', b)" and "(t, a) \<in> artifacts report ?ch" for a b l t t'
    using r that by blast
  have root: "i \<in> dec_id ` set (ch_decisions ?ch)" if "i \<in> set ids" for i
    using go [OF documents] that by simp
  have commits: "dec_recommendation d \<in> rec_id ` set (ch_recommendations ?ch)" if "d \<in> set (ch_decisions ?ch)" for d
    using go [OF refers.commits [of d]] in_tables(1) [OF that(1)] that by simp
  have calibrated_by: "dec_confidence d \<in> conf_id ` set (ch_confidences ?ch)" if "d \<in> set (ch_decisions ?ch)" for d
    using go [OF refers.calibrated_by [of d]] in_tables(1) [OF that(1)] that by simp
  have explains: "rec_hypothesis v \<in> hyp_id ` set (ch_hypotheses ?ch)" if "v \<in> set (ch_recommendations ?ch)" for v
    using go [OF refers.explains [of v]] in_tables(2) [OF that(1)] that by simp
  have carries: "rec_confidence_id v \<in> conf_id ` set (ch_confidences ?ch)" if "v \<in> set (ch_recommendations ?ch)" for v
    using go [OF refers.carries [of v]] in_tables(2) [OF that(1)] that by simp
  have calibrates: "conf_target_id c \<in> hyp_id ` set (ch_hypotheses ?ch)" if "c \<in> set (ch_confidences ?ch)" and "conf_target_type c = ''hypothesis''" for c
    using go [OF refers.calibrates [of c]] in_tables(3) [OF that(1)] that by simp
  have accounts_for: "i \<in> an_id ` set (ch_anomalies ?ch)" if "h \<in> set (ch_hypotheses ?ch)" and "i \<in> set (hyp_anomaly_ids h)" for h i
    using go [OF refers.accounts_for [of h]] in_tables(4) [OF that(1)] that by simp
  have refers_to: "i \<in> pat_id ` set (ch_patterns ?ch)" if "h \<in> set (ch_hypotheses ?ch)" and "i \<in> set (hyp_pattern_ids h)" for h i
    using go [OF refers.refers_to [of h]] in_tables(4) [OF that(1)] that by simp
  have deviates_from: "an_pattern a \<in> pat_id ` set (ch_patterns ?ch)" if "a \<in> set (ch_anomalies ?ch)" for a
    using go [OF refers.deviates_from [of a]] in_tables(5) [OF that(1)] that by simp
  have anomaly_context: "an_context a \<in> ctx_id ` set (ch_contexts ?ch)" if "a \<in> set (ch_anomalies ?ch)" for a
    using go [OF refers.anomaly_context [of a]] in_tables(5) [OF that(1)] that by simp
  have pattern_context: "pat_context p \<in> ctx_id ` set (ch_contexts ?ch)" if "p \<in> set (ch_patterns ?ch)" for p
    using go [OF refers.pattern_context [of p]] in_tables(6) [OF that(1)] that by simp
  have organizes: "i \<in> ev_id ` set (ch_evidence ?ch)" if "v \<in> set (ch_contexts ?ch)" and "i \<in> set (ctx_evidence_ids v)" for v i
    using go [OF refers.organizes [of v]] in_tables(7) [OF that(1)] that by simp
  have observes: "i \<in> o_id ` set (ch_observations ?ch)" if "v \<in> set (ch_evidence ?ch)" and "i \<in> set (ev_observation_ids v)" for v i
    using go [OF refers.observes [of v]] in_tables(8) [OF that(1)] that by simp
  show ?L
    by (rule provenance_nil [THEN iffD2, OF assms])
      (use root commits calibrated_by explains carries calibrates accounts_for refers_to deviates_from anomaly_context pattern_context organizes observes in \<open>auto intro!: subsetI\<close>)
qed

section \<open>The order of the rows does not matter\<close>

definition same_rows :: "canon \<Rightarrow> canon \<Rightarrow> bool" where
  "same_rows db db' \<longleftrightarrow> set (cn_reports db') = set (cn_reports db) \<and> set (cn_decisions db') = set (cn_decisions db) \<and>
     set (cn_recommendations db') = set (cn_recommendations db) \<and> set (cn_confidences db') = set (cn_confidences db) \<and>
     set (cn_hypotheses db') = set (cn_hypotheses db) \<and> set (cn_anomalies db') = set (cn_anomalies db) \<and>
     set (cn_patterns db') = set (cn_patterns db) \<and> set (cn_contexts db') = set (cn_contexts db) \<and>
     set (cn_evidence db') = set (cn_evidence db) \<and> set (cn_observations db') = set (cn_observations db)"

definition keys_ok :: "canon \<Rightarrow> bool" where
  "keys_ok db \<longleftrightarrow> distinct (map rp_id (cn_reports db)) \<and> distinct (map dec_id (cn_decisions db)) \<and>
     distinct (map rec_id (cn_recommendations db)) \<and> distinct (map conf_id (cn_confidences db)) \<and>
     distinct (map hyp_id (cn_hypotheses db)) \<and> distinct (map an_id (cn_anomalies db)) \<and>
     distinct (map pat_id (cn_patterns db)) \<and> distinct (map ctx_id (cn_contexts db)) \<and>
     distinct (map ev_id (cn_evidence db)) \<and> distinct (map o_id (cn_observations db))"

lemma load_chain_rows:
  assumes "same_rows db db'"
  shows "set (ch_decisions (load_chain db' tenant ids)) = set (ch_decisions (load_chain db tenant ids))"
    and "set (ch_recommendations (load_chain db' tenant ids)) = set (ch_recommendations (load_chain db tenant ids))"
    and "set (ch_confidences (load_chain db' tenant ids)) = set (ch_confidences (load_chain db tenant ids))"
    and "set (ch_hypotheses (load_chain db' tenant ids)) = set (ch_hypotheses (load_chain db tenant ids))"
    and "set (ch_anomalies (load_chain db' tenant ids)) = set (ch_anomalies (load_chain db tenant ids))"
    and "set (ch_patterns (load_chain db' tenant ids)) = set (ch_patterns (load_chain db tenant ids))"
    and "set (ch_contexts (load_chain db' tenant ids)) = set (ch_contexts (load_chain db tenant ids))"
    and "set (ch_evidence (load_chain db' tenant ids)) = set (ch_evidence (load_chain db tenant ids))"
    and "set (ch_observations (load_chain db' tenant ids)) = set (ch_observations (load_chain db tenant ids))"
proof -
  note rows = assms [unfolded same_rows_def]
  have a: "set (ch_decisions (load_chain db' tenant ids)) = set (ch_decisions (load_chain db tenant ids))"
    by (rule set_eqI) (simp only: in_chain(1) rows)
  have b: "set (ch_recommendations (load_chain db' tenant ids)) = set (ch_recommendations (load_chain db tenant ids))"
    by (rule set_eqI) (simp only: in_chain(2) rows a)
  have c: "set (ch_confidences (load_chain db' tenant ids)) = set (ch_confidences (load_chain db tenant ids))"
    by (rule set_eqI) (simp only: in_chain(3) rows a b)
  have d: "set (ch_hypotheses (load_chain db' tenant ids)) = set (ch_hypotheses (load_chain db tenant ids))"
    by (rule set_eqI) (simp only: in_chain(4) rows b)
  have e: "set (ch_anomalies (load_chain db' tenant ids)) = set (ch_anomalies (load_chain db tenant ids))"
    by (rule set_eqI) (simp only: in_chain(5) rows d)
  have f: "set (ch_patterns (load_chain db' tenant ids)) = set (ch_patterns (load_chain db tenant ids))"
    by (rule set_eqI) (simp only: in_chain(6) rows d e)
  have g: "set (ch_contexts (load_chain db' tenant ids)) = set (ch_contexts (load_chain db tenant ids))"
    by (rule set_eqI) (simp only: in_chain(7) rows e f)
  have h: "set (ch_evidence (load_chain db' tenant ids)) = set (ch_evidence (load_chain db tenant ids))"
    by (rule set_eqI) (simp only: in_chain(8) rows g)
  have i: "set (ch_observations (load_chain db' tenant ids)) = set (ch_observations (load_chain db tenant ids))"
    by (rule set_eqI) (simp only: in_chain(9) rows h)
  show "set (ch_decisions (load_chain db' tenant ids)) = set (ch_decisions (load_chain db tenant ids))"
    and "set (ch_recommendations (load_chain db' tenant ids)) = set (ch_recommendations (load_chain db tenant ids))"
    and "set (ch_confidences (load_chain db' tenant ids)) = set (ch_confidences (load_chain db tenant ids))"
    and "set (ch_hypotheses (load_chain db' tenant ids)) = set (ch_hypotheses (load_chain db tenant ids))"
    and "set (ch_anomalies (load_chain db' tenant ids)) = set (ch_anomalies (load_chain db tenant ids))"
    and "set (ch_patterns (load_chain db' tenant ids)) = set (ch_patterns (load_chain db tenant ids))"
    and "set (ch_contexts (load_chain db' tenant ids)) = set (ch_contexts (load_chain db tenant ids))"
    and "set (ch_evidence (load_chain db' tenant ids)) = set (ch_evidence (load_chain db tenant ids))"
    and "set (ch_observations (load_chain db' tenant ids)) = set (ch_observations (load_chain db tenant ids))"
    by (fact a b c d e f g h i)+
qed

lemma add_nodes_distinct: "distinct (map node_key xs) \<Longrightarrow> node_key ` set ns \<inter> node_key ` set xs = {} \<Longrightarrow> foldl add_node ns xs = ns @ xs"
proof (induction xs arbitrary: ns)
  case (Cons x xs)
  then have "add_node ns x = ns @ [x]" by (auto simp: add_node_def)
  moreover have "foldl add_node (ns @ [x]) xs = (ns @ [x]) @ xs" using Cons.prems by (intro Cons.IH) auto
  ultimately show ?case by simp
qed simp

lemma distinct_bulk: "distinct (map key t) \<Longrightarrow> distinct (map key (bulk_by_ids key ten tenant ids t))"
  by (simp add: bulk_by_ids_def distinct_map inj_on_def)

lemma distinct_nodes: "distinct (map key t) \<Longrightarrow> distinct (map (\<lambda>x. (typ, uuid_str (key x))) t)"
  by (auto simp: distinct_map inj_on_def)

lemma chain_keys:
  assumes "keys_ok db"
  shows "distinct (map dec_id (ch_decisions (load_chain db tenant ids)))"
    and "distinct (map rec_id (ch_recommendations (load_chain db tenant ids)))"
    and "distinct (map conf_id (ch_confidences (load_chain db tenant ids)))"
    and "distinct (map hyp_id (ch_hypotheses (load_chain db tenant ids)))"
    and "distinct (map an_id (ch_anomalies (load_chain db tenant ids)))"
    and "distinct (map pat_id (ch_patterns (load_chain db tenant ids)))"
    and "distinct (map ctx_id (ch_contexts (load_chain db tenant ids)))"
    and "distinct (map ev_id (ch_evidence (load_chain db tenant ids)))"
    and "distinct (map o_id (ch_observations (load_chain db tenant ids)))"
  using assms by (simp_all add: keys_ok_def load_chain_def Let_def distinct_bulk)

lemma chain_nodes_list:
  assumes "keys_ok db"
  shows "distinct (map node_key (chain_nodes env r (load_chain db tenant ids))) \<and>
    set (chain_nodes env r (load_chain db tenant ids)) = {report_node env r} \<union>
      decision_node env ` set (ch_decisions (load_chain db tenant ids)) \<union>
      recommendation_node env ` set (ch_recommendations (load_chain db tenant ids)) \<union>
      confidence_node env ` set (ch_confidences (load_chain db tenant ids)) \<union>
      hypothesis_node env ` set (ch_hypotheses (load_chain db tenant ids)) \<union>
      anomaly_node env ` set (ch_anomalies (load_chain db tenant ids)) \<union>
      pattern_node env ` set (ch_patterns (load_chain db tenant ids)) \<union>
      context_node env ` set (ch_contexts (load_chain db tenant ids)) \<union>
      evidence_node env ` set (ch_evidence (load_chain db tenant ids)) \<union>
      observation_node env ` set (ch_observations (load_chain db tenant ids))"
proof -
  define xs where "xs = [report_node env r] @
    map (decision_node env) (ch_decisions (load_chain db tenant ids)) @
    map (recommendation_node env) (ch_recommendations (load_chain db tenant ids)) @
    map (confidence_node env) (ch_confidences (load_chain db tenant ids)) @
    map (hypothesis_node env) (ch_hypotheses (load_chain db tenant ids)) @
    map (anomaly_node env) (ch_anomalies (load_chain db tenant ids)) @
    map (pattern_node env) (ch_patterns (load_chain db tenant ids)) @
    map (context_node env) (ch_contexts (load_chain db tenant ids)) @
    map (evidence_node env) (ch_evidence (load_chain db tenant ids)) @
    map (observation_node env) (ch_observations (load_chain db tenant ids))"
  have "distinct (map node_key xs)"
    unfolding xs_def using chain_keys [OF assms, of tenant ids]
    by (simp add: node_defs o_def distinct_nodes) (auto simp: node_defs)
  then have "chain_nodes env r (load_chain db tenant ids) = xs \<and> distinct (map node_key xs)"
    using add_nodes_distinct [of xs "[]"] by (simp add: chain_nodes_def xs_def)
  then show ?thesis by (simp add: xs_def Un_assoc)
qed

lemma sort_key_set:
  assumes "distinct (map f xs)" and "distinct (map f ys)" and "set xs = set ys"
  shows "sort_key f xs = sort_key f ys"
proof -
  have "mset xs = mset ys" using assms by (simp add: set_eq_iff_mset_eq_distinct distinct_map)
  moreover have "inj_on f (set xs)" using assms(1) by (simp add: distinct_map)
  ultimately show ?thesis by (intro sort_key_inj_key_eq) simp_all
qed

lemma sort_remdups_set: "set xs = set ys \<Longrightarrow> sort (remdups xs) = sort (remdups ys)"
  by (simp flip: sorted_list_of_set_sort_remdups)

lemma rank_inj:
  "nd_type a \<in> fst ` set TYPE_ORDER \<Longrightarrow> nd_type b \<in> fst ` set TYPE_ORDER \<Longrightarrow> node_rank a = node_rank b \<Longrightarrow> nd_type a = nd_type b"
  by (auto simp: TYPE_ORDER_def node_rank_def)

lemma shows_row_type: "shows_row env db r n \<Longrightarrow> nd_type n \<in> fst ` set TYPE_ORDER"
  by (auto simp: shows_row_def node_defs TYPE_ORDER_def)

lemma rank_keys_distinct:
  assumes "distinct (map node_key ns)" and "\<And>n. n \<in> set ns \<Longrightarrow> nd_type n \<in> fst ` set TYPE_ORDER"
  shows "distinct (map (\<lambda>n. (node_rank n, nd_id n)) ns)"
  using assms rank_inj by (fastforce simp: distinct_map inj_on_def)

lemma refers_rows: "same_rows db db' \<Longrightarrow> refers db' tenant report ids rel x y = refers db tenant report ids rel x y"
  by (auto simp: same_rows_def refers.simps)

lemma behind_rows:
  assumes "same_rows db db'"
  shows "behind db' tenant report ids x = behind db tenant report ids x"
proof -
  have "stored db' tenant y = stored db tenant y" for y
    using assms by (simp add: stored_def has_def same_rows_def)
  then have "link db' tenant report ids = link db tenant report ids"
    using refers_rows [OF assms] by (simp add: link_def fun_eq_iff)
  then show ?thesis by (simp add: behind_def)
qed

lemma chain_edges_set:
  "set (chain_edges r ids (load_chain db (rp_tenant r) ids)) =
     {(uuid_str (snd x), uuid_str (snd y), rel) | x y rel. refers db (rp_tenant r) (rp_id r) ids rel x y \<and>
        behind db (rp_tenant r) (rp_id r) ids x \<and> behind db (rp_tenant r) (rp_id r) ids y}"
  using chain_edges_reference [of _ r ids db] reference_chain_edges [of db r ids]
  unfolding artifacts_behind mem_Collect_eq by blast

lemma provenance_rows:
  assumes "same_rows db db'" and "\<And>A. finite A \<Longrightarrow> set (ce_order env A) = A" and "\<And>A. finite A \<Longrightarrow> set (q A) = A"
  shows "set (validate_provenance (env\<lparr>ce_order := q\<rparr>) ids (load_chain db' tenant ids)) =
    set (validate_provenance env ids (load_chain db tenant ids))"
proof -
  have "missing ty how who (map key t') i = missing ty how who (map key t) i" if "set t' = set t"
    for ty how who i and key :: "'r \<Rightarrow> uuid" and t t'
    using that by (simp add: missing_def)
  note m = this [OF load_chain_rows(2) [OF assms(1)]] this [OF load_chain_rows(3) [OF assms(1)]] this [OF load_chain_rows(4) [OF assms(1)]]
    this [OF load_chain_rows(5) [OF assms(1)]] this [OF load_chain_rows(6) [OF assms(1)]] this [OF load_chain_rows(7) [OF assms(1)]]
    this [OF load_chain_rows(8) [OF assms(1)]] this [OF load_chain_rows(9) [OF assms(1)]]
  show ?thesis unfolding validate_provenance_def Let_def m
    by (simp add: assms(2,3) load_chain_rows [OF assms(1)])
qed

lemma trace_rows:
  assumes "same_rows db db'" and "keys_ok db" and "keys_ok db'"
    and "\<And>A. finite A \<Longrightarrow> set (ce_order env A) = A" and "\<And>A. finite A \<Longrightarrow> set (q A) = A"
  shows "(let t = trace_of env db r ids; t' = trace_of (env\<lparr>ce_order := q\<rparr>) db' r ids
    in ct_nodes t' = ct_nodes t \<and> ct_edges t' = ct_edges t \<and> ct_completeness t' = ct_completeness t \<and> set (ct_warnings t') = set (ct_warnings t))"
proof -
  let ?env' = "env\<lparr>ce_order := q\<rparr>" and ?f = "\<lambda>n. (node_rank n, nd_id n)"
  let ?N = "chain_nodes env r (load_chain db (rp_tenant r) ids)" and ?N' = "chain_nodes ?env' r (load_chain db' (rp_tenant r) ids)"
  have c: "report_node ?env' = report_node env" "decision_node ?env' = decision_node env" "recommendation_node ?env' = recommendation_node env"
    "confidence_node ?env' = confidence_node env" "hypothesis_node ?env' = hypothesis_node env" "anomaly_node ?env' = anomaly_node env"
    "pattern_node ?env' = pattern_node env" "context_node ?env' = context_node env" "evidence_node ?env' = evidence_node env"
    "observation_node ?env' = observation_node env"
    by (simp_all add: fun_eq_iff node_defs jtime_def jday_def split: option.splits)
  have "set ?N' = set ?N"
    using chain_nodes_list [OF assms(2), of env r "rp_tenant r" ids] chain_nodes_list [OF assms(3), of ?env' r "rp_tenant r" ids]
    by (simp add: c load_chain_rows [OF assms(1)])
  moreover have "distinct (map ?f ?N)" "distinct (map ?f ?N')"
    by (rule rank_keys_distinct, rule conjunct1 [OF chain_nodes_list], rule assms, rule shows_row_type, erule chain_nodes_rows)+
  ultimately have "sort_key ?f ?N' = sort_key ?f ?N" by (intro sort_key_set) simp_all
  moreover have "sort (remdups (chain_edges r ids (load_chain db' (rp_tenant r) ids))) = sort (remdups (chain_edges r ids (load_chain db (rp_tenant r) ids)))"
    unfolding chain_edges_set refers_rows [OF assms(1)] behind_rows [OF assms(1)]
    by (rule sort_remdups_set) (simp only: chain_edges_set refers_rows [OF assms(1)] behind_rows [OF assms(1)])
  moreover note w = provenance_rows [OF assms(1,4,5), of ids "rp_tenant r"]
  moreover from w have "validate_provenance ?env' ids (load_chain db' (rp_tenant r) ids) = [] \<longleftrightarrow> validate_provenance env ids (load_chain db (rp_tenant r) ids) = []"
    by (metis set_empty)
  ultimately show ?thesis by (simp add: trace_of_def assemble_def Let_def c)
qed

section \<open>Properties\<close>

lemma get_trace_report:
  assumes "get_trace env db tenant report = Inr (Some tr)"
  shows "\<exists>r ids. find (\<lambda>r. rp_tenant r = tenant \<and> rp_id r = report) (cn_reports db) = Some r \<and> r \<in> set (cn_reports db) \<and>
    rp_tenant r = tenant \<and> rp_id r = report \<and> report_decisions env r = Inr ids \<and> tr = trace_of env db r ids"
  using assms by (auto simp: get_trace_def and_then_eq_Inr split: option.splits dest: find_SomeD)

lemma bulk_nil: "bulk_by_ids key ten tenant [] t = []"
  by (simp add: bulk_by_ids_def)

lemma load_nothing:
  "load_chain db tenant [] = \<lparr>ch_decisions = [], ch_recommendations = [], ch_confidences = [], ch_hypotheses = [], ch_anomalies = [],
     ch_patterns = [], ch_contexts = [], ch_evidence = [], ch_observations = []\<rparr>"
  by (simp add: load_chain_def bulk_nil Let_def)

lemma trace_of_nodes: "set (ct_nodes (trace_of env db r ids)) = set (chain_nodes env r (load_chain db (rp_tenant r) ids))"
proof (cases "ids = []")
  case True
  then show ?thesis by (simp add: trace_of_def assemble_def load_nothing chain_nodes_def add_node_def)
qed (simp add: trace_of_def assemble_def Let_def)

lemma trace_of_edges: "set (ct_edges (trace_of env db r ids)) = set (chain_edges r ids (load_chain db (rp_tenant r) ids))"
proof (cases "ids = []")
  case True
  then show ?thesis by (simp add: trace_of_def assemble_def load_nothing chain_edges_def edges_report_def)
qed (simp add: trace_of_def assemble_def Let_def)

text \<open>
  C2. A trace is the provenance the tables hold, no more and no less: its nodes are the artifacts of the tenant
  that are reached from the report along stored references, each node shows a stored row of that tenant, its edges are
  the references between them, and references lead one way, from a conclusion to what it rests on.
\<close>

theorem trace_is_provenance:
  assumes "get_trace env db tenant report = Inr (Some tr)"
  shows "\<exists>r ids. r \<in> set (cn_reports db) \<and> rp_tenant r = tenant \<and> rp_id r = report \<and> report_decisions env r = Inr ids \<and>
    (\<lambda>n. (nd_type n, nd_id n)) ` set (ct_nodes tr) = shown ` {x. behind db tenant report ids x} \<and>
    (\<forall>n \<in> set (ct_nodes tr). shows_row env db r n \<and> nd_tenant n = uuid_str tenant) \<and>
    set (ct_edges tr) = {(uuid_str (snd x), uuid_str (snd y), rel) | x y rel.
       refers db tenant report ids rel x y \<and> behind db tenant report ids x \<and> behind db tenant report ids y} \<and>
    acyclic {(x, y). \<exists>rel. refers db tenant report ids rel x y}"
proof -
  obtain r ids where r: "r \<in> set (cn_reports db)" "rp_tenant r = tenant" "rp_id r = report" "report_decisions env r = Inr ids"
    "tr = trace_of env db r ids"
    using get_trace_report [OF assms] by blast
  have "node_key ` set (ct_nodes tr) = shown ` {x. behind db tenant report ids x}"
    using chain_node_keys [of env r "load_chain db tenant ids"] artifacts_behind [of report db tenant ids] r
    by (simp add: trace_of_nodes)
  moreover have "\<forall>n \<in> set (ct_nodes tr). shows_row env db r n \<and> nd_tenant n = uuid_str tenant"
    using chain_nodes_rows [of _ env r db ids] shows_row_tenant [of env db r] r by (auto simp: trace_of_nodes)
  moreover have "set (ct_edges tr) = {(uuid_str (snd x), uuid_str (snd y), rel) | x y rel.
       refers db tenant report ids rel x y \<and> behind db tenant report ids x \<and> behind db tenant report ids y}"
    using chain_edges_set [of r ids db] r(2,3) by (simp add: trace_of_edges r(5))
  moreover note refers_acyclic [of db tenant report ids]
  ultimately show ?thesis using r(1-4) by (intro exI [of _ r] exI [of _ ids]) simp
qed

text \<open>
  C17. A trace says \<open>complete\<close> exactly when nothing behind the report is missing: the report enumerates decisions
  and every reference of an artifact behind it, the target of a confidence included, leads to another one behind it.
\<close>

theorem trace_complete_iff:
  assumes "\<And>A. finite A \<Longrightarrow> set (ce_order env A) = A"
    and "find (\<lambda>r. rp_tenant r = tenant \<and> rp_id r = report) (cn_reports db) = Some r" and "report_decisions env r = Inr ids"
  shows "\<exists>tr. get_trace env db tenant report = Inr (Some tr) \<and> (ct_completeness tr = ''complete'') = (ids \<noteq> [] \<and>
    (\<forall>x y rel. behind db tenant report ids x \<and> refers db tenant report ids rel x y \<longrightarrow> behind db tenant report ids y))"
proof -
  have r: "rp_tenant r = tenant" "rp_id r = report" using find_SomeD [OF assms(2)] by auto
  have "get_trace env db tenant report = Inr (Some (trace_of env db r ids))" using assms(2,3) by (simp add: get_trace_def)
  moreover have "(ct_completeness (trace_of env db r ids) = ''complete'') = (ids \<noteq> [] \<and> validate_provenance env ids (load_chain db tenant ids) = [])"
    by (simp add: trace_of_def assemble_def Let_def r)
  ultimately show ?thesis using provenance_closed [OF assms(1), of ids db tenant report] artifacts_behind [of report db tenant ids] by auto
qed

text \<open>
  Reading the same rows in another order changes nothing in nodes, edges and completeness, nor which warnings
  there are; only the order of the warnings is the database's and the hash table's.
\<close>

theorem trace_deterministic:
  assumes "same_rows db db'" and "keys_ok db" and "keys_ok db'"
    and "\<And>A. finite A \<Longrightarrow> set (ce_order env A) = A" and "\<And>A. finite A \<Longrightarrow> set (q A) = A"
  shows "case (get_trace env db tenant report, get_trace (env\<lparr>ce_order := q\<rparr>) db' tenant report) of
      (Inr (Some t), Inr (Some t')) \<Rightarrow> ct_nodes t' = ct_nodes t \<and> ct_edges t' = ct_edges t \<and>
         ct_completeness t' = ct_completeness t \<and> set (ct_warnings t') = set (ct_warnings t)
    | (a, b) \<Rightarrow> a = b"
proof -
  let ?p = "\<lambda>r. rp_tenant r = tenant \<and> rp_id r = report"
  have k: "distinct (map rp_id (cn_reports db))" "distinct (map rp_id (cn_reports db'))" "set (cn_reports db') = set (cn_reports db)"
    using assms(1-3) by (simp_all add: keys_ok_def same_rows_def)
  have "find ?p (cn_reports db') = find ?p (cn_reports db)"
  proof (cases "find ?p (cn_reports db)")
    case None
    then have "find ?p (cn_reports db') = None" by (simp add: find_None_iff k(3))
    then show ?thesis using None by simp
  next
    case (Some r)
    then have r: "r \<in> set (cn_reports db')" "?p r" using find_SomeD [OF Some] k(3) by auto
    obtain r' where r': "find ?p (cn_reports db') = Some r'" using r by (cases "find ?p (cn_reports db')") (auto simp: find_None_iff)
    then have "r' = r" using find_SomeD [OF r'] r k(2) by (metis distinct_map inj_onD)
    then show ?thesis using Some r' by simp
  qed
  moreover have f: "ce_str (env\<lparr>ce_order := q\<rparr>) = ce_str env" "ce_loads (env\<lparr>ce_order := q\<rparr>) = ce_loads env" by simp_all
  have "decision_of_trace (env\<lparr>ce_order := q\<rparr>) = decision_of_trace env" "as_json (env\<lparr>ce_order := q\<rparr>) = as_json env"
    unfolding fun_eq_iff decision_of_trace_def as_json_def f by (rule allI, rule refl)+
  then have "report_decisions (env\<lparr>ce_order := q\<rparr>) = report_decisions env"
    by (intro ext) (simp only: report_decisions_def extract_decision_ids_def)
  ultimately show ?thesis using trace_rows [OF assms]
    by (simp add: get_trace_def Let_def and_then_def split: option.splits sum.splits)
qed

definition ex_trace_env :: trace_env where
  "ex_trace_env = \<lparr>ce_loads = \<lambda>_. None, ce_str = \<lambda>_. [], ce_iso = \<lambda>_. ''t'', ce_day = \<lambda>_. ''d'', ce_order = sorted_list_of_set\<rparr>"

definition ex_report :: report_row where
  "ex_report = \<lparr>rp_id = 10, rp_tenant = 7, rp_type = ''json'', rp_title = ''r'', rp_summary = None,
     rp_content = JObj [(''decision_traces'', JArr [JObj [(''decision'', JObj [(''id'', JStr (uuid_str 11))])], JNull])],
     rp_generated_at = 0, rp_period_start = None, rp_period_end = None\<rparr>"

definition ex_canon :: canon where
  "ex_canon = \<lparr>cn_reports = [ex_report],
     cn_decisions = [\<lparr>dec_id = 11, dec_tenant = 7, dec_recommendation = 12, dec_confidence = 13, dec_authority = 3, dec_commitment = ''c'',
        dec_expected = [], dec_risk = ''low'', dec_status = ''committed'', dec_committed_at = 0, dec_executed_at = None,
        dec_actual = None, dec_outcome_status = ''pending''\<rparr>],
     cn_recommendations = [], cn_confidences = [], cn_hypotheses = [], cn_anomalies = [], cn_patterns = [], cn_contexts = [],
     cn_evidence = [], cn_observations = []\<rparr>"

lemma ex_report_decisions: "report_decisions ex_trace_env ex_report = Inr [11]"
  by (simp add: report_decisions_def as_json_def ex_report_def extract_decision_ids_def decision_of_trace_def get_def
      map_filter_simps text_of_def)

lemma ex_report_found: "find (\<lambda>r. rp_tenant r = 7 \<and> rp_id r = 10) (cn_reports ex_canon) = Some ex_report"
  by (simp add: ex_canon_def ex_report_def)

lemma ex_trace_found: "get_trace ex_trace_env ex_canon 7 10 = Inr (Some (trace_of ex_trace_env ex_canon ex_report [11]))"
  by (simp add: get_trace_def ex_report_found ex_report_decisions)

lemma ex_decision_behind: "behind ex_canon 7 10 [11] (''decision'', 11)" "\<not> behind ex_canon 7 10 [11] (''recommendation'', 12)"
  unfolding mem_Collect_eq [of _ "behind ex_canon 7 10 [11]", symmetric] artifacts_behind [symmetric]
  by (simp_all add: load_chain_def bulk_by_ids_def ex_canon_def Let_def)

theorem trace_is_provenance_witness:
  "\<exists>tr ids. get_trace ex_trace_env ex_canon 7 10 = Inr (Some tr) \<and> report_decisions ex_trace_env ex_report = Inr ids \<and>
    (\<lambda>n. (nd_type n, nd_id n)) ` set (ct_nodes tr) = shown ` {x. behind ex_canon 7 10 ids x} \<and>
    (''decision'', uuid_str 11) \<in> (\<lambda>n. (nd_type n, nd_id n)) ` set (ct_nodes tr)"
proof -
  obtain r ids where r: "r \<in> set (cn_reports ex_canon)" "report_decisions ex_trace_env r = Inr ids"
    "(\<lambda>n. (nd_type n, nd_id n)) ` set (ct_nodes (trace_of ex_trace_env ex_canon ex_report [11])) = shown ` {x. behind ex_canon 7 10 ids x}"
    using trace_is_provenance [OF ex_trace_found] by (elim exE conjE) (rule that)
  then have "r = ex_report" "ids = [11]" by (simp_all add: ex_canon_def ex_report_decisions)
  moreover have "(''decision'', uuid_str 11) \<in> shown ` {x. behind ex_canon 7 10 [11] x}"
    using ex_decision_behind(1) by (force simp: shown_def)
  ultimately show ?thesis using r(3) by (intro exI [of _ "trace_of ex_trace_env ex_canon ex_report [11]"] exI [of _ "[11]"])
      (simp only: ex_trace_found ex_report_decisions simp_thms)
qed

theorem trace_complete_iff_witness:
  "\<exists>tr. get_trace ex_trace_env ex_canon 7 10 = Inr (Some tr) \<and> ct_completeness tr \<noteq> ''complete''"
proof -
  have "refers ex_canon 7 10 [11] ''commits'' (''decision'', 11) (''recommendation'', 12)"
    using commits [of _ ex_canon 7 10 "[11]"] by (fastforce simp: ex_canon_def)
  moreover have law: "\<And>A. finite A \<Longrightarrow> set (ce_order ex_trace_env A) = A" by (simp add: ex_trace_env_def)
  have "\<exists>tr. get_trace ex_trace_env ex_canon 7 10 = Inr (Some tr) \<and> (ct_completeness tr = ''complete'') = ([11] \<noteq> ([] :: uuid list) \<and>
      (\<forall>x y rel. behind ex_canon 7 10 [11] x \<and> refers ex_canon 7 10 [11] rel x y \<longrightarrow> behind ex_canon 7 10 [11] y))"
    by (rule trace_complete_iff [OF law ex_report_found ex_report_decisions])
  then obtain tr where "get_trace ex_trace_env ex_canon 7 10 = Inr (Some tr)"
    and "(ct_completeness tr = ''complete'') = ([11] \<noteq> ([] :: uuid list) \<and> (\<forall>x y rel. behind ex_canon 7 10 [11] x \<and>
       refers ex_canon 7 10 [11] rel x y \<longrightarrow> behind ex_canon 7 10 [11] y))"
    by (elim exE conjE) (rule that)
  ultimately show ?thesis using ex_decision_behind by blast
qed

theorem trace_deterministic_witness:
  "\<exists>t t'. get_trace ex_trace_env ex_canon 7 10 = Inr (Some t) \<and>
     get_trace (ex_trace_env\<lparr>ce_order := \<lambda>A. rev (sorted_list_of_set A)\<rparr>) ex_canon 7 10 = Inr (Some t') \<and> ct_nodes t' = ct_nodes t"
proof -
  let ?q = "\<lambda>A. rev (sorted_list_of_set A) :: string list"
  have "same_rows ex_canon ex_canon" "keys_ok ex_canon" by (simp_all add: same_rows_def keys_ok_def ex_canon_def)
  moreover have "set (ce_order ex_trace_env A) = A" "set (?q A) = A" if "finite A" for A using that by (simp_all add: ex_trace_env_def)
  ultimately show ?thesis
    using trace_deterministic [of ex_canon ex_canon ex_trace_env ?q 7 10] ex_trace_found by (auto split: sum.splits option.splits)
qed

end
