(* ===== verification/Read_Stores.thy ===== *)
theory Read_Stores
  imports Cognitive_Trace Learning_Loop
begin

text \<open>
  The read stores of the gateway (\<open>apps/gateway/api-gateway/src/observations.py\<close>, \<open>evidence.py\<close>, \<open>contexts.py\<close>,
  \<open>patterns.py\<close>, \<open>anomalies.py\<close>, \<open>hypotheses.py\<close>, \<open>insights.py\<close>, \<open>recommendations.py\<close>, \<open>decisions.py\<close>,
  \<open>confidence.py\<close>, \<open>audit.py\<close>, \<open>summary.py\<close>): pages of the rows of one tenant, one row with what it rests on, and
  the facets kept by \<open>libs/shared/facets_cache.py\<close>. The database compares texts by code point. What the driver makes
  of a date given as a text is an argument, as is the text of times. Each store has a cache of its own; their keys
  differ, and one map holds them all.
\<close>

section \<open>Tables\<close>

record audit_row =
  ad_id :: uuid
  ad_tenant :: uuid
  ad_user :: "uuid option"
  ad_policy :: "uuid option"
  ad_layer :: string
  ad_concept :: string
  ad_action :: string
  ad_resource_type :: string
  ad_resource :: uuid
  ad_details :: json
  ad_ip :: "string option"
  ad_agent :: "string option"
  ad_at :: datetime

record execution_record =
  xr_id :: uuid
  xr_tenant :: uuid
  xr_decision :: uuid
  xr_status :: string
  xr_executed_at :: datetime
  xr_by :: "uuid option"
  xr_notes :: "string option"
  xr_metadata :: dict
  xr_created :: datetime

text \<open>\<open>st_servers\<close>: the tenant of each row of \<open>servers\<close>.\<close>

record site =
  st_canon :: canon
  st_insights :: "insight list"
  st_audit :: "audit_row list"
  st_memory :: "memory_record list"
  st_executions :: "execution_record list"
  st_servers :: "uuid list"

section \<open>The facets cache (facets_cache.py)\<close>

type_synonym facets_cache = "string \<Rightarrow> (real \<times> dict) option"

definition cache_get :: "real \<Rightarrow> real \<Rightarrow> string \<Rightarrow> facets_cache \<Rightarrow> dict option \<times> facets_cache" where
  "cache_get ttl clk key c = (case c key of
       None \<Rightarrow> (None, c)
     | Some (ts, d) \<Rightarrow> if clk - ts < ttl then (Some d, c) else (None, c(key := None)))"

definition cache_set :: "real \<Rightarrow> string \<Rightarrow> dict \<Rightarrow> facets_cache \<Rightarrow> facets_cache" where
  "cache_set clk key d c = c(key := Some (clk, d))"

definition facets_key :: "string \<Rightarrow> uuid \<Rightarrow> string" where
  "facets_key concept tenant = concept @ '':'' @ uuid_str tenant"

text \<open>\<open>_facets\<close>: \<open>current\<close> is the answer of the query.\<close>

definition facets :: "real \<Rightarrow> real \<Rightarrow> string \<Rightarrow> dict \<Rightarrow> facets_cache \<Rightarrow> dict \<times> facets_cache" where
  "facets ttl clk key current c = (case cache_get ttl clk key c of
       (Some d, c') \<Rightarrow> (d, c')
     | (None, c') \<Rightarrow> (current, cache_set clk key current c'))"

section \<open>Pages\<close>

definition of_tenant :: "('r \<Rightarrow> uuid) \<Rightarrow> uuid \<Rightarrow> 'r list \<Rightarrow> 'r list" where
  "of_tenant owner tenant rows = filter (\<lambda>r. owner r = tenant) rows"

text \<open>\<open>CAST(:p AS ...) IS NULL OR column = :p\<close>\<close>

definition wanted :: "'v option \<Rightarrow> 'v \<Rightarrow> bool" where
  "wanted p v \<longleftrightarrow> p = None \<or> p = Some v"

text \<open>\<open>ORDER BY at DESC, id\<close>, and the ascending variant\<close>

definition ordered :: "('r \<Rightarrow> datetime) \<Rightarrow> ('r \<Rightarrow> uuid) \<Rightarrow> bool \<Rightarrow> 'r list \<Rightarrow> 'r list" where
  "ordered at_time key ascending rows = sort_key (\<lambda>r. (if ascending then at_time r else - at_time r, key r)) rows"

definition page :: "int \<Rightarrow> int \<Rightarrow> 'r list \<Rightarrow> 'r list result" where
  "page limit offset rows = (if limit < 0 then Inl (PassedThrough ''LIMIT must not be negative'')
     else if offset < 0 then Inl (PassedThrough ''OFFSET must not be negative'')
     else Inr (take (nat limit) (drop (nat offset) rows)))"

text \<open>
  The answer of a list: the rows of the page, how many match, and the facets. \<open>matching\<close> are the rows the
  query selects, in its order.
\<close>

definition listing :: "real \<Rightarrow> real \<Rightarrow> string \<Rightarrow> string \<Rightarrow> uuid \<Rightarrow> dict \<Rightarrow> int \<Rightarrow> int \<Rightarrow> ('r \<Rightarrow> dict) \<Rightarrow> 'r list \<Rightarrow>
    facets_cache \<Rightarrow> dict result \<times> facets_cache" where
  "listing ttl clk response concept tenant current limit offset payload matching c =
     (case page limit offset matching of
        Inl e \<Rightarrow> (Inl e, c)
      | Inr rows \<Rightarrow>
          (case facets ttl clk (facets_key concept tenant) current c of (f, c') \<Rightarrow>
            (Inr [(response, JArr (map (\<lambda>r. JObj (payload r)) rows)), (''total'', JInt (int (length matching))),
                  (''limit'', JInt limit), (''offset'', JInt offset), (''facets'', JObj f)], c')))"

text \<open>\<open>jsonb_agg(DISTINCT x ORDER BY x)\<close>\<close>

definition distinct_texts :: "('r \<Rightarrow> string) \<Rightarrow> 'r list \<Rightarrow> json" where
  "distinct_texts f rows = JArr (map JStr (sorted_list_of_set (f ` set rows)))"

definition distinct_ids :: "uuid list \<Rightarrow> json" where
  "distinct_ids ids = jids (sorted_list_of_set (set ids))"

text \<open>\<open>SELECT ... WHERE tenant_id = :t AND id = :i\<close>\<close>

definition one_row :: "('r \<Rightarrow> uuid) \<Rightarrow> ('r \<Rightarrow> uuid) \<Rightarrow> uuid \<Rightarrow> uuid \<Rightarrow> 'r list \<Rightarrow> 'r option" where
  "one_row owner key tenant i rows = find (\<lambda>r. key r = i) (of_tenant owner tenant rows)"

text \<open>\<open>... AND id = ANY(:ids)\<close>\<close>

definition rows_in :: "('r \<Rightarrow> uuid) \<Rightarrow> ('r \<Rightarrow> uuid) \<Rightarrow> uuid \<Rightarrow> uuid list \<Rightarrow> 'r list \<Rightarrow> 'r list" where
  "rows_in owner key tenant ids rows = filter (\<lambda>r. key r \<in> set ids) (of_tenant owner tenant rows)"

definition jobject :: "dict option \<Rightarrow> json" where
  "jobject d = (case d of None \<Rightarrow> JNull | Some x \<Rightarrow> JObj x)"

record read_env =
  re_trace :: trace_env
  re_date :: "string \<Rightarrow> datetime option"
  re_ttl :: real

definition iso :: "read_env \<Rightarrow> datetime \<Rightarrow> json" where
  "iso env t = JStr (ce_iso (re_trace env) t)"

section \<open>Payloads\<close>

definition observation_payload :: "read_env \<Rightarrow> observation \<Rightarrow> dict" where
  "observation_payload env r = [(''id'', jid (o_id r)), (''tenant_id'', jid (o_tenant r)), (''source_id'', jid (o_source r)),
     (''source_type'', JStr (o_source_type r)), (''fact_type'', JStr (o_fact_type r)), (''fact_value'', JObj (o_fact_value r)),
     (''unit'', JStr (o_unit r)), (''captured_at'', iso env (o_captured_at r)),
     (''quality_class'', JStr (quality_value (o_quality r))), (''raw_payload'', JObj (o_raw r))]"

definition evidence_payload :: "read_env \<Rightarrow> evidence \<Rightarrow> dict" where
  "evidence_payload env r = [(''id'', jid (ev_id r)), (''tenant_id'', jid (ev_tenant r)), (''observation_ids'', jids (ev_observation_ids r)),
     (''organization_type'', JStr (ev_type r)), (''description'', JStr (ev_description r)),
     (''quality_class'', JStr (quality_value (ev_quality r))), (''weight'', JFloat (ev_weight r)), (''organized_at'', iso env (ev_organized_at r))]"

definition context_payload :: "read_env \<Rightarrow> context_row \<Rightarrow> dict" where
  "context_payload env r = [(''id'', jid (ctx_id r)), (''tenant_id'', jid (ctx_tenant r)), (''evidence_ids'', jids (ctx_evidence_ids r)),
     (''mental_model_id'', JStr (ctx_model r)), (''purpose'', JStr (ctx_purpose r)), (''coherence_score'', JFloat (ctx_coherence r)),
     (''competing_models'', JArr (map (\<lambda>(m, c). JObj [(''mental_model_id'', JStr m), (''coherence_score'', JFloat c)]) (ctx_competing r))),
     (''activated_at'', iso env (ctx_activated_at r)), (''is_active'', JBool (ctx_active r))]"

definition pattern_payload :: "read_env \<Rightarrow> pattern \<Rightarrow> dict" where
  "pattern_payload env r = [(''id'', jid (pat_id r)), (''tenant_id'', jid (pat_tenant r)), (''context_id'', jid (pat_context r)),
     (''pattern_type'', JStr (pat_type r)), (''description'', JStr (pat_description r)), (''strength_measure'', JFloat (pat_strength r)),
     (''frequency'', JStr (pat_frequency r)), (''detected_at'', iso env (pat_detected_at r)), (''is_active'', JBool (pat_active r))]"

definition anomaly_payload :: "read_env \<Rightarrow> anomaly \<Rightarrow> dict" where
  "anomaly_payload env r = [(''id'', jid (an_id r)), (''tenant_id'', jid (an_tenant r)), (''context_id'', jid (an_context r)),
     (''pattern_id'', jid (an_pattern r)), (''anomaly_class'', JStr (an_class r)), (''deviation_score'', JFloat (an_score r)),
     (''tolerance_threshold'', JFloat (an_threshold r)), (''detected_at'', iso env (an_detected_at r))]"

definition hypothesis_payload :: "read_env \<Rightarrow> hypothesis \<Rightarrow> dict" where
  "hypothesis_payload env r = [(''id'', jid (hyp_id r)), (''tenant_id'', jid (hyp_tenant r)), (''anomaly_ids'', jids (hyp_anomaly_ids r)),
     (''pattern_ids'', jids (hyp_pattern_ids r)), (''description'', JStr (hyp_description r)),
     (''predicted_consequences'', JArr (map JStr (hyp_consequences r))), (''falsification_criterion'', JStr (hyp_falsification r)),
     (''coherence_score'', JFloat (hyp_coherence r)), (''status'', JStr (hyp_status r)), (''generated_at'', iso env (hyp_generated_at r))]"

definition insight_payload :: "read_env \<Rightarrow> insight \<Rightarrow> dict" where
  "insight_payload env r = [(''id'', jid (ins_id r)), (''tenant_id'', jid (ins_tenant r)), (''context_id'', jid (ins_context r)),
     (''hypothesis_ids'', jids (ins_hypothesis_ids r)), (''description'', JStr (ins_description r)),
     (''prior_understanding'', JStr (ins_prior r)), (''mental_model_update'', ins_update r), (''generated_at'', iso env (ins_generated_at r))]"

definition recommendation_payload :: "read_env \<Rightarrow> recommendation \<Rightarrow> dict" where
  "recommendation_payload env r = [(''id'', jid (rec_id r)), (''tenant_id'', jid (rec_tenant r)), (''hypothesis_id'', jid (rec_hypothesis r)),
     (''confidence_id'', jid (rec_confidence_id r)), (''action_description'', JStr (rec_action_description r)),
     (''rationale'', JStr (rec_rationale r)), (''expected_consequences'', JArr (map JStr (rec_consequences r))),
     (''alternatives_considered'', JArr (map JObj (rec_alternatives r))), (''confidence_score'', JFloat (rec_score r)),
     (''status'', JStr (rec_status r)), (''proposed_at'', iso env (rec_proposed_at r))] @
     (case rec_insight r of None \<Rightarrow> [] | Some i \<Rightarrow> [(''insight_id'', jid i)])"

definition decision_payload :: "read_env \<Rightarrow> decision \<Rightarrow> dict" where
  "decision_payload env r = [(''id'', jid (dec_id r)), (''tenant_id'', jid (dec_tenant r)), (''recommendation_id'', jid (dec_recommendation r)),
     (''confidence_id'', jid (dec_confidence r)), (''authority_id'', jid (dec_authority r)), (''commitment'', JStr (dec_commitment r)),
     (''expected_outcomes'', JArr (map JObj (dec_expected r))), (''risk_tolerance'', JStr (dec_risk r)), (''status'', JStr (dec_status r)),
     (''committed_at'', iso env (dec_committed_at r)), (''executed_at'', jopt (iso env) (dec_executed_at r)),
     (''actual_outcomes'', jopt (\<lambda>xs. JArr (map JObj xs)) (dec_actual r)), (''outcome_status'', JStr (dec_outcome_status r))]"

definition confidence_payload :: "read_env \<Rightarrow> confidence \<Rightarrow> dict" where
  "confidence_payload env r = [(''id'', jid (conf_id r)), (''tenant_id'', jid (conf_tenant r)), (''target_type'', JStr (conf_target_type r)),
     (''target_id'', jid (conf_target_id r)), (''evidential_support'', JFloat (conf_support r)),
     (''explanatory_coherence'', JFloat (conf_coherence r)), (''historical_calibration'', JFloat (conf_historical r)),
     (''confidence_score'', JFloat (conf_score r)), (''alpha'', JFloat (conf_alpha r)),
     (''calibration_justification'', JStr (conf_justification r)), (''calibration_error_estimate'', JFloat (conf_error r)),
     (''computed_at'', iso env (conf_computed_at r))]"

definition audit_payload :: "read_env \<Rightarrow> audit_row \<Rightarrow> dict" where
  "audit_payload env r = [(''id'', jid (ad_id r)), (''tenant_id'', jid (ad_tenant r)), (''user_id'', jopt jid (ad_user r)),
     (''policy_id'', jopt jid (ad_policy r)), (''cognitive_layer'', JStr (ad_layer r)), (''cognitive_concept'', JStr (ad_concept r)),
     (''action'', JStr (ad_action r)), (''resource_type'', JStr (ad_resource_type r)), (''resource_id'', jid (ad_resource r)),
     (''details'', as_json (re_trace env) (ad_details r)), (''ip_address'', jopt JStr (ad_ip r)), (''user_agent'', jopt JStr (ad_agent r)),
     (''timestamp'', iso env (ad_at r))]"

section \<open>Lists\<close>

definition list_observations :: "read_env \<Rightarrow> real \<Rightarrow> uuid \<Rightarrow> int \<Rightarrow> int \<Rightarrow> string option \<Rightarrow> string option \<Rightarrow> string option \<Rightarrow> string \<Rightarrow> site \<Rightarrow> facets_cache \<Rightarrow>
    dict result \<times> facets_cache" where
  "list_observations env clk tenant limit offset fact_type source_type quality_class order st c =
     (let rows = of_tenant o_tenant tenant (cn_observations (st_canon st))
      in listing (re_ttl env) clk ''observations'' ''observations'' tenant
           [(''fact_types'', distinct_texts o_fact_type rows), (''source_types'', distinct_texts o_source_type rows),
            (''quality_classes'', distinct_texts (\<lambda>r. quality_value (o_quality r)) rows)]
           limit offset (observation_payload env)
           (ordered o_captured_at o_id (order = ''captured_at_asc'') (filter (\<lambda>r. wanted fact_type (o_fact_type r) \<and> wanted source_type (o_source_type r) \<and> wanted quality_class (quality_value (o_quality r))) rows)) c)"

definition list_evidence_rows :: "read_env \<Rightarrow> real \<Rightarrow> uuid \<Rightarrow> int \<Rightarrow> int \<Rightarrow> string option \<Rightarrow> string option \<Rightarrow> string \<Rightarrow> site \<Rightarrow> facets_cache \<Rightarrow>
    dict result \<times> facets_cache" where
  "list_evidence_rows env clk tenant limit offset organization_type quality_class order st c =
     (let rows = of_tenant ev_tenant tenant (cn_evidence (st_canon st))
      in listing (re_ttl env) clk ''evidence'' ''evidence'' tenant
           [(''organization_types'', distinct_texts ev_type rows), (''quality_classes'', JArr (map JStr [''Q1'', ''Q2'', ''Q3'', ''Q4'']))]
           limit offset (evidence_payload env)
           (ordered ev_organized_at ev_id (order = ''organized_at_asc'') (filter (\<lambda>r. wanted organization_type (ev_type r) \<and> wanted quality_class (quality_value (ev_quality r))) rows)) c)"

definition list_context_rows :: "read_env \<Rightarrow> real \<Rightarrow> uuid \<Rightarrow> int \<Rightarrow> int \<Rightarrow> string option \<Rightarrow> string option \<Rightarrow> bool option \<Rightarrow> string \<Rightarrow> site \<Rightarrow> facets_cache \<Rightarrow>
    dict result \<times> facets_cache" where
  "list_context_rows env clk tenant limit offset purpose mental_model_id active order st c =
     (let rows = of_tenant ctx_tenant tenant (cn_contexts (st_canon st))
      in listing (re_ttl env) clk ''contexts'' ''contexts'' tenant
           [(''purposes'', distinct_texts ctx_purpose rows), (''mental_model_ids'', distinct_texts ctx_model rows),
            (''is_active'', JArr (map JStr [''true'', ''false'']))]
           limit offset (context_payload env)
           (ordered ctx_activated_at ctx_id (order = ''activated_at_asc'') (filter (\<lambda>r. wanted purpose (ctx_purpose r) \<and> wanted mental_model_id (ctx_model r) \<and> wanted active (ctx_active r)) rows)) c)"

definition list_pattern_rows :: "read_env \<Rightarrow> real \<Rightarrow> uuid \<Rightarrow> int \<Rightarrow> int \<Rightarrow> string option \<Rightarrow> bool option \<Rightarrow> string \<Rightarrow> site \<Rightarrow> facets_cache \<Rightarrow>
    dict result \<times> facets_cache" where
  "list_pattern_rows env clk tenant limit offset pattern_type active order st c =
     (let rows = of_tenant pat_tenant tenant (cn_patterns (st_canon st))
      in listing (re_ttl env) clk ''patterns'' ''patterns'' tenant
           [(''pattern_types'', distinct_texts pat_type rows), (''is_active'', JArr (map JStr [''true'', ''false'']))]
           limit offset (pattern_payload env)
           (ordered pat_detected_at pat_id (order = ''detected_at_asc'') (filter (\<lambda>r. wanted pattern_type (pat_type r) \<and> wanted active (pat_active r)) rows)) c)"

definition list_anomaly_rows :: "read_env \<Rightarrow> real \<Rightarrow> uuid \<Rightarrow> int \<Rightarrow> int \<Rightarrow> string option \<Rightarrow> string \<Rightarrow> site \<Rightarrow> facets_cache \<Rightarrow>
    dict result \<times> facets_cache" where
  "list_anomaly_rows env clk tenant limit offset anomaly_class order st c =
     (let rows = of_tenant an_tenant tenant (cn_anomalies (st_canon st))
      in listing (re_ttl env) clk ''anomalies'' ''anomalies'' tenant
           [(''anomaly_classes'', distinct_texts an_class rows)]
           limit offset (anomaly_payload env)
           (ordered an_detected_at an_id (order = ''detected_at_asc'') (filter (\<lambda>r. wanted anomaly_class (an_class r)) rows)) c)"

definition list_hypothesis_rows :: "read_env \<Rightarrow> real \<Rightarrow> uuid \<Rightarrow> int \<Rightarrow> int \<Rightarrow> string option \<Rightarrow> string \<Rightarrow> site \<Rightarrow> facets_cache \<Rightarrow>
    dict result \<times> facets_cache" where
  "list_hypothesis_rows env clk tenant limit offset status order st c =
     (let rows = of_tenant hyp_tenant tenant (cn_hypotheses (st_canon st))
      in listing (re_ttl env) clk ''hypotheses'' ''hypotheses'' tenant
           [(''statuses'', distinct_texts hyp_status rows)]
           limit offset (hypothesis_payload env)
           (ordered hyp_generated_at hyp_id (order = ''generated_at_asc'') (filter (\<lambda>r. wanted status (hyp_status r)) rows)) c)"

definition list_insight_rows :: "read_env \<Rightarrow> real \<Rightarrow> uuid \<Rightarrow> int \<Rightarrow> int \<Rightarrow> string \<Rightarrow> site \<Rightarrow> facets_cache \<Rightarrow>
    dict result \<times> facets_cache" where
  "list_insight_rows env clk tenant limit offset order st c =
     (let rows = of_tenant ins_tenant tenant (st_insights st)
      in listing (re_ttl env) clk ''insights'' ''insights'' tenant
           [(''hypothesis_ids'', distinct_ids (concat (map ins_hypothesis_ids rows))), (''context_ids'', distinct_ids (map ins_context rows))]
           limit offset (insight_payload env)
           (ordered ins_generated_at ins_id (order = ''generated_at_asc'') (rows)) c)"

definition list_recommendation_rows :: "read_env \<Rightarrow> real \<Rightarrow> uuid \<Rightarrow> int \<Rightarrow> int \<Rightarrow> string option \<Rightarrow> string \<Rightarrow> site \<Rightarrow> facets_cache \<Rightarrow>
    dict result \<times> facets_cache" where
  "list_recommendation_rows env clk tenant limit offset status order st c =
     (let rows = of_tenant rec_tenant tenant (cn_recommendations (st_canon st))
      in listing (re_ttl env) clk ''recommendations'' ''recommendations'' tenant
           [(''statuses'', distinct_texts rec_status rows)]
           limit offset (recommendation_payload env)
           (ordered rec_proposed_at rec_id (order = ''proposed_at_asc'') (filter (\<lambda>r. wanted status (rec_status r)) rows)) c)"

definition list_decision_rows :: "read_env \<Rightarrow> real \<Rightarrow> uuid \<Rightarrow> int \<Rightarrow> int \<Rightarrow> string option \<Rightarrow> string \<Rightarrow> site \<Rightarrow> facets_cache \<Rightarrow>
    dict result \<times> facets_cache" where
  "list_decision_rows env clk tenant limit offset status order st c =
     (let rows = of_tenant dec_tenant tenant (cn_decisions (st_canon st))
      in listing (re_ttl env) clk ''decisions'' ''decisions'' tenant
           [(''statuses'', distinct_texts dec_status rows)]
           limit offset (decision_payload env)
           (ordered dec_committed_at dec_id (order = ''committed_at_asc'') (filter (\<lambda>r. wanted status (dec_status r)) rows)) c)"

definition list_confidence_rows :: "read_env \<Rightarrow> real \<Rightarrow> uuid \<Rightarrow> int \<Rightarrow> int \<Rightarrow> string option \<Rightarrow> string \<Rightarrow> site \<Rightarrow> facets_cache \<Rightarrow>
    dict result \<times> facets_cache" where
  "list_confidence_rows env clk tenant limit offset target_type order st c =
     (let rows = of_tenant conf_tenant tenant (cn_confidences (st_canon st))
      in listing (re_ttl env) clk ''confidence'' ''confidence'' tenant
           [(''target_types'', distinct_texts conf_target_type rows)]
           limit offset (confidence_payload env)
           (ordered conf_computed_at conf_id (order = ''computed_at_asc'') (filter (\<lambda>r. wanted target_type (conf_target_type r)) rows)) c)"

text \<open>
  The audit log: \<open>date_from\<close> and \<open>date_to\<close> reach the driver as texts, for columns that are times.
\<close>

record audit_query =
  aq_limit :: int
  aq_offset :: int
  aq_user :: "uuid option"
  aq_layer :: "string option"
  aq_concept :: "string option"
  aq_action :: "string option"
  aq_from :: "string option"
  aq_to :: "string option"
  aq_sort :: string

definition bound_date :: "read_env \<Rightarrow> string option \<Rightarrow> datetime option result" where
  "bound_date env d = (case d of None \<Rightarrow> Inr None
     | Some s \<Rightarrow> (case re_date env s of None \<Rightarrow> Inl (PassedThrough ''DataError'') | Some t \<Rightarrow> Inr (Some t)))"

definition audit_matches :: "audit_query \<Rightarrow> datetime option \<Rightarrow> datetime option \<Rightarrow> audit_row \<Rightarrow> bool" where
  "audit_matches q from until r \<longleftrightarrow> (aq_user q = None \<or> ad_user r = aq_user q) \<and> wanted (aq_layer q) (ad_layer r) \<and>
     wanted (aq_concept q) (ad_concept r) \<and> wanted (aq_action q) (ad_action r) \<and>
     (case from of None \<Rightarrow> True | Some t \<Rightarrow> t \<le> ad_at r) \<and> (case until of None \<Rightarrow> True | Some t \<Rightarrow> ad_at r \<le> t)"

definition list_audit_logs :: "read_env \<Rightarrow> real \<Rightarrow> uuid \<Rightarrow> audit_query \<Rightarrow> site \<Rightarrow> facets_cache \<Rightarrow> dict result \<times> facets_cache" where
  "list_audit_logs env clk tenant q st c =
     (let rows = of_tenant ad_tenant tenant (st_audit st)
      in case and_then (bound_date env (aq_from q)) (\<lambda>from. and_then (bound_date env (aq_to q)) (\<lambda>until. Inr (from, until))) of
           Inl e \<Rightarrow> (Inl e, c)
         | Inr (from, until) \<Rightarrow>
             listing (re_ttl env) clk ''entries'' ''audit'' tenant
               [(''cognitive_layers'', distinct_texts ad_layer rows), (''cognitive_concepts'', distinct_texts ad_concept rows),
                (''actions'', distinct_texts ad_action rows)]
               (aq_limit q) (aq_offset q) (audit_payload env)
               (ordered ad_at ad_id (aq_sort q = ''timestamp_asc'') (filter (audit_matches q from until) rows)) c)"

section \<open>One row and what it rests on\<close>

definition get_evidence_row :: "read_env \<Rightarrow> uuid \<Rightarrow> uuid \<Rightarrow> site \<Rightarrow> dict option" where
  "get_evidence_row env tenant i st = map_option (\<lambda>r.
     [(''evidence'', JObj (evidence_payload env r)),
      (''observations'', JArr (map (\<lambda>x. JObj (observation_payload env x))
         (rows_in o_tenant o_id tenant (ev_observation_ids r) (cn_observations (st_canon st)))))])
     (one_row ev_tenant ev_id tenant i (cn_evidence (st_canon st)))"

definition get_context_row :: "read_env \<Rightarrow> uuid \<Rightarrow> uuid \<Rightarrow> site \<Rightarrow> dict option" where
  "get_context_row env tenant i st = map_option (\<lambda>r.
     [(''context'', JObj (context_payload env r)),
      (''evidence'', JArr (map (\<lambda>x. JObj (evidence_payload env x))
         (rows_in ev_tenant ev_id tenant (ctx_evidence_ids r) (cn_evidence (st_canon st)))))])
     (one_row ctx_tenant ctx_id tenant i (cn_contexts (st_canon st)))"

definition context_of :: "read_env \<Rightarrow> uuid \<Rightarrow> uuid \<Rightarrow> site \<Rightarrow> json" where
  "context_of env tenant i st = jobject (map_option (context_payload env) (one_row ctx_tenant ctx_id tenant i (cn_contexts (st_canon st))))"

definition get_pattern_row :: "read_env \<Rightarrow> uuid \<Rightarrow> uuid \<Rightarrow> site \<Rightarrow> dict option" where
  "get_pattern_row env tenant i st = map_option (\<lambda>r.
     [(''pattern'', JObj (pattern_payload env r)), (''context'', context_of env tenant (pat_context r) st)])
     (one_row pat_tenant pat_id tenant i (cn_patterns (st_canon st)))"

definition get_anomaly_row :: "read_env \<Rightarrow> uuid \<Rightarrow> uuid \<Rightarrow> site \<Rightarrow> dict option" where
  "get_anomaly_row env tenant i st = map_option (\<lambda>r.
     [(''anomaly'', JObj (anomaly_payload env r)), (''context'', context_of env tenant (an_context r) st)])
     (one_row an_tenant an_id tenant i (cn_anomalies (st_canon st)))"

text \<open>The contexts of the anomalies, in the order of their identifiers; one that is not found is null.\<close>

definition get_hypothesis :: "read_env \<Rightarrow> uuid \<Rightarrow> uuid \<Rightarrow> site \<Rightarrow> dict option" where
  "get_hypothesis env tenant i st = map_option (\<lambda>h.
     let ans = rows_in an_tenant an_id tenant (hyp_anomaly_ids h) (cn_anomalies (st_canon st));
         pats = rows_in pat_tenant pat_id tenant (hyp_pattern_ids h) (cn_patterns (st_canon st));
         ids = sorted_list_of_set (set (map an_context ans))
     in [(''hypothesis'', JObj (hypothesis_payload env h)),
         (''anomalies'', JArr (map (\<lambda>a. JObj (anomaly_payload env a)) ans)),
         (''patterns'', JArr (map (\<lambda>p. JObj (pattern_payload env p)) pats)),
         (''contexts'', JObj (map (\<lambda>c. (uuid_str c, context_of env tenant c st)) ids))])
     (one_row hyp_tenant hyp_id tenant i (cn_hypotheses (st_canon st)))"

definition get_insight :: "read_env \<Rightarrow> uuid \<Rightarrow> uuid \<Rightarrow> site \<Rightarrow> dict option" where
  "get_insight env tenant i st = map_option (\<lambda>r.
     [(''insight'', JObj (insight_payload env r)),
      (''hypotheses'', JArr (map (\<lambda>h. JObj (hypothesis_payload env h))
         (rows_in hyp_tenant hyp_id tenant (ins_hypothesis_ids r) (cn_hypotheses (st_canon st))))),
      (''context'', context_of env tenant (ins_context r) st)])
     (one_row ins_tenant ins_id tenant i (st_insights st))"

text \<open>The target of a confidence; decisions and recommendations without their outcomes and alternatives.\<close>

definition brief_decision :: "read_env \<Rightarrow> decision \<Rightarrow> dict" where
  "brief_decision env r = [(''id'', jid (dec_id r)), (''tenant_id'', jid (dec_tenant r)), (''recommendation_id'', jid (dec_recommendation r)),
     (''confidence_id'', jid (dec_confidence r)), (''authority_id'', jid (dec_authority r)), (''commitment'', JStr (dec_commitment r)),
     (''risk_tolerance'', JStr (dec_risk r)), (''status'', JStr (dec_status r)), (''committed_at'', iso env (dec_committed_at r))]"

definition brief_recommendation :: "read_env \<Rightarrow> recommendation \<Rightarrow> dict" where
  "brief_recommendation env r = [(''id'', jid (rec_id r)), (''tenant_id'', jid (rec_tenant r)), (''hypothesis_id'', jid (rec_hypothesis r)),
     (''confidence_id'', jid (rec_confidence_id r)), (''action_description'', JStr (rec_action_description r)),
     (''rationale'', JStr (rec_rationale r)), (''confidence_score'', JFloat (rec_score r)), (''status'', JStr (rec_status r)),
     (''proposed_at'', iso env (rec_proposed_at r))]"

definition resolve_target :: "read_env \<Rightarrow> uuid \<Rightarrow> string \<Rightarrow> uuid \<Rightarrow> site \<Rightarrow> json" where
  "resolve_target env tenant target_type target_id st =
     (if target_type = ''hypothesis'' then jobject (get_hypothesis env tenant target_id st)
      else if target_type = ''decision''
           then jobject (map_option (brief_decision env) (one_row dec_tenant dec_id tenant target_id (cn_decisions (st_canon st))))
      else if target_type = ''recommendation''
           then jobject (map_option (brief_recommendation env) (one_row rec_tenant rec_id tenant target_id (cn_recommendations (st_canon st))))
      else JNull)"

definition get_confidence_row :: "read_env \<Rightarrow> uuid \<Rightarrow> uuid \<Rightarrow> site \<Rightarrow> dict option" where
  "get_confidence_row env tenant i st = map_option (\<lambda>r.
     [(''confidence'', JObj (confidence_payload env r)),
      (''target'', resolve_target env tenant (conf_target_type r) (conf_target_id r) st)])
     (one_row conf_tenant conf_id tenant i (cn_confidences (st_canon st)))"

definition get_recommendation :: "read_env \<Rightarrow> uuid \<Rightarrow> uuid \<Rightarrow> site \<Rightarrow> dict option" where
  "get_recommendation env tenant i st = map_option (\<lambda>r.
     [(''recommendation'', JObj (recommendation_payload env r)),
      (''hypothesis'', jobject (get_hypothesis env tenant (rec_hypothesis r) st)),
      (''confidence'', jobject (get_confidence_row env tenant (rec_confidence_id r) st))])
     (one_row rec_tenant rec_id tenant i (cn_recommendations (st_canon st)))"

definition get_decision :: "read_env \<Rightarrow> uuid \<Rightarrow> uuid \<Rightarrow> site \<Rightarrow> dict option" where
  "get_decision env tenant i st = map_option (\<lambda>r.
     [(''decision'', JObj (decision_payload env r)),
      (''recommendation'', jobject (get_recommendation env tenant (dec_recommendation r) st)),
      (''confidence'', jobject (get_confidence_row env tenant (dec_confidence r) st))])
     (one_row dec_tenant dec_id tenant i (cn_decisions (st_canon st)))"

section \<open>Aggregates\<close>

definition count_rows :: "('r \<Rightarrow> uuid) \<Rightarrow> uuid \<Rightarrow> 'r list \<Rightarrow> json" where
  "count_rows owner tenant rows = jnat (length (of_tenant owner tenant rows))"

text \<open>\<open>GROUP BY status\<close>: the groups in the order of their first rows.\<close>

definition count_by :: "('r \<Rightarrow> string) \<Rightarrow> 'r list \<Rightarrow> dict" where
  "count_by f rows = map (\<lambda>k. (k, jnat (length (filter (\<lambda>r. f r = k) rows)))) (rev (remdups (rev (map f rows))))"

definition tenant_summary :: "uuid \<Rightarrow> site \<Rightarrow> dict" where
  "tenant_summary tenant st =
     (let k = st_canon st
      in [(''totals'', JObj [(''observations'', count_rows o_tenant tenant (cn_observations k)), (''evidence'', count_rows ev_tenant tenant (cn_evidence k)),
            (''contexts'', count_rows ctx_tenant tenant (cn_contexts k)),
            (''active_contexts'', jnat (length (filter ctx_active (of_tenant ctx_tenant tenant (cn_contexts k))))),
            (''patterns'', count_rows pat_tenant tenant (cn_patterns k)), (''anomalies'', count_rows an_tenant tenant (cn_anomalies k)),
            (''hypotheses'', count_rows hyp_tenant tenant (cn_hypotheses k)), (''insights'', count_rows ins_tenant tenant (st_insights st)),
            (''confidence_scores'', count_rows conf_tenant tenant (cn_confidences k)),
            (''recommendations'', count_rows rec_tenant tenant (cn_recommendations k)), (''decisions'', count_rows dec_tenant tenant (cn_decisions k)),
            (''reports'', count_rows rp_tenant tenant (cn_reports k)), (''servers'', count_rows id tenant (st_servers st))]),
          (''status'', JObj [(''hypotheses'', JObj (count_by hyp_status (of_tenant hyp_tenant tenant (cn_hypotheses k)))),
            (''recommendations'', JObj (count_by rec_status (of_tenant rec_tenant tenant (cn_recommendations k)))),
            (''decisions'', JObj (count_by dec_status (of_tenant dec_tenant tenant (cn_decisions k))))])])"

text \<open>\<open>COALESCE(AVG(x), 0)\<close>, \<open>MIN\<close>, \<open>MAX\<close>\<close>

definition average :: "real list \<Rightarrow> real" where
  "average xs = (if xs = [] then 0 else sum_list xs / of_nat (length xs))"

definition confidence_summary :: "uuid \<Rightarrow> site \<Rightarrow> dict" where
  "confidence_summary tenant st =
     (let rows = of_tenant conf_tenant tenant (cn_confidences (st_canon st)); scores = map conf_score rows
      in [(''total'', jnat (length rows)),
          (''by_target_type'', JObj (count_by conf_target_type (sort_key conf_target_type rows))),
          (''averages'', JObj [(''confidence'', JFloat (average scores)), (''support'', JFloat (average (map conf_support rows))),
             (''coherence'', JFloat (average (map conf_coherence rows))), (''historical_calibration'', JFloat (average (map conf_historical rows))),
             (''ece'', JFloat (average (map conf_error rows))), (''alpha'', JFloat (average (map conf_alpha rows)))]),
          (''range'', JObj [(''min_confidence'', JFloat (if scores = [] then 0 else Min (set scores))),
             (''max_confidence'', JFloat (if scores = [] then 0 else Max (set scores)))])])"

section \<open>What a tenant sees\<close>

definition same_tenant :: "uuid \<Rightarrow> site \<Rightarrow> site \<Rightarrow> bool" where
  "same_tenant t a b \<longleftrightarrow> of_tenant rp_tenant t (cn_reports (st_canon a)) = of_tenant rp_tenant t (cn_reports (st_canon b)) \<and>
     of_tenant dec_tenant t (cn_decisions (st_canon a)) = of_tenant dec_tenant t (cn_decisions (st_canon b)) \<and>
     of_tenant rec_tenant t (cn_recommendations (st_canon a)) = of_tenant rec_tenant t (cn_recommendations (st_canon b)) \<and>
     of_tenant conf_tenant t (cn_confidences (st_canon a)) = of_tenant conf_tenant t (cn_confidences (st_canon b)) \<and>
     of_tenant hyp_tenant t (cn_hypotheses (st_canon a)) = of_tenant hyp_tenant t (cn_hypotheses (st_canon b)) \<and>
     of_tenant an_tenant t (cn_anomalies (st_canon a)) = of_tenant an_tenant t (cn_anomalies (st_canon b)) \<and>
     of_tenant pat_tenant t (cn_patterns (st_canon a)) = of_tenant pat_tenant t (cn_patterns (st_canon b)) \<and>
     of_tenant ctx_tenant t (cn_contexts (st_canon a)) = of_tenant ctx_tenant t (cn_contexts (st_canon b)) \<and>
     of_tenant ev_tenant t (cn_evidence (st_canon a)) = of_tenant ev_tenant t (cn_evidence (st_canon b)) \<and>
     of_tenant o_tenant t (cn_observations (st_canon a)) = of_tenant o_tenant t (cn_observations (st_canon b)) \<and>
     of_tenant ins_tenant t (st_insights a) = of_tenant ins_tenant t (st_insights b) \<and>
     of_tenant ad_tenant t (st_audit a) = of_tenant ad_tenant t (st_audit b) \<and>
     of_tenant lm_tenant t (st_memory a) = of_tenant lm_tenant t (st_memory b) \<and>
     of_tenant id t (st_servers a) = of_tenant id t (st_servers b)"

lemma same_tenant_refl [simp]: "same_tenant t a a"
  by (simp add: same_tenant_def)

lemma same_tenant_sym: "same_tenant t a b \<Longrightarrow> same_tenant t b a"
  by (simp add: same_tenant_def)

lemma same_tenant_trans [trans]: "same_tenant t a b \<Longrightarrow> same_tenant t b c \<Longrightarrow> same_tenant t a c"
  by (simp add: same_tenant_def)

definition same_cache :: "uuid \<Rightarrow> facets_cache \<Rightarrow> facets_cache \<Rightarrow> bool" where
  "same_cache t c d \<longleftrightarrow> (\<forall>concept. c (facets_key concept t) = d (facets_key concept t))"

lemma same_cache_refl [simp]: "same_cache t c c"
  by (simp add: same_cache_def)

lemma same_cache_sym: "same_cache t c d \<Longrightarrow> same_cache t d c"
  by (simp add: same_cache_def)

lemma same_cache_trans [trans]: "same_cache t c d \<Longrightarrow> same_cache t d e \<Longrightarrow> same_cache t c e"
  by (simp add: same_cache_def)

lemma facets_key_tenant: "facets_key a t = facets_key b u \<Longrightarrow> t = u"
proof -
  assume "facets_key a t = facets_key b u"
  then have "(a @ '':'') @ uuid_str t = (b @ '':'') @ uuid_str u" by (simp add: facets_key_def)
  then have "uuid_str t = uuid_str u" by (subst (asm) append_eq_append_conv) (simp_all add: length_uuid_str)
  then show "t = u" by (rule uuid_str_inj)
qed

lemma facets_frame: "t \<noteq> u \<Longrightarrow> same_cache t c (snd (facets ttl clk (facets_key concept u) current c))"
  by (auto simp: facets_def cache_get_def cache_set_def same_cache_def dest: facets_key_tenant split: option.splits)

lemma facets_local:
  assumes "same_cache t c d"
  shows "fst (facets ttl clk (facets_key concept t) current c) = fst (facets ttl clk (facets_key concept t) current d)"
    and "same_cache t (snd (facets ttl clk (facets_key concept t) current c)) (snd (facets ttl clk (facets_key concept t) current d))"
  using assms by (auto simp: facets_def cache_get_def cache_set_def same_cache_def split: option.splits)

text \<open>
  The contract of a read: its answer and the facets it leaves behind are a matter of the rows and the facets of
  the tenant it is asked for, and it touches the facets of no other tenant.
\<close>

locale tenant_read =
  fixes reads :: "uuid \<Rightarrow> site \<Rightarrow> facets_cache \<Rightarrow> 'a \<times> facets_cache"
  assumes answer: "same_tenant t a b \<Longrightarrow> same_cache t c d \<Longrightarrow> fst (reads t a c) = fst (reads t b d)"
    and kept: "same_tenant t a b \<Longrightarrow> same_cache t c d \<Longrightarrow> same_cache t (snd (reads t a c)) (snd (reads t b d))"
    and frame: "t \<noteq> u \<Longrightarrow> same_cache t c (snd (reads u a c))"
begin

lemma others: "t \<noteq> u \<Longrightarrow> same_cache t c d \<Longrightarrow> same_cache t (snd (reads u a c)) d"
  using frame [of t u c a] same_cache_sym same_cache_trans by blast

end

lemma listing_read:
  assumes "same_cache t c d"
  shows "fst (listing ttl clk response concept t current limit offset payload rows c) =
      fst (listing ttl clk response concept t current limit offset payload rows d)"
    and "same_cache t (snd (listing ttl clk response concept t current limit offset payload rows c))
      (snd (listing ttl clk response concept t current limit offset payload rows d))"
  using facets_local [OF assms, of ttl clk concept current] assms
  by (auto simp: listing_def split: sum.splits prod.splits)

lemma listing_frame: "t \<noteq> u \<Longrightarrow> same_cache t c (snd (listing ttl clk response concept u current limit offset payload rows c))"
  using facets_frame [of t u c ttl clk concept current] by (auto simp: listing_def split: sum.splits prod.splits)

text \<open>A list whose rows and facets come from the tenant, and a look at the tenant that leaves the cache alone.\<close>

lemma tenant_read_listing:
  assumes "\<And>t a b. same_tenant t a b \<Longrightarrow> rows t a = rows t b"
    and "\<And>t a c. reads t a c = listing ttl clk response concept t (current (rows t a)) limit offset payload (select (rows t a)) c"
  shows "tenant_read reads"
proof
  fix t :: uuid and a b :: site and c d :: facets_cache
  assume "same_tenant t a b" and c: "same_cache t c d"
  then have r: "rows t a = rows t b" using assms(1) by blast
  show "fst (reads t a c) = fst (reads t b d)" unfolding assms(2) r by (rule listing_read(1) [OF c])
  show "same_cache t (snd (reads t a c)) (snd (reads t b d))" unfolding assms(2) r by (rule listing_read(2) [OF c])
next
  fix t u :: uuid and a :: site and c :: facets_cache
  assume "t \<noteq> u"
  then show "same_cache t c (snd (reads u a c))" unfolding assms(2) by (rule listing_frame)
qed

lemma tenant_read_view:
  assumes "\<And>t a b. same_tenant t a b \<Longrightarrow> view t a = view t b"
  shows "tenant_read (\<lambda>t a c. (view t a, c))"
  by standard (use assms in auto)

lemma one_row_local: "of_tenant owner t r = of_tenant owner t r' \<Longrightarrow> one_row owner key t i r = one_row owner key t i r'"
  by (simp add: one_row_def)

lemma rows_in_local: "of_tenant owner t r = of_tenant owner t r' \<Longrightarrow> rows_in owner key t ids r = rows_in owner key t ids r'"
  by (simp add: rows_in_def)

interpretation observation_reads: tenant_read "\<lambda>t. list_observations env clk t limit offset fact_type source_type quality_class order"
    for env clk limit offset fact_type source_type quality_class order
  by (rule tenant_read_listing [where rows = "\<lambda>t st. of_tenant o_tenant t (cn_observations (st_canon st))",
        OF _ list_observations_def [unfolded Let_def]]) (simp add: same_tenant_def)

lemma tenant_read_bind:
  assumes f: "tenant_read f" and g: "\<And>x. tenant_read (g x)"
  shows "tenant_read (\<lambda>t a c. case f t a c of (x, c') \<Rightarrow> g x t a c')"
proof
  fix t :: uuid and a b :: site and c d :: facets_cache
  assume st: "same_tenant t a b" and c: "same_cache t c d"
  have x: "fst (f t a c) = fst (f t b d)" and k: "same_cache t (snd (f t a c)) (snd (f t b d))"
    using tenant_read.answer [OF f st c] tenant_read.kept [OF f st c] .
  show "fst (case f t a c of (x, c') \<Rightarrow> g x t a c') = fst (case f t b d of (x, c') \<Rightarrow> g x t b c')"
    unfolding case_prod_beta x by (rule tenant_read.answer [OF g st k])
  show "same_cache t (snd (case f t a c of (x, c') \<Rightarrow> g x t a c')) (snd (case f t b d of (x, c') \<Rightarrow> g x t b c'))"
    unfolding case_prod_beta x by (rule tenant_read.kept [OF g st k])
next
  fix t u :: uuid and a :: site and c :: facets_cache
  assume n: "t \<noteq> u"
  show "same_cache t c (snd (case f u a c of (x, c') \<Rightarrow> g x u a c'))"
    unfolding case_prod_beta using tenant_read.frame [OF f n] tenant_read.frame [OF g n] same_cache_trans by blast
qed

lemma tenant_read_map: "tenant_read f \<Longrightarrow> tenant_read (\<lambda>t a c. case f t a c of (x, c') \<Rightarrow> (h x, c'))"
  by (rule tenant_read_bind) (simp_all add: tenant_read_view)

section \<open>Every store keeps to the tenant\<close>

interpretation evidence_reads: tenant_read "\<lambda>t. list_evidence_rows env clk t limit offset organization_type quality_class order"
    for env clk limit offset organization_type quality_class order
  by (rule tenant_read_listing [where rows = "\<lambda>t st. of_tenant ev_tenant t (cn_evidence (st_canon st))", OF _ list_evidence_rows_def [unfolded Let_def]])
    (simp add: same_tenant_def)

interpretation context_reads: tenant_read "\<lambda>t. list_context_rows env clk t limit offset purpose mental_model_id active order"
    for env clk limit offset purpose mental_model_id active order
  by (rule tenant_read_listing [where rows = "\<lambda>t st. of_tenant ctx_tenant t (cn_contexts (st_canon st))", OF _ list_context_rows_def [unfolded Let_def]])
    (simp add: same_tenant_def)

interpretation pattern_reads: tenant_read "\<lambda>t. list_pattern_rows env clk t limit offset pattern_type active order"
    for env clk limit offset pattern_type active order
  by (rule tenant_read_listing [where rows = "\<lambda>t st. of_tenant pat_tenant t (cn_patterns (st_canon st))", OF _ list_pattern_rows_def [unfolded Let_def]])
    (simp add: same_tenant_def)

interpretation anomaly_reads: tenant_read "\<lambda>t. list_anomaly_rows env clk t limit offset anomaly_class order"
    for env clk limit offset anomaly_class order
  by (rule tenant_read_listing [where rows = "\<lambda>t st. of_tenant an_tenant t (cn_anomalies (st_canon st))", OF _ list_anomaly_rows_def [unfolded Let_def]])
    (simp add: same_tenant_def)

interpretation hypothesis_reads: tenant_read "\<lambda>t. list_hypothesis_rows env clk t limit offset status order"
    for env clk limit offset status order
  by (rule tenant_read_listing [where rows = "\<lambda>t st. of_tenant hyp_tenant t (cn_hypotheses (st_canon st))", OF _ list_hypothesis_rows_def [unfolded Let_def]])
    (simp add: same_tenant_def)

interpretation insight_reads: tenant_read "\<lambda>t. list_insight_rows env clk t limit offset order"
    for env clk limit offset order
  by (rule tenant_read_listing [where rows = "\<lambda>t st. of_tenant ins_tenant t (st_insights st)", OF _ list_insight_rows_def [unfolded Let_def]])
    (simp add: same_tenant_def)

interpretation recommendation_reads: tenant_read "\<lambda>t. list_recommendation_rows env clk t limit offset status order"
    for env clk limit offset status order
  by (rule tenant_read_listing [where rows = "\<lambda>t st. of_tenant rec_tenant t (cn_recommendations (st_canon st))", OF _ list_recommendation_rows_def [unfolded Let_def]])
    (simp add: same_tenant_def)

interpretation decision_reads: tenant_read "\<lambda>t. list_decision_rows env clk t limit offset status order"
    for env clk limit offset status order
  by (rule tenant_read_listing [where rows = "\<lambda>t st. of_tenant dec_tenant t (cn_decisions (st_canon st))", OF _ list_decision_rows_def [unfolded Let_def]])
    (simp add: same_tenant_def)

interpretation confidence_reads: tenant_read "\<lambda>t. list_confidence_rows env clk t limit offset target_type order"
    for env clk limit offset target_type order
  by (rule tenant_read_listing [where rows = "\<lambda>t st. of_tenant conf_tenant t (cn_confidences (st_canon st))", OF _ list_confidence_rows_def [unfolded Let_def]])
    (simp add: same_tenant_def)

interpretation audit_reads: tenant_read "\<lambda>t. list_audit_logs env clk t q" for env clk q
proof
  fix t :: uuid and a b :: site and c d :: facets_cache
  assume "same_tenant t a b" and c: "same_cache t c d"
  then have r: "of_tenant ad_tenant t (st_audit a) = of_tenant ad_tenant t (st_audit b)" by (simp add: same_tenant_def)
  show "fst (list_audit_logs env clk t q a c) = fst (list_audit_logs env clk t q b d)"
    unfolding list_audit_logs_def Let_def r by (auto split: sum.split intro: listing_read(1) [OF c])
  show "same_cache t (snd (list_audit_logs env clk t q a c)) (snd (list_audit_logs env clk t q b d))"
    unfolding list_audit_logs_def Let_def r by (auto split: sum.split intro: listing_read(2) [OF c] c)
next
  fix t u :: uuid and a :: site and c :: facets_cache
  assume "t \<noteq> u"
  then show "same_cache t c (snd (list_audit_logs env clk u q a c))"
    unfolding list_audit_logs_def Let_def by (auto split: sum.split intro: listing_frame)
qed

lemma context_of_local: "same_tenant t a b \<Longrightarrow> context_of env t i a = context_of env t i b"
  by (simp add: context_of_def one_row_def same_tenant_def)

lemma get_hypothesis_local: "same_tenant t a b \<Longrightarrow> get_hypothesis env t i a = get_hypothesis env t i b"
  by (simp add: get_hypothesis_def Let_def context_of_local) (simp add: one_row_def rows_in_def same_tenant_def)

lemma resolve_target_local: "same_tenant t a b \<Longrightarrow> resolve_target env t typ i a = resolve_target env t typ i b"
  unfolding resolve_target_def by (intro if_cong arg_cong [of _ _ jobject] get_hypothesis_local refl)
    (simp_all add: one_row_def same_tenant_def)

lemma get_confidence_row_local: "same_tenant t a b \<Longrightarrow> get_confidence_row env t i a = get_confidence_row env t i b"
  by (simp add: get_confidence_row_def resolve_target_local) (simp add: one_row_def same_tenant_def)

lemma get_recommendation_local: "same_tenant t a b \<Longrightarrow> get_recommendation env t i a = get_recommendation env t i b"
  by (simp add: get_recommendation_def get_hypothesis_local get_confidence_row_local) (simp add: one_row_def same_tenant_def)

lemma get_decision_local: "same_tenant t a b \<Longrightarrow> get_decision env t i a = get_decision env t i b"
  by (simp add: get_decision_def get_recommendation_local get_confidence_row_local) (simp add: one_row_def same_tenant_def)

lemma get_insight_local: "same_tenant t a b \<Longrightarrow> get_insight env t i a = get_insight env t i b"
  by (simp add: get_insight_def context_of_local) (simp add: one_row_def rows_in_def same_tenant_def)

lemma tenant_summary_local: "same_tenant t a b \<Longrightarrow> tenant_summary t a = tenant_summary t b"
  by (simp add: tenant_summary_def Let_def count_rows_def same_tenant_def)

section \<open>Pages and facets\<close>

text \<open>What a run of reads at the times \<open>clk\<close> is answered; each read comes with what the query would say now.\<close>

fun facet_reads :: "real \<Rightarrow> (real \<times> string \<times> dict) list \<Rightarrow> facets_cache \<Rightarrow> dict list" where
  "facet_reads ttl [] c = []"
| "facet_reads ttl ((clk, key, current) # es) c = (case facets ttl clk key current c of (d, c') \<Rightarrow> d # facet_reads ttl es c')"

definition cached_from :: "(real \<times> string \<times> dict) list \<Rightarrow> facets_cache \<Rightarrow> bool" where
  "cached_from hist c \<longleftrightarrow> (\<forall>key ts d. c key = Some (ts, d) \<longrightarrow> (ts, key, d) \<in> set hist)"

lemma facets_from:
  assumes "cached_from hist c"
  shows "cached_from (hist @ [(clk, key, current)]) (snd (facets ttl clk key current c))"
    and "\<exists>ts. (ts, key, fst (facets ttl clk key current c)) \<in> set (hist @ [(clk, key, current)]) \<and>
      ((ts, fst (facets ttl clk key current c)) = (clk, current) \<or> clk - ts < ttl)"
  using assms by (auto simp: facets_def cache_get_def cache_set_def cached_from_def split: option.splits)

lemma facet_reads_from:
  "cached_from hist c \<Longrightarrow> i < length es \<Longrightarrow> es ! i = (clk, key, current) \<Longrightarrow>
     \<exists>ts. (ts, key, facet_reads ttl es c ! i) \<in> set (hist @ take (Suc i) es) \<and>
       ((ts, facet_reads ttl es c ! i) = (clk, current) \<or> clk - ts < ttl)"
proof (induction es arbitrary: hist c i)
  case (Cons e es)
  obtain k0 key0 cur0 where e: "e = (k0, key0, cur0)" by (cases e)
  show ?case
  proof (cases i)
    case 0
    then show ?thesis using facets_from(2) [OF Cons.prems(1), where clk = clk and key = key and current = current and ttl = ttl] Cons.prems(3) e
      by (auto split: prod.splits)
  next
    case (Suc j)
    have "cached_from (hist @ [e]) (snd (facets ttl k0 key0 cur0 c))" unfolding e by (rule facets_from(1) [OF Cons.prems(1)])
    from Cons.IH [OF this] Suc Cons.prems(2,3) show ?thesis by (auto simp: e split: prod.splits)
  qed
qed simp

text \<open>
  C34. Facets are stale for a bounded time: in every run of reads the facets answered are those the query of the same
  key gave at this read or at an earlier one, and then less than the time to live ago.
\<close>

theorem facets_bounded_staleness:
  assumes "i < length reads" and "reads ! i = (clk, key, current)"
  shows "\<exists>ts. (ts, key, facet_reads ttl reads (\<lambda>_. None) ! i) \<in> set (take (Suc i) reads) \<and>
     ((ts, facet_reads ttl reads (\<lambda>_. None) ! i) = (clk, current) \<or> clk - ts < ttl)"
  using facet_reads_from [of "[]" "\<lambda>_. None", OF _ assms] by (simp add: cached_from_def)

theorem facets_bounded_staleness_witness:
  "\<exists>ts. (ts, ''k'', facet_reads 60 [(0, ''k'', []), (30, ''k'', [(''a'', JNull)])] (\<lambda>_. None) ! 1) \<in>
      set [(0, ''k'', []), (30, ''k'', [(''a'', JNull)])] \<and> facet_reads 60 [(0, ''k'', []), (30, ''k'', [(''a'', JNull)])] (\<lambda>_. None) ! 1 = []"
  using facets_bounded_staleness [of 1 "[(0, ''k'', []), (30, ''k'', [(''a'', JNull)])]" 30 "''k''" "[(''a'', JNull)]" 60]
  by (simp add: facets_def cache_get_def cache_set_def)

lemma take_pages: "concat (map (\<lambda>k. take l (drop (k * l) xs)) [0..<n]) = take (n * l) xs"
proof (induction n)
  case (Suc n)
  then show ?case by (simp add: take_add [symmetric] add.commute)
qed simp

definition shown_rows :: "string \<Rightarrow> dict result \<Rightarrow> json list" where
  "shown_rows response r = (case r of Inr d \<Rightarrow> (case get d response of JArr xs \<Rightarrow> xs | _ \<Rightarrow> []) | Inl _ \<Rightarrow> [])"

lemma shown_listing:
  "0 \<le> limit \<Longrightarrow> 0 \<le> offset \<Longrightarrow>
     shown_rows response (fst (listing ttl clk response concept tenant current limit offset payload rows c)) =
       map (\<lambda>r. JObj (payload r)) (take (nat limit) (drop (nat offset) rows))"
  by (auto simp: shown_rows_def listing_def page_def get_def split: prod.splits)

lemma ordered_sorted: "sorted (map (\<lambda>r. (if asc then at_time r else - at_time r, key r)) (ordered at_time key asc rows))"
  by (simp add: ordered_def)

lemma mset_ordered [simp]: "mset (ordered at_time key asc rows) = mset rows"
  by (simp add: ordered_def)

definition observation_matches :: "uuid \<Rightarrow> string option \<Rightarrow> string option \<Rightarrow> string option \<Rightarrow> observation \<Rightarrow> bool" where
  "observation_matches tenant fact_type source_type quality_class r \<longleftrightarrow> o_tenant r = tenant \<and> wanted fact_type (o_fact_type r) \<and>
     wanted source_type (o_source_type r) \<and> wanted quality_class (quality_value (o_quality r))"

text \<open>
  C32. Turning the pages shows everything once: while the table rests, the pages of any positive size show exactly the
  observations of the tenant that match the filters, each as often as it is stored, newest first and by identifier
  among those of one time; enough pages are as many as the matching rows need.
\<close>

theorem pages_enumerate:
  assumes "0 < limit"
    and "length (filter (observation_matches tenant fact_type source_type quality_class) (cn_observations (st_canon st))) \<le> n * nat limit"
  shows "\<exists>rs. mset rs = filter_mset (observation_matches tenant fact_type source_type quality_class) (mset (cn_observations (st_canon st))) \<and>
    sorted (map (\<lambda>r. (- o_captured_at r, o_id r)) rs) \<and>
    concat (map (\<lambda>k. shown_rows ''observations'' (fst (list_observations env clk tenant limit (int k * limit)
      fact_type source_type quality_class ''captured_at_desc'' st (c k)))) [0..<n]) = map (\<lambda>r. JObj (observation_payload env r)) rs"
proof -
  let ?sel = "filter (\<lambda>r. wanted fact_type (o_fact_type r) \<and> wanted source_type (o_source_type r) \<and>
    wanted quality_class (quality_value (o_quality r))) (of_tenant o_tenant tenant (cn_observations (st_canon st)))"
  define rs where "rs = ordered o_captured_at o_id False ?sel"
  have m: "?sel = filter (observation_matches tenant fact_type source_type quality_class) (cn_observations (st_canon st))"
    unfolding of_tenant_def filter_filter by (rule filter_cong) (auto simp: observation_matches_def)
  have l: "length rs = length ?sel" by (metis rs_def mset_ordered size_mset)
  have "shown_rows ''observations'' (fst (list_observations env clk tenant limit (int k * limit)
      fact_type source_type quality_class ''captured_at_desc'' st (c k))) =
    map (\<lambda>r. JObj (observation_payload env r)) (take (nat limit) (drop (k * nat limit) rs))" for k
    using assms(1) by (simp add: list_observations_def Let_def shown_listing rs_def nat_mult_distrib)
  then have "concat (map (\<lambda>k. shown_rows ''observations'' (fst (list_observations env clk tenant limit (int k * limit)
      fact_type source_type quality_class ''captured_at_desc'' st (c k)))) [0..<n]) =
    map (\<lambda>r. JObj (observation_payload env r)) (take (n * nat limit) rs)"
    by (simp flip: take_pages map_concat add: map_concat comp_def)
  moreover have "take (n * nat limit) rs = rs" using assms(2) l m by simp
  moreover have "mset rs = filter_mset (observation_matches tenant fact_type source_type quality_class) (mset (cn_observations (st_canon st)))" by (simp add: rs_def m)
  moreover have "sorted (map (\<lambda>r. (- o_captured_at r, o_id r)) rs)" using ordered_sorted [of False o_captured_at o_id] by (simp add: rs_def)
  ultimately show ?thesis by auto
qed

definition ex_observation :: "uuid \<Rightarrow> uuid \<Rightarrow> datetime \<Rightarrow> observation" where
  "ex_observation i tenant t = \<lparr>o_id = i, o_tenant = tenant, o_source = 1, o_source_type = ''agent'', o_fact_type = ''cpu'', o_fact_value = [],
     o_unit = ''%'', o_captured_at = t, o_quality = Q1, o_raw = []\<rparr>"

definition ex_site :: site where
  "ex_site = \<lparr>st_canon = ex_canon\<lparr>cn_observations := [ex_observation 21 7 1, ex_observation 22 8 2, ex_observation 23 7 3]\<rparr>,
     st_insights = [], st_audit = [], st_memory = [], st_executions = [], st_servers = []\<rparr>"

definition ex_read_env :: read_env where
  "ex_read_env = \<lparr>re_trace = ex_trace_env, re_date = \<lambda>_. None, re_ttl = 60\<rparr>"

theorem pages_enumerate_witness:
  "\<exists>rs. mset rs = {# ex_observation 21 7 1, ex_observation 23 7 3 #} \<and>
    concat (map (\<lambda>k. shown_rows ''observations'' (fst (list_observations ex_read_env 0 7 1 (int k * 1)
      None (Some ''agent'') None ''captured_at_desc'' ex_site (\<lambda>_. None)))) [0..<2]) = map (\<lambda>r. JObj (observation_payload ex_read_env r)) rs"
proof -
  have f: "filter (observation_matches 7 None (Some ''agent'') None) (cn_observations (st_canon ex_site)) =
      [ex_observation 21 7 1, ex_observation 23 7 3]"
    by (simp add: ex_site_def observation_matches_def wanted_def ex_observation_def)
  then have m: "filter_mset (observation_matches 7 None (Some ''agent'') None) (mset (cn_observations (st_canon ex_site))) =
      {# ex_observation 21 7 1, ex_observation 23 7 3 #}"
    by (metis mset_filter mset.simps)
  show ?thesis
    using pages_enumerate [of 1 7 None "Some ''agent''" None ex_site 2 ex_read_env 0 "\<lambda>_ _. None"] unfolding f m by auto
qed

end
