(* ===== verification/Cognitive_Timeline.thy ===== *)
theory Cognitive_Timeline
  imports Read_Stores
begin

text \<open>
  The cognitive timeline of a tenant (\<open>libs/memory/cognitive_timeline.py\<close>) over the read stores as the gateway wires
  them: the newest rows of every kind as one list of events. A source whose read raises is left out, and so is the
  report store, whose list takes no limit. \<open>ce_str\<close> is \<open>str\<close> of values that are not texts.
\<close>

section \<open>Events\<close>

record timeline_event =
  te_tenant :: uuid
  te_layer :: string
  te_concept :: string
  te_id :: string
  te_at :: string
  te_title :: string
  te_detail :: string
  te_target_type :: json
  te_target_id :: "string option"
  te_status :: json

definition short :: "(json \<Rightarrow> string) \<Rightarrow> json \<Rightarrow> string" where
  "short str_of v = (if v = JNull then [] else let s = text_of str_of v in if length s \<le> 80 then s else take 80 s @ ''...'')"

definition title_detail :: "(json \<Rightarrow> string) \<Rightarrow> string \<Rightarrow> dict \<Rightarrow> string \<times> string \<times> json" where
  "title_detail str_of concept item =
     (let S = (\<lambda>k. text_of str_of (get item k)); D = (\<lambda>k d. text_of str_of (get_default item k (JStr d))); status = get item ''status''
      in if concept = ''observation'' then (''Observation: '' @ D ''fact_type'' ''?'',
             strip (short str_of (get item ''fact_value'') @ '' '' @ D ''unit'' [] @ '' (quality='' @ S ''quality_class'' @ '')''), JNull)
         else if concept = ''evidence'' then (''Evidence: '' @ D ''metric'' ''?'', ''unit='' @ S ''unit'' @ '', quality='' @ S ''quality_class'', JNull)
         else if concept = ''context'' then (''Context activated'',
             ''coherence='' @ S ''coherence_score'' @ '', models='' @ S ''competing_models'', JNull)
         else if concept = ''pattern'' then (''Pattern: '' @ D ''pattern_type'' ''?'',
             ''strength='' @ S ''strength_measure'' @ '', frequency='' @ S ''frequency'', JNull)
         else if concept = ''anomaly'' then (''Anomaly: '' @ D ''anomaly_class'' ''?'',
             ''deviation='' @ S ''deviation_score'' @ '' (tol='' @ S ''tolerance_threshold'' @ '')'', JNull)
         else if concept = ''hypothesis'' then (''Hypothesis ('' @ text_of str_of status @ '')'',
             short str_of (por (get item ''statement'') (get item ''rationale'')), status)
         else if concept = ''insight'' then (''Insight'', short str_of (por (get item ''mental_model_update'') (get item ''prior_understanding'')), JNull)
         else if concept = ''recommendation'' then (''Recommendation ('' @ text_of str_of status @ '')'', ''confidence='' @ S ''confidence_score'', status)
         else if concept = ''decision'' then (''Decision ('' @ text_of str_of status @ '')'', ''risk='' @ S ''risk_tolerance'', status)
         else if concept = ''report'' then (''Report ('' @ D ''model_used'' ''?'' @ '')'', S ''period_start'' @ ''..'' @ S ''period_end'', JNull)
         else if concept = ''confidence'' then (''Confidence: '' @ D ''target_type'' ''?'',
             ''alpha='' @ S ''alpha'' @ '', support='' @ S ''evidential_support'', JNull)
         else if concept = ''audit'' then (strip (D ''cognitive_concept'' ''?'' @ '' '' @ D ''action'' []), ''layer='' @ S ''cognitive_layer'', JNull)
         else (concept, short str_of (JObj item), JNull))"

definition timeline_event_of :: "(json \<Rightarrow> string) \<Rightarrow> uuid \<Rightarrow> string \<Rightarrow> string \<Rightarrow> json \<Rightarrow> dict \<Rightarrow> timeline_event" where
  "timeline_event_of str_of tenant concept layer ts item =
     (case title_detail str_of concept item of (title, detail, status) \<Rightarrow>
        \<lparr>te_tenant = tenant, te_layer = layer, te_concept = concept, te_id = text_of str_of (get_default item ''id'' (JStr [])),
         te_at = text_of str_of ts, te_title = title, te_detail = detail, te_target_type = get item ''target_type'',
         te_target_id = (if get item ''target_id'' = JNull then None else Some (text_of str_of (get item ''target_id''))),
         te_status = status\<rparr>)"

text \<open>The events of a payload: its items that are objects and have a time.\<close>

definition events_of_item :: "(json \<Rightarrow> string) \<Rightarrow> uuid \<Rightarrow> string \<Rightarrow> string \<Rightarrow> string \<Rightarrow> json \<Rightarrow> timeline_event list" where
  "events_of_item str_of tenant concept layer ts_field x = (case x of
       JObj item \<Rightarrow> if get item ts_field = JNull then [] else [timeline_event_of str_of tenant concept layer (get item ts_field) item]
     | _ \<Rightarrow> [])"

section \<open>Sources\<close>

type_synonym source_read = "read_env \<Rightarrow> real \<Rightarrow> int \<Rightarrow> uuid \<Rightarrow> site \<Rightarrow> facets_cache \<Rightarrow> dict result \<times> facets_cache"

text \<open>\<open>ReportStore.list_reports(tenant_id=..., limit=...)\<close>\<close>

definition reports_without_limit :: source_read where
  "reports_without_limit env clk limit tenant st c = (Inl (TypeError ''list_reports() got an unexpected keyword argument limit''), c)"

definition default_audit_query :: "int \<Rightarrow> audit_query" where
  "default_audit_query limit = \<lparr>aq_limit = limit, aq_offset = 0, aq_user = None, aq_layer = None, aq_concept = None, aq_action = None,
     aq_from = None, aq_to = None, aq_sort = ''timestamp_desc''\<rparr>"

definition SOURCES :: "(string \<times> string \<times> source_read \<times> string \<times> string) list" where
  "SOURCES = [
     (''observation'', ''perception'', \<lambda>env clk limit tenant. list_observations env clk tenant limit 0 None None None ''captured_at_desc'', ''observations'', ''captured_at''),
     (''evidence'', ''perception'', \<lambda>env clk limit tenant. list_evidence_rows env clk tenant limit 0 None None ''organized_at_desc'', ''evidence'', ''organized_at''),
     (''context'', ''perception'', \<lambda>env clk limit tenant. list_context_rows env clk tenant limit 0 None None None ''activated_at_desc'', ''contexts'', ''activated_at''),
     (''pattern'', ''reasoning'', \<lambda>env clk limit tenant. list_pattern_rows env clk tenant limit 0 None None ''detected_at_desc'', ''patterns'', ''detected_at''),
     (''anomaly'', ''reasoning'', \<lambda>env clk limit tenant. list_anomaly_rows env clk tenant limit 0 None ''detected_at_desc'', ''anomalies'', ''detected_at''),
     (''hypothesis'', ''reasoning'', \<lambda>env clk limit tenant. list_hypothesis_rows env clk tenant limit 0 None ''generated_at_desc'', ''hypotheses'', ''generated_at''),
     (''insight'', ''reasoning'', \<lambda>env clk limit tenant. list_insight_rows env clk tenant limit 0 ''generated_at_desc'', ''insights'', ''generated_at''),
     (''recommendation'', ''action'', \<lambda>env clk limit tenant. list_recommendation_rows env clk tenant limit 0 None ''proposed_at_desc'', ''recommendations'', ''proposed_at''),
     (''decision'', ''action'', \<lambda>env clk limit tenant. list_decision_rows env clk tenant limit 0 None ''committed_at_desc'', ''decisions'', ''committed_at''),
     (''report'', ''memory'', reports_without_limit, ''reports'', ''generated_at''),
     (''confidence'', ''confidence'', \<lambda>env clk limit tenant. list_confidence_rows env clk tenant limit 0 None ''computed_at_desc'', ''confidence'', ''computed_at''),
     (''audit'', ''memory'', \<lambda>env clk limit tenant. list_audit_logs env clk tenant (default_audit_query limit), ''entries'', ''timestamp'')]"

text \<open>The events of one source, none when its read raises.\<close>

definition source_events :: "read_env \<Rightarrow> uuid \<Rightarrow> string \<times> string \<times> source_read \<times> string \<times> string \<Rightarrow> dict result \<Rightarrow> timeline_event list" where
  "source_events env tenant src r = (case src of (concept, layer, _, response, ts_field) \<Rightarrow>
     (case r of Inl _ \<Rightarrow> []
      | Inr payload \<Rightarrow> (case get payload response of
            JArr items \<Rightarrow> concat (map (events_of_item (ce_str (re_trace env)) tenant concept layer ts_field) items) | _ \<Rightarrow> [])))"

fun collect_events :: "read_env \<Rightarrow> real \<Rightarrow> int \<Rightarrow> (string \<times> string \<times> source_read \<times> string \<times> string) list \<Rightarrow> uuid \<Rightarrow> site \<Rightarrow> facets_cache \<Rightarrow>
    timeline_event list \<times> facets_cache" where
  "collect_events env clk limit [] tenant st c = ([], c)"
| "collect_events env clk limit (src # srcs) tenant st c =
     (case fst (snd (snd src)) env clk limit tenant st c of (r, c1) \<Rightarrow>
        (case collect_events env clk limit srcs tenant st c1 of (es, c2) \<Rightarrow> (source_events env tenant src r @ es, c2)))"

section \<open>The timeline\<close>

record timeline =
  tl_tenant :: uuid
  tl_events :: "timeline_event list"
  tl_total :: nat
  tl_per_layer :: "(string \<times> nat) list"
  tl_per_concept :: "(string \<times> nat) list"
  tl_ascending :: bool

definition bump :: "string \<Rightarrow> (string \<times> nat) list \<Rightarrow> (string \<times> nat) list" where
  "bump k d = AList.update k ((case map_of d k of None \<Rightarrow> 0 | Some n \<Rightarrow> n) + 1) d"

definition tally :: "('e \<Rightarrow> string) \<Rightarrow> 'e list \<Rightarrow> (string \<times> nat) list" where
  "tally f es = fold (\<lambda>e. bump (f e)) es []"

text \<open>\<open>events.sort(key=..., reverse=not ascending)\<close> is stable in both directions.\<close>

definition sort_events :: "bool \<Rightarrow> timeline_event list \<Rightarrow> timeline_event list" where
  "sort_events ascending es = (if ascending then sort_key te_at es else rev (sort_key te_at (rev es)))"

definition build_cognitive_timeline :: "read_env \<Rightarrow> real \<Rightarrow> int \<Rightarrow> bool \<Rightarrow> uuid \<Rightarrow> site \<Rightarrow> facets_cache \<Rightarrow> timeline \<times> facets_cache" where
  "build_cognitive_timeline env clk limit ascending tenant st c =
     (case collect_events env clk limit SOURCES tenant st c of (es, c') \<Rightarrow>
        (\<lparr>tl_tenant = tenant, tl_events = sort_events ascending es, tl_total = length es, tl_per_layer = tally te_layer es,
          tl_per_concept = tally te_concept es, tl_ascending = ascending\<rparr>, c'))"

section \<open>The timeline keeps to the tenant\<close>

lemma collect_events_read:
  assumes "\<And>src. src \<in> set srcs \<Longrightarrow> tenant_read (fst (snd (snd src)) env clk limit)"
  shows "tenant_read (collect_events env clk limit srcs)"
  using assms
proof (induction srcs)
  case Nil
  show ?case using tenant_read_view [of "\<lambda>_ _. []"] by simp
next
  case (Cons src srcs)
  have "tenant_read (\<lambda>t a c. case fst (snd (snd src)) env clk limit t a c of (r, c1) \<Rightarrow>
      (\<lambda>r t a c1. case collect_events env clk limit srcs t a c1 of (es, c2) \<Rightarrow> (source_events env t src r @ es, c2)) r t a c1)"
  proof (rule tenant_read_bind)
    show "tenant_read (fst (snd (snd src)) env clk limit)" using Cons.prems by simp
    fix r
    have h: "tenant_read (collect_events env clk limit srcs)" using Cons by simp
    show "tenant_read (\<lambda>t a c1. case collect_events env clk limit srcs t a c1 of (es, c2) \<Rightarrow> (source_events env t src r @ es, c2))"
      by standard (auto simp: case_prod_beta intro: tenant_read.kept [OF h] tenant_read.frame [OF h] dest: tenant_read.answer [OF h])
  qed
  then show ?case by simp
qed

lemma reports_without_limit_read: "tenant_read (reports_without_limit env clk limit)"
  using tenant_read_view [of "\<lambda>_ _. Inl (TypeError ''list_reports() got an unexpected keyword argument limit'')"]
  by (simp add: reports_without_limit_def [abs_def])

lemma source_reads: "src \<in> set SOURCES \<Longrightarrow> tenant_read (fst (snd (snd src)) env clk limit)"
  by (auto simp: SOURCES_def observation_reads.tenant_read_axioms evidence_reads.tenant_read_axioms context_reads.tenant_read_axioms
      pattern_reads.tenant_read_axioms anomaly_reads.tenant_read_axioms hypothesis_reads.tenant_read_axioms insight_reads.tenant_read_axioms
      recommendation_reads.tenant_read_axioms decision_reads.tenant_read_axioms confidence_reads.tenant_read_axioms
      audit_reads.tenant_read_axioms reports_without_limit_read)

interpretation timeline_reads: tenant_read "build_cognitive_timeline env clk limit ascending" for env clk limit ascending
proof -
  have h: "tenant_read (collect_events env clk limit SOURCES)" by (rule collect_events_read) (rule source_reads)
  show "tenant_read (build_cognitive_timeline env clk limit ascending)"
    by standard (auto simp: build_cognitive_timeline_def case_prod_beta intro: tenant_read.kept [OF h] tenant_read.frame [OF h] dest: tenant_read.answer [OF h])
qed

section \<open>What the timeline shows\<close>

definition shows_source :: "read_env \<Rightarrow> real \<Rightarrow> int \<Rightarrow> uuid \<Rightarrow> site \<Rightarrow> string \<times> string \<times> source_read \<times> string \<times> string \<Rightarrow> nat \<Rightarrow> bool" where
  "shows_source env clk limit tenant st src n \<longleftrightarrow> (\<forall>c. let es = source_events env tenant src (fst (fst (snd (snd src)) env clk limit tenant st c))
     in length es = n \<and> (\<forall>e \<in> set es. te_concept e = fst src \<and> te_tenant e = tenant))"

lemma event_fields: "te_concept (timeline_event_of str_of tenant concept layer ts item) = concept"
  "te_tenant (timeline_event_of str_of tenant concept layer ts item) = tenant"
  by (simp_all add: timeline_event_of_def split: prod.splits)

lemma concat_singletons: "(\<And>x. x \<in> set xs \<Longrightarrow> \<exists>y. f x = [y]) \<Longrightarrow> length (concat (map f xs)) = length xs"
  by (induction xs) (auto, metis length_Cons list.size(3))

lemma listing_shows:
  assumes "\<And>x. get (payload x) ts_field \<noteq> JNull"
    and "\<And>c. fst (rd env clk limit tenant st c) = fst (listing ttl clk' response kind tenant cur limit 0 payload rows c)"
  shows "shows_source env clk limit tenant st (concept, layer, rd, response, ts_field) (min (nat limit) (length rows))"
  unfolding shows_source_def Let_def
proof (intro allI conjI ballI)
  fix c
  let ?ev = "events_of_item (ce_str (re_trace env)) tenant concept layer ts_field"
  let ?es = "source_events env tenant (concept, layer, rd, response, ts_field)
      (fst (fst (snd (snd (concept, layer, rd, response, ts_field))) env clk limit tenant st c))"
  have es: "?es = (if limit < 0 then [] else concat (map (\<lambda>x. ?ev (JObj (payload x))) (take (nat limit) rows)))"
    by (simp add: assms(2) source_events_def listing_def page_def get_def comp_def split: prod.splits)
  have one: "?ev (JObj (payload x)) = [timeline_event_of (ce_str (re_trace env)) tenant concept layer (get (payload x) ts_field) (payload x)]" for x
    using assms(1) by (simp add: events_of_item_def)
  show "length ?es = min (nat limit) (length rows)"
    unfolding es using concat_singletons [of "take (nat limit) rows" "\<lambda>x. ?ev (JObj (payload x))"] one by auto
  { fix e assume "e \<in> set ?es"
    then show "te_concept e = fst (concept, layer, rd, response, ts_field)" "te_tenant e = tenant"
      unfolding es by (auto simp: one event_fields split: if_splits) }
qed

lemma collect_counts:
  assumes "list_all2 (shows_source env clk limit tenant st) srcs ns"
  shows "length (filter (\<lambda>e. te_concept e = k) (fst (collect_events env clk limit srcs tenant st c))) =
      sum_list (map snd (filter (\<lambda>p. fst p = k) (zip (map fst srcs) ns)))"
    and "e \<in> set (fst (collect_events env clk limit srcs tenant st c)) \<Longrightarrow> te_tenant e = tenant"
  using assms
proof (induction srcs ns arbitrary: c rule: list_all2_induct)
  case (Cons src srcs n ns)
  let ?r = "\<lambda>c. fst (snd (snd src)) env clk limit tenant st c"
  let ?es = "\<lambda>c. source_events env tenant src (fst (?r c))"
  have s: "length (?es c) = n" "\<And>e. e \<in> set (?es c) \<Longrightarrow> te_concept e = fst src \<and> te_tenant e = tenant" for c
    using Cons.hyps(1) by (auto simp: shows_source_def Let_def)
  have "filter (\<lambda>e. te_concept e = k) (?es c) = (if fst src = k then ?es c else [])" for c
    using s(2) by (simp add: filter_id_conv filter_empty_conv)
  then have f: "length (filter (\<lambda>e. te_concept e = k) (?es c)) = (if fst src = k then n else 0)" for c by (simp add: s(1))
  { case 1 show ?case using Cons.IH(1) f by (simp add: case_prod_beta) }
  { case 2 then show ?case using Cons.IH(2) s(2) by (auto simp: case_prod_beta) }
qed simp_all

lemma collect_total:
  "list_all2 (shows_source env clk limit tenant st) srcs ns \<Longrightarrow> length (fst (collect_events env clk limit srcs tenant st c)) = sum_list ns"
  by (induction srcs ns arbitrary: c rule: list_all2_induct) (auto simp: case_prod_beta shows_source_def Let_def)

text \<open>How many rows the tenant has of each kind the timeline reads.\<close>

definition stored_counts :: "uuid \<Rightarrow> site \<Rightarrow> nat list" where
  "stored_counts tenant st = [length (of_tenant o_tenant tenant (cn_observations (st_canon st))), length (of_tenant ev_tenant tenant (cn_evidence (st_canon st))),
     length (of_tenant ctx_tenant tenant (cn_contexts (st_canon st))), length (of_tenant pat_tenant tenant (cn_patterns (st_canon st))),
     length (of_tenant an_tenant tenant (cn_anomalies (st_canon st))), length (of_tenant hyp_tenant tenant (cn_hypotheses (st_canon st))),
     length (of_tenant ins_tenant tenant (st_insights st)), length (of_tenant rec_tenant tenant (cn_recommendations (st_canon st))),
     length (of_tenant dec_tenant tenant (cn_decisions (st_canon st))), 0, length (of_tenant conf_tenant tenant (cn_confidences (st_canon st))),
     length (of_tenant ad_tenant tenant (st_audit st))]"

lemma length_ordered [simp]: "length (ordered at_time key asc rows) = length rows"
  by (simp add: ordered_def)

lemma wanted_None [simp]: "wanted None v" by (simp add: wanted_def)

lemmas source_lists = list_observations_def list_evidence_rows_def list_context_rows_def list_pattern_rows_def list_anomaly_rows_def
  list_hypothesis_rows_def list_insight_rows_def list_recommendation_rows_def list_decision_rows_def list_confidence_rows_def

lemmas payloads = observation_payload_def evidence_payload_def context_payload_def pattern_payload_def anomaly_payload_def
  hypothesis_payload_def insight_payload_def recommendation_payload_def decision_payload_def confidence_payload_def audit_payload_def

lemma reports_shown: "shows_source env clk limit tenant st (concept, layer, reports_without_limit, response, ts_field) (min (nat limit) 0)"
  by (simp add: shows_source_def source_events_def reports_without_limit_def)

lemma audit_shown: "shows_source env clk limit tenant st (concept, layer, \<lambda>env clk limit tenant. list_audit_logs env clk tenant (default_audit_query limit),
    ''entries'', ''timestamp'') (min (nat limit) (length (of_tenant ad_tenant tenant (st_audit st))))"
proof -
  let ?rows = "ordered ad_at ad_id False (of_tenant ad_tenant tenant (st_audit st))"
  have "\<exists>kind cur. \<forall>c. fst (list_audit_logs env clk tenant (default_audit_query limit) st c) =
      fst (listing (re_ttl env) clk ''entries'' kind tenant cur limit 0 (audit_payload env) ?rows c)"
    by (simp add: list_audit_logs_def default_audit_query_def bound_date_def audit_matches_def Let_def) blast
  then obtain kind cur where l: "\<And>c. fst (list_audit_logs env clk tenant (default_audit_query limit) st c) =
      fst (listing (re_ttl env) clk ''entries'' kind tenant cur limit 0 (audit_payload env) ?rows c)" by blast
  have "get (audit_payload env x) ''timestamp'' \<noteq> JNull" for x by (simp add: audit_payload_def get_def iso_def)
  from listing_shows [of "audit_payload env" "''timestamp''" "\<lambda>env clk limit tenant. list_audit_logs env clk tenant (default_audit_query limit)",
      OF this l] show ?thesis by simp
qed

lemma listing_shows_n:
  assumes "\<And>c. fst (rd env clk limit tenant st c) = fst (listing ttl clk' response kind tenant cur limit 0 payload rows c)" and "length rows = n"
    and "\<And>x. get (payload x) ts_field \<noteq> JNull"
  shows "shows_source env clk limit tenant st (concept, layer, rd, response, ts_field) (min (nat limit) n)"
  using listing_shows [of payload ts_field rd env clk limit tenant st, OF assms(3,1)] assms(2) by simp

lemma sources_shown: "list_all2 (shows_source env clk limit tenant st) SOURCES (map (min (nat limit)) (stored_counts tenant st))"
  unfolding SOURCES_def stored_counts_def list.map list_all2_Cons source_lists Let_def
  by (intro conjI) ((rule reports_shown | rule audit_shown |
    (rule listing_shows_n, rule refl, simp, simp add: payloads get_def iso_def) | simp only: list_all2_Nil)+)

lemma tally_count: "(case map_of (fold (\<lambda>e. bump (f e)) es d) k of None \<Rightarrow> 0 | Some n \<Rightarrow> n) =
    (case map_of d k of None \<Rightarrow> 0 | Some n \<Rightarrow> n) + length (filter (\<lambda>e. f e = k) es)"
proof (induction es arbitrary: d)
  case (Cons e es)
  show ?case using Cons.IH [of "bump (f e) d"] by (auto simp: bump_def update_conv')
qed simp

lemma set_sort_events [simp]: "set (sort_events ascending es) = set es"
  and length_sort_events [simp]: "length (sort_events ascending es) = length es"
  and mset_sort_events [simp]: "mset (sort_events ascending es) = mset es"
  by (simp_all add: sort_events_def)

lemma zip_none: "length ks = length ns \<Longrightarrow> k \<notin> set ks \<Longrightarrow> filter (\<lambda>p. fst p = k) (zip ks ns) = []"
  by (induction ks ns rule: list_induct2) auto

lemma zip_pick: "distinct ks \<Longrightarrow> length ks = length ns \<Longrightarrow> (k, m) \<in> set (zip ks ns) \<Longrightarrow>
    sum_list (map snd (filter (\<lambda>p. fst p = k) (zip ks (map f ns)))) = f m"
proof (induction ks arbitrary: ns)
  case (Cons k' ks)
  then obtain m' ms where ns: "ns = m' # ms" by (cases ns) auto
  show ?case
  proof (cases "k = k'")
    case True
    then have "k \<notin> set ks" using Cons.prems(1) by simp
    then have "m = m'" using Cons.prems(3) ns by (auto dest: set_zip_leftD)
    then show ?thesis using True zip_none [of ks "map f ms" k] \<open>k \<notin> set ks\<close> Cons.prems(2) ns by simp
  next
    case False
    then show ?thesis using Cons ns by simp
  qed
qed simp

lemma length_filter_mset: "mset xs = mset ys \<Longrightarrow> length (filter P xs) = length (filter P ys)"
  by (metis mset_filter size_mset)



end
