(* ===== verification/Gateway.thy ===== *)
theory Gateway
  imports Cognitive_Timeline
begin

text \<open>
  The API gateway (\<open>apps/gateway/api-gateway/src\<close>): the cognitive boundary (\<open>boundary.py\<close>), the service that
  authenticates, authorises and resolves the tenant (\<open>service.py\<close>), the handlers of its routes (\<open>health.py\<close>) and the
  execution records of \<open>libs/action/execution_record.py\<close>. An operation is a function from the gateway (counters,
  database, facets) to its outcome and the gateway after it. A body is the value that is serialised; of an error only
  the status is kept, which \<open>_is_validation_error\<close> reads off the message. \<open>repr\<close>, \<open>fromisoformat\<close>, fresh identifiers
  and the clock are arguments. Outcomes are submitted as a list of objects; other bodies of that route are left out.
\<close>

section \<open>The boundary (boundary.py)\<close>

definition CANONICAL_FLOW :: "(string \<times> string list) list" where
  [catalogue]: "CANONICAL_FLOW = [(''observation'', [''evidence'']), (''evidence'', [''context'']), (''context'', [''pattern'']),
     (''pattern'', [''anomaly'']), (''anomaly'', [''hypothesis'']), (''hypothesis'', [''insight'']), (''insight'', [''recommendation'']),
     (''recommendation'', [''decision'']), (''decision'', [''execution''])]"

definition CONFIDENCE_REQUIRED_ACTIONS :: "string list" where
  [catalogue]: "CONFIDENCE_REQUIRED_ACTIONS = [''propose'', ''commit'']"

definition ACTIONS :: "string list" where
  [catalogue]: "ACTIONS = [''read'', ''propose'', ''ack'', ''commit'', ''execute'']"

definition ACTION_PERMISSION :: "(string \<times> string) list" where
  [catalogue]: "ACTION_PERMISSION = [(''read'', ''read''), (''propose'', ''propose''), (''ack'', ''ack''), (''commit'', ''commit''), (''execute'', ''execute'')]"

datatype gateway_error =
    Refused access_error
  | BoundaryViolationError string
  | ConfidenceProvenanceError
  | InvalidOutcomesError
  | DecisionNotFoundError
  | OtherError exn

definition is_canonical_flow :: "string \<Rightarrow> string \<Rightarrow> bool" where
  "is_canonical_flow source target \<longleftrightarrow> target \<in> set (case map_of CANONICAL_FLOW source of None \<Rightarrow> [] | Some ts \<Rightarrow> ts)"

text \<open>A payload that is falsy counts as empty; one that is no object has no \<open>get\<close>.\<close>

definition payload_fields :: "json \<Rightarrow> dict result" where
  "payload_fields payload = (case payload of JObj d \<Rightarrow> Inr d | _ \<Rightarrow> Inl (AttributeError ''get''))"

definition validate_confidence_present :: "json \<Rightarrow> bool result" where
  "validate_confidence_present payload = (if \<not> truthy payload then Inr False
     else and_then (payload_fields payload) (\<lambda>d. Inr (truthy (get d ''confidence_id''))))"

definition boundary_gate :: "string \<Rightarrow> json \<Rightarrow> string result" where
  "boundary_gate action payload = (if action \<notin> set ACTIONS then Inr ''unknown_action''
     else if action \<in> set CONFIDENCE_REQUIRED_ACTIONS
          then and_then (validate_confidence_present payload) (\<lambda>ok. Inr (if ok then ''ok'' else ''missing_confidence''))
     else Inr ''ok'')"

definition check_boundary :: "string \<Rightarrow> json \<Rightarrow> (gateway_error + unit)" where
  "check_boundary action payload = (case boundary_gate action payload of
       Inl e \<Rightarrow> Inl (OtherError e)
     | Inr reason \<Rightarrow> if reason = ''ok'' then Inr () else Inl (BoundaryViolationError reason))"

text \<open>
  \<open>get_confidence_for_boundary\<close> of an adapter: tenant, confidence, target type and target to the record. The store
  the gateway is started with has no method of that name.
\<close>

type_synonym confidence_adapter = "json \<Rightarrow> json \<Rightarrow> json \<Rightarrow> json \<Rightarrow> dict option result"

definition wired_adapter :: confidence_adapter where
  "wired_adapter tenant confidence target_type target_id = Inl (AttributeError ''get_confidence_for_boundary'')"

definition validate_confidence_binding :: "confidence_adapter \<Rightarrow> json \<Rightarrow> json \<Rightarrow> json \<Rightarrow> json \<Rightarrow> (gateway_error + dict)" where
  "validate_confidence_binding store tenant confidence target_type target_id =
     (case store tenant confidence target_type target_id of
        Inl e \<Rightarrow> Inl (OtherError e) | Inr None \<Rightarrow> Inl ConfidenceProvenanceError | Inr (Some r) \<Rightarrow> Inr r)"

section \<open>The service (service.py)\<close>

record gateway =
  gw_requests :: nat
  gw_401 :: nat
  gw_403 :: nat
  gw_boundary :: nat
  gw_forwarded :: nat
  gw_errors :: nat
  gw_by_action :: "(string \<times> nat) list"
  gw_last :: "datetime option"
  gw_transitions :: nat
  gw_site :: site
  gw_cache :: facets_cache

definition start_gateway :: "site \<Rightarrow> gateway" where
  "start_gateway st = \<lparr>gw_requests = 0, gw_401 = 0, gw_403 = 0, gw_boundary = 0, gw_forwarded = 0, gw_errors = 0, gw_by_action = [],
     gw_last = None, gw_transitions = 0, gw_site = st, gw_cache = (\<lambda>_. None)\<rparr>"

text \<open>\<open>ge_configured\<close>: the stores the service was built with.\<close>

record gateway_env =
  ge_lib :: "string jwt_library"
  ge_str :: "json \<Rightarrow> string"
  ge_jwt :: jwt_service
  ge_blacklist :: "redis option"
  ge_read :: read_env
  ge_repr :: "string \<Rightarrow> string"
  ge_fromiso :: "string \<Rightarrow> datetime option"
  ge_loop :: loop_env
  ge_uuid5 :: uuid5
  ge_confidence :: "confidence_adapter option"
  ge_configured :: "string \<Rightarrow> bool"

type_synonym 'a gw = "gateway \<Rightarrow> (gateway_error + 'a) \<times> gateway"

definition gdone :: "'a \<Rightarrow> 'a gw" where
  "gdone x g = (Inr x, g)"

definition gfail :: "gateway_error \<Rightarrow> 'a gw" where
  "gfail e g = (Inl e, g)"

definition gbind :: "'a gw \<Rightarrow> ('a \<Rightarrow> 'b gw) \<Rightarrow> 'b gw" where
  "gbind m k g = (case m g of (Inl e, g') \<Rightarrow> (Inl e, g') | (Inr x, g') \<Rightarrow> k x g')"

definition counted :: "(gateway \<Rightarrow> gateway) \<Rightarrow> gateway_error + 'a \<Rightarrow> 'a gw" where
  "counted f r g = (case r of Inl e \<Rightarrow> (Inl e, f g) | Inr x \<Rightarrow> (Inr x, g))"

definition pure :: "gateway_error + 'a \<Rightarrow> 'a gw" where
  "pure r g = (r, g)"

text \<open>The messages of the errors of \<open>libs/access\<close>, as far as a status depends on them.\<close>

definition of_exn :: "(string \<Rightarrow> string) \<Rightarrow> exn \<Rightarrow> gateway_error" where
  "of_exn repr e = (case e of
       InvalidRoleError r \<Rightarrow> Refused (AccessError (''unknown Decision Authority role: '' @ repr r @
         '' (declared roles: ['admin', 'operator', 'superadmin', 'viewer'])''))
     | TenantIsolationError \<Rightarrow> Refused (AuthorizationError ''cross-tenant access requires superadmin authority'')
     | _ \<Rightarrow> OtherError e)"

definition raised :: "(string \<Rightarrow> string) \<Rightarrow> 'a result \<Rightarrow> gateway_error + 'a" where
  "raised repr r = (case r of Inl e \<Rightarrow> Inl (of_exn repr e) | Inr x \<Rightarrow> Inr x)"

definition reject_401 :: "gateway \<Rightarrow> gateway" where
  "reject_401 g = g\<lparr>gw_401 := gw_401 g + 1\<rparr>"

definition reject_403 :: "gateway \<Rightarrow> gateway" where
  "reject_403 g = g\<lparr>gw_403 := gw_403 g + 1\<rparr>"

text \<open>
  \<open>authenticate\<close>: the rejection of a revoked token is raised inside the \<open>try\<close> whose handler counts it a second time.
\<close>

definition gateway_authenticate :: "gateway_env \<Rightarrow> datetime \<Rightarrow> string \<Rightarrow> token_payload gw" where
  "gateway_authenticate env now header g =
     (case bearer_token header of
        Inl e \<Rightarrow> (Inl (Refused e), reject_401 g)
      | Inr token \<Rightarrow>
          (case verify_access_token (ge_lib env) (ge_str env) (ge_jwt env) (epoch now) token of
             Inl e \<Rightarrow> (Inl (Refused e), (case e of InvalidTokenError _ \<Rightarrow> reject_401 g | _ \<Rightarrow> g))
           | Inr payload \<Rightarrow>
               (case ge_blacklist env of
                  None \<Rightarrow> (Inr payload, g)
                | Some r \<Rightarrow>
                    if tp_jti payload = [] then (Inr payload, g)
                    else (case is_revoked (epoch now) (tp_jti payload) r of
                        Inl _ \<Rightarrow> (Inl (Refused (InvalidTokenError ''security control unavailable; token cannot be verified'')), reject_401 g)
                      | Inr True \<Rightarrow> (Inl (Refused (InvalidTokenError ''token has been revoked'')), reject_401 (reject_401 g))
                      | Inr False \<Rightarrow> (Inr payload, g)))))"

text \<open>\<open>requested_tenant_id\<close> is used when it is truthy; the body of an action may hold anything there.\<close>

definition authorize_action :: "token_payload \<Rightarrow> string \<Rightarrow> string option \<Rightarrow> json \<Rightarrow> bool result" where
  "authorize_action token action risk requested =
     (case map_of ACTION_PERMISSION action of
        None \<Rightarrow> Inl (ValueError ''unknown action'')
      | Some permission \<Rightarrow>
          and_then (if permission = ''commit'' then commit_allowed (tp_role token) risk else can (tp_role token) permission) (\<lambda>allowed.
            if \<not> allowed then Inr False
            else if truthy requested \<and> requested \<noteq> JStr (tp_tenant token) then cross_tenant_allowed (tp_role token)
            else Inr True))"

definition lacks_authority :: "(string \<Rightarrow> string) \<Rightarrow> token_payload \<Rightarrow> string \<Rightarrow> gateway_error" where
  "lacks_authority repr token action = Refused (AuthorizationError (''role '' @ repr (tp_role token) @
     '' lacks Decision Authority for action '' @ repr action))"

definition require_authorized :: "gateway_env \<Rightarrow> token_payload \<Rightarrow> string \<Rightarrow> string option \<Rightarrow> json \<Rightarrow> unit gw" where
  "require_authorized env token action risk requested g =
     (case authorize_action token action risk requested of
        Inl e \<Rightarrow> (Inl (of_exn (ge_repr env) e), g)
      | Inr False \<Rightarrow> (Inl (lacks_authority (ge_repr env) token action), reject_403 g)
      | Inr True \<Rightarrow> (Inr (), g))"

definition enforce_boundary :: "string \<Rightarrow> json \<Rightarrow> unit gw" where
  "enforce_boundary action payload = counted (\<lambda>g. g\<lparr>gw_boundary := gw_boundary g + 1\<rparr>) (check_boundary action payload)"

definition verify_confidence_provenance :: "gateway_env \<Rightarrow> json \<Rightarrow> json \<Rightarrow> json \<Rightarrow> json \<Rightarrow> (gateway_error + dict)" where
  "verify_confidence_provenance env tenant confidence target_type target_id =
     (case ge_confidence env of
        None \<Rightarrow> Inl (OtherError (PassedThrough ''SecurityControlUnavailable''))
      | Some store \<Rightarrow> validate_confidence_binding store tenant confidence target_type target_id)"

definition resolve_tenant :: "gateway_env \<Rightarrow> token_payload \<Rightarrow> string \<Rightarrow> string gw" where
  "resolve_tenant env token requested g =
     (case resolve (from_token_payload token) (Some requested) of
        Inl TenantIsolationError \<Rightarrow> (Inl (of_exn (ge_repr env) TenantIsolationError), reject_403 g)
      | Inl e \<Rightarrow> (Inl (of_exn (ge_repr env) e), g)
      | Inr t \<Rightarrow> (Inr t, g))"

text \<open>The start of every read of the service: the store is configured, the tenant resolved and an identifier.\<close>

definition scoped :: "gateway_env \<Rightarrow> string \<Rightarrow> token_payload \<Rightarrow> string \<Rightarrow> (uuid \<Rightarrow> 'a gw) \<Rightarrow> 'a gw" where
  "scoped env store token requested k =
     (if \<not> ge_configured env store then gfail (OtherError (PassedThrough ''RuntimeError''))
      else gbind (resolve_tenant env token requested) (\<lambda>t.
        case parse_uuid t of None \<Rightarrow> gfail (OtherError (ValueError ''badly formed hexadecimal UUID string'')) | Some u \<Rightarrow> k u))"

text \<open>A read of the database through the facets.\<close>

definition ask :: "(uuid \<Rightarrow> site \<Rightarrow> facets_cache \<Rightarrow> 'a result \<times> facets_cache) \<Rightarrow> uuid \<Rightarrow> 'a gw" where
  "ask reads t g = (case reads t (gw_site g) (gw_cache g) of (r, c) \<Rightarrow>
     ((case r of Inl e \<Rightarrow> Inl (OtherError e) | Inr x \<Rightarrow> Inr x), g\<lparr>gw_cache := c\<rparr>))"

definition look :: "(uuid \<Rightarrow> site \<Rightarrow> 'a result) \<Rightarrow> uuid \<Rightarrow> 'a gw" where
  "look view = ask (\<lambda>t st c. (view t st, c))"

definition record_request :: "datetime \<Rightarrow> string \<Rightarrow> unit gw" where
  "record_request now action g = (Inr (), g\<lparr>gw_requests := gw_requests g + 1, gw_last := Some now,
     gw_by_action := (if action = [] then gw_by_action g else bump action (gw_by_action g))\<rparr>)"

section \<open>Execution records (execution_record.py, decisions.py)\<close>

definition EXECUTION_STATUSES :: "string list" where
  [catalogue]: "EXECUTION_STATUSES = [''executed'', ''failed'', ''cancelled'', ''unknown'']"

definition execution_record_id :: "gateway_env \<Rightarrow> uuid \<Rightarrow> uuid \<Rightarrow> datetime \<Rightarrow> uuid" where
  "execution_record_id env tenant decision executed_at =
     ge_uuid5 env 131 (uuid_str tenant @ '':'' @ uuid_str decision @ '':'' @ ce_iso (re_trace (ge_read env)) executed_at)"

record execution_request =
  eq_status :: string
  eq_executed_at :: "datetime option"
  eq_by :: "uuid option"
  eq_notes :: "string option"
  eq_metadata :: dict

definition build_execution_record :: "gateway_env \<Rightarrow> datetime \<Rightarrow> uuid \<Rightarrow> uuid \<Rightarrow> datetime \<Rightarrow> execution_request \<Rightarrow> execution_record" where
  "build_execution_record env now tenant decision executed_at q =
     \<lparr>xr_id = execution_record_id env tenant decision executed_at, xr_tenant = tenant, xr_decision = decision, xr_status = eq_status q,
      xr_executed_at = executed_at, xr_by = eq_by q, xr_notes = eq_notes q, xr_metadata = eq_metadata q, xr_created = now\<rparr>"

definition save_execution_record :: "execution_record \<Rightarrow> execution_record list \<Rightarrow> execution_record list" where
  "save_execution_record r rows = fst (insert_row xr_id r rows)"

definition decision_status_after :: "string \<Rightarrow> string" where
  "decision_status_after execution_status = (case map_of [(''executed'', ''executing''), (''failed'', ''rolled_back''),
     (''cancelled'', ''rolled_back''), (''unknown'', ''executing'')] execution_status of None \<Rightarrow> ''executing'' | Some s \<Rightarrow> s)"

definition mark_executed :: "uuid \<Rightarrow> uuid \<Rightarrow> datetime \<Rightarrow> string \<Rightarrow> decision list \<Rightarrow> decision list" where
  "mark_executed tenant decision executed_at status = map (\<lambda>d. if dec_id d = decision \<and> dec_tenant d = tenant
     then d\<lparr>dec_executed_at := Some executed_at, dec_status := status\<rparr> else d)"

text \<open>The record is answered as it was built, whether or not it was inserted.\<close>

definition record_execution :: "gateway_env \<Rightarrow> datetime \<Rightarrow> uuid \<Rightarrow> execution_request \<Rightarrow> uuid \<Rightarrow> execution_record gw" where
  "record_execution env now decision q tenant g =
     (if eq_status q \<notin> set EXECUTION_STATUSES then (Inl InvalidOutcomesError, g)
      else case one_row dec_tenant dec_id tenant decision (cn_decisions (st_canon (gw_site g))) of
          None \<Rightarrow> (Inl DecisionNotFoundError, g)
        | Some _ \<Rightarrow>
            (let executed_at = (case eq_executed_at q of None \<Rightarrow> now | Some t \<Rightarrow> t);
                 r = build_execution_record env now tenant decision executed_at q;
                 st = gw_site g; k = st_canon st
             in (Inr r, g\<lparr>gw_site := st\<lparr>st_executions := save_execution_record r (st_executions st),
                  st_canon := k\<lparr>cn_decisions := mark_executed tenant decision executed_at (decision_status_after (eq_status q))
                    (cn_decisions k)\<rparr>\<rparr>\<rparr>)))"

section \<open>Operations of the service on the stores\<close>

text \<open>\<open>Report(**row)\<close> wants a content that is an object and both ends of the period.\<close>

definition report_view :: "gateway_env \<Rightarrow> report_row \<Rightarrow> dict result" where
  "report_view env r = (case (as_json (re_trace (ge_read env)) (rp_content r), rp_period_start r, rp_period_end r) of
       (JObj _, Some a, Some b) \<Rightarrow>
         Inr [(''id'', jid (rp_id r)), (''tenant_id'', jid (rp_tenant r)), (''report_type'', JStr (rp_type r)), (''title'', JStr (rp_title r)),
              (''period_start'', JStr (ce_day (re_trace (ge_read env)) a)), (''period_end'', JStr (ce_day (re_trace (ge_read env)) b)),
              (''generated_at'', iso (ge_read env) (rp_generated_at r))]
     | _ \<Rightarrow> Inl (PassedThrough ''ValidationError''))"

definition report_views :: "gateway_env \<Rightarrow> uuid \<Rightarrow> site \<Rightarrow> dict list result" where
  "report_views env tenant st = traverse (report_view env) (ordered rp_generated_at rp_id False (of_tenant rp_tenant tenant (cn_reports (st_canon st))))"

definition decision_views :: "gateway_env \<Rightarrow> uuid \<Rightarrow> site \<Rightarrow> dict list result" where
  "decision_views env tenant st = Inr (map (brief_decision (ge_read env)) (list_decisions tenant (cn_decisions (st_canon st))))"

definition canonical_tables :: "site \<Rightarrow> canonical" where
  "canonical_tables st = \<lparr>k_decisions = cn_decisions (st_canon st), k_recommendations = cn_recommendations (st_canon st),
     k_hypotheses = cn_hypotheses (st_canon st), k_patterns = cn_patterns (st_canon st), k_contexts = cn_contexts (st_canon st),
     k_insights = st_insights st\<rparr>"

definition consolidate_for_tenant :: "gateway_env \<Rightarrow> uuid \<Rightarrow> site \<Rightarrow> consolidation_report result" where
  "consolidate_for_tenant env tenant st = consolidate_decisions (ge_str env) tenant (list_decisions tenant (cn_decisions (st_canon st)))"

text \<open>
  \<open>submit_decision_outcomes\<close> as the gateway is started: there is a learning loop, but no execution store.
\<close>

definition site_learner :: "site \<Rightarrow> learner" where
  "site_learner st = \<lparr>ln_db = \<lparr>db_revisions = [], db_executions = [], db_decisions = cn_decisions (st_canon st)\<rparr>,
     ln_memory = st_memory st, ln_canonical = canonical_tables st\<rparr>"

definition submit_site_outcomes :: "gateway_env \<Rightarrow> uuid \<Rightarrow> dict list \<Rightarrow> datetime option \<Rightarrow> uuid \<Rightarrow> (string \<times> string) gw" where
  "submit_site_outcomes env decision actual executed_at tenant g =
     (case submit_decision_outcomes False (ge_configured env ''learning_loop_store'') (ge_loop env) 0 0 (\<lambda>_. 0) None tenant decision actual executed_at
         \<lparr>go_learner = site_learner (gw_site g), go_transitions = gw_transitions g\<rparr> of
        (Inl e, _) \<Rightarrow> (Inl (if e = PassedThrough ''InvalidOutcomesError'' then InvalidOutcomesError
           else if e = PassedThrough ''DecisionNotFoundError'' then DecisionNotFoundError else OtherError e), g)
      | (Inr answer, o') \<Rightarrow>
          (let st = gw_site g
           in (Inr answer, g\<lparr>gw_transitions := go_transitions o', gw_site := st\<lparr>st_memory := ln_memory (go_learner o'),
                 st_canon := (st_canon st)\<lparr>cn_decisions := db_decisions (ln_db (go_learner o'))\<rparr>\<rparr>\<rparr>)))"

definition persist_site_memory :: "gateway_env \<Rightarrow> uuid \<Rightarrow> datetime \<Rightarrow> string \<Rightarrow> uuid \<Rightarrow> dict \<Rightarrow> dict \<Rightarrow> uuid \<Rightarrow> memory_record gw" where
  "persist_site_memory env i now target_type target signal provenance tenant g =
     (case persist_memory (le_sha (ge_loop env)) i now \<lparr>mi_tenant = tenant, mi_type = target_type, mi_target = target, mi_signal = signal,
           mi_provenance = provenance, mi_execution = None\<rparr> (st_memory (gw_site g)) of
        (r, rows) \<Rightarrow> ((case r of Inl e \<Rightarrow> Inl (OtherError e) | Inr None \<Rightarrow> Inl (OtherError (TypeError ''NoneType'')) | Inr (Some m) \<Rightarrow> Inr m),
            g\<lparr>gw_site := (gw_site g)\<lparr>st_memory := rows\<rparr>\<rparr>))"

section \<open>Responses (health.py)\<close>

datatype body =
    NoBody
  | Object dict
  | Trace cognitive_trace
  | Timeline timeline
  | Consolidated consolidation_report
  | Refined "pattern_refinement list"
  | Revised "context_revision list"
  | Transformed "insight_transformation list"
  | Memories "memory_record list"
  | Memory memory_record
  | Submitted string string
  | Executed execution_record

datatype response = Response (status_of: nat) (body_of: body)

definition found :: "body option \<Rightarrow> response" where
  "found b = (case b of None \<Rightarrow> Response 404 NoBody | Some x \<Rightarrow> Response 200 x)"

definition access_message :: "access_error \<Rightarrow> string" where
  "access_message e = (case e of InvalidTokenError m \<Rightarrow> m | AuthenticationError m \<Rightarrow> m | AuthorizationError m \<Rightarrow> m
     | UserConflictError m \<Rightarrow> m | AccessError m \<Rightarrow> m | SecurityControlUnavailable m \<Rightarrow> m | Raised _ \<Rightarrow> [])"

definition is_validation_error :: "string \<Rightarrow> bool" where
  "is_validation_error m \<longleftrightarrow> sublist ''Invalid'' m \<or> sublist ''must be'' m"

text \<open>The clauses of the handlers; \<open>None\<close> is the last one, which counts an internal error.\<close>

definition plain_status :: "gateway_error \<Rightarrow> nat option" where
  "plain_status e = (case e of
       Refused x \<Rightarrow> (case x of InvalidTokenError _ \<Rightarrow> Some 401 | SecurityControlUnavailable _ \<Rightarrow> None | Raised _ \<Rightarrow> None | _ \<Rightarrow> Some 403)
     | BoundaryViolationError _ \<Rightarrow> Some 403 | ConfidenceProvenanceError \<Rightarrow> Some 403 | _ \<Rightarrow> None)"

definition checked_status :: "gateway_error \<Rightarrow> nat option" where
  "checked_status e = (case e of
       Refused x \<Rightarrow> if plain_status e = Some 403 \<and> is_validation_error (access_message x) then Some 400 else plain_status e
     | _ \<Rightarrow> plain_status e)"

definition outcome_status :: "gateway_error \<Rightarrow> nat option" where
  "outcome_status e = (case e of InvalidOutcomesError \<Rightarrow> Some 400 | DecisionNotFoundError \<Rightarrow> Some 404 | _ \<Rightarrow> plain_status e)"

definition action_status :: "gateway_error \<Rightarrow> nat option" where
  "action_status e = (case e of BoundaryViolationError _ \<Rightarrow> Some 400 | _ \<Rightarrow> plain_status e)"

definition respond :: "(gateway_error \<Rightarrow> nat option) \<Rightarrow> nat \<Rightarrow> response gw \<Rightarrow> gateway \<Rightarrow> response \<times> gateway" where
  "respond clauses internal m g = (case m g of
       (Inr r, g') \<Rightarrow> (r, g')
     | (Inl e, g') \<Rightarrow> (case clauses e of
           Some n \<Rightarrow> (Response n NoBody, g')
         | None \<Rightarrow> (Response internal NoBody, g'\<lparr>gw_errors := gw_errors g' + 1\<rparr>)))"

section \<open>Parameters of a request\<close>

record gateway_call =
  cl_now :: datetime
  cl_clock :: real
  cl_header :: string
  cl_tenant :: string
  cl_query :: "(string \<times> string) list"
  cl_fresh :: uuid

definition validate_tenant_id :: "string \<Rightarrow> (gateway_error + unit)" where
  "validate_tenant_id v = (case parse_uuid v of None \<Rightarrow> Inl (Refused (AccessError ''Invalid tenant_id format'')) | Some _ \<Rightarrow> Inr ())"

definition validate_uuid :: "string \<Rightarrow> string \<Rightarrow> (gateway_error + uuid)" where
  "validate_uuid field v = (case parse_uuid v of None \<Rightarrow> Inl (Refused (AccessError (''Invalid '' @ field @ '' format''))) | Some u \<Rightarrow> Inr u)"

definition ebind :: "(gateway_error + 'a) \<Rightarrow> ('a \<Rightarrow> (gateway_error + 'b)) \<Rightarrow> (gateway_error + 'b)" where
  "ebind r f = (case r of Inl e \<Rightarrow> Inl e | Inr x \<Rightarrow> f x)"

definition rejected :: "string \<Rightarrow> (gateway_error + 'a)" where
  "rejected m = Inl (Refused (AccessError m))"

definition param :: "(string \<times> string) list \<Rightarrow> string \<Rightarrow> string \<Rightarrow> string" where
  "param q k d = (case map_of q k of None \<Rightarrow> d | Some v \<Rightarrow> v)"

definition parse_page :: "(string \<times> string) list \<Rightarrow> (gateway_error + int \<times> int)" where
  "parse_page q = (case py_int (JStr (param q ''limit'' ''50'')) of
       None \<Rightarrow> rejected ''Invalid limit parameter''
     | Some limit \<Rightarrow>
         if limit < 1 \<or> 200 < limit then rejected ''limit must be between 1 and 200''
         else (case py_int (JStr (param q ''offset'' ''0'')) of
             None \<Rightarrow> rejected ''Invalid offset parameter''
           | Some offset \<Rightarrow> if offset < 0 then rejected ''offset must be non-negative'' else Inr (limit, offset)))"

definition check_choice :: "string \<Rightarrow> string list \<Rightarrow> string option \<Rightarrow> (gateway_error + string option)" where
  "check_choice name valid v = (case v of None \<Rightarrow> Inr None
     | Some s \<Rightarrow> if s \<noteq> [] \<and> s \<notin> set valid then rejected (''Invalid '' @ name @ '': '' @ s) else Inr v)"

definition check_order :: "string list \<Rightarrow> string \<Rightarrow> (gateway_error + string)" where
  "check_order valid s = (if s \<notin> set valid then rejected (''Invalid sort: '' @ s) else Inr s)"

record observation_query =
  oq_limit :: int
  oq_offset :: int
  oq_fact_type :: "string option"
  oq_source_type :: "string option"
  oq_quality :: "string option"
  oq_sort :: string

definition parse_observations_query :: "(string \<times> string) list \<Rightarrow> (gateway_error + observation_query)" where
  "parse_observations_query q = ebind (parse_page q) (\<lambda>(limit, offset).
     ebind (check_choice ''quality_class'' [''Q1'', ''Q2'', ''Q3'', ''Q4''] (map_of q ''quality_class'')) (\<lambda>quality.
     ebind (check_order [''captured_at_desc'', ''captured_at_asc''] (param q ''sort'' ''captured_at_desc'')) (\<lambda>s.
       Inr \<lparr>oq_limit = limit, oq_offset = offset, oq_fact_type = map_of q ''fact_type'', oq_source_type = map_of q ''source_type'',
         oq_quality = quality, oq_sort = s\<rparr>)))"

definition VALID_COGNITIVE_LAYERS :: "string list" where
  [catalogue]: "VALID_COGNITIVE_LAYERS = [''perception'', ''reasoning'', ''confidence'', ''action'', ''memory'']"

definition VALID_COGNITIVE_CONCEPTS :: "string list" where
  [catalogue]: "VALID_COGNITIVE_CONCEPTS = [''observation'', ''evidence'', ''context'', ''pattern'', ''anomaly'', ''hypothesis'', ''insight'',
     ''confidence'', ''recommendation'', ''decision'']"

definition VALID_ACTIONS :: "string list" where
  [catalogue]: "VALID_ACTIONS = [''captured'', ''organized'', ''activated'', ''detected'', ''generated'', ''restructured'', ''calibrated'',
     ''proposed'', ''committed'', ''executed'']"

definition check_date :: "(string \<Rightarrow> datetime option) \<Rightarrow> string \<Rightarrow> string option \<Rightarrow> (gateway_error + string option)" where
  "check_date fromiso name v = (case v of None \<Rightarrow> Inr None
     | Some s \<Rightarrow> if s \<noteq> [] \<and> fromiso s = None then rejected (''Invalid '' @ name @ '' format, use ISO 8601'') else Inr v)"

definition check_user :: "string option \<Rightarrow> (gateway_error + uuid option)" where
  "check_user v = (case v of None \<Rightarrow> Inr None
     | Some s \<Rightarrow> if s = [] then Inr None else ebind (validate_uuid ''user_id'' s) (\<lambda>u. Inr (Some u)))"

definition parse_audit_query :: "(string \<Rightarrow> datetime option) \<Rightarrow> (string \<times> string) list \<Rightarrow> (gateway_error + audit_query)" where
  "parse_audit_query fromiso q = ebind (parse_page q) (\<lambda>(limit, offset).
     ebind (check_order [''timestamp_desc'', ''timestamp_asc''] (param q ''sort'' ''timestamp_desc'')) (\<lambda>s.
     ebind (check_choice ''cognitive_layer'' VALID_COGNITIVE_LAYERS (map_of q ''cognitive_layer'')) (\<lambda>layer.
     ebind (check_choice ''cognitive_concept'' VALID_COGNITIVE_CONCEPTS (map_of q ''cognitive_concept'')) (\<lambda>concept.
     ebind (check_choice ''action'' VALID_ACTIONS (map_of q ''action'')) (\<lambda>action.
     ebind (check_user (map_of q ''user_id'')) (\<lambda>user.
     ebind (check_date fromiso ''date_from'' (map_of q ''date_from'')) (\<lambda>from.
     ebind (check_date fromiso ''date_to'' (map_of q ''date_to'')) (\<lambda>until.
       Inr \<lparr>aq_limit = limit, aq_offset = offset, aq_user = user, aq_layer = layer, aq_concept = concept, aq_action = action,
         aq_from = from, aq_to = until, aq_sort = s\<rparr>))))))))"

definition parse_insights_query :: "(string \<times> string) list \<Rightarrow> (gateway_error + (int \<times> int) \<times> string)" where
  "parse_insights_query q = ebind (parse_page q) (\<lambda>p.
     ebind (check_order [''generated_at_desc'', ''generated_at_asc''] (param q ''sort'' ''generated_at_desc'')) (\<lambda>s. Inr (p, s)))"

definition parse_timeline_query :: "(string \<times> string) list \<Rightarrow> int \<times> bool" where
  "parse_timeline_query q = ((case py_int (JStr (param q ''limit'' ''20'')) of None \<Rightarrow> 20 | Some n \<Rightarrow> n),
     lower (param q ''ascending'' ''false'') = ''true'')"

definition MEMORY_TARGETS :: "string list" where
  "MEMORY_TARGETS = [''pattern'', ''context'', ''insight'']"

definition parse_memory_query :: "(string \<times> string) list \<Rightarrow> (gateway_error + string option \<times> uuid option)" where
  "parse_memory_query q = ebind (case map_of q ''target_type'' of None \<Rightarrow> Inr None
       | Some s \<Rightarrow> if s \<in> set MEMORY_TARGETS then Inr (Some s) else rejected (''Invalid target_type: '' @ s)) (\<lambda>typ.
     ebind (case map_of q ''target_id'' of None \<Rightarrow> Inr None | Some s \<Rightarrow> ebind (validate_uuid ''target_id'' s) (\<lambda>u. Inr (Some u))) (\<lambda>target.
       Inr (typ, target)))"

text \<open>The body of a memory record: \<open>None\<close> does not parse; a value without \<open>get\<close>, or one a set cannot hold, raises.\<close>

record memory_body =
  mb_type :: string
  mb_target :: uuid
  mb_signal :: dict
  mb_provenance :: dict

definition parse_memory_body :: "json option \<Rightarrow> (gateway_error + memory_body)" where
  "parse_memory_body b = (case b of
       Some (JObj d) \<Rightarrow>
         (case get d ''target_type'' of
            JArr _ \<Rightarrow> Inl (OtherError (TypeError ''unhashable''))
          | JObj _ \<Rightarrow> Inl (OtherError (TypeError ''unhashable''))
          | JStr typ \<Rightarrow>
              if typ \<notin> set MEMORY_TARGETS then rejected (''Invalid target_type: '' @ typ)
              else (case get_default d ''target_id'' (JStr []) of
                  JStr i \<Rightarrow> ebind (validate_uuid ''target_id'' i) (\<lambda>u.
                    case (get d ''signal'', get d ''provenance'') of
                      (JObj sg, JObj pv) \<Rightarrow> Inr \<lparr>mb_type = typ, mb_target = u, mb_signal = sg, mb_provenance = pv\<rparr>
                    | _ \<Rightarrow> rejected ''signal and provenance must be JSON objects'')
                | _ \<Rightarrow> Inl (OtherError (TypeError ''UUID'')))
          | _ \<Rightarrow> rejected ''Invalid target_type'')
     | _ \<Rightarrow> Inl (OtherError (AttributeError ''get'')))"

text \<open>\<open>fromisoformat\<close> of a time that is given and not empty\<close>

definition optional_time :: "(string \<Rightarrow> datetime option) \<Rightarrow> string option \<Rightarrow> (gateway_error + datetime option)" where
  "optional_time fromiso v = (case v of None \<Rightarrow> Inr None | Some s \<Rightarrow> if s = [] then Inr None
     else (case fromiso s of None \<Rightarrow> Inl (OtherError (ValueError ''Invalid isoformat string'')) | Some t \<Rightarrow> Inr (Some t)))"

section \<open>The routes of a tenant (health.py)\<close>

text \<open>
  What the handlers share: authenticate, count, check the tenant, check what must be checked first, require the
  permission, and go on with the token and what was checked.
\<close>

definition guarded :: "gateway_env \<Rightarrow> gateway_call \<Rightarrow> string \<Rightarrow> (gateway_error + 'p) \<Rightarrow> string \<Rightarrow> (token_payload \<Rightarrow> 'p \<Rightarrow> 'a gw) \<Rightarrow> 'a gw" where
  "guarded env c label first permission k =
     gbind (gateway_authenticate env (cl_now c) (cl_header c)) (\<lambda>token.
     gbind (record_request (cl_now c) label) (\<lambda>_.
     gbind (pure (validate_tenant_id (cl_tenant c))) (\<lambda>_.
     gbind (pure first) (\<lambda>p.
     gbind (require_authorized env token permission None (JStr (cl_tenant c))) (\<lambda>_. k token p)))))"

definition answer :: "('a \<Rightarrow> body) \<Rightarrow> 'a \<Rightarrow> response gw" where
  "answer f x = gdone (Response 200 (f x))"

definition items :: "string \<Rightarrow> dict list \<Rightarrow> body" where
  "items key ds = Object [(key, JArr (map JObj ds))]"

definition decisions_handler :: "gateway_env \<Rightarrow> gateway_call \<Rightarrow> gateway \<Rightarrow> response \<times> gateway" where
  "decisions_handler env c = respond plain_status 500 (guarded env c ''read:decisions'' (Inr ()) ''read'' (\<lambda>token _.
     gbind (scoped env ''decision_store'' token (cl_tenant c) (look (decision_views env))) (answer (items ''decisions''))))"

definition reports_handler :: "gateway_env \<Rightarrow> gateway_call \<Rightarrow> gateway \<Rightarrow> response \<times> gateway" where
  "reports_handler env c = respond plain_status 500 (guarded env c ''read:reports'' (Inr ()) ''read'' (\<lambda>token _.
     gbind (scoped env ''report_store'' token (cl_tenant c) (look (report_views env))) (answer (items ''reports''))))"

definition observations_handler :: "gateway_env \<Rightarrow> gateway_call \<Rightarrow> gateway \<Rightarrow> response \<times> gateway" where
  "observations_handler env c = respond checked_status 500 (guarded env c ''read:observations'' (Inr ()) ''read'' (\<lambda>token _.
     gbind (pure (parse_observations_query (cl_query c))) (\<lambda>q.
     gbind (scoped env ''observation_store'' token (cl_tenant c) (ask (\<lambda>t. list_observations (ge_read env) (cl_clock c) t
       (oq_limit q) (oq_offset q) (oq_fact_type q) (oq_source_type q) (oq_quality q) (oq_sort q)))) (answer Object))))"

text \<open>The summary does not resolve the tenant; the identifier it was asked for is used as it is.\<close>

definition cognitive_summary :: "gateway_env \<Rightarrow> string \<Rightarrow> dict gw" where
  "cognitive_summary env tenant_id = (case parse_uuid tenant_id of
     None \<Rightarrow> gfail (OtherError (ValueError ''badly formed hexadecimal UUID string'')) | Some t \<Rightarrow> look (\<lambda>t st. Inr (tenant_summary t st)) t)"

definition cognitive_summary_handler :: "gateway_env \<Rightarrow> gateway_call \<Rightarrow> gateway \<Rightarrow> response \<times> gateway" where
  "cognitive_summary_handler env c = respond plain_status 500 (guarded env c ''read:cognitive_summary'' (Inr ()) ''read'' (\<lambda>token _.
     gbind (cognitive_summary env (cl_tenant c)) (answer Object)))"

definition audit_handler :: "gateway_env \<Rightarrow> gateway_call \<Rightarrow> gateway \<Rightarrow> response \<times> gateway" where
  "audit_handler env c = respond checked_status 500 (guarded env c ''read:audit'' (Inr ()) ''read'' (\<lambda>token _.
     gbind (pure (parse_audit_query (ge_fromiso env) (cl_query c))) (\<lambda>q.
     gbind (scoped env ''audit_store'' token (cl_tenant c) (ask (\<lambda>t. list_audit_logs (ge_read env) (cl_clock c) t q))) (answer Object))))"

definition insights_handler :: "gateway_env \<Rightarrow> gateway_call \<Rightarrow> gateway \<Rightarrow> response \<times> gateway" where
  "insights_handler env c = respond checked_status 500 (guarded env c ''read:insights'' (Inr ()) ''read'' (\<lambda>token _.
     gbind (pure (parse_insights_query (cl_query c))) (\<lambda>((limit, offset), s).
     gbind (scoped env ''insight_store'' token (cl_tenant c) (ask (\<lambda>t. list_insight_rows (ge_read env) (cl_clock c) t limit offset s)))
       (answer Object))))"

text \<open>A row by its identifier, 404 when the tenant has none.\<close>

definition detail_route :: "gateway_env \<Rightarrow> gateway_call \<Rightarrow> string \<Rightarrow> string \<Rightarrow> string \<Rightarrow> string \<Rightarrow> (uuid \<Rightarrow> uuid \<Rightarrow> site \<Rightarrow> body option result) \<Rightarrow>
    gateway \<Rightarrow> response \<times> gateway" where
  "detail_route env c label field i store view = respond checked_status 500 (guarded env c label (validate_uuid field i) ''read'' (\<lambda>token u.
     gbind (scoped env store token (cl_tenant c) (look (\<lambda>t. view t u))) (\<lambda>b. gdone (found b))))"

definition insight_detail_handler :: "gateway_env \<Rightarrow> gateway_call \<Rightarrow> string \<Rightarrow> gateway \<Rightarrow> response \<times> gateway" where
  "insight_detail_handler env c i = detail_route env c ''read:insight_detail'' ''insight_id'' i ''insight_store''
     (\<lambda>t u st. Inr (map_option Object (get_insight (ge_read env) t u st)))"

definition decision_detail_handler :: "gateway_env \<Rightarrow> gateway_call \<Rightarrow> string \<Rightarrow> gateway \<Rightarrow> response \<times> gateway" where
  "decision_detail_handler env c i = detail_route env c ''read:decision_detail'' ''decision_id'' i ''decision_read_store''
     (\<lambda>t u st. Inr (map_option Object (get_decision (ge_read env) t u st)))"

definition recommendation_detail_handler :: "gateway_env \<Rightarrow> gateway_call \<Rightarrow> string \<Rightarrow> gateway \<Rightarrow> response \<times> gateway" where
  "recommendation_detail_handler env c i = detail_route env c ''read:recommendation_detail'' ''recommendation_id'' i ''recommendation_read_store''
     (\<lambda>t u st. Inr (map_option Object (get_recommendation (ge_read env) t u st)))"

definition cognitive_trace_handler :: "gateway_env \<Rightarrow> gateway_call \<Rightarrow> string \<Rightarrow> gateway \<Rightarrow> response \<times> gateway" where
  "cognitive_trace_handler env c i = detail_route env c ''read:cognitive_trace'' ''report_id'' i ''cognitive_trace_store''
     (\<lambda>t u st. and_then (get_trace (re_trace (ge_read env)) (st_canon st) t u) (\<lambda>tr. Inr (map_option Trace tr)))"

text \<open>A report computed from the rows of the tenant.\<close>

definition view_route :: "gateway_env \<Rightarrow> gateway_call \<Rightarrow> string \<Rightarrow> string \<Rightarrow> (uuid \<Rightarrow> site \<Rightarrow> 'a result) \<Rightarrow> ('a \<Rightarrow> body) \<Rightarrow> gateway \<Rightarrow> response \<times> gateway" where
  "view_route env c label store view wrap = respond checked_status 500 (guarded env c label (Inr ()) ''read'' (\<lambda>token _.
     gbind (scoped env store token (cl_tenant c) (look view)) (answer wrap)))"

definition consolidation_handler :: "gateway_env \<Rightarrow> gateway_call \<Rightarrow> gateway \<Rightarrow> response \<times> gateway" where
  "consolidation_handler env c = view_route env c ''read:consolidation'' ''consolidation_store'' (consolidate_for_tenant env) Consolidated"

definition pattern_refinement_handler :: "gateway_env \<Rightarrow> gateway_call \<Rightarrow> gateway \<Rightarrow> response \<times> gateway" where
  "pattern_refinement_handler env c = view_route env c ''read:pattern_refinement'' ''pattern_refinement_store''
     (\<lambda>t st. build_pattern_refinement (ge_str env) t (canonical_tables st)) Refined"

definition context_revision_handler :: "gateway_env \<Rightarrow> gateway_call \<Rightarrow> gateway \<Rightarrow> response \<times> gateway" where
  "context_revision_handler env c = view_route env c ''read:context_revision'' ''context_revision_store''
     (\<lambda>t st. build_context_revision (ge_str env) t (canonical_tables st)) Revised"

definition insight_transformation_handler :: "gateway_env \<Rightarrow> gateway_call \<Rightarrow> gateway \<Rightarrow> response \<times> gateway" where
  "insight_transformation_handler env c = view_route env c ''read:insight_transformation'' ''insight_transformation_store''
     (\<lambda>t st. build_insight_transformation (ge_str env) t (canonical_tables st)) Transformed"

definition cognitive_timeline_handler :: "gateway_env \<Rightarrow> gateway_call \<Rightarrow> gateway \<Rightarrow> response \<times> gateway" where
  "cognitive_timeline_handler env c = respond checked_status 500 (guarded env c ''read:cognitive_timeline'' (Inr ()) ''read'' (\<lambda>token _.
     case parse_timeline_query (cl_query c) of (limit, ascending) \<Rightarrow>
       gbind (scoped env ''timeline_store'' token (cl_tenant c) (ask (\<lambda>t st ch.
         case build_cognitive_timeline (ge_read env) (cl_clock c) limit ascending t st ch of (x, ch') \<Rightarrow> (Inr x, ch')))) (answer Timeline)))"

text \<open>\<open>get_learning_memory\<close> and \<open>persist_learning_memory\<close> require the permission a second time.\<close>

definition learning_memory_handler :: "gateway_env \<Rightarrow> gateway_call \<Rightarrow> gateway \<Rightarrow> response \<times> gateway" where
  "learning_memory_handler env c = respond checked_status 500 (guarded env c ''read:learning_memory'' (parse_memory_query (cl_query c)) ''read''
     (\<lambda>token (typ, target).
       gbind (require_authorized env token ''read'' None (JStr (cl_tenant c))) (\<lambda>_.
       gbind (scoped env ''memory_store'' token (cl_tenant c) (look (\<lambda>t st. list_memory t typ target (st_memory st)))) (answer Memories))))"

definition learning_memory_persist_handler :: "gateway_env \<Rightarrow> gateway_call \<Rightarrow> json option \<Rightarrow> gateway \<Rightarrow> response \<times> gateway" where
  "learning_memory_persist_handler env c b = respond checked_status 500 (guarded env c ''write:learning_memory'' (parse_memory_body b) ''commit''
     (\<lambda>token m.
       gbind (require_authorized env token ''commit'' None (JStr (cl_tenant c))) (\<lambda>_.
       gbind (scoped env ''memory_store'' token (cl_tenant c)
         (persist_site_memory env (cl_fresh c) (cl_now c) (mb_type m) (mb_target m) (mb_signal m) (mb_provenance m))) (answer Memory))))"

definition decision_outcomes_handler :: "gateway_env \<Rightarrow> gateway_call \<Rightarrow> string \<Rightarrow> dict list \<Rightarrow> string option \<Rightarrow> gateway \<Rightarrow> response \<times> gateway" where
  "decision_outcomes_handler env c i actual executed_at = respond outcome_status 500 (guarded env c ''write:decision_outcomes''
     (validate_uuid ''decision_id'' i) ''commit'' (\<lambda>token decision.
       gbind (pure (optional_time (ge_fromiso env) executed_at)) (\<lambda>t.
       gbind (scoped env ''decision_read_store'' token (cl_tenant c) (submit_site_outcomes env decision actual t)) (answer (\<lambda>(a, b). Submitted a b)))))"

record execution_body =
  eb_status :: string
  eb_executed_at :: "string option"
  eb_by :: "string option"
  eb_notes :: "string option"
  eb_metadata :: dict

definition parse_execution_body :: "(string \<Rightarrow> datetime option) \<Rightarrow> execution_body \<Rightarrow> (gateway_error + execution_request)" where
  "parse_execution_body fromiso b = ebind (optional_time fromiso (eb_executed_at b)) (\<lambda>t.
     ebind (case eb_by b of None \<Rightarrow> Inr None | Some s \<Rightarrow> if s = [] then Inr None
        else ebind (validate_uuid ''executed_by'' s) (\<lambda>u. Inr (Some u))) (\<lambda>by_whom.
       Inr \<lparr>eq_status = eb_status b, eq_executed_at = t, eq_by = by_whom, eq_notes = eb_notes b, eq_metadata = eb_metadata b\<rparr>))"

definition decision_execution_handler :: "gateway_env \<Rightarrow> gateway_call \<Rightarrow> string \<Rightarrow> execution_body \<Rightarrow> gateway \<Rightarrow> response \<times> gateway" where
  "decision_execution_handler env c i b = respond outcome_status 500 (guarded env c ''write:decision_execution''
     (validate_uuid ''decision_id'' i) ''commit'' (\<lambda>token decision.
       gbind (pure (parse_execution_body (ge_fromiso env) b)) (\<lambda>q.
       gbind (scoped env ''decision_read_store'' token (cl_tenant c) (record_execution env (cl_now c) decision q)) (answer Executed))))"

section \<open>Routes without a tenant\<close>

definition health_handler :: "gateway \<Rightarrow> response \<times> gateway" where
  "health_handler g = (Response 200 (Object [(''status'', JStr (if gw_errors g = 0 then ''healthy'' else ''degraded'')),
     (''requests'', jnat (gw_requests g)), (''rejected_401'', jnat (gw_401 g)), (''rejected_403'', jnat (gw_403 g)), (''errors'', jnat (gw_errors g))]), g)"

text \<open>The health of the pipeline: \<open>ping\<close> is the status a service answers with, none when it cannot be reached.\<close>

definition DEFAULT_SERVICE_HEALTH :: "(string \<times> string) list" where
  [catalogue]: "DEFAULT_SERVICE_HEALTH = [(''anomaly'', ''http://localhost:8093/health''), (''collector'', ''http://localhost:8090/health''),
     (''confidence'', ''http://localhost:8095/health''), (''context'', ''http://localhost:8091/health''), (''decision'', ''http://localhost:8097/health''),
     (''hypothesis'', ''http://localhost:8094/health''), (''pattern'', ''http://localhost:8092/health''), (''recommendation'', ''http://localhost:8096/health''),
     (''report'', ''http://localhost:8098/health''), (''user'', ''http://localhost:8099/health'')]"

definition check_service_health :: "(string \<Rightarrow> nat option) \<Rightarrow> (string \<times> string) list \<Rightarrow> dict list gw" where
  "check_service_health ping services g =
     (Inr (map (\<lambda>(service, url). case ping url of
          Some n \<Rightarrow> [(''service'', JStr service), (''url'', JStr url), (''status'', jnat n), (''healthy'', JBool (n = 200))]
        | None \<Rightarrow> [(''service'', JStr service), (''url'', JStr url), (''status'', jnat 0), (''healthy'', JBool False), (''error'', JStr ''unreachable'')])
        (sort_key fst services)),
      g\<lparr>gw_forwarded := gw_forwarded g + length (filter (\<lambda>(service, url). ping url = Some 200) services)\<rparr>)"

definition services_health_handler :: "gateway_env \<Rightarrow> (string \<Rightarrow> nat option) \<Rightarrow> gateway_call \<Rightarrow> gateway \<Rightarrow> response \<times> gateway" where
  "services_health_handler env ping c = respond (\<lambda>e. if plain_status e = Some 401 then Some 401 else None) 500
     (gbind (gateway_authenticate env (cl_now c) (cl_header c)) (\<lambda>_.
      gbind (record_request (cl_now c) ''read:services_health'') (\<lambda>_.
      gbind (check_service_health ping DEFAULT_SERVICE_HEALTH) (answer (items ''services'')))))"

text \<open>\<open>risk not in RISK_TOLERANCES\<close>: a list or an object cannot be looked up in a set.\<close>

definition commit_risk :: "dict \<Rightarrow> (gateway_error + string option)" where
  "commit_risk d = (case get_default d ''risk_tolerance'' (JStr ''low'') of
       JStr r \<Rightarrow> if r \<in> RISK_TOLERANCES then Inr (Some r) else Inr None
     | JArr _ \<Rightarrow> Inl (OtherError (TypeError ''unhashable''))
     | JObj _ \<Rightarrow> Inl (OtherError (TypeError ''unhashable''))
     | _ \<Rightarrow> Inr None)"

text \<open>
  \<open>verify_confidence_provenance\<close> and the rest of an authorised action. The tenant asked for is the one of the payload
  or else the one of the token.
\<close>

definition confirm_action :: "gateway_env \<Rightarrow> token_payload \<Rightarrow> string \<Rightarrow> dict \<Rightarrow> response gw" where
  "confirm_action env token action d =
     gbind (if action \<in> set CONFIDENCE_REQUIRED_ACTIONS \<and> truthy (get d ''confidence_id'')
        then gbind (pure (verify_confidence_provenance env (por (get d ''tenant_id'') (JStr (tp_tenant token))) (get d ''confidence_id'')
               (get_default d ''target_type'' (JStr ''hypothesis'')) (get d ''target_id''))) (\<lambda>r. gdone (get_default r ''verified'' (JBool False)))
        else gdone JNull) (\<lambda>verified.
       answer Object [(''authorized'', JBool True), (''action'', JStr action),
         (''authority'', JObj [(''user_id'', JStr (tp_user token)), (''role'', JStr (tp_role token)), (''tenant_id'', JStr (tp_tenant token))]),
         (''confidence_verified'', verified),
         (''note'', JStr ''validated by the Cognitive Boundary (R3); execution happens in the canonical service cycle, not here'')])"

definition action_handler :: "gateway_env \<Rightarrow> gateway_call \<Rightarrow> string \<Rightarrow> json option \<Rightarrow> gateway \<Rightarrow> response \<times> gateway" where
  "action_handler env c action b = respond action_status 400
     (gbind (gateway_authenticate env (cl_now c) (cl_header c)) (\<lambda>token.
      case b of None \<Rightarrow> gfail (OtherError (ValueError ''json'')) | Some payload \<Rightarrow>
      gbind (record_request (cl_now c) action) (\<lambda>_.
      gbind (enforce_boundary action payload) (\<lambda>_.
      gbind (pure (case payload_fields payload of Inl e \<Rightarrow> Inl (OtherError e) | Inr d \<Rightarrow> Inr d)) (\<lambda>d.
      gbind (if action = ''commit'' then pure (commit_risk d) else gdone (Some [])) (\<lambda>risk.
        case risk of None \<Rightarrow> gdone (Response 400 NoBody) | Some r \<Rightarrow>
        gbind (require_authorized env token action (if action = ''commit'' then Some r else None) (get d ''tenant_id'')) (\<lambda>_.
          confirm_action env token action d)))))))"

end
