(* ===== verification/Gateway_Isolation.thy ===== *)
theory Gateway_Isolation
  imports Gateway
begin

text \<open>
  What the gateway keeps apart. A request is a call of a route; \<open>serve\<close> dispatches it as the router of \<open>health.py\<close> does. Two
  gateways look the same to a tenant when its rows and its cached facets are the same in both; an operation is
  isolated when it answers its own tenant from what that tenant sees and leaves what any other tenant sees as it was.
\<close>

section \<open>Requests\<close>

datatype route =
    Decisions
  | Reports
  | Observations
  | Cognitive_Summary
  | Audit_Logs
  | Insights
  | Insight_Detail string
  | Decision_Detail string
  | Recommendation_Detail string
  | Trace_Detail string
  | Consolidation
  | Pattern_Refinement
  | Context_Revision
  | Insight_Transformation
  | Timeline_Page
  | Learning_Memory
  | Persist_Memory "json option"
  | Submit_Outcomes string "dict list" "string option"
  | Record_Execution string execution_body
  | Action string "json option"
  | Services_Health "string \<Rightarrow> nat option"

definition serve :: "gateway_env \<Rightarrow> route \<Rightarrow> gateway_call \<Rightarrow> gateway \<Rightarrow> response \<times> gateway" where
  "serve env route c = (case route of
       Decisions \<Rightarrow> decisions_handler env c
     | Reports \<Rightarrow> reports_handler env c
     | Observations \<Rightarrow> observations_handler env c
     | Cognitive_Summary \<Rightarrow> cognitive_summary_handler env c
     | Audit_Logs \<Rightarrow> audit_handler env c
     | Insights \<Rightarrow> insights_handler env c
     | Insight_Detail i \<Rightarrow> insight_detail_handler env c i
     | Decision_Detail i \<Rightarrow> decision_detail_handler env c i
     | Recommendation_Detail i \<Rightarrow> recommendation_detail_handler env c i
     | Trace_Detail i \<Rightarrow> cognitive_trace_handler env c i
     | Consolidation \<Rightarrow> consolidation_handler env c
     | Pattern_Refinement \<Rightarrow> pattern_refinement_handler env c
     | Context_Revision \<Rightarrow> context_revision_handler env c
     | Insight_Transformation \<Rightarrow> insight_transformation_handler env c
     | Timeline_Page \<Rightarrow> cognitive_timeline_handler env c
     | Learning_Memory \<Rightarrow> learning_memory_handler env c
     | Persist_Memory b \<Rightarrow> learning_memory_persist_handler env c b
     | Submit_Outcomes i actual t \<Rightarrow> decision_outcomes_handler env c i actual t
     | Record_Execution i b \<Rightarrow> decision_execution_handler env c i b
     | Action a b \<Rightarrow> action_handler env c a b
     | Services_Health ping \<Rightarrow> services_health_handler env ping c)"

section \<open>Whose request it is\<close>

definition empty_site :: site where
  "empty_site = \<lparr>st_canon = \<lparr>cn_reports = [], cn_decisions = [], cn_recommendations = [], cn_confidences = [], cn_hypotheses = [],
     cn_anomalies = [], cn_patterns = [], cn_contexts = [], cn_evidence = [], cn_observations = []\<rparr>,
     st_insights = [], st_audit = [], st_memory = [], st_executions = [], st_servers = []\<rparr>"

definition caller :: "gateway_env \<Rightarrow> gateway_call \<Rightarrow> token_payload option" where
  "caller env c = (case fst (gateway_authenticate env (cl_now c) (cl_header c) (start_gateway empty_site)) of Inl _ \<Rightarrow> None | Inr p \<Rightarrow> Some p)"

definition home :: "gateway_env \<Rightarrow> gateway_call \<Rightarrow> uuid option" where
  "home env c = Option.bind (caller env c) (\<lambda>p. parse_uuid (tp_tenant p))"

definition crosses :: "gateway_env \<Rightarrow> gateway_call \<Rightarrow> bool" where
  "crosses env c \<longleftrightarrow> (case caller env c of None \<Rightarrow> False | Some p \<Rightarrow> cross_tenant_allowed (tp_role p) = Inr True)"

lemma authenticate_answer: "fst (gateway_authenticate env now h g) = fst (gateway_authenticate env now h g')"
  by (simp add: gateway_authenticate_def split: sum.splits option.splits access_error.splits bool.splits)

lemma authenticate_frame:
  "gw_site (snd (gateway_authenticate env now h g)) = gw_site g" "gw_cache (snd (gateway_authenticate env now h g)) = gw_cache g"
  by (auto simp: gateway_authenticate_def reject_401_def split: sum.splits option.splits access_error.splits bool.splits)

lemma caller_authenticated: "fst (gateway_authenticate env (cl_now c) (cl_header c) g) = Inr p \<longleftrightarrow> caller env c = Some p"
  using authenticate_answer [of env "cl_now c" "cl_header c" g "start_gateway empty_site"]
  by (auto simp: caller_def split: sum.splits)

section \<open>Indistinguishable gateways\<close>

definition gw_sim :: "uuid \<Rightarrow> gateway \<Rightarrow> gateway \<Rightarrow> bool" where
  "gw_sim t g g' \<longleftrightarrow> same_tenant t (gw_site g) (gw_site g') \<and> same_cache t (gw_cache g) (gw_cache g')"

lemma gw_sim_refl [simp]: "gw_sim t g g"
  by (simp add: gw_sim_def)

lemma gw_sim_sym: "gw_sim t g g' \<Longrightarrow> gw_sim t g' g"
  by (simp add: gw_sim_def same_tenant_sym same_cache_sym)

lemma gw_sim_trans [trans]: "gw_sim t g g' \<Longrightarrow> gw_sim t g' g'' \<Longrightarrow> gw_sim t g g''"
  by (auto simp: gw_sim_def intro: same_tenant_trans same_cache_trans)

text \<open>Confinement of an operation a tenant runs, and of one it does not.\<close>

definition inside :: "uuid \<Rightarrow> (gateway \<Rightarrow> 'r \<times> gateway) \<Rightarrow> bool" where
  "inside t m \<longleftrightarrow> (\<forall>g g'. gw_sim t g g' \<longrightarrow> fst (m g) = fst (m g') \<and> gw_sim t (snd (m g)) (snd (m g')))"

definition outside :: "uuid \<Rightarrow> (gateway \<Rightarrow> 'r \<times> gateway) \<Rightarrow> bool" where
  "outside t m \<longleftrightarrow> (\<forall>g. gw_sim t g (snd (m g)))"

definition isolated :: "uuid \<Rightarrow> uuid option \<Rightarrow> (gateway \<Rightarrow> 'r \<times> gateway) \<Rightarrow> bool" where
  "isolated t h m \<longleftrightarrow> (if h = Some t then inside t m else outside t m)"

named_theorems isolation

lemma isolatedI: "(h = Some t \<Longrightarrow> inside t m) \<Longrightarrow> (h \<noteq> Some t \<Longrightarrow> outside t m) \<Longrightarrow> isolated t h m"
  by (simp add: isolated_def)

text \<open>An operation whose answer is a constant of the gateway and that keeps its database and its facets.\<close>

lemma isolated_still:
  assumes "\<And>g g'. fst (m g) = fst (m g')" and "\<And>g. gw_site (snd (m g)) = gw_site g" and "\<And>g. gw_cache (snd (m g)) = gw_cache g"
  shows "isolated t h m"
  using assms by (auto simp: isolated_def inside_def outside_def gw_sim_def)

lemma isolated_simple [isolation]:
  "isolated t h (gdone x)" "isolated t h (gfail e)" "isolated t h (pure r)" "isolated t h (record_request now a)"
  "isolated t h (gateway_authenticate env now header)"
  "isolated t h (require_authorized env token action risk requested)"
  "isolated t h (enforce_boundary action payload)" "isolated t h (resolve_tenant env token target)"
  "isolated t h (check_service_health ping services)"
  by (rule isolated_still; auto simp: gdone_def gfail_def pure_def record_request_def require_authorized_def enforce_boundary_def counted_def
      resolve_tenant_def check_service_health_def reject_403_def authenticate_frame intro: authenticate_answer
      split: sum.splits bool.splits exn.splits)+

lemma inside_gbind:
  assumes "inside t m" and "\<And>x g. fst (m g) = Inr x \<Longrightarrow> inside t (k x)"
  shows "inside t (gbind m k)"
  unfolding inside_def
proof (intro allI impI)
  fix g g'
  assume "gw_sim t g g'"
  then have m: "fst (m g) = fst (m g')" "gw_sim t (snd (m g)) (snd (m g'))" using assms(1) by (auto simp: inside_def)
  then show "fst (gbind m k g) = fst (gbind m k g') \<and> gw_sim t (snd (gbind m k g)) (snd (gbind m k g'))"
    using assms(2) [of g]
    by (cases "m g"; cases "m g'"; cases "fst (m g)") (auto simp: gbind_def inside_def)
qed

lemma outside_gbind:
  assumes "outside t m" and "\<And>x g. fst (m g) = Inr x \<Longrightarrow> outside t (k x)"
  shows "outside t (gbind m k)"
  unfolding outside_def
proof
  fix g
  have m: "gw_sim t g (snd (m g))" using assms(1) by (simp add: outside_def)
  then show "gw_sim t g (snd (gbind m k g))"
    using assms(2) [of g] gw_sim_trans [OF m]
    by (cases "m g"; cases "fst (m g)") (auto simp: gbind_def outside_def)
qed

lemma isolated_gbind_if:
  assumes "isolated t h m" and "\<And>x g. fst (m g) = Inr x \<Longrightarrow> isolated t h (k x)"
  shows "isolated t h (gbind m k)"
  using assms by (auto simp: isolated_def intro!: inside_gbind outside_gbind split: if_splits)

lemma isolated_gbind [isolation]: "isolated t h m \<Longrightarrow> (\<And>x. isolated t h (k x)) \<Longrightarrow> isolated t h (gbind m k)"
  by (rule isolated_gbind_if)

lemma isolated_answer [isolation]: "isolated t h (answer f x)"
  by (simp add: answer_def isolation)

lemma isolated_respond [isolation]:
  assumes "isolated t h m"
  shows "isolated t h (respond clauses n m)"
proof (rule isolatedI)
  assume "h = Some t"
  then have m: "inside t m" using assms by (simp add: isolated_def)
  show "inside t (respond clauses n m)"
    unfolding inside_def
  proof (intro allI impI)
    fix g g'
    assume "gw_sim t g g'"
    then have "fst (m g) = fst (m g')" "gw_sim t (snd (m g)) (snd (m g'))" using m by (auto simp: inside_def)
    then show "fst (respond clauses n m g) = fst (respond clauses n m g') \<and> gw_sim t (snd (respond clauses n m g)) (snd (respond clauses n m g'))"
      by (cases "m g"; cases "m g'") (auto simp: respond_def gw_sim_def split: sum.splits option.splits)
  qed
next
  assume "h \<noteq> Some t"
  then have m: "gw_sim t g (snd (m g))" for g using assms by (simp add: isolated_def outside_def)
  show "outside t (respond clauses n m)"
    unfolding outside_def
  proof
    fix g
    show "gw_sim t g (snd (respond clauses n m g))"
      using m [of g] by (cases "m g") (auto simp: respond_def gw_sim_def split: sum.splits option.splits)
  qed
qed

section \<open>Reads\<close>

text \<open>The contract of an operation on the tenant it is given, and a read that may fail.\<close>

locale tenant_op =
  fixes operation :: "uuid \<Rightarrow> gateway \<Rightarrow> (gateway_error + 'a) \<times> gateway"
  assumes keeps: "isolated t (Some u) (operation u)"
begin

lemma home_only: "t \<noteq> u \<Longrightarrow> gw_sim t g (snd (operation u g))"
  using keeps [of t u] by (simp add: isolated_def outside_def)

lemma home_answer: "gw_sim t g g' \<Longrightarrow> fst (operation t g) = fst (operation t g')"
  using keeps [of t t] by (simp add: isolated_def inside_def)

end

locale result_read = tenant_read reads
  for reads :: "uuid \<Rightarrow> site \<Rightarrow> facets_cache \<Rightarrow> 'a result \<times> facets_cache"

sublocale result_read \<subseteq> asked: tenant_op "ask reads"
proof
  fix t u
  show "isolated t (Some u) (ask reads u)"
  proof (rule isolatedI)
    assume "Some u = Some t"
    then show "inside t (ask reads u)"
      using answer [of t] kept [of t] by (auto simp: inside_def gw_sim_def ask_def case_prod_beta split: sum.splits)
  next
    assume "Some u \<noteq> Some t"
    then show "outside t (ask reads u)"
      using frame [of t u] by (auto simp: outside_def gw_sim_def ask_def case_prod_beta)
  qed
qed

context result_read
begin

lemma ask_isolated: "isolated t (Some u) (ask reads u)"
  by (rule asked.keeps)

end

lemma look_isolated:
  assumes "\<And>t a b. same_tenant t a b \<Longrightarrow> view t a = view t b"
  shows "isolated t (Some u) (look view u)"
proof -
  have "result_read (\<lambda>t st c. (view t st, c))" by (rule result_read.intro) (rule tenant_read_view [OF assms])
  then show ?thesis unfolding look_def by (rule result_read.ask_isolated)
qed

interpretation observation_asks: result_read "\<lambda>t. list_observations env clk t limit offset fact_type source_type quality_class order"
    for env clk limit offset fact_type source_type quality_class order ..

interpretation audit_asks: result_read "\<lambda>t. list_audit_logs env clk t q" for env clk q ..

interpretation insight_asks: result_read "\<lambda>t. list_insight_rows env clk t limit offset order" for env clk limit offset order ..

interpretation timeline_asks: result_read "\<lambda>t st ch. case build_cognitive_timeline env clk limit ascending t st ch of (x, ch') \<Rightarrow> (Inr x, ch')"
    for env clk limit ascending
  by (rule result_read.intro) (rule tenant_read_map [OF timeline_reads.tenant_read_axioms])

text \<open>What the views of the service are made from.\<close>

lemma first_page_local: "of_tenant owner t r = of_tenant owner t r' \<Longrightarrow> first_page owner at_time key t r = first_page owner at_time key t r'"
  by (simp add: first_page_def of_tenant_def)

lemma bulk_by_ids_local: "of_tenant owner t r = of_tenant owner t r' \<Longrightarrow> bulk_by_ids key owner t ids r = bulk_by_ids key owner t ids r'"
proof -
  have "bulk_by_ids key owner t ids x = (if ids = [] then [] else filter (\<lambda>r. key r \<in> set ids) (of_tenant owner t x))" for x
    by (auto simp: bulk_by_ids_def of_tenant_def intro: filter_cong)
  then show "of_tenant owner t r = of_tenant owner t r' \<Longrightarrow> ?thesis" by simp
qed

lemma report_views_local: "same_tenant t a b \<Longrightarrow> report_views env t a = report_views env t b"
  by (simp add: report_views_def same_tenant_def)

lemma list_decisions_local: "same_tenant t a b \<Longrightarrow> list_decisions t (cn_decisions (st_canon a)) = list_decisions t (cn_decisions (st_canon b))"
  by (simp add: list_decisions_def same_tenant_def of_tenant_def)

lemma page_local:
  assumes "same_tenant t a b"
  shows "page_decisions t (canonical_tables a) = page_decisions t (canonical_tables b)"
    "page_recommendations t (canonical_tables a) = page_recommendations t (canonical_tables b)"
    "page_hypotheses t (canonical_tables a) = page_hypotheses t (canonical_tables b)"
    "page_patterns t (canonical_tables a) = page_patterns t (canonical_tables b)"
    "page_contexts t (canonical_tables a) = page_contexts t (canonical_tables b)"
    "page_insights t (canonical_tables a) = page_insights t (canonical_tables b)"
  unfolding page_decisions_def page_recommendations_def page_hypotheses_def page_patterns_def page_contexts_def page_insights_def
  by (rule first_page_local; use assms in \<open>simp add: canonical_tables_def same_tenant_def\<close>)+

lemma learning_views_local:
  assumes "same_tenant t a b"
  shows "consolidate_for_tenant env t a = consolidate_for_tenant env t b"
    "build_pattern_refinement s t (canonical_tables a) = build_pattern_refinement s t (canonical_tables b)"
    "build_context_revision s t (canonical_tables a) = build_context_revision s t (canonical_tables b)"
    "build_insight_transformation s t (canonical_tables a) = build_insight_transformation s t (canonical_tables b)"
  using assms by (simp_all add: consolidate_for_tenant_def build_pattern_refinement_def build_context_revision_def
      build_insight_transformation_def page_local [OF assms] list_decisions_local [OF assms])

lemma list_memory_local: "same_tenant t a b \<Longrightarrow> list_memory t typ target (st_memory a) = list_memory t typ target (st_memory b)"
proof -
  have "list_memory t typ target x = traverse (\<lambda>r. Inl (KeyError ''execution_id'')) (sort_key (\<lambda>r. - lm_created r)
      (filter (\<lambda>r. (typ = None \<or> typ = Some (lm_type r)) \<and> (target = None \<or> target = Some (lm_target r))) (of_tenant lm_tenant t x)))" for x
    by (simp add: list_memory_def of_tenant_def conj_commute)
  then show "same_tenant t a b \<Longrightarrow> ?thesis" by (simp add: same_tenant_def)
qed

lemma load_chain_local:
  assumes "same_tenant t a b"
  shows "load_chain (st_canon a) t ids = load_chain (st_canon b) t ids"
proof -
  note st = assms [unfolded same_tenant_def]
  have "bulk_by_ids dec_id dec_tenant t i (cn_decisions (st_canon a)) = bulk_by_ids dec_id dec_tenant t i (cn_decisions (st_canon b))"
    "bulk_by_ids rec_id rec_tenant t i (cn_recommendations (st_canon a)) = bulk_by_ids rec_id rec_tenant t i (cn_recommendations (st_canon b))"
    "bulk_by_ids conf_id conf_tenant t i (cn_confidences (st_canon a)) = bulk_by_ids conf_id conf_tenant t i (cn_confidences (st_canon b))"
    "bulk_by_ids hyp_id hyp_tenant t i (cn_hypotheses (st_canon a)) = bulk_by_ids hyp_id hyp_tenant t i (cn_hypotheses (st_canon b))"
    "bulk_by_ids an_id an_tenant t i (cn_anomalies (st_canon a)) = bulk_by_ids an_id an_tenant t i (cn_anomalies (st_canon b))"
    "bulk_by_ids pat_id pat_tenant t i (cn_patterns (st_canon a)) = bulk_by_ids pat_id pat_tenant t i (cn_patterns (st_canon b))"
    "bulk_by_ids ctx_id ctx_tenant t i (cn_contexts (st_canon a)) = bulk_by_ids ctx_id ctx_tenant t i (cn_contexts (st_canon b))"
    "bulk_by_ids ev_id ev_tenant t i (cn_evidence (st_canon a)) = bulk_by_ids ev_id ev_tenant t i (cn_evidence (st_canon b))"
    "bulk_by_ids o_id o_tenant t i (cn_observations (st_canon a)) = bulk_by_ids o_id o_tenant t i (cn_observations (st_canon b))" for i
    by (rule bulk_by_ids_local; use st in simp)+
  then show ?thesis by (simp add: load_chain_def Let_def)
qed

lemma get_trace_local:
  assumes "same_tenant t a b"
  shows "get_trace env (st_canon a) t i = get_trace env (st_canon b) t i"
proof -
  have "of_tenant rp_tenant t (cn_reports (st_canon a)) = of_tenant rp_tenant t (cn_reports (st_canon b))"
    using assms by (simp add: same_tenant_def)
  moreover have f: "find (\<lambda>r. rp_tenant r = t \<and> rp_id r = i) x = find (\<lambda>r. rp_id r = i) (of_tenant rp_tenant t x)" for x
    by (induction x) (simp_all add: of_tenant_def)
  ultimately have rows: "find (\<lambda>r. rp_tenant r = t \<and> rp_id r = i) (cn_reports (st_canon a)) =
      find (\<lambda>r. rp_tenant r = t \<and> rp_id r = i) (cn_reports (st_canon b))" by (simp only: f)
  have chain: "trace_of env (st_canon a) r ids = trace_of env (st_canon b) r ids" if "rp_tenant r = t" for r ids
    using load_chain_local [OF assms] that by (simp add: trace_of_def)
  show ?thesis
  proof (cases "find (\<lambda>r. rp_tenant r = t \<and> rp_id r = i) (cn_reports (st_canon b))")
    case (Some r)
    then have "rp_tenant r = t" by (auto simp: find_Some_iff)
    then show ?thesis by (simp add: get_trace_def rows Some chain)
  qed (simp add: get_trace_def rows)
qed

section \<open>Writes\<close>

lemma get_latest_local: "of_tenant lm_tenant t r = of_tenant lm_tenant t r' \<Longrightarrow> get_latest t typ i r = get_latest t typ i r'"
proof -
  have f: "filter (\<lambda>r. lm_tenant r = t \<and> lm_type r = typ \<and> lm_target r = i) x =
      filter (\<lambda>r. lm_type r = typ \<and> lm_target r = i) (of_tenant lm_tenant t x)" for x by (simp add: of_tenant_def conj_commute)
  show "of_tenant lm_tenant t r = of_tenant lm_tenant t r' \<Longrightarrow> ?thesis" unfolding get_latest_def f by simp
qed

lemma insert_memory_local:
  assumes "of_tenant lm_tenant (lm_tenant m) r = of_tenant lm_tenant (lm_tenant m) r'"
  shows "lm_key m \<in> lm_key ` set r \<longleftrightarrow> lm_key m \<in> lm_key ` set r'"
proof -
  have "lm_key m \<in> lm_key ` set x \<longleftrightarrow> lm_key m \<in> lm_key ` set (of_tenant lm_tenant (lm_tenant m) x)" for x
    by (fastforce simp: of_tenant_def lm_key_def image_iff)
  then show ?thesis using assms by metis
qed

lemma of_tenant_append: "of_tenant owner t (xs @ ys) = of_tenant owner t xs @ of_tenant owner t ys"
  by (simp add: of_tenant_def)

lemma persist_memory_local:
  assumes "of_tenant lm_tenant t r = of_tenant lm_tenant t r'" and "mi_tenant m = t"
  shows "fst (persist_memory sha i now m r) = fst (persist_memory sha i now m r')"
    and "of_tenant lm_tenant t (snd (persist_memory sha i now m r)) = of_tenant lm_tenant t (snd (persist_memory sha i now m r'))"
proof -
  let ?row = "memory_row sha i now (mi_execution m) m"
  have k: "lm_key ?row \<in> lm_key ` set r \<longleftrightarrow> lm_key ?row \<in> lm_key ` set r'"
    by (rule insert_memory_local) (use assms in \<open>simp add: memory_row_def\<close>)
  have l: "get_latest t (mi_type m) (mi_target m) r = get_latest t (mi_type m) (mi_target m) r'"
    by (rule get_latest_local [OF assms(1)])
  show "fst (persist_memory sha i now m r) = fst (persist_memory sha i now m r')"
    using k l assms by (simp add: persist_memory_def persist_row_def insert_row_def)
  show "of_tenant lm_tenant t (snd (persist_memory sha i now m r)) = of_tenant lm_tenant t (snd (persist_memory sha i now m r'))"
    using k l assms by (simp add: persist_memory_def persist_row_def insert_row_def of_tenant_append)
qed

lemma persist_memory_frame:
  assumes "mi_tenant m \<noteq> t"
  shows "of_tenant lm_tenant t (snd (persist_memory sha i now m r)) = of_tenant lm_tenant t r"
  using assms by (simp add: persist_memory_def persist_row_def insert_row_def of_tenant_def memory_row_def)

lemma persist_isolated [isolation]: "isolated t (Some u) (persist_site_memory env i now typ target signal provenance u)"
proof (rule isolatedI)
  assume "Some u = Some t"
  then have u: "u = t" by simp
  show "inside t (persist_site_memory env i now typ target signal provenance u)"
    unfolding inside_def
  proof (intro allI impI)
    fix g g'
    assume sim: "gw_sim t g g'"
    let ?m = "\<lparr>mi_tenant = t, mi_type = typ, mi_target = target, mi_signal = signal, mi_provenance = provenance, mi_execution = None\<rparr>"
    have "of_tenant lm_tenant t (st_memory (gw_site g)) = of_tenant lm_tenant t (st_memory (gw_site g'))"
      using sim by (simp add: gw_sim_def same_tenant_def)
    from persist_memory_local [OF this, of ?m "le_sha (ge_loop env)" i now] sim
    show "fst (persist_site_memory env i now typ target signal provenance u g) = fst (persist_site_memory env i now typ target signal provenance u g') \<and>
        gw_sim t (snd (persist_site_memory env i now typ target signal provenance u g)) (snd (persist_site_memory env i now typ target signal provenance u g'))"
      unfolding u by (simp add: persist_site_memory_def case_prod_beta gw_sim_def same_tenant_def)
  qed
next
  assume "Some u \<noteq> Some t"
  then show "outside t (persist_site_memory env i now typ target signal provenance u)"
    by (simp add: outside_def persist_site_memory_def case_prod_beta gw_sim_def same_tenant_def persist_memory_frame)
qed

text \<open>Writes to the decisions of a tenant: a row is only ever replaced by one of the same tenant.\<close>

definition updated :: "uuid \<Rightarrow> uuid \<Rightarrow> (decision \<Rightarrow> decision) \<Rightarrow> decision list \<Rightarrow> decision list" where
  "updated tenant decision f = map (\<lambda>d. if dec_id d = decision \<and> dec_tenant d = tenant then f d else d)"

lemma updated_row: "d \<in> set (updated t i h ds) \<Longrightarrow> dec_tenant d = t \<Longrightarrow> dec_id d = i \<Longrightarrow> \<exists>d'. d = h d'"
  by (auto simp: updated_def split: if_splits)

lemma of_tenant_updated:
  assumes "\<And>d. dec_tenant (f d) = dec_tenant d"
  shows "of_tenant dec_tenant t (updated u i f ds) = (if t = u then map (\<lambda>d. if dec_id d = i then f d else d) (of_tenant dec_tenant t ds) else of_tenant dec_tenant t ds)"
  by (induction ds) (auto simp: updated_def of_tenant_def assms)

lemma mark_executed_updated: "mark_executed t i at_time status = updated t i (\<lambda>d. d\<lparr>dec_executed_at := Some at_time, dec_status := status\<rparr>)"
  by (simp add: mark_executed_def updated_def)

definition with_decisions :: "(decision list \<Rightarrow> decision list) \<Rightarrow> site \<Rightarrow> site" where
  "with_decisions f st = st\<lparr>st_canon := (st_canon st)\<lparr>cn_decisions := f (cn_decisions (st_canon st))\<rparr>\<rparr>"

lemma same_tenant_with_decisions:
  assumes "\<And>d. dec_tenant (f d) = dec_tenant d"
  shows "same_tenant t a b \<Longrightarrow> same_tenant t (with_decisions (updated u i f) a) (with_decisions (updated u i f) b)"
    and "t \<noteq> u \<Longrightarrow> same_tenant t a (with_decisions (updated u i f) a)"
  by (cases "t = u"; simp add: same_tenant_def with_decisions_def of_tenant_updated [OF assms])+

lemma same_tenant_executions [simp]:
  "same_tenant t (a\<lparr>st_executions := x\<rparr>) b = same_tenant t a b" "same_tenant t a (b\<lparr>st_executions := x\<rparr>) = same_tenant t a b"
  by (simp_all add: same_tenant_def)

lemma one_decision_local: "same_tenant t a b \<Longrightarrow>
    one_row dec_tenant dec_id t i (cn_decisions (st_canon a)) = one_row dec_tenant dec_id t i (cn_decisions (st_canon b))"
  by (simp add: one_row_def same_tenant_def)

lemma record_execution_eq:
  "record_execution env now i q u g =
     (if eq_status q \<notin> set EXECUTION_STATUSES then (Inl InvalidOutcomesError, g)
      else if one_row dec_tenant dec_id u i (cn_decisions (st_canon (gw_site g))) = None then (Inl DecisionNotFoundError, g)
      else let at_time = (case eq_executed_at q of None \<Rightarrow> now | Some x \<Rightarrow> x); r = build_execution_record env now u i at_time q
        in (Inr r, g\<lparr>gw_site := (with_decisions (updated u i (\<lambda>d. d\<lparr>dec_executed_at := Some at_time, dec_status := decision_status_after (eq_status q)\<rparr>))
             (gw_site g))\<lparr>st_executions := save_execution_record r (st_executions (gw_site g))\<rparr>\<rparr>))"
  by (simp add: record_execution_def Let_def with_decisions_def mark_executed_updated split: option.splits)

lemma record_execution_isolated [isolation]: "isolated t (Some u) (record_execution env now i q u)"
proof (rule isolatedI)
  assume "Some u = Some t"
  then have u: "u = t" by simp
  show "inside t (record_execution env now i q u)"
    unfolding inside_def
  proof (intro allI impI)
    fix g g'
    assume "gw_sim t g g'"
    then show "fst (record_execution env now i q u g) = fst (record_execution env now i q u g') \<and>
        gw_sim t (snd (record_execution env now i q u g)) (snd (record_execution env now i q u g'))"
      using one_decision_local [of t "gw_site g" "gw_site g'" i]
      unfolding u record_execution_eq by (simp add: gw_sim_def Let_def same_tenant_with_decisions(1))
  qed
next
  assume "Some u \<noteq> Some t"
  then show "outside t (record_execution env now i q u)"
    by (simp add: outside_def gw_sim_def record_execution_eq Let_def same_tenant_with_decisions(2))
qed

lemma submit_site_outcomes_eq:
  "submit_site_outcomes env i actual at_time u g =
     (let ds = cn_decisions (st_canon (gw_site g))
      in if actual = [] then (Inl InvalidOutcomesError, g)
         else if one_row dec_tenant dec_id u i ds = None then (Inl DecisionNotFoundError, g)
         else (Inr (''outcomes_submitted'', if ge_configured env ''learning_loop_store'' then ''failed'' else ''pending''),
           g\<lparr>gw_transitions := gw_transitions g + 1, gw_site := with_decisions (updated u i (record_outcomes actual at_time)) (gw_site g)\<rparr>))"
proof -
  have f: "one_row dec_tenant dec_id u i ds = None \<longleftrightarrow> \<not> (\<exists>d \<in> set ds. dec_id d = i \<and> dec_tenant d = u)" for ds
    by (auto simp: one_row_def of_tenant_def find_None_iff)
  have r: "(case run_learning_loop a b c d of Inl _ \<Rightarrow> x | Inr _ \<Rightarrow> y) = x" for a b c d x y
    using run_learning_loop_raises [of a b c d] by (cases "run_learning_loop a b c d") auto
  show ?thesis
    by (cases "actual = []"; cases "\<exists>d \<in> set (cn_decisions (st_canon (gw_site g))). dec_id d = i \<and> dec_tenant d = u")
      (auto simp: submit_site_outcomes_def submit_decision_outcomes_def submit_outcomes_def site_learner_def Let_def f r with_decisions_def updated_def)
qed

lemma submit_isolated [isolation]: "isolated t (Some u) (submit_site_outcomes env i actual at_time u)"
proof (rule isolatedI)
  assume "Some u = Some t"
  then have u: "u = t" by simp
  show "inside t (submit_site_outcomes env i actual at_time u)"
    unfolding inside_def
  proof (intro allI impI)
    fix g g'
    assume "gw_sim t g g'"
    then show "fst (submit_site_outcomes env i actual at_time u g) = fst (submit_site_outcomes env i actual at_time u g') \<and>
        gw_sim t (snd (submit_site_outcomes env i actual at_time u g)) (snd (submit_site_outcomes env i actual at_time u g'))"
      using one_decision_local [of t "gw_site g" "gw_site g'" i]
      unfolding u submit_site_outcomes_eq by (simp add: gw_sim_def Let_def same_tenant_with_decisions(1) record_outcomes_def)
  qed
next
  assume "Some u \<noteq> Some t"
  then show "outside t (submit_site_outcomes env i actual at_time u)"
    by (simp add: outside_def gw_sim_def submit_site_outcomes_eq Let_def same_tenant_with_decisions(2) record_outcomes_def)
qed

interpretation memory_write: tenant_op "persist_site_memory env i now target_type target signal provenance"
    for env i now target_type target signal provenance
  by standard (rule persist_isolated)

interpretation execution_write: tenant_op "record_execution env now i q" for env now i q
  by standard (rule record_execution_isolated)

interpretation outcome_write: tenant_op "submit_site_outcomes env i actual at_time" for env i actual at_time
  by standard (rule submit_isolated)

section \<open>The guard of a route\<close>

lemma authorized_home:
  assumes "authorize_action p action risk (JStr requested) = Inr True" and "cross_tenant_allowed (tp_role p) \<noteq> Inr True" and "requested \<noteq> []"
  shows "requested = tp_tenant p"
  using assms by (auto simp: authorize_action_def and_then_eq_Inr split: option.splits if_splits)

lemma require_authorized_Inr: "fst (require_authorized env p action risk requested g) = Inr x \<Longrightarrow> authorize_action p action risk requested = Inr True"
  by (auto simp: require_authorized_def split: sum.splits bool.splits)

lemma parse_uuid_Nil [simp]: "parse_uuid [] = None"
  by code_simp

lemma isolated_guarded:
  assumes "\<not> crosses env c" and "\<And>p x. isolated t (parse_uuid (cl_tenant c)) (k p x)"
  shows "isolated t (home env c) (guarded env c label first permission k)"
  unfolding guarded_def
proof (intro isolated_gbind_if isolation)
  fix p :: token_payload and g y z x r g1 g2 g3 g4
  assume "fst (gateway_authenticate env (cl_now c) (cl_header c) g) = Inr p"
    and v: "fst (pure (validate_tenant_id (cl_tenant c)) g2) = Inr z"
    and a: "fst (require_authorized env p permission None (JStr (cl_tenant c)) g4) = Inr r"
  then have c: "caller env c = Some p" by (simp add: caller_authenticated)
  obtain u where u: "parse_uuid (cl_tenant c) = Some u" using v by (auto simp: pure_def validate_tenant_id_def split: option.splits)
  then have "cl_tenant c \<noteq> []" by auto
  with authorized_home [OF require_authorized_Inr [OF a]] assms(1) c have "cl_tenant c = tp_tenant p" by (simp add: crosses_def)
  then have "home env c = Some u" using c u by (simp add: home_def)
  then show "isolated t (home env c) (k p x)" using assms(2) [of p x] u by simp
qed

lemma isolated_scoped [isolation]:
  "(\<And>u. isolated t (Some u) (k u)) \<Longrightarrow> isolated t (parse_uuid target) (scoped env store p target k)"
  unfolding scoped_def
  by (auto intro!: isolation isolated_gbind_if simp: resolve_tenant_def resolve_def and_then_def
      split: if_splits sum.splits exn.splits option.split)

lemma found_isolated [isolation]: "isolated t h (gdone (found b))"
  by (rule isolation)

lemma summary_isolated [isolation]: "isolated t (parse_uuid target) (cognitive_summary env target)"
  by (simp add: cognitive_summary_def look_isolated tenant_summary_local isolation split: option.split)

lemma detail_isolated [isolation]:
  assumes "\<not> crosses env c" and "\<And>t u a b. same_tenant t a b \<Longrightarrow> view t u a = view t u b"
  shows "isolated t (home env c) (detail_route env c label field i store view)"
  unfolding detail_route_def
  by (intro isolated_respond isolated_guarded [OF assms(1)] isolated_gbind isolated_scoped look_isolated isolation) (rule assms(2))

lemma view_isolated [isolation]:
  assumes "\<not> crosses env c" and "\<And>t a b. same_tenant t a b \<Longrightarrow> view t a = view t b"
  shows "isolated t (home env c) (view_route env c label store view wrap)"
  unfolding view_route_def
  by (intro isolated_respond isolated_guarded [OF assms(1)] isolated_gbind isolated_scoped look_isolated isolation) (rule assms(2))

lemmas read_handlers = decisions_handler_def reports_handler_def observations_handler_def cognitive_summary_handler_def audit_handler_def
  insights_handler_def learning_memory_handler_def learning_memory_persist_handler_def decision_outcomes_handler_def decision_execution_handler_def

lemmas detail_handlers = insight_detail_handler_def decision_detail_handler_def recommendation_detail_handler_def cognitive_trace_handler_def

lemmas view_handlers = consolidation_handler_def pattern_refinement_handler_def context_revision_handler_def insight_transformation_handler_def

lemma decision_views_local: "same_tenant t a b \<Longrightarrow> decision_views env t a = decision_views env t b"
  by (simp add: decision_views_def list_decisions_local)

lemma listed_isolated:
  assumes "\<not> crosses env c"
  shows "isolated t (home env c) (decisions_handler env c)" "isolated t (home env c) (reports_handler env c)"
    "isolated t (home env c) (cognitive_summary_handler env c)"
  unfolding read_handlers
  by (intro isolated_respond isolated_guarded [OF assms] isolated_gbind isolated_scoped look_isolated isolation; simp add: decision_views_local report_views_local)+

lemma asked_isolated:
  assumes "\<not> crosses env c"
  shows "isolated t (home env c) (observations_handler env c)" "isolated t (home env c) (audit_handler env c)"
    "isolated t (home env c) (insights_handler env c)"
  unfolding read_handlers case_prod_beta
  by (intro isolated_respond isolated_guarded [OF assms] isolated_gbind isolated_scoped observation_asks.ask_isolated audit_asks.ask_isolated
      insight_asks.ask_isolated isolation)+

lemma timeline_isolated: "\<not> crosses env c \<Longrightarrow> isolated t (home env c) (cognitive_timeline_handler env c)"
  unfolding cognitive_timeline_handler_def case_prod_beta [where p = "parse_timeline_query _"]
  by (intro isolated_respond isolated_guarded isolated_gbind isolated_scoped timeline_asks.ask_isolated isolation)

lemma memory_isolated:
  assumes "\<not> crosses env c"
  shows "isolated t (home env c) (learning_memory_handler env c)" "isolated t (home env c) (learning_memory_persist_handler env c b)"
  unfolding read_handlers case_prod_beta
  by (intro isolated_respond isolated_guarded [OF assms] isolated_gbind isolated_scoped look_isolated isolation; simp add: list_memory_local)+

lemma decision_writes_isolated:
  assumes "\<not> crosses env c"
  shows "isolated t (home env c) (decision_outcomes_handler env c i actual at_time)" "isolated t (home env c) (decision_execution_handler env c i b)"
  unfolding read_handlers
  by (intro isolated_respond isolated_guarded [OF assms] isolated_gbind isolated_scoped isolation)+

lemma action_isolated: "isolated t h (action_handler env c a b)"
  unfolding action_handler_def confirm_action_def
  by (intro isolated_respond isolated_gbind isolation | split option.split if_split | intro conjI impI allI)+

lemma route_isolated:
  assumes "\<not> crosses env c"
  shows "isolated t (home env c) (serve env route c)"
proof (cases route)
  case (Trace_Detail i)
  then show ?thesis using assms by (simp add: serve_def detail_handlers get_trace_local isolation)
qed (use assms in \<open>simp_all add: serve_def detail_handlers view_handlers listed_isolated asked_isolated timeline_isolated memory_isolated
  decision_writes_isolated action_isolated learning_views_local get_insight_local get_decision_local get_recommendation_local
  services_health_handler_def isolation\<close>)

section \<open>Runs\<close>

text \<open>The answers the requests of the users of a tenant get in a run.\<close>

primrec observe :: "gateway_env \<Rightarrow> uuid \<Rightarrow> (gateway_call \<times> route) list \<Rightarrow> gateway \<Rightarrow> response list" where
  "observe env t [] g = []"
| "observe env t (r # rs) g = (case serve env (snd r) (fst r) g of (x, g') \<Rightarrow>
     (if home env (fst r) = Some t then [x] else []) @ observe env t rs g')"

text \<open>An example: the tokens of a viewer of tenant 7 and of an administrator of tenant 8.\<close>

definition ex_claims :: "uuid \<Rightarrow> string \<Rightarrow> dict" where
  "ex_claims tenant role = [(''sub'', JStr ''u''), (''tenant_id'', JStr (uuid_str tenant)), (''email'', JStr ''e''), (''role'', JStr role),
     (''token_type'', JStr ''access''), (''exp'', JInt 10)]"

definition ex_gateway_env :: gateway_env where
  "ex_gateway_env = \<lparr>ge_lib = \<lparr>jl_encode = \<lambda>_ _ _ _. [], jl_decode = \<lambda>_ token _ _ _ _.
       (if token = ''v7'' then Some (ex_claims 7 ''viewer'') else if token = ''a8'' then Some (ex_claims 8 ''admin'') else None), jl_header = \<lambda>_. None\<rparr>,
     ge_str = (\<lambda>_. []), ge_jwt = ex_jwt_service, ge_blacklist = None, ge_read = ex_read_env, ge_repr = id, ge_fromiso = (\<lambda>_. None),
     ge_loop = ex_loop_env, ge_uuid5 = (\<lambda>_ _. 0), ge_confidence = Some (\<lambda>_ c _ _. Inr (if c = JStr ''c1'' then Some [(''verified'', JBool True)] else None)),
     ge_configured = (\<lambda>_. True)\<rparr>"

definition ex_call :: "string \<Rightarrow> uuid \<Rightarrow> gateway_call" where
  "ex_call token tenant = \<lparr>cl_now = 5, cl_clock = 0, cl_header = ''Bearer '' @ token, cl_tenant = uuid_str tenant, cl_query = [], cl_fresh = 99\<rparr>"

lemma ex_bearer: "bearer_token ''Bearer v7'' = Inr ''v7''" "bearer_token ''Bearer a8'' = Inr ''a8''"
  by code_simp+

lemma ex_callers:
  "caller ex_gateway_env (ex_call ''v7'' u) = Some \<lparr>tp_user = ''u'', tp_tenant = uuid_str 7, tp_email = ''e'', tp_role = ''viewer'', tp_type = ''access'',
     tp_exp = 10, tp_jti = [], tp_installation = []\<rparr>"
  "caller ex_gateway_env (ex_call ''a8'' u) = Some \<lparr>tp_user = ''u'', tp_tenant = uuid_str 8, tp_email = ''e'', tp_role = ''admin'', tp_type = ''access'',
     tp_exp = 10, tp_jti = [], tp_installation = []\<rparr>"
  by (simp_all add: caller_def gateway_authenticate_def ex_call_def ex_gateway_env_def ex_bearer verify_access_token_def decode_payload_def
      decode_token_def read_payload_def ex_claims_def get_def get_default_def need_def text_of_def py_int_def abind_def)

section \<open>Answers\<close>

lemma fst_gbind: "fst (gbind m k g) = Inr r \<longleftrightarrow> (\<exists>x. fst (m g) = Inr x \<and> fst (k x (snd (m g))) = Inr r)"
  by (cases "m g"; cases "fst (m g)") (auto simp: gbind_def)

definition accepts :: "response gw \<Rightarrow> gateway \<Rightarrow> bool" where
  "accepts m g \<longleftrightarrow> (\<exists>r. fst (m g) = Inr r \<and> status_of r = 200)"

lemma respond_ok:
  assumes "n \<noteq> 200" and "\<And>e. clauses e \<noteq> Some 200"
  shows "status_of (fst (respond clauses n m g)) = 200 \<longleftrightarrow> accepts m g"
  using assms by (cases "m g"; cases "fst (m g)") (auto simp: respond_def accepts_def split: option.splits)

lemma accepts_gbind: "accepts (gbind m k) g \<longleftrightarrow> (\<exists>x. fst (m g) = Inr x \<and> accepts (k x) (snd (m g)))"
  by (auto simp: accepts_def fst_gbind)

lemma accepts_simple: "accepts (gdone r) g \<longleftrightarrow> status_of r = 200" "accepts (answer f y) g" "\<not> accepts (gfail e) g"
  by (auto simp: accepts_def gdone_def answer_def gfail_def)

lemma plain_clauses: "plain_status e \<in> {None, Some 401, Some 403}"
  by (auto simp: plain_status_def split: gateway_error.splits access_error.splits)

lemma checked_clauses: "checked_status e \<in> {None, Some 400, Some 401, Some 403}"
  using plain_clauses [of e] by (auto simp: checked_status_def split: gateway_error.splits)

lemma outcome_clauses: "outcome_status e \<in> {None, Some 400, Some 401, Some 403, Some 404}"
  using plain_clauses [of e] by (auto simp: outcome_status_def split: gateway_error.splits)

lemma action_clauses: "action_status e \<in> {None, Some 400, Some 401, Some 403}"
  using plain_clauses [of e] by (auto simp: action_status_def split: gateway_error.splits)

lemma fst_simple:
  "fst (gdone x g) = Inr x" "fst (gfail e g) = Inl e" "fst (pure r g) = r" "fst (record_request now a g) = Inr ()"
  "fst (answer f y g) = Inr (Response 200 (f y))"
  by (simp_all add: gdone_def gfail_def pure_def record_request_def answer_def)

lemma fst_require_authorized: "fst (require_authorized env p action risk requested g) = Inr x \<longleftrightarrow> authorize_action p action risk requested = Inr True"
  by (auto simp: require_authorized_def split: sum.splits bool.splits)

lemma fst_enforce_boundary: "fst (enforce_boundary action payload g) = Inr x \<longleftrightarrow> boundary_gate action payload = Inr ''ok''"
  by (auto simp: enforce_boundary_def counted_def check_boundary_def split: sum.splits if_splits)

lemma boundary_ok: "boundary_gate action (JObj d) = Inr ''ok'' \<longleftrightarrow>
    action \<in> set ACTIONS \<and> (action \<in> set CONFIDENCE_REQUIRED_ACTIONS \<longrightarrow> truthy (get d ''confidence_id''))"
  by (auto simp: boundary_gate_def validate_confidence_present_def payload_fields_def get_def split: if_splits)

lemma authorize_action_iff:
  assumes "action \<in> set ACTIONS"
  shows "authorize_action p action risk requested = Inr True \<longleftrightarrow>
     (if action = ''commit'' then commit_allowed (tp_role p) risk else can (tp_role p) action) = Inr True \<and>
     (truthy requested \<longrightarrow> requested = JStr (tp_tenant p) \<or> tp_role p = ''superadmin'')"
proof -
  have "map_of ACTION_PERMISSION action = Some action" using assms by (auto simp: ACTION_PERMISSION_def ACTIONS_def)
  then show ?thesis by (auto simp: authorize_action_def and_then_eq_Inr cross_tenant_only_superadmin)
qed

lemma action_responses: "action_status e \<noteq> Some 200"
  using action_clauses [of e] by auto

lemma risk_known: "(\<exists>y. commit_risk d = Inr (Some y) \<and> commit_allowed role (Some y) = Inr True) \<longleftrightarrow>
    (\<exists>r. get_default d ''risk_tolerance'' (JStr ''low'') = JStr r \<and> commit_allowed role (Some r) = Inr True)"
  by (auto simp: commit_risk_def commit_allowed_def commit_risk_allowed_def and_then_eq_Inr split: json.splits if_splits)

definition bound :: "gateway_env \<Rightarrow> token_payload \<Rightarrow> dict \<Rightarrow> bool" where
  "bound env p d \<longleftrightarrow> (\<exists>store r. ge_confidence env = Some store \<and> store (por (get d ''tenant_id'') (JStr (tp_tenant p))) (get d ''confidence_id'')
     (get_default d ''target_type'' (JStr ''hypothesis'')) (get d ''target_id'') = Inr (Some r))"

lemma accepts_confirm: "accepts (confirm_action env p action d) g \<longleftrightarrow>
    (action \<in> set CONFIDENCE_REQUIRED_ACTIONS \<and> truthy (get d ''confidence_id'') \<longrightarrow> bound env p d)"
proof -
  have "(\<exists>x. verify_confidence_provenance env (por (get d ''tenant_id'') (JStr (tp_tenant p))) (get d ''confidence_id'')
      (get_default d ''target_type'' (JStr ''hypothesis'')) (get d ''target_id'') = Inr x) \<longleftrightarrow> bound env p d"
    by (auto simp: verify_confidence_provenance_def validate_confidence_binding_def bound_def split: option.splits sum.splits)
  then show ?thesis by (auto simp: confirm_action_def accepts_gbind accepts_simple fst_gbind fst_simple)
qed

lemma action_anonymous: "caller env c = None \<Longrightarrow> status_of (fst (action_handler env c action b g)) \<noteq> 200"
  using caller_authenticated [of env c g] by (simp add: action_handler_def respond_ok action_responses accepts_gbind)

lemma action_no_object: "\<nexists>d. payload = JObj d \<Longrightarrow> status_of (fst (action_handler env c action (Some payload) g)) \<noteq> 200"
  by (auto simp: action_handler_def respond_ok action_responses accepts_gbind fst_simple payload_fields_def split: json.splits)

lemma action_ok:
  assumes "caller env c = Some p"
  shows "status_of (fst (action_handler env c action (Some (JObj d)) g)) = 200 \<longleftrightarrow> action \<in> set ACTIONS \<and>
     (if action = ''commit'' then \<exists>y. commit_risk d = Inr (Some y) \<and> commit_allowed (tp_role p) (Some y) = Inr True
      else can (tp_role p) action = Inr True) \<and>
     (truthy (get d ''tenant_id'') \<longrightarrow> get d ''tenant_id'' = JStr (tp_tenant p) \<or> tp_role p = ''superadmin'') \<and>
     (action \<in> set CONFIDENCE_REQUIRED_ACTIONS \<longrightarrow> truthy (get d ''confidence_id'') \<and> bound env p d)"
proof -
  have "fst (gateway_authenticate env (cl_now c) (cl_header c) g) = Inr q \<longleftrightarrow> q = p" for q
    using assms by (auto simp: caller_authenticated)
  then have "status_of (fst (action_handler env c action (Some (JObj d)) g)) = 200 \<longleftrightarrow>
      boundary_gate action (JObj d) = Inr ''ok'' \<and> (\<exists>y. (if action = ''commit'' then commit_risk d = Inr (Some y) else y = []) \<and>
        authorize_action p action (if action = ''commit'' then Some y else None) (get d ''tenant_id'') = Inr True) \<and>
      (action \<in> set CONFIDENCE_REQUIRED_ACTIONS \<and> truthy (get d ''confidence_id'') \<longrightarrow> bound env p d)"
    by (auto simp: action_handler_def respond_ok action_responses accepts_gbind accepts_simple accepts_confirm fst_simple
        fst_enforce_boundary fst_require_authorized payload_fields_def split: option.splits)
  then show ?thesis by (cases "action \<in> set ACTIONS") (auto simp: boundary_ok authorize_action_iff)
qed

section \<open>What a request may leave behind\<close>

text \<open>
  An operation keeps the database, or keeps it when it fails; the answer of a settled one has a known status, a body exactly when
  it succeeds, and the database is as it was when it does not.
\<close>

definition still :: "(gateway \<Rightarrow> 'r \<times> gateway) \<Rightarrow> bool" where
  "still m \<longleftrightarrow> (\<forall>g. gw_site (snd (m g)) = gw_site g)"

definition careful :: "'a gw \<Rightarrow> bool" where
  "careful m \<longleftrightarrow> (\<forall>g e. fst (m g) = Inl e \<longrightarrow> gw_site (snd (m g)) = gw_site g)"

definition well_answered :: "response \<Rightarrow> bool" where
  "well_answered r \<longleftrightarrow> status_of r \<in> {200, 400, 401, 403, 404, 500} \<and> (body_of r = NoBody \<longleftrightarrow> status_of r \<noteq> 200)"

definition tidy :: "response gw \<Rightarrow> bool" where
  "tidy m \<longleftrightarrow> careful m \<and> (\<forall>g r. fst (m g) = Inr r \<longrightarrow> well_answered r \<and> (status_of r \<noteq> 200 \<longrightarrow> gw_site (snd (m g)) = gw_site g))"

definition settled :: "(gateway \<Rightarrow> response \<times> gateway) \<Rightarrow> bool" where
  "settled h \<longleftrightarrow> (\<forall>g. well_answered (fst (h g)) \<and> (status_of (fst (h g)) \<noteq> 200 \<longrightarrow> gw_site (snd (h g)) = gw_site g))"

named_theorems keeping

lemma still_simple [keeping]:
  "still (gdone x)" "still (gfail e)" "still (pure r)" "still (record_request now a)" "still (gateway_authenticate env now header)"
  "still (require_authorized env token action risk requested)" "still (enforce_boundary action payload)"
  "still (resolve_tenant env token target)" "still (check_service_health ping services)" "still (ask reads u)" "still (look view u)"
  "still (answer f x)"
  by (auto simp: still_def gdone_def gfail_def pure_def record_request_def require_authorized_def enforce_boundary_def counted_def
      resolve_tenant_def check_service_health_def reject_403_def authenticate_frame ask_def look_def answer_def case_prod_beta
      split: sum.splits bool.splits exn.splits)

lemma still_gbind [keeping]: "still m \<Longrightarrow> (\<And>x. still (k x)) \<Longrightarrow> still (gbind m k)"
  by (auto simp: still_def gbind_def case_prod_beta split: sum.splits)

lemma still_respond [keeping]: "still m \<Longrightarrow> still (respond clauses n m)"
  by (auto simp: still_def respond_def case_prod_beta split: sum.splits option.splits)

lemma still_guarded [keeping]: "(\<And>p x. still (k p x)) \<Longrightarrow> still (guarded env c label first permission k)"
  unfolding guarded_def by (intro keeping)

lemma still_scoped [keeping]: "(\<And>u. still (k u)) \<Longrightarrow> still (scoped env store p target k)"
  unfolding scoped_def by (auto intro!: keeping split: option.split)

lemma still_careful: "still m \<Longrightarrow> careful m"
  by (simp add: still_def careful_def)

lemma careful_gbind: "still m \<Longrightarrow> (\<And>x. careful (k x)) \<Longrightarrow> careful (gbind m k)"
  by (auto simp: still_def careful_def gbind_def case_prod_beta split: sum.splits)

lemma careful_scoped [keeping]: "(\<And>u. careful (k u)) \<Longrightarrow> careful (scoped env store p target k)"
  unfolding scoped_def by (auto intro!: careful_gbind keeping intro: still_careful [OF still_simple(2)] split: option.split)

lemma careful_writes [keeping]:
  "careful (persist_site_memory env i now typ target signal provenance u)" "careful (record_execution env now d q u)"
  "careful (submit_site_outcomes env d actual at_time u)"
proof -
  have "get_latest t k x rows \<noteq> None" if "lm_key (memory_row sha i now e m) \<in> lm_key ` set rows" "mi_tenant m = t" "mi_type m = k" "mi_target m = x"
    for sha i now e m rows t k x
  proof -
    note row = that
    obtain r where "r \<in> set rows" "lm_key (memory_row sha i now e m) = lm_key r" using row(1) by (rule imageE)
    then have "r \<in> set rows" "lm_tenant r = t \<and> lm_type r = k \<and> lm_target r = x" using row(2-) by (simp_all add: lm_key_def memory_row_def)
    then have "filter (\<lambda>r. lm_tenant r = t \<and> lm_type r = k \<and> lm_target r = x) rows \<noteq> []" by (auto simp: filter_empty_conv)
    then show ?thesis by (auto simp: get_latest_def split: list.splits dest: arg_cong [where f = length])
  qed
  then show "careful (persist_site_memory env i now typ target signal provenance u)"
    by (auto simp: careful_def persist_site_memory_def persist_memory_def persist_row_def insert_row_def split: sum.splits option.splits if_splits)
qed (auto simp: careful_def record_execution_eq submit_site_outcomes_eq Let_def)

lemma tidy_gbind [keeping]: "still m \<Longrightarrow> (\<And>x. tidy (k x)) \<Longrightarrow> tidy (gbind m k)"
  by (fastforce simp: tidy_def still_def careful_def gbind_def case_prod_beta split: sum.splits)

lemma tidy_answer: "careful m \<Longrightarrow> (\<And>x. f x \<noteq> NoBody) \<Longrightarrow> tidy (gbind m (answer f))"
  by (auto simp: tidy_def careful_def gbind_def answer_def gdone_def well_answered_def case_prod_beta split: sum.splits)

lemma tidy_guarded [keeping]: "(\<And>p x. tidy (k p x)) \<Longrightarrow> tidy (guarded env c label first permission k)"
  unfolding guarded_def by (intro keeping)

lemma settled_respond:
  assumes "tidy m" and "n \<in> {400, 500}" and "\<And>e. clauses e \<in> {None, Some 400, Some 401, Some 403, Some 404}"
  shows "settled (respond clauses n m)"
  unfolding settled_def
proof
  fix g
  show "well_answered (fst (respond clauses n m g)) \<and> (status_of (fst (respond clauses n m g)) \<noteq> 200 \<longrightarrow> gw_site (snd (respond clauses n m g)) = gw_site g)"
  proof (cases "fst (m g)")
    case (Inl e)
    then have "gw_site (snd (m g)) = gw_site g" using assms(1) by (simp add: tidy_def careful_def)
    then show ?thesis using Inl assms(2) assms(3) [of e]
      by (cases "m g") (auto simp: respond_def well_answered_def split: option.splits)
  next
    case (Inr r)
    then have "fst (respond clauses n m g) = r" "snd (respond clauses n m g) = snd (m g)" by (cases "m g"; simp add: respond_def)+
    then show ?thesis using assms(1) Inr by (simp add: tidy_def)
  qed
qed
lemma fst_look: "fst (look view u g) = Inr x \<longleftrightarrow> view u (gw_site g) = Inr x"
  by (cases "view u (gw_site g)") (auto simp: look_def ask_def)

lemma scoped_look_body: "fst (scoped env store p target (look view) g) = Inr x \<Longrightarrow> \<exists>u st. view u st = Inr x"
  by (auto simp: scoped_def fst_gbind fst_look gfail_def split: option.splits if_splits)

lemma clauses_known:
  "plain_status e \<in> {None, Some 400, Some 401, Some 403, Some 404}" "checked_status e \<in> {None, Some 400, Some 401, Some 403, Some 404}"
  "outcome_status e \<in> {None, Some 400, Some 401, Some 403, Some 404}" "action_status e \<in> {None, Some 400, Some 401, Some 403, Some 404}"
  using plain_clauses [of e] checked_clauses [of e] outcome_clauses [of e] action_clauses [of e] by auto

lemma tidy_detail:
  assumes "\<And>t u st b. view t u st = Inr (Some b) \<Longrightarrow> b \<noteq> NoBody"
  shows "settled (detail_route env c label field i store view)"
proof -
  have "tidy (gbind (scoped env store p (cl_tenant c) (look (\<lambda>t. view t u))) (\<lambda>b. gdone (found b)))" for p u
  proof -
    let ?m = "scoped env store p (cl_tenant c) (look (\<lambda>t. view t u))"
    have "still ?m" by (intro keeping)
    moreover have "well_answered (found b)" if "fst (?m g) = Inr b" for b g
    proof -
      note scoped_look_body [OF that]
      then obtain t st where "view t u st = Inr b" by (elim exE) (rule that)
      then show ?thesis using assms [of t u st] by (cases b) (auto simp: found_def well_answered_def)
    qed
    ultimately show ?thesis
      by (fastforce simp: tidy_def still_def careful_def gbind_def gdone_def case_prod_beta split: sum.splits)
  qed
  then show ?thesis unfolding detail_route_def by (intro settled_respond tidy_guarded clauses_known) simp_all
qed

lemma tidy_view: "(\<And>x. wrap x \<noteq> NoBody) \<Longrightarrow> settled (view_route env c label store view wrap)"
  unfolding view_route_def
  by (intro settled_respond tidy_guarded tidy_answer careful_scoped still_careful clauses_known keeping) simp_all

lemma tidy_details:
  "settled (insight_detail_handler env c i)" "settled (decision_detail_handler env c i)" "settled (recommendation_detail_handler env c i)"
  "settled (cognitive_trace_handler env c i)"
  unfolding detail_handlers by (rule tidy_detail; auto simp: and_then_eq_Inr)+

lemma tidy_views:
  "settled (consolidation_handler env c)" "settled (pattern_refinement_handler env c)" "settled (context_revision_handler env c)"
  "settled (insight_transformation_handler env c)"
  unfolding view_handlers by (rule tidy_view; simp)+

lemma tidy_plain:
  "settled (decisions_handler env c)" "settled (reports_handler env c)" "settled (cognitive_summary_handler env c)"
  unfolding read_handlers cognitive_summary_def
  by (intro settled_respond tidy_guarded tidy_answer careful_scoped still_careful clauses_known keeping | simp add: items_def keeping split: option.split)+

lemma tidy_checked:
  "settled (observations_handler env c)" "settled (audit_handler env c)" "settled (insights_handler env c)"
  "settled (learning_memory_handler env c)" "settled (learning_memory_persist_handler env c b)"
  unfolding read_handlers case_prod_beta
  by (intro settled_respond tidy_guarded tidy_gbind tidy_answer careful_scoped still_careful [OF still_simple(10)] still_careful [OF still_simple(11)] clauses_known keeping | simp)+
lemma tidy_timeline: "settled (cognitive_timeline_handler env c)"
  unfolding cognitive_timeline_handler_def case_prod_beta [where p = "parse_timeline_query _"]
  by (intro settled_respond tidy_guarded tidy_answer careful_scoped still_careful clauses_known keeping) simp_all

lemma tidy_decision_writes:
  "settled (decision_outcomes_handler env c i actual at_time)" "settled (decision_execution_handler env c i b)"
  unfolding read_handlers
  by (intro settled_respond tidy_guarded tidy_gbind tidy_answer careful_scoped clauses_known keeping | simp split: prod.split)+

lemma tidy_gdone: "well_answered r \<Longrightarrow> tidy (gdone r)"
  by (simp add: tidy_def careful_def gdone_def)

lemma tidy_gfail: "tidy (gfail e)"
  by (simp add: tidy_def careful_def gfail_def)

lemma tidy_answered: "f x \<noteq> NoBody \<Longrightarrow> tidy (answer f x)"
  by (simp add: answer_def tidy_gdone well_answered_def)

lemma tidy_action: "settled (action_handler env c a b)"
  unfolding action_handler_def confirm_action_def
  by (intro settled_respond tidy_gbind tidy_gdone tidy_gfail tidy_answered clauses_known keeping | split option.split if_split
      | intro conjI impI allI | simp add: well_answered_def)+

lemma tidy_services: "settled (services_health_handler env ping c)"
  unfolding services_health_handler_def
  by (intro settled_respond tidy_gbind tidy_answered keeping) (auto simp: items_def)

lemma route_settled: "settled (serve env route c)"
  by (cases route) (simp_all add: serve_def tidy_details tidy_views tidy_plain tidy_checked tidy_timeline tidy_decision_writes tidy_action tidy_services)

definition writes :: "route \<Rightarrow> bool" where
  "writes route = (case route of Persist_Memory _ \<Rightarrow> True | Submit_Outcomes _ _ _ \<Rightarrow> True | Record_Execution _ _ \<Rightarrow> True | _ \<Rightarrow> False)"

lemma still_action: "still (action_handler env c a b)"
  unfolding action_handler_def confirm_action_def
  by (intro keeping | split option.split if_split | intro conjI impI allI)+

lemma still_reads:
  "still (decisions_handler env c)" "still (reports_handler env c)" "still (cognitive_summary_handler env c)"
  "still (observations_handler env c)" "still (audit_handler env c)" "still (insights_handler env c)" "still (learning_memory_handler env c)"
  "still (cognitive_timeline_handler env c)"
  unfolding read_handlers cognitive_timeline_handler_def cognitive_summary_def case_prod_beta
  by (intro keeping | split option.split | intro conjI impI allI)+

lemma route_still: "\<not> writes route \<Longrightarrow> still (serve env route c)"
  by (cases route) (simp_all add: serve_def writes_def still_reads still_action detail_handlers view_handlers detail_route_def view_route_def
      services_health_handler_def keeping)
section \<open>Properties\<close>


text \<open>
  C6. An action is authorised exactly when the caller has a valid token, the action is declared, the role may take it
  (a commit within its risk ceiling), it stays in the tenant of the token unless the caller is superadmin, and for a
  proposal or a commit a confidence is named that the confidence store binds to the target.
\<close>

theorem action_authorized_iff:
  "status_of (fst (action_handler env c action (Some payload) g)) = 200 \<longleftrightarrow>
     (\<exists>p d. caller env c = Some p \<and> payload = JObj d \<and> action \<in> set ACTIONS \<and>
        (if action = ''commit'' then \<exists>r. get_default d ''risk_tolerance'' (JStr ''low'') = JStr r \<and> commit_allowed (tp_role p) (Some r) = Inr True
         else can (tp_role p) action = Inr True) \<and>
        (truthy (get d ''tenant_id'') \<longrightarrow> get d ''tenant_id'' = JStr (tp_tenant p) \<or> tp_role p = ''superadmin'') \<and>
        (action \<in> set CONFIDENCE_REQUIRED_ACTIONS \<longrightarrow> truthy (get d ''confidence_id'') \<and>
          (\<exists>store r. ge_confidence env = Some store \<and> store (por (get d ''tenant_id'') (JStr (tp_tenant p))) (get d ''confidence_id'')
             (get_default d ''target_type'' (JStr ''hypothesis'')) (get d ''target_id'') = Inr (Some r))))"
proof (cases "caller env c")
  case None
  then show ?thesis by (simp add: action_anonymous)
next
  case (Some p)
  show ?thesis
  proof (cases "\<exists>d. payload = JObj d")
    case True
    then obtain d where d: "payload = JObj d" by blast
    then show ?thesis unfolding d action_ok [OF Some] using Some by (auto simp: risk_known bound_def)
  qed (auto simp: action_no_object)
qed

text \<open>
  C28. The gateway as it is started authorises neither proposals nor commits: the store it is given for confidences has no
  \<open>get_confidence_for_boundary\<close>, and without a store the check is closed, so whoever asks, with whatever confidence, is refused.
\<close>

theorem wired_gateway_authorises_no_commitment:
  assumes "action \<in> set CONFIDENCE_REQUIRED_ACTIONS" and "ge_confidence env = Some wired_adapter \<or> ge_confidence env = None"
  shows "status_of (fst (action_handler env c action b g)) \<noteq> 200"
proof -
  have "\<not> bound env p d" for p d using assms(2) by (auto simp: bound_def wired_adapter_def)
  moreover have "status_of (fst (action_handler env c action None g)) \<noteq> 200"
    by (auto simp: action_handler_def respond_ok action_responses accepts_gbind accepts_simple)
  ultimately show ?thesis
    using assms(1) action_anonymous action_no_object action_ok by (cases b; cases "caller env c") (blast | metis)+
qed



text \<open>
  Two reports of one execution leave record and decision at odds: a second report of the same time with another status is
  accepted and answered with that status, the decision takes it on, but the record stays the first one.
\<close>

theorem execution_conflict_diverges:
  assumes "record_execution env now i q t g = (Inr r, g1)" and "eq_status q' \<in> set EXECUTION_STATUSES"
    and "(case eq_executed_at q' of None \<Rightarrow> now' | Some x \<Rightarrow> x) = xr_executed_at r"
  shows "case record_execution env now' i q' t g1 of (res, g2) \<Rightarrow>
     st_executions (gw_site g2) = st_executions (gw_site g1) \<and> (\<exists>r'. res = Inr r' \<and> xr_id r' = xr_id r \<and> xr_status r' = eq_status q') \<and>
     (\<forall>d \<in> set (cn_decisions (st_canon (gw_site g2))). dec_tenant d = t \<and> dec_id d = i \<longrightarrow> dec_status d = decision_status_after (eq_status q'))"
proof -
  let ?f = "updated t i (\<lambda>d. d\<lparr>dec_executed_at := Some (xr_executed_at r), dec_status := decision_status_after (eq_status q)\<rparr>)"
  have one: "one_row dec_tenant dec_id t i (cn_decisions (st_canon (gw_site g))) \<noteq> None"
    and r: "xr_id r = execution_record_id env t i (xr_executed_at r)"
    and g1: "gw_site g1 = (with_decisions ?f (gw_site g))\<lparr>st_executions := save_execution_record r (st_executions (gw_site g))\<rparr>"
    using assms(1) by (auto simp: record_execution_eq Let_def build_execution_record_def split: if_splits)
  let ?r = "build_execution_record env now' t i (xr_executed_at r) q'"
  let ?f' = "updated t i (\<lambda>d. d\<lparr>dec_executed_at := Some (xr_executed_at r), dec_status := decision_status_after (eq_status q')\<rparr>)"
  have f: "find (\<lambda>d. dec_id d = i) (map (\<lambda>d. if dec_id d = i then h d else d) ds) \<noteq> None"
    if "find (\<lambda>d. dec_id d = i) ds \<noteq> None" "\<And>d. dec_id (h d) = dec_id d" for h and ds :: "decision list"
    using that by (auto simp: find_None_iff)
  have "one_row dec_tenant dec_id t i (cn_decisions (st_canon (gw_site g1))) \<noteq> None"
    using one unfolding g1 by (simp add: with_decisions_def one_row_def of_tenant_updated f del: not_None_eq)
  then have second: "record_execution env now' i q' t g1 =
      (Inr ?r, g1\<lparr>gw_site := (with_decisions ?f' (gw_site g1))\<lparr>st_executions := save_execution_record ?r (st_executions (gw_site g1))\<rparr>\<rparr>)"
    by (simp add: record_execution_eq Let_def assms(2,3))
  have "xr_id ?r = xr_id r" by (simp add: r build_execution_record_def)
  then have kept: "save_execution_record ?r (st_executions (gw_site g1)) = st_executions (gw_site g1)"
    by (auto simp: g1 save_execution_record_def insert_row_def)
  have status: "\<forall>d \<in> set (?f' ds). dec_tenant d = t \<and> dec_id d = i \<longrightarrow> dec_status d = decision_status_after (eq_status q')" for ds
  proof (intro ballI impI)
    fix d
    assume "d \<in> set (?f' ds)" and "dec_tenant d = t \<and> dec_id d = i"
    then have "\<exists>d'. d = d'\<lparr>dec_executed_at := Some (xr_executed_at r), dec_status := decision_status_after (eq_status q')\<rparr>"
      by (intro updated_row) simp_all
    then show "dec_status d = decision_status_after (eq_status q')" by (elim exE) simp
  qed
  have rows: "cn_decisions (st_canon (gw_site (g1\<lparr>gw_site := (with_decisions ?f' (gw_site g1))
      \<lparr>st_executions := save_execution_record ?r (st_executions (gw_site g1))\<rparr>\<rparr>))) = ?f' (cn_decisions (st_canon (gw_site g1)))"
    by (simp add: with_decisions_def)
  show ?thesis
    unfolding second prod.case
  proof (intro conjI)
    show "\<exists>r'. Inr ?r = Inr r' \<and> xr_id r' = xr_id r \<and> xr_status r' = eq_status q'"
      using \<open>xr_id ?r = xr_id r\<close> by (simp add: build_execution_record_def)
  next
    show "st_executions (gw_site (g1\<lparr>gw_site := (with_decisions ?f' (gw_site g1))\<lparr>st_executions := save_execution_record ?r (st_executions (gw_site g1))\<rparr>\<rparr>)) =
        st_executions (gw_site g1)" unfolding kept by simp
  next
    show "\<forall>d \<in> set (cn_decisions (st_canon (gw_site (g1\<lparr>gw_site := (with_decisions ?f' (gw_site g1))
          \<lparr>st_executions := save_execution_record ?r (st_executions (gw_site g1))\<rparr>\<rparr>)))).
        dec_tenant d = t \<and> dec_id d = i \<longrightarrow> dec_status d = decision_status_after (eq_status q')"
      by (subst rows) (rule status)
  qed
qed

section \<open>Witnesses\<close>

definition ex_own_site :: site where
  "ex_own_site = ex_site\<lparr>st_canon := (st_canon ex_site)\<lparr>cn_observations := [ex_observation 21 7 1, ex_observation 23 7 3]\<rparr>\<rparr>"

lemma ex_env_fields: "ge_configured ex_gateway_env store"
  "ge_confidence ex_gateway_env = Some (\<lambda>_ c _ _. Inr (if c = JStr ''c1'' then Some [(''verified'', JBool True)] else None))"
  by (simp_all add: ex_gateway_env_def)

lemma ex_homes: "home ex_gateway_env (ex_call ''v7'' u) = Some 7" "home ex_gateway_env (ex_call ''a8'' u) = Some 8"
  "\<not> crosses ex_gateway_env (ex_call ''v7'' u)" "\<not> crosses ex_gateway_env (ex_call ''a8'' u)"
  by (simp_all add: home_def crosses_def ex_callers cross_tenant_only_superadmin)


theorem action_authorized_iff_witness:
  "status_of (fst (action_handler ex_gateway_env (ex_call ''a8'' 8) ''propose'' (Some (JObj [(''confidence_id'', JStr ''c1'')]))
     (start_gateway ex_site))) = 200"
  unfolding action_authorized_iff
  by (simp add: ex_callers ACTIONS_def CONFIDENCE_REQUIRED_ACTIONS_def can_eval rbac_tables get_def get_default_def ex_env_fields)

theorem wired_gateway_authorises_no_commitment_witness:
  "status_of (fst (action_handler (ex_gateway_env\<lparr>ge_confidence := Some wired_adapter\<rparr>) (ex_call ''a8'' 8) ''propose''
     (Some (JObj [(''confidence_id'', JStr ''c1'')])) (start_gateway ex_site))) \<noteq> 200"
  by (rule wired_gateway_authorises_no_commitment) (simp_all add: CONFIDENCE_REQUIRED_ACTIONS_def)

definition ex_execution :: "string \<Rightarrow> execution_request" where
  "ex_execution status = \<lparr>eq_status = status, eq_executed_at = Some 4, eq_by = None, eq_notes = None, eq_metadata = []\<rparr>"

theorem execution_conflict_diverges_witness:
  "\<exists>g1 g2 r r'. record_execution ex_gateway_env 5 11 (ex_execution ''executed'') 7 (start_gateway ex_site) = (Inr r, g1) \<and>
     record_execution ex_gateway_env 6 11 (ex_execution ''failed'') 7 g1 = (Inr r', g2) \<and> xr_status r' = ''failed'' \<and>
     st_executions (gw_site g2) = st_executions (gw_site g1)"
proof -
  obtain r g1 where first: "record_execution ex_gateway_env 5 11 (ex_execution ''executed'') 7 (start_gateway ex_site) = (Inr r, g1)"
    and at_time: "xr_executed_at r = 4"
    by (simp add: record_execution_def one_row_def of_tenant_def start_gateway_def ex_site_def ex_canon_def ex_execution_def
        EXECUTION_STATUSES_def Let_def build_execution_record_def)
  obtain res g2 where second: "record_execution ex_gateway_env 6 11 (ex_execution ''failed'') 7 g1 = (res, g2)" by fastforce
  have "st_executions (gw_site g2) = st_executions (gw_site g1)" "\<exists>r'. res = Inr r' \<and> xr_id r' = xr_id r \<and> xr_status r' = ''failed''"
    using execution_conflict_diverges [OF first, of "ex_execution ''failed''" 6] second at_time
    by (simp_all add: ex_execution_def EXECUTION_STATUSES_def)
  then show ?thesis using first second by blast
qed

lemma ex_authenticated: "gateway_authenticate ex_gateway_env 5 ''Bearer a8'' g = (Inr \<lparr>tp_user = ''u'', tp_tenant = uuid_str 8, tp_email = ''e'',
    tp_role = ''admin'', tp_type = ''access'', tp_exp = 10, tp_jti = [], tp_installation = []\<rparr>, g)"
  by (simp_all add: gateway_authenticate_def ex_gateway_env_def ex_bearer verify_access_token_def decode_payload_def
      decode_token_def read_payload_def ex_claims_def get_def get_default_def need_def text_of_def py_int_def abind_def)

definition ex_memory :: json where
  "ex_memory = JObj [(''target_type'', JStr ''pattern''), (''target_id'', JStr (uuid_str 30)), (''signal'', JObj []), (''provenance'', JObj [])]"


end
